(* ===== verification/Prelude.thy ===== *)
theory Prelude
  imports
    Main
    "HOL-Library.List_Lexorder"
    "HOL-Library.Char_ord"
    "HOL-Library.Product_Lexorder"
    "HOL-Library.Word"
begin

unbundle bit_operations_syntax

text \<open>
  Shared vocabulary of the development: the two lemma collections the component proofs are
  driven by, the ordered maps that model Rust's \<^verbatim>\<open>BTreeMap\<close> and \<^verbatim>\<open>HashMap\<close>, the
  string operations of the Rust standard library the program uses (on UTF-8 bytes), integer
  rendering and wrap-around, and the state-and-error monad in which the stateful operations
  of the program are written.

  Strings are lists of bytes (\<open>char\<close>), as Rust's \<^verbatim>\<open>String\<close> is UTF-8; the order on
  strings is the bytewise lexicographic order of \<^verbatim>\<open>str::cmp\<close>.
\<close>

named_theorems eff_elims "inversion of a successful run of a combinator of the effect monad"
named_theorems eff_preserves "rules that carry a state predicate through the effect monad"

subsection \<open>Maps\<close>

text \<open>
  A \<^verbatim>\<open>BTreeMap\<close> is a list of entries with strictly increasing keys. The same type
  models a \<^verbatim>\<open>HashMap\<close>, whose iteration order Rust leaves unspecified: increasing keys
  are one such order, and no theorem of the development depends on that choice beyond
  membership, except where the code sorts the result.
\<close>

type_synonym ('k, 'v) bmap = "('k \<times> 'v) list"

fun binsert :: "'k::linorder \<Rightarrow> 'v \<Rightarrow> ('k, 'v) bmap \<Rightarrow> ('k, 'v) bmap" where
  "binsert k v [] = [(k, v)]"
| "binsert k v ((a, b) # m) =
     (if k < a then (k, v) # (a, b) # m
      else if k = a then (k, v) # m
      else (a, b) # binsert k v m)"

definition bremove :: "'k \<Rightarrow> ('k, 'v) bmap \<Rightarrow> ('k, 'v) bmap" where
  "bremove k m = filter (\<lambda>e. fst e \<noteq> k) m"

definition bvalues :: "('k, 'v) bmap \<Rightarrow> 'v list" where
  "bvalues m = map snd m"

definition bkeys :: "('k, 'v) bmap \<Rightarrow> 'k list" where
  "bkeys m = map fst m"

definition bcontains :: "('k, 'v) bmap \<Rightarrow> 'k \<Rightarrow> bool" where
  "bcontains m k = (case map_of m k of None \<Rightarrow> False | Some _ \<Rightarrow> True)"

definition bwf :: "('k::linorder, 'v) bmap \<Rightarrow> bool" where
  "bwf m = sorted_wrt (<) (map fst m)"

text \<open>\<^verbatim>\<open>collect::<HashMap<_, _>>()\<close>: a later entry replaces an earlier one.\<close>

definition bcollect :: "('k::linorder \<times> 'v) list \<Rightarrow> ('k, 'v) bmap" where
  "bcollect es = fold (\<lambda>(k, v). binsert k v) es []"

lemma map_of_binsert [simp]: "map_of (binsert k v m) = (map_of m)(k \<mapsto> v)"
  by (induction k v m rule: binsert.induct) (auto simp: fun_eq_iff)

lemma map_of_bremove [simp]: "map_of (bremove k m) = (map_of m)(k := None)"
  by (induction m) (auto simp: bremove_def fun_eq_iff)

lemma bcontains_iff [simp]: "bcontains m k \<longleftrightarrow> map_of m k \<noteq> None"
  by (auto simp: bcontains_def split: option.splits)

lemma keys_binsert [simp]: "fst ` set (binsert k v m) = insert k (fst ` set m)"
  by (induction k v m rule: binsert.induct) auto

lemma bwf_Nil [simp, intro]: "bwf []"
  by (simp add: bwf_def)

lemma bwf_Cons: "bwf (e # m) \<longleftrightarrow> (\<forall>x \<in> fst ` set m. fst e < x) \<and> bwf m"
  by (auto simp: bwf_def)

lemma bwf_binsert [simp, intro]: "bwf m \<Longrightarrow> bwf (binsert k v m)"
  by (induction k v m rule: binsert.induct) (auto simp: bwf_Cons dest: order_less_trans)

lemma bwf_bremove [simp, intro]: "bwf m \<Longrightarrow> bwf (bremove k m)"
  by (simp add: bwf_def bremove_def) (induction m; auto)

lemma bwf_distinct: "bwf m \<Longrightarrow> distinct (map fst m)"
  by (simp add: bwf_def strict_sorted_iff)

lemma set_bvalues: "bwf m \<Longrightarrow> v \<in> set (bvalues m) \<longleftrightarrow> (\<exists>k. map_of m k = Some v)"
  using bwf_distinct by (force simp: bvalues_def dest: map_of_SomeD)

lemma map_of_bvalues: "map_of m k = Some v \<Longrightarrow> v \<in> set (bvalues m)"
  by (force simp: bvalues_def dest: map_of_SomeD)

text \<open>A well-formed map is determined by what it maps: list equality is Rust's \<^verbatim>\<open>==\<close>.\<close>

lemma bwf_ext:
  assumes "bwf m" "bwf n" "map_of m = map_of n"
  shows "m = n"
proof (rule map_sorted_distinct_set_unique [where f = fst])
  have d: "distinct (map fst m)" "distinct (map fst n)"
    using assms(1,2) by (auto intro: bwf_distinct)
  show eq: "set m = set n"
  proof (rule set_eqI)
    fix e
    show "e \<in> set m \<longleftrightarrow> e \<in> set n"
      using map_of_eq_Some_iff [OF d(1), of "fst e" "snd e"]
        map_of_eq_Some_iff [OF d(2), of "fst e" "snd e"] assms(3) by simp
  qed
  show "inj_on fst (set m \<union> set n)"
    using d(1) by (simp add: eq [symmetric] distinct_map)
qed (use assms in \<open>simp_all add: bwf_def strict_sorted_iff\<close>)

subsection \<open>Searching lists\<close>

lemma find_SomeD: "find P xs = Some x \<Longrightarrow> x \<in> set xs \<and> P x"
  by (induction xs) (auto split: if_splits)

lemma find_unique:
  assumes "x \<in> set xs" "P x" "\<And>y. y \<in> set xs \<Longrightarrow> P y \<Longrightarrow> y = x"
  shows "find P xs = Some x"
proof (cases "find P xs")
  case None
  with assms(1,2) show ?thesis by (simp add: find_None_iff)
next
  case (Some y)
  from assms(3) find_SomeD [OF this] Some show ?thesis by blast
qed

lemma find_Some_iff_split:
  "find P xs = Some x \<longleftrightarrow> (\<exists>ys zs. xs = ys @ x # zs \<and> P x \<and> (\<forall>y \<in> set ys. \<not> P y))"
proof (induction xs)
  case (Cons a xs)
  show ?case
  proof (cases "P a")
    case True
    then show ?thesis by (auto simp: Cons_eq_append_conv intro: exI [of _ "[]"])
  next
    case False
    have "(\<exists>ys zs. a # xs = ys @ x # zs \<and> P x \<and> (\<forall>y \<in> set ys. \<not> P y))
        \<longleftrightarrow> (\<exists>ys zs. xs = ys @ x # zs \<and> P x \<and> (\<forall>y \<in> set ys. \<not> P y))" (is "?l \<longleftrightarrow> ?r")
    proof
      assume ?l
      with False show ?r by (auto simp: Cons_eq_append_conv)
    next
      assume ?r
      then obtain ys zs where "xs = ys @ x # zs" "P x" "\<forall>y \<in> set ys. \<not> P y" by blast
      with False show ?l by (intro exI [of _ "a # ys"] exI [of _ zs]) simp
    qed
    with Cons.IH False show ?thesis by simp
  qed
qed simp

subsection \<open>Strings\<close>

definition starts_with :: "string \<Rightarrow> string \<Rightarrow> bool" where
  "starts_with p s = (take (length p) s = p)"

definition strip_prefix :: "string \<Rightarrow> string \<Rightarrow> string option" where
  "strip_prefix p s = (if starts_with p s then Some (drop (length p) s) else None)"

definition strip_suffix :: "string \<Rightarrow> string \<Rightarrow> string option" where
  "strip_suffix p s = map_option rev (strip_prefix (rev p) (rev s))"

text \<open>\<^verbatim>\<open>str::split_once\<close> at a character.\<close>

fun split_once :: "char \<Rightarrow> string \<Rightarrow> (string \<times> string) option" where
  "split_once c [] = None"
| "split_once c (x # xs) =
     (if x = c then Some ([], xs)
      else (case split_once c xs of None \<Rightarrow> None | Some (a, b) \<Rightarrow> Some (x # a, b)))"

fun join :: "string \<Rightarrow> string list \<Rightarrow> string" where
  "join sep [] = []"
| "join sep [x] = x"
| "join sep (x # y # xs) = x @ sep @ join sep (y # xs)"

text \<open>
  The characters with the Unicode property White\_Space, which \<^verbatim>\<open>str::trim\<close> strips, as
  UTF-8 byte sequences.
\<close>

definition white_space :: "string list" where
  "white_space =
     [[CHR 0x09], [CHR 0x0A], [CHR 0x0B], [CHR 0x0C], [CHR 0x0D], [CHR 0x20],
      [CHR 0xC2, CHR 0x85], [CHR 0xC2, CHR 0xA0], [CHR 0xE1, CHR 0x9A, CHR 0x80]]
     @ map (\<lambda>n. [CHR 0xE2, CHR 0x80, char_of n]) ([128..<139] @ [168, 169, 175 :: nat])
     @ [[CHR 0xE2, CHR 0x81, CHR 0x9F], [CHR 0xE3, CHR 0x80, CHR 0x80]]"

function strip_seqs :: "string list \<Rightarrow> string \<Rightarrow> string" where
  "strip_seqs ws s =
     (case find (\<lambda>w. w \<noteq> [] \<and> starts_with w s) ws of
        Some w \<Rightarrow> strip_seqs ws (drop (length w) s)
      | None \<Rightarrow> s)"
  by pat_completeness auto
termination
proof (relation "measure (length \<circ> snd)", simp, goal_cases)
  case (1 ws s w)
  then have "w \<noteq> []" and "starts_with w s"
    by (auto simp: find_Some_iff)
  then show ?case
    by (cases s) (auto simp: starts_with_def)
qed

declare strip_seqs.simps [simp del]

definition trim :: "string \<Rightarrow> string" where
  "trim s = rev (strip_seqs (map rev white_space) (rev (strip_seqs white_space s)))"

lemma starts_with_append [simp]: "starts_with p (p @ s)"
  by (simp add: starts_with_def)

lemma starts_withD: "starts_with p s \<Longrightarrow> s = p @ drop (length p) s"
  using append_take_drop_id [of "length p" s] by (simp add: starts_with_def)

lemma starts_with_iff: "starts_with p s \<longleftrightarrow> (\<exists>t. s = p @ t)"
  using starts_withD by auto

lemma strip_prefix_Some: "strip_prefix p s = Some t \<longleftrightarrow> s = p @ t"
  by (auto simp: strip_prefix_def starts_with_iff)

lemma split_once_None: "split_once c s = None \<longleftrightarrow> c \<notin> set s"
  by (induction s) (auto split: option.splits)

lemma split_once_append [simp]: "c \<notin> set a \<Longrightarrow> split_once c (a @ c # b) = Some (a, b)"
  by (induction a) auto

lemma split_once_SomeD: "split_once c s = Some (a, b) \<Longrightarrow> s = a @ c # b \<and> c \<notin> set a"
  by (induction s arbitrary: a b) (auto split: if_splits option.splits)

lemma strip_seqs_Nil [simp]: "strip_seqs ws [] = []"
  by (subst strip_seqs.simps) (auto simp: starts_with_def find_Some_iff split: option.splits)

lemma trim_Nil [simp]: "trim [] = []"
  by (simp add: trim_def)

text \<open>Trimming text whose first and last characters are printable ASCII.\<close>

definition plain :: "char \<Rightarrow> bool" where
  "plain c \<longleftrightarrow> 33 \<le> (of_char c :: nat) \<and> (of_char c :: nat) < 127"

lemma white_space_not_plain:
  "w \<in> set white_space \<Longrightarrow> w \<noteq> [] \<and> \<not> plain (hd w) \<and> \<not> plain (last w)"
  by (auto simp: white_space_def plain_def)

lemma strip_seqs_plain:
  assumes "plain c" "\<And>w. w \<in> set ws \<Longrightarrow> w \<noteq> [] \<and> \<not> plain (hd w)"
  shows "strip_seqs ws (c # s) = c # s"
proof -
  have "\<not> starts_with w (c # s)" if "w \<in> set ws" for w
    using assms(1) assms(2) [OF that] by (cases w) (auto simp: starts_with_def)
  then have "find (\<lambda>w. w \<noteq> [] \<and> starts_with w (c # s)) ws = None"
    by (auto simp: find_None_iff)
  then show ?thesis by (subst strip_seqs.simps) simp
qed

lemma strip_seqs_space:
  assumes "[CHR 0x20] \<in> set ws" "\<And>w. w \<in> set ws \<Longrightarrow> w \<noteq> [] \<and> (hd w = CHR 0x20 \<longrightarrow> w = [CHR 0x20])"
  shows "strip_seqs ws (replicate n (CHR 0x20) @ s) = strip_seqs ws s"
proof (induction n)
  case (Suc n)
  let ?s = "CHR 0x20 # replicate n (CHR 0x20) @ s" and ?P = "\<lambda>w s. w \<noteq> [] \<and> starts_with w s"
  obtain w where w: "find (\<lambda>w. ?P w ?s) ws = Some w"
    using assms(1) by (cases "find (\<lambda>w. ?P w ?s) ws") (auto simp: find_None_iff starts_with_def)
  then have "w \<in> set ws" "?P w ?s" by (auto simp: find_Some_iff)
  then have "hd w = CHR 0x20" by (metis starts_withD hd_append2 list.sel(1))
  with assms(2) [OF \<open>w \<in> set ws\<close>] have "w = [CHR 0x20]" by simp
  with w Suc.IH show ?case by (simp add: strip_seqs.simps [of ws ?s])
qed simp

lemma trim_padded:
  assumes "s \<noteq> []" "plain (hd s)" "plain (last s)"
  shows "trim (replicate m (CHR 0x20) @ s @ replicate n (CHR 0x20)) = s"
proof -
  have sp: "[CHR 0x20] \<in> set white_space" "[CHR 0x20] \<in> set (map rev white_space)"
    by (simp_all add: white_space_def)
  have only: "w \<noteq> [] \<and> (hd w = CHR 0x20 \<longrightarrow> w = [CHR 0x20])"
    if "w \<in> set white_space \<or> w \<in> set (map rev white_space)" for w
  proof -
    have "of_char (hd w) = (32 :: nat) \<Longrightarrow> w = [CHR 0x20]"
      using that by (auto simp: white_space_def)
    then show ?thesis using that white_space_not_plain by auto
  qed
  have 1: "strip_seqs white_space (s @ t) = s @ t" for t
    using strip_seqs_plain [of "hd s" white_space "tl s @ t"] assms white_space_not_plain
    by (cases s) auto
  have 2: "strip_seqs (map rev white_space) (rev s) = rev s"
  proof -
    have "w \<noteq> [] \<and> \<not> plain (hd w)" if "w \<in> set (map rev white_space)" for w
      using that white_space_not_plain by (auto simp: hd_rev)
    then have "strip_seqs (map rev white_space) (last s # t) = last s # t" for t
      using strip_seqs_plain [OF assms(3)] by blast
    then show ?thesis using assms(1) by (cases s rule: rev_cases) auto
  qed
  have 3: "strip_seqs white_space (replicate k (CHR 0x20) @ t) = strip_seqs white_space t"
    "strip_seqs (map rev white_space) (replicate k (CHR 0x20) @ t)
       = strip_seqs (map rev white_space) t" for k t
    by (rule strip_seqs_space, (rule sp), use only in blast)+
  show ?thesis by (simp add: trim_def 1 2 3)
qed

lemmas trim_plain = trim_padded [of _ 0 0, simplified]

subsection \<open>Integers\<close>

type_synonym u64 = "64 word"
type_synonym u32 = "32 word"

text \<open>
  \<^verbatim>\<open>i64\<close> values are integers; an addition wraps in two's complement at 64 bits, as a
  release build does.
\<close>

definition i64_add :: "int \<Rightarrow> int \<Rightarrow> int" where
  "i64_add a b = signed_take_bit 63 (a + b)"

definition in_i64 :: "int \<Rightarrow> bool" where
  "in_i64 n \<longleftrightarrow> - (2 ^ 63) \<le> n \<and> n < 2 ^ 63"

lemma i64_add_exact: "in_i64 (a + b) \<Longrightarrow> i64_add a b = a + b"
  by (simp add: i64_add_def in_i64_def signed_take_bit_int_eq_self)

lemma i64_add_in_range: "in_i64 (i64_add a b)"
  using signed_take_bit_int_greater_eq_minus_exp [of 63 "a + b"]
    signed_take_bit_int_less_exp [of 63 "a + b"]
  by (simp add: i64_add_def in_i64_def)

text \<open>Decimal rendering, \<^verbatim>\<open>to_string\<close> of an integer.\<close>

fun show_nat :: "nat \<Rightarrow> string" where
  "show_nat n =
     (if n < 10 then [char_of (48 + n)] else show_nat (n div 10) @ [char_of (48 + n mod 10)])"

declare show_nat.simps [simp del]

lemma digit_of_char: "n < 10 \<Longrightarrow> of_char (char_of (48 + n) :: char) = (48 + n :: nat)"
  by simp

lemma show_nat_digits:
  "c \<in> set (show_nat n) \<Longrightarrow> 48 \<le> (of_char c :: nat) \<and> (of_char c :: nat) \<le> 57"
proof (induction n rule: show_nat.induct)
  case (1 n)
  have d: "48 \<le> (of_char (char_of (48 + m) :: char) :: nat)
      \<and> (of_char (char_of (48 + m) :: char) :: nat) \<le> 57" if "m < 10" for m :: nat
    using that by (simp only: digit_of_char) simp
  show ?case
  proof (cases "n < 10")
    case True
    with 1 d [of n] show ?thesis by (subst (asm) (2) show_nat.simps) simp
  next
    case False
    with 1 d [of "n mod 10"] show ?thesis by (subst (asm) (2) show_nat.simps) auto
  qed
qed

definition show_int :: "int \<Rightarrow> string" where
  "show_int i = (if i < 0 then ''-'' @ show_nat (nat (- i)) else show_nat (nat i))"

definition show_bool :: "bool \<Rightarrow> string" where
  "show_bool b = (if b then ''true'' else ''false'')"

text \<open>\<^verbatim>\<open>str::parse::<i64>\<close>: an optional sign, then decimal digits, in range.\<close>

definition is_digit :: "char \<Rightarrow> bool" where
  "is_digit c \<longleftrightarrow> 48 \<le> (of_char c :: nat) \<and> (of_char c :: nat) \<le> 57"

definition parse_nat :: "string \<Rightarrow> nat option" where
  "parse_nat s =
     (if s \<noteq> [] \<and> list_all is_digit s
      then Some (foldl (\<lambda>n c. 10 * n + (of_char c - 48)) 0 s) else None)"

definition parse_i64 :: "string \<Rightarrow> int option" where
  "parse_i64 s =
     (let v = (case s of
           [] \<Rightarrow> None
         | c # cs \<Rightarrow>
             (if c = CHR 0x2D then map_option (\<lambda>n. - int n) (parse_nat cs)
              else if c = CHR 0x2B then map_option int (parse_nat cs)
              else map_option int (parse_nat s)))
      in case v of Some i \<Rightarrow> (if in_i64 i then Some i else None) | None \<Rightarrow> None)"

lemma show_nat_nonempty [simp]: "show_nat n \<noteq> []"
  by (subst show_nat.simps) simp

lemma parse_nat_show_nat [simp]: "parse_nat (show_nat n) = Some n"
proof -
  have "foldl (\<lambda>n c. 10 * n + (of_char c - 48)) 0 (show_nat n) = n"
  proof (induction n rule: show_nat.induct)
    case (1 n)
    show ?case
    proof (cases "n < 10")
      case True
      then show ?thesis by (subst show_nat.simps) (simp add: digit_of_char)
    next
      case False
      then show ?thesis
        using 1 by (subst show_nat.simps) (simp add: digit_of_char mult.commute)
    qed
  qed
  then show ?thesis
    using show_nat_digits by (auto simp: parse_nat_def list_all_iff is_digit_def)
qed

lemma hd_show_nat: "is_digit (hd (show_nat n))"
  using show_nat_digits [of "hd (show_nat n)" n] by (simp add: is_digit_def)

lemma parse_i64_show_int: "in_i64 i \<Longrightarrow> parse_i64 (show_int i) = Some i"
proof (cases "i < 0")
  case True
  then show "in_i64 i \<Longrightarrow> parse_i64 (show_int i) = Some i"
    by (simp add: parse_i64_def show_int_def)
next
  case False
  obtain c cs where eq: "show_nat (nat i) = c # cs" by (cases "show_nat (nat i)") auto
  then have "is_digit c" using hd_show_nat [of "nat i"] by simp
  then have "c \<noteq> CHR 0x2D" "c \<noteq> CHR 0x2B" by (auto simp: is_digit_def)
  moreover have "parse_nat (c # cs) = Some (nat i)"
    using parse_nat_show_nat [of "nat i"] eq by simp
  ultimately show "in_i64 i \<Longrightarrow> parse_i64 (show_int i) = Some i"
    using False by (simp add: parse_i64_def show_int_def eq)
qed

text \<open>\<^verbatim>\<open>{:016x}\<close> of a \<^verbatim>\<open>u64\<close>: sixteen lower-case hexadecimal digits.\<close>

definition hex_digit :: "nat \<Rightarrow> char" where
  "hex_digit n = (if n < 10 then char_of (48 + n) else char_of (87 + n))"

definition hex16 :: "u64 \<Rightarrow> string" where
  "hex16 w = map (\<lambda>i. hex_digit (unat w div 16 ^ i mod 16)) (rev [0..<16])"

lemma length_hex16 [simp]: "length (hex16 w) = 16"
  by (simp add: hex16_def)

subsection \<open>State and errors\<close>

text \<open>
  A method that mutates stores behind a shared reference and returns a
  \<^verbatim>\<open>Result\<close> is a function from the state to a result and the new state. The state is
  kept when the method fails: what was written before an early return stays written.
  \<open>andThen\<close> is the \<^verbatim>\<open>?\<close> operator, \<open>require\<close> an \<^verbatim>\<open>if\<close> with an early
  \<^verbatim>\<open>return Err\<close>, \<open>zoom\<close> runs an operation of one store inside the state that
  holds it.
\<close>

type_synonym ('s, 'e, 'a) eff = "'s \<Rightarrow> ('e + 'a) \<times> 's"

definition ok :: "'a \<Rightarrow> ('s, 'e, 'a) eff" where
  "ok x = (\<lambda>s. (Inr x, s))"

definition fail :: "'e \<Rightarrow> ('s, 'e, 'a) eff" where
  "fail e = (\<lambda>s. (Inl e, s))"

definition andThen :: "('s, 'e, 'a) eff \<Rightarrow> ('a \<Rightarrow> ('s, 'e, 'b) eff) \<Rightarrow> ('s, 'e, 'b) eff" where
  "andThen m f = (\<lambda>s. case m s of (Inl e, t) \<Rightarrow> (Inl e, t) | (Inr x, t) \<Rightarrow> f x t)"

definition mapErr :: "('e \<Rightarrow> 'f) \<Rightarrow> ('s, 'e, 'a) eff \<Rightarrow> ('s, 'f, 'a) eff" where
  "mapErr g m = (\<lambda>s. case m s of (Inl e, t) \<Rightarrow> (Inl (g e), t) | (Inr x, t) \<Rightarrow> (Inr x, t))"

definition require :: "bool \<Rightarrow> 'e \<Rightarrow> ('s, 'e, unit) eff" where
  "require b e = (if b then ok () else fail e)"

definition reading :: "('s \<Rightarrow> 'e + 'a) \<Rightarrow> ('s, 'e, 'a) eff" where
  "reading f = (\<lambda>s. (f s, s))"

definition zoom :: "('s \<Rightarrow> 'c) \<Rightarrow> ('c \<Rightarrow> 's \<Rightarrow> 's) \<Rightarrow> ('c, 'e, 'a) eff \<Rightarrow> ('s, 'e, 'a) eff" where
  "zoom get put m = (\<lambda>s. case m (get s) of (r, c) \<Rightarrow> (r, put c s))"

text \<open>\<^verbatim>\<open>Option::ok_or_else\<close> and \<^verbatim>\<open>Result::map_err\<close> on pure results.\<close>

definition ok_or :: "'e \<Rightarrow> 'a option \<Rightarrow> 'e + 'a" where
  "ok_or e x = (case x of None \<Rightarrow> Inl e | Some y \<Rightarrow> Inr y)"

definition map_err :: "('e \<Rightarrow> 'f) \<Rightarrow> 'e + 'a \<Rightarrow> 'f + 'a" where
  "map_err g r = (case r of Inl e \<Rightarrow> Inl (g e) | Inr x \<Rightarrow> Inr x)"

definition rbind :: "'e + 'a \<Rightarrow> ('a \<Rightarrow> 'e + 'b) \<Rightarrow> 'e + 'b" where
  "rbind r f = (case r of Inl e \<Rightarrow> Inl e | Inr x \<Rightarrow> f x)"

lemma ok_or_Inr [simp]: "ok_or e x = Inr y \<longleftrightarrow> x = Some y"
  by (cases x) (auto simp: ok_or_def)

lemma ok_or_Inl [simp]: "ok_or e x = Inl e' \<longleftrightarrow> x = None \<and> e' = e"
  by (cases x) (auto simp: ok_or_def)

lemma ok_or_simps [simp]: "ok_or e (Some x) = Inr x" "ok_or e None = Inl e"
  by simp_all

lemma map_err_Inr [simp]: "map_err g r = Inr x \<longleftrightarrow> r = Inr x"
  by (cases r) (auto simp: map_err_def)

lemma map_err_Inl [simp]: "map_err g r = Inl e \<longleftrightarrow> (\<exists>d. r = Inl d \<and> e = g d)"
  by (cases r) (auto simp: map_err_def)

lemma rbind_Inr: "rbind r f = Inr y \<longleftrightarrow> (\<exists>x. r = Inr x \<and> f x = Inr y)"
  by (cases r) (auto simp: rbind_def)

lemma rbind_simps [simp]: "rbind (Inl e) f = Inl e" "rbind (Inr x) f = f x"
  by (simp_all add: rbind_def)

lemma ok_run [simp]: "ok x s = (Inr x, s)"
  by (simp add: ok_def)

lemma fail_run [simp]: "fail e s = (Inl e, s)"
  by (simp add: fail_def)

lemma reading_run [simp]: "reading f s = (f s, s)"
  by (simp add: reading_def)

lemma andThen_InrE [eff_elims]:
  assumes "andThen m f s = (Inr y, t)"
  obtains x u where "m s = (Inr x, u)" and "f x u = (Inr y, t)"
  using assms by (auto simp: andThen_def split: prod.splits sum.splits)

lemma mapErr_InrE [eff_elims]:
  assumes "mapErr g m s = (Inr y, t)"
  obtains "m s = (Inr y, t)"
  using assms by (auto simp: mapErr_def split: prod.splits sum.splits)

lemma require_InrE [eff_elims]:
  assumes "require b e s = (Inr y, t)"
  obtains b and "t = s"
  using assms by (auto simp: require_def split: if_splits)

lemma ok_InrE [eff_elims]:
  assumes "ok x s = (Inr y, t)"
  obtains "y = x" and "t = s"
  using assms by simp

lemma fail_InrE [eff_elims]: "fail e s = (Inr y, t) \<Longrightarrow> R"
  by simp

lemma reading_InrE [eff_elims]:
  assumes "reading f s = (Inr y, t)"
  obtains "f s = Inr y" and "t = s"
proof (rule that)
  from assms have eq: "(f s, s) = (Inr y, t)" by (simp only: reading_run)
  then show "f s = Inr y" and "t = s" by (blast dest: Pair_inject)+
qed

lemma zoom_InrE [eff_elims]:
  assumes "zoom get put m s = (Inr y, t)"
  obtains c where "m (get s) = (Inr y, c)" and "t = put c s"
  using assms by (auto simp: zoom_def split: prod.splits)

subsection \<open>State predicates through the monad\<close>

text \<open>
  A computation preserves a predicate when it leads from any state that satisfies it to a
  state that satisfies it, on success and on failure alike.
\<close>

definition preserves :: "('s \<Rightarrow> bool) \<Rightarrow> ('s, 'e, 'a) eff \<Rightarrow> bool" where
  "preserves P m \<longleftrightarrow> (\<forall>s. P s \<longrightarrow> P (snd (m s)))"

lemma preservesD: "preserves P m \<Longrightarrow> m s = (r, t) \<Longrightarrow> P s \<Longrightarrow> P t"
  by (metis preserves_def snd_conv)

lemma preserves_ok [eff_preserves]: "preserves P (ok x)"
  by (simp add: preserves_def)

lemma preserves_fail [eff_preserves]: "preserves P (fail e)"
  by (simp add: preserves_def)

lemma preserves_require [eff_preserves]: "preserves P (require b e)"
  by (simp add: preserves_def require_def)

lemma preserves_reading [eff_preserves]: "preserves P (reading f)"
  by (simp add: preserves_def)

lemma preserves_andThen [eff_preserves]:
  "preserves P m \<Longrightarrow> (\<And>x. preserves P (f x)) \<Longrightarrow> preserves P (andThen m f)"
  by (auto simp: preserves_def andThen_def split: prod.splits sum.splits)

lemma preserves_mapErr [eff_preserves]: "preserves P m \<Longrightarrow> preserves P (mapErr g m)"
  by (auto simp: preserves_def mapErr_def split: prod.splits sum.splits)

lemma preserves_if [eff_preserves]:
  "preserves P m \<Longrightarrow> preserves P n \<Longrightarrow> preserves P (if b then m else n)"
  by simp

lemma preserves_option [eff_preserves]:
  "preserves P m \<Longrightarrow> (\<And>x. preserves P (f x)) \<Longrightarrow>
     preserves P (case y of None \<Rightarrow> m | Some x \<Rightarrow> f x)"
  by (cases y) auto

lemma preserves_sum [eff_preserves]:
  "(\<And>e. preserves P (g e)) \<Longrightarrow> (\<And>x. preserves P (f x)) \<Longrightarrow>
     preserves P (case y of Inl e \<Rightarrow> g e | Inr x \<Rightarrow> f x)"
  by (cases y) auto

lemma preserves_zoom:
  assumes "\<And>s. P s \<Longrightarrow> P (put (snd (m (get s))) s)"
  shows "preserves P (zoom get put m)"
  using assms by (auto simp: preserves_def zoom_def split: prod.splits) (metis snd_conv)

subsection \<open>Following the state through a computation\<close>

lemma snd_andThen:
  assumes "\<And>x u. m s = (Inr x, u) \<Longrightarrow> Q (snd (k x u))"
    and "\<And>e u. m s = (Inl e, u) \<Longrightarrow> Q u"
  shows "Q (snd (andThen m k s))"
proof (cases "m s")
  case (Pair r u)
  then show ?thesis using assms by (cases r) (simp_all add: andThen_def)
qed

lemma snd_andThen_reading:
  "(\<And>x. f s = Inr x \<Longrightarrow> Q (snd (k x s))) \<Longrightarrow> Q s \<Longrightarrow> Q (snd (andThen (reading f) k s))"
  by (rule snd_andThen) auto

lemma snd_andThen_require:
  "(b \<Longrightarrow> Q (snd (k () s))) \<Longrightarrow> Q s \<Longrightarrow> Q (snd (andThen (require b e) k s))"
  by (rule snd_andThen) (auto simp: require_def split: if_splits)

lemma preserves_snd: "preserves P m \<Longrightarrow> P s \<Longrightarrow> P (snd (m s))"
  by (simp add: preserves_def)

lemma snd_mapErr [simp]: "snd (mapErr g m s) = snd (m s)"
  by (cases "m s"; cases "fst (m s)") (auto simp: mapErr_def)

end
