(* ===== verification/Topology.thy ===== *)
theory Topology
  imports Prelude
begin

text \<open>
  The storage topology (\<^verbatim>\<open>crates/storage/src/storage_boundary.rs\<close>): which provider
  backs which class of durable state, in which role and with which capabilities.
\<close>

datatype StoreClass =
  ClassIdentity | ClassTenant | ClassSession | ClassCredential | ClassPolicy | ClassDelegation
  | ClassAgent | ClassRun | ClassAudit | ClassReporting

fun store_class_as_str :: "StoreClass \<Rightarrow> string" where
  "store_class_as_str ClassIdentity = ''identity''"
| "store_class_as_str ClassTenant = ''tenant''"
| "store_class_as_str ClassSession = ''session''"
| "store_class_as_str ClassCredential = ''credential''"
| "store_class_as_str ClassPolicy = ''policy''"
| "store_class_as_str ClassDelegation = ''delegation''"
| "store_class_as_str ClassAgent = ''agent''"
| "store_class_as_str ClassRun = ''run''"
| "store_class_as_str ClassAudit = ''audit''"
| "store_class_as_str ClassReporting = ''reporting''"

definition authority_classes :: "StoreClass list" where
  "authority_classes =
     [ClassIdentity, ClassTenant, ClassSession, ClassCredential, ClassPolicy, ClassDelegation,
      ClassAgent, ClassRun]"

datatype StorageCapability =
  Transactions | ConditionalWrite | AppendOnly | DurableCommit | Query | Indexes | Subscriptions
  | History | ExportImport

fun storage_capability_as_str :: "StorageCapability \<Rightarrow> string" where
  "storage_capability_as_str Transactions = ''transactions''"
| "storage_capability_as_str ConditionalWrite = ''conditional_write''"
| "storage_capability_as_str AppendOnly = ''append_only''"
| "storage_capability_as_str DurableCommit = ''durable_commit''"
| "storage_capability_as_str Query = ''query''"
| "storage_capability_as_str Indexes = ''indexes''"
| "storage_capability_as_str Subscriptions = ''subscriptions''"
| "storage_capability_as_str History = ''history''"
| "storage_capability_as_str ExportImport = ''export_import''"

datatype StoreRole = RoleAuthority | RoleAudit | RoleAuditSink | RoleReportingProjection

definition store_role_as_str :: "StoreRole \<Rightarrow> string" where
  "store_role_as_str r = (case r of
     RoleAuthority \<Rightarrow> ''authority_store''
   | RoleAudit \<Rightarrow> ''audit_store''
   | RoleAuditSink \<Rightarrow> ''audit_sink''
   | RoleReportingProjection \<Rightarrow> ''reporting_projection'')"

record StoreDescriptor =
  sd_class :: StoreClass
  sd_provider :: string
  sd_role :: StoreRole
  sd_capabilities :: "StorageCapability list"

type_synonym StorageTopology = "StoreDescriptor list"

definition feltdb_capabilities :: "StoreClass \<Rightarrow> StorageCapability list" where
  "feltdb_capabilities cl =
     [Transactions, ConditionalWrite, DurableCommit, Query, Indexes, History, ExportImport]
     @ (if cl = ClassAudit then [AppendOnly, Subscriptions] else [])"

definition authport_managed_feltdb :: StorageTopology where
  "authport_managed_feltdb =
     map (\<lambda>cl. \<lparr>sd_class = cl, sd_provider = ''feltdb'', sd_role = RoleAuthority,
                sd_capabilities = feltdb_capabilities cl\<rparr>) authority_classes
     @ [\<lparr>sd_class = ClassAudit, sd_provider = ''feltdb'', sd_role = RoleAudit,
         sd_capabilities = feltdb_capabilities ClassAudit\<rparr>,
        \<lparr>sd_class = ClassReporting, sd_provider = ''authboundry_projection'',
         sd_role = RoleReportingProjection, sd_capabilities = [Query, ExportImport]\<rparr>]"

definition postgres_reference :: StorageTopology where
  "postgres_reference =
     map (\<lambda>cl. \<lparr>sd_class = cl, sd_provider = ''postgresql'', sd_role = RoleAuthority,
                sd_capabilities = [Transactions, ConditionalWrite, DurableCommit, Query, Indexes,
                  ExportImport]\<rparr>) authority_classes
     @ [\<lparr>sd_class = ClassAudit, sd_provider = ''postgresql'', sd_role = RoleAudit,
         sd_capabilities = [Transactions, AppendOnly, DurableCommit, Query, Indexes,
           ExportImport]\<rparr>]"

definition topology_split :: "string \<Rightarrow> string \<Rightarrow> string \<Rightarrow> StorageTopology" where
  "topology_split authority audit reporting =
     map (\<lambda>d. d\<lparr>sd_provider := (case sd_role d of
             RoleAuthority \<Rightarrow> authority
           | RoleAudit \<Rightarrow> audit
           | RoleReportingProjection \<Rightarrow> reporting
           | RoleAuditSink \<Rightarrow> sd_provider d)\<rparr>) authport_managed_feltdb"

definition from_declaration :: "string \<Rightarrow> string \<Rightarrow> string \<Rightarrow> StorageTopology" where
  "from_declaration authority audit reporting = topology_split authority audit reporting"

text \<open>
  Whatever providers are declared, the topology backs every authority class by exactly
  one store, in the authority role and with transactions, conditional writes and durable
  commit, keeps exactly one audit store, which is append-only and durable, and changes nothing
  of the managed topology but the providers.
\<close>

theorem declared_topology_keeps_guarantees:
  "map sd_class (filter (\<lambda>d. sd_role d = RoleAuthority) (from_declaration a b c)) = authority_classes
   \<and> list_all (\<lambda>d. sd_provider d = a \<and> {Transactions, ConditionalWrite, DurableCommit}
         \<subseteq> set (sd_capabilities d))
       (filter (\<lambda>d. sd_role d = RoleAuthority) (from_declaration a b c))
   \<and> (\<exists>d. filter (\<lambda>d. sd_role d = RoleAudit) (from_declaration a b c) = [d]
        \<and> sd_provider d = b \<and> {AppendOnly, DurableCommit} \<subseteq> set (sd_capabilities d))
   \<and> map (\<lambda>d. d\<lparr>sd_provider := []\<rparr>) (from_declaration a b c)
       = map (\<lambda>d. d\<lparr>sd_provider := []\<rparr>) authport_managed_feltdb"
  by (simp add: from_declaration_def topology_split_def authport_managed_feltdb_def
      authority_classes_def feltdb_capabilities_def)

end
