(* ===== verification/Config.thy ===== *)
theory Config
  imports Prelude "HOL-Library.Multiset"
begin

text \<open>
  The declarative auth contract of an application (\<^verbatim>\<open>crates/dsl/src/model.rs\<close>):
  \<^verbatim>\<open>AuthConfig\<close> with its validation, its canonical form, and the fingerprint, an
  FNV-1a hash of the canonical rendering.
\<close>

subsection \<open>Validation helpers\<close>

type_synonym AuthConfigError = string

text \<open>\<^verbatim>\<open>for x in xs { check(x)?; }\<close>\<close>

fun for_each :: "('a \<Rightarrow> 'e + unit) \<Rightarrow> 'a list \<Rightarrow> 'e + unit" where
  "for_each f [] = Inr ()"
| "for_each f (x # xs) = rbind (f x) (\<lambda>_. for_each f xs)"

definition check :: "bool \<Rightarrow> 'e \<Rightarrow> 'e + unit" where
  "check b e = (if b then Inr () else Inl e)"

definition in_backticks :: "string \<Rightarrow> string" where
  "in_backticks s = [CHR 0x60] @ s @ [CHR 0x60]"

fun reject_seen :: "string list \<Rightarrow> string list \<Rightarrow> string \<Rightarrow> AuthConfigError + unit" where
  "reject_seen seen [] msg = Inr ()"
| "reject_seen seen (v # vs) msg =
     (if v \<in> set seen then Inl (msg @ '' '' @ in_backticks v)
      else reject_seen (v # seen) vs msg)"

definition reject_duplicates :: "string list \<Rightarrow> string \<Rightarrow> AuthConfigError + unit" where
  "reject_duplicates vs msg = reject_seen [] vs msg"

text \<open>FNV-1a.\<close>

definition stable_hash :: "string \<Rightarrow> u64" where
  "stable_hash bytes =
     fold (\<lambda>b h. (h XOR of_nat (of_char b)) * 0x100000001b3) bytes 0xcbf29ce484222325"

subsection \<open>Experiences\<close>

datatype AuthExperienceCapability =
  ExpSignIn | ExpSignUp | ExpSignOut | ExpPassword | ExpPasswordReset | ExpPasswordChange
  | ExpExternalIdentity | ExpAccountLinking | ExpEmailVerification | ExpMfa | ExpPasskeys
  | ExpDeviceManagement | ExpSessionManagement | ExpProfile | ExpTenantSwitching | ExpRecovery

definition all_experiences :: "AuthExperienceCapability list" where
  "all_experiences =
     [ExpSignIn, ExpSignUp, ExpSignOut, ExpPassword,
      ExpPasswordReset, ExpPasswordChange, ExpExternalIdentity, ExpAccountLinking,
      ExpEmailVerification, ExpMfa, ExpPasskeys, ExpDeviceManagement,
      ExpSessionManagement, ExpProfile, ExpTenantSwitching, ExpRecovery]"

fun experience_as_str :: "AuthExperienceCapability \<Rightarrow> string" where
  "experience_as_str ExpSignIn = ''sign_in''"
| "experience_as_str ExpSignUp = ''sign_up''"
| "experience_as_str ExpSignOut = ''sign_out''"
| "experience_as_str ExpPassword = ''password''"
| "experience_as_str ExpPasswordReset = ''password_reset''"
| "experience_as_str ExpPasswordChange = ''password_change''"
| "experience_as_str ExpExternalIdentity = ''external_identity''"
| "experience_as_str ExpAccountLinking = ''account_linking''"
| "experience_as_str ExpEmailVerification = ''email_verification''"
| "experience_as_str ExpMfa = ''mfa''"
| "experience_as_str ExpPasskeys = ''passkeys''"
| "experience_as_str ExpDeviceManagement = ''device_management''"
| "experience_as_str ExpSessionManagement = ''session_management''"
| "experience_as_str ExpProfile = ''profile''"
| "experience_as_str ExpTenantSwitching = ''tenant_switching''"
| "experience_as_str ExpRecovery = ''recovery''"

definition experience_parse :: "string \<Rightarrow> AuthExperienceCapability option" where
  "experience_parse v = map_of
     [(''sign_in'', ExpSignIn), (''sign_up'', ExpSignUp),
      (''sign_out'', ExpSignOut), (''password'', ExpPassword),
      (''password_reset'', ExpPasswordReset), (''password_change'', ExpPasswordChange),
      (''external_identity'', ExpExternalIdentity), (''account_linking'', ExpAccountLinking),
      (''email_verification'', ExpEmailVerification), (''mfa'', ExpMfa),
      (''passkeys'', ExpPasskeys), (''devices'', ExpDeviceManagement),
      (''device_management'', ExpDeviceManagement), (''sessions'', ExpSessionManagement),
      (''session_management'', ExpSessionManagement), (''profile'', ExpProfile),
      (''tenant_switching'', ExpTenantSwitching), (''tenant_switcher'', ExpTenantSwitching),
      (''recovery'', ExpRecovery)] v"

datatype ExperienceState =
  ExpDisabled | ExpEnabled | ExpRequired | ExpAdminOnly

definition is_invokable :: "ExperienceState \<Rightarrow> bool" where
  "is_invokable s \<longleftrightarrow> s \<noteq> ExpDisabled"

fun experience_state_as_str :: "ExperienceState \<Rightarrow> string" where
  "experience_state_as_str ExpDisabled = ''disabled''"
| "experience_state_as_str ExpEnabled = ''enabled''"
| "experience_state_as_str ExpRequired = ''required''"
| "experience_state_as_str ExpAdminOnly = ''admin_only''"

definition experience_state_parse :: "string \<Rightarrow> ExperienceState option" where
  "experience_state_parse v = map_of
     [(''false'', ExpDisabled), (''disabled'', ExpDisabled),
      (''true'', ExpEnabled), (''enabled'', ExpEnabled),
      (''required'', ExpRequired), (''admin_only'', ExpAdminOnly)] v"

record AuthExperience =
  x_sign_in :: ExperienceState
  x_sign_up :: ExperienceState
  x_sign_out :: ExperienceState
  x_password :: ExperienceState
  x_password_reset :: ExperienceState
  x_password_change :: ExperienceState
  x_external_identity :: ExperienceState
  x_account_linking :: ExperienceState
  x_email_verification :: ExperienceState
  x_mfa :: ExperienceState
  x_passkeys :: ExperienceState
  x_device_management :: ExperienceState
  x_session_management :: ExperienceState
  x_profile :: ExperienceState
  x_tenant_switching :: ExperienceState
  x_recovery :: ExperienceState

definition experience_default :: AuthExperience where
  "experience_default = \<lparr>x_sign_in = ExpEnabled, x_sign_up = ExpEnabled,
     x_sign_out = ExpEnabled, x_password = ExpEnabled,
     x_password_reset = ExpEnabled, x_password_change = ExpEnabled,
     x_external_identity = ExpEnabled, x_account_linking = ExpEnabled,
     x_email_verification = ExpEnabled, x_mfa = ExpDisabled,
     x_passkeys = ExpDisabled, x_device_management = ExpDisabled,
     x_session_management = ExpEnabled, x_profile = ExpDisabled,
     x_tenant_switching = ExpEnabled, x_recovery = ExpDisabled\<rparr>"

fun experience_state :: "AuthExperience \<Rightarrow> AuthExperienceCapability \<Rightarrow> ExperienceState" where
  "experience_state x ExpSignIn = x_sign_in x"
| "experience_state x ExpSignUp = x_sign_up x"
| "experience_state x ExpSignOut = x_sign_out x"
| "experience_state x ExpPassword = x_password x"
| "experience_state x ExpPasswordReset = x_password_reset x"
| "experience_state x ExpPasswordChange = x_password_change x"
| "experience_state x ExpExternalIdentity = x_external_identity x"
| "experience_state x ExpAccountLinking = x_account_linking x"
| "experience_state x ExpEmailVerification = x_email_verification x"
| "experience_state x ExpMfa = x_mfa x"
| "experience_state x ExpPasskeys = x_passkeys x"
| "experience_state x ExpDeviceManagement = x_device_management x"
| "experience_state x ExpSessionManagement = x_session_management x"
| "experience_state x ExpProfile = x_profile x"
| "experience_state x ExpTenantSwitching = x_tenant_switching x"
| "experience_state x ExpRecovery = x_recovery x"

fun experience_set ::
  "AuthExperience \<Rightarrow> AuthExperienceCapability \<Rightarrow> ExperienceState \<Rightarrow> AuthExperience" where
  "experience_set x ExpSignIn st = x\<lparr>x_sign_in := st\<rparr>"
| "experience_set x ExpSignUp st = x\<lparr>x_sign_up := st\<rparr>"
| "experience_set x ExpSignOut st = x\<lparr>x_sign_out := st\<rparr>"
| "experience_set x ExpPassword st = x\<lparr>x_password := st\<rparr>"
| "experience_set x ExpPasswordReset st = x\<lparr>x_password_reset := st\<rparr>"
| "experience_set x ExpPasswordChange st = x\<lparr>x_password_change := st\<rparr>"
| "experience_set x ExpExternalIdentity st = x\<lparr>x_external_identity := st\<rparr>"
| "experience_set x ExpAccountLinking st = x\<lparr>x_account_linking := st\<rparr>"
| "experience_set x ExpEmailVerification st = x\<lparr>x_email_verification := st\<rparr>"
| "experience_set x ExpMfa st = x\<lparr>x_mfa := st\<rparr>"
| "experience_set x ExpPasskeys st = x\<lparr>x_passkeys := st\<rparr>"
| "experience_set x ExpDeviceManagement st = x\<lparr>x_device_management := st\<rparr>"
| "experience_set x ExpSessionManagement st = x\<lparr>x_session_management := st\<rparr>"
| "experience_set x ExpProfile st = x\<lparr>x_profile := st\<rparr>"
| "experience_set x ExpTenantSwitching st = x\<lparr>x_tenant_switching := st\<rparr>"
| "experience_set x ExpRecovery st = x\<lparr>x_recovery := st\<rparr>"

definition experience_enabled :: "AuthExperience \<Rightarrow> AuthExperienceCapability \<Rightarrow> bool" where
  "experience_enabled x c = is_invokable (experience_state x c)"

definition experience_validate :: "AuthExperience \<Rightarrow> AuthConfigError + unit" where
  "experience_validate x =
     check (\<not> (x_sign_in x = ExpDisabled \<and> x_sign_up x = ExpDisabled))
       ''experience must expose sign_in or sign_up''"

definition experience_canonical :: "AuthExperience \<Rightarrow> string" where
  "experience_canonical x =
     ''experience='' @ concat (map (\<lambda>c. experience_as_str c @ '':''
         @ experience_state_as_str (experience_state x c) @ '','') all_experiences) @ '';''"

subsection \<open>User interface\<close>

datatype AuthUiMode = UiDefault | UiCustom

definition ui_mode_as_str :: "AuthUiMode \<Rightarrow> string" where
  "ui_mode_as_str m = (case m of UiDefault \<Rightarrow> ''default'' | UiCustom \<Rightarrow> ''custom'')"

fun ui_mode_index :: "AuthUiMode \<Rightarrow> nat" where
  "ui_mode_index UiDefault = 0"
| "ui_mode_index UiCustom = 1"

datatype ExperienceRenderer =
  RenderGenerated | RenderEmbedded | RenderHeadless | RenderCustom

fun renderer_as_str :: "ExperienceRenderer \<Rightarrow> string" where
  "renderer_as_str RenderGenerated = ''generated''"
| "renderer_as_str RenderEmbedded = ''embedded''"
| "renderer_as_str RenderHeadless = ''headless''"
| "renderer_as_str RenderCustom = ''custom''"

definition renderer_parse :: "string \<Rightarrow> ExperienceRenderer option" where
  "renderer_parse v = map_of
     [(''generated'', RenderGenerated), (''default'', RenderGenerated),
      (''embedded'', RenderEmbedded), (''headless'', RenderHeadless),
      (''custom'', RenderCustom)] v"

datatype UiScreen =
  ScreenLogin | ScreenSignup | ScreenAccount | ScreenPasswordForgot | ScreenPasswordReset
  | ScreenPasswordChange | ScreenEmailVerification | ScreenAccountLinks | ScreenProfile
  | ScreenDevices | ScreenSessions | ScreenMfa | ScreenPasskeys | ScreenRecovery | ScreenTenant
  | ScreenAgents

fun screen_as_str :: "UiScreen \<Rightarrow> string" where
  "screen_as_str ScreenLogin = ''login''"
| "screen_as_str ScreenSignup = ''signup''"
| "screen_as_str ScreenAccount = ''account''"
| "screen_as_str ScreenPasswordForgot = ''password_forgot''"
| "screen_as_str ScreenPasswordReset = ''password_reset''"
| "screen_as_str ScreenPasswordChange = ''password_change''"
| "screen_as_str ScreenEmailVerification = ''email_verification''"
| "screen_as_str ScreenAccountLinks = ''account_links''"
| "screen_as_str ScreenProfile = ''profile''"
| "screen_as_str ScreenDevices = ''devices''"
| "screen_as_str ScreenSessions = ''sessions''"
| "screen_as_str ScreenMfa = ''mfa''"
| "screen_as_str ScreenPasskeys = ''passkeys''"
| "screen_as_str ScreenRecovery = ''recovery''"
| "screen_as_str ScreenTenant = ''tenant''"
| "screen_as_str ScreenAgents = ''agents''"

definition screen_parse :: "string \<Rightarrow> UiScreen option" where
  "screen_parse v = map_of
     [(''login'', ScreenLogin), (''signup'', ScreenSignup),
      (''account'', ScreenAccount), (''password_forgot'', ScreenPasswordForgot),
      (''password_reset'', ScreenPasswordReset), (''password_change'', ScreenPasswordChange),
      (''email_verification'', ScreenEmailVerification), (''account_links'', ScreenAccountLinks),
      (''profile'', ScreenProfile), (''devices'', ScreenDevices),
      (''sessions'', ScreenSessions), (''mfa'', ScreenMfa),
      (''passkeys'', ScreenPasskeys), (''recovery'', ScreenRecovery),
      (''tenant'', ScreenTenant), (''agents'', ScreenAgents)] v"

text \<open>The derived order of the enum: declaration order.\<close>

fun screen_index :: "UiScreen \<Rightarrow> nat" where
  "screen_index ScreenLogin = 0"
| "screen_index ScreenSignup = 1"
| "screen_index ScreenAccount = 2"
| "screen_index ScreenPasswordForgot = 3"
| "screen_index ScreenPasswordReset = 4"
| "screen_index ScreenPasswordChange = 5"
| "screen_index ScreenEmailVerification = 6"
| "screen_index ScreenAccountLinks = 7"
| "screen_index ScreenProfile = 8"
| "screen_index ScreenDevices = 9"
| "screen_index ScreenSessions = 10"
| "screen_index ScreenMfa = 11"
| "screen_index ScreenPasskeys = 12"
| "screen_index ScreenRecovery = 13"
| "screen_index ScreenTenant = 14"
| "screen_index ScreenAgents = 15"

lemma screen_index_inject: "screen_index a = screen_index b \<Longrightarrow> a = b"
  by (cases a; cases b; simp)

record UiScreenOverride =
  o_screen :: UiScreen
  o_mode :: AuthUiMode

record AuthUiConfig =
  ui_renderer :: ExperienceRenderer
  ui_mode :: AuthUiMode
  ui_theme :: string
  ui_screens :: "UiScreenOverride list"

definition ui_default :: AuthUiConfig where
  "ui_default = \<lparr>ui_renderer = RenderGenerated, ui_mode = UiDefault,
     ui_theme = ''authboundry-default'', ui_screens = []\<rparr>"

definition ui_canonical_form :: "AuthUiConfig \<Rightarrow> AuthUiConfig" where
  "ui_canonical_form ui =
     (let screens = remdups_adj
            (sort_key (\<lambda>ov. (screen_index (o_screen ov), ui_mode_index (o_mode ov))) (ui_screens ui))
      in \<lparr>ui_renderer = ui_renderer ui,
          ui_mode = (if list_ex (\<lambda>ov. o_mode ov = UiCustom) screens then UiCustom else UiDefault),
          ui_theme = ui_theme ui, ui_screens = screens\<rparr>)"

definition mode_for :: "AuthUiConfig \<Rightarrow> UiScreen \<Rightarrow> AuthUiMode" where
  "mode_for ui screen = (case find (\<lambda>ov. o_screen ov = screen) (ui_screens ui) of
     Some ov \<Rightarrow> o_mode ov | None \<Rightarrow> UiDefault)"

fun reject_seen_screens :: "UiScreen list \<Rightarrow> UiScreenOverride list \<Rightarrow> AuthConfigError + unit" where
  "reject_seen_screens seen [] = Inr ()"
| "reject_seen_screens seen (v # vs) =
     (if o_screen v \<in> set seen
      then Inl (''duplicate ui screen '' @ in_backticks (screen_as_str (o_screen v)))
      else reject_seen_screens (o_screen v # seen) vs)"

definition ui_validate :: "AuthUiConfig \<Rightarrow> AuthConfigError + unit" where
  "ui_validate ui =
     rbind (reject_seen_screens [] (ui_screens ui))
       (\<lambda>_. check (trim (ui_theme ui) \<noteq> []) ''ui theme cannot be empty'')"

definition ui_canonical :: "AuthUiConfig \<Rightarrow> string" where
  "ui_canonical ui =
     ''ui=mode:'' @ renderer_as_str (ui_renderer ui) @ '';theme:'' @ ui_theme ui @ '';screens:''
     @ concat (map (\<lambda>ov. screen_as_str (o_screen ov) @ ''='' @ ui_mode_as_str (o_mode ov) @ '','')
         (ui_screens ui)) @ '';''"

subsection \<open>Passwords, storage and mail\<close>

record PasswordPolicy =
  pw_min_length :: nat
  pw_max_length :: nat
  pw_require_uppercase :: bool
  pw_require_lowercase :: bool
  pw_require_number :: bool
  pw_require_special_character :: bool
  pw_expiration_days :: "u32 option"
  pw_history_count :: nat
  pw_allow_change :: bool
  pw_allow_reset :: bool

definition password_policy_default :: PasswordPolicy where
  "password_policy_default = \<lparr>pw_min_length = 12, pw_max_length = 128,
     pw_require_uppercase = False, pw_require_lowercase = False, pw_require_number = False,
     pw_require_special_character = False, pw_expiration_days = None, pw_history_count = 5,
     pw_allow_change = True, pw_allow_reset = True\<rparr>"

definition password_policy_validate :: "PasswordPolicy \<Rightarrow> AuthConfigError + unit" where
  "password_policy_validate pw =
     rbind (check (pw_min_length pw \<noteq> 0) ''password min_length must be at least 1'') (\<lambda>_.
     check (\<not> pw_max_length pw < pw_min_length pw)
       ''password max_length must be greater than or equal to min_length'')"

definition password_policy_canonical :: "PasswordPolicy \<Rightarrow> string" where
  "password_policy_canonical pw =
     ''pwd_policy=min:'' @ show_nat (pw_min_length pw) @ '';max:'' @ show_nat (pw_max_length pw)
     @ '';upper:'' @ show_bool (pw_require_uppercase pw)
     @ '';lower:'' @ show_bool (pw_require_lowercase pw)
     @ '';number:'' @ show_bool (pw_require_number pw)
     @ '';special:'' @ show_bool (pw_require_special_character pw)
     @ '';expiration:'' @ (case pw_expiration_days pw of
          Some days \<Rightarrow> show_nat (unat days) | None \<Rightarrow> ''null'')
     @ '';history:'' @ show_nat (pw_history_count pw)
     @ '';change:'' @ show_bool (pw_allow_change pw)
     @ '';reset:'' @ show_bool (pw_allow_reset pw) @ '';''"

definition revision_fingerprint :: "PasswordPolicy \<Rightarrow> string" where
  "revision_fingerprint pw = hex16 (stable_hash (password_policy_canonical pw))"

record StorageConfig =
  sc_authority :: string
  sc_audit :: string
  sc_reporting :: string

definition storage_default :: StorageConfig where
  "storage_default = \<lparr>sc_authority = ''feltdb'', sc_audit = ''feltdb'',
     sc_reporting = ''authboundry_projection''\<rparr>"

definition contains_str :: "string \<Rightarrow> string \<Rightarrow> bool" where
  "contains_str p s = list_ex (\<lambda>i. starts_with p (drop i s)) [0..<Suc (length s)]"

definition storage_validate :: "StorageConfig \<Rightarrow> AuthConfigError + unit" where
  "storage_validate sc =
     for_each (\<lambda>(name, v).
         rbind (check (trim v \<noteq> []) (''storage '' @ name @ '' provider cannot be empty'')) (\<lambda>_.
         check (\<not> (contains_str ''://'' v \<or> CHR 0x40 \<in> set v))
           (''storage '' @ name @ '' declares provider capability only, not credentials'')))
       [(''authority'', sc_authority sc), (''audit'', sc_audit sc), (''reporting'', sc_reporting sc)]"

definition storage_canonical :: "StorageConfig \<Rightarrow> string" where
  "storage_canonical sc =
     ''storage=authority:'' @ sc_authority sc @ '',audit:'' @ sc_audit sc
     @ '',reporting:'' @ sc_reporting sc @ '';''"

record MailConfig =
  ml_identities :: "(string, string) bmap"
  ml_templates :: "(string, string) bmap"

definition mail_validate :: "MailConfig \<Rightarrow> AuthConfigError + unit" where
  "mail_validate ml =
     rbind (for_each (\<lambda>r. check (bcontains (ml_identities ml) r)
              (''mail identities must declare '' @ in_backticks r)) [''auth'']) (\<lambda>_.
     for_each (\<lambda>r. check (bcontains (ml_templates ml) r)
              (''mail templates must declare '' @ in_backticks r))
       [''password_reset'', ''email_verification''])"

definition mail_canonical :: "MailConfig \<Rightarrow> string" where
  "mail_canonical ml =
     ''mail='' @ concat (map (\<lambda>(n, a). ''identity:'' @ n @ ''='' @ a @ '';'') (ml_identities ml))
     @ concat (map (\<lambda>(n, a). ''template:'' @ n @ ''='' @ a @ '';'') (ml_templates ml))"

subsection \<open>The contract\<close>

datatype ClaimKind = KindEnum "string list" | KindString | KindInteger | KindBoolean

definition claim_kind_describe :: "ClaimKind \<Rightarrow> string" where
  "claim_kind_describe k = (case k of
     KindEnum vs \<Rightarrow> join '' | '' vs | KindString \<Rightarrow> ''string'' | KindInteger \<Rightarrow> ''integer''
   | KindBoolean \<Rightarrow> ''boolean'')"

record ClaimDef =
  cd_name :: string
  cd_kind :: ClaimKind

record PolicyClaimCondition =
  pc_claim :: string
  pc_values :: "string list"

record PolicyDef =
  pd_capability :: string
  pd_tenant_current :: bool
  pd_resource :: "string option"
  pd_action :: "string option"
  pd_claims :: "PolicyClaimCondition list"

datatype IsolationMode = Strict | SharedStorageWithPolicy

definition isolation_as_str :: "IsolationMode \<Rightarrow> string" where
  "isolation_as_str m = (case m of
     Strict \<Rightarrow> ''strict'' | SharedStorageWithPolicy \<Rightarrow> ''shared_storage_with_policy'')"

definition isolation_debug :: "IsolationMode \<Rightarrow> string" where
  "isolation_debug m = (case m of
     Strict \<Rightarrow> ''Strict'' | SharedStorageWithPolicy \<Rightarrow> ''SharedStorageWithPolicy'')"

record AuthConfig =
  cf_multi_tenant :: bool
  cf_providers :: "string list"
  cf_claims :: "ClaimDef list"
  cf_isolation :: IsolationMode
  cf_agents :: bool
  cf_policies :: "PolicyDef list"
  cf_ui :: AuthUiConfig
  cf_experience :: AuthExperience
  cf_password_policy :: PasswordPolicy
  cf_storage :: StorageConfig
  cf_mail :: "MailConfig option"

definition config_default :: AuthConfig where
  "config_default = \<lparr>cf_multi_tenant = False, cf_providers = [], cf_claims = [],
     cf_isolation = Strict, cf_agents = False, cf_policies = [], cf_ui = ui_default,
     cf_experience = experience_default, cf_password_policy = password_policy_default,
     cf_storage = storage_default, cf_mail = None\<rparr>"

definition sort_enum_values :: "ClaimDef \<Rightarrow> ClaimDef" where
  "sort_enum_values c = (case cd_kind c of
     KindEnum vs \<Rightarrow> c\<lparr>cd_kind := KindEnum (sort vs)\<rparr> | _ \<Rightarrow> c)"

definition canonical :: "AuthConfig \<Rightarrow> AuthConfig" where
  "canonical c = c\<lparr>cf_providers := sort (cf_providers c),
     cf_claims := map sort_enum_values (sort_key cd_name (cf_claims c)),
     cf_policies := sort_key pd_capability (cf_policies c),
     cf_ui := ui_canonical_form (cf_ui c)\<rparr>"

definition config_claim :: "AuthConfig \<Rightarrow> string \<Rightarrow> ClaimDef option" where
  "config_claim c n = find (\<lambda>d. cd_name d = n) (cf_claims c)"

definition declares_provider :: "AuthConfig \<Rightarrow> string \<Rightarrow> bool" where
  "declares_provider c n \<longleftrightarrow> n \<in> set (cf_providers c)"

fun validate_claims :: "string list \<Rightarrow> ClaimDef list \<Rightarrow> AuthConfigError + unit" where
  "validate_claims seen [] = Inr ()"
| "validate_claims seen (c # cs) =
     (if trim (cd_name c) = [] then Inl ''claim name cannot be empty''
      else if cd_name c \<in> set seen then Inl (''duplicate claim '' @ in_backticks (cd_name c))
      else rbind (case cd_kind c of
             KindEnum vs \<Rightarrow>
               (if vs = []
                then Inl (''enum claim '' @ in_backticks (cd_name c) @ '' must have values'')
                else reject_duplicates vs ''duplicate enum value'')
           | _ \<Rightarrow> Inr ())
         (\<lambda>_. validate_claims (cd_name c # seen) cs))"

fun validate_policies :: "string list \<Rightarrow> PolicyDef list \<Rightarrow> AuthConfigError + unit" where
  "validate_policies seen [] = Inr ()"
| "validate_policies seen (p # ps) =
     (if trim (pd_capability p) = [] then Inl ''policy capability cannot be empty''
      else if pd_capability p \<in> set seen
      then Inl (''duplicate policy '' @ in_backticks (pd_capability p))
      else validate_policies (pd_capability p # seen) ps)"

definition config_validate :: "AuthConfig \<Rightarrow> AuthConfigError + unit" where
  "config_validate c =
     rbind (check (cf_providers c \<noteq> []) ''missing providers'') (\<lambda>_.
     rbind (reject_duplicates (cf_providers c) ''duplicate provider'') (\<lambda>_.
     rbind (for_each (\<lambda>p. check (trim p \<noteq> []) ''provider name cannot be empty'')
              (cf_providers c)) (\<lambda>_.
     rbind (validate_claims [] (cf_claims c)) (\<lambda>_.
     rbind (validate_policies [] (cf_policies c)) (\<lambda>_.
     rbind (ui_validate (cf_ui c)) (\<lambda>_.
     rbind (experience_validate (cf_experience c)) (\<lambda>_.
     rbind (password_policy_validate (cf_password_policy c)) (\<lambda>_.
     rbind (storage_validate (cf_storage c)) (\<lambda>_.
     (case cf_mail c of Some ml \<Rightarrow> mail_validate ml | None \<Rightarrow> Inr ()))))))))))"

definition claim_canonical :: "ClaimDef \<Rightarrow> string" where
  "claim_canonical c = cd_name c @ '':'' @ (case cd_kind c of
       KindEnum vs \<Rightarrow> ''enum['' @ concat (map (\<lambda>v. v @ '','') vs) @ '']''
     | KindString \<Rightarrow> ''string'' | KindInteger \<Rightarrow> ''integer'' | KindBoolean \<Rightarrow> ''boolean'') @ '';''"

definition policy_canonical :: "PolicyDef \<Rightarrow> string" where
  "policy_canonical p = pd_capability p @ '':''
     @ (if pd_tenant_current p then ''tenant=current;'' else [])
     @ (case pd_resource p of Some r \<Rightarrow> ''resource='' @ r @ '';'' | None \<Rightarrow> [])
     @ (case pd_action p of Some a \<Rightarrow> ''action='' @ a @ '';'' | None \<Rightarrow> [])
     @ concat (map (\<lambda>k. pc_claim k @ ''='' @ concat (map (\<lambda>v. v @ '','') (pc_values k)) @ '';'')
         (pd_claims p))"

definition write_canonical :: "AuthConfig \<Rightarrow> string" where
  "write_canonical c =
     ''multi_tenant='' @ show_bool (cf_multi_tenant c) @ '';''
     @ ''providers='' @ concat (map (\<lambda>p. p @ '','') (cf_providers c))
     @ '';isolation='' @ isolation_debug (cf_isolation c) @ '';claims=''
     @ concat (map claim_canonical (cf_claims c))
     @ ''agents='' @ show_bool (cf_agents c) @ '';''
     @ ''policies='' @ concat (map policy_canonical (cf_policies c))
     @ ui_canonical (cf_ui c) @ experience_canonical (cf_experience c)
     @ password_policy_canonical (cf_password_policy c) @ storage_canonical (cf_storage c)
     @ (case cf_mail c of Some ml \<Rightarrow> mail_canonical ml | None \<Rightarrow> [])"

definition fingerprint :: "AuthConfig \<Rightarrow> string" where
  "fingerprint c = hex16 (stable_hash (write_canonical (canonical c)))"

subsection \<open>Facts of validation\<close>

lemma check_Inr [simp]: "check b e = Inr u \<longleftrightarrow> b"
  by (simp add: check_def)

lemma for_each_Inr [simp]: "for_each f xs = Inr () \<longleftrightarrow> (\<forall>x \<in> set xs. f x = Inr ())"
  by (induction xs) (auto simp: rbind_Inr)

lemma reject_seen_Inr: "reject_seen seen vs msg = Inr () \<longleftrightarrow> distinct vs \<and> set seen \<inter> set vs = {}"
  by (induction vs arbitrary: seen) auto

lemma reject_duplicates_Inr [simp]: "reject_duplicates vs msg = Inr () \<longleftrightarrow> distinct vs"
  by (simp add: reject_duplicates_def reject_seen_Inr)

lemma reject_seen_screens_Inr:
  "reject_seen_screens seen vs = Inr () \<longleftrightarrow>
     distinct (map o_screen vs) \<and> set seen \<inter> o_screen ` set vs = {}"
  by (induction vs arbitrary: seen) auto

definition claim_def_ok :: "ClaimDef \<Rightarrow> bool" where
  "claim_def_ok c \<longleftrightarrow> trim (cd_name c) \<noteq> []
     \<and> (case cd_kind c of KindEnum vs \<Rightarrow> vs \<noteq> [] \<and> distinct vs | _ \<Rightarrow> True)"

lemma validate_claims_Inr:
  "validate_claims seen cs = Inr () \<longleftrightarrow>
     (\<forall>c \<in> set cs. claim_def_ok c) \<and> distinct (map cd_name cs) \<and> set seen \<inter> cd_name ` set cs = {}"
  by (induction cs arbitrary: seen) (auto simp: claim_def_ok_def rbind_Inr split: ClaimKind.splits)

lemma validate_policies_Inr:
  "validate_policies seen ps = Inr () \<longleftrightarrow>
     (\<forall>p \<in> set ps. trim (pd_capability p) \<noteq> []) \<and> distinct (map pd_capability ps)
     \<and> set seen \<inter> pd_capability ` set ps = {}"
  by (induction ps arbitrary: seen) auto

definition provider_declaration_ok :: "string \<Rightarrow> bool" where
  "provider_declaration_ok v \<longleftrightarrow> trim v \<noteq> [] \<and> \<not> contains_str ''://'' v \<and> CHR 0x40 \<notin> set v"

text \<open>The specification of a contract that can be built.\<close>

definition contract_ok :: "AuthConfig \<Rightarrow> bool" where
  "contract_ok c \<longleftrightarrow>
     cf_providers c \<noteq> [] \<and> distinct (cf_providers c)
     \<and> list_all (\<lambda>p. trim p \<noteq> []) (cf_providers c)
     \<and> list_all claim_def_ok (cf_claims c) \<and> distinct (map cd_name (cf_claims c))
     \<and> list_all (\<lambda>p. trim (pd_capability p) \<noteq> []) (cf_policies c)
     \<and> distinct (map pd_capability (cf_policies c))
     \<and> distinct (map o_screen (ui_screens (cf_ui c))) \<and> trim (ui_theme (cf_ui c)) \<noteq> []
     \<and> (experience_enabled (cf_experience c) ExpSignIn
        \<or> experience_enabled (cf_experience c) ExpSignUp)
     \<and> 0 < pw_min_length (cf_password_policy c)
     \<and> pw_min_length (cf_password_policy c) \<le> pw_max_length (cf_password_policy c)
     \<and> provider_declaration_ok (sc_authority (cf_storage c))
     \<and> provider_declaration_ok (sc_audit (cf_storage c))
     \<and> provider_declaration_ok (sc_reporting (cf_storage c))
     \<and> (case cf_mail c of None \<Rightarrow> True
        | Some ml \<Rightarrow> bcontains (ml_identities ml) ''auth''
            \<and> bcontains (ml_templates ml) ''password_reset''
            \<and> bcontains (ml_templates ml) ''email_verification'')"

lemma config_validate_Inr [simp]: "config_validate c = Inr () \<longleftrightarrow> contract_ok c"
  by (auto simp: config_validate_def contract_ok_def rbind_Inr validate_claims_Inr
      validate_policies_Inr ui_validate_def reject_seen_screens_Inr experience_validate_def
      experience_enabled_def is_invokable_def password_policy_validate_def storage_validate_def
      provider_declaration_ok_def mail_validate_def list_all_iff split: option.splits)

text \<open>
  Validation accepts exactly the well-formed contracts: at least one provider, no blank
  or repeated provider, claim, enum value, policy or screen, a usable experience, a consistent
  password policy, storage that names providers and carries no credentials, and the mail
  identities and templates the ceremonies need.
\<close>

theorem config_validate_spec:
  "(config_validate c = Inr () \<longleftrightarrow> contract_ok c) \<and> (isl (config_validate c) \<longleftrightarrow> \<not> contract_ok c)"
proof (cases "config_validate c")
  case (Inl e)
  with config_validate_Inr [of c] show ?thesis by (simp del: config_validate_Inr)
next
  case (Inr u)
  with config_validate_Inr [of c] show ?thesis by (simp del: config_validate_Inr)
qed

subsection \<open>Facts of the canonical form\<close>

lemma remdups_adj_no_repeat:
  "(\<And>i. Suc i < length xs \<Longrightarrow> xs ! i \<noteq> xs ! Suc i) \<Longrightarrow> remdups_adj xs = xs"
proof (induction xs rule: remdups_adj.induct)
  case (3 x y xs)
  have "x \<noteq> y" using "3.prems" [of 0] by simp
  moreover have "remdups_adj (y # xs) = y # xs"
    using "3.IH"(2) [OF \<open>x \<noteq> y\<close>] "3.prems" [of "Suc _"] by simp
  ultimately show ?case by simp
qed simp_all

lemma remdups_adj_idem: "remdups_adj (remdups_adj xs) = remdups_adj xs"
  by (rule remdups_adj_no_repeat) (rule remdups_adj_adjacent)

lemma sorted_map_remdups_adj: "sorted (map f xs) \<Longrightarrow> sorted (map f (remdups_adj xs))"
  by (induction xs rule: remdups_adj.induct) auto

lemma sort_key_perm:
  assumes "mset xs = mset ys" "distinct (map f xs)"
  shows "sort_key f xs = sort_key f ys"
proof (rule map_sorted_distinct_set_unique [where f = f])
  have set: "set xs = set ys" using assms(1) by (rule mset_eq_setD)
  have "mset (map f xs) = mset (map f ys)" using assms(1) by simp
  then have d: "distinct (map f ys)" using assms(2) mset_eq_imp_distinct_iff by blast
  show "inj_on f (set (sort_key f xs) \<union> set (sort_key f ys))"
    using assms(2) by (simp add: set distinct_map)
  show "distinct (map f (sort_key f xs))" "distinct (map f (sort_key f ys))"
    using assms(2) d by (simp_all add: distinct_map)
  show "set (sort_key f xs) = set (sort_key f ys)" by (simp add: set)
qed simp_all

lemma cd_name_sort_enum_values [simp]: "cd_name (sort_enum_values c) = cd_name c"
  by (simp add: sort_enum_values_def split: ClaimKind.split)

lemma sort_key_idem [simp]: "sort_key f (sort_key f xs) = sort_key f xs"
  by (rule sort_key_id_if_sorted) simp

lemma sort_enum_values_idem [simp]: "sort_enum_values (sort_enum_values c) = sort_enum_values c"
  using sort_key_idem [of "\<lambda>x. x"] by (simp add: sort_enum_values_def split: ClaimKind.split)

lemma map_sort_key_commute:
  assumes "\<And>x. f (g x) = f x"
  shows "map g (sort_key f xs) = sort_key f (map g xs)"
proof -
  have "map g (insort_key f x ys) = insort_key f (g x) (map g ys)" for x ys
    by (induction ys) (simp_all add: assms)
  then show ?thesis by (induction xs) simp_all
qed

lemma ui_canonical_form_idem: "ui_canonical_form (ui_canonical_form ui) = ui_canonical_form ui"
proof -
  have "sort_key f (remdups_adj (sort_key f xs)) = remdups_adj (sort_key f xs)"
    for f :: "UiScreenOverride \<Rightarrow> nat \<times> nat" and xs
    by (rule sort_key_id_if_sorted) (simp add: sorted_map_remdups_adj)
  then show ?thesis by (simp add: ui_canonical_form_def Let_def remdups_adj_idem)
qed

text \<open>
  Two declarations that differ in nothing but the order of their providers, claims, enum
  values, policies and screens.
\<close>

definition reordered :: "AuthConfig \<Rightarrow> AuthConfig \<Rightarrow> bool" where
  "reordered c d \<longleftrightarrow>
     mset (cf_providers c) = mset (cf_providers d)
     \<and> mset (map sort_enum_values (cf_claims c)) = mset (map sort_enum_values (cf_claims d))
     \<and> mset (cf_policies c) = mset (cf_policies d)
     \<and> mset (ui_screens (cf_ui c)) = mset (ui_screens (cf_ui d))
     \<and> ui_renderer (cf_ui c) = ui_renderer (cf_ui d) \<and> ui_theme (cf_ui c) = ui_theme (cf_ui d)
     \<and> cf_multi_tenant c = cf_multi_tenant d \<and> cf_isolation c = cf_isolation d
     \<and> cf_agents c = cf_agents d \<and> cf_experience c = cf_experience d
     \<and> cf_password_policy c = cf_password_policy d \<and> cf_storage c = cf_storage d
     \<and> cf_mail c = cf_mail d"

lemma canonical_idem: "canonical (canonical c) = canonical c"
proof -
  have "sort_key cd_name (map sort_enum_values (sort_key cd_name cs))
      = map sort_enum_values (sort_key cd_name cs)" for cs
    by (simp add: map_sort_key_commute)
  then show ?thesis
    using sort_key_idem [of "\<lambda>x. x"] by (simp add: canonical_def ui_canonical_form_idem o_def)
qed

lemma canonical_reordered:
  assumes "config_validate c = Inr ()" "reordered c d"
  shows "canonical c = canonical d"
proof -
  have "cf_providers (canonical c) = cf_providers (canonical d)"
    using assms(2) by (simp add: canonical_def reordered_def properties_for_sort)
  moreover have "cf_claims (canonical c) = cf_claims (canonical d)"
    unfolding canonical_def using assms
    by (simp add: map_sort_key_commute reordered_def)
      (rule sort_key_perm, simp, simp add: contract_ok_def o_def)
  moreover have "cf_policies (canonical c) = cf_policies (canonical d)"
    unfolding canonical_def using assms
    by (simp add: reordered_def) (rule sort_key_perm, simp, simp add: contract_ok_def)
  moreover have "sort_key (\<lambda>ov. (screen_index (o_screen ov), ui_mode_index (o_mode ov)))
        (ui_screens (cf_ui c))
      = sort_key (\<lambda>ov. (screen_index (o_screen ov), ui_mode_index (o_mode ov)))
        (ui_screens (cf_ui d))"
  proof (rule sort_key_perm)
    show "mset (ui_screens (cf_ui c)) = mset (ui_screens (cf_ui d))"
      using assms(2) by (simp add: reordered_def)
    have "distinct (map o_screen (ui_screens (cf_ui c)))"
      using assms(1) by (simp add: contract_ok_def)
    then show "distinct (map (\<lambda>ov. (screen_index (o_screen ov), ui_mode_index (o_mode ov)))
        (ui_screens (cf_ui c)))"
      by (auto simp: distinct_map inj_on_def dest!: screen_index_inject)
  qed
  then have "cf_ui (canonical c) = cf_ui (canonical d)"
    using assms(2) by (simp add: canonical_def ui_canonical_form_def reordered_def Let_def)
  ultimately show ?thesis
    using assms(2) by (simp add: canonical_def reordered_def)
qed

text \<open>
  The canonical form is canonical: it is its own canonical form, and two declarations
  that differ only in the order of providers, claims, enum values, policies and screens have
  the same canonical form and so the same fingerprint, if one of them is valid.
\<close>

theorem canonical_form_is_canonical:
  "canonical (canonical c) = canonical c
   \<and> (config_validate c = Inr () \<and> reordered c d
        \<longrightarrow> canonical c = canonical d \<and> fingerprint c = fingerprint d)"
  using canonical_reordered [of c d] by (auto simp: canonical_idem fingerprint_def)

definition sample_contract :: "string list \<Rightarrow> AuthConfig" where
  "sample_contract ps = config_default\<lparr>cf_providers := ps\<rparr>"

lemma contains_strD: "contains_str p s \<Longrightarrow> set p \<subseteq> set s"
  by (auto simp: contains_str_def list_ex_iff dest!: starts_withD in_set_dropD)
    (metis Un_iff in_set_dropD set_append)

lemma sample_contracts_valid:
  "config_validate (sample_contract [''github,local'']) = Inr ()"
  "config_validate (sample_contract [''github'', ''local'']) = Inr ()"
proof -
  have "trim ''github,local'' = ''github,local''" "trim ''github'' = ''github''"
    "trim ''local'' = ''local''" "trim ''authboundry-default'' = ''authboundry-default''"
    by (simp_all add: trim_plain plain_def)
  moreover have "provider_declaration_ok ''feltdb''"
    "provider_declaration_ok ''authboundry_projection''"
    by (auto simp: provider_declaration_ok_def trim_plain plain_def dest: contains_strD)
  ultimately show "config_validate (sample_contract [''github,local'']) = Inr ()"
    "config_validate (sample_contract [''github'', ''local'']) = Inr ()"
    by (simp_all add: contract_ok_def config_default_def ui_default_def storage_default_def
        experience_default_def password_policy_default_def experience_enabled_def is_invokable_def
        sample_contract_def)
qed

theorem canonical_form_is_canonical_witness:
  "fingerprint (sample_contract [''github'', ''local''])
     = fingerprint (sample_contract [''local'', ''github''])"
proof -
  have "reordered (sample_contract [''github'', ''local'']) (sample_contract [''local'', ''github''])"
    by (simp add: reordered_def sample_contract_def)
  with canonical_form_is_canonical sample_contracts_valid(2) show ?thesis by blast
qed

text \<open>
  The fingerprint does not determine the contract: the canonical rendering separates
  names with characters that names may contain, so two valid contracts with different
  providers have the same rendering and the same fingerprint.
\<close>

theorem fingerprint_conflates_contracts:
  "\<exists>c d. config_validate c = Inr () \<and> config_validate d = Inr ()
     \<and> set (cf_providers (canonical c)) \<noteq> set (cf_providers (canonical d))
     \<and> fingerprint c = fingerprint d"
proof -
  let ?c = "sample_contract [''github,local'']"
  let ?d = "sample_contract [''github'', ''local'']"
  have "write_canonical (canonical ?c) = write_canonical (canonical ?d)"
    by (simp add: write_canonical_def canonical_def config_default_def sample_contract_def)
  then have "fingerprint ?c = fingerprint ?d" by (simp add: fingerprint_def)
  moreover have "set (cf_providers (canonical ?c)) \<noteq> set (cf_providers (canonical ?d))"
    by (auto simp: canonical_def sample_contract_def)
  ultimately show ?thesis using sample_contracts_valid by blast
qed

text \<open>
  Names of experiences, experience states, renderers and screens parse back to what they
  name, and setting the state of one experience changes that one and no other.
\<close>

theorem names_roundtrip:
  "experience_parse (experience_as_str e) = Some e
   \<and> experience_state_parse (experience_state_as_str st) = Some st
   \<and> renderer_parse (renderer_as_str r) = Some r
   \<and> screen_parse (screen_as_str s) = Some s
   \<and> experience_state (experience_set x e st) e' = (if e' = e then st else experience_state x e')"
proof (intro conjI)
  show "experience_parse (experience_as_str e) = Some e"
    by (cases e) (simp_all add: experience_parse_def)
  show "experience_state_parse (experience_state_as_str st) = Some st"
    by (cases st) (simp_all add: experience_state_parse_def)
  show "renderer_parse (renderer_as_str r) = Some r"
    by (cases r) (simp_all add: renderer_parse_def)
  show "screen_parse (screen_as_str s) = Some s"
    by (cases s) (simp_all add: screen_parse_def)
  show "experience_state (experience_set x e st) e' = (if e' = e then st else experience_state x e')"
    by (cases e; cases e'; simp)
qed

end
