(* ===== verification/Contract.thy ===== *)
theory Contract
  imports Prelude
begin

text \<open>
  The contract crate (\<^verbatim>\<open>crates/contract/src\<close>): identifiers, claims, principals,
  tenants, delegations with their resource scopes, agent runs, recovery capabilities and the
  authentication ceremony, with the methods the crate defines on them. Identifiers are
  newtypes over \<^verbatim>\<open>String\<close> in the source and strings here. \<^verbatim>\<open>i64\<close> timestamps are
  integers.
\<close>

subsection \<open>Identifiers, claims and versions\<close>

type_synonym TenantId = string
type_synonym PrincipalId = string
type_synonym IdentityId = string
type_synonym SessionId = string
type_synonym PolicyId = string
type_synonym StorageRootId = string
type_synonym ProviderName = string
type_synonym ProviderSubject = string
type_synonym Capability = string
type_synonym DelegationId = string
type_synonym AuditEventId = string
type_synonym RunId = string
type_synonym TaskId = string
type_synonym ExecutionCredentialId = string

datatype ClaimValue = CEnum string | CString string | CInteger int | CBoolean bool

type_synonym Claims = "(string, ClaimValue) bmap"

record ContractVersion =
  major :: u32
  minor :: u32

record OfflineSemantics =
  max_age_seconds :: u64
  must_revalidate :: bool

record Identity =
  i_id :: IdentityId
  i_provider :: ProviderName
  i_provider_subject :: ProviderSubject
  i_tenant_id :: TenantId
  i_claims :: Claims
  i_version :: ContractVersion
  i_offline :: OfflineSemantics

subsection \<open>Tenants\<close>

record Tenant =
  tn_id :: TenantId
  tn_namespace :: string
  tn_policy_id :: PolicyId
  tn_storage_root_id :: StorageRootId

record TenantContext =
  t_id :: TenantId
  t_namespace :: string
  t_policy_id :: PolicyId
  t_storage_root_id :: StorageRootId

definition tenant_context_from :: "Tenant \<Rightarrow> TenantContext" where
  "tenant_context_from tn =
     \<lparr>t_id = tn_id tn, t_namespace = tn_namespace tn, t_policy_id = tn_policy_id tn,
      t_storage_root_id = tn_storage_root_id tn\<rparr>"

subsection \<open>Principals\<close>

datatype PrincipalKind = Human | Agent | Service

datatype AgentState = StateCreated | StateActive | StateSuspended | StateRevoked | StateRetired

record Principal =
  p_id :: PrincipalId
  p_kind :: PrincipalKind
  p_tenant_id :: TenantId
  p_claims :: Claims
  p_version :: ContractVersion
  p_agent_state :: "AgentState option"

definition principal_human :: "PrincipalId \<Rightarrow> TenantId \<Rightarrow> Claims \<Rightarrow> ContractVersion \<Rightarrow> Principal" where
  "principal_human i t c v =
     \<lparr>p_id = i, p_kind = Human, p_tenant_id = t, p_claims = c, p_version = v,
      p_agent_state = None\<rparr>"

definition principal_agent ::
  "PrincipalId \<Rightarrow> TenantId \<Rightarrow> Claims \<Rightarrow> ContractVersion \<Rightarrow> AgentState \<Rightarrow> Principal" where
  "principal_agent i t c v st =
     \<lparr>p_id = i, p_kind = Agent, p_tenant_id = t, p_claims = c, p_version = v,
      p_agent_state = Some st\<rparr>"

definition principal_service :: "PrincipalId \<Rightarrow> TenantId \<Rightarrow> Claims \<Rightarrow> ContractVersion \<Rightarrow> Principal" where
  "principal_service i t c v =
     \<lparr>p_id = i, p_kind = Service, p_tenant_id = t, p_claims = c, p_version = v,
      p_agent_state = None\<rparr>"

record AgentCredential =
  ac_id :: string
  ac_agent :: PrincipalId
  ac_tenant_id :: TenantId
  ac_secret_hash :: string
  ac_created_at :: int
  ac_revoked_at :: "int option"

definition credential_is_valid_at :: "AgentCredential \<Rightarrow> Principal \<Rightarrow> int \<Rightarrow> bool" where
  "credential_is_valid_at c agent now \<longleftrightarrow>
     p_kind agent = Agent
     \<and> p_tenant_id agent = ac_tenant_id c
     \<and> p_id agent = ac_agent c
     \<and> p_agent_state agent = Some StateActive
     \<and> (case ac_revoked_at c of Some revoked_at \<Rightarrow> now < revoked_at | None \<Rightarrow> True)"

subsection \<open>Resource scopes\<close>

record ResourceScope =
  rs_resource_type :: "string option"
  rs_resource_id :: "string option"
  rs_attributes :: "(string, ClaimValue) bmap"

definition scope_any :: ResourceScope where
  "scope_any = \<lparr>rs_resource_type = None, rs_resource_id = None, rs_attributes = []\<rparr>"

definition scope_resource :: "string \<Rightarrow> ResourceScope" where
  "scope_resource ty = \<lparr>rs_resource_type = Some ty, rs_resource_id = None, rs_attributes = []\<rparr>"

definition scope_exact :: "string \<Rightarrow> string \<Rightarrow> ResourceScope" where
  "scope_exact ty i = \<lparr>rs_resource_type = Some ty, rs_resource_id = Some i, rs_attributes = []\<rparr>"

definition with_attribute :: "ResourceScope \<Rightarrow> string \<Rightarrow> ClaimValue \<Rightarrow> ResourceScope" where
  "with_attribute sc k v = sc\<lparr>rs_attributes := binsert k v (rs_attributes sc)\<rparr>"

definition is_unconstrained :: "ResourceScope \<Rightarrow> bool" where
  "is_unconstrained sc \<longleftrightarrow>
     rs_resource_type sc = None \<and> rs_resource_id sc = None \<and> rs_attributes sc = []"

definition is_subset_of :: "ResourceScope \<Rightarrow> ResourceScope \<Rightarrow> bool" where
  "is_subset_of sc parent \<longleftrightarrow>
     (case rs_resource_type parent of
        Some ty \<Rightarrow> rs_resource_type sc = Some ty | None \<Rightarrow> True)
     \<and> (case rs_resource_id parent of
        Some i \<Rightarrow> rs_resource_id sc = Some i | None \<Rightarrow> True)
     \<and> list_all (\<lambda>(k, v). map_of (rs_attributes sc) k = Some v) (rs_attributes parent)"

subsection \<open>Delegations\<close>

datatype DelegationStatus =
  DelegationActive | DelegationPending | DelegationExpired | DelegationRevoked

record Delegation =
  d_id :: DelegationId
  d_delegator :: PrincipalId
  d_delegate :: PrincipalId
  d_tenant_id :: TenantId
  d_capabilities :: "Capability list"
  d_resource_scope :: ResourceScope
  d_issued_at :: int
  d_expires_at :: "int option"
  d_revoked_at :: "int option"
  d_chain :: "DelegationId list"

definition status_at :: "Delegation \<Rightarrow> int \<Rightarrow> DelegationStatus" where
  "status_at d now =
     (if d_revoked_at d \<noteq> None then DelegationRevoked
      else if d_issued_at d > now then DelegationPending
      else if (case d_expires_at d of Some expires_at \<Rightarrow> now \<ge> expires_at | None \<Rightarrow> False)
      then DelegationExpired
      else DelegationActive)"

definition is_valid_at :: "Delegation \<Rightarrow> int \<Rightarrow> bool" where
  "is_valid_at d now \<longleftrightarrow> status_at d now = DelegationActive"

subsection \<open>Agent runs\<close>

record TaskSpec =
  ts_id :: TaskId
  ts_purpose :: string
  ts_capabilities :: "Capability list"
  ts_resource_scope :: ResourceScope
  ts_expires_at :: int
  ts_constraints :: "string list"

datatype RunStatus = StatusActive | StatusCompleted | StatusCancelled | StatusExpired | StatusFailed

definition run_status_as_str :: "RunStatus \<Rightarrow> string" where
  "run_status_as_str s = (case s of
     StatusActive \<Rightarrow> ''active'' | StatusCompleted \<Rightarrow> ''completed'' | StatusCancelled \<Rightarrow> ''cancelled''
   | StatusExpired \<Rightarrow> ''expired'' | StatusFailed \<Rightarrow> ''failed'')"

record AgentRun =
  r_id :: RunId
  r_tenant_id :: TenantId
  r_agent_principal :: PrincipalId
  r_delegator :: PrincipalId
  r_delegation_id :: DelegationId
  r_delegation_chain :: "DelegationId list"
  r_task :: TaskSpec
  r_parent_run_id :: "RunId option"
  r_created_at :: int
  r_expires_at :: int
  r_status :: RunStatus
  r_authority_revision :: u64
  r_contract_fingerprint :: string
  r_capability_scope :: "Capability list"
  r_resource_scope :: ResourceScope
  r_execution_credential :: ExecutionCredentialId
  r_cancelled_at :: "int option"

subsection \<open>Agents and devices\<close>

record AgentProfile =
  a_id :: string
  a_principal_id :: PrincipalId
  a_tenant_id :: TenantId
  a_name :: string
  a_status :: AgentState
  a_created_by :: PrincipalId
  a_created_at :: int

datatype DeviceType = Browser | Mobile | Desktop | Cli | HardwareAuthenticator | OtherDevice string

datatype DeviceStatus = DeviceActive | DeviceRevoked | DevicePending

record Device =
  dv_id :: string
  dv_principal :: PrincipalId
  dv_device_type :: DeviceType
  dv_name :: string
  dv_created_at :: int
  dv_last_seen_at :: "int option"
  dv_status :: DeviceStatus

subsection \<open>Recovery capabilities\<close>

datatype CapabilityKind = PasswordReset | EmailVerification

definition capability_kind_as_str :: "CapabilityKind \<Rightarrow> string" where
  "capability_kind_as_str k = (case k of
     PasswordReset \<Rightarrow> ''password_reset'' | EmailVerification \<Rightarrow> ''email_verification'')"

record RecoveryCapability =
  rc_id :: string
  rc_tenant_id :: TenantId
  rc_identity_id :: IdentityId
  rc_kind :: CapabilityKind
  rc_created_at :: int
  rc_expires_at :: int
  rc_consumed_at :: "int option"
  rc_metadata :: "(string, string) bmap"

definition is_consumed :: "RecoveryCapability \<Rightarrow> bool" where
  "is_consumed c \<longleftrightarrow> rc_consumed_at c \<noteq> None"

definition is_expired :: "RecoveryCapability \<Rightarrow> int \<Rightarrow> bool" where
  "is_expired c now \<longleftrightarrow> now > rc_expires_at c"

definition is_valid :: "RecoveryCapability \<Rightarrow> int \<Rightarrow> bool" where
  "is_valid c now \<longleftrightarrow> \<not> is_consumed c \<and> \<not> is_expired c now"

subsection \<open>Authentication\<close>

datatype AuthenticationMethod =
  MethodPassword | MethodExternalIdentity | MethodPasskey | MethodMfa | MethodDeviceApproval
  | MethodQr | MethodRecovery

definition method_as_str :: "AuthenticationMethod \<Rightarrow> string" where
  "method_as_str m = (case m of
     MethodPassword \<Rightarrow> ''password''
   | MethodExternalIdentity \<Rightarrow> ''external_identity''
   | MethodPasskey \<Rightarrow> ''passkey''
   | MethodMfa \<Rightarrow> ''mfa''
   | MethodDeviceApproval \<Rightarrow> ''device_approval''
   | MethodQr \<Rightarrow> ''qr''
   | MethodRecovery \<Rightarrow> ''recovery'')"

datatype AuthenticationAssurance = Anonymous | Basic | Strong | PhishingResistant

definition assurance_as_str :: "AuthenticationAssurance \<Rightarrow> string" where
  "assurance_as_str a = (case a of
     Anonymous \<Rightarrow> ''anonymous''
   | Basic \<Rightarrow> ''basic''
   | Strong \<Rightarrow> ''strong''
   | PhishingResistant \<Rightarrow> ''phishing_resistant'')"

text \<open>The derived order of the enum: declaration order.\<close>

fun assurance_index :: "AuthenticationAssurance \<Rightarrow> nat" where
  "assurance_index Anonymous = 0"
| "assurance_index Basic = 1"
| "assurance_index Strong = 2"
| "assurance_index PhishingResistant = 3"

lemma assurance_index_inject: "assurance_index a = assurance_index b \<Longrightarrow> a = b"
  by (cases a; cases b) simp_all

instantiation AuthenticationAssurance :: linorder
begin
definition less_eq_AuthenticationAssurance ::
  "AuthenticationAssurance \<Rightarrow> AuthenticationAssurance \<Rightarrow> bool" where
  "less_eq_AuthenticationAssurance a b \<longleftrightarrow> assurance_index a \<le> assurance_index b"
definition less_AuthenticationAssurance ::
  "AuthenticationAssurance \<Rightarrow> AuthenticationAssurance \<Rightarrow> bool" where
  "less_AuthenticationAssurance a b \<longleftrightarrow> assurance_index a < assurance_index b"
instance
  by standard
    (auto simp: less_eq_AuthenticationAssurance_def less_AuthenticationAssurance_def
      intro: assurance_index_inject)
end

datatype AuthenticationCeremonyState =
  CeremonyCreated | CeremonyChallenged | CeremonyAwaitingUser | CeremonyVerified
  | CeremonyCompleted | CeremonyFailed | CeremonyExpired | CeremonyCancelled

definition ceremony_state_as_str :: "AuthenticationCeremonyState \<Rightarrow> string" where
  "ceremony_state_as_str s = (case s of
     CeremonyCreated \<Rightarrow> ''created''
   | CeremonyChallenged \<Rightarrow> ''challenged''
   | CeremonyAwaitingUser \<Rightarrow> ''awaiting_user''
   | CeremonyVerified \<Rightarrow> ''verified''
   | CeremonyCompleted \<Rightarrow> ''completed''
   | CeremonyFailed \<Rightarrow> ''failed''
   | CeremonyExpired \<Rightarrow> ''expired''
   | CeremonyCancelled \<Rightarrow> ''cancelled'')"

definition can_transition_to ::
  "AuthenticationCeremonyState \<Rightarrow> AuthenticationCeremonyState \<Rightarrow> bool" where
  "can_transition_to s nxt = (case s of
     CeremonyCreated \<Rightarrow>
       nxt \<in> {CeremonyChallenged, CeremonyAwaitingUser, CeremonyFailed, CeremonyExpired,
               CeremonyCancelled}
   | CeremonyChallenged \<Rightarrow>
       nxt \<in> {CeremonyAwaitingUser, CeremonyVerified, CeremonyFailed, CeremonyExpired,
               CeremonyCancelled}
   | CeremonyAwaitingUser \<Rightarrow>
       nxt \<in> {CeremonyVerified, CeremonyFailed, CeremonyExpired, CeremonyCancelled}
   | CeremonyVerified \<Rightarrow>
       nxt \<in> {CeremonyCompleted, CeremonyFailed, CeremonyExpired, CeremonyCancelled}
   | _ \<Rightarrow> False)"

record AuthenticationCeremony =
  ce_id :: string
  ce_method :: AuthenticationMethod
  ce_principal_hint :: "string option"
  ce_state :: AuthenticationCeremonyState
  ce_created_at :: int
  ce_expires_at :: int

definition ceremony_new ::
  "string \<Rightarrow> AuthenticationMethod \<Rightarrow> string option \<Rightarrow> int \<Rightarrow> int \<Rightarrow> AuthenticationCeremony" where
  "ceremony_new i m hint created expires =
     \<lparr>ce_id = i, ce_method = m, ce_principal_hint = hint, ce_state = CeremonyCreated,
      ce_created_at = created, ce_expires_at = expires\<rparr>"

definition transition ::
  "AuthenticationCeremonyState \<Rightarrow> (AuthenticationCeremony, string, unit) eff" where
  "transition nxt = (\<lambda>c.
     if can_transition_to (ce_state c) nxt then (Inr (), c\<lparr>ce_state := nxt\<rparr>)
     else (Inl (''cannot transition authentication ceremony from ''
                @ ceremony_state_as_str (ce_state c) @ '' to '' @ ceremony_state_as_str nxt), c))"

subsection \<open>Facts of scopes, delegations and capabilities\<close>

lemma is_subset_of_iff:
  "is_subset_of sc parent \<longleftrightarrow>
     (rs_resource_type parent \<noteq> None \<longrightarrow> rs_resource_type sc = rs_resource_type parent)
     \<and> (rs_resource_id parent \<noteq> None \<longrightarrow> rs_resource_id sc = rs_resource_id parent)
     \<and> (\<forall>k v. (k, v) \<in> set (rs_attributes parent) \<longrightarrow> map_of (rs_attributes sc) k = Some v)"
  by (auto simp: is_subset_of_def list_all_iff split: option.splits)

lemma is_subset_of_refl: "bwf (rs_attributes sc) \<Longrightarrow> is_subset_of sc sc"
  by (simp add: is_subset_of_iff bwf_distinct)

lemma is_subset_of_trans:
  assumes "is_subset_of a b" "is_subset_of b c"
  shows "is_subset_of a c"
  using assms by (auto simp: is_subset_of_iff) (meson map_of_SomeD)+

lemma is_subset_of_any: "is_subset_of sc scope_any"
  by (simp add: is_subset_of_iff scope_any_def)

lemma is_unconstrained_iff: "is_unconstrained sc \<longleftrightarrow> sc = scope_any"
  by (cases sc) (auto simp: is_unconstrained_def scope_any_def)

lemma is_valid_at_iff:
  "is_valid_at d now \<longleftrightarrow>
     d_revoked_at d = None \<and> d_issued_at d \<le> now
     \<and> (\<forall>e. d_expires_at d = Some e \<longrightarrow> now < e)"
  by (auto simp: is_valid_at_def status_at_def split: option.splits if_splits)

lemma transition_Inr:
  "transition nxt c = (Inr u, c') \<longleftrightarrow>
     can_transition_to (ce_state c) nxt \<and> c' = c\<lparr>ce_state := nxt\<rparr>"
  by (auto simp: transition_def)

subsection \<open>The ceremony lifecycle\<close>

text \<open>
  A rank that every permitted transition increases, and the effect of a series of attempted
  transitions, refused ones included.
\<close>

fun ceremony_rank :: "AuthenticationCeremonyState \<Rightarrow> nat" where
  "ceremony_rank CeremonyCreated = 0"
| "ceremony_rank CeremonyChallenged = 1"
| "ceremony_rank CeremonyAwaitingUser = 2"
| "ceremony_rank CeremonyVerified = 3"
| "ceremony_rank _ = 4"

definition attempts ::
  "AuthenticationCeremonyState list \<Rightarrow> AuthenticationCeremony \<Rightarrow> AuthenticationCeremony" where
  "attempts ns c = fold (\<lambda>nxt c. snd (transition nxt c)) ns c"

lemma can_transition_rank: "can_transition_to s t \<Longrightarrow> ceremony_rank s < ceremony_rank t"
  by (cases s) (auto simp: can_transition_to_def)

lemma can_transition_Completed: "can_transition_to s CeremonyCompleted \<Longrightarrow> s = CeremonyVerified"
  by (cases s) (auto simp: can_transition_to_def)

lemma attempts_snoc: "attempts (ns @ [n]) c = snd (transition n (attempts ns c))"
  by (simp add: attempts_def)

lemma attempts_terminal:
  assumes "ceremony_rank (ce_state c) = 4"
  shows "attempts ns c = c"
proof (induction ns rule: rev_induct)
  case Nil
  show ?case by (simp add: attempts_def)
next
  case (snoc n ns)
  have "ceremony_rank n \<le> 4" by (cases n) simp_all
  then have "\<not> can_transition_to (ce_state c) n"
    using can_transition_rank [of "ce_state c" n] assms by auto
  then show ?case by (simp add: attempts_snoc snoc transition_def)
qed

lemma attempts_Completed_through_Verified:
  assumes "ce_state (attempts ns c) = CeremonyCompleted" "ce_state c \<noteq> CeremonyCompleted"
  shows "\<exists>pre suf. ns = pre @ CeremonyCompleted # suf
           \<and> ce_state (attempts pre c) = CeremonyVerified"
  using assms
proof (induction ns rule: rev_induct)
  case Nil
  then show ?case by (simp add: attempts_def)
next
  case (snoc n ns)
  show ?case
  proof (cases "ce_state (attempts ns c) = CeremonyCompleted")
    case True
    then obtain pre suf where "ns = pre @ CeremonyCompleted # suf"
      "ce_state (attempts pre c) = CeremonyVerified"
      using snoc by blast
    then show ?thesis by (intro exI [of _ pre] exI [of _ "suf @ [n]"]) simp
  next
    case False
    then have "n = CeremonyCompleted" "can_transition_to (ce_state (attempts ns c)) n"
      using snoc.prems by (auto simp: attempts_snoc transition_def split: if_splits)
    then show ?thesis using can_transition_Completed by blast
  qed
qed

end
