(* ===== verification/AuditLog.thy ===== *)
theory AuditLog
  imports Contract "HOL-Library.Multiset"
begin

text \<open>
  The audit trail (\<^verbatim>\<open>crates/storage/src/audit_log.rs\<close> and the
  \<^verbatim>\<open>MemoryAuditLog\<close> of \<^verbatim>\<open>memory.rs\<close>): events, their canonical JSON lines,
  and the append-only log with its tenant-scoped, ordered, limited reads. The locale
  \<open>audit_log\<close> is the contract the mesh relies on when it records a decision; it is
  interpreted on the in-memory log.
\<close>

subsection \<open>Events\<close>

datatype AuditEventKind =
  KindLogin | KindLogout | KindSessionCreated | KindSessionRevoked | KindAccountLinked
  | KindClaimsUpdated | KindAuthorizationGranted | KindAuthorizationDenied
  | KindDelegationCreated | KindDelegationRevoked | KindAgentCreated | KindAgentSuspended
  | KindAgentRevoked | KindAgentRunCreated | KindAgentRunCancelled

fun kind_as_str :: "AuditEventKind \<Rightarrow> string" where
  "kind_as_str KindLogin = ''authentication.login''"
| "kind_as_str KindLogout = ''authentication.logout''"
| "kind_as_str KindSessionCreated = ''session.created''"
| "kind_as_str KindSessionRevoked = ''session.revoked''"
| "kind_as_str KindAccountLinked = ''identity.account_linked''"
| "kind_as_str KindClaimsUpdated = ''identity.claims_updated''"
| "kind_as_str KindAuthorizationGranted = ''authorization.granted''"
| "kind_as_str KindAuthorizationDenied = ''authorization.denied''"
| "kind_as_str KindDelegationCreated = ''delegation.created''"
| "kind_as_str KindDelegationRevoked = ''delegation.revoked''"
| "kind_as_str KindAgentCreated = ''agent.created''"
| "kind_as_str KindAgentSuspended = ''agent.suspended''"
| "kind_as_str KindAgentRevoked = ''agent.revoked''"
| "kind_as_str KindAgentRunCreated = ''run.created''"
| "kind_as_str KindAgentRunCancelled = ''run.cancelled''"

datatype AuditDurability = DurabilityRequired | DurabilityBestEffort | DurabilityOptional

definition durability_as_str :: "AuditDurability \<Rightarrow> string" where
  "durability_as_str d = (case d of
     DurabilityRequired \<Rightarrow> ''required''
   | DurabilityBestEffort \<Rightarrow> ''best_effort''
   | DurabilityOptional \<Rightarrow> ''optional'')"

record AuditEvent =
  au_event_id :: AuditEventId
  au_tenant_id :: TenantId
  au_principal_id :: "PrincipalId option"
  au_delegator_id :: "PrincipalId option"
  au_session_id :: "SessionId option"
  au_delegation_id :: "DelegationId option"
  au_run_id :: "RunId option"
  au_kind :: AuditEventKind
  au_timestamp :: int
  au_action :: "string option"
  au_resource :: "string option"
  au_decision :: "string option"
  au_reason :: "string option"
  au_authority_revision :: "u64 option"
  au_contract_fingerprint :: "string option"
  au_durability :: AuditDurability
  au_metadata :: "(string, string) bmap"

subsection \<open>JSON lines\<close>

definition quote :: string where "quote = [CHR 0x22]"

definition escape_char :: "char \<Rightarrow> string" where
  "escape_char ch =
     (if ch = CHR 0x5C then [CHR 0x5C, CHR 0x5C]
      else if ch = CHR 0x22 then [CHR 0x5C, CHR 0x22]
      else if ch = CHR 0x0A then [CHR 0x5C, CHR ''n'']
      else if ch = CHR 0x0D then [CHR 0x5C, CHR ''r'']
      else if ch = CHR 0x09 then [CHR 0x5C, CHR ''t'']
      else [ch])"

definition json_string :: "string \<Rightarrow> string" where
  "json_string s = quote @ concat (map escape_char s) @ quote"

definition optional_json_string :: "string option \<Rightarrow> string" where
  "optional_json_string v = (case v of Some s \<Rightarrow> json_string s | None \<Rightarrow> ''null'')"

definition json_object :: "(string \<times> string) list \<Rightarrow> string" where
  "json_object fs =
     ''{'' @ join '','' (map (\<lambda>(k, v). json_string k @ '':'' @ v) fs) @ ''}''"

definition canonical_json_line :: "AuditEvent \<Rightarrow> string" where
  "canonical_json_line e = json_object
     [(''id'', json_string (au_event_id e)),
      (''timestamp'', show_int (au_timestamp e)),
      (''tenant'', json_string (au_tenant_id e)),
      (''kind'', json_string (kind_as_str (au_kind e))),
      (''durability'', json_string (durability_as_str (au_durability e))),
      (''principal'', optional_json_string (au_principal_id e)),
      (''delegator'', optional_json_string (au_delegator_id e)),
      (''session_id'', optional_json_string (au_session_id e)),
      (''delegation_id'', optional_json_string (au_delegation_id e)),
      (''run_id'', optional_json_string (au_run_id e)),
      (''action'', optional_json_string (au_action e)),
      (''resource'', optional_json_string (au_resource e)),
      (''decision'', optional_json_string (au_decision e)),
      (''reason'', optional_json_string (au_reason e)),
      (''authority_revision'',
        (case au_authority_revision e of Some r \<Rightarrow> show_nat (unat r) | None \<Rightarrow> ''null'')),
      (''contract_fingerprint'', optional_json_string (au_contract_fingerprint e)),
      (''metadata'',
        json_object (map (\<lambda>(k, v). (k, json_string v)) (sort_key fst (au_metadata e))))]"

definition export_json_lines :: "AuditEvent list \<Rightarrow> string" where
  "export_json_lines es =
     (let out = join [CHR 0x0A] (map canonical_json_line es)
      in if out \<noteq> [] then out @ [CHR 0x0A] else out)"

subsection \<open>The in-memory log\<close>

type_synonym StorageError = string

record MemoryAuditLog =
  log_events :: "AuditEvent list"

definition audit_log_new :: MemoryAuditLog where
  "audit_log_new = \<lparr>log_events = []\<rparr>"

definition record_event ::
  "TenantContext \<Rightarrow> AuditEvent \<Rightarrow> (MemoryAuditLog, StorageError, unit) eff" where
  "record_event t e =
     andThen (require (au_tenant_id e = t_id t) ''tenant mismatch'')
       (\<lambda>_ l. (Inr (), l\<lparr>log_events := log_events l @ [e]\<rparr>))"

definition audit_events ::
  "TenantContext \<Rightarrow> int option \<Rightarrow> nat \<Rightarrow> MemoryAuditLog \<Rightarrow> AuditEvent list" where
  "audit_events t since lim l =
     (let es = filter (\<lambda>e. case since of Some s \<Rightarrow> au_timestamp e \<ge> s | None \<Rightarrow> True)
                 (filter (\<lambda>e. au_tenant_id e = t_id t) (log_events l));
          es = sort_key (\<lambda>e. (au_timestamp e, au_event_id e)) es
      in if lim > 0 then take lim es else es)"

subsection \<open>The contract of an audit log\<close>

text \<open>
  Recording an event either fails and leaves the trail as it was, or appends exactly this
  event to it. A client that ran a computation of recorded events therefore only ever extends
  the trail, and a success means the event is there.
\<close>

locale audit_log =
  fixes rec :: "TenantContext \<Rightarrow> AuditEvent \<Rightarrow> ('l, 'e, unit) eff"
    and trail :: "'l \<Rightarrow> AuditEvent list"
  assumes rec_ok: "rec t e l = (Inr u, l') \<Longrightarrow> trail l' = trail l @ [e]"
    and rec_err: "rec t e l = (Inl err, l') \<Longrightarrow> trail l' = trail l"
begin

definition extends :: "'l \<Rightarrow> 'l \<Rightarrow> bool" where
  "extends l l' \<longleftrightarrow> (\<exists>es. trail l' = trail l @ es)"

lemma extends_refl: "extends l l"
  by (simp add: extends_def)

lemma extends_trans: "extends a b \<Longrightarrow> extends b c \<Longrightarrow> extends a c"
  by (auto simp: extends_def)

lemma rec_extends: "extends l (snd (rec t e l))"
proof (cases "rec t e l")
  case (Pair r l')
  then show ?thesis
    using rec_ok [of t e l _ l'] rec_err [of t e l _ l'] by (cases r) (auto simp: extends_def)
qed

lemma rec_recorded: "rec t e l = (Inr u, l') \<Longrightarrow> e \<in> set (trail l')"
  by (simp add: rec_ok)

lemma extends_recorded: "extends l l' \<Longrightarrow> set (trail l) \<subseteq> set (trail l')"
  by (auto simp: extends_def)

text \<open>A sequence of events recorded until the first failure.\<close>

primrec rec_all :: "TenantContext \<Rightarrow> AuditEvent list \<Rightarrow> ('l, 'e, unit) eff" where
  "rec_all t [] = ok ()"
| "rec_all t (e # es) = andThen (rec t e) (\<lambda>_. rec_all t es)"

lemma rec_all_prefix:
  "\<exists>ds. trail (snd (rec_all t es l)) = trail l @ ds \<and> (\<exists>rest. es = ds @ rest)
     \<and> (isl (fst (rec_all t es l)) \<or> ds = es)"
proof (induction es arbitrary: l)
  case (Cons e es)
  show ?case
  proof (cases "rec t e l")
    case (Pair r l')
    show ?thesis
    proof (cases r)
      case (Inl err)
      with Pair have "trail l' = trail l" using rec_err by metis
      with Pair Inl show ?thesis by (intro exI [of _ "[]"]) (simp add: andThen_def)
    next
      case (Inr u)
      with Pair have "trail l' = trail l @ [e]" using rec_ok by metis
      moreover obtain ds where "trail (snd (rec_all t es l')) = trail l' @ ds"
        "\<exists>rest. es = ds @ rest" "isl (fst (rec_all t es l')) \<or> ds = es"
        using Cons.IH by blast
      ultimately show ?thesis
        using Pair Inr by (intro exI [of _ "e # ds"]) (auto simp: andThen_def)
    qed
  qed
qed (simp add: ok_def)

end

interpretation mem_log: audit_log record_event log_events
  by unfold_locales (auto simp: record_event_def require_def andThen_def split: if_splits)

subsection \<open>Facts of the JSON rendering\<close>

text \<open>A reader of JSON strings: the inverse of \<open>json_string\<close>, with the rest of the input.\<close>

fun json_unescape :: "string \<Rightarrow> (string \<times> string) option" where
  "json_unescape [] = None"
| "json_unescape (c # cs) =
     (if c = CHR 0x22 then Some ([], cs)
      else if c = CHR 0x5C then
        (case cs of
           [] \<Rightarrow> None
         | d # ds \<Rightarrow>
             map_option (map_prod ((#)
               (if d = CHR ''n'' then CHR 0x0A else if d = CHR ''r'' then CHR 0x0D
                else if d = CHR ''t'' then CHR 0x09 else d)) id) (json_unescape ds))
      else map_option (map_prod ((#) c) id) (json_unescape cs))"

definition json_read_string :: "string \<Rightarrow> (string \<times> string) option" where
  "json_read_string s = Option.bind (strip_prefix quote s) json_unescape"

lemma json_unescape_escape:
  "json_unescape (concat (map escape_char s) @ quote @ rest) = Some (s, rest)"
proof (induction s)
  case Nil
  show ?case by (simp add: quote_def)
next
  case (Cons c s)
  show ?case
  proof (cases "c \<in> {CHR 0x5C, CHR 0x22, CHR 0x0A, CHR 0x0D, CHR 0x09}")
    case True
    then show ?thesis using Cons by (auto simp: escape_char_def)
  next
    case False
    then have "escape_char c = [c]" by (simp add: escape_char_def)
    with False Cons show ?thesis by simp
  qed
qed

text \<open>
  Strings survive the JSON encoding: reading back what \<open>json_string\<close> wrote gives the
  string and leaves exactly what followed it, whatever bytes the string holds.
\<close>

theorem json_string_roundtrip:
  "json_read_string (json_string s @ rest) = Some (s, rest)"
  using json_unescape_escape [of s rest]
  by (simp add: json_read_string_def json_string_def strip_prefix_def)

text \<open>The newline-terminated lines of a text.\<close>

fun text_lines :: "string \<Rightarrow> string list" where
  "text_lines [] = []"
| "text_lines (c # cs) =
     (if c = CHR 0x0A then [] # text_lines cs
      else (case text_lines cs of [] \<Rightarrow> [[c]] | l # ls \<Rightarrow> (c # l) # ls))"

lemma text_lines_append:
  "CHR 0x0A \<notin> set a \<Longrightarrow> text_lines (a @ CHR 0x0A # b) = a # text_lines b"
  by (induction a) auto

lemma show_nat_no_newline: "CHR 0x0A \<notin> set (show_nat n)"
  using show_nat_digits [of "CHR 0x0A" n] by auto

lemma show_int_no_newline: "CHR 0x0A \<notin> set (show_int i)"
  using show_nat_no_newline by (auto simp: show_int_def)

lemma json_string_no_newline: "CHR 0x0A \<notin> set (json_string s)"
  by (auto simp: json_string_def quote_def escape_char_def split: if_splits)

lemma optional_json_string_no_newline: "CHR 0x0A \<notin> set (optional_json_string v)"
  using json_string_no_newline by (auto simp: optional_json_string_def split: option.splits)

lemma join_no_newline:
  "CHR 0x0A \<notin> set sep \<Longrightarrow> (\<And>x. x \<in> set xs \<Longrightarrow> CHR 0x0A \<notin> set x) \<Longrightarrow> CHR 0x0A \<notin> set (join sep xs)"
  by (induction sep xs rule: join.induct) auto

lemma json_object_no_newline:
  assumes "\<And>k v. (k, v) \<in> set fs \<Longrightarrow> CHR 0x0A \<notin> set v"
  shows "CHR 0x0A \<notin> set (json_object fs)"
proof -
  have "CHR 0x0A \<notin> set (join '','' (map (\<lambda>(k, v). json_string k @ '':'' @ v) fs))"
    by (rule join_no_newline) (use assms json_string_no_newline in auto)
  then show ?thesis by (simp add: json_object_def)
qed

lemmas no_newline = json_string_no_newline optional_json_string_no_newline
  show_int_no_newline show_nat_no_newline

lemma canonical_json_line_no_newline: "CHR 0x0A \<notin> set (canonical_json_line e)"
  unfolding canonical_json_line_def
proof (rule json_object_no_newline, goal_cases)
  case (1 k v)
  have "CHR 0x0A \<notin> set (json_object (map (\<lambda>(k, v). (k, json_string v)) m))" for m
    by (rule json_object_no_newline) (auto simp: json_string_no_newline)
  with 1 show ?case
    by (auto simp: no_newline split: option.splits)
qed

lemma canonical_json_line_nonempty: "canonical_json_line e \<noteq> []"
  by (simp add: canonical_json_line_def json_object_def)

lemma text_lines_join:
  assumes "ls \<noteq> []" "\<And>l. l \<in> set ls \<Longrightarrow> CHR 0x0A \<notin> set l"
  shows "text_lines (join [CHR 0x0A] ls @ [CHR 0x0A]) = ls"
  using assms
proof (induction "[CHR 0x0A]" ls rule: join.induct)
  case (2 x)
  then show ?case using text_lines_append [of x "[]"] by simp
next
  case (3 x y xs)
  then show ?case using text_lines_append [of x] by simp
qed simp

text \<open>
  The exported trail is one line per event: splitting the export at newlines gives back
  exactly the canonical lines in order, so no field of any event can forge or break a line.
\<close>

theorem export_is_one_line_per_event:
  "text_lines (export_json_lines es) = map canonical_json_line es"
proof (cases "es = []")
  case False
  moreover have "join [CHR 0x0A] (map canonical_json_line es) \<noteq> []"
    using False canonical_json_line_nonempty
    by (cases "map canonical_json_line es" rule: join.cases [of "([], _)", simplified]) auto
  ultimately show ?thesis
    using text_lines_join [of "map canonical_json_line es"] canonical_json_line_no_newline
    by (auto simp: export_json_lines_def Let_def)
qed (simp add: export_json_lines_def)

subsection \<open>Facts of the log\<close>

text \<open>
  The in-memory log is append-only and tenant-true: after any sequence of attempts to
  record events, it holds exactly the events whose tenant is the tenant they were recorded
  for, in the order of the attempts, after what it held before.
\<close>

theorem log_after_any_attempts:
  "log_events (fold (\<lambda>(t, e) l. snd (record_event t e l)) calls l)
     = log_events l @ map snd (filter (\<lambda>(t, e). au_tenant_id e = t_id t) calls)"
  by (induction calls arbitrary: l)
    (auto simp: record_event_def require_def andThen_def)

text \<open>
  Reading the trail: without a limit, the events of this tenant since the given time and
  no others, each as often as it was recorded, in order of time and then of event id; a
  positive limit cuts this list to its first entries.
\<close>

theorem audit_events_spec:
  "mset (audit_events t since 0 l) =
     mset (filter (\<lambda>e. au_tenant_id e = t_id t
                     \<and> (case since of Some s \<Rightarrow> s \<le> au_timestamp e | None \<Rightarrow> True))
             (log_events l))
   \<and> sorted (map (\<lambda>e. (au_timestamp e, au_event_id e)) (audit_events t since 0 l))
   \<and> audit_events t since (Suc n) l = take (Suc n) (audit_events t since 0 l)"
  by (simp add: audit_events_def Let_def filter_filter conj_commute)

end
