(* ===== verification/Stores.thy ===== *)
theory Stores
  imports AuditLog
begin

text \<open>
  The in-memory stores (\<^verbatim>\<open>crates/storage/src/memory.rs\<close>) behind the storage traits:
  identities, sessions, tenants, principals with their external bindings, delegations and
  agent runs. Each store is a record of its maps; each trait method is an operation on that
  record. A poisoned lock is not modelled, so an operation fails only where the code refuses.

  Two interfaces the mesh relies on are stated as locales: \<open>tenant_scoped\<close>, a lookup
  that shows a tenant only its own entries, and \<open>scoped_update\<close>, a change of one entry
  of one tenant. Both are interpreted on every store that offers them.
\<close>

subsection \<open>Identities\<close>

record MemoryIdentityStore =
  st_identities :: "(IdentityId, Identity) bmap"
  st_by_provider :: "(TenantId \<times> ProviderName \<times> ProviderSubject, IdentityId) bmap"

definition identity_store_new :: MemoryIdentityStore where
  "identity_store_new = \<lparr>st_identities = [], st_by_provider = []\<rparr>"

definition identity_id_of :: "TenantId \<Rightarrow> ProviderName \<Rightarrow> ProviderSubject \<Rightarrow> IdentityId" where
  "identity_id_of t pr su = t @ '':'' @ pr @ '':'' @ su"

definition link_account ::
  "TenantContext \<Rightarrow> ProviderName \<Rightarrow> ProviderSubject
   \<Rightarrow> (MemoryIdentityStore, StorageError, Identity) eff" where
  "link_account t pr su = (\<lambda>s.
     let key = (t_id t, pr, su) in
     if bcontains (st_by_provider s) key then (Inl ''duplicate identity'', s)
     else
       let i = identity_id_of (t_id t) pr su;
           identity = \<lparr>i_id = i, i_provider = pr, i_provider_subject = su, i_tenant_id = t_id t,
              i_claims = [], i_version = \<lparr>major = 1, minor = 0\<rparr>,
              i_offline = \<lparr>max_age_seconds = 300, must_revalidate = True\<rparr>\<rparr>
       in (Inr identity,
           s\<lparr>st_identities := binsert i identity (st_identities s),
             st_by_provider := binsert key i (st_by_provider s)\<rparr>))"

definition get_identity ::
  "TenantContext \<Rightarrow> IdentityId \<Rightarrow> MemoryIdentityStore \<Rightarrow> StorageError + Identity option" where
  "get_identity t i s = (case map_of (st_identities s) i of
     Some identity \<Rightarrow>
       (if i_tenant_id identity = t_id t then Inr (Some identity) else Inl ''tenant mismatch'')
   | None \<Rightarrow> Inr None)"

definition find_identity ::
  "TenantContext \<Rightarrow> ProviderName \<Rightarrow> ProviderSubject \<Rightarrow> MemoryIdentityStore
   \<Rightarrow> StorageError + Identity option" where
  "find_identity t pr su s = (case map_of (st_by_provider s) (t_id t, pr, su) of
     Some i \<Rightarrow> get_identity t i s
   | None \<Rightarrow> Inr None)"

definition identity_update_claims ::
  "TenantContext \<Rightarrow> IdentityId \<Rightarrow> Claims \<Rightarrow> (MemoryIdentityStore, StorageError, unit) eff" where
  "identity_update_claims t i cs = (\<lambda>s. case map_of (st_identities s) i of
     None \<Rightarrow> (Inl ''unknown identity'', s)
   | Some identity \<Rightarrow>
       if i_tenant_id identity \<noteq> t_id t then (Inl ''tenant mismatch'', s)
       else (Inr (), s\<lparr>st_identities := binsert i (identity\<lparr>i_claims := cs\<rparr>) (st_identities s)\<rparr>))"

subsection \<open>Sessions\<close>

text \<open>
  Session ids come from a randomly seeded hash of a counter and the clock; the parameter
  \<open>mint\<close> stands for that function of the counter at the moment of the call.
\<close>

record Session =
  s_id :: SessionId
  s_identity_id :: IdentityId
  s_tenant_id :: TenantId
  s_created_at :: int
  s_expires_at :: int
  s_revoked_at :: "int option"

record MemorySessionStore =
  st_sessions :: "(SessionId, Session) bmap"
  st_next_id :: u64

definition session_store_new :: MemorySessionStore where
  "session_store_new = \<lparr>st_sessions = [], st_next_id = 0\<rparr>"

definition create_session ::
  "(u64 \<Rightarrow> SessionId) \<Rightarrow> TenantContext \<Rightarrow> IdentityId \<Rightarrow> int
   \<Rightarrow> (MemorySessionStore, StorageError, Session) eff" where
  "create_session mint t i expires_at = (\<lambda>s.
     let n = st_next_id s + 1;
         session = \<lparr>s_id = mint n, s_identity_id = i, s_tenant_id = t_id t, s_created_at = 0,
            s_expires_at = expires_at, s_revoked_at = None\<rparr>
     in (Inr session,
         s\<lparr>st_next_id := n, st_sessions := binsert (s_id session) session (st_sessions s)\<rparr>))"

definition revoke_session ::
  "TenantContext \<Rightarrow> SessionId \<Rightarrow> int \<Rightarrow> (MemorySessionStore, StorageError, unit) eff" where
  "revoke_session t sid revoked_at = (\<lambda>s. case map_of (st_sessions s) sid of
     None \<Rightarrow> (Inl ''unknown session'', s)
   | Some session \<Rightarrow>
       if s_tenant_id session \<noteq> t_id t then (Inl ''tenant mismatch'', s)
       else (Inr (), s\<lparr>st_sessions :=
               binsert sid (session\<lparr>s_revoked_at := Some revoked_at\<rparr>) (st_sessions s)\<rparr>))"

definition validate_session ::
  "TenantContext \<Rightarrow> SessionId \<Rightarrow> int \<Rightarrow> MemorySessionStore \<Rightarrow> StorageError + Session" where
  "validate_session t sid now s = (case map_of (st_sessions s) sid of
     None \<Rightarrow> Inl ''unknown session''
   | Some session \<Rightarrow>
       if s_tenant_id session \<noteq> t_id t then Inl ''tenant mismatch''
       else if s_revoked_at session \<noteq> None then Inl ''revoked session''
       else if now \<ge> s_expires_at session then Inl ''expired session''
       else Inr session)"

definition list_sessions ::
  "TenantContext \<Rightarrow> IdentityId \<Rightarrow> MemorySessionStore \<Rightarrow> Session list" where
  "list_sessions t i s =
     filter (\<lambda>x. s_tenant_id x = t_id t \<and> s_identity_id x = i) (bvalues (st_sessions s))"

subsection \<open>Tenants\<close>

record MemoryTenantRoot =
  st_tenants :: "(TenantId, TenantContext) bmap"

definition tenant_root_new :: MemoryTenantRoot where
  "tenant_root_new = \<lparr>st_tenants = []\<rparr>"

definition put_tenant :: "TenantContext \<Rightarrow> (MemoryTenantRoot, StorageError, unit) eff" where
  "put_tenant t = (\<lambda>s. (Inr (), s\<lparr>st_tenants := binsert (t_id t) t (st_tenants s)\<rparr>))"

definition get_tenant :: "TenantId \<Rightarrow> MemoryTenantRoot \<Rightarrow> TenantContext option" where
  "get_tenant i s = map_of (st_tenants s) i"

definition verify_storage_root ::
  "TenantContext \<Rightarrow> StorageRootId \<Rightarrow> MemoryTenantRoot \<Rightarrow> StorageError + unit" where
  "verify_storage_root t root s =
     rbind (ok_or ''unknown tenant'' (get_tenant (t_id t) s))
       (\<lambda>stored. if t_storage_root_id stored \<noteq> root \<or> t_storage_root_id t \<noteq> root
                 then Inl ''storage-root mismatch'' else Inr ())"

subsection \<open>Principals and external bindings\<close>

record ExternalBinding =
  b_tenant_id :: TenantId
  b_connector :: ProviderName
  b_external_subject :: ProviderSubject
  b_principal_id :: PrincipalId
  b_linked_at :: int

record MemoryPrincipalStore =
  st_principals :: "(PrincipalId, Principal) bmap"
  st_bindings :: "(TenantId \<times> ProviderName \<times> ProviderSubject, ExternalBinding) bmap"

definition principal_store_new :: MemoryPrincipalStore where
  "principal_store_new = \<lparr>st_principals = [], st_bindings = []\<rparr>"

definition put_principal :: "Principal \<Rightarrow> (MemoryPrincipalStore, StorageError, unit) eff" where
  "put_principal p = (\<lambda>s. (Inr (), s\<lparr>st_principals := binsert (p_id p) p (st_principals s)\<rparr>))"

definition get_principal ::
  "TenantContext \<Rightarrow> PrincipalId \<Rightarrow> MemoryPrincipalStore \<Rightarrow> StorageError + Principal option" where
  "get_principal t i s = (case map_of (st_principals s) i of
     Some p \<Rightarrow> (if p_tenant_id p = t_id t then Inr (Some p) else Inl ''tenant mismatch'')
   | None \<Rightarrow> Inr None)"

definition list_principals :: "TenantContext \<Rightarrow> MemoryPrincipalStore \<Rightarrow> Principal list" where
  "list_principals t s =
     sort_key p_id (filter (\<lambda>p. p_tenant_id p = t_id t) (bvalues (st_principals s)))"

definition set_agent_state ::
  "TenantContext \<Rightarrow> PrincipalId \<Rightarrow> AgentState \<Rightarrow> (MemoryPrincipalStore, StorageError, unit) eff" where
  "set_agent_state t i state = (\<lambda>s. case map_of (st_principals s) i of
     None \<Rightarrow> (Inl ''unknown principal'', s)
   | Some p \<Rightarrow>
       if p_tenant_id p \<noteq> t_id t then (Inl ''tenant mismatch'', s)
       else if p_kind p \<noteq> Agent then (Inl ''principal is not an agent'', s)
       else (Inr (), s\<lparr>st_principals :=
               binsert i (p\<lparr>p_agent_state := Some state\<rparr>) (st_principals s)\<rparr>))"

definition principal_update_claims ::
  "TenantContext \<Rightarrow> PrincipalId \<Rightarrow> Claims \<Rightarrow> (MemoryPrincipalStore, StorageError, unit) eff" where
  "principal_update_claims t i cs = (\<lambda>s. case map_of (st_principals s) i of
     None \<Rightarrow> (Inl ''unknown principal'', s)
   | Some p \<Rightarrow>
       if p_tenant_id p \<noteq> t_id t then (Inl ''tenant mismatch'', s)
       else (Inr (), s\<lparr>st_principals := binsert i (p\<lparr>p_claims := cs\<rparr>) (st_principals s)\<rparr>))"

definition bind_external_identity ::
  "TenantContext \<Rightarrow> ProviderName \<Rightarrow> ProviderSubject \<Rightarrow> PrincipalId \<Rightarrow> int
   \<Rightarrow> (MemoryPrincipalStore, StorageError, ExternalBinding) eff" where
  "bind_external_identity t con subj i linked_at =
     andThen (reading (get_principal t i)) (\<lambda>mp.
     andThen (require (mp \<noteq> None) ''unknown principal'') (\<lambda>_ s.
       let key = (t_id t, con, subj) in
       case map_of (st_bindings s) key of
         Some existing \<Rightarrow>
           if b_principal_id existing \<noteq> i
           then (Inl ''external identity is already bound to another principal'', s)
           else (Inr existing, s)
       | None \<Rightarrow>
           let b = \<lparr>b_tenant_id = t_id t, b_connector = con, b_external_subject = subj,
                    b_principal_id = i, b_linked_at = linked_at\<rparr>
           in (Inr b, s\<lparr>st_bindings := binsert key b (st_bindings s)\<rparr>)))"

definition resolve_external_identity ::
  "TenantContext \<Rightarrow> ProviderName \<Rightarrow> ProviderSubject \<Rightarrow> MemoryPrincipalStore
   \<Rightarrow> PrincipalId option" where
  "resolve_external_identity t con subj s =
     map_option b_principal_id (map_of (st_bindings s) (t_id t, con, subj))"

definition bindings_for ::
  "TenantContext \<Rightarrow> PrincipalId \<Rightarrow> MemoryPrincipalStore \<Rightarrow> ExternalBinding list" where
  "bindings_for t i s =
     sort_key (\<lambda>b. (b_connector b, b_external_subject b))
       (filter (\<lambda>b. b_tenant_id b = t_id t \<and> b_principal_id b = i) (bvalues (st_bindings s)))"

subsection \<open>Delegations\<close>

record MemoryDelegationStore =
  st_delegations :: "(DelegationId, Delegation) bmap"

definition delegation_store_new :: MemoryDelegationStore where
  "delegation_store_new = \<lparr>st_delegations = []\<rparr>"

definition create_delegation ::
  "Delegation \<Rightarrow> (MemoryDelegationStore, StorageError, Delegation) eff" where
  "create_delegation d = (\<lambda>s.
     if d_capabilities d = [] then (Inl ''delegation requires capabilities'', s)
     else if (case d_expires_at d of Some e \<Rightarrow> e \<le> d_issued_at d | None \<Rightarrow> False)
     then (Inl ''delegation expires before it is issued'', s)
     else if d_delegator d = d_delegate d then (Inl ''delegation requires two principals'', s)
     else if bcontains (st_delegations s) (d_id d) then (Inl ''duplicate delegation'', s)
     else (Inr d, s\<lparr>st_delegations := binsert (d_id d) d (st_delegations s)\<rparr>))"

definition get_delegation ::
  "TenantContext \<Rightarrow> DelegationId \<Rightarrow> MemoryDelegationStore \<Rightarrow> StorageError + Delegation option" where
  "get_delegation t i s = (case map_of (st_delegations s) i of
     Some d \<Rightarrow> (if d_tenant_id d = t_id t then Inr (Some d) else Inl ''tenant mismatch'')
   | None \<Rightarrow> Inr None)"

definition list_delegations_for_delegate ::
  "TenantContext \<Rightarrow> PrincipalId \<Rightarrow> MemoryDelegationStore \<Rightarrow> Delegation list" where
  "list_delegations_for_delegate t delegate s =
     sort_key d_id
       (filter (\<lambda>d. d_tenant_id d = t_id t \<and> d_delegate d = delegate) (bvalues (st_delegations s)))"

definition store_revoke_delegation ::
  "TenantContext \<Rightarrow> DelegationId \<Rightarrow> int \<Rightarrow> (MemoryDelegationStore, StorageError, unit) eff" where
  "store_revoke_delegation t i revoked_at = (\<lambda>s. case map_of (st_delegations s) i of
     None \<Rightarrow> (Inl ''unknown delegation'', s)
   | Some d \<Rightarrow>
       if d_tenant_id d \<noteq> t_id t then (Inl ''tenant mismatch'', s)
       else (Inr (), s\<lparr>st_delegations :=
               binsert i (d\<lparr>d_revoked_at := Some revoked_at\<rparr>) (st_delegations s)\<rparr>))"

subsection \<open>Runs\<close>

record MemoryRunStore =
  st_runs :: "(RunId, AgentRun) bmap"

definition run_store_new :: MemoryRunStore where
  "run_store_new = \<lparr>st_runs = []\<rparr>"

definition put_run :: "AgentRun \<Rightarrow> (MemoryRunStore, StorageError, AgentRun) eff" where
  "put_run r = (\<lambda>s.
     if bcontains (st_runs s) (r_id r) then (Inl ''duplicate run'', s)
     else (Inr r, s\<lparr>st_runs := binsert (r_id r) r (st_runs s)\<rparr>))"

definition get_run ::
  "TenantContext \<Rightarrow> RunId \<Rightarrow> MemoryRunStore \<Rightarrow> StorageError + AgentRun option" where
  "get_run t i s = (case map_of (st_runs s) i of
     Some r \<Rightarrow> (if r_tenant_id r = t_id t then Inr (Some r) else Inl ''tenant mismatch'')
   | None \<Rightarrow> Inr None)"

definition list_runs_for_agent ::
  "TenantContext \<Rightarrow> PrincipalId \<Rightarrow> MemoryRunStore \<Rightarrow> AgentRun list" where
  "list_runs_for_agent t agent s =
     sort_key r_id
       (filter (\<lambda>r. r_tenant_id r = t_id t \<and> r_agent_principal r = agent) (bvalues (st_runs s)))"

definition find_run_by_credential ::
  "TenantContext \<Rightarrow> ExecutionCredentialId \<Rightarrow> MemoryRunStore \<Rightarrow> AgentRun option" where
  "find_run_by_credential t credential s =
     find (\<lambda>r. r_tenant_id r = t_id t \<and> r_execution_credential r = credential)
       (bvalues (st_runs s))"

definition update_run ::
  "TenantContext \<Rightarrow> AgentRun \<Rightarrow> (MemoryRunStore, StorageError, AgentRun) eff" where
  "update_run t r = (\<lambda>s.
     if r_tenant_id r \<noteq> t_id t then (Inl ''tenant mismatch'', s)
     else if \<not> bcontains (st_runs s) (r_id r) then (Inl ''unknown run'', s)
     else (Inr r, s\<lparr>st_runs := binsert (r_id r) r (st_runs s)\<rparr>))"

definition sample_store_tenant :: "TenantId \<Rightarrow> TenantContext" where
  "sample_store_tenant i =
     \<lparr>t_id = i, t_namespace = i, t_policy_id = ''p1'', t_storage_root_id = ''root''\<rparr>"

subsection \<open>Interface: tenant-scoped lookup\<close>

locale tenant_scoped =
  fixes fetch :: "TenantContext \<Rightarrow> 'k \<Rightarrow> 's \<Rightarrow> StorageError + 'v option"
    and entry :: "'s \<Rightarrow> 'k \<Rightarrow> 'v option"
    and tenant_of :: "'v \<Rightarrow> TenantId"
  assumes fetch_absent: "entry s k = None \<Longrightarrow> fetch t k s = Inr None"
    and fetch_own: "entry s k = Some v \<Longrightarrow> tenant_of v = t_id t \<Longrightarrow> fetch t k s = Inr (Some v)"
    and fetch_foreign:
      "entry s k = Some v \<Longrightarrow> tenant_of v \<noteq> t_id t \<Longrightarrow> fetch t k s = Inl ''tenant mismatch''"
begin

lemma fetch_def:
  "fetch t k s = (case entry s k of None \<Rightarrow> Inr None
     | Some v \<Rightarrow> if tenant_of v = t_id t then Inr (Some v) else Inl ''tenant mismatch'')"
  by (cases "entry s k") (simp_all add: fetch_absent fetch_own fetch_foreign)

lemma fetch_Some: "fetch t k s = Inr (Some v) \<longleftrightarrow> entry s k = Some v \<and> tenant_of v = t_id t"
  by (auto simp: fetch_def split: option.splits)

lemma fetch_None: "fetch t k s = Inr None \<longleftrightarrow> entry s k = None"
  by (auto simp: fetch_def split: option.splits)

lemma fetch_Inl:
  "fetch t k s = Inl e \<longleftrightarrow>
     (\<exists>v. entry s k = Some v \<and> tenant_of v \<noteq> t_id t) \<and> e = ''tenant mismatch''"
  by (auto simp: fetch_def split: option.splits)

lemma no_two_tenants:
  "fetch t k s = Inr (Some v) \<Longrightarrow> fetch u k s = Inr (Some w) \<Longrightarrow> t_id t = t_id u"
  by (simp add: fetch_Some)

end

interpretation identities: tenant_scoped get_identity "\<lambda>s. map_of (st_identities s)" i_tenant_id
  by unfold_locales (auto simp: get_identity_def)

interpretation principals: tenant_scoped get_principal "\<lambda>s. map_of (st_principals s)" p_tenant_id
  by unfold_locales (auto simp: get_principal_def)

interpretation delegations: tenant_scoped get_delegation "\<lambda>s. map_of (st_delegations s)" d_tenant_id
  by unfold_locales (auto simp: get_delegation_def)

interpretation runs: tenant_scoped get_run "\<lambda>s. map_of (st_runs s)" r_tenant_id
  by unfold_locales (auto simp: get_run_def)

subsection \<open>Interface: change of one entry\<close>

text \<open>
  An operation that changes one entry: it succeeds only on an entry of the caller's tenant
  (and only when \<open>allowed\<close> holds of it), puts \<open>change\<close> of the entry in its place, and
  touches nothing else; a failure touches nothing at all.
\<close>

locale scoped_update =
  fixes upd :: "TenantContext \<Rightarrow> 'k \<Rightarrow> ('s, StorageError, unit) eff"
    and entry :: "'s \<Rightarrow> 'k \<Rightarrow> 'v option"
    and tenant_of :: "'v \<Rightarrow> TenantId"
    and allowed :: "'v \<Rightarrow> bool"
    and change :: "'v \<Rightarrow> 'v"
  assumes upd_ok: "upd t k s = (Inr u, s') \<Longrightarrow>
      \<exists>v. entry s k = Some v \<and> tenant_of v = t_id t \<and> allowed v
        \<and> entry s' = (entry s)(k \<mapsto> change v)"
    and upd_err: "upd t k s = (Inl e, s') \<Longrightarrow> s' = s"
    and upd_total: "entry s k = Some v \<Longrightarrow> tenant_of v = t_id t \<Longrightarrow> allowed v \<Longrightarrow>
      \<exists>s'. upd t k s = (Inr (), s')"
    and same_tenant: "tenant_of (change v) = tenant_of v"
begin

lemma upd_cases:
  obtains (failed) e where "upd t k s = (Inl e, s)"
  | (changed) v s' where "upd t k s = (Inr (), s')" "entry s k = Some v" "tenant_of v = t_id t"
      "allowed v" "entry s' = (entry s)(k \<mapsto> change v)"
proof (cases "upd t k s")
  case (Pair r s')
  show ?thesis
  proof (cases r)
    case (Inl e)
    with Pair upd_err [of t k s e s'] failed show ?thesis by blast
  next
    case (Inr u)
    with Pair upd_ok [of t k s u s'] changed [of s'] show ?thesis by auto
  qed
qed

lemma upd_frame:
  assumes "entry s j = Some w" "j \<noteq> k \<or> tenant_of w \<noteq> t_id t"
  shows "entry (snd (upd t k s)) j = Some w"
  by (rule upd_cases [of t k s]) (use assms in auto)

lemma upd_dom: "dom (entry (snd (upd t k s))) = dom (entry s)"
  by (rule upd_cases [of t k s]) auto

lemma upd_Inr_iff:
  "(\<exists>s'. upd t k s = (Inr (), s')) \<longleftrightarrow>
     (\<exists>v. entry s k = Some v \<and> tenant_of v = t_id t \<and> allowed v)"
  using upd_ok upd_total by blast

lemma upd_entry:
  assumes "entry (snd (upd t k s)) j = Some w"
  shows "\<exists>v. entry s j = Some v \<and> (w = v \<or> j = k \<and> w = change v) \<and> tenant_of w = tenant_of v"
  by (rule upd_cases [of t k s]) (use assms same_tenant in \<open>auto split: if_splits\<close>)

end

interpretation session_revocation: scoped_update "\<lambda>t k. revoke_session t k at"
    "\<lambda>s. map_of (st_sessions s)" s_tenant_id "\<lambda>_. True" "\<lambda>v. v\<lparr>s_revoked_at := Some at\<rparr>" for at
  by unfold_locales (auto simp: revoke_session_def split: option.splits if_splits)

text \<open>A store that offers both: what one tenant changes is invisible to every other.\<close>

locale scoped_store =
  tenant_scoped fetch entry tenant_of + scoped_update upd entry tenant_of allowed change
  for fetch :: "TenantContext \<Rightarrow> 'k \<Rightarrow> 's \<Rightarrow> StorageError + 'v option"
    and entry :: "'s \<Rightarrow> 'k \<Rightarrow> 'v option"
    and tenant_of :: "'v \<Rightarrow> TenantId"
    and upd :: "TenantContext \<Rightarrow> 'k \<Rightarrow> ('s, StorageError, unit) eff"
    and allowed :: "'v \<Rightarrow> bool"
    and change :: "'v \<Rightarrow> 'v"
begin

lemma noninterference:
  assumes "t_id u \<noteq> t_id t"
  shows "fetch u j (snd (upd t k s)) = fetch u j s"
  by (rule upd_cases [of t k s]) (use assms same_tenant in \<open>auto simp: fetch_def\<close>)

lemma own_change:
  assumes "upd t k s = (Inr (), s')"
  shows "\<exists>v. fetch t k s = Inr (Some v) \<and> allowed v \<and> fetch t k s' = Inr (Some (change v))"
  using upd_ok [OF assms] same_tenant by (auto simp: fetch_Some)

end

interpretation delegation_revocation: scoped_store get_delegation
    "\<lambda>s. map_of (st_delegations s)" d_tenant_id "\<lambda>t k. store_revoke_delegation t k at"
    "\<lambda>_. True" "\<lambda>v. v\<lparr>d_revoked_at := Some at\<rparr>" for at
  by unfold_locales (auto simp: store_revoke_delegation_def split: option.splits if_splits)

interpretation agent_state_change: scoped_store get_principal
    "\<lambda>s. map_of (st_principals s)" p_tenant_id "\<lambda>t k. set_agent_state t k state"
    "\<lambda>p. p_kind p = Agent" "\<lambda>v. v\<lparr>p_agent_state := Some state\<rparr>" for state
  by unfold_locales (auto simp: set_agent_state_def split: option.splits if_splits)

interpretation principal_claims_change: scoped_store get_principal
    "\<lambda>s. map_of (st_principals s)" p_tenant_id "\<lambda>t k. principal_update_claims t k cs"
    "\<lambda>_. True" "\<lambda>v. v\<lparr>p_claims := cs\<rparr>" for cs
  by unfold_locales (auto simp: principal_update_claims_def split: option.splits if_splits)

interpretation identity_claims_change: scoped_store get_identity
    "\<lambda>s. map_of (st_identities s)" i_tenant_id "\<lambda>t k. identity_update_claims t k cs"
    "\<lambda>_. True" "\<lambda>v. v\<lparr>i_claims := cs\<rparr>" for cs
  by unfold_locales (auto simp: identity_update_claims_def split: option.splits if_splits)

text \<open>
  No tenant can change what another sees: revoking a delegation, changing an agent's
  state, or replacing the claims of a principal or an identity on behalf of one tenant,
  whether it succeeds or fails, leaves every lookup of another tenant with the same result.
\<close>

theorem tenants_do_not_interfere:
  assumes "t_id u \<noteq> t_id t"
  shows "get_delegation u j (snd (store_revoke_delegation t k at ds)) = get_delegation u j ds
    \<and> get_principal u i (snd (set_agent_state t k state ps)) = get_principal u i ps
    \<and> get_principal u i (snd (principal_update_claims t k cs ps)) = get_principal u i ps
    \<and> get_identity u n (snd (identity_update_claims t k cs ids)) = get_identity u n ids"
  using assms
  by (simp add: delegation_revocation.noninterference agent_state_change.noninterference
      principal_claims_change.noninterference identity_claims_change.noninterference)

theorem tenants_do_not_interfere_witness:
  "get_principal (sample_store_tenant ''other'') ''bot''
     (snd (set_agent_state (sample_store_tenant ''acme'') ''bot'' StateRevoked
        \<lparr>st_principals = [(''bot'',
           principal_agent ''bot'' ''acme'' [] \<lparr>major = 1, minor = 0\<rparr> StateActive)],
         st_bindings = []\<rparr>))
   = Inl ''tenant mismatch''"
  using tenants_do_not_interfere [of "sample_store_tenant ''other''" "sample_store_tenant ''acme''"]
  by (simp add: sample_store_tenant_def get_principal_def principal_agent_def)

subsection \<open>External bindings\<close>

inductive principal_step :: "MemoryPrincipalStore \<Rightarrow> MemoryPrincipalStore \<Rightarrow> bool" where
  step_put: "put_principal p s = (r, s') \<Longrightarrow> principal_step s s'"
| step_state: "set_agent_state t i st s = (r', s') \<Longrightarrow> principal_step s s'"
| step_claims: "principal_update_claims t i cs s = (r', s') \<Longrightarrow> principal_step s s'"
| step_bind: "bind_external_identity t con subj i at s = (r'', s') \<Longrightarrow> principal_step s s'"

lemma bind_result:
  "bind_external_identity t con subj i at s = (r, s') \<Longrightarrow>
     st_principals s' = st_principals s
     \<and> (s' = s \<or> map_of (st_bindings s) (t_id t, con, subj) = None
          \<and> r = Inr \<lparr>b_tenant_id = t_id t, b_connector = con, b_external_subject = subj,
                     b_principal_id = i, b_linked_at = at\<rparr>
          \<and> st_bindings s' = binsert (t_id t, con, subj)
               \<lparr>b_tenant_id = t_id t, b_connector = con, b_external_subject = subj,
                b_principal_id = i, b_linked_at = at\<rparr> (st_bindings s))"
  by (auto simp: bind_external_identity_def andThen_def require_def Let_def
      split: sum.splits option.splits if_splits)

lemma principal_step_bindings:
  assumes "principal_step s s'" "map_of (st_bindings s) k = Some b"
  shows "map_of (st_bindings s') k = Some b"
  using assms
proof cases
  case (step_bind t con subj i at r)
  then show ?thesis using assms(2) bind_result [of t con subj i at s r s'] by auto
qed (auto simp: put_principal_def set_agent_state_def principal_update_claims_def
    split: option.splits if_splits)

lemma principal_steps_bindings:
  "principal_step\<^sup>*\<^sup>* s s' \<Longrightarrow> map_of (st_bindings s) k = Some b \<Longrightarrow> map_of (st_bindings s') k = Some b"
  by (induction rule: rtranclp_induct) (auto intro: principal_step_bindings)

text \<open>
  An external identity is bound to exactly one principal for good: once binding it to a
  principal has succeeded, whatever operations the store performs afterwards, it resolves to
  that principal, binding it again to the same principal yields the same binding, and binding
  it to any other principal is refused.
\<close>

theorem binding_is_stable:
  assumes "bind_external_identity t con subj i at s = (Inr b, s1)"
    and "principal_step\<^sup>*\<^sup>* s1 s2"
  shows "resolve_external_identity t con subj s2 = Some i
    \<and> (\<forall>r s3. bind_external_identity t con subj i at' s2 = (Inr r, s3) \<longrightarrow> r = b \<and> s3 = s2)
    \<and> (j \<noteq> i \<longrightarrow> isl (fst (bind_external_identity t con subj j at' s2)))"
proof -
  have "map_of (st_bindings s1) (t_id t, con, subj) = Some b \<and> b_principal_id b = i"
    using assms(1)
    by (auto simp: bind_external_identity_def andThen_def require_def Let_def
      split: sum.splits option.splits if_splits)
  then have b: "map_of (st_bindings s2) (t_id t, con, subj) = Some b" "b_principal_id b = i"
    using principal_steps_bindings [OF assms(2)] by auto
  then show ?thesis
    by (auto simp: bind_external_identity_def resolve_external_identity_def andThen_def
        require_def split: sum.splits option.splits if_splits)
qed

theorem binding_is_stable_witness:
  "\<exists>b s1. bind_external_identity (sample_store_tenant ''acme'') ''github'' ''42'' ''alice'' 7
     \<lparr>st_principals = [(''alice'', principal_human ''alice'' ''acme'' [] \<lparr>major = 1, minor = 0\<rparr>)],
      st_bindings = []\<rparr> = (Inr b, s1)
   \<and> resolve_external_identity (sample_store_tenant ''acme'') ''github'' ''42'' s1 = Some ''alice''"
proof -
  obtain b s1 where eq: "bind_external_identity (sample_store_tenant ''acme'') ''github'' ''42''
      ''alice'' 7
     \<lparr>st_principals = [(''alice'', principal_human ''alice'' ''acme'' [] \<lparr>major = 1, minor = 0\<rparr>)],
      st_bindings = []\<rparr> = (Inr b, s1)"
    by (simp add: bind_external_identity_def andThen_def require_def get_principal_def
        principal_human_def sample_store_tenant_def Let_def)
  from binding_is_stable [OF eq rtranclp.rtrancl_refl] eq show ?thesis by blast
qed

subsection \<open>The life of a session\<close>

text \<open>
  What can happen to the session store. A new session is assumed to get an id that is not in
  use: the code overwrites the entry of an id that is minted twice.
\<close>

inductive session_step :: "MemorySessionStore \<Rightarrow> MemorySessionStore \<Rightarrow> bool" where
  step_create: "create_session mint t i e s = (r, s') \<Longrightarrow>
     map_of (st_sessions s) (mint (st_next_id s + 1)) = None \<Longrightarrow> session_step s s'"
| step_revoke: "revoke_session t k at s = (r', s') \<Longrightarrow> session_step s s'"

lemma session_step_entry:
  assumes "session_step s s'" "map_of (st_sessions s) k = Some x"
  shows "\<exists>rev. map_of (st_sessions s') k = Some (x\<lparr>s_revoked_at := rev\<rparr>)
           \<and> (s_revoked_at x \<noteq> None \<longrightarrow> rev \<noteq> None)"
  using assms
proof cases
  case (step_create mint t i e r)
  then show ?thesis
    using assms(2) by (intro exI [of _ "s_revoked_at x"]) (auto simp: create_session_def Let_def)
next
  case (step_revoke t j at r)
  then show ?thesis
    using assms(2)
    by (intro exI [of _ "if s' \<noteq> s \<and> j = k then Some at else s_revoked_at x"])
      (auto simp: revoke_session_def split: option.splits if_splits)
qed

lemma session_steps_entry:
  assumes "session_step\<^sup>*\<^sup>* s s'" "map_of (st_sessions s) k = Some x"
  shows "\<exists>rev. map_of (st_sessions s') k = Some (x\<lparr>s_revoked_at := rev\<rparr>)
           \<and> (s_revoked_at x \<noteq> None \<longrightarrow> rev \<noteq> None)"
  using assms
proof (induction rule: rtranclp_induct)
  case base
  then show ?case by (intro exI [of _ "s_revoked_at x"]) simp
next
  case (step y z)
  then obtain rev where "map_of (st_sessions y) k = Some (x\<lparr>s_revoked_at := rev\<rparr>)"
    "s_revoked_at x \<noteq> None \<longrightarrow> rev \<noteq> None" by blast
  with session_step_entry [OF step.hyps(2) this(1)] show ?case by fastforce
qed

text \<open>
  A session is good from its creation until it expires or is revoked, for its own tenant
  only: whatever happens to the store afterwards, validating it returns the session as it was
  created exactly while it is unrevoked and before its expiry, and the refusals name the
  reason.
\<close>

theorem session_lifecycle:
  assumes "create_session mint t i e s = (Inr x, s1)"
    and "session_step\<^sup>*\<^sup>* s1 s2"
  shows "\<exists>rev. map_of (st_sessions s2) (s_id x) = Some (x\<lparr>s_revoked_at := rev\<rparr>)
    \<and> (\<forall>u now. validate_session u (s_id x) now s2 =
         (if t_id u \<noteq> t_id t then Inl ''tenant mismatch''
          else if rev \<noteq> None then Inl ''revoked session''
          else if e \<le> now then Inl ''expired session'' else Inr x))"
proof -
  have x: "map_of (st_sessions s1) (s_id x) = Some x" "s_tenant_id x = t_id t"
    "s_expires_at x = e" "s_revoked_at x = None"
    using assms(1) by (auto simp: create_session_def Let_def)
  obtain rev where rev: "map_of (st_sessions s2) (s_id x) = Some (x\<lparr>s_revoked_at := rev\<rparr>)"
    using session_steps_entry [OF assms(2) x(1)] by blast
  have "x\<lparr>s_revoked_at := rev\<rparr> = x" if "rev = None"
    using that x(4) by (cases x) simp
  with rev x show ?thesis by (auto simp: validate_session_def)
qed

theorem session_lifecycle_witness:
  "\<exists>x s1. create_session (\<lambda>n. ''sess_1'') (sample_store_tenant ''acme'') ''alice'' 100
       session_store_new = (Inr x, s1)
     \<and> validate_session (sample_store_tenant ''other'') ''sess_1'' 50 s1 = Inl ''tenant mismatch''"
proof -
  obtain x s1 where eq: "create_session (\<lambda>n. ''sess_1'') (sample_store_tenant ''acme'') ''alice'' 100
       session_store_new = (Inr x, s1)" and "s_id x = ''sess_1''"
    by (simp add: create_session_def Let_def)
  with session_lifecycle [OF eq rtranclp.rtrancl_refl] show ?thesis
    by (auto simp: sample_store_tenant_def)
qed

text \<open>A revoked session never validates again, at any time and for any tenant.\<close>

theorem revoked_session_is_dead:
  assumes "revoke_session t k at s = (Inr u, s1)"
    and "session_step\<^sup>*\<^sup>* s1 s2"
  shows "validate_session t k now s2 = Inl ''revoked session''
    \<and> isl (validate_session u' k now s2)"
proof -
  obtain x where x: "map_of (st_sessions s1) k = Some x" "s_tenant_id x = t_id t"
    "s_revoked_at x = Some at"
    using assms(1) by (auto simp: revoke_session_def split: option.splits if_splits)
  obtain rev where "map_of (st_sessions s2) k = Some (x\<lparr>s_revoked_at := rev\<rparr>)" "rev \<noteq> None"
    using session_steps_entry [OF assms(2) x(1)] x(3) by auto
  with x(2) show ?thesis by (auto simp: validate_session_def)
qed

theorem revoked_session_is_dead_witness:
  "\<exists>s1. revoke_session (sample_store_tenant ''acme'') ''k'' 5
     \<lparr>st_sessions = [(''k'', \<lparr>s_id = ''k'', s_identity_id = ''alice'', s_tenant_id = ''acme'',
        s_created_at = 0, s_expires_at = 100, s_revoked_at = None\<rparr>)], st_next_id = 1\<rparr> = (Inr (), s1)
   \<and> validate_session (sample_store_tenant ''acme'') ''k'' 1 s1 = Inl ''revoked session''"
proof -
  obtain s1 where eq: "revoke_session (sample_store_tenant ''acme'') ''k'' 5
     \<lparr>st_sessions = [(''k'', \<lparr>s_id = ''k'', s_identity_id = ''alice'', s_tenant_id = ''acme'',
        s_created_at = 0, s_expires_at = 100, s_revoked_at = None\<rparr>)], st_next_id = 1\<rparr> = (Inr (), s1)"
    by (simp add: revoke_session_def sample_store_tenant_def)
  from revoked_session_is_dead [OF eq rtranclp.rtrancl_refl] eq show ?thesis by blast
qed

subsection \<open>The life of a delegation\<close>

inductive delegation_step :: "MemoryDelegationStore \<Rightarrow> MemoryDelegationStore \<Rightarrow> bool" where
  step_create: "create_delegation d s = (r, s') \<Longrightarrow> delegation_step s s'"
| step_revoke: "store_revoke_delegation t k at s = (r', s') \<Longrightarrow> delegation_step s s'"

lemma delegation_step_entry:
  assumes "delegation_step s s'" "map_of (st_delegations s) k = Some d"
  shows "\<exists>rev. map_of (st_delegations s') k = Some (d\<lparr>d_revoked_at := rev\<rparr>)
           \<and> (d_revoked_at d \<noteq> None \<longrightarrow> rev \<noteq> None)"
  using assms
proof cases
  case (step_create e r)
  then show ?thesis
    using assms(2) by (intro exI [of _ "d_revoked_at d"]) (auto simp: create_delegation_def split: if_splits)
next
  case (step_revoke t j at r)
  then show ?thesis
    using assms(2)
    by (intro exI [of _ "if s' \<noteq> s \<and> j = k then Some at else d_revoked_at d"])
      (auto simp: store_revoke_delegation_def split: option.splits if_splits)
qed

lemma delegation_steps_entry:
  assumes "delegation_step\<^sup>*\<^sup>* s s'" "map_of (st_delegations s) k = Some d"
  shows "\<exists>rev. map_of (st_delegations s') k = Some (d\<lparr>d_revoked_at := rev\<rparr>)
           \<and> (d_revoked_at d \<noteq> None \<longrightarrow> rev \<noteq> None)"
  using assms
proof (induction rule: rtranclp_induct)
  case base
  then show ?case by (intro exI [of _ "d_revoked_at d"]) simp
next
  case (step y z)
  then obtain rev where "map_of (st_delegations y) k = Some (d\<lparr>d_revoked_at := rev\<rparr>)"
    "d_revoked_at d \<noteq> None \<longrightarrow> rev \<noteq> None" by blast
  with delegation_step_entry [OF step.hyps(2) this(1)] show ?case by fastforce
qed

text \<open>What the store promises of every delegation it holds.\<close>

definition delegations_ok :: "MemoryDelegationStore \<Rightarrow> bool" where
  "delegations_ok s \<longleftrightarrow> (\<forall>k d. map_of (st_delegations s) k = Some d \<longrightarrow>
     d_id d = k \<and> d_capabilities d \<noteq> [] \<and> d_delegator d \<noteq> d_delegate d
     \<and> (\<forall>e. d_expires_at d = Some e \<longrightarrow> d_issued_at d < e))"

lemma delegation_step_ok: "delegation_step s s' \<Longrightarrow> delegations_ok s \<Longrightarrow> delegations_ok s'"
proof (induction rule: delegation_step.induct)
  case (step_create d s r s')
  then show ?case
    by (auto simp: create_delegation_def delegations_ok_def split: option.splits if_splits)
next
  case (step_revoke t k at s r s')
  then show ?case
    by (auto simp: store_revoke_delegation_def delegations_ok_def split: option.splits if_splits)
qed

text \<open>
  The delegation store is well formed in every state it can reach: each delegation is
  stored under its own id, grants at least one capability, joins two different principals and,
  where it expires at all, expires after it was issued.
\<close>

theorem reachable_delegations_ok:
  assumes "delegation_step\<^sup>*\<^sup>* delegation_store_new s"
    and "map_of (st_delegations s) k = Some d"
  shows "d_id d = k \<and> d_capabilities d \<noteq> [] \<and> d_delegator d \<noteq> d_delegate d
    \<and> (\<forall>e. d_expires_at d = Some e \<longrightarrow> d_issued_at d < e)"
proof -
  have "delegations_ok s"
    using assms(1)
    by (induction rule: rtranclp_induct)
      (auto simp: delegations_ok_def delegation_store_new_def intro: delegation_step_ok
        dest!: delegation_step_ok)
  then show ?thesis using assms(2) by (auto simp: delegations_ok_def)
qed

definition sample_store_delegation :: Delegation where
  "sample_store_delegation = \<lparr>d_id = ''d1'', d_delegator = ''alice'', d_delegate = ''bot'',
     d_tenant_id = ''acme'', d_capabilities = [''read''], d_resource_scope = scope_any,
     d_issued_at = 10, d_expires_at = None, d_revoked_at = None, d_chain = []\<rparr>"

theorem reachable_delegations_ok_witness:
  "\<exists>s. delegation_step\<^sup>*\<^sup>* delegation_store_new s
     \<and> map_of (st_delegations s) ''d1'' = Some sample_store_delegation
     \<and> d_delegator sample_store_delegation \<noteq> d_delegate sample_store_delegation"
proof -
  have st: "delegation_step delegation_store_new
      (snd (create_delegation sample_store_delegation delegation_store_new))"
    by (rule delegation_step.step_create) (rule prod.collapse [symmetric])
  have m: "map_of (st_delegations
      (snd (create_delegation sample_store_delegation delegation_store_new))) ''d1''
      = Some sample_store_delegation"
    by (simp add: create_delegation_def delegation_store_new_def sample_store_delegation_def)
  from reachable_delegations_ok [OF r_into_rtranclp [of delegation_step, OF st] m] st m
  show ?thesis by blast
qed

text \<open>
  A delegation, once created, never changes but for being revoked, and revocation is
  final: after any further operations the store still holds exactly the delegation that was
  created, with at most a revocation added; and if it had been revoked, it is valid at no
  time.
\<close>

theorem delegation_is_final:
  assumes "map_of (st_delegations s1) k = Some d"
    and "delegation_step\<^sup>*\<^sup>* s1 s2"
  shows "\<exists>rev. map_of (st_delegations s2) k = Some (d\<lparr>d_revoked_at := rev\<rparr>)
    \<and> (d_revoked_at d \<noteq> None \<longrightarrow> (\<forall>now. \<not> is_valid_at (d\<lparr>d_revoked_at := rev\<rparr>) now))"
  using delegation_steps_entry [OF assms(2,1)] by (auto simp: is_valid_at_iff)

theorem delegation_is_final_witness:
  "\<exists>rev. map_of (st_delegations \<lparr>st_delegations = [(''d1'', sample_store_delegation)]\<rparr>) ''d1''
     = Some (sample_store_delegation\<lparr>d_revoked_at := rev\<rparr>)"
  using delegation_is_final [of "\<lparr>st_delegations = [(''d1'', sample_store_delegation)]\<rparr>" "''d1''"
      sample_store_delegation, OF _ rtranclp.rtrancl_refl] by auto

subsection \<open>Identities\<close>

text \<open>
  Linking an account and finding it again: after a successful link the identity is found
  under its provider and subject, and linking it a second time is refused.
\<close>

theorem link_then_find:
  assumes "link_account t pr su s = (Inr identity, s')"
  shows "find_identity t pr su s' = Inr (Some identity)
    \<and> i_provider identity = pr \<and> i_provider_subject identity = su
    \<and> i_tenant_id identity = t_id t
    \<and> link_account t pr su s' = (Inl ''duplicate identity'', s')"
  using assms
  by (auto simp: link_account_def find_identity_def get_identity_def Let_def split: if_splits)

theorem link_then_find_witness:
  "\<exists>x s'. link_account (sample_store_tenant ''acme'') ''local'' ''alice'' identity_store_new = (Inr x, s')
     \<and> find_identity (sample_store_tenant ''acme'') ''local'' ''alice'' s' = Inr (Some x)"
proof -
  obtain x s' where eq: "link_account (sample_store_tenant ''acme'') ''local'' ''alice''
      identity_store_new = (Inr x, s')"
    by (simp add: link_account_def identity_store_new_def Let_def)
  from link_then_find [OF eq] eq show ?thesis by blast
qed

text \<open>
  Identity ids are not unique: the id joins tenant, provider and subject with colons that
  the parts may contain themselves, so linking a second account can replace the record of the
  first, and the first account is then found as the second.
\<close>

theorem identity_ids_collide:
  "\<exists>t pr su pr' su' x y s1 s2.
     link_account t pr su identity_store_new = (Inr x, s1) \<and> link_account t pr' su' s1 = (Inr y, s2)
     \<and> (pr, su) \<noteq> (pr', su') \<and> i_id x = i_id y
     \<and> find_identity t pr su s2 = Inr (Some y) \<and> i_provider y \<noteq> pr"
proof -
  let ?t = "sample_store_tenant ''acme''"
  obtain x s1 where 1: "link_account ?t ''a:b'' ''c'' identity_store_new = (Inr x, s1)"
    "i_id x = ''acme:a:b:c''" "st_by_provider s1 = [((''acme'', ''a:b'', ''c''), ''acme:a:b:c'')]"
    by (simp add: link_account_def identity_store_new_def Let_def sample_store_tenant_def
        identity_id_of_def)
  obtain y s2 where 2: "link_account ?t ''a'' ''b:c'' s1 = (Inr y, s2)"
    "i_id y = ''acme:a:b:c''" "i_provider y = ''a''" "i_tenant_id y = ''acme''"
    "map_of (st_identities s2) ''acme:a:b:c'' = Some y"
    "map_of (st_by_provider s2) (''acme'', ''a:b'', ''c'') = Some ''acme:a:b:c''"
    using 1(3)
    by (simp add: link_account_def Let_def sample_store_tenant_def identity_id_of_def)
  have "find_identity ?t ''a:b'' ''c'' s2 = Inr (Some y)"
    using 2 by (simp add: find_identity_def get_identity_def sample_store_tenant_def)
  with 1(1,2) 2(1,2,3)
  have "link_account ?t ''a:b'' ''c'' identity_store_new = (Inr x, s1)
     \<and> link_account ?t ''a'' ''b:c'' s1 = (Inr y, s2)
     \<and> (''a:b'', ''c'') \<noteq> (''a'', ''b:c'') \<and> i_id x = i_id y
     \<and> find_identity ?t ''a:b'' ''c'' s2 = Inr (Some y) \<and> i_provider y \<noteq> ''a:b''"
    by simp
  then show ?thesis by (intro exI)
qed

subsection \<open>Runs\<close>

text \<open>
  The run store guards an update by the tenant of the new record only: any tenant that
  presents a run of its own under an existing id replaces the run of another tenant, which
  then can no longer be read by its owner.
\<close>

theorem update_run_replaces_foreign_run:
  assumes "get_run owner i s = Inr (Some r)" "r_id r' = i"
    and "r_tenant_id r' = t_id t" "t_id t \<noteq> t_id owner"
  shows "\<exists>s'. update_run t r' s = (Inr r', s') \<and> get_run t i s' = Inr (Some r')
    \<and> get_run owner i s' = Inl ''tenant mismatch''"
  using assms by (auto simp: update_run_def get_run_def split: option.splits if_splits)

definition sample_run :: "TenantId \<Rightarrow> AgentRun" where
  "sample_run tenant_id = \<lparr>r_id = ''run1'', r_tenant_id = tenant_id, r_agent_principal = ''bot'',
     r_delegator = ''alice'', r_delegation_id = ''d1'', r_delegation_chain = [''d1''],
     r_task = \<lparr>ts_id = ''task1'', ts_purpose = '''', ts_capabilities = [''read''],
       ts_resource_scope = scope_any, ts_expires_at = 100, ts_constraints = []\<rparr>,
     r_parent_run_id = None, r_created_at = 10, r_expires_at = 100, r_status = StatusActive,
     r_authority_revision = 0, r_contract_fingerprint = '''', r_capability_scope = [''read''],
     r_resource_scope = scope_any, r_execution_credential = ''cred1'', r_cancelled_at = None\<rparr>"

theorem update_run_replaces_foreign_run_witness:
  "\<exists>s'. update_run (sample_store_tenant ''other'') (sample_run ''other'')
       \<lparr>st_runs = [(''run1'', sample_run ''acme'')]\<rparr> = (Inr (sample_run ''other''), s')
     \<and> get_run (sample_store_tenant ''acme'') ''run1'' s' = Inl ''tenant mismatch''"
proof -
  have g: "get_run (sample_store_tenant ''acme'') ''run1'' \<lparr>st_runs = [(''run1'', sample_run ''acme'')]\<rparr>
      = Inr (Some (sample_run ''acme''))"
    by (simp add: get_run_def sample_run_def sample_store_tenant_def)
  from update_run_replaces_foreign_run [OF g, of "sample_run ''other''" "sample_store_tenant ''other''"]
  show ?thesis by (auto simp: sample_run_def sample_store_tenant_def)
qed

end
