(* ===== verification/Policy.thy ===== *)
theory Policy
  imports Contract
begin

text \<open>
  The vocabulary of authorization decisions (\<^verbatim>\<open>crates/authz/src/policy.rs\<close>): policies
  as ordered lists of rules, resources and their resolved attributes, requests, grants with
  their provenance, decisions with their evidence, and the reasons a decision is given.
\<close>

subsection \<open>Rules\<close>

type_synonym Action = string

datatype PrincipalAttribute = AttrId | AttrTenant | AttrClaim string

datatype Condition =
  Always
  | CondAll "Condition list"
  | ClaimEquals string ClaimValue
  | ClaimIn string "ClaimValue list"
  | TimeBound int int
  | TenantCurrent
  | ResourceAttributeEquals string ClaimValue
  | ResourceAttributeIn string "ClaimValue list"
  | RelationshipEquals string PrincipalAttribute

datatype Effect = EffectAllow | EffectDeny

record ResourceRef =
  rr_resource_type :: string
  rr_resource_id :: string
  rr_tenant_id :: TenantId

definition resource_opaque :: "ResourceRef \<Rightarrow> string" where
  "resource_opaque r = rr_resource_type r @ '':'' @ rr_resource_id r"

record ResourceSelector =
  sel_resource_type :: string
  sel_resource_id :: "string option"

definition selector_any :: "string \<Rightarrow> ResourceSelector" where
  "selector_any ty = \<lparr>sel_resource_type = ty, sel_resource_id = None\<rparr>"

definition selector_exact :: "string \<Rightarrow> string \<Rightarrow> ResourceSelector" where
  "selector_exact ty i = \<lparr>sel_resource_type = ty, sel_resource_id = Some i\<rparr>"

definition selector_matches :: "ResourceSelector \<Rightarrow> ResourceRef \<Rightarrow> bool" where
  "selector_matches sel res \<longleftrightarrow>
     sel_resource_type sel = rr_resource_type res
     \<and> (case sel_resource_id sel of
          Some i \<Rightarrow> i = ''*'' \<or> i = rr_resource_id res
        | None \<Rightarrow> True)"

record Rule =
  rule_capability :: Capability
  rule_condition :: Condition
  rule_resource :: "ResourceSelector option"
  rule_action :: "Action option"
  rule_effect :: Effect

definition rule_allow :: "Capability \<Rightarrow> Condition \<Rightarrow> Rule" where
  "rule_allow cap cond =
     \<lparr>rule_capability = cap, rule_condition = cond, rule_resource = None, rule_action = None,
      rule_effect = EffectAllow\<rparr>"

record Policy =
  pol_id :: PolicyId
  pol_rules :: "Rule list"

subsection \<open>Requests\<close>

record ResourceAttributes =
  ra_tenant_id :: "TenantId option"
  ra_values :: "(string, ClaimValue) bmap"

definition resource_attributes_new :: ResourceAttributes where
  "resource_attributes_new = \<lparr>ra_tenant_id = None, ra_values = []\<rparr>"

definition with_tenant :: "ResourceAttributes \<Rightarrow> TenantId \<Rightarrow> ResourceAttributes" where
  "with_tenant ra t = ra\<lparr>ra_tenant_id := Some t\<rparr>"

definition with_value :: "ResourceAttributes \<Rightarrow> string \<Rightarrow> ClaimValue \<Rightarrow> ResourceAttributes" where
  "with_value ra k v = ra\<lparr>ra_values := binsert k v (ra_values ra)\<rparr>"

record AuthorizationContext =
  cx_values :: "(string, ClaimValue) bmap"
  cx_run_id :: "RunId option"
  cx_task_id :: "TaskId option"
  cx_agent_principal :: "PrincipalId option"
  cx_delegation_id :: "DelegationId option"
  cx_delegation_chain :: "DelegationId list"

definition authorization_context_default :: AuthorizationContext where
  "authorization_context_default =
     \<lparr>cx_values = [], cx_run_id = None, cx_task_id = None, cx_agent_principal = None,
      cx_delegation_id = None, cx_delegation_chain = []\<rparr>"

record AuthorizationRequest =
  rq_principal :: PrincipalId
  rq_tenant :: TenantId
  rq_capability :: Capability
  rq_action :: Action
  rq_resource :: "ResourceRef option"
  rq_context :: AuthorizationContext

subsection \<open>Grants\<close>

datatype AuthorityBasis = BasisClaim | BasisDelegated

definition basis_as_str :: "AuthorityBasis \<Rightarrow> string" where
  "basis_as_str b = (case b of BasisClaim \<Rightarrow> ''claim'' | BasisDelegated \<Rightarrow> ''delegated'')"

definition principal_kind_str :: "PrincipalKind \<Rightarrow> string" where
  "principal_kind_str k =
     (case k of Human \<Rightarrow> ''human'' | Agent \<Rightarrow> ''agent'' | Service \<Rightarrow> ''service'')"

record GrantedCapability =
  g_capability :: Capability
  g_policy_id :: PolicyId
  g_tenant_id :: TenantId
  g_principal_id :: PrincipalId
  g_principal_kind :: PrincipalKind
  g_authority :: AuthorityBasis
  g_claim_basis :: "string list"
  g_delegation_id :: "DelegationId option"
  g_delegation_chain :: "DelegationId list"
  g_delegated_by :: "PrincipalId option"

definition is_delegated :: "GrantedCapability \<Rightarrow> bool" where
  "is_delegated g \<longleftrightarrow> g_authority g = BasisDelegated"

definition line :: "string \<Rightarrow> string" where
  "line s = s @ ''\<newline>''"

definition explain_grant :: "GrantedCapability \<Rightarrow> string" where
  "explain_grant g =
     line (g_capability g)
     @ line (''  principal: '' @ g_principal_id g @ '' (''
             @ principal_kind_str (g_principal_kind g) @ '')'')
     @ line (''  tenant: '' @ g_tenant_id g)
     @ line (''  policy: '' @ g_policy_id g)
     @ line (''  authority: '' @ basis_as_str (g_authority g))
     @ (case g_delegation_id g of Some d \<Rightarrow> line (''  delegation: '' @ d) | None \<Rightarrow> [])
     @ (if g_delegation_chain g \<noteq> []
        then line (''  delegation_chain: '' @ join '' -> '' (g_delegation_chain g)) else [])
     @ (case g_delegated_by g of Some p \<Rightarrow> line (''  delegated_by: '' @ p) | None \<Rightarrow> [])
     @ line ''  basis:''
     @ concat (map (\<lambda>b. line (''    '' @ b)) (g_claim_basis g))"

record CapabilityEnvelope =
  granted_capabilities :: "GrantedCapability list"

definition envelope_empty :: CapabilityEnvelope where
  "envelope_empty = \<lparr>granted_capabilities = []\<rparr>"

definition envelope_grant :: "CapabilityEnvelope \<Rightarrow> Capability \<Rightarrow> GrantedCapability option" where
  "envelope_grant env cap = find (\<lambda>g. g_capability g = cap) (granted_capabilities env)"

definition envelope_allows :: "CapabilityEnvelope \<Rightarrow> Capability \<Rightarrow> bool" where
  "envelope_allows env cap \<longleftrightarrow> envelope_grant env cap \<noteq> None"

definition envelope_capabilities :: "CapabilityEnvelope \<Rightarrow> Capability list" where
  "envelope_capabilities env = map g_capability (granted_capabilities env)"

definition explain_envelope :: "CapabilityEnvelope \<Rightarrow> string" where
  "explain_envelope env = join ''\<newline>'' (map explain_grant (granted_capabilities env))"

subsection \<open>Decisions\<close>

datatype ConditionResult = Pass | Fail

definition condition_result_as_str :: "ConditionResult \<Rightarrow> string" where
  "condition_result_as_str r = (case r of Pass \<Rightarrow> ''pass'' | Fail \<Rightarrow> ''fail'')"

record ConditionEvidence =
  ev_condition :: string
  ev_result :: ConditionResult
  ev_fact :: "string option"

datatype DenialReason =
  UnknownTenant | UnknownPrincipal | TenantMismatch | MissingClaim | ClaimMismatch
  | PolicyNotFound | CapabilityNotGranted | ExpiredSession | RevokedSession | ExpiredDelegation
  | RevokedDelegation | InvalidDelegation | DelegationMissing | DelegationScopeDenied
  | DelegationExceedsAuthority | RunNotFound | RunCancelled | RunExpired | RunScopeDenied
  | RunExceedsDelegation | ParentRunScopeDenied | AgentRevoked | AgentSuspended
  | UnknownCapability | UnsupportedConnector | InvalidSession | MissingCredential
  | PasswordTooShort | PasswordTooLong | PasswordMissingUppercase | PasswordMissingLowercase
  | PasswordMissingNumber | PasswordMissingSpecialCharacter | PasswordReused | PasswordExpired
  | PolicyDenied | ConditionFailed | AuditUnavailable

fun denial_as_str :: "DenialReason \<Rightarrow> string" where
  "denial_as_str UnknownTenant = ''unknown_tenant''"
| "denial_as_str UnknownPrincipal = ''unknown_principal''"
| "denial_as_str TenantMismatch = ''tenant_mismatch''"
| "denial_as_str MissingClaim = ''missing_claim''"
| "denial_as_str ClaimMismatch = ''claim_mismatch''"
| "denial_as_str PolicyNotFound = ''policy_not_found''"
| "denial_as_str CapabilityNotGranted = ''capability_not_granted''"
| "denial_as_str ExpiredSession = ''expired_session''"
| "denial_as_str RevokedSession = ''revoked_session''"
| "denial_as_str ExpiredDelegation = ''delegation_expired''"
| "denial_as_str RevokedDelegation = ''delegation_revoked''"
| "denial_as_str InvalidDelegation = ''invalid_delegation''"
| "denial_as_str DelegationMissing = ''delegation_missing''"
| "denial_as_str DelegationScopeDenied = ''delegation_scope_denied''"
| "denial_as_str DelegationExceedsAuthority = ''delegation_exceeds_authority''"
| "denial_as_str RunNotFound = ''run_not_found''"
| "denial_as_str RunCancelled = ''run_cancelled''"
| "denial_as_str RunExpired = ''run_expired''"
| "denial_as_str RunScopeDenied = ''run_scope_denied''"
| "denial_as_str RunExceedsDelegation = ''run_exceeds_delegation''"
| "denial_as_str ParentRunScopeDenied = ''parent_run_scope_denied''"
| "denial_as_str AgentRevoked = ''agent_revoked''"
| "denial_as_str AgentSuspended = ''agent_suspended''"
| "denial_as_str UnknownCapability = ''unknown_capability''"
| "denial_as_str UnsupportedConnector = ''unsupported_connector''"
| "denial_as_str InvalidSession = ''invalid_session''"
| "denial_as_str MissingCredential = ''missing_credential''"
| "denial_as_str PasswordTooShort = ''PASSWORD_TOO_SHORT''"
| "denial_as_str PasswordTooLong = ''PASSWORD_TOO_LONG''"
| "denial_as_str PasswordMissingUppercase = ''PASSWORD_MISSING_UPPERCASE''"
| "denial_as_str PasswordMissingLowercase = ''PASSWORD_MISSING_LOWERCASE''"
| "denial_as_str PasswordMissingNumber = ''PASSWORD_MISSING_NUMBER''"
| "denial_as_str PasswordMissingSpecialCharacter = ''PASSWORD_MISSING_SPECIAL_CHARACTER''"
| "denial_as_str PasswordReused = ''PASSWORD_REUSED''"
| "denial_as_str PasswordExpired = ''PASSWORD_EXPIRED''"
| "denial_as_str PolicyDenied = ''policy_denied''"
| "denial_as_str ConditionFailed = ''condition_failed''"
| "denial_as_str AuditUnavailable = ''audit_unavailable''"

datatype DecisionReason =
  ReasonAllowedByPolicy | ReasonCapabilityMissing | ReasonPolicyDenied | ReasonTenantMismatch
  | ReasonConditionFailed | ReasonResourceResolutionFailed | ReasonPrincipalMissing
  | ReasonSessionInvalid | ReasonRouteUnprotected | ReasonAuthorityUnavailable
  | ReasonDelegationMissing | ReasonDelegationExpired | ReasonDelegationRevoked
  | ReasonDelegationScopeDenied | ReasonDelegationExceedsAuthority | ReasonRunNotFound
  | ReasonRunCancelled | ReasonRunExpired | ReasonRunScopeDenied | ReasonRunExceedsDelegation
  | ReasonParentRunScopeDenied | ReasonAgentRevoked | ReasonAgentSuspended | ReasonFailClosed

fun decision_reason_as_str :: "DecisionReason \<Rightarrow> string" where
  "decision_reason_as_str ReasonAllowedByPolicy = ''allowed_by_policy''"
| "decision_reason_as_str ReasonCapabilityMissing = ''capability_missing''"
| "decision_reason_as_str ReasonPolicyDenied = ''policy_denied''"
| "decision_reason_as_str ReasonTenantMismatch = ''tenant_mismatch''"
| "decision_reason_as_str ReasonConditionFailed = ''condition_failed''"
| "decision_reason_as_str ReasonResourceResolutionFailed = ''resource_resolution_failed''"
| "decision_reason_as_str ReasonPrincipalMissing = ''principal_missing''"
| "decision_reason_as_str ReasonSessionInvalid = ''session_invalid''"
| "decision_reason_as_str ReasonRouteUnprotected = ''route_unprotected''"
| "decision_reason_as_str ReasonAuthorityUnavailable = ''authority_unavailable''"
| "decision_reason_as_str ReasonDelegationMissing = ''delegation_missing''"
| "decision_reason_as_str ReasonDelegationExpired = ''delegation_expired''"
| "decision_reason_as_str ReasonDelegationRevoked = ''delegation_revoked''"
| "decision_reason_as_str ReasonDelegationScopeDenied = ''delegation_scope_denied''"
| "decision_reason_as_str ReasonDelegationExceedsAuthority = ''delegation_exceeds_authority''"
| "decision_reason_as_str ReasonRunNotFound = ''run_not_found''"
| "decision_reason_as_str ReasonRunCancelled = ''run_cancelled''"
| "decision_reason_as_str ReasonRunExpired = ''run_expired''"
| "decision_reason_as_str ReasonRunScopeDenied = ''run_scope_denied''"
| "decision_reason_as_str ReasonRunExceedsDelegation = ''run_exceeds_delegation''"
| "decision_reason_as_str ReasonParentRunScopeDenied = ''parent_run_scope_denied''"
| "decision_reason_as_str ReasonAgentRevoked = ''agent_revoked''"
| "decision_reason_as_str ReasonAgentSuspended = ''agent_suspended''"
| "decision_reason_as_str ReasonFailClosed = ''fail_closed''"

datatype AuthorizationDecision =
  Allow (allow_grant: GrantedCapability)
    (dec_resource: "ResourceRef option") (dec_action: "Action option")
    (dec_matched_rules: "string list") (dec_conditions: "ConditionEvidence list")
    (dec_audit_event_id: "AuditEventId option")
  | Deny (deny_reason: DenialReason) (deny_capability: "Capability option")
    (dec_resource: "ResourceRef option") (dec_action: "Action option")
    (deny_policy_id: "PolicyId option")
    (dec_matched_rules: "string list") (dec_conditions: "ConditionEvidence list")
    (dec_audit_event_id: "AuditEventId option")

definition is_allowed :: "AuthorizationDecision \<Rightarrow> bool" where
  "is_allowed d = (case d of Allow _ _ _ _ _ _ \<Rightarrow> True | Deny _ _ _ _ _ _ _ _ \<Rightarrow> False)"

definition denial_reason :: "AuthorizationDecision \<Rightarrow> DenialReason option" where
  "denial_reason d =
     (case d of Allow _ _ _ _ _ _ \<Rightarrow> None | Deny reason _ _ _ _ _ _ _ \<Rightarrow> Some reason)"

definition decision_grant :: "AuthorizationDecision \<Rightarrow> GrantedCapability option" where
  "decision_grant d =
     (case d of Allow g _ _ _ _ _ \<Rightarrow> Some g | Deny _ _ _ _ _ _ _ _ \<Rightarrow> None)"

definition decision_conditions :: "AuthorizationDecision \<Rightarrow> ConditionEvidence list" where
  "decision_conditions d =
     (case d of Allow _ _ _ _ cs _ \<Rightarrow> cs | Deny _ _ _ _ _ _ cs _ \<Rightarrow> cs)"

fun reason_of_denial :: "DenialReason \<Rightarrow> DecisionReason" where
  "reason_of_denial UnknownTenant = ReasonTenantMismatch"
| "reason_of_denial UnknownPrincipal = ReasonPrincipalMissing"
| "reason_of_denial TenantMismatch = ReasonTenantMismatch"
| "reason_of_denial MissingClaim = ReasonCapabilityMissing"
| "reason_of_denial ClaimMismatch = ReasonCapabilityMissing"
| "reason_of_denial PolicyNotFound = ReasonAuthorityUnavailable"
| "reason_of_denial CapabilityNotGranted = ReasonCapabilityMissing"
| "reason_of_denial ExpiredSession = ReasonSessionInvalid"
| "reason_of_denial RevokedSession = ReasonSessionInvalid"
| "reason_of_denial ExpiredDelegation = ReasonDelegationExpired"
| "reason_of_denial RevokedDelegation = ReasonDelegationRevoked"
| "reason_of_denial InvalidDelegation = ReasonFailClosed"
| "reason_of_denial DelegationMissing = ReasonDelegationMissing"
| "reason_of_denial DelegationScopeDenied = ReasonDelegationScopeDenied"
| "reason_of_denial DelegationExceedsAuthority = ReasonDelegationExceedsAuthority"
| "reason_of_denial RunNotFound = ReasonRunNotFound"
| "reason_of_denial RunCancelled = ReasonRunCancelled"
| "reason_of_denial RunExpired = ReasonRunExpired"
| "reason_of_denial RunScopeDenied = ReasonRunScopeDenied"
| "reason_of_denial RunExceedsDelegation = ReasonRunExceedsDelegation"
| "reason_of_denial ParentRunScopeDenied = ReasonParentRunScopeDenied"
| "reason_of_denial AgentRevoked = ReasonAgentRevoked"
| "reason_of_denial AgentSuspended = ReasonAgentSuspended"
| "reason_of_denial UnknownCapability = ReasonAuthorityUnavailable"
| "reason_of_denial UnsupportedConnector = ReasonFailClosed"
| "reason_of_denial InvalidSession = ReasonSessionInvalid"
| "reason_of_denial MissingCredential = ReasonSessionInvalid"
| "reason_of_denial PasswordTooShort = ReasonPolicyDenied"
| "reason_of_denial PasswordTooLong = ReasonPolicyDenied"
| "reason_of_denial PasswordMissingUppercase = ReasonPolicyDenied"
| "reason_of_denial PasswordMissingLowercase = ReasonPolicyDenied"
| "reason_of_denial PasswordMissingNumber = ReasonPolicyDenied"
| "reason_of_denial PasswordMissingSpecialCharacter = ReasonPolicyDenied"
| "reason_of_denial PasswordReused = ReasonPolicyDenied"
| "reason_of_denial PasswordExpired = ReasonPolicyDenied"
| "reason_of_denial PolicyDenied = ReasonPolicyDenied"
| "reason_of_denial ConditionFailed = ReasonConditionFailed"
| "reason_of_denial AuditUnavailable = ReasonFailClosed"

definition decision_reason :: "AuthorizationDecision \<Rightarrow> DecisionReason" where
  "decision_reason d =
     (case d of Allow _ _ _ _ _ _ \<Rightarrow> ReasonAllowedByPolicy
      | Deny reason _ _ _ _ _ _ _ \<Rightarrow> reason_of_denial reason)"

datatype AuthorizationOutcome = OutcomeAllow | OutcomeDeny

definition outcome_as_str :: "AuthorizationOutcome \<Rightarrow> string" where
  "outcome_as_str r = (case r of OutcomeAllow \<Rightarrow> ''allow'' | OutcomeDeny \<Rightarrow> ''deny'')"

record AuthorizationEvidence =
  ae_decision_id :: string
  ae_timestamp :: int
  ae_principal :: PrincipalId
  ae_tenant :: TenantId
  ae_capability :: Capability
  ae_action :: "Action option"
  ae_resource :: "ResourceRef option"
  ae_policy_id :: "PolicyId option"
  ae_matched_rules :: "string list"
  ae_conditions :: "ConditionEvidence list"
  ae_authority :: "AuthorityBasis option"
  ae_delegated_by :: "PrincipalId option"
  ae_delegation_chain :: "DelegationId list"
  ae_run_id :: "RunId option"
  ae_task_id :: "TaskId option"
  ae_agent_principal :: "PrincipalId option"
  ae_delegation_id :: "DelegationId option"
  ae_parent_run_id :: "RunId option"
  ae_execution_scope :: "ResourceScope option"
  ae_authority_revision :: u64
  ae_contract_fingerprint :: string
  ae_decision :: AuthorizationOutcome
  ae_reason :: DecisionReason
  ae_audit_event_id :: "AuditEventId option"

subsection \<open>Facts\<close>

lemma is_allowed_iff: "is_allowed d \<longleftrightarrow> (\<exists>g. decision_grant d = Some g)"
  by (cases d) (simp_all add: is_allowed_def decision_grant_def)

lemma is_allowed_denial_reason: "is_allowed d \<longleftrightarrow> denial_reason d = None"
  by (cases d) (simp_all add: is_allowed_def denial_reason_def)

lemma envelope_allows_iff:
  "envelope_allows env cap \<longleftrightarrow> cap \<in> set (envelope_capabilities env)"
  by (auto simp: envelope_allows_def envelope_grant_def envelope_capabilities_def find_None_iff
      simp del: not_None_eq)

end
