(* ===== verification/Connectors.thy ===== *)
theory Connectors
  imports Config
begin

text \<open>
  Connectors, which prove external identities (\<^verbatim>\<open>crates/providers/src\<close>): requests,
  challenges and responses, the catalog of known connectors, the local directory with its
  password accounts, the connector that is only declared, and the registry built from a
  contract. The trait object \<^verbatim>\<open>dyn AuthConnector\<close> is the datatype \<open>Connector\<close> of
  the two implementations the repository has.

  Argon2 with its random salts is not under the repository: it is the parameter \<open>Argon2\<close>,
  a hash function, standing for the salt drawn at the call, and a verifier.
\<close>

subsection \<open>The connector contract\<close>

record AuthRequest =
  arq_connector :: string
  arq_tenant :: "string option"
  arq_parameters :: "(string, string) bmap"
  arq_redirect_uri :: "string option"

definition auth_request_new :: "string \<Rightarrow> AuthRequest" where
  "auth_request_new con =
     \<lparr>arq_connector = con, arq_tenant = None, arq_parameters = [], arq_redirect_uri = None\<rparr>"

text \<open>\<^verbatim>\<open>parameter\<close>: a parameter without surrounding white space, absent when blank.\<close>

definition parameter_of :: "(string, string) bmap \<Rightarrow> string \<Rightarrow> string option" where
  "parameter_of ps k = (case map_of ps k of
     Some v \<Rightarrow> (if trim v = [] then None else Some (trim v)) | None \<Rightarrow> None)"

datatype ChallengeKind = Credentials | Redirect string | OutOfBand string

record AuthChallenge =
  ch_connector :: string
  ch_kind :: ChallengeKind
  ch_state :: string
  ch_parameters :: "(string, string) bmap"

record AuthResponse =
  ars_connector :: string
  ars_tenant :: "string option"
  ars_state :: string
  ars_parameters :: "(string, string) bmap"

definition to_challenge :: "AuthChallenge \<Rightarrow> AuthResponse" where
  "to_challenge ch = \<lparr>ars_connector = ch_connector ch, ars_tenant = None,
     ars_state = ch_state ch, ars_parameters = []\<rparr>"

definition response_for_tenant :: "AuthResponse \<Rightarrow> string \<Rightarrow> AuthResponse" where
  "response_for_tenant r t = r\<lparr>ars_tenant := Some t\<rparr>"

definition response_with_parameter :: "AuthResponse \<Rightarrow> string \<Rightarrow> string \<Rightarrow> AuthResponse" where
  "response_with_parameter r k v = r\<lparr>ars_parameters := binsert k v (ars_parameters r)\<rparr>"

definition request_for_tenant :: "AuthRequest \<Rightarrow> string \<Rightarrow> AuthRequest" where
  "request_for_tenant r t = r\<lparr>arq_tenant := Some t\<rparr>"

definition request_with_parameter :: "AuthRequest \<Rightarrow> string \<Rightarrow> string \<Rightarrow> AuthRequest" where
  "request_with_parameter r k v = r\<lparr>arq_parameters := binsert k v (arq_parameters r)\<rparr>"

record ExternalIdentity =
  xi_connector :: string
  xi_subject :: string
  xi_attributes :: "(string, string) bmap"

definition external_identity_new :: "string \<Rightarrow> string \<Rightarrow> ExternalIdentity" where
  "external_identity_new con subj =
     \<lparr>xi_connector = con, xi_subject = subj, xi_attributes = []\<rparr>"

datatype ConnectorKind =
  ConLocal | ConPassword | ConOauth | ConEmail | ConMagicLink | ConEnterpriseSso | ConToken

definition connector_kind_as_str :: "ConnectorKind \<Rightarrow> string" where
  "connector_kind_as_str k = (case k of
     ConLocal \<Rightarrow> ''local'' | ConPassword \<Rightarrow> ''password'' | ConOauth \<Rightarrow> ''oauth''
   | ConEmail \<Rightarrow> ''email'' | ConMagicLink \<Rightarrow> ''magic_link''
   | ConEnterpriseSso \<Rightarrow> ''enterprise_sso'' | ConToken \<Rightarrow> ''token'')"

datatype ConnectorStatus = Supported | Declared | UnknownStatus

definition connector_status_as_str :: "ConnectorStatus \<Rightarrow> string" where
  "connector_status_as_str s = (case s of
     Supported \<Rightarrow> ''supported'' | Declared \<Rightarrow> ''declared'' | UnknownStatus \<Rightarrow> ''unknown'')"

record ConnectorMetadata =
  md_id :: string
  md_display_name :: string
  md_kind :: ConnectorKind
  md_status :: ConnectorStatus

datatype ConnectorError =
  UnknownConnector (error_connector: string)
  | Unsupported (error_connector: string)
  | NotDeclared (error_connector: string)
  | DuplicateConnector (error_connector: string)
  | InvalidRequest (error_connector: string) string
  | InvalidCredentials (error_connector: string)
  | ChallengeMismatch (error_connector: string)
  | PasswordReusedError (error_connector: string)
  | PasswordHashingFailed (error_connector: string)

definition connector_error_text :: "ConnectorError \<Rightarrow> string" where
  "connector_error_text e = (case e of
     UnknownConnector c \<Rightarrow> ''unknown connector '' @ in_backticks c
   | Unsupported c \<Rightarrow> ''connector '' @ in_backticks c @ '' is declared but not implemented''
   | NotDeclared c \<Rightarrow> ''connector '' @ in_backticks c @ '' is not declared by '' @ in_backticks ''use auth''
   | DuplicateConnector c \<Rightarrow> ''duplicate connector '' @ in_backticks c
   | InvalidRequest c m \<Rightarrow> ''connector '' @ in_backticks c @ '': '' @ m
   | InvalidCredentials c \<Rightarrow> ''connector '' @ in_backticks c @ '': invalid credentials''
   | ChallengeMismatch c \<Rightarrow>
       ''connector '' @ in_backticks c @ '': challenge does not match response''
   | PasswordReusedError c \<Rightarrow> ''connector '' @ in_backticks c @ '': PASSWORD_REUSED''
   | PasswordHashingFailed c \<Rightarrow> ''connector '' @ in_backticks c @ '': password hashing failed'')"

definition challenge_state :: "string \<Rightarrow> string option \<Rightarrow> string \<Rightarrow> string" where
  "challenge_state con tenant subj =
     ''chal_'' @ hex16 (stable_hash (con @ ''|''
        @ (case tenant of Some t \<Rightarrow> t | None \<Rightarrow> []) @ ''|'' @ subj))"

subsection \<open>The catalog\<close>

definition catalog :: "(string \<times> string \<times> ConnectorKind \<times> ConnectorStatus) list" where
  "catalog =
     [(''local'', ''Local Directory'', ConLocal, Supported),
      (''password'', ''Password'', ConPassword, Declared),
      (''google'', ''Google'', ConOauth, Declared),
      (''github'', ''GitHub'', ConOauth, Declared),
      (''microsoft'', ''Microsoft'', ConOauth, Declared),
      (''apple'', ''Apple'', ConOauth, Declared),
      (''email'', ''Email'', ConEmail, Declared),
      (''magic_link'', ''Magic Link'', ConMagicLink, Declared),
      (''sso'', ''Enterprise SSO'', ConEnterpriseSso, Declared),
      (''jwt'', ''JWT'', ConToken, Declared)]"

definition catalog_lookup :: "string \<Rightarrow> ConnectorMetadata option" where
  "catalog_lookup i =
     map_option (\<lambda>(n, dn, k, s). \<lparr>md_id = n, md_display_name = dn, md_kind = k, md_status = s\<rparr>)
       (find (\<lambda>e. fst e = i) catalog)"

definition describe :: "string \<Rightarrow> ConnectorMetadata" where
  "describe i = (case catalog_lookup i of
     Some m \<Rightarrow> m
   | None \<Rightarrow> \<lparr>md_id = i, md_display_name = i, md_kind = ConToken, md_status = UnknownStatus\<rparr>)"

definition catalog_all :: "ConnectorMetadata list" where
  "catalog_all = map (\<lambda>e. describe (fst e)) catalog"

subsection \<open>Local accounts\<close>

record Argon2 =
  ar_hash :: "string \<Rightarrow> string option"
  ar_verify :: "string \<Rightarrow> string \<Rightarrow> bool"

record LocalAccount =
  la_username :: string
  la_password_hash :: string
  la_password_history :: "string list"
  la_password_changed_at :: int
  la_attributes :: "(string, string) bmap"

text \<open>
  \<^verbatim>\<open>LocalAccount::new\<close> panics when hashing fails, which is \<open>None\<close> here.
\<close>

definition local_account_new :: "Argon2 \<Rightarrow> string \<Rightarrow> string \<Rightarrow> LocalAccount option" where
  "local_account_new ar user pw =
     map_option (\<lambda>h. \<lparr>la_username = user, la_password_hash = h, la_password_history = [],
        la_password_changed_at = 0, la_attributes = []\<rparr>) (ar_hash ar pw)"

definition verify_password :: "Argon2 \<Rightarrow> LocalAccount \<Rightarrow> string \<Rightarrow> bool" where
  "verify_password ar a pw = ar_verify ar pw (la_password_hash a)"

definition matches_current_or_history :: "Argon2 \<Rightarrow> LocalAccount \<Rightarrow> string \<Rightarrow> nat \<Rightarrow> bool" where
  "matches_current_or_history ar a pw n =
     list_ex (ar_verify ar pw) (la_password_hash a # take n (la_password_history a))"

definition local_id :: string where "local_id = ''local''"

definition set_password ::
  "Argon2 \<Rightarrow> string \<Rightarrow> PasswordPolicy \<Rightarrow> int \<Rightarrow> (LocalAccount, ConnectorError, unit) eff" where
  "set_password ar pw policy now = (\<lambda>a.
     if matches_current_or_history ar a pw (pw_history_count policy)
     then (Inl (PasswordReusedError local_id), a)
     else case ar_hash ar pw of
       None \<Rightarrow> (Inl (PasswordHashingFailed local_id), a)
     | Some h \<Rightarrow> (Inr (), a\<lparr>la_password_hash := h,
         la_password_history := take (pw_history_count policy)
           (la_password_hash a # la_password_history a),
         la_password_changed_at := now\<rparr>))"

subsection \<open>The local connector\<close>

type_synonym LocalConnector = "(string, LocalAccount) bmap"

definition local_register :: "LocalAccount \<Rightarrow> (LocalConnector, ConnectorError, unit) eff" where
  "local_register a = (\<lambda>c.
     if bcontains c (la_username a)
     then (Inl (InvalidRequest local_id
             (''account '' @ in_backticks (la_username a) @ '' already exists'')), c)
     else (Inr (), binsert (la_username a) a c))"

definition local_usernames :: "LocalConnector \<Rightarrow> string list" where
  "local_usernames c = bkeys c"

definition account_attribute :: "LocalConnector \<Rightarrow> string \<Rightarrow> string \<Rightarrow> string option" where
  "account_attribute c user k = Option.bind (map_of c user) (\<lambda>a. map_of (la_attributes a) k)"

definition missing_parameter :: "string \<Rightarrow> ConnectorError" where
  "missing_parameter k = InvalidRequest local_id (''missing '' @ in_backticks k)"

definition local_begin :: "AuthRequest \<Rightarrow> ConnectorError + AuthChallenge" where
  "local_begin rq =
     rbind (check (arq_connector rq = local_id)
       (InvalidRequest local_id (''request targets connector '' @ in_backticks (arq_connector rq))))
     (\<lambda>_. rbind (ok_or (missing_parameter ''username'') (parameter_of (arq_parameters rq) ''username''))
     (\<lambda>user. Inr \<lparr>ch_connector = local_id, ch_kind = Credentials,
        ch_state = challenge_state local_id (arq_tenant rq) user,
        ch_parameters = [(''username'', user)]\<rparr>))"

definition local_authenticate ::
  "Argon2 \<Rightarrow> LocalConnector \<Rightarrow> AuthResponse \<Rightarrow> ConnectorError + ExternalIdentity" where
  "local_authenticate ar c rs =
     rbind (check (ars_connector rs = local_id)
       (InvalidRequest local_id (''response targets connector '' @ in_backticks (ars_connector rs))))
     (\<lambda>_. rbind (ok_or (missing_parameter ''username'') (parameter_of (ars_parameters rs) ''username''))
     (\<lambda>user. rbind (ok_or (missing_parameter ''password'') (parameter_of (ars_parameters rs) ''password''))
     (\<lambda>pw. rbind (check (ars_state rs = challenge_state local_id (ars_tenant rs) user)
       (ChallengeMismatch local_id))
     (\<lambda>_. rbind (ok_or (InvalidCredentials local_id) (map_of c user))
     (\<lambda>a. rbind (check (verify_password ar a pw) (InvalidCredentials local_id))
     (\<lambda>_. Inr \<lparr>xi_connector = local_id, xi_subject = user,
        xi_attributes = binsert ''password_changed_at'' (show_int (la_password_changed_at a))
          (la_attributes a)\<rparr>))))))"

definition local_recovery_address :: "LocalConnector \<Rightarrow> string \<Rightarrow> string option" where
  "local_recovery_address c user = account_attribute c user ''email''"

definition local_mark_email_verified ::
  "string \<Rightarrow> (LocalConnector, ConnectorError, unit) eff" where
  "local_mark_email_verified user = (\<lambda>c. case map_of c user of
     None \<Rightarrow> (Inl (InvalidCredentials local_id), c)
   | Some a \<Rightarrow> (Inr (), binsert user
       (a\<lparr>la_attributes := binsert ''email_verified'' ''true'' (la_attributes a)\<rparr>) c))"

text \<open>The panic of \<^verbatim>\<open>LocalAccount::new\<close> is reported as a hashing failure.\<close>

definition local_create_account ::
  "Argon2 \<Rightarrow> string \<Rightarrow> string \<Rightarrow> (string, string) bmap \<Rightarrow> (LocalConnector, ConnectorError, unit) eff"
where
  "local_create_account ar user pw attrs = (case local_account_new ar user pw of
     None \<Rightarrow> fail (PasswordHashingFailed local_id)
   | Some a \<Rightarrow> local_register (a\<lparr>la_attributes := attrs\<rparr>))"

definition on_account ::
  "string \<Rightarrow> (LocalAccount, ConnectorError, unit) eff \<Rightarrow> (LocalConnector, ConnectorError, unit) eff"
where
  "on_account user m = (\<lambda>c. case map_of c user of
     None \<Rightarrow> (Inl (InvalidCredentials local_id), c)
   | Some a \<Rightarrow> (case m a of (r, a') \<Rightarrow> (r, binsert user a' c)))"

definition local_change_password ::
  "Argon2 \<Rightarrow> string \<Rightarrow> string \<Rightarrow> string \<Rightarrow> PasswordPolicy \<Rightarrow> int
   \<Rightarrow> (LocalConnector, ConnectorError, unit) eff" where
  "local_change_password ar user current pw policy now =
     on_account user (\<lambda>a.
       if \<not> verify_password ar a current then (Inl (InvalidCredentials local_id), a)
       else set_password ar pw policy now a)"

definition local_reset_password ::
  "Argon2 \<Rightarrow> string \<Rightarrow> string \<Rightarrow> PasswordPolicy \<Rightarrow> int
   \<Rightarrow> (LocalConnector, ConnectorError, unit) eff" where
  "local_reset_password ar user pw policy now = on_account user (set_password ar pw policy now)"

subsection \<open>Connectors and their registry\<close>

datatype Connector = LocalConn LocalConnector | DeclaredConn ConnectorMetadata

definition connector_id :: "Connector \<Rightarrow> string" where
  "connector_id c = (case c of LocalConn _ \<Rightarrow> local_id | DeclaredConn m \<Rightarrow> md_id m)"

definition connector_metadata :: "Connector \<Rightarrow> ConnectorMetadata" where
  "connector_metadata c = (case c of LocalConn _ \<Rightarrow> describe local_id | DeclaredConn m \<Rightarrow> m)"

definition connector_begin :: "Connector \<Rightarrow> AuthRequest \<Rightarrow> ConnectorError + AuthChallenge" where
  "connector_begin c rq = (case c of
     LocalConn _ \<Rightarrow> local_begin rq | DeclaredConn m \<Rightarrow> Inl (Unsupported (md_id m)))"

definition connector_authenticate ::
  "Argon2 \<Rightarrow> Connector \<Rightarrow> AuthResponse \<Rightarrow> ConnectorError + ExternalIdentity" where
  "connector_authenticate ar c rs = (case c of
     LocalConn l \<Rightarrow> local_authenticate ar l rs | DeclaredConn m \<Rightarrow> Inl (Unsupported (md_id m)))"

definition supports_password_management :: "Connector \<Rightarrow> bool" where
  "supports_password_management c = (case c of LocalConn _ \<Rightarrow> True | DeclaredConn _ \<Rightarrow> False)"

text \<open>
  A method the trait implements by default as unsupported, and the local connector overrides.
\<close>

definition on_local ::
  "(LocalConnector, ConnectorError, unit) eff \<Rightarrow> (Connector, ConnectorError, unit) eff" where
  "on_local m = (\<lambda>c. case c of
     LocalConn l \<Rightarrow> (case m l of (r, l') \<Rightarrow> (r, LocalConn l'))
   | DeclaredConn d \<Rightarrow> (Inl (Unsupported (md_id d)), c))"

definition recovery_address :: "Connector \<Rightarrow> string \<Rightarrow> string option" where
  "recovery_address c user = (case c of
     LocalConn l \<Rightarrow> local_recovery_address l user | DeclaredConn _ \<Rightarrow> None)"

type_synonym ConnectorRegistry = "(string, Connector) bmap"

definition registry_register ::
  "Connector \<Rightarrow> ConnectorRegistry \<Rightarrow> ConnectorError + ConnectorRegistry" where
  "registry_register c reg =
     (if bcontains reg (connector_id c) then Inl (DuplicateConnector (connector_id c))
      else Inr (binsert (connector_id c) c reg))"

definition registry_get :: "ConnectorRegistry \<Rightarrow> string \<Rightarrow> ConnectorError + Connector" where
  "registry_get reg i = ok_or (UnknownConnector i) (map_of reg i)"

definition registry_metadata :: "ConnectorRegistry \<Rightarrow> ConnectorMetadata list" where
  "registry_metadata reg = map connector_metadata (bvalues reg)"

fun supply_overrides :: "AuthConfig \<Rightarrow> Connector list \<Rightarrow> ConnectorRegistry
   \<Rightarrow> ConnectorError + ConnectorRegistry" where
  "supply_overrides cfg [] supplied = Inr supplied"
| "supply_overrides cfg (c # cs) supplied =
     (if \<not> declares_provider cfg (connector_id c) then Inl (NotDeclared (connector_id c))
      else if bcontains supplied (connector_id c) then Inl (DuplicateConnector (connector_id c))
      else supply_overrides cfg cs (binsert (connector_id c) c supplied))"

definition builtin_connector :: "string \<Rightarrow> ConnectorMetadata \<Rightarrow> Connector" where
  "builtin_connector provider m =
     (if md_status m = Supported \<and> md_id m = local_id then LocalConn []
      else DeclaredConn (describe provider))"

fun register_providers :: "ConnectorRegistry \<Rightarrow> string list \<Rightarrow> ConnectorRegistry
   \<Rightarrow> ConnectorError + ConnectorRegistry" where
  "register_providers supplied [] reg = Inr reg"
| "register_providers supplied (p # ps) reg =
     (case map_of supplied p of
        Some c \<Rightarrow> rbind (registry_register c reg) (register_providers (bremove p supplied) ps)
      | None \<Rightarrow>
          rbind (ok_or (UnknownConnector p) (catalog_lookup p)) (\<lambda>m.
          rbind (registry_register (builtin_connector p m) reg) (register_providers supplied ps)))"

definition from_config_with ::
  "AuthConfig \<Rightarrow> Connector list \<Rightarrow> ConnectorError + ConnectorRegistry" where
  "from_config_with cfg overrides =
     rbind (supply_overrides cfg overrides []) (\<lambda>supplied.
     register_providers supplied (cf_providers cfg) [])"

definition from_config :: "AuthConfig \<Rightarrow> ConnectorError + ConnectorRegistry" where
  "from_config cfg = from_config_with cfg []"

subsection \<open>Interface: what a connector vouches for\<close>

locale connector_contract =
  fixes ident :: "'c \<Rightarrow> string"
    and start :: "'c \<Rightarrow> AuthRequest \<Rightarrow> ConnectorError + AuthChallenge"
    and prove :: "'c \<Rightarrow> AuthResponse \<Rightarrow> ConnectorError + ExternalIdentity"
  assumes start_own: "start c rq = Inr ch \<Longrightarrow> ch_connector ch = ident c \<and> arq_connector rq = ident c"
    and prove_own: "prove c rs = Inr x \<Longrightarrow> xi_connector x = ident c \<and> ars_connector rs = ident c"
begin

lemma vouches_for_addressee: "prove c rs = Inr x \<Longrightarrow> xi_connector x = ars_connector rs"
  by (simp add: prove_own)

lemma one_connector_answers: "prove c rs = Inr x \<Longrightarrow> prove d rs = Inr y \<Longrightarrow> ident c = ident d"
  using prove_own by metis

end

lemma local_authenticate_Inr:
  "local_authenticate ar c rs = Inr x \<longleftrightarrow>
     ars_connector rs = local_id
     \<and> (\<exists>user pw a. parameter_of (ars_parameters rs) ''username'' = Some user
          \<and> parameter_of (ars_parameters rs) ''password'' = Some pw
          \<and> ars_state rs = challenge_state local_id (ars_tenant rs) user
          \<and> map_of c user = Some a \<and> verify_password ar a pw
          \<and> x = \<lparr>xi_connector = local_id, xi_subject = user,
                 xi_attributes = binsert ''password_changed_at''
                   (show_int (la_password_changed_at a)) (la_attributes a)\<rparr>)"
  by (auto simp: local_authenticate_def rbind_Inr)

lemma local_begin_Inr:
  "local_begin rq = Inr ch \<longleftrightarrow>
     arq_connector rq = local_id
     \<and> (\<exists>user. parameter_of (arq_parameters rq) ''username'' = Some user
          \<and> ch = \<lparr>ch_connector = local_id, ch_kind = Credentials,
                  ch_state = challenge_state local_id (arq_tenant rq) user,
                  ch_parameters = [(''username'', user)]\<rparr>)"
  by (auto simp: local_begin_def rbind_Inr)

interpretation connectors: connector_contract connector_id connector_begin "connector_authenticate ar"
  for ar
  by unfold_locales
    (auto simp: connector_id_def connector_begin_def connector_authenticate_def
      local_authenticate_Inr local_begin_Inr split: Connector.splits)

subsection \<open>Passwords\<close>

text \<open>What is relied on of Argon2: a hash verifies the password it was made of and no other.\<close>

definition argon2_complete :: "Argon2 \<Rightarrow> bool" where
  "argon2_complete ar \<longleftrightarrow> (\<forall>p h. ar_hash ar p = Some h \<longrightarrow> ar_verify ar p h)"

definition argon2_sound :: "Argon2 \<Rightarrow> bool" where
  "argon2_sound ar \<longleftrightarrow> (\<forall>p q h. ar_hash ar p = Some h \<longrightarrow> ar_verify ar q h \<longrightarrow> q = p)"

definition sample_argon2 :: Argon2 where
  "sample_argon2 = \<lparr>ar_hash = \<lambda>p. Some (CHR ''$'' # p), ar_verify = \<lambda>p h. h = CHR ''$'' # p\<rparr>"

lemma sample_argon2_ok: "argon2_complete sample_argon2" "argon2_sound sample_argon2"
  by (simp_all add: argon2_complete_def argon2_sound_def sample_argon2_def)

text \<open>
  Changing a password: a change succeeds only if the new password is neither the current
  one nor among the remembered ones; afterwards the new password verifies, the old hash heads
  the history, the history is no longer than the policy says, the change is dated, and nothing
  else of the account changes. A refused change changes nothing.
\<close>

theorem set_password_spec:
  assumes "argon2_complete ar"
    and "set_password ar pw policy now a = (r, a')"
  shows "case r of
      Inl e \<Rightarrow> a' = a \<and> (matches_current_or_history ar a pw (pw_history_count policy)
                     \<longleftrightarrow> e = PasswordReusedError ''local'')
    | Inr _ \<Rightarrow> \<not> verify_password ar a pw
        \<and> list_all (\<lambda>h. \<not> ar_verify ar pw h) (take (pw_history_count policy) (la_password_history a))
        \<and> verify_password ar a' pw
        \<and> la_password_history a'
            = take (pw_history_count policy) (la_password_hash a # la_password_history a)
        \<and> length (la_password_history a') \<le> pw_history_count policy
        \<and> la_password_changed_at a' = now
        \<and> la_username a' = la_username a \<and> la_attributes a' = la_attributes a"
  using assms
  by (auto simp: set_password_def matches_current_or_history_def verify_password_def
      argon2_complete_def local_id_def list_ex_iff list_all_iff split: if_splits option.splits)

theorem set_password_spec_witness:
  "\<exists>a'. set_password sample_argon2 ''new'' password_policy_default 9
       \<lparr>la_username = ''alice'', la_password_hash = ''$old'', la_password_history = [],
        la_password_changed_at = 0, la_attributes = []\<rparr> = (Inr (), a')
     \<and> verify_password sample_argon2 a' ''new''"
proof -
  obtain a' where eq: "set_password sample_argon2 ''new'' password_policy_default 9
       \<lparr>la_username = ''alice'', la_password_hash = ''$old'', la_password_history = [],
        la_password_changed_at = 0, la_attributes = []\<rparr> = (Inr (), a')"
    by (simp add: set_password_def matches_current_or_history_def sample_argon2_def)
  from set_password_spec [OF sample_argon2_ok(1) eq] eq show ?thesis by simp
qed

text \<open>The response that answers the local connector's challenge with a password.\<close>

definition local_response :: "string option \<Rightarrow> string \<Rightarrow> string \<Rightarrow> AuthResponse" where
  "local_response tenant user pw = \<lparr>ars_connector = ''local'', ars_tenant = tenant,
     ars_state = challenge_state ''local'' tenant user,
     ars_parameters = [(''password'', pw), (''username'', user)]\<rparr>"

lemma local_response_params [simp]:
  "parameter_of (ars_parameters (local_response t user pw)) ''username''
     = (if trim user = [] then None else Some (trim user))"
  "parameter_of (ars_parameters (local_response t user pw)) ''password''
     = (if trim pw = [] then None else Some (trim pw))"
  "ars_connector (local_response t user pw) = local_id"
  "ars_tenant (local_response t user pw) = t"
  "ars_state (local_response t user pw) = challenge_state local_id t user"
  by (simp_all add: parameter_of_def local_response_def local_id_def)

lemma local_create_account_Inr:
  assumes "local_create_account ar user pw attrs c = (Inr u, c')"
  shows "\<exists>h. ar_hash ar pw = Some h \<and> map_of c user = None \<and>
    c' = binsert user \<lparr>la_username = user, la_password_hash = h, la_password_history = [],
       la_password_changed_at = 0, la_attributes = attrs\<rparr> c"
  using assms
  by (auto simp: local_create_account_def local_account_new_def local_register_def
      split: option.splits if_splits)

text \<open>
  Creating an account and signing in: an account created under a trimmed, non-blank name
  and password authenticates with exactly this password, against the challenge the connector
  issues, and proves the subject it was created under; any other password is refused as
  invalid, and so is creating the account again.
\<close>

theorem create_then_authenticate:
  assumes "argon2_complete ar" "argon2_sound ar"
    and "local_create_account ar user pw attrs c = (Inr u, c')"
    and "trim user = user" "user \<noteq> []" "trim pw = pw" "pw \<noteq> []"
  shows "(\<exists>x. local_authenticate ar c' (local_response t user pw) = Inr x
      \<and> xi_connector x = ''local'' \<and> xi_subject x = user)
    \<and> (trim q = q \<and> q \<noteq> [] \<and> q \<noteq> pw \<longrightarrow>
      local_authenticate ar c' (local_response t user q) = Inl (InvalidCredentials ''local''))
    \<and> isl (fst (local_create_account ar user q attrs' c'))"
  using assms local_create_account_Inr [OF assms(3)]
  by (auto simp: local_authenticate_def check_def ok_or_def verify_password_def
      argon2_complete_def argon2_sound_def local_id_def [symmetric] local_create_account_def
      local_account_new_def local_register_def rbind_def split: option.splits)

theorem create_then_authenticate_witness:
  "\<exists>x. local_authenticate sample_argon2
        (snd (local_create_account sample_argon2 ''alice'' ''secret'' [] []))
        (local_response (Some ''acme'') ''alice'' ''secret'') = Inr x \<and> xi_subject x = ''alice''"
proof -
  obtain c' where eq: "local_create_account sample_argon2 ''alice'' ''secret'' [] [] = (Inr (), c')"
    by (simp add: local_create_account_def local_account_new_def local_register_def
        sample_argon2_def)
  have "trim ''alice'' = ''alice''" "trim ''secret'' = ''secret''"
    by (simp_all add: trim_plain plain_def)
  with create_then_authenticate [OF sample_argon2_ok eq, of "Some ''acme''"] eq show ?thesis
    by auto
qed

text \<open>
  A password with surrounding white space locks its owner out: creating the account
  stores the password as given, authenticating trims what is typed, so no response that
  carries the password ever authenticates.
\<close>

theorem padded_password_locks_out:
  assumes "argon2_sound ar"
    and "local_create_account ar user pw attrs c = (Inr u, c')" "trim pw \<noteq> pw"
    and "map_of (ars_parameters rs) ''password'' = Some pw"
    and "map_of (ars_parameters rs) ''username'' = Some user" "trim user = user"
  shows "isl (local_authenticate ar c' rs)"
proof (cases "local_authenticate ar c' rs")
  case (Inr x)
  then obtain a where "map_of c' user = Some a" "ar_verify ar (trim pw) (la_password_hash a)"
    using assms(4-6) by (auto simp: local_authenticate_Inr parameter_of_def verify_password_def
        split: if_splits)
  moreover obtain h where "ar_hash ar pw = Some h" "la_password_hash a = h"
    using local_create_account_Inr [OF assms(2)] calculation(1) by auto
  ultimately show ?thesis using assms(1,3) by (auto simp: argon2_sound_def)
qed simp

theorem padded_password_locks_out_witness:
  "isl (local_authenticate sample_argon2
        (snd (local_create_account sample_argon2 ''alice'' '' secret'' [] []))
        (local_response None ''alice'' '' secret''))"
proof -
  obtain c' where eq: "local_create_account sample_argon2 ''alice'' '' secret'' [] [] = (Inr (), c')"
    by (simp add: local_create_account_def local_account_new_def local_register_def
        sample_argon2_def)
  have "trim ''alice'' = ''alice''" "trim '' secret'' = ''secret''"
    using trim_padded [of "''secret''" 1 0] by (simp_all add: trim_plain plain_def)
  with padded_password_locks_out [OF sample_argon2_ok(2) eq,
      of "local_response None ''alice'' '' secret''"] eq
  show ?thesis by (simp add: local_response_def)
qed

subsection \<open>The registry\<close>

lemma catalog_lookup_id: "catalog_lookup i = Some m \<Longrightarrow> md_id m = i"
  by (auto simp: catalog_lookup_def find_Some_iff dest: sym)

lemma describe_id [simp]: "md_id (describe i) = i"
  using catalog_lookup_id by (simp add: describe_def split: option.split)

text \<open>Every connector of a table is filed under its own id and comes from a set, or is built in.\<close>

definition filed :: "Connector set \<Rightarrow> ConnectorRegistry \<Rightarrow> bool" where
  "filed A reg \<longleftrightarrow> (\<forall>k c. map_of reg k = Some c \<longrightarrow> connector_id c = k \<and> c \<in> A)"

lemma filed_binsert: "filed A reg \<Longrightarrow> c \<in> A \<Longrightarrow> filed A (binsert (connector_id c) c reg)"
  by (simp add: filed_def)

lemma filed_bremove: "filed A reg \<Longrightarrow> filed A (bremove p reg)"
  by (simp add: filed_def)

lemma supply_overrides_filed:
  "supply_overrides cfg cs acc = Inr supplied \<Longrightarrow> filed A acc \<Longrightarrow> set cs \<subseteq> A \<Longrightarrow> filed A supplied"
  by (induction cfg cs acc rule: supply_overrides.induct) (auto split: if_splits intro: filed_binsert)

definition built_in :: "Connector set" where
  "built_in = {c. \<exists>k m. catalog_lookup k = Some m \<and> c = builtin_connector k m}"

lemma connector_id_builtin: "catalog_lookup k = Some m \<Longrightarrow> connector_id (builtin_connector k m) = k"
  using catalog_lookup_id by (auto simp: builtin_connector_def connector_id_def)

text \<open>One provider: the connector chosen for it, and what is left of the supplied ones.\<close>

lemma register_providers_step:
  assumes "register_providers supplied (p # ps) reg = Inr reg'" "filed A supplied"
  obtains c supplied' where "filed A supplied'" "connector_id c = p" "c \<in> A \<union> built_in"
    "map_of reg p = None" "register_providers supplied' ps (binsert p c reg) = Inr reg'"
proof (cases "map_of supplied p")
  case (Some c)
  with assms have "connector_id c = p" "c \<in> A" by (auto simp: filed_def)
  with Some assms that [of "bremove p supplied" c] show ?thesis
    by (auto simp: rbind_Inr registry_register_def filed_bremove split: if_splits)
next
  case None
  with assms(1) obtain m where m: "catalog_lookup p = Some m"
    by (auto simp: rbind_Inr)
  then have "builtin_connector p m \<in> built_in" by (auto simp: built_in_def)
  with None m assms that [of supplied "builtin_connector p m"] show ?thesis
    by (auto simp: rbind_Inr registry_register_def connector_id_builtin split: if_splits)
qed

lemma register_providers_Inr:
  "register_providers supplied ps reg = Inr reg' \<Longrightarrow> filed A supplied \<Longrightarrow>
     filed (A \<union> built_in) reg \<Longrightarrow>
     filed (A \<union> built_in) reg' \<and> dom (map_of reg') = dom (map_of reg) \<union> set ps
     \<and> distinct ps \<and> set ps \<inter> dom (map_of reg) = {}"
proof (induction ps arbitrary: supplied reg)
  case (Cons p ps)
  obtain c supplied' where c: "filed A supplied'" "connector_id c = p" "c \<in> A \<union> built_in"
    "map_of reg p = None" "register_providers supplied' ps (binsert p c reg) = Inr reg'"
    using register_providers_step [OF Cons.prems(1,2)] by blast
  have "filed (A \<union> built_in) (binsert p c reg)"
    using filed_binsert [OF Cons.prems(3) c(3)] c(2) by simp
  from Cons.IH [OF c(5,1) this] c(4) show ?case by (auto simp: dom_def)
qed simp

text \<open>
  The registry a contract asks for: if it can be built, the declared providers are
  distinct and have exactly one connector each, filed under its own id; each is one the
  application supplied, the empty local directory, or a connector that refuses every attempt
  to authenticate through it. A connector the contract does not declare is refused.
\<close>

theorem registry_of_contract:
  assumes "from_config_with cfg overrides = Inr reg"
  shows "dom (map_of reg) = set (cf_providers cfg) \<and> distinct (cf_providers cfg)
    \<and> (\<forall>k c. map_of reg k = Some c \<longrightarrow> connector_id c = k
         \<and> (c \<in> set overrides \<or> k = ''local'' \<and> c = LocalConn []
            \<or> (\<forall>ar rs. connector_authenticate ar c rs = Inl (Unsupported k))))"
proof -
  obtain supplied where s: "supply_overrides cfg overrides [] = Inr supplied"
    "register_providers supplied (cf_providers cfg) [] = Inr reg"
    using assms by (auto simp: from_config_with_def rbind_Inr)
  have "filed (set overrides) supplied"
    using supply_overrides_filed [OF s(1), of "set overrides"] by (simp add: filed_def)
  from register_providers_Inr [OF s(2) this] have r: "filed (set overrides \<union> built_in) reg"
    "dom (map_of reg) = set (cf_providers cfg)" "distinct (cf_providers cfg)"
    by (auto simp: filed_def)
  have "k = ''local'' \<and> c = LocalConn []
      \<or> (\<forall>ar rs. connector_authenticate ar c rs = Inl (Unsupported k))"
    if "c \<in> built_in" "connector_id c = k" for k c
    using that by (auto simp: built_in_def builtin_connector_def connector_id_def local_id_def
        connector_authenticate_def split: if_splits)
  with r show ?thesis unfolding filed_def by blast
qed

theorem registry_of_contract_witness:
  "\<exists>reg. from_config (sample_contract [''github'', ''local'']) = Inr reg
     \<and> dom (map_of reg) = {''github'', ''local''}"
proof -
  obtain reg where eq: "from_config_with (sample_contract [''github'', ''local'']) [] = Inr reg"
    by (simp add: from_config_with_def sample_contract_def catalog_lookup_def catalog_def
        registry_register_def builtin_connector_def connector_id_def local_id_def describe_def)
  with registry_of_contract [OF eq] show ?thesis
    by (simp add: from_config_def sample_contract_def)
qed

end
