(* ===== verification/Resolution.thy ===== *)
theory Resolution
  imports Stores Policy Connectors
begin

text \<open>
  Errors of the authentication lifecycle (\<^verbatim>\<open>crates/runtime/src/error.rs\<close>), claims
  resolved against the declared schema (\<^verbatim>\<open>claims.rs\<close>), and the boundary between
  external identities and principals (\<^verbatim>\<open>resolution.rs\<close>).
\<close>

subsection \<open>Errors\<close>

datatype AuthLifecycleStage =
  TenantResolution | ConnectorResolution | ProviderAuthentication | IdentityResolution
  | PrincipalResolution | SessionValidation | ClaimsResolution | PolicyEvaluation
  | DelegationManagement | AgentLifecycle | RuntimeContextStage | Configuration

fun stage_as_str :: "AuthLifecycleStage \<Rightarrow> string" where
  "stage_as_str TenantResolution = ''tenant_resolution''"
| "stage_as_str ConnectorResolution = ''connector_resolution''"
| "stage_as_str ProviderAuthentication = ''provider_authentication''"
| "stage_as_str IdentityResolution = ''identity_resolution''"
| "stage_as_str PrincipalResolution = ''principal_resolution''"
| "stage_as_str SessionValidation = ''session_validation''"
| "stage_as_str ClaimsResolution = ''claims_resolution''"
| "stage_as_str PolicyEvaluation = ''policy_evaluation''"
| "stage_as_str DelegationManagement = ''delegation_management''"
| "stage_as_str AgentLifecycle = ''agent_lifecycle''"
| "stage_as_str RuntimeContextStage = ''runtime_context''"
| "stage_as_str Configuration = ''configuration''"

record AuthError =
  er_stage :: AuthLifecycleStage
  er_message :: string
  er_denial :: DenialReason

definition auth_error :: "AuthLifecycleStage \<Rightarrow> string \<Rightarrow> DenialReason \<Rightarrow> AuthError" where
  "auth_error stage msg denial = \<lparr>er_stage = stage, er_message = msg, er_denial = denial\<rparr>"

subsection \<open>Claims\<close>

definition claim_error :: "string \<Rightarrow> AuthError" where
  "claim_error msg = auth_error ClaimsResolution msg ClaimMismatch"

definition parse_claim_value :: "ClaimKind \<Rightarrow> string \<Rightarrow> AuthError + ClaimValue" where
  "parse_claim_value kind raw = (case kind of
     KindEnum allowed \<Rightarrow>
       (if raw \<in> set allowed then Inr (CEnum raw) else Inl (claim_error ''claim value is not allowed''))
   | KindString \<Rightarrow> Inr (CString raw)
   | KindInteger \<Rightarrow>
       (case parse_i64 raw of Some i \<Rightarrow> Inr (CInteger i)
        | None \<Rightarrow> Inl (claim_error ''claim value is not an integer''))
   | KindBoolean \<Rightarrow>
       (if raw = ''true'' then Inr (CBoolean True)
        else if raw = ''false'' then Inr (CBoolean False)
        else Inl (claim_error ''claim value is not a boolean'')))"

fun resolve_declared ::
  "(string, string) bmap \<Rightarrow> ClaimDef list \<Rightarrow> Claims \<Rightarrow> AuthError + Claims" where
  "resolve_declared provided [] values = Inr values"
| "resolve_declared provided (c # cs) values =
     rbind (ok_or (auth_error ClaimsResolution
                (''missing required claim '' @ in_backticks (cd_name c)) MissingClaim)
              (parameter_of provided (cd_name c))) (\<lambda>raw.
     rbind (parse_claim_value (cd_kind c) raw) (\<lambda>v.
     resolve_declared provided cs (binsert (cd_name c) v values)))"

definition resolve_claims :: "AuthConfig \<Rightarrow> (string, string) bmap \<Rightarrow> AuthError + Claims" where
  "resolve_claims cfg provided =
     rbind (resolve_declared provided (cf_claims cfg) []) (\<lambda>values.
     rbind (for_each (\<lambda>n. check (config_claim cfg n \<noteq> None)
              (auth_error ClaimsResolution (''undeclared claim '' @ in_backticks n) ClaimMismatch))
            (bkeys provided)) (\<lambda>_.
     Inr values))"

subsection \<open>Policies\<close>

type_synonym MemoryPolicyStore = "(PolicyId, Policy) bmap"

definition put_policy :: "Policy \<Rightarrow> MemoryPolicyStore \<Rightarrow> MemoryPolicyStore" where
  "put_policy pol s = binsert (pol_id pol) pol s"

definition policy_for :: "TenantContext \<Rightarrow> MemoryPolicyStore \<Rightarrow> Policy option" where
  "policy_for t s = map_of s (t_policy_id t)"

subsection \<open>From external identities to principals\<close>

definition contract_version :: ContractVersion where
  "contract_version = \<lparr>major = 1, minor = 0\<rparr>"

definition principal_id_for :: "TenantId \<Rightarrow> string \<Rightarrow> string \<Rightarrow> PrincipalId" where
  "principal_id_for tenant con subj =
     ''prn_'' @ hex16 (stable_hash (tenant @ ''|'' @ con @ ''|'' @ subj))"

text \<open>The identity and principal stores, which the mesh extends with its other state.\<close>

record Directory =
  dir_identities :: MemoryIdentityStore
  dir_principals :: MemoryPrincipalStore

definition on_identities ::
  "(MemoryIdentityStore, StorageError, 'a) eff \<Rightarrow> ('z Directory_scheme, StorageError, 'a) eff" where
  "on_identities m = zoom dir_identities (\<lambda>c s. s\<lparr>dir_identities := c\<rparr>) m"

definition on_principals ::
  "(MemoryPrincipalStore, StorageError, 'a) eff \<Rightarrow> ('z Directory_scheme, StorageError, 'a) eff" where
  "on_principals m = zoom dir_principals (\<lambda>c s. s\<lparr>dir_principals := c\<rparr>) m"

record ResolvedPrincipal =
  rp_principal :: Principal
  rp_identity :: Identity
  rp_binding :: ExternalBinding

definition identity_error :: "StorageError \<Rightarrow> AuthError" where
  "identity_error e = auth_error IdentityResolution e UnknownPrincipal"

definition resolution_error :: "StorageError \<Rightarrow> AuthError" where
  "resolution_error e = auth_error PrincipalResolution e UnknownPrincipal"

definition resolve_principal ::
  "TenantContext \<Rightarrow> ExternalIdentity \<Rightarrow> 'z Directory_scheme
   \<Rightarrow> AuthError + ResolvedPrincipal option" where
  "resolve_principal t x s =
     (let con = xi_connector x; subj = xi_subject x in
      case resolve_external_identity t con subj (dir_principals s) of
        None \<Rightarrow> Inr None
      | Some i \<Rightarrow>
          rbind (map_err resolution_error (get_principal t i (dir_principals s))) (\<lambda>mp.
          rbind (ok_or (auth_error PrincipalResolution
                   ''external identity is bound to an unknown principal'' UnknownPrincipal) mp) (\<lambda>p.
          rbind (ok_or (auth_error PrincipalResolution
                   ''external identity binding could not be read back'' UnknownPrincipal)
                 (find (\<lambda>b. b_connector b = con \<and> b_external_subject b = subj)
                    (bindings_for t i (dir_principals s)))) (\<lambda>b.
          rbind (map_err identity_error (find_identity t con subj (dir_identities s))) (\<lambda>mi.
          rbind (ok_or (auth_error IdentityResolution
                   ''external identity has no identity record'' UnknownPrincipal) mi) (\<lambda>i.
          Inr (Some \<lparr>rp_principal = p, rp_identity = i, rp_binding = b\<rparr>)))))))"

definition link_identity_record ::
  "TenantContext \<Rightarrow> ProviderName \<Rightarrow> ProviderSubject \<Rightarrow> Claims
   \<Rightarrow> ('z Directory_scheme, AuthError, Identity) eff" where
  "link_identity_record t con subj cs =
     andThen (mapErr identity_error (on_identities (link_account t con subj))) (\<lambda>identity.
     andThen (mapErr identity_error (on_identities (identity_update_claims t (i_id identity) cs)))
       (\<lambda>_. ok identity))"

definition provision_principal ::
  "TenantContext \<Rightarrow> ExternalIdentity \<Rightarrow> PrincipalKind \<Rightarrow> Claims \<Rightarrow> int
   \<Rightarrow> ('z Directory_scheme, AuthError, ResolvedPrincipal) eff" where
  "provision_principal t x kind cs now =
     andThen (reading (\<lambda>s. check
         (resolve_external_identity t (xi_connector x) (xi_subject x) (dir_principals s) = None)
         (auth_error PrincipalResolution ''external identity is already linked to a principal''
            UnknownPrincipal))) (\<lambda>_.
     andThen (link_identity_record t (xi_connector x) (xi_subject x) cs) (\<lambda>identity.
     let i = principal_id_for (t_id t) (xi_connector x) (xi_subject x);
         p = \<lparr>p_id = i, p_kind = kind, p_tenant_id = t_id t, p_claims = cs,
              p_version = contract_version,
              p_agent_state = (if kind = Agent then Some StateActive else None)\<rparr>
     in andThen (mapErr resolution_error (on_principals (put_principal p))) (\<lambda>_.
        andThen (mapErr resolution_error (on_principals
          (bind_external_identity t (xi_connector x) (xi_subject x) i now))) (\<lambda>b.
        ok \<lparr>rp_principal = p, rp_identity = identity, rp_binding = b\<rparr>))))"

definition link_external_identity ::
  "TenantContext \<Rightarrow> PrincipalId \<Rightarrow> ExternalIdentity \<Rightarrow> int
   \<Rightarrow> ('z Directory_scheme, AuthError, ExternalBinding) eff" where
  "link_external_identity t i x now =
     andThen (reading (\<lambda>s. map_err resolution_error (get_principal t i (dir_principals s)))) (\<lambda>mp.
     andThen (reading (\<lambda>s. ok_or (auth_error PrincipalResolution ''unknown principal''
         UnknownPrincipal) mp)) (\<lambda>p.
     andThen (reading (\<lambda>s. map_err identity_error
         (find_identity t (xi_connector x) (xi_subject x) (dir_identities s)))) (\<lambda>mi.
     andThen (if mi = None
              then andThen (link_identity_record t (xi_connector x) (xi_subject x) (p_claims p))
                     (\<lambda>_. ok ())
              else ok ()) (\<lambda>_.
     mapErr resolution_error (on_principals
       (bind_external_identity t (xi_connector x) (xi_subject x) i now))))))"

subsection \<open>Facts of claims\<close>

definition claim_conforms :: "ClaimKind \<Rightarrow> ClaimValue \<Rightarrow> bool" where
  "claim_conforms kind v = (case kind of
     KindEnum allowed \<Rightarrow> (\<exists>x \<in> set allowed. v = CEnum x)
   | KindString \<Rightarrow> (\<exists>x. v = CString x \<and> x \<noteq> [])
   | KindInteger \<Rightarrow> (\<exists>i. v = CInteger i \<and> in_i64 i)
   | KindBoolean \<Rightarrow> (\<exists>b. v = CBoolean b))"

lemma parse_i64_range: "parse_i64 s = Some i \<Longrightarrow> in_i64 i"
  by (auto simp: parse_i64_def Let_def split: option.splits if_splits)

lemma parse_claim_value_conforms:
  "parse_claim_value kind raw = Inr v \<Longrightarrow> raw \<noteq> [] \<Longrightarrow> claim_conforms kind v"
  by (cases kind)
    (auto simp: parse_claim_value_def claim_conforms_def split: if_splits option.splits
      intro: parse_i64_range)

lemma parameter_of_nonempty: "parameter_of ps k = Some v \<Longrightarrow> v \<noteq> [] \<and> map_of ps k \<noteq> None"
  by (auto simp: parameter_of_def split: option.splits if_splits)

lemma resolve_declared_Inr:
  "resolve_declared provided cs values = Inr out \<Longrightarrow> distinct (map cd_name cs) \<Longrightarrow>
     dom (map_of out) = dom (map_of values) \<union> cd_name ` set cs
     \<and> (\<forall>k. k \<notin> cd_name ` set cs \<longrightarrow> map_of out k = map_of values k)
     \<and> (\<forall>c \<in> set cs. \<exists>raw v. parameter_of provided (cd_name c) = Some raw
          \<and> parse_claim_value (cd_kind c) raw = Inr v \<and> map_of out (cd_name c) = Some v)"
proof (induction provided cs "values" rule: resolve_declared.induct)
  case (2 provided c cs "values")
  obtain raw v where rv: "parameter_of provided (cd_name c) = Some raw"
    "parse_claim_value (cd_kind c) raw = Inr v"
    "resolve_declared provided cs (binsert (cd_name c) v values) = Inr out"
    using "2.prems"(1) by (auto simp: rbind_Inr)
  have d: "distinct (map cd_name cs)" "cd_name c \<notin> cd_name ` set cs"
    using "2.prems"(2) by auto
  have "map_of out (cd_name c) = Some v"
    using "2.IH" [OF rv(3) d(1)] d(2) by simp
  with "2.IH" [OF rv(3) d(1)] rv d(2) show ?case by auto
qed simp

text \<open>
  Claims are complete and typed: under a valid contract, what registration accepts gives
  every declared claim exactly one value of its declared kind, an enumerated one only from the
  declared values, taken from the input under that name, and holds no other claim; nothing
  undeclared may even be presented.
\<close>

theorem resolved_claims_conform:
  assumes "config_validate cfg = Inr ()"
    and "resolve_claims cfg provided = Inr values"
  shows "dom (map_of values) = cd_name ` set (cf_claims cfg)
    \<and> dom (map_of provided) = cd_name ` set (cf_claims cfg)
    \<and> list_all (\<lambda>c. \<exists>raw v. parameter_of provided (cd_name c) = Some raw
         \<and> parse_claim_value (cd_kind c) raw = Inr v
         \<and> map_of values (cd_name c) = Some v \<and> claim_conforms (cd_kind c) v) (cf_claims cfg)"
proof -
  have v: "resolve_declared provided (cf_claims cfg) [] = Inr values"
    "\<forall>n \<in> set (bkeys provided). config_claim cfg n \<noteq> None"
    using assms(2) by (auto simp: resolve_claims_def rbind_Inr)
  have d: "distinct (map cd_name (cf_claims cfg))"
    using assms(1) by (simp add: contract_ok_def)
  note r = resolve_declared_Inr [OF v(1) d]
  have "dom (map_of provided) \<subseteq> cd_name ` set (cf_claims cfg)"
  proof
    fix n assume "n \<in> dom (map_of provided)"
    then have "n \<in> set (bkeys provided)" by (simp add: bkeys_def dom_map_of_conv_image_fst)
    with v(2) show "n \<in> cd_name ` set (cf_claims cfg)"
      by (auto simp: config_claim_def find_Some_iff)
  qed
  moreover have "cd_name ` set (cf_claims cfg) \<subseteq> dom (map_of provided)"
    using r parameter_of_nonempty by blast
  ultimately have "dom (map_of provided) = cd_name ` set (cf_claims cfg)" by blast
  moreover have "dom (map_of values) = cd_name ` set (cf_claims cfg)" using r by simp
  moreover have "\<exists>raw v. parameter_of provided (cd_name c) = Some raw
         \<and> parse_claim_value (cd_kind c) raw = Inr v
         \<and> map_of values (cd_name c) = Some v \<and> claim_conforms (cd_kind c) v"
    if "c \<in> set (cf_claims cfg)" for c
  proof -
    from r that obtain raw v where rv: "parameter_of provided (cd_name c) = Some raw"
      "parse_claim_value (cd_kind c) raw = Inr v" "map_of values (cd_name c) = Some v" by blast
    moreover have "claim_conforms (cd_kind c) v"
      using parse_claim_value_conforms [OF rv(2)] parameter_of_nonempty [OF rv(1)] by blast
    ultimately show ?thesis by blast
  qed
  ultimately show ?thesis by (simp add: list_all_iff)
qed

definition sample_claims_contract :: AuthConfig where
  "sample_claims_contract = (sample_contract [''github'', ''local''])
     \<lparr>cf_claims := [\<lparr>cd_name = ''role'', cd_kind = KindEnum [''admin'', ''member'']\<rparr>]\<rparr>"

theorem resolved_claims_conform_witness:
  "\<exists>values. resolve_claims sample_claims_contract [(''role'', '' admin '')] = Inr values
     \<and> dom (map_of values) = {''role''}"
proof -
  have trims: "trim '' admin '' = ''admin''" "trim ''role'' = ''role''"
    using trim_padded [of "''admin''" 1 1] by (simp_all add: trim_plain plain_def)
  have "config_validate sample_claims_contract = Inr ()"
    using sample_contracts_valid(2)
    by (simp add: contract_ok_def sample_claims_contract_def sample_contract_def
        claim_def_ok_def trims config_default_def)
  moreover obtain vs where "resolve_claims sample_claims_contract [(''role'', '' admin '')] = Inr vs"
    by (simp add: resolve_claims_def sample_claims_contract_def parameter_of_def trims
        parse_claim_value_def bkeys_def config_claim_def check_def)
  ultimately show ?thesis
    using resolved_claims_conform
    by (fastforce simp: sample_claims_contract_def)
qed

subsection \<open>Facts of resolution\<close>

lemma on_identities_run [simp]:
  "on_identities m s = (case m (dir_identities s) of (r, c) \<Rightarrow> (r, s\<lparr>dir_identities := c\<rparr>))"
  by (simp add: on_identities_def zoom_def)

lemma on_principals_run [simp]:
  "on_principals m s = (case m (dir_principals s) of (r, c) \<Rightarrow> (r, s\<lparr>dir_principals := c\<rparr>))"
  by (simp add: on_principals_def zoom_def)

lemma link_identity_record_Inr:
  assumes "link_identity_record t con subj cs s = (Inr identity, s')"
  shows "map_of (st_by_provider (dir_identities s)) (t_id t, con, subj) = None
    \<and> dir_principals s' = dir_principals s
    \<and> find_identity t con subj (dir_identities s') = Inr (Some (identity\<lparr>i_claims := cs\<rparr>))
    \<and> get_identity t (i_id identity) (dir_identities s') = Inr (Some (identity\<lparr>i_claims := cs\<rparr>))
    \<and> i_id identity = identity_id_of (t_id t) con subj
    \<and> i_provider identity = con \<and> i_provider_subject identity = subj
    \<and> i_tenant_id identity = t_id t"
  using assms
  by (auto simp: link_identity_record_def andThen_def mapErr_def link_account_def Let_def
      identity_update_claims_def find_identity_def get_identity_def
      split: prod.splits sum.splits if_splits)

lemma bind_external_identity_new:
  assumes "bind_external_identity t con subj i now ps = (Inr b, ps')"
    and "map_of (st_bindings ps) (t_id t, con, subj) = None"
  shows "st_principals ps' = st_principals ps
    \<and> b = \<lparr>b_tenant_id = t_id t, b_connector = con, b_external_subject = subj,
           b_principal_id = i, b_linked_at = now\<rparr>
    \<and> st_bindings ps' = binsert (t_id t, con, subj) b (st_bindings ps)"
  using assms
  by (auto simp: bind_external_identity_def andThen_def require_def Let_def
      split: sum.splits option.splits if_splits)

text \<open>Bindings are stored under their own tenant, connector and subject.\<close>

definition bindings_ok :: "MemoryPrincipalStore \<Rightarrow> bool" where
  "bindings_ok s \<longleftrightarrow> bwf (st_bindings s) \<and> (\<forall>t con subj b.
     map_of (st_bindings s) (t, con, subj) = Some b \<longrightarrow>
       b_tenant_id b = t \<and> b_connector b = con \<and> b_external_subject b = subj)"

lemma bindings_ok_binsert:
  assumes "bindings_ok s" "st_bindings s' = binsert (t, con, subj) b (st_bindings s)"
    and "b_tenant_id b = t" "b_connector b = con" "b_external_subject b = subj"
  shows "bindings_ok s'"
  using assms by (auto simp: bindings_ok_def bwf_binsert split: if_splits)

lemma principal_step_bindings_ok: "principal_step s s' \<Longrightarrow> bindings_ok s \<Longrightarrow> bindings_ok s'"
proof (induction rule: principal_step.induct)
  case (step_bind t con subj i at s r s')
  then consider "s' = s" | b where "st_bindings s' = binsert (t_id t, con, subj) b (st_bindings s)"
    "b_tenant_id b = t_id t" "b_connector b = con" "b_external_subject b = subj"
    using bind_result [of t con subj i at s r s'] by fastforce
  then show ?case
    by cases (use step_bind.prems in \<open>auto intro: bindings_ok_binsert\<close>)
qed (auto simp: bindings_ok_def put_principal_def set_agent_state_def principal_update_claims_def
    split: option.splits if_splits)

lemma find_binding:
  assumes "bindings_ok s" "map_of (st_bindings s) (t_id t, con, subj) = Some b"
  shows "find (\<lambda>b. b_connector b = con \<and> b_external_subject b = subj)
           (bindings_for t (b_principal_id b) s) = Some b"
proof -
  let ?bs = "bindings_for t (b_principal_id b) s"
  let ?P = "\<lambda>b. b_connector b = con \<and> b_external_subject b = subj"
  have wf: "bwf (st_bindings s)" using assms(1) by (simp add: bindings_ok_def)
  have mem: "b' \<in> set ?bs \<longleftrightarrow> b_tenant_id b' = t_id t \<and> b_principal_id b' = b_principal_id b
      \<and> b' \<in> set (bvalues (st_bindings s))" for b'
    by (auto simp: bindings_for_def)
  have "b \<in> set ?bs" "?P b"
    using assms map_of_bvalues [OF assms(2)] unfolding mem by (auto simp: bindings_ok_def)
  moreover have "b' = b" if "b' \<in> set ?bs" "?P b'" for b'
  proof -
    have "b' \<in> set (bvalues (st_bindings s))" using that(1) mem by blast
    then obtain k where "map_of (st_bindings s) k = Some b'"
      unfolding set_bvalues [OF wf] by (elim exE)
    moreover obtain u c x where "k = (u, c, x)" by (rule prod_cases3)
    ultimately show ?thesis using assms that unfolding mem by (auto simp: bindings_ok_def)
  qed
  ultimately show ?thesis by (rule find_unique)
qed

text \<open>
  Provisioning and resolving: once an external identity has been provisioned, resolving
  it gives the principal that was created, with its kind and claims, under the deterministic
  id, an active state for an agent, the identity carrying the same claims, and the binding;
  provisioning it a second time is refused and changes nothing.
\<close>

theorem provision_then_resolve:
  assumes "bindings_ok (dir_principals s)"
    and "provision_principal t x kind cs now s = (Inr r, s')"
  shows "resolve_principal t x s' = Inr (Some (r\<lparr>rp_identity := (rp_identity r)\<lparr>i_claims := cs\<rparr>\<rparr>))
    \<and> p_id (rp_principal r) = principal_id_for (t_id t) (xi_connector x) (xi_subject x)
    \<and> p_kind (rp_principal r) = kind \<and> p_claims (rp_principal r) = cs
    \<and> p_tenant_id (rp_principal r) = t_id t
    \<and> p_agent_state (rp_principal r) = (if kind = Agent then Some StateActive else None)
    \<and> i_provider (rp_identity r) = xi_connector x \<and> i_provider_subject (rp_identity r) = xi_subject x
    \<and> get_identity t (i_id (rp_identity r)) (dir_identities s')
        = Inr (Some ((rp_identity r)\<lparr>i_claims := cs\<rparr>))
    \<and> isl (fst (provision_principal t x kind' cs' now' s'))
    \<and> snd (provision_principal t x kind' cs' now' s') = s'"
proof -
  let ?con = "xi_connector x" and ?subj = "xi_subject x"
  let ?i = "principal_id_for (t_id t) ?con ?subj"
  let ?p = "\<lparr>p_id = ?i, p_kind = kind, p_tenant_id = t_id t, p_claims = cs,
     p_version = contract_version, p_agent_state = (if kind = Agent then Some StateActive else None)\<rparr>"
  obtain identity s1 ps2 b where
    none: "map_of (st_bindings (dir_principals s)) (t_id t, ?con, ?subj) = None" and
    link: "link_identity_record t ?con ?subj cs s = (Inr identity, s1)" and
    bind: "bind_external_identity t ?con ?subj ?i now
       ((dir_principals s1)\<lparr>st_principals := binsert ?i ?p (st_principals (dir_principals s1))\<rparr>)
       = (Inr b, ps2)" and
    r: "r = \<lparr>rp_principal = ?p, rp_identity = identity, rp_binding = b\<rparr>" and
    s': "s' = s1\<lparr>dir_principals := ps2\<rparr>"
    using assms(2)
    by (auto simp: provision_principal_def resolve_external_identity_def Let_def put_principal_def
        elim!: eff_elims split: prod.splits)
  note l = link_identity_record_Inr [OF link]
  let ?ps1 = "(dir_principals s1)\<lparr>st_principals := binsert ?i ?p (st_principals (dir_principals s1))\<rparr>"
  have b: "st_principals ps2 = st_principals ?ps1"
    "b = \<lparr>b_tenant_id = t_id t, b_connector = ?con, b_external_subject = ?subj,
           b_principal_id = ?i, b_linked_at = now\<rparr>"
    "st_bindings ps2 = binsert (t_id t, ?con, ?subj) b (st_bindings ?ps1)"
    using bind_external_identity_new [OF bind] none l by simp_all
  have "bindings_ok ps2"
    using bindings_ok_binsert [OF assms(1), of ps2 "t_id t" ?con ?subj b] l b by simp
  moreover have bound: "map_of (st_bindings ps2) (t_id t, ?con, ?subj) = Some b"
    using b by simp
  ultimately have "find (\<lambda>b. b_connector b = ?con \<and> b_external_subject b = ?subj)
      (bindings_for t ?i ps2) = Some b"
    using find_binding [of ps2 t ?con ?subj b] b(2) by simp
  moreover have "get_principal t ?i ps2 = Inr (Some ?p)"
    using b(1) by (simp add: get_principal_def)
  moreover have "resolve_external_identity t ?con ?subj ps2 = Some ?i"
    using bound b(2) by (simp add: resolve_external_identity_def)
  ultimately have "resolve_principal t x s'
      = Inr (Some (r\<lparr>rp_identity := (rp_identity r)\<lparr>i_claims := cs\<rparr>\<rparr>))"
    using l by (simp add: resolve_principal_def Let_def s' r map_err_def)
  moreover have "get_identity t (i_id identity) (dir_identities s') = Inr (Some (identity\<lparr>i_claims := cs\<rparr>))"
    "i_provider identity = ?con" "i_provider_subject identity = ?subj"
  proof -
    have "dir_identities s' = dir_identities s1" by (simp add: s')
    then show "get_identity t (i_id identity) (dir_identities s') = Inr (Some (identity\<lparr>i_claims := cs\<rparr>))"
      using l by metis
  qed (use l in blast)+
  moreover have "isl (fst (provision_principal t x kind' cs' now' s'))
    \<and> snd (provision_principal t x kind' cs' now' s') = s'"
    using \<open>resolve_external_identity t ?con ?subj ps2 = Some ?i\<close>
    by (simp add: provision_principal_def andThen_def check_def s')
  ultimately show ?thesis by (simp add: r)
qed

definition sample_directory :: Directory where
  "sample_directory =
     \<lparr>dir_identities = identity_store_new, dir_principals = principal_store_new\<rparr>"

lemmas provision_defs = provision_principal_def link_identity_record_def andThen_def mapErr_def
  check_def resolve_external_identity_def link_account_def identity_update_claims_def
  put_principal_def bind_external_identity_def require_def get_principal_def
  identity_store_new_def principal_store_new_def sample_directory_def Let_def

lemma provision_sample:
  "\<exists>r s'. provision_principal (sample_store_tenant i) (external_identity_new ''local'' subj) kind cs now
       sample_directory = (Inr r, s') \<and> p_id (rp_principal r) = principal_id_for i ''local'' subj"
  by (simp add: provision_defs external_identity_new_def sample_store_tenant_def)

lemma sample_bindings_ok: "bindings_ok (dir_principals sample_directory)"
  by (simp add: bindings_ok_def sample_directory_def principal_store_new_def)

theorem provision_then_resolve_witness:
  "\<exists>r s' r'. provision_principal (sample_store_tenant ''acme'')
        (external_identity_new ''local'' ''alice'') Agent [] 5 sample_directory = (Inr r, s')
     \<and> resolve_principal (sample_store_tenant ''acme'') (external_identity_new ''local'' ''alice'') s'
         = Inr (Some r')
     \<and> p_agent_state (rp_principal r') = Some StateActive"
proof -
  obtain r s' where eq: "provision_principal (sample_store_tenant ''acme'')
        (external_identity_new ''local'' ''alice'') Agent [] 5 sample_directory = (Inr r, s')"
    using provision_sample by blast
  from provision_then_resolve [OF sample_bindings_ok eq] eq show ?thesis by simp
qed

text \<open>
  Principal ids are not unique across tenants: they hash tenant, connector and subject
  joined with bars that each of them may contain, so registering a subject in one tenant can
  replace the principal of another tenant, which its own tenant then can no longer read.
\<close>

theorem registration_evicts_foreign_principal:
  "\<exists>t u x y r1 s1 r2 s2.
     t_id t \<noteq> t_id u
     \<and> provision_principal t x Human cs now sample_directory = (Inr r1, s1)
     \<and> get_principal t (p_id (rp_principal r1)) (dir_principals s1) = Inr (Some (rp_principal r1))
     \<and> provision_principal u y Human cs' now' s1 = (Inr r2, s2)
     \<and> get_principal t (p_id (rp_principal r1)) (dir_principals s2) = Inl ''tenant mismatch''"
proof -
  let ?t = "sample_store_tenant ''a|local''" and ?u = "sample_store_tenant ''a''"
  let ?x = "external_identity_new ''local'' ''bob''"
  let ?y = "external_identity_new ''local'' ''local|bob''"
  define i where "i = principal_id_for ''a|local'' ''local'' ''bob''"
  have same: "principal_id_for ''a'' ''local'' ''local|bob'' = i"
    by (simp add: i_def principal_id_for_def)
  obtain r1 s1 where 1: "provision_principal ?t ?x Human cs now sample_directory = (Inr r1, s1)"
    "p_id (rp_principal r1) = i"
    using provision_sample [of "''a|local''" "''bob''" Human cs now] unfolding i_def by blast
  have st1: "map_of (st_by_provider (dir_identities s1)) (''a'', ''local'', ''local|bob'') = None"
    "map_of (st_bindings (dir_principals s1)) (''a'', ''local'', ''local|bob'') = None"
    "get_principal ?t i (dir_principals s1) = Inr (Some (rp_principal r1))"
    using 1 unfolding i_def
    by (auto simp: provision_defs external_identity_new_def sample_store_tenant_def)
  obtain r2 s2 where 2: "provision_principal ?u ?y Human cs' now' s1 = (Inr r2, s2)"
    using st1(1,2)
    by (simp add: provision_defs external_identity_new_def sample_store_tenant_def same)
  have p2: "map_of (st_principals (dir_principals s2)) i = Some (rp_principal r2)
      \<and> p_tenant_id (rp_principal r2) = ''a''"
    using 2 st1(1,2)
    by (auto simp: provision_defs external_identity_new_def sample_store_tenant_def same)
  have "get_principal ?t i (dir_principals s2) = Inl ''tenant mismatch''"
    using p2 by (simp add: get_principal_def sample_store_tenant_def)
  with 1 2 st1(3)
  have "t_id ?t \<noteq> t_id ?u
     \<and> provision_principal ?t ?x Human cs now sample_directory = (Inr r1, s1)
     \<and> get_principal ?t (p_id (rp_principal r1)) (dir_principals s1) = Inr (Some (rp_principal r1))
     \<and> provision_principal ?u ?y Human cs' now' s1 = (Inr r2, s2)
     \<and> get_principal ?t (p_id (rp_principal r1)) (dir_principals s2) = Inl ''tenant mismatch''"
    by (simp add: sample_store_tenant_def)
  then show ?thesis by (intro exI)
qed

end
