(* ===== verification/Request.thy ===== *)
theory Request
  imports Resolution
begin

text \<open>
  Requests as the boundary sees them (\<^verbatim>\<open>crates/boundary/src/request.rs\<close>): methods, the
  framework-neutral request with its accessors, and the session credential the boundary issues.
\<close>

subsection \<open>Methods\<close>

datatype Method = Get | Post | Put | Patch | Delete | Head | Options

definition method_text :: "Method \<Rightarrow> string" where
  "method_text m = (case m of
     Get \<Rightarrow> ''GET'' | Post \<Rightarrow> ''POST'' | Put \<Rightarrow> ''PUT'' | Patch \<Rightarrow> ''PATCH''
   | Delete \<Rightarrow> ''DELETE'' | Head \<Rightarrow> ''HEAD'' | Options \<Rightarrow> ''OPTIONS'')"

text \<open>\<^verbatim>\<open>to_ascii_uppercase\<close> and \<^verbatim>\<open>to_ascii_lowercase\<close>.\<close>

definition ascii_upper_char :: "char \<Rightarrow> char" where
  "ascii_upper_char c =
     (if 97 \<le> (of_char c :: nat) \<and> (of_char c :: nat) \<le> 122 then char_of (of_char c - (32 :: nat)) else c)"

definition ascii_lower_char :: "char \<Rightarrow> char" where
  "ascii_lower_char c =
     (if 65 \<le> (of_char c :: nat) \<and> (of_char c :: nat) \<le> 90 then char_of (of_char c + (32 :: nat)) else c)"

definition ascii_upper :: "string \<Rightarrow> string" where
  "ascii_upper s = map ascii_upper_char s"

definition ascii_lower :: "string \<Rightarrow> string" where
  "ascii_lower s = map ascii_lower_char s"

definition method_parse :: "string \<Rightarrow> Method option" where
  "method_parse value =
     (let v = ascii_upper value in
      if v = ''GET'' then Some Get else if v = ''POST'' then Some Post
      else if v = ''PUT'' then Some Put else if v = ''PATCH'' then Some Patch
      else if v = ''DELETE'' then Some Delete else if v = ''HEAD'' then Some Head
      else if v = ''OPTIONS'' then Some Options else None)"

text \<open>The derived order of methods, by position in the declaration.\<close>

definition method_index :: "Method \<Rightarrow> nat" where
  "method_index m = (case m of Get \<Rightarrow> 0 | Post \<Rightarrow> 1 | Put \<Rightarrow> 2 | Patch \<Rightarrow> 3 | Delete \<Rightarrow> 4
     | Head \<Rightarrow> 5 | Options \<Rightarrow> 6)"

lemma method_index_inject: "method_index a = method_index b \<Longrightarrow> a = b"
  by (cases a; cases b) (simp_all add: method_index_def)

instantiation Method :: linorder
begin
definition less_eq_Method :: "Method \<Rightarrow> Method \<Rightarrow> bool" where
  "less_eq_Method a b \<longleftrightarrow> method_index a \<le> method_index b"
definition less_Method :: "Method \<Rightarrow> Method \<Rightarrow> bool" where
  "less_Method a b \<longleftrightarrow> method_index a < method_index b"
instance
  by standard (auto simp: less_eq_Method_def less_Method_def intro: method_index_inject)
end

subsection \<open>The session credential\<close>

record SessionCredential =
  sc_tenant_id :: string
  sc_session_id :: SessionId

definition credential_prefix :: string where
  "credential_prefix = ''apt_''"

definition credential_encode :: "SessionCredential \<Rightarrow> string" where
  "credential_encode c = credential_prefix @ sc_tenant_id c @ ''.'' @ sc_session_id c"

definition credential_parse :: "string \<Rightarrow> SessionCredential option" where
  "credential_parse raw =
     Option.bind (strip_prefix credential_prefix (trim raw)) (\<lambda>body.
     Option.bind (split_once (CHR ''.'') body) (\<lambda>(t, s).
     if t = [] \<or> s = [] then None else Some \<lparr>sc_tenant_id = t, sc_session_id = s\<rparr>))"

subsection \<open>Requests\<close>

definition reserved_header_prefix :: string where
  "reserved_header_prefix = ''x-authboundry-''"

definition session_cookie :: string where
  "session_cookie = ''authboundry_session''"

record BoundaryRequest =
  br_method :: Method
  br_path :: string
  br_headers :: "(string, string) bmap"
  br_cookies :: "(string, string) bmap"
  br_query :: "(string, string) bmap"
  br_body :: "(string, string) bmap"

definition boundary_request_default :: BoundaryRequest where
  "boundary_request_default = \<lparr>br_method = Get, br_path = ''/'', br_headers = [], br_cookies = [],
     br_query = [], br_body = []\<rparr>"

definition boundary_request_new :: "Method \<Rightarrow> string \<Rightarrow> BoundaryRequest" where
  "boundary_request_new m path = boundary_request_default\<lparr>br_method := m, br_path := path\<rparr>"

definition with_header :: "string \<Rightarrow> string \<Rightarrow> BoundaryRequest \<Rightarrow> BoundaryRequest" where
  "with_header name value r = r\<lparr>br_headers := binsert (ascii_lower name) value (br_headers r)\<rparr>"

definition with_cookie :: "string \<Rightarrow> string \<Rightarrow> BoundaryRequest \<Rightarrow> BoundaryRequest" where
  "with_cookie name value r = r\<lparr>br_cookies := binsert name value (br_cookies r)\<rparr>"

definition with_field :: "string \<Rightarrow> string \<Rightarrow> BoundaryRequest \<Rightarrow> BoundaryRequest" where
  "with_field name value r = r\<lparr>br_body := binsert name value (br_body r)\<rparr>"

definition with_credential :: "SessionCredential \<Rightarrow> BoundaryRequest \<Rightarrow> BoundaryRequest" where
  "with_credential c = with_cookie session_cookie (credential_encode c)"

definition sanitized :: "BoundaryRequest \<Rightarrow> BoundaryRequest" where
  "sanitized r = r\<lparr>br_headers :=
     filter (\<lambda>(name, _). \<not> starts_with reserved_header_prefix name) (br_headers r)\<rparr>"

text \<open>A trimmed, non-empty value.\<close>

definition present :: "string option \<Rightarrow> string option" where
  "present v = (case map_option trim v of Some x \<Rightarrow> (if x = [] then None else Some x) | None \<Rightarrow> None)"

definition header :: "string \<Rightarrow> BoundaryRequest \<Rightarrow> string option" where
  "header name r = present (map_of (br_headers r) (ascii_lower name))"

definition field :: "string \<Rightarrow> BoundaryRequest \<Rightarrow> string option" where
  "field name r = present
     (case map_of (br_body r) name of Some v \<Rightarrow> Some v | None \<Rightarrow> map_of (br_query r) name)"

definition credential :: "BoundaryRequest \<Rightarrow> SessionCredential option" where
  "credential r =
     (let raw = (case map_of (br_cookies r) session_cookie of
         Some v \<Rightarrow> Some v
       | None \<Rightarrow> Option.bind (header ''authorization'' r) (strip_prefix ''Bearer ''))
      in Option.bind raw credential_parse)"

definition tenant_hint :: "BoundaryRequest \<Rightarrow> string option" where
  "tenant_hint r = (case header ''x-tenant-id'' r of
     Some v \<Rightarrow> Some v | None \<Rightarrow> field ''tenant'' r)"

subsection \<open>Facts of requests\<close>

lemma map_of_filter_keys:
  "map_of (filter (\<lambda>(k, _). P k) m) k = (if P k then map_of m k else None)"
  by (induction m) auto

lemma credential_parse_Some:
  "credential_parse raw = Some c \<longleftrightarrow> trim raw = credential_encode c
     \<and> sc_tenant_id c \<noteq> [] \<and> CHR ''.'' \<notin> set (sc_tenant_id c) \<and> sc_session_id c \<noteq> []"
proof -
  have "credential_parse raw = Some c \<longleftrightarrow> (\<exists>body. trim raw = credential_prefix @ body
      \<and> split_once (CHR ''.'') body = Some (sc_tenant_id c, sc_session_id c)
      \<and> sc_tenant_id c \<noteq> [] \<and> sc_session_id c \<noteq> [])"
    by (cases c) (auto simp: credential_parse_def strip_prefix_Some bind_eq_Some_conv
        split: if_splits prod.splits)
  then show ?thesis
    by (auto simp: credential_encode_def dest: split_once_SomeD)
qed

lemma credential_encode_read:
  assumes "sc_tenant_id c \<noteq> []" "CHR ''.'' \<notin> set (sc_tenant_id c)" "sc_session_id c \<noteq> []"
    and "plain (last (sc_session_id c))"
  shows "credential_parse (credential_encode c) = Some c" "credential (with_credential c r) = Some c"
proof -
  have "trim (credential_encode c) = credential_encode c"
    by (rule trim_plain) (use assms(3,4) in \<open>simp_all add: credential_encode_def
        credential_prefix_def plain_def\<close>)
  then show "credential_parse (credential_encode c) = Some c"
    using assms by (simp add: credential_parse_Some)
  then show "credential (with_credential c r) = Some c"
    by (simp add: credential_def with_credential_def with_cookie_def)
qed

text \<open>
  The credential the boundary issues comes back: presented in the session cookie, it is
  read as the tenant and the session it was issued for, whatever else the request carries,
  provided the tenant id is not empty and has no dot, and the session id is not empty and does
  not end in white space; and what is read from any raw text is such a credential, the
  encoding of which is that text without its surrounding white space.
\<close>

theorem credential_roundtrip:
  assumes "sc_tenant_id c \<noteq> []" "CHR ''.'' \<notin> set (sc_tenant_id c)" "sc_session_id c \<noteq> []"
    and "plain (last (sc_session_id c))"
  shows "credential_parse (credential_encode c) = Some c
    \<and> credential (with_credential c r) = Some c
    \<and> (credential_parse raw = Some d \<longrightarrow> trim raw = credential_encode d
         \<and> sc_tenant_id d \<noteq> [] \<and> CHR ''.'' \<notin> set (sc_tenant_id d) \<and> sc_session_id d \<noteq> [])"
  using credential_encode_read [OF assms] by (simp add: credential_parse_Some)

theorem credential_roundtrip_witness:
  "credential (with_credential \<lparr>sc_tenant_id = ''acme'', sc_session_id = ''sess_1''\<rparr>
     (boundary_request_new Post ''/invoices''))
   = Some \<lparr>sc_tenant_id = ''acme'', sc_session_id = ''sess_1''\<rparr>"
  using credential_roundtrip [of "\<lparr>sc_tenant_id = ''acme'', sc_session_id = ''sess_1''\<rparr>"
      "boundary_request_new Post ''/invoices''"]
  by (simp add: plain_def)

text \<open>
  A tenant id with a dot breaks the credential: what is read back names the part before
  the dot as the tenant, and the rest as part of the session.
\<close>

theorem dotted_tenant_breaks_credential:
  "\<exists>c d. credential_parse (credential_encode c) = Some d \<and> sc_tenant_id c = ''acme.eu''
     \<and> sc_tenant_id d = ''acme'' \<and> sc_session_id d = ''eu.sess_1''"
proof -
  let ?c = "\<lparr>sc_tenant_id = ''acme.eu'', sc_session_id = ''sess_1''\<rparr>"
  let ?d = "\<lparr>sc_tenant_id = ''acme'', sc_session_id = ''eu.sess_1''\<rparr>"
  have "trim (credential_encode ?c) = credential_encode ?c"
    by (rule trim_plain) (simp_all add: credential_encode_def credential_prefix_def plain_def)
  then have "credential_parse (credential_encode ?c) = Some ?d"
    by (simp add: credential_parse_Some) (simp add: credential_encode_def credential_prefix_def)
  then show ?thesis by (intro exI [of _ ?c] exI [of _ ?d]) simp
qed

text \<open>
  Sanitizing takes the reserved vocabulary from the client and nothing else: no header
  whose name starts with the reserved prefix, in whatever case it is asked for, can be read,
  every other header reads as before, and so do the fields and the credential.
\<close>

lemma sanitized_reads:
  "header name (sanitized r) =
     (if starts_with reserved_header_prefix (ascii_lower name) then None else header name r)
   \<and> field name (sanitized r) = field name r \<and> credential (sanitized r) = credential r
   \<and> tenant_hint (sanitized r) = tenant_hint r"
proof -
  have h: "header n (sanitized r) =
      (if starts_with reserved_header_prefix (ascii_lower n) then None else header n r)" for n
    by (simp add: header_def sanitized_def map_of_filter_keys present_def)
  have plain_names: "\<not> starts_with reserved_header_prefix (ascii_lower ''authorization'')"
    "\<not> starts_with reserved_header_prefix (ascii_lower ''x-tenant-id'')"
    by (simp_all add: starts_with_def reserved_header_prefix_def ascii_lower_def ascii_lower_char_def)
  have f: "field n (sanitized r) = field n r" for n
    by (simp add: sanitized_def field_def split: option.split)
  have "credential (sanitized r) = credential r" "tenant_hint (sanitized r) = tenant_hint r"
    unfolding credential_def tenant_hint_def h f using plain_names
    by (simp_all add: sanitized_def)
  then show ?thesis using h f by simp
qed

end
