(* ===== verification/Utf8.thy ===== *)
theory Utf8
  imports Prelude
begin

text \<open>
  Characters of byte strings. Strings are bytes; \<^verbatim>\<open>chars()\<close> of a valid UTF-8 string
  are its maximal runs of one byte and the continuation bytes after it.
\<close>

definition continuation :: "char \<Rightarrow> bool" where
  "continuation b \<longleftrightarrow> 128 \<le> (of_char b :: nat) \<and> (of_char b :: nat) < 192"

function utf8_chars :: "string \<Rightarrow> string list" where
  "utf8_chars [] = []"
| "utf8_chars (b # bs) = (b # takeWhile continuation bs) # utf8_chars (dropWhile continuation bs)"
  by pat_completeness auto
termination
  by (relation "measure length") (auto intro: le_imp_less_Suc length_dropWhile_le)

lemma utf8_chars_bound: "length (utf8_chars s) \<le> length s"
proof (induction s rule: utf8_chars.induct)
  case (2 b bs)
  then show ?case using length_dropWhile_le [of continuation bs] by simp
qed simp

lemma concat_utf8_chars [simp]: "concat (utf8_chars s) = s"
  by (induction s rule: utf8_chars.induct) simp_all

definition ascii :: "string \<Rightarrow> bool" where
  "ascii s \<longleftrightarrow> (\<forall>c \<in> set s. (of_char c :: nat) < 128)"

lemma utf8_chars_ascii: "ascii s \<Longrightarrow> utf8_chars s = map (\<lambda>c. [c]) s"
proof (induction s)
  case (Cons c s)
  have "takeWhile continuation s = [] \<and> dropWhile continuation s = s"
    using Cons.prems by (cases s) (auto simp: ascii_def continuation_def)
  moreover have "ascii s" using Cons.prems by (simp add: ascii_def)
  ultimately show ?case using Cons.IH by simp
qed simp

lemma ascii_simps [simp]: "ascii []" "ascii (c # s) \<longleftrightarrow> (of_char c :: nat) < 128 \<and> ascii s"
  "ascii (s @ t) \<longleftrightarrow> ascii s \<and> ascii t"
  by (auto simp: ascii_def)

text \<open>The characters of an ASCII string.\<close>

definition chs :: "string \<Rightarrow> string list" where "chs = map (\<lambda>c. [c])"

lemma chs_simps [simp]: "chs [] = []" "chs (c # s) = [c] # chs s" "chs (s @ t) = chs s @ chs t"
  "length (chs s) = length s" "concat (chs s) = s"
  by (simp_all add: chs_def)

lemma utf8_chars_chs: "ascii s \<Longrightarrow> utf8_chars s = chs s"
  by (simp add: utf8_chars_ascii chs_def)

text \<open>ASCII classes.\<close>

definition is_upper :: "char \<Rightarrow> bool" where
  "is_upper c \<longleftrightarrow> 65 \<le> (of_char c :: nat) \<and> (of_char c :: nat) \<le> 90"

definition is_lower :: "char \<Rightarrow> bool" where
  "is_lower c \<longleftrightarrow> 97 \<le> (of_char c :: nat) \<and> (of_char c :: nat) \<le> 122"

definition is_alphanumeric :: "char \<Rightarrow> bool" where
  "is_alphanumeric c \<longleftrightarrow> is_upper c \<or> is_lower c \<or> is_digit c"

text \<open>\<^verbatim>\<open>split_whitespace\<close>.\<close>

function words :: "string list \<Rightarrow> string list" where
  "words [] = []"
| "words (c # cs) = (if c \<in> set white_space then words cs
     else concat (takeWhile (\<lambda>c. c \<notin> set white_space) (c # cs))
       # words (dropWhile (\<lambda>c. c \<notin> set white_space) (c # cs)))"
  by pat_completeness auto
termination
  by (relation "measure length") (auto intro: le_imp_less_Suc length_dropWhile_le)

definition split_whitespace :: "string \<Rightarrow> string list" where
  "split_whitespace s = words (utf8_chars s)"

text \<open>\<^verbatim>\<open>str::parse\<close> at an unsigned type of the given bound.\<close>

definition parse_unsigned :: "nat \<Rightarrow> string \<Rightarrow> nat option" where
  "parse_unsigned bound s = (case parse_nat (if starts_with ''+'' s then tl s else s) of
     Some n \<Rightarrow> (if n < bound then Some n else None) | None \<Rightarrow> None)"

end
