(* ===== verification/DslParser.thy ===== *)
theory DslParser
  imports Config Request Utf8
begin

text \<open>
  The contract language (\<^verbatim>\<open>crates/dsl/src/parser.rs\<close>): from a source text to the
  contract it declares. The parser works on the characters of the auth block; a state of the
  parser is the rest of its input. Parsing blocks recurses under fuel, and running out of fuel
  is the outer \<open>None\<close>; one more than the number of characters is always enough.
\<close>

subsection \<open>Values\<close>

datatype DslValue =
    VScalar string
  | VList "string list"
  | VEnum "string list"
  | VBlock "(string \<times> DslValue) list"

definition value_kind :: "DslValue \<Rightarrow> string" where
  "value_kind v = (case v of VScalar _ \<Rightarrow> ''scalar'' | VList _ \<Rightarrow> ''list'' | VEnum _ \<Rightarrow> ''enum''
     | VBlock _ \<Rightarrow> ''block'')"

subsection \<open>Tokens\<close>

definition newline :: string where "newline = [CHR 0x0A]"
definition quote_mark :: string where "quote_mark = [CHR 0x22]"

definition ident_char :: "string \<Rightarrow> bool" where
  "ident_char ch = (case ch of
     [c] \<Rightarrow> is_alphanumeric c \<or> c = CHR ''_'' \<or> c = CHR ''-'' \<or> c = CHR ''.'' | _ \<Rightarrow> False)"

fun skip_line :: "string list \<Rightarrow> string list" where
  "skip_line [] = []"
| "skip_line (c # cs) = (if c = newline then cs else skip_line cs)"

lemma length_skip_line: "length (skip_line cs) \<le> length cs" "length (skip_line (c # cs)) \<le> length cs"
  by (induction cs arbitrary: c) (auto intro: le_SucI)

text \<open>White space, commas and the comments \<^verbatim>\<open>#\<close> and \<^verbatim>\<open>//\<close> carry no meaning.\<close>

definition blank :: "string \<Rightarrow> bool" where
  "blank ch \<longleftrightarrow> ch \<in> set white_space \<or> ch = '',''"

definition comment_start :: "string list \<Rightarrow> bool" where
  "comment_start cs = (case cs of
     c # ds \<Rightarrow> c = ''#'' \<or> c = ''/'' \<and> (case ds of d # _ \<Rightarrow> d = ''/'' | [] \<Rightarrow> False) | [] \<Rightarrow> False)"

function skip_trivia :: "string list \<Rightarrow> string list" where
  "skip_trivia [] = []"
| "skip_trivia (c # cs) = (if blank c then skip_trivia cs
     else if comment_start (c # cs) then skip_trivia (skip_line (c # cs))
     else c # cs)"
  by pat_completeness auto
termination
  by (relation "measure length") (use length_skip_line in \<open>auto simp: less_Suc_eq_le\<close>)

definition parse_ident :: "string list \<Rightarrow> string + string \<times> string list" where
  "parse_ident cs = (let i = takeWhile ident_char cs in
     if i = [] then Inl (''expected an identifier, found ''
       @ in_backticks (case cs of [] \<Rightarrow> '' '' | c # _ \<Rightarrow> c))
     else Inr (concat i, dropWhile ident_char cs))"

text \<open>The rest of a string after its opening quotation mark.\<close>

definition parse_quoted :: "string list \<Rightarrow> string + string \<times> string list" where
  "parse_quoted cs = (case dropWhile (\<lambda>c. c \<noteq> quote_mark) cs of
     [] \<Rightarrow> Inl ''unterminated string''
   | _ # rest \<Rightarrow> Inr (concat (takeWhile (\<lambda>c. c \<noteq> quote_mark) cs), rest))"

lemma parse_ident_length: "parse_ident cs = Inr (i, rest) \<Longrightarrow> length rest < length cs"
  by (cases cs) (auto simp: parse_ident_def Let_def length_dropWhile_le less_Suc_eq_le split: if_splits)

lemma parse_quoted_length: "parse_quoted cs = Inr (i, rest) \<Longrightarrow> length rest < length cs"
  using length_dropWhile_le [of "\<lambda>c. c \<noteq> quote_mark" cs] by (auto simp: parse_quoted_def split: list.splits)

lemma skip_trivia_length: "length (skip_trivia cs) \<le> length cs"
proof (induction cs rule: skip_trivia.induct)
  case (2 c cs)
  consider "blank c" | "\<not> blank c" "comment_start (c # cs)" | "\<not> blank c" "\<not> comment_start (c # cs)" by blast
  then show ?case
  proof cases
    case 1
    then show ?thesis using "2.IH"(1) by simp
  next
    case 2
    have "length (skip_trivia (skip_line (c # cs))) \<le> length (skip_line (c # cs))" using 2 "2.IH"(2) by blast
    also have "\<dots> \<le> length (c # cs)" using length_skip_line(2) [of c cs] by simp
    finally show ?thesis using 2 by simp
  qed simp
qed simp

lemma skip_trivia_Cons: "skip_trivia cs = c # rest \<Longrightarrow> length rest < length cs"
  using skip_trivia_length [of cs] by simp

text \<open>The items of a list after its opening bracket.\<close>

function parse_items :: "string list \<Rightarrow> string + string list \<times> string list" where
  "parse_items cs = (case skip_trivia cs of
     [] \<Rightarrow> Inl (''missing closing '' @ in_backticks '']'')
   | c # rest \<Rightarrow>
       if c = '']'' then Inr ([], rest)
       else if c = quote_mark then
         (case parse_quoted rest of Inl e \<Rightarrow> Inl e
          | Inr (v, rest') \<Rightarrow> (case parse_items rest' of Inl e \<Rightarrow> Inl e | Inr (vs, r) \<Rightarrow> Inr (v # vs, r)))
       else if ident_char c then
         (case parse_ident (c # rest) of Inl e \<Rightarrow> Inl e
          | Inr (v, rest') \<Rightarrow> (case parse_items rest' of Inl e \<Rightarrow> Inl e | Inr (vs, r) \<Rightarrow> Inr (v # vs, r)))
       else Inl (''unexpected character '' @ in_backticks c @ '' in list''))"
  by pat_completeness auto
termination
proof (relation "measure length", simp, goal_cases)
  case (1 cs c rest x v rest')
  then show ?case using skip_trivia_Cons [of cs c rest] parse_quoted_length [of rest v rest'] by simp
next
  case (2 cs c rest x v rest')
  then show ?case using skip_trivia_length [of cs] parse_ident_length [of "c # rest" v rest'] by simp
qed

declare parse_items.simps [simp del]

subsection \<open>Blocks\<close>

definition expected_value :: "string \<Rightarrow> string" where
  "expected_value key = ''expected '' @ in_backticks '':'' @ '', '' @ in_backticks ''='' @ '' or ''
     @ in_backticks ''{'' @ '' after '' @ in_backticks key"

fun parse_entries :: "nat \<Rightarrow> bool \<Rightarrow> string list
    \<Rightarrow> (string + (string \<times> DslValue) list \<times> string list) option"
  and parse_value :: "nat \<Rightarrow> string list \<Rightarrow> (string + DslValue \<times> string list) option" where
  "parse_entries 0 nested cs = None"
| "parse_entries (Suc n) nested cs = (case skip_trivia cs of
     [] \<Rightarrow> Some (if nested then Inl (''missing closing '' @ in_backticks ''}'') else Inr ([], []))
   | c # rest \<Rightarrow>
     if c = ''}'' then Some (if nested then Inr ([], rest) else Inl (''unexpected '' @ in_backticks ''}''))
     else (case parse_ident (c # rest) of
       Inl e \<Rightarrow> Some (Inl e)
     | Inr (key, after) \<Rightarrow>
       (case skip_trivia after of
          [] \<Rightarrow> Some (Inl (expected_value key))
        | d # ds \<Rightarrow>
          if d = '':'' \<or> d = ''='' \<or> d = ''{'' then
            (case parse_value n (if d = ''{'' then d # ds else ds) of
               None \<Rightarrow> None
             | Some (Inl e) \<Rightarrow> Some (Inl e)
             | Some (Inr (v, rest')) \<Rightarrow>
               (case parse_entries n nested rest' of
                  None \<Rightarrow> None
                | Some (Inl e) \<Rightarrow> Some (Inl e)
                | Some (Inr (es, r)) \<Rightarrow> Some (Inr ((key, v) # es, r))))
          else Some (Inl (expected_value key)))))"
| "parse_value 0 cs = None"
| "parse_value (Suc n) cs = (case skip_trivia cs of
     [] \<Rightarrow> Some (Inl ''unexpected end of auth block'')
   | c # rest \<Rightarrow>
     if c = ''{'' then
       (case parse_entries n True rest of
          None \<Rightarrow> None
        | Some (Inl e) \<Rightarrow> Some (Inl e)
        | Some (Inr (es, r)) \<Rightarrow> Some (Inr (VBlock es, r)))
     else if c = ''['' then
       Some (case parse_items rest of Inl e \<Rightarrow> Inl e | Inr (vs, r) \<Rightarrow> Inr (VList vs, r))
     else if c = quote_mark then
       Some (case parse_quoted rest of Inl e \<Rightarrow> Inl e | Inr (v, r) \<Rightarrow> Inr (VScalar v, r))
     else if ident_char c then
       (case parse_ident (c # rest) of
          Inl e \<Rightarrow> Some (Inl e)
        | Inr (i, r) \<Rightarrow>
          if i = ''enum'' \<and> (case r of d # _ \<Rightarrow> d = ''['' | [] \<Rightarrow> False)
          then Some (case parse_items (tl r) of Inl e \<Rightarrow> Inl e | Inr (vs, r') \<Rightarrow> Inr (VEnum vs, r'))
          else Some (Inr (VScalar i, r)))
     else Some (Inl (''unexpected character '' @ in_backticks c)))"

definition parse_block :: "string \<Rightarrow> (string + (string \<times> DslValue) list) option" where
  "parse_block body = (let cs = utf8_chars body in
     map_option (map_sum id fst) (parse_entries (Suc (length cs)) False cs))"

text \<open>\<^verbatim>\<open>Parser::new(body).parse_entries(false)\<close>, which always returns (below).\<close>

definition parsed :: "string \<Rightarrow> string + (string \<times> DslValue) list" where
  "parsed body = (case parse_block body of Some r \<Rightarrow> r | None \<Rightarrow> Inl ''out of fuel'')"

subsection \<open>Finding the blocks\<close>

text \<open>The text up to the brace that closes the one before it; braces nest at depth \<open>d\<close>.\<close>

fun close_at :: "nat \<Rightarrow> string \<Rightarrow> string option" where
  "close_at d [] = None"
| "close_at d (c # cs) =
     (if c = CHR ''{'' then map_option ((#) c) (close_at (d + 1) cs)
      else if c = CHR ''}'' then (if d = 1 then Some [] else map_option ((#) c) (close_at (d - 1) cs))
      else map_option ((#) c) (close_at d cs))"

fun count_matches :: "string \<Rightarrow> string \<Rightarrow> nat" where
  "count_matches p [] = 0"
| "count_matches p (c # cs) = (if starts_with p (c # cs) then 1 else 0) + count_matches p cs"

fun after_first :: "string \<Rightarrow> string \<Rightarrow> string option" where
  "after_first p [] = (if p = [] then Some [] else None)"
| "after_first p (c # cs) = (if starts_with p (c # cs) then Some (drop (length p) (c # cs)) else after_first p cs)"

definition use_auth :: string where "use_auth = ''use auth''"

definition extract_auth_block :: "string \<Rightarrow> string + string" where
  "extract_auth_block src =
     rbind (ok_or (''missing '' @ in_backticks use_auth @ '' block'') (after_first use_auth src)) (\<lambda>rest.
     rbind (ok_or (''missing '' @ in_backticks ''{'' @ '' in auth block'') (after_first ''{'' rest)) (\<lambda>inner.
     ok_or (''missing closing '' @ in_backticks ''}'' @ '' in auth block'') (close_at 1 inner)))"

text \<open>
  The texts after the brace of every \<^verbatim>\<open>mail {\<close> that is a word of its own, in order;
  the last one is taken.
\<close>

definition word_boundary :: "char option \<Rightarrow> bool" where
  "word_boundary c = (case c of None \<Rightarrow> True | Some c \<Rightarrow> \<not> ident_char [c])"

definition first_char :: "string \<Rightarrow> char option" where
  "first_char s = (case s of [] \<Rightarrow> None | c # _ \<Rightarrow> Some c)"

fun mail_openings :: "char option \<Rightarrow> string \<Rightarrow> string list" where
  "mail_openings prev [] = []"
| "mail_openings prev (c # cs) =
     (let rest = drop 4 (c # cs); found = strip_seqs white_space rest in
      (if starts_with ''mail'' (c # cs) \<and> word_boundary prev \<and> word_boundary (first_char rest)
          \<and> starts_with ''{'' found then [tl found] else []))
     @ mail_openings (Some c) cs"

definition mentions_mail :: "string \<Rightarrow> bool" where
  "mentions_mail src = (let ws = split_whitespace src in
     list_ex (\<lambda>(a, b). a = ''use'' \<and> b = ''mail'') (zip ws (tl ws)))"

subsection \<open>Typed values\<close>

definition expect_scalar :: "string \<Rightarrow> DslValue \<Rightarrow> string + string" where
  "expect_scalar key v = (case v of VScalar s \<Rightarrow> Inr s
     | _ \<Rightarrow> Inl (in_backticks key @ '' expects a value, found '' @ value_kind v))"

definition expect_bool :: "string \<Rightarrow> DslValue \<Rightarrow> string + bool" where
  "expect_bool key v = rbind (expect_scalar key v) (\<lambda>s.
     if s = ''true'' then Inr True else if s = ''false'' then Inr False
     else Inl (key @ '' must be true or false''))"

definition expect_usize :: "string \<Rightarrow> DslValue \<Rightarrow> string + nat" where
  "expect_usize key v = rbind (expect_scalar key v) (\<lambda>s.
     ok_or (key @ '' must be a non-negative integer'') (parse_unsigned (2 ^ 64) s))"

definition expect_optional_u32 :: "string \<Rightarrow> DslValue \<Rightarrow> string + u32 option" where
  "expect_optional_u32 key v = rbind (expect_scalar key v) (\<lambda>s.
     if s = ''null'' then Inr None
     else rbind (ok_or (key @ '' must be an integer or null'') (parse_unsigned (2 ^ 32) s)) (\<lambda>n.
       Inr (Some (of_nat n))))"

definition expect_providers :: "DslValue \<Rightarrow> string + string list" where
  "expect_providers v = (case v of
     VList items \<Rightarrow> (let kept = filter (\<lambda>i. trim i \<noteq> []) items in
       if kept = [] then Inl ''providers cannot be empty'' else Inr kept)
   | _ \<Rightarrow> Inl ''providers must be in []'')"

definition parse_isolation :: "string \<Rightarrow> string + IsolationMode" where
  "parse_isolation s = (let l = ascii_lower s in
     if l = ''strict'' then Inr Strict
     else if l = ''shared_storage_with_policy'' then Inr SharedStorageWithPolicy
     else Inl (''unknown isolation mode '' @ in_backticks s))"

definition block_entries :: "string \<Rightarrow> DslValue \<Rightarrow> string + (string \<times> DslValue) list" where
  "block_entries what v = (case v of VBlock es \<Rightarrow> Inr es
     | _ \<Rightarrow> Inl (what @ '' must be a '' @ in_backticks ''{ ... }'' @ '' block''))"

text \<open>The loops that read the fields of a block and refuse a field that comes twice.\<close>

fun each_field ::
  "string \<Rightarrow> (string \<Rightarrow> DslValue \<Rightarrow> 'a \<Rightarrow> string + 'a) \<Rightarrow> string list \<Rightarrow> (string \<times> DslValue) list \<Rightarrow> 'a
   \<Rightarrow> string + 'a" where
  "each_field what f seen [] acc = Inr acc"
| "each_field what f seen ((k, v) # es) acc =
     (if k \<in> set seen then Inl (''duplicate '' @ what @ '' field '' @ in_backticks k)
      else rbind (f k v acc) (each_field what f (k # seen) es))"

definition parse_claim_kind :: "string \<Rightarrow> DslValue \<Rightarrow> string + ClaimKind" where
  "parse_claim_kind name v = (case v of
     VEnum vs \<Rightarrow> (let kept = filter (\<lambda>x. trim x \<noteq> []) vs in
       if kept = [] then Inl ''enum claim must have values''
       else rbind (reject_duplicates kept ''duplicate enum value'') (\<lambda>_. Inr (KindEnum kept)))
   | VScalar s \<Rightarrow> (if s = ''string'' then Inr KindString else if s = ''integer'' then Inr KindInteger
       else if s = ''boolean'' then Inr KindBoolean
       else Inl (''unsupported claim kind '' @ in_backticks s))
   | _ \<Rightarrow> Inl (''claim '' @ in_backticks name @ '' has an unsupported '' @ value_kind v @ '' definition''))"

primrec read_claims :: "(string \<times> DslValue) list \<Rightarrow> string + ClaimDef list" where
  "read_claims [] = Inr []"
| "read_claims (e # es) = rbind (parse_claim_kind (fst e) (snd e)) (\<lambda>k.
     rbind (read_claims es) (\<lambda>ds. Inr (\<lparr>cd_name = fst e, cd_kind = k\<rparr> # ds)))"

definition parse_claims :: "DslValue \<Rightarrow> string + ClaimDef list" where
  "parse_claims v = rbind (block_entries ''claims'' v) read_claims"

definition policy_field :: "string \<Rightarrow> DslValue \<Rightarrow> PolicyDef \<Rightarrow> string + PolicyDef" where
  "policy_field key v pd =
     (if key = ''tenant'' then rbind (expect_scalar key v) (\<lambda>s.
        if s \<noteq> ''current'' then Inl (''policy tenant must be '' @ in_backticks ''current'')
        else Inr (pd\<lparr>pd_tenant_current := True\<rparr>))
      else if key = ''resource'' then rbind (expect_scalar key v) (\<lambda>s. Inr (pd\<lparr>pd_resource := Some s\<rparr>))
      else if key = ''action'' then rbind (expect_scalar key v) (\<lambda>s. Inr (pd\<lparr>pd_action := Some s\<rparr>))
      else (case v of
          VList vs \<Rightarrow> Inr (pd\<lparr>pd_claims := pd_claims pd @ [\<lparr>pc_claim = key, pc_values = vs\<rparr>]\<rparr>)
        | VEnum vs \<Rightarrow> Inr (pd\<lparr>pd_claims := pd_claims pd @ [\<lparr>pc_claim = key, pc_values = vs\<rparr>]\<rparr>)
        | VScalar s \<Rightarrow> Inr (pd\<lparr>pd_claims := pd_claims pd @ [\<lparr>pc_claim = key, pc_values = [s]\<rparr>]\<rparr>)
        | VBlock _ \<Rightarrow> Inl (''policy claim '' @ in_backticks key @ '' cannot be a block'')))"

primrec policy_fields :: "(string \<times> DslValue) list \<Rightarrow> PolicyDef \<Rightarrow> string + PolicyDef" where
  "policy_fields [] pd = Inr pd"
| "policy_fields (e # es) pd = rbind (policy_field (fst e) (snd e) pd) (policy_fields es)"

definition sort_conditions :: "PolicyDef \<Rightarrow> PolicyDef" where
  "sort_conditions pd = pd\<lparr>pd_claims := sort_key (\<lambda>c. (pc_claim c, pc_values c)) (pd_claims pd)\<rparr>"

definition read_policy :: "string \<Rightarrow> DslValue \<Rightarrow> string + PolicyDef" where
  "read_policy capability v = (case v of
     VBlock fs \<Rightarrow> rbind (policy_fields fs
       \<lparr>pd_capability = capability, pd_tenant_current = False, pd_resource = None,
        pd_action = map_option snd (split_once (CHR ''.'') capability), pd_claims = []\<rparr>)
       (\<lambda>pd. Inr (sort_conditions pd))
   | _ \<Rightarrow> Inl (''policy '' @ in_backticks capability @ '' must be a block''))"

primrec read_policies :: "(string \<times> DslValue) list \<Rightarrow> string + PolicyDef list" where
  "read_policies [] = Inr []"
| "read_policies (e # es) = rbind (read_policy (fst e) (snd e)) (\<lambda>pd.
     rbind (read_policies es) (\<lambda>pds. Inr (pd # pds)))"

definition parse_policies :: "DslValue \<Rightarrow> string + PolicyDef list" where
  "parse_policies v = rbind (block_entries ''policy'' v) read_policies"

definition storage_field :: "string \<Rightarrow> DslValue \<Rightarrow> StorageConfig \<Rightarrow> string + StorageConfig" where
  "storage_field key v st = rbind (expect_scalar key v) (\<lambda>s.
     if key = ''authority'' then Inr (st\<lparr>sc_authority := s\<rparr>)
     else if key = ''audit'' then Inr (st\<lparr>sc_audit := s\<rparr>)
     else if key = ''reporting'' then Inr (st\<lparr>sc_reporting := s\<rparr>)
     else Inl (''unknown storage field '' @ in_backticks key))"

definition parse_storage :: "DslValue \<Rightarrow> string + StorageConfig" where
  "parse_storage v = rbind (block_entries ''storage'' v) (\<lambda>es.
     rbind (each_field ''storage'' storage_field [] es storage_default) (\<lambda>st.
     rbind (storage_validate st) (\<lambda>_. Inr st)))"

definition password_field :: "string \<Rightarrow> DslValue \<Rightarrow> PasswordPolicy \<Rightarrow> string + PasswordPolicy" where
  "password_field key v pp =
     (if key = ''min_length'' then rbind (expect_usize key v) (\<lambda>n. Inr (pp\<lparr>pw_min_length := n\<rparr>))
      else if key = ''max_length'' then rbind (expect_usize key v) (\<lambda>n. Inr (pp\<lparr>pw_max_length := n\<rparr>))
      else if key = ''require_uppercase'' then rbind (expect_bool key v) (\<lambda>b. Inr (pp\<lparr>pw_require_uppercase := b\<rparr>))
      else if key = ''require_lowercase'' then rbind (expect_bool key v) (\<lambda>b. Inr (pp\<lparr>pw_require_lowercase := b\<rparr>))
      else if key = ''require_number'' then rbind (expect_bool key v) (\<lambda>b. Inr (pp\<lparr>pw_require_number := b\<rparr>))
      else if key = ''require_special_character'' then
        rbind (expect_bool key v) (\<lambda>b. Inr (pp\<lparr>pw_require_special_character := b\<rparr>))
      else if key = ''expiration_days'' \<or> key = ''password_expiration_days'' then
        rbind (expect_optional_u32 key v) (\<lambda>d. Inr (pp\<lparr>pw_expiration_days := d\<rparr>))
      else if key = ''history_count'' \<or> key = ''password_history_count'' then
        rbind (expect_usize key v) (\<lambda>n. Inr (pp\<lparr>pw_history_count := n\<rparr>))
      else if key = ''allow_password_change'' then rbind (expect_bool key v) (\<lambda>b. Inr (pp\<lparr>pw_allow_change := b\<rparr>))
      else if key = ''allow_password_reset'' then rbind (expect_bool key v) (\<lambda>b. Inr (pp\<lparr>pw_allow_reset := b\<rparr>))
      else Inl (''unknown password field '' @ in_backticks key))"

definition parse_password :: "DslValue \<Rightarrow> string + PasswordPolicy" where
  "parse_password v = rbind (block_entries ''password'' v) (\<lambda>es.
     rbind (each_field ''password'' password_field [] es password_policy_default) (\<lambda>pp.
     rbind (password_policy_validate pp) (\<lambda>_. Inr pp)))"

definition experience_field :: "string \<Rightarrow> DslValue \<Rightarrow> AuthExperience \<Rightarrow> string + AuthExperience" where
  "experience_field key v x =
     rbind (ok_or (''unknown experience '' @ in_backticks key) (experience_parse key)) (\<lambda>e.
     rbind (expect_scalar key v) (\<lambda>s.
     rbind (ok_or (''experience '' @ in_backticks key
         @ '' must be disabled, enabled, required, admin_only, true, or false'') (experience_state_parse s))
       (\<lambda>st. Inr (experience_set x e st))))"

definition parse_experience :: "DslValue \<Rightarrow> string + AuthExperience" where
  "parse_experience v = rbind (block_entries ''experience'' v) (\<lambda>es.
     rbind (each_field ''experience'' experience_field [] es experience_default) (\<lambda>x.
     rbind (experience_validate x) (\<lambda>_. Inr x)))"

definition ui_field :: "string \<Rightarrow> DslValue \<Rightarrow> AuthUiConfig \<Rightarrow> string + AuthUiConfig" where
  "ui_field key v ui =
     (if key = ''theme'' then rbind (expect_scalar key v) (\<lambda>s. Inr (ui\<lparr>ui_theme := s\<rparr>))
      else if key = ''mode'' then rbind (expect_scalar key v) (\<lambda>s.
        rbind (ok_or ''ui mode must be generated, embedded, headless, or custom'' (renderer_parse s))
          (\<lambda>r. Inr (ui\<lparr>ui_renderer := r\<rparr>)))
      else rbind (ok_or (''unknown ui surface '' @ in_backticks key) (screen_parse key)) (\<lambda>screen.
        rbind (expect_scalar key v) (\<lambda>s.
        rbind (if s = ''default'' then Inr UiDefault else if s = ''custom'' then Inr UiCustom
          else Inl (''ui surface '' @ in_backticks key @ '' must be '' @ quote_mark @ ''default'' @ quote_mark @ '' or ''
            @ quote_mark @ ''custom'' @ quote_mark @ '', found '' @ in_backticks s)) (\<lambda>mode.
        Inr (ui\<lparr>ui_screens := ui_screens ui @ [\<lparr>o_screen = screen, o_mode = mode\<rparr>]\<rparr>)))))"

definition parse_ui :: "DslValue \<Rightarrow> string + AuthUiConfig" where
  "parse_ui v = rbind (block_entries ''ui'' v) (\<lambda>es.
     rbind (each_field ''ui'' ui_field [] es ui_default) (\<lambda>ui.
     rbind (ui_validate ui) (\<lambda>_. Inr (ui_canonical_form ui))))"

subsection \<open>The mail contract\<close>

primrec string_map :: "(string \<times> DslValue) list \<Rightarrow> string + (string \<times> string) list" where
  "string_map [] = Inr []"
| "string_map (e # es) = rbind (expect_scalar (fst e) (snd e)) (\<lambda>s.
     rbind (string_map es) (\<lambda>m. Inr ((fst e, s) # m)))"

definition expect_string_map :: "string \<Rightarrow> DslValue \<Rightarrow> string + (string, string) bmap" where
  "expect_string_map name v = (case v of
     VBlock es \<Rightarrow> rbind (string_map es) (\<lambda>m. Inr (bcollect m))
   | _ \<Rightarrow> Inl (''mail '' @ in_backticks name @ '' must be a block''))"

primrec mail_fields :: "(string \<times> DslValue) list \<Rightarrow> MailConfig \<Rightarrow> string + MailConfig" where
  "mail_fields [] ml = Inr ml"
| "mail_fields (e # es) ml =
     (if fst e = ''identities'' then rbind (expect_string_map ''identities'' (snd e)) (\<lambda>m.
        mail_fields es (ml\<lparr>ml_identities := m\<rparr>))
      else if fst e = ''templates'' then rbind (expect_string_map ''templates'' (snd e)) (\<lambda>m.
        mail_fields es (ml\<lparr>ml_templates := m\<rparr>))
      else Inl (''unknown mail field '' @ in_backticks (fst e)))"

definition parse_mail_contract :: "string \<Rightarrow> string + MailConfig" where
  "parse_mail_contract src = (case mail_openings None src of
     [] \<Rightarrow> Inl (''missing '' @ in_backticks ''mail'' @ '' block'')
   | opening # openings \<Rightarrow>
     rbind (ok_or (''missing closing '' @ in_backticks ''}'' @ '' in mail block'')
       (close_at 1 (last (opening # openings)))) (\<lambda>body.
     rbind (parsed body) (\<lambda>es. mail_fields es \<lparr>ml_identities = [], ml_templates = []\<rparr>)))"

subsection \<open>The auth block\<close>

text \<open>The state of the loop: what was declared of tenants, and the contract so far.\<close>

definition auth_field ::
  "string \<Rightarrow> DslValue \<Rightarrow> bool option \<times> AuthConfig \<Rightarrow> string + bool option \<times> AuthConfig" where
  "auth_field key v = (\<lambda>(declared, c).
     if key = ''multi_tenant'' \<or> key = ''tenant'' then rbind (expect_bool key v) (\<lambda>b.
       if declared = Some (\<not> b) then Inl ''conflicting tenant declaration''
       else Inr (Some b, c\<lparr>cf_multi_tenant := b\<rparr>))
     else map_sum id (Pair declared)
       (if key = ''providers'' then rbind (expect_providers v) (\<lambda>ps. Inr (c\<lparr>cf_providers := ps\<rparr>))
        else if key = ''isolation'' then rbind (expect_scalar key v) (\<lambda>s.
          rbind (parse_isolation s) (\<lambda>m. Inr (c\<lparr>cf_isolation := m\<rparr>)))
        else if key = ''claims'' then rbind (parse_claims v) (\<lambda>ds. Inr (c\<lparr>cf_claims := ds\<rparr>))
        else if key = ''policy'' then rbind (parse_policies v) (\<lambda>pds. Inr (c\<lparr>cf_policies := pds\<rparr>))
        else if key = ''password'' \<or> key = ''password_policy'' then
          rbind (parse_password v) (\<lambda>pp. Inr (c\<lparr>cf_password_policy := pp\<rparr>))
        else if key = ''storage'' then rbind (parse_storage v) (\<lambda>st. Inr (c\<lparr>cf_storage := st\<rparr>))
        else if key = ''experience'' then rbind (parse_experience v) (\<lambda>x. Inr (c\<lparr>cf_experience := x\<rparr>))
        else if key = ''agents'' then rbind (expect_bool key v) (\<lambda>b. Inr (c\<lparr>cf_agents := b\<rparr>))
        else if key = ''ui'' then rbind (parse_ui v) (\<lambda>ui. Inr (c\<lparr>cf_ui := ui\<rparr>))
        else Inl (''unknown auth field '' @ in_backticks key)))"

definition with_local :: "AuthConfig \<Rightarrow> AuthConfig" where
  "with_local c = (if cf_providers c = [] then c\<lparr>cf_providers := [''local'']\<rparr> else c)"

definition parse_auth_block :: "string \<Rightarrow> string + AuthConfig" where
  "parse_auth_block src =
     (if trim src = use_auth then Inr (config_default\<lparr>cf_providers := [''local'']\<rparr>)
      else if count_matches use_auth src > 1 then Inl ''multiple auth blocks are not allowed''
      else
      rbind (extract_auth_block src) (\<lambda>body.
      rbind (parsed body) (\<lambda>es.
      rbind (each_field ''auth'' auth_field [] es (None, config_default)) (\<lambda>(_, c).
      rbind (if mentions_mail src
        then rbind (parse_mail_contract src) (\<lambda>ml. Inr ((with_local c)\<lparr>cf_mail := Some ml\<rparr>))
        else Inr (with_local c)) (\<lambda>c.
      rbind (config_validate c) (\<lambda>_. Inr c))))))"

subsection \<open>The parser returns\<close>

lemma parse_items_length: "parse_items cs = Inr (vs, r) \<Longrightarrow> length r < length cs"
proof (induction cs arbitrary: vs r rule: parse_items.induct)
  case (1 cs)
  show ?case
  proof (cases "skip_trivia cs")
    case Nil
    then show ?thesis using "1.prems" by (simp add: parse_items.simps [of cs])
  next
    case (Cons c rest)
    note l = skip_trivia_Cons [OF Cons]
    consider "c = '']''" | "c \<noteq> '']''" "c = quote_mark" | "c \<noteq> '']''" "c \<noteq> quote_mark" "ident_char c"
      | "c \<noteq> '']''" "c \<noteq> quote_mark" "\<not> ident_char c" by blast
    then show ?thesis
    proof cases
      case 1
      then show ?thesis using "1.prems" Cons l by (simp add: parse_items.simps [of cs])
    next
      case 2
      obtain v rest' us where p: "parse_quoted rest = Inr (v, rest')" "parse_items rest' = Inr (us, r)"
        using "1.prems" Cons 2 by (auto simp: parse_items.simps [of cs] split: sum.splits prod.splits)
      have "length r < length rest'" using "1.IH"(1) [OF Cons 2 p(1) refl p(2)] .
      then show ?thesis using parse_quoted_length [OF p(1)] l by simp
    next
      case 3
      obtain v rest' us where p: "parse_ident (c # rest) = Inr (v, rest')" "parse_items rest' = Inr (us, r)"
        using "1.prems" Cons 3 by (auto simp: parse_items.simps [of cs] split: sum.splits prod.splits)
      have "length r < length rest'" using "1.IH"(2) [OF Cons 3 p(1) refl p(2)] .
      then show ?thesis using parse_ident_length [OF p(1)] l by simp
    next
      case 4
      then show ?thesis using "1.prems" Cons by (simp add: parse_items.simps [of cs])
    qed
  qed
qed

lemma parse_fuel_enough:
  "(length cs < n \<longrightarrow> (\<exists>r. parse_entries n nested cs = Some r
     \<and> (\<forall>es rest. r = Inr (es, rest) \<longrightarrow> length rest \<le> length cs)))
   \<and> (length ds < n \<longrightarrow> (\<exists>r. parse_value n ds = Some r
     \<and> (\<forall>v rest. r = Inr (v, rest) \<longrightarrow> length rest < length ds)))"
proof (induction n arbitrary: nested cs ds)
  case (Suc n)
  have V: "\<exists>r. parse_value n ds = Some r \<and> (\<forall>v rest. r = Inr (v, rest) \<longrightarrow> length rest < length ds)"
    if "length ds < n" for ds using Suc that by blast
  have E: "\<exists>r. parse_entries n nested cs = Some r
      \<and> (\<forall>es rest. r = Inr (es, rest) \<longrightarrow> length rest \<le> length cs)"
    if "length cs < n" for nested cs using Suc that by blast
  have "\<exists>r. parse_entries (Suc n) nested cs = Some r
      \<and> (\<forall>es rest. r = Inr (es, rest) \<longrightarrow> length rest \<le> length cs)" if l: "length cs < Suc n"
  proof (cases "skip_trivia cs")
    case (Cons c rest)
    have rl: "length rest < length cs" using skip_trivia_Cons [OF Cons] .
    show ?thesis
    proof (cases "c = ''}''")
      case False
      show ?thesis
      proof (cases "parse_ident (c # rest)")
        case (Inr p)
        obtain key after where p: "p = (key, after)" by (cases p)
        have al: "length after < Suc (length rest)" using parse_ident_length Inr p by fastforce
        show ?thesis
        proof (cases "skip_trivia after")
          case Nil
          show ?thesis using Cons False Inr p Nil by simp
        next
          case (Cons d ds)
          define es where "es = (if d = ''{'' then d # ds else ds)"
          have el: "length es < n" "length es < length cs"
            using skip_trivia_length [of after] Cons al rl l by (auto simp: es_def)
          obtain r where r: "parse_value n es = Some r"
            "\<And>v rest. r = Inr (v, rest) \<Longrightarrow> length rest < length es" using V [OF el(1)] by blast
          show ?thesis
          proof (cases r)
            case (Inl e)
            show ?thesis using \<open>skip_trivia cs = c # rest\<close> False Inr p Cons Inl r(1) by (simp add: es_def)
          next
            case r': (Inr q)
            obtain v rest' where q: "q = (v, rest')" by (cases q)
            have vl: "length rest' < length es" using r(2) r' q by blast
            obtain t where t: "parse_entries n nested rest' = Some t"
              "\<And>es rest. t = Inr (es, rest) \<Longrightarrow> length rest \<le> length rest'"
              using E [of rest' nested] vl el(1) by (meson less_trans)
            show ?thesis using \<open>skip_trivia cs = c # rest\<close> False Inr p Cons r' q r(1) t(1) t(2) vl el(2)
              by (cases t) (fastforce simp: es_def)+
          qed
        qed
      qed (use Cons False in simp)
    qed (use Cons rl in simp)
  qed simp
  moreover have "\<exists>r. parse_value (Suc n) ds = Some r
      \<and> (\<forall>v rest. r = Inr (v, rest) \<longrightarrow> length rest < length ds)" if l: "length ds < Suc n"
  proof (cases "skip_trivia ds")
    case (Cons c rest)
    have rl: "length rest < length ds" using skip_trivia_Cons [OF Cons] .
    consider "c = ''{''" | "c \<noteq> ''{''" "c = ''[''" | "c \<noteq> ''{''" "c \<noteq> ''[''" "c = quote_mark"
      | "c \<noteq> ''{''" "c \<noteq> ''[''" "c \<noteq> quote_mark" "ident_char c"
      | "c \<noteq> ''{''" "c \<noteq> ''[''" "c \<noteq> quote_mark" "\<not> ident_char c" by blast
    then show ?thesis
    proof cases
      case 1
      obtain t where t: "parse_entries n True rest = Some t"
        "\<And>es r. t = Inr (es, r) \<Longrightarrow> length r \<le> length rest"
        using E [of rest True] rl l by (meson less_trans not_less_eq order_less_le_trans less_Suc_eq_le)
      show ?thesis
      proof (cases t)
        case (Inl e)
        then show ?thesis using Cons 1 t(1) by simp
      next
        case (Inr p)
        obtain es r where p: "p = (es, r)" by (cases p)
        then show ?thesis using Cons 1 t Inr rl by simp
      qed
    next
      case 2
      show ?thesis
      proof (cases "parse_items rest")
        case (Inr p)
        obtain vs r where p: "p = (vs, r)" by (cases p)
        have "length r < length rest" using parse_items_length Inr p by blast
        then show ?thesis using Cons 2 Inr p rl by simp
      qed (use Cons 2 in simp)
    next
      case 3
      show ?thesis
      proof (cases "parse_quoted rest")
        case (Inr p)
        obtain vs r where p: "p = (vs, r)" by (cases p)
        have "length r < length rest" using parse_quoted_length Inr p by blast
        then show ?thesis using Cons 3 Inr p rl by simp
      qed (use Cons 3 in simp)
    next
      case 4
      show ?thesis
      proof (cases "parse_ident (c # rest)")
        case (Inr p)
        obtain i r where p: "p = (i, r)" by (cases p)
        have rr: "length r < Suc (length rest)" using parse_ident_length Inr p by fastforce
        show ?thesis
        proof (cases "i = ''enum'' \<and> (case r of d # _ \<Rightarrow> d = ''['' | [] \<Rightarrow> False)")
          case True
          show ?thesis
          proof (cases "parse_items (tl r)")
            case (Inr q)
            obtain vs r' where q: "q = (vs, r')" by (cases q)
            have "length r' < length (tl r)" using parse_items_length Inr q by blast
            then have "length r' < length ds" using rr rl by simp
            then show ?thesis using Cons 4 True Inr \<open>parse_ident (c # rest) = Inr p\<close> p q by simp
          qed (use Cons 4 True Inr p in simp)
        qed (use Cons 4 Inr p rr rl in auto)
      qed (use Cons 4 in simp)
    next
      case 5
      then show ?thesis using Cons by simp
    qed
  qed simp
  ultimately show ?case by blast
qed simp

declare parse_entries.simps [simp del] and parse_value.simps [simp del]

lemma parse_block_returns: "\<exists>r. parse_block body = Some r"
  using parse_fuel_enough [of "utf8_chars body" "Suc (length (utf8_chars body))" False "[]"]
  by (auto simp: parse_block_def Let_def)

text \<open>
  C13. Parsing terminates: on every input, one unit of fuel more than there are characters is
  enough for the entries of a block and for a value, what is left of the input is no longer than
  the input, and a value consumes at least a character. So parsing a body always returns, with
  entries or with an error.
\<close>

theorem parser_terminates:
  "(\<exists>r. parse_entries (Suc (length cs)) nested cs = Some r
     \<and> (\<forall>es rest. r = Inr (es, rest) \<longrightarrow> length rest \<le> length cs))
   \<and> (\<exists>r. parse_value (Suc (length cs)) cs = Some r
     \<and> (\<forall>v rest. r = Inr (v, rest) \<longrightarrow> length rest < length cs))
   \<and> parse_block body = Some (parsed body)"
proof -
  obtain r where "parse_block body = Some r" using parse_block_returns by blast
  then have "parse_block body = Some (parsed body)" by (simp add: parsed_def)
  then show ?thesis
    using parse_fuel_enough [of cs "Suc (length cs)" nested] parse_fuel_enough [of "[]" "Suc (length cs)" nested cs]
    by blast
qed

theorem parser_terminates_witness:
  "\<exists>r. parse_entries 4 False [''a'', ''='', ''b''] = Some r
     \<and> (\<forall>es rest. r = Inr (es, rest) \<longrightarrow> length rest \<le> 3)"
  using parser_terminates [of "[''a'', ''='', ''b'']" False "[]"] by (simp add: numeral_eq_Suc)

subsection \<open>Contracts that parse are valid\<close>

lemma rbind_InrE: "rbind r f = Inr y \<Longrightarrow> (\<And>x. r = Inr x \<Longrightarrow> f x = Inr y \<Longrightarrow> P) \<Longrightarrow> P"
  by (auto simp: rbind_Inr)

text \<open>
  C38. A source that parses gives a contract that passes every check of the contract itself, and
  declares at least one provider; the shorthand without a block gives the default contract with
  the local provider.
\<close>

theorem parsed_contract_is_valid:
  assumes "parse_auth_block src = Inr c"
  shows "config_validate c = Inr () \<and> cf_providers c \<noteq> []
    \<and> (trim src = use_auth \<longrightarrow> c = config_default\<lparr>cf_providers := [''local'']\<rparr>)"
proof (cases "trim src = use_auth")
  case True
  have "config_validate (config_default\<lparr>cf_providers := [''local'']\<rparr>) = Inr ()" by code_simp
  then show ?thesis using assms True by (auto simp: parse_auth_block_def)
next
  case False
  define mailed where "mailed d = (if mentions_mail src
      then rbind (parse_mail_contract src) (\<lambda>ml. Inr ((with_local d)\<lparr>cf_mail := Some ml\<rparr>))
      else Inr (with_local d))" for d
  have "rbind (extract_auth_block src) (\<lambda>body. rbind (parsed body) (\<lambda>es.
      rbind (each_field ''auth'' auth_field [] es (None, config_default)) (\<lambda>(_, c).
      rbind (mailed c) (\<lambda>c. rbind (config_validate c) (\<lambda>_. Inr c))))) = Inr c"
    using assms False unfolding parse_auth_block_def mailed_def [symmetric] by (simp split: if_splits)
  then have "\<exists>d. mailed d = Inr c \<and> config_validate c = Inr ()"
    unfolding case_prod_unfold by (elim rbind_InrE) auto
  then obtain d where r: "mailed d = Inr c" and v: "config_validate c = Inr ()" by blast
  have "cf_providers c \<noteq> []"
    using r by (auto simp: mailed_def rbind_Inr with_local_def split: if_splits)
  then show ?thesis using v False by blast
qed

theorem parsed_contract_is_valid_witness:
  "config_validate (config_default\<lparr>cf_providers := [''local'']\<rparr>) = Inr ()"
proof -
  have "parse_auth_block ''use auth'' = Inr (config_default\<lparr>cf_providers := [''local'']\<rparr>)"
    by (simp add: parse_auth_block_def use_auth_def trim_plain plain_def)
  from parsed_contract_is_valid [OF this] show ?thesis by blast
qed

subsection \<open>Printing and parsing back\<close>

text \<open>The entries of a block written out, with every value quoted.\<close>

definition in_quotes :: "string \<Rightarrow> string" where "in_quotes s = quote_mark @ s @ quote_mark"

primrec print_items :: "string list \<Rightarrow> string" where
  "print_items [] = []"
| "print_items (v # vs) = in_quotes v @ '','' @ print_items vs"

fun print_value :: "DslValue \<Rightarrow> string" and print_entries :: "(string \<times> DslValue) list \<Rightarrow> string" where
  "print_value (VScalar s) = in_quotes s"
| "print_value (VList vs) = ''['' @ print_items vs @ '']''"
| "print_value (VEnum vs) = ''enum['' @ print_items vs @ '']''"
| "print_value (VBlock es) = ''{'' @ print_entries es @ ''}''"
| "print_entries [] = []"
| "print_entries ((k, v) # es) = k @ ''='' @ print_value v @ newline @ print_entries es"

definition quotable :: "string \<Rightarrow> bool" where
  "quotable s \<longleftrightarrow> ascii s \<and> CHR 0x22 \<notin> set s"

definition key_ok :: "string \<Rightarrow> bool" where
  "key_ok k \<longleftrightarrow> k \<noteq> [] \<and> list_all (\<lambda>c. ident_char [c]) k"

fun printable :: "DslValue \<Rightarrow> bool" and printable_entries :: "(string \<times> DslValue) list \<Rightarrow> bool" where
  "printable (VScalar s) = quotable s"
| "printable (VList vs) = list_all quotable vs"
| "printable (VEnum vs) = list_all quotable vs"
| "printable (VBlock es) = printable_entries es"
| "printable_entries [] = True"
| "printable_entries ((k, v) # es) = (key_ok k \<and> printable v \<and> printable_entries es)"

lemma trivia_punctuation [simp]:
  "skip_trivia (quote_mark # cs) = quote_mark # cs" "skip_trivia (''['' # cs) = ''['' # cs"
  "skip_trivia ('']'' # cs) = '']'' # cs" "skip_trivia (''{'' # cs) = ''{'' # cs"
  "skip_trivia (''}'' # cs) = ''}'' # cs" "skip_trivia (''='' # cs) = ''='' # cs"
  "skip_trivia ('','' # cs) = skip_trivia cs" "skip_trivia (newline # cs) = skip_trivia cs"
  by (simp_all add: blank_def white_space_def comment_start_def quote_mark_def newline_def)

declare skip_trivia.simps(2) [simp del]

lemma ident_not_punctuation:
  "\<not> ident_char quote_mark" "\<not> ident_char ''[''" "\<not> ident_char '']''" "\<not> ident_char ''{''" "\<not> ident_char ''}''"
  "\<not> ident_char ''=''"
  by code_simp+

lemma ident_char_trivia: "ident_char c \<Longrightarrow> skip_trivia (c # cs) = c # cs"
proof -
  assume i: "ident_char c"
  have "\<not> blank c"
  proof
    assume "blank c"
    then have "c \<in> set ('','' # white_space)" by (auto simp: blank_def)
    moreover have "list_all (\<lambda>c. \<not> ident_char c) ('','' # white_space)" by code_simp
    ultimately show False using i by (auto simp: list_all_iff)
  qed
  moreover have "\<not> ident_char ''#''" "\<not> ident_char ''/''" by code_simp+
  ultimately show ?thesis using i by (auto simp: comment_start_def skip_trivia.simps(2))
qed

lemma parse_ident_chs:
  assumes "key_ok k" "\<not> ident_char d"
  shows "parse_ident (chs k @ d # cs) = Inr (k, d # cs)"
proof -
  have "\<forall>c \<in> set (chs k). ident_char c" using assms(1) by (auto simp: key_ok_def chs_def list_all_iff)
  then have "takeWhile ident_char (chs k @ d # cs) = chs k" "dropWhile ident_char (chs k @ d # cs) = d # cs"
    using assms(2) by (simp_all add: takeWhile_append2 dropWhile_append2)
  moreover have "chs k \<noteq> []" using assms(1) by (cases k) (auto simp: key_ok_def)
  ultimately show ?thesis by (simp add: parse_ident_def Let_def)
qed

lemma parse_quoted_chs:
  assumes "quotable s"
  shows "parse_quoted (chs s @ quote_mark # cs) = Inr (s, cs)"
proof -
  have "\<forall>c \<in> set (chs s). c \<noteq> quote_mark" using assms by (auto simp: quotable_def chs_def quote_mark_def)
  then have "takeWhile (\<lambda>c. c \<noteq> quote_mark) (chs s @ quote_mark # cs) = chs s"
    "dropWhile (\<lambda>c. c \<noteq> quote_mark) (chs s @ quote_mark # cs) = quote_mark # cs"
    by (simp_all add: takeWhile_append2 dropWhile_append2)
  then show ?thesis by (simp add: parse_quoted_def)
qed

lemma chs_in_quotes: "chs (in_quotes s) = quote_mark # chs s @ [quote_mark]"
  by (simp add: in_quotes_def quote_mark_def)

lemma chs_newline: "chs newline = [newline]"
  by (simp add: newline_def)

lemma quote_neq [simp]: "quote_mark \<noteq> ''[''" "quote_mark \<noteq> '']''" "quote_mark \<noteq> ''{''" "quote_mark \<noteq> ''}''"
  by (simp_all add: quote_mark_def)

lemma parse_items_print:
  "list_all quotable vs \<Longrightarrow> parse_items (chs (print_items vs) @ '']'' # cs) = Inr (vs, cs)"
proof (induction vs)
  case Nil
  then show ?case by (simp add: parse_items.simps)
next
  case (Cons v vs)
  have q: "quotable v" using Cons.prems by simp
  have IH: "parse_items (chs (print_items vs) @ '']'' # cs) = Inr (vs, cs)" using Cons by simp
  have comma: "parse_items ('','' # ds) = parse_items ds" for ds
    by (simp add: parse_items.simps [of "'','' # ds"] parse_items.simps [of ds])
  have "parse_items (quote_mark # (chs v @ quote_mark # '','' # chs (print_items vs) @ '']'' # cs)) = Inr (v # vs, cs)"
    by (subst parse_items.simps) (simp add: parse_quoted_chs [OF q] comma IH)
  then show ?case by (simp add: chs_in_quotes)
qed

lemma print_parse_step:
  shows print_parse_value: "printable v \<Longrightarrow> length (print_value v) < n
      \<Longrightarrow> parse_value n (chs (print_value v) @ cs) = Some (Inr (v, cs))"
    and print_parse_entries: "printable_entries es \<Longrightarrow> length (print_entries es) < n
      \<Longrightarrow> parse_entries n True (chs (print_entries es) @ ''}'' # cs) = Some (Inr (es, cs))
        \<and> parse_entries n False (chs (print_entries es)) = Some (Inr (es, []))"
proof (induction v and es arbitrary: n cs and n cs rule: print_value_print_entries.induct)
  case (1 s)
  then obtain m where n: "n = Suc m" by (cases n) auto
  show ?case using 1 parse_quoted_chs [of s cs]
    by (simp add: n parse_value.simps(2) chs_in_quotes)
next
  case (2 vs)
  then obtain m where n: "n = Suc m" by (cases n) auto
  show ?case using 2 parse_items_print [of vs cs]
    by (simp add: n parse_value.simps(2))
next
  case (3 vs)
  then obtain m where n: "n = Suc m" by (cases n) auto
  have i: "parse_ident (chs ''enum'' @ ''['' # ds) = Inr (''enum'', ''['' # ds)" for ds
    by (rule parse_ident_chs) (code_simp, rule ident_not_punctuation)
  have "ident_char ''e''" by code_simp
  then show ?case using 3 parse_items_print [of vs cs] i [of "chs (print_items vs) @ '']'' # cs"]
    by (simp add: n parse_value.simps(2) ident_char_trivia quote_mark_def)
next
  case (4 es)
  then obtain m where n: "n = Suc m" by (cases n) auto
  show ?case using "4.prems" "4.IH" [of m cs]
    by (simp add: n parse_value.simps(2))
next
  case 5
  then obtain m where n: "n = Suc m" by (cases n) auto
  show ?case by (simp add: n parse_entries.simps(2))
next
  case (6 k v es)
  then obtain m where n: "n = Suc m" by (cases n) auto
  have k: "key_ok k" "printable v" "printable_entries es" using "6.prems"(1) by simp_all
  have len: "length (print_value v) < m" "length (print_entries es) < m"
    using "6.prems"(2) k(1) by (auto simp: n key_ok_def)
  have skip: "parse_entries m b (newline # ds) = parse_entries m b ds" for b ds
    by (cases m) (simp_all add: parse_entries.simps)
  obtain c k' where k': "k = c # k'" "ident_char [c]" using k(1) by (cases k) (auto simp: key_ok_def)
  have head: "[c] \<noteq> ''}''" using k'(2) ident_not_punctuation by auto
  have step: "parse_entries n b (chs (print_entries ((k, v) # es)) @ ds)
     = (case parse_entries m b (chs (print_entries es) @ ds) of
          None \<Rightarrow> None | Some (Inl e) \<Rightarrow> Some (Inl e) | Some (Inr (es, r)) \<Rightarrow> Some (Inr ((k, v) # es, r)))" for b ds
    using parse_ident_chs [OF k(1) ident_not_punctuation(6)] "6.IH"(1) [OF k(2) len(1)] head k'(1)
    by (simp add: n parse_entries.simps(2) ident_char_trivia [OF k'(2)] skip chs_newline)
       (simp only: k'(1))
  show ?case using step [of True "''}'' # cs"] step [of False "[]"] "6.IH"(2) [OF k(3) len(2)] by simp
qed

lemma key_ascii: "key_ok k \<Longrightarrow> ascii k"
  by (auto simp: key_ok_def ascii_def list_all_iff ident_char_def is_alphanumeric_def
      is_upper_def is_lower_def is_digit_def)

lemma items_ascii: "list_all quotable vs \<Longrightarrow> ascii (print_items vs)"
  by (induction vs) (auto simp: quotable_def in_quotes_def quote_mark_def)

lemma printable_ascii:
  "printable v \<Longrightarrow> ascii (print_value v)" "printable_entries es \<Longrightarrow> ascii (print_entries es)"
  by (induction v and es rule: print_value_print_entries.induct)
    (auto simp: quotable_def in_quotes_def quote_mark_def newline_def items_ascii key_ascii)

text \<open>
  C29. What is printed parses back: for every block of entries with keys of identifier
  characters, nested to any depth, whose strings are ASCII without quotes, parsing the printed
  text returns the same entries in the same order.
\<close>

theorem entries_roundtrip:
  assumes "printable_entries es"
  shows "parse_block (print_entries es) = Some (Inr es) \<and> parsed (print_entries es) = Inr es"
proof -
  have "ascii (print_entries es)" using printable_ascii(2) [OF assms] .
  then have "utf8_chars (print_entries es) = chs (print_entries es)" by (simp add: utf8_chars_ascii chs_def)
  then have "parse_block (print_entries es) = Some (Inr es)"
    using print_parse_entries [OF assms lessI, of "[]"] by (simp add: parse_block_def Let_def)
  then show ?thesis by (simp add: parsed_def)
qed

definition sample_entries :: "(string \<times> DslValue) list" where
  "sample_entries = [(''providers'', VList [''local'', ''github'']), (''tenant'', VScalar ''true''),
     (''claims'', VBlock [(''role'', VEnum [''owner'', ''member''])])]"

theorem entries_roundtrip_witness:
  "parsed (print_entries sample_entries) = Inr sample_entries"
proof -
  have "printable_entries sample_entries" by code_simp
  then show ?thesis using entries_roundtrip by blast
qed

definition cut_source :: string where "cut_source = ''use auth { # }'' @ newline @ ''tenant = true }''"

lemma cut_source_facts:
  "extract_auth_block cut_source = Inr '' # ''" "parsed '' # '' = Inr []"
  "\<not> count_matches use_auth cut_source > 1"
  "config_validate (config_default\<lparr>cf_providers := [''local'']\<rparr>) = Inr ()"
  by code_simp+

lemma default_providers: "cf_providers config_default = []"
  by (simp add: config_default_def)

lemma words_chars: "w \<in> set (words cs) \<Longrightarrow> set w \<subseteq> set (concat cs)"
proof (induction cs rule: words.induct)
  case (2 c cs)
  show ?case
  proof (cases "c \<in> set white_space")
    case False
    define t d where "t = takeWhile (\<lambda>c. c \<notin> set white_space) cs"
      and "d = dropWhile (\<lambda>c. c \<notin> set white_space) cs"
    have "t @ d = cs" by (simp add: t_def d_def)
    then have u: "set (concat (c # cs)) = set (concat (c # t)) \<union> set (concat d)" by auto
    have "w = concat (c # t) \<or> w \<in> set (words d)" using 2 False by (simp add: t_def d_def)
    moreover have "w \<in> set (words d) \<Longrightarrow> set w \<subseteq> set (concat d)"
      using "2.IH"(2) [OF False] False by (simp add: d_def)
    ultimately show ?thesis using u by blast
  qed (use 2 in auto)
qed simp

lemma mentions_mail_chars: "mentions_mail src \<Longrightarrow> CHR ''m'' \<in> set src"
proof -
  assume "mentions_mail src"
  then have "''mail'' \<in> set (tl (split_whitespace src))"
    by (auto simp: mentions_mail_def Let_def list_ex_iff dest: set_zip_rightD)
  then have "''mail'' \<in> set (words (utf8_chars src))"
    by (cases "words (utf8_chars src)") (simp_all add: split_whitespace_def)
  from words_chars [OF this] show ?thesis by simp
qed

lemma cut_source_words: "\<not> mentions_mail cut_source" "cut_source \<noteq> use_auth"
  using mentions_mail_chars [of cut_source] by (auto simp: cut_source_def newline_def use_auth_def)

text \<open>
  The scan for the end of the block counts braces inside quoted strings and comments, which
  the parser of the block skips. A closing brace in the name of a theme cuts the block there;
  one in a comment ends the block, and every declaration after it is silently dropped: the
  source below declares tenants and parses to the contract without them.
\<close>

theorem quoted_brace_cuts_block:
  "extract_auth_block (''use auth { ui { theme = '' @ in_quotes ''a}b'' @ '' } }'')
     = Inr ('' ui { theme = '' @ quote_mark @ ''a}b'' @ quote_mark @ '' '')
   \<and> parse_auth_block cut_source = Inr (config_default\<lparr>cf_providers := [''local'']\<rparr>)
   \<and> \<not> cf_multi_tenant config_default"
proof (intro conjI)
  have "trim cut_source = cut_source" by (simp add: cut_source_def newline_def trim_plain plain_def)
  then show "parse_auth_block cut_source = Inr (config_default\<lparr>cf_providers := [''local'']\<rparr>)"
    using cut_source_facts cut_source_words
    by (simp add: parse_auth_block_def with_local_def default_providers del: config_validate_Inr)
qed code_simp+

end
