(* ===== verification/Evaluator.thy ===== *)
theory Evaluator
  imports Policy
begin

text \<open>
  The policy engine (\<^verbatim>\<open>crates/authz/src/evaluator.rs\<close>): conditions and their
  evidence, the capability envelope of a principal, and the two decision procedures
  \<^verbatim>\<open>evaluate_capability\<close> and \<^verbatim>\<open>evaluate_authorization_request\<close>.

  The condition \<^verbatim>\<open>TimeBound\<close> reads the system clock and not the caller's
  \<^verbatim>\<open>now\<close>; the clock is the parameter \<open>clk\<close>, \<open>None\<close> when the system time lies
  before the epoch.
\<close>

subsection \<open>Conditions\<close>

definition condition_evidence :: "string \<Rightarrow> bool \<Rightarrow> string option \<Rightarrow> ConditionEvidence" where
  "condition_evidence cond passed about =
     \<lparr>ev_condition = cond, ev_result = (if passed then Pass else Fail), ev_fact = about\<rparr>"

definition claim_fact :: "string \<Rightarrow> bool \<Rightarrow> string" where
  "claim_fact k present =
     (if present then ''claim.'' @ k @ '' present'' else ''claim.'' @ k @ '' missing'')"

definition resource_fact :: "string \<Rightarrow> bool \<Rightarrow> string" where
  "resource_fact k present =
     (if present then ''resource.'' @ k @ '' present'' else ''resource.'' @ k @ '' missing'')"

definition principal_attribute_name :: "PrincipalAttribute \<Rightarrow> string" where
  "principal_attribute_name a = (case a of
     AttrId \<Rightarrow> ''id'' | AttrTenant \<Rightarrow> ''tenant'' | AttrClaim k \<Rightarrow> ''claim.'' @ k)"

definition claim_value_text :: "ClaimValue \<Rightarrow> string" where
  "claim_value_text v = (case v of
     CEnum s \<Rightarrow> s | CString s \<Rightarrow> s | CInteger i \<Rightarrow> show_int i | CBoolean b \<Rightarrow> show_bool b)"

fun claim_basis :: "Condition \<Rightarrow> string list" where
  "claim_basis Always = [''always'']"
| "claim_basis (CondAll cs) = concat (map claim_basis cs)"
| "claim_basis (ClaimEquals k v) = [k]"
| "claim_basis (ClaimIn k vs) = [k]"
| "claim_basis (TimeBound a b) = [''time'']"
| "claim_basis TenantCurrent = [''tenant=current'']"
| "claim_basis (ResourceAttributeEquals k v) = [''resource.'' @ k]"
| "claim_basis (ResourceAttributeIn k vs) = [''resource.'' @ k]"
| "claim_basis (RelationshipEquals ra pa) = [''resource.'' @ ra]"

definition principal_attribute_value ::
  "Principal \<Rightarrow> PrincipalAttribute \<Rightarrow> ClaimValue option" where
  "principal_attribute_value p a = (case a of
     AttrId \<Rightarrow> Some (CString (p_id p))
   | AttrTenant \<Rightarrow> Some (CString (p_tenant_id p))
   | AttrClaim k \<Rightarrow> map_of (p_claims p) k)"

text \<open>\<^verbatim>\<open>resource.and_then(|r| r.values.get(key))\<close> and its tenant counterpart.\<close>

definition resource_value :: "ResourceAttributes option \<Rightarrow> string \<Rightarrow> ClaimValue option" where
  "resource_value res k = Option.bind res (\<lambda>r. map_of (ra_values r) k)"

definition resource_tenant :: "ResourceAttributes option \<Rightarrow> TenantId option" where
  "resource_tenant res = Option.bind res ra_tenant_id"

fun evaluate_condition ::
  "int option \<Rightarrow> Principal \<Rightarrow> ResourceAttributes option \<Rightarrow> Condition
   \<Rightarrow> bool \<times> ConditionEvidence list" where
  "evaluate_condition clk p res Always = (True, [condition_evidence ''always'' True None])"
| "evaluate_condition clk p res (CondAll cs) =
     (let rs = map (evaluate_condition clk p res) cs
      in (list_all fst rs, concat (map snd rs)))"
| "evaluate_condition clk p res (ClaimEquals k v) =
     (let m = (map_of (p_claims p) k = Some v)
      in (m, [condition_evidence (''claim.'' @ k @ '' == '' @ claim_value_text v) m
                (Some (claim_fact k (bcontains (p_claims p) k)))]))"
| "evaluate_condition clk p res (ClaimIn k vs) =
     (let present = map_of (p_claims p) k;
          m = (case present of Some v \<Rightarrow> v \<in> set vs | None \<Rightarrow> False)
      in (m, [condition_evidence
                (''claim.'' @ k @ '' in ['' @ join '', '' (map claim_value_text vs) @ '']'') m
                (Some (claim_fact k (present \<noteq> None)))]))"
| "evaluate_condition clk p res (TimeBound start fin) =
     (let text = ''time between '' @ show_int start @ '' and '' @ show_int fin
      in case clk of
           None \<Rightarrow> (False, [condition_evidence text False (Some ''time unavailable'')])
         | Some now \<Rightarrow>
             (let m = (now \<ge> start \<and> now \<le> fin)
              in (m, [condition_evidence text m (Some ''system time evaluated'')])))"
| "evaluate_condition clk p res TenantCurrent =
     (let rt = resource_tenant res;
          m = (case rt of Some t \<Rightarrow> t = p_tenant_id p | None \<Rightarrow> False)
      in (m, [condition_evidence ''tenant=current'' m
                (Some (case rt of
                   Some _ \<Rightarrow> (if m then ''resource tenant matched current tenant''
                              else ''resource tenant did not match current tenant'')
                 | None \<Rightarrow> ''resource tenant unavailable''))]))"
| "evaluate_condition clk p res (ResourceAttributeEquals k v) =
     (let actual = resource_value res k;
          m = (case actual of Some a \<Rightarrow> a = v | None \<Rightarrow> False)
      in (m, [condition_evidence (''resource.'' @ k @ '' == '' @ claim_value_text v) m
                (Some (resource_fact k (actual \<noteq> None)))]))"
| "evaluate_condition clk p res (ResourceAttributeIn k vs) =
     (let actual = resource_value res k;
          m = (case actual of Some a \<Rightarrow> a \<in> set vs | None \<Rightarrow> False)
      in (m, [condition_evidence
                (''resource.'' @ k @ '' in ['' @ join '', '' (map claim_value_text vs) @ '']'') m
                (Some (resource_fact k (actual \<noteq> None)))]))"
| "evaluate_condition clk p res (RelationshipEquals ra pa) =
     (let text = ''resource.'' @ ra @ '' == principal.'' @ principal_attribute_name pa
      in case resource_value res ra of
           None \<Rightarrow> (False, [condition_evidence text False (Some (resource_fact ra False))])
         | Some left \<Rightarrow>
             (let m = (case principal_attribute_value p pa of
                         Some right \<Rightarrow> left = right | None \<Rightarrow> False)
              in (m, [condition_evidence text m
                        (Some (if m then ''relationship matched''
                               else ''relationship did not match''))])))"

definition condition_matches :: "int option \<Rightarrow> Condition \<Rightarrow> Principal \<Rightarrow> bool" where
  "condition_matches clk c p = fst (evaluate_condition clk p None c)"

subsection \<open>Grants and refusals\<close>

definition claim_grant ::
  "Policy \<Rightarrow> Principal \<Rightarrow> TenantContext \<Rightarrow> Capability \<Rightarrow> Condition \<Rightarrow> GrantedCapability" where
  "claim_grant pol p t cap cond =
     \<lparr>g_capability = cap, g_policy_id = pol_id pol, g_tenant_id = t_id t,
      g_principal_id = p_id p, g_principal_kind = p_kind p, g_authority = BasisClaim,
      g_claim_basis = claim_basis cond, g_delegation_id = None, g_delegation_chain = [],
      g_delegated_by = None\<rparr>"

definition delegation_chain :: "Delegation \<Rightarrow> DelegationId list" where
  "delegation_chain d = d_chain d @ [d_id d]"

definition delegated_grant ::
  "Policy \<Rightarrow> Principal \<Rightarrow> TenantContext \<Rightarrow> Delegation \<Rightarrow> Capability \<Rightarrow> GrantedCapability" where
  "delegated_grant pol p t d cap =
     \<lparr>g_capability = cap, g_policy_id = pol_id pol, g_tenant_id = t_id t,
      g_principal_id = p_id p, g_principal_kind = p_kind p, g_authority = BasisDelegated,
      g_claim_basis = [''delegation:'' @ d_delegator d], g_delegation_id = Some (d_id d),
      g_delegation_chain = delegation_chain d, g_delegated_by = Some (d_delegator d)\<rparr>"

definition deny :: "DenialReason \<Rightarrow> AuthorizationDecision" where
  "deny reason = Deny reason None None None None [] [] None"

definition deny_for_with_conditions ::
  "AuthorizationRequest \<Rightarrow> DenialReason \<Rightarrow> Policy option \<Rightarrow> ConditionEvidence list
   \<Rightarrow> AuthorizationDecision" where
  "deny_for_with_conditions rq reason pol conds =
     Deny reason (Some (rq_capability rq)) (rq_resource rq) (Some (rq_action rq))
       (map_option pol_id pol) [] conds None"

definition deny_for ::
  "AuthorizationRequest \<Rightarrow> DenialReason \<Rightarrow> Policy option \<Rightarrow> AuthorizationDecision" where
  "deny_for rq reason pol = deny_for_with_conditions rq reason pol []"

definition allow ::
  "GrantedCapability \<Rightarrow> ResourceRef option \<Rightarrow> Action option \<Rightarrow> string list
   \<Rightarrow> ConditionEvidence list \<Rightarrow> AuthorizationDecision" where
  "allow g res act matched conds = Allow g res act matched conds None"

definition agent_state_denial :: "Principal \<Rightarrow> DenialReason option" where
  "agent_state_denial p =
     (if p_kind p = Agent then
        (case p_agent_state p of
           Some StateActive \<Rightarrow> None
         | Some StateRevoked \<Rightarrow> Some AgentRevoked
         | Some StateRetired \<Rightarrow> Some AgentRevoked
         | Some StateSuspended \<Rightarrow> Some AgentSuspended
         | Some StateCreated \<Rightarrow> Some UnknownPrincipal
         | None \<Rightarrow> Some UnknownPrincipal)
      else None)"

subsection \<open>The capability envelope\<close>

definition grant_claims ::
  "int option \<Rightarrow> Policy \<Rightarrow> Principal \<Rightarrow> TenantContext \<Rightarrow> GrantedCapability list" where
  "grant_claims clk pol p t =
     map (\<lambda>r. claim_grant pol p t (rule_capability r) (rule_condition r))
       (filter (\<lambda>r. condition_matches clk (rule_condition r) p) (pol_rules pol))"

definition grant_delegated ::
  "Policy \<Rightarrow> Principal \<Rightarrow> TenantContext \<Rightarrow> Delegation
   \<Rightarrow> GrantedCapability list \<Rightarrow> GrantedCapability list" where
  "grant_delegated pol p t d gs =
     fold (\<lambda>cap gs. if list_ex (\<lambda>g. g_capability g = cap) gs then gs
                    else gs @ [delegated_grant pol p t d cap])
       (d_capabilities d) gs"

definition grant_delegations ::
  "Policy \<Rightarrow> Principal \<Rightarrow> TenantContext \<Rightarrow> int \<Rightarrow> Delegation list
   \<Rightarrow> GrantedCapability list \<Rightarrow> GrantedCapability list" where
  "grant_delegations pol p t now ds gs =
     fold (\<lambda>d gs.
         if d_tenant_id d \<noteq> t_id t \<or> d_delegate d \<noteq> p_id p \<or> \<not> is_valid_at d now then gs
         else grant_delegated pol p t d gs)
       ds gs"

definition evaluate_with_delegations ::
  "int option \<Rightarrow> Policy \<Rightarrow> Principal \<Rightarrow> TenantContext \<Rightarrow> Delegation list \<Rightarrow> int
   \<Rightarrow> string + CapabilityEnvelope" where
  "evaluate_with_delegations clk pol p t ds now =
     (if p_tenant_id p \<noteq> t_id t
      then Inl ''principal tenant does not match tenant context''
      else if pol_id pol \<noteq> t_policy_id t
      then Inl ''policy does not match tenant context''
      else if p_kind p = Agent \<and> p_agent_state p \<noteq> Some StateActive
      then Inr envelope_empty
      else Inr \<lparr>granted_capabilities =
        grant_delegations pol p t now ds (grant_claims clk pol p t)\<rparr>)"

definition evaluate ::
  "int option \<Rightarrow> Policy \<Rightarrow> Principal \<Rightarrow> TenantContext \<Rightarrow> string + CapabilityEnvelope" where
  "evaluate clk pol p t = evaluate_with_delegations clk pol p t [] (- (2 ^ 63))"

subsection \<open>Deciding a capability\<close>

fun capability_rules ::
  "int option \<Rightarrow> Policy \<Rightarrow> Principal \<Rightarrow> TenantContext \<Rightarrow> Capability \<Rightarrow> Rule list
   \<Rightarrow> AuthorizationDecision option" where
  "capability_rules clk pol p t cap [] = None"
| "capability_rules clk pol p t cap (r # rs) =
     (if rule_capability r = cap then
        (case evaluate_condition clk p None (rule_condition r) of
           (m, conds) \<Rightarrow>
             if \<not> m then capability_rules clk pol p t cap rs
             else Some (allow (claim_grant pol p t cap (rule_condition r)) None None
                          (claim_basis (rule_condition r)) conds))
      else capability_rules clk pol p t cap rs)"

definition evaluate_capability ::
  "int option \<Rightarrow> Policy option \<Rightarrow> Principal option \<Rightarrow> TenantContext option \<Rightarrow> Delegation option
   \<Rightarrow> Capability \<Rightarrow> int \<Rightarrow> AuthorizationDecision" where
  "evaluate_capability clk mpol mp mt md cap now =
     (case mpol of None \<Rightarrow> deny PolicyNotFound | Some pol \<Rightarrow>
      (case mp of None \<Rightarrow> deny UnknownPrincipal | Some p \<Rightarrow>
       (case mt of None \<Rightarrow> deny UnknownTenant | Some t \<Rightarrow>
        if p_tenant_id p \<noteq> t_id t \<or> pol_id pol \<noteq> t_policy_id t then deny TenantMismatch
        else (case agent_state_denial p of Some reason \<Rightarrow> deny reason | None \<Rightarrow>
         (case capability_rules clk pol p t cap (pol_rules pol) of Some d \<Rightarrow> d | None \<Rightarrow>
          if p_kind p = Agent then
            (case md of None \<Rightarrow> deny DelegationMissing | Some d \<Rightarrow>
             if d_tenant_id d \<noteq> t_id t \<or> d_delegate d \<noteq> p_id p then deny InvalidDelegation
             else if d_revoked_at d \<noteq> None then deny RevokedDelegation
             else if \<not> is_valid_at d now then deny ExpiredDelegation
             else if cap \<notin> set (d_capabilities d) then deny DelegationMissing
             else allow (delegated_grant pol p t d cap) None None [''delegation''] [])
          else deny CapabilityNotGranted)))))"

subsection \<open>Deciding a request\<close>

definition matches_tenant :: "ClaimValue \<Rightarrow> TenantId \<Rightarrow> bool" where
  "matches_tenant v t = (case v of
     CEnum s \<Rightarrow> s = t | CString s \<Rightarrow> s = t | CInteger _ \<Rightarrow> False | CBoolean _ \<Rightarrow> False)"

definition delegation_scope_matches ::
  "ResourceScope \<Rightarrow> AuthorizationRequest \<Rightarrow> ResourceAttributes option \<Rightarrow> bool" where
  "delegation_scope_matches sc rq attrs =
     (if is_unconstrained sc then True
      else case rq_resource rq of
        None \<Rightarrow> False
      | Some res \<Rightarrow>
          (case rs_resource_type sc of
             Some ty \<Rightarrow> ty = rr_resource_type res | None \<Rightarrow> True)
          \<and> (case rs_resource_id sc of
               Some i \<Rightarrow> i = ''*'' \<or> i = rr_resource_id res | None \<Rightarrow> True)
          \<and> list_all (\<lambda>(k, expected).
               if k = ''tenant'' \<or> k = ''tenant_id''
               then matches_tenant expected (rr_tenant_id res)
               else resource_value attrs k = Some expected) (rs_attributes sc))"

definition rule_applies :: "Rule \<Rightarrow> AuthorizationRequest \<Rightarrow> bool" where
  "rule_applies r rq \<longleftrightarrow>
     rule_capability r = rq_capability rq
     \<and> (case rule_action r of Some a \<Rightarrow> a = rq_action rq | None \<Rightarrow> True)
     \<and> (case rule_resource r of
          None \<Rightarrow> True
        | Some sel \<Rightarrow>
            (case rq_resource rq of None \<Rightarrow> False | Some res \<Rightarrow> selector_matches sel res))"

text \<open>
  The loop over the rules. \<open>Inr\<close> carries a decision, \<open>Inl\<close> the evidence of the last
  rule that applied and whose condition failed.
\<close>

fun request_rules ::
  "int option \<Rightarrow> Policy \<Rightarrow> Principal \<Rightarrow> TenantContext \<Rightarrow> AuthorizationRequest
   \<Rightarrow> ResourceAttributes option \<Rightarrow> nat \<Rightarrow> ConditionEvidence list option \<Rightarrow> Rule list
   \<Rightarrow> ConditionEvidence list option + AuthorizationDecision" where
  "request_rules clk pol p t rq attrs i failed [] = Inl failed"
| "request_rules clk pol p t rq attrs i failed (r # rs) =
     (if \<not> rule_applies r rq then request_rules clk pol p t rq attrs (i + 1) failed rs
      else case evaluate_condition clk p attrs (rule_condition r) of
        (m, conds) \<Rightarrow>
          if \<not> m then request_rules clk pol p t rq attrs (i + 1) (Some conds) rs
          else if rule_effect r = EffectDeny
          then Inr (Deny PolicyDenied (Some (rq_capability rq)) (rq_resource rq)
                      (Some (rq_action rq)) (Some (pol_id pol))
                      [''rule:'' @ show_nat i] conds None)
          else Inr (allow (claim_grant pol p t (rq_capability rq) (rule_condition r))
                      (rq_resource rq) (Some (rq_action rq)) [''rule:'' @ show_nat i] conds))"

definition resource_tenant_ok ::
  "AuthorizationRequest \<Rightarrow> ResourceAttributes option \<Rightarrow> TenantContext \<Rightarrow> bool" where
  "resource_tenant_ok rq attrs t = (case rq_resource rq of
     None \<Rightarrow> True
   | Some res \<Rightarrow>
       (case resource_tenant attrs of Some rt \<Rightarrow> rt | None \<Rightarrow> rr_tenant_id res) = t_id t)"

definition evaluate_authorization_request ::
  "int option \<Rightarrow> Policy option \<Rightarrow> Principal option \<Rightarrow> TenantContext option \<Rightarrow> Delegation option
   \<Rightarrow> AuthorizationRequest \<Rightarrow> ResourceAttributes option \<Rightarrow> int \<Rightarrow> AuthorizationDecision" where
  "evaluate_authorization_request clk mpol mp mt md rq attrs now =
     (case mpol of None \<Rightarrow> deny_for rq PolicyNotFound None | Some pol \<Rightarrow>
      (case mp of None \<Rightarrow> deny_for rq UnknownPrincipal (Some pol) | Some p \<Rightarrow>
       (case mt of None \<Rightarrow> deny_for rq UnknownTenant (Some pol) | Some t \<Rightarrow>
        if p_id p \<noteq> rq_principal rq \<or> p_tenant_id p \<noteq> t_id t \<or> t_id t \<noteq> rq_tenant rq
           \<or> pol_id pol \<noteq> t_policy_id t
        then deny_for rq TenantMismatch (Some pol)
        else if \<not> resource_tenant_ok rq attrs t then deny_for rq TenantMismatch (Some pol)
        else (case agent_state_denial p of Some reason \<Rightarrow> deny_for rq reason (Some pol) | None \<Rightarrow>
         (case request_rules clk pol p t rq attrs 0 None (pol_rules pol) of
            Inr d \<Rightarrow> d
          | Inl failed \<Rightarrow>
             if p_kind p = Agent then
               (case md of None \<Rightarrow> deny_for rq DelegationMissing (Some pol) | Some d \<Rightarrow>
                if d_tenant_id d \<noteq> t_id t \<or> d_delegate d \<noteq> p_id p
                then deny_for rq InvalidDelegation (Some pol)
                else if d_revoked_at d \<noteq> None then deny_for rq RevokedDelegation (Some pol)
                else if \<not> is_valid_at d now then deny_for rq ExpiredDelegation (Some pol)
                else if rq_capability rq \<notin> set (d_capabilities d)
                then deny_for rq DelegationMissing (Some pol)
                else if \<not> delegation_scope_matches (d_resource_scope d) rq attrs
                then deny_for rq DelegationScopeDenied (Some pol)
                else allow (delegated_grant pol p t d (rq_capability rq)) (rq_resource rq)
                       (Some (rq_action rq)) [''delegation''] [])
             else (case failed of
                Some conds \<Rightarrow> deny_for_with_conditions rq ConditionFailed (Some pol) conds
              | None \<Rightarrow> deny_for rq CapabilityNotGranted (Some pol)))))))"

subsection \<open>What a condition means\<close>

text \<open>The truth of a condition, without the evidence that \<open>evaluate_condition\<close> collects.\<close>

fun condition_holds ::
  "int option \<Rightarrow> Principal \<Rightarrow> ResourceAttributes option \<Rightarrow> Condition \<Rightarrow> bool" where
  "condition_holds clk p res Always \<longleftrightarrow> True"
| "condition_holds clk p res (CondAll cs) \<longleftrightarrow> list_all (condition_holds clk p res) cs"
| "condition_holds clk p res (ClaimEquals k v) \<longleftrightarrow> map_of (p_claims p) k = Some v"
| "condition_holds clk p res (ClaimIn k vs) \<longleftrightarrow> map_of (p_claims p) k \<in> Some ` set vs"
| "condition_holds clk p res (TimeBound a b) \<longleftrightarrow>
     (case clk of None \<Rightarrow> False | Some now \<Rightarrow> a \<le> now \<and> now \<le> b)"
| "condition_holds clk p res TenantCurrent \<longleftrightarrow> resource_tenant res = Some (p_tenant_id p)"
| "condition_holds clk p res (ResourceAttributeEquals k v) \<longleftrightarrow> resource_value res k = Some v"
| "condition_holds clk p res (ResourceAttributeIn k vs) \<longleftrightarrow> resource_value res k \<in> Some ` set vs"
| "condition_holds clk p res (RelationshipEquals ra pa) \<longleftrightarrow>
     resource_value res ra \<noteq> None \<and> resource_value res ra = principal_attribute_value p pa"

lemma ev_result_condition_evidence [simp]:
  "ev_result (condition_evidence c m f) = Pass \<longleftrightarrow> m"
  by (simp add: condition_evidence_def)

lemma fst_evaluate_condition [simp]:
  "fst (evaluate_condition clk p res c) = condition_holds clk p res c"
  by (induction clk p res c rule: evaluate_condition.induct)
    (auto simp: Let_def list_all_iff split: option.splits)

lemma evidence_of_condition:
  "list_all (\<lambda>e. ev_result e = Pass) (snd (evaluate_condition clk p res c))
     \<longleftrightarrow> condition_holds clk p res c"
  by (induction clk p res c rule: evaluate_condition.induct)
    (auto simp: Let_def list_all_iff split: option.splits)

lemma evidence_without_resource:
  "condition_holds clk p None c \<Longrightarrow> condition_holds clk p (Some ra) c"
  by (induction clk p "None :: ResourceAttributes option" c rule: evaluate_condition.induct)
    (auto simp: list_all_iff resource_value_def resource_tenant_def)

subsection \<open>The rule loops\<close>

definition rule_fires ::
  "int option \<Rightarrow> Principal \<Rightarrow> AuthorizationRequest \<Rightarrow> ResourceAttributes option \<Rightarrow> Rule \<Rightarrow> bool" where
  "rule_fires clk p rq attrs r \<longleftrightarrow>
     rule_applies r rq \<and> condition_holds clk p attrs (rule_condition r)"

lemma request_rules_Inr:
  "request_rules clk pol p t rq attrs i failed rs = Inr d \<Longrightarrow>
     \<exists>k r. find (rule_fires clk p rq attrs) rs = Some r \<and> k < length rs \<and> rs ! k = r
       \<and> d = (let conds = snd (evaluate_condition clk p attrs (rule_condition r));
                  matched = [''rule:'' @ show_nat (i + k)]
              in if rule_effect r = EffectDeny
                 then Deny PolicyDenied (Some (rq_capability rq)) (rq_resource rq)
                        (Some (rq_action rq)) (Some (pol_id pol)) matched conds None
                 else allow (claim_grant pol p t (rq_capability rq) (rule_condition r))
                        (rq_resource rq) (Some (rq_action rq)) matched conds)"
proof (induction clk pol p t rq attrs i failed rs rule: request_rules.induct)
  case (2 clk pol p t rq attrs i failed r rs)
  let ?e = "evaluate_condition clk p attrs (rule_condition r)"
  have tl: ?case if "\<not> rule_fires clk p rq attrs r"
    "request_rules clk pol p t rq attrs (i + 1) f rs = Inr d"
    "\<exists>k r'. find (rule_fires clk p rq attrs) rs = Some r' \<and> k < length rs \<and> rs ! k = r'
       \<and> d = (let conds = snd (evaluate_condition clk p attrs (rule_condition r'));
                  matched = [''rule:'' @ show_nat (i + 1 + k)]
              in if rule_effect r' = EffectDeny
                 then Deny PolicyDenied (Some (rq_capability rq)) (rq_resource rq)
                        (Some (rq_action rq)) (Some (pol_id pol)) matched conds None
                 else allow (claim_grant pol p t (rq_capability rq) (rule_condition r'))
                        (rq_resource rq) (Some (rq_action rq)) matched conds)" for f
    using that by (force intro: exI [of _ "Suc _"])
  obtain m conds where e: "?e = (m, conds)" by fastforce
  then have m: "m = condition_holds clk p attrs (rule_condition r)"
    by (metis fst_conv fst_evaluate_condition)
  show ?case
  proof (cases "rule_fires clk p rq attrs r")
    case True
    then show ?thesis
      using "2.prems" e m
      by (auto simp: rule_fires_def Let_def split: if_splits intro!: exI [of _ 0])
  next
    case False
    show ?thesis
    proof (cases "rule_applies r rq")
      case True
      with False m have "\<not> m" by (simp add: rule_fires_def)
      then show ?thesis using "2.prems" "2.IH"(2) [OF _ e [symmetric]] True e False tl by simp
    next
      case na: False
      then show ?thesis using "2.prems" "2.IH"(1) False tl by simp
    qed
  qed
qed simp

lemma request_rules_Inl:
  "request_rules clk pol p t rq attrs i failed rs = Inl f \<Longrightarrow>
     find (rule_fires clk p rq attrs) rs = None
     \<and> (f = None \<longleftrightarrow> failed = None \<and> \<not> list_ex (\<lambda>r. rule_applies r rq) rs)"
  by (induction clk pol p t rq attrs i failed rs arbitrary: f rule: request_rules.induct)
    (auto simp: rule_fires_def split: if_splits prod.splits
      dest: arg_cong [where f = fst] simp flip: fst_evaluate_condition)

lemma agent_state_denial_None:
  "agent_state_denial p = None \<longleftrightarrow> (p_kind p = Agent \<longrightarrow> p_agent_state p = Some StateActive)"
  by (auto simp: agent_state_denial_def split: option.splits AgentState.splits)

lemma g_capability_grants [simp]:
  "g_capability (delegated_grant pol p t d cap) = cap"
  "g_capability (claim_grant pol p t cap cond) = cap"
  "g_authority (delegated_grant pol p t d cap) = BasisDelegated"
  "g_authority (claim_grant pol p t cap cond) = BasisClaim"
  by (simp_all add: delegated_grant_def claim_grant_def)

lemma denied_simps [simp]:
  "\<not> is_allowed (deny reason)" "\<not> is_allowed (deny_for rq reason mp)"
  "\<not> is_allowed (deny_for_with_conditions rq reason mp cs)"
  "is_allowed (allow g res a ms cs)" "is_allowed (Allow g res a ms cs au)"
  "\<not> is_allowed (Deny reason mc res a mi ms cs au)"
  by (simp_all add: deny_def deny_for_def deny_for_with_conditions_def allow_def is_allowed_def)

lemma grant_simps [simp]:
  "decision_grant (deny reason) = None" "decision_grant (deny_for rq reason mp) = None"
  "decision_grant (deny_for_with_conditions rq reason mp cs) = None"
  "decision_grant (allow g res a ms cs) = Some g"
  "decision_grant (Deny reason mc res a mi ms cs au) = None"
  by (simp_all add: deny_def deny_for_def deny_for_with_conditions_def allow_def
      decision_grant_def)

lemma reason_simps [simp]:
  "denial_reason (deny reason) = Some reason" "denial_reason (deny_for rq reason mp) = Some reason"
  "denial_reason (deny_for_with_conditions rq reason mp cs) = Some reason"
  "denial_reason (allow g res a ms cs) = None"
  "denial_reason (Deny reason mc res a mi ms cs au) = Some reason"
  by (simp_all add: deny_def deny_for_def deny_for_with_conditions_def allow_def
      denial_reason_def)

subsection \<open>The specification of a request decision\<close>

text \<open>
  What has to be true of a delegation for it to carry a request, and what has to be true for
  a request to be granted, stated without the order in which the code looks.
\<close>

definition delegation_covers ::
  "Delegation \<Rightarrow> Principal \<Rightarrow> TenantContext \<Rightarrow> AuthorizationRequest \<Rightarrow> ResourceAttributes option
   \<Rightarrow> int \<Rightarrow> bool" where
  "delegation_covers d p t rq attrs now \<longleftrightarrow>
     d_tenant_id d = t_id t \<and> d_delegate d = p_id p \<and> is_valid_at d now
     \<and> rq_capability rq \<in> set (d_capabilities d)
     \<and> delegation_scope_matches (d_resource_scope d) rq attrs"

definition request_admissible ::
  "Policy \<Rightarrow> Principal \<Rightarrow> TenantContext \<Rightarrow> AuthorizationRequest \<Rightarrow> ResourceAttributes option
   \<Rightarrow> bool" where
  "request_admissible pol p t rq attrs \<longleftrightarrow>
     p_id p = rq_principal rq \<and> p_tenant_id p = t_id t \<and> t_id t = rq_tenant rq
     \<and> pol_id pol = t_policy_id t \<and> resource_tenant_ok rq attrs t
     \<and> (p_kind p = Agent \<longrightarrow> p_agent_state p = Some StateActive)"

definition request_granted ::
  "int option \<Rightarrow> Policy \<Rightarrow> Principal \<Rightarrow> TenantContext \<Rightarrow> Delegation option
   \<Rightarrow> AuthorizationRequest \<Rightarrow> ResourceAttributes option \<Rightarrow> int \<Rightarrow> bool" where
  "request_granted clk pol p t md rq attrs now \<longleftrightarrow>
     request_admissible pol p t rq attrs
     \<and> (case find (rule_fires clk p rq attrs) (pol_rules pol) of
          Some r \<Rightarrow> rule_effect r = EffectAllow
        | None \<Rightarrow> p_kind p = Agent
            \<and> (case md of Some d \<Rightarrow> delegation_covers d p t rq attrs now | None \<Rightarrow> False))"

subsection \<open>Sample values\<close>

text \<open>
  A tenant with one policy, a human with a role, an agent and a service, and a delegation
  from the human, at which the theorems below are instantiated.
\<close>

definition sample_tenant :: TenantContext where
  "sample_tenant = \<lparr>t_id = ''acme'', t_namespace = ''acme'', t_policy_id = ''p1'',
     t_storage_root_id = ''root''\<rparr>"

definition sample_version :: ContractVersion where
  "sample_version = \<lparr>major = 1, minor = 0\<rparr>"

definition sample_human :: Principal where
  "sample_human =
     principal_human ''alice'' ''acme'' [(''role'', CEnum ''admin'')] sample_version"

definition sample_agent :: Principal where
  "sample_agent = principal_agent ''bot'' ''acme'' [] sample_version StateActive"

definition sample_service :: Principal where
  "sample_service = principal_service ''cron'' ''acme'' [] sample_version"

definition sample_policy :: Policy where
  "sample_policy = \<lparr>pol_id = ''p1'', pol_rules =
     [rule_allow ''users.read'' (ClaimEquals ''role'' (CEnum ''admin'')),
      \<lparr>rule_capability = ''users.delete'', rule_condition = Always, rule_resource = None,
       rule_action = None, rule_effect = EffectDeny\<rparr>]\<rparr>"

definition sample_delegation :: "PrincipalId \<Rightarrow> Delegation" where
  "sample_delegation delegate = \<lparr>d_id = ''d1'', d_delegator = ''alice'', d_delegate = delegate,
     d_tenant_id = ''acme'', d_capabilities = [''invoices.read''],
     d_resource_scope = scope_resource ''invoice'', d_issued_at = 10, d_expires_at = Some 20,
     d_revoked_at = None, d_chain = []\<rparr>"

definition sample_request :: "PrincipalId \<Rightarrow> Capability \<Rightarrow> string \<Rightarrow> AuthorizationRequest" where
  "sample_request principal_id cap ty = \<lparr>rq_principal = principal_id, rq_tenant = ''acme'',
     rq_capability = cap, rq_action = ''read'',
     rq_resource = Some \<lparr>rr_resource_type = ty, rr_resource_id = ''7'', rr_tenant_id = ''acme''\<rparr>,
     rq_context = authorization_context_default\<rparr>"

lemmas sample_defs = sample_tenant_def sample_version_def sample_human_def sample_agent_def
  sample_service_def sample_policy_def sample_delegation_def sample_request_def
  principal_human_def principal_agent_def principal_service_def rule_allow_def
  scope_resource_def

lemmas decision_defs = evaluate_authorization_request_def evaluate_capability_def
  request_admissible_def rule_fires_def rule_applies_def resource_tenant_ok_def
  resource_tenant_def agent_state_denial_def is_valid_at_iff delegation_scope_matches_def
  is_unconstrained_def deny_def deny_for_def deny_for_with_conditions_def allow_def
  denial_reason_def decision_grant_def

subsection \<open>Decisions meet the specification\<close>

text \<open>The decision of an admissible request, by the first rule that fires.\<close>

lemma decision_by_rule:
  assumes "request_admissible pol p t rq attrs"
    and "find (rule_fires clk p rq attrs) (pol_rules pol) = Some r"
  shows "\<exists>k. k < length (pol_rules pol) \<and> pol_rules pol ! k = r
    \<and> evaluate_authorization_request clk (Some pol) (Some p) (Some t) md rq attrs now =
      (let conds = snd (evaluate_condition clk p attrs (rule_condition r));
           matched = [''rule:'' @ show_nat k]
       in if rule_effect r = EffectDeny
          then Deny PolicyDenied (Some (rq_capability rq)) (rq_resource rq)
                 (Some (rq_action rq)) (Some (pol_id pol)) matched conds None
          else allow (claim_grant pol p t (rq_capability rq) (rule_condition r))
                 (rq_resource rq) (Some (rq_action rq)) matched conds)"
proof -
  obtain d where d: "request_rules clk pol p t rq attrs 0 None (pol_rules pol) = Inr d"
    using request_rules_Inl [of clk pol p t rq attrs 0 None "pol_rules pol"] assms(2)
    by (cases "request_rules clk pol p t rq attrs 0 None (pol_rules pol)") auto
  moreover have "agent_state_denial p = None"
    using assms(1) by (simp add: request_admissible_def agent_state_denial_None)
  ultimately have "evaluate_authorization_request clk (Some pol) (Some p) (Some t) md rq attrs now = d"
    using assms(1) by (simp add: evaluate_authorization_request_def request_admissible_def)
  with request_rules_Inr [OF d] assms(2) show ?thesis by auto
qed

lemma decision_without_rule:
  assumes "request_admissible pol p t rq attrs"
    and "find (rule_fires clk p rq attrs) (pol_rules pol) = None"
  shows "is_allowed (evaluate_authorization_request clk (Some pol) (Some p) (Some t) md rq attrs now)
      \<longleftrightarrow> p_kind p = Agent
          \<and> (case md of Some d \<Rightarrow> delegation_covers d p t rq attrs now | None \<Rightarrow> False)"
    and "decision_grant
        (evaluate_authorization_request clk (Some pol) (Some p) (Some t) md rq attrs now) = Some g
      \<Longrightarrow> \<exists>d. md = Some d \<and> p_kind p = Agent \<and> delegation_covers d p t rq attrs now
            \<and> g = delegated_grant pol p t d (rq_capability rq)"
proof -
  obtain f where f: "request_rules clk pol p t rq attrs 0 None (pol_rules pol) = Inl f"
    using request_rules_Inr [of clk pol p t rq attrs 0 None "pol_rules pol"] assms(2)
    by (cases "request_rules clk pol p t rq attrs 0 None (pol_rules pol)") auto
  note unf = evaluate_authorization_request_def request_admissible_def agent_state_denial_None
    delegation_covers_def is_valid_at_iff
  show "is_allowed (evaluate_authorization_request clk (Some pol) (Some p) (Some t) md rq attrs now)
      \<longleftrightarrow> p_kind p = Agent
          \<and> (case md of Some d \<Rightarrow> delegation_covers d p t rq attrs now | None \<Rightarrow> False)"
    using assms(1) f by (cases md; cases f) (auto simp: unf agent_state_denial_None [THEN iffD2])
  show "\<exists>d. md = Some d \<and> p_kind p = Agent \<and> delegation_covers d p t rq attrs now
            \<and> g = delegated_grant pol p t d (rq_capability rq)"
    if "decision_grant
        (evaluate_authorization_request clk (Some pol) (Some p) (Some t) md rq attrs now) = Some g"
    using assms(1) f that
    by (cases md; cases f)
      (auto simp: unf agent_state_denial_None [THEN iffD2] split: if_splits)
qed

lemma decision_needs_admission:
  assumes "is_allowed (evaluate_authorization_request clk mpol mp mt md rq attrs now)"
  shows "\<exists>pol p t. mpol = Some pol \<and> mp = Some p \<and> mt = Some t
           \<and> request_admissible pol p t rq attrs"
  using assms
  by (auto simp: evaluate_authorization_request_def request_admissible_def
      agent_state_denial_None [symmetric] split: option.splits if_splits)

text \<open>
  C1. A request is allowed exactly when policy, principal and tenant are known and belong
  together and to the request, the resource lies in that tenant, an agent is active, and
  either the first rule that applies and holds is an Allow rule, or no rule does and the
  principal is an agent whose delegation is live and covers capability and resource. The
  specification on the right names no order of checks and no error.
\<close>

theorem request_decision_spec:
  "is_allowed (evaluate_authorization_request clk mpol mp mt md rq attrs now) \<longleftrightarrow>
     (\<exists>pol p t. mpol = Some pol \<and> mp = Some p \<and> mt = Some t
        \<and> request_granted clk pol p t md rq attrs now)"
proof (cases "\<exists>pol p t. mpol = Some pol \<and> mp = Some p \<and> mt = Some t
                \<and> request_admissible pol p t rq attrs")
  case False
  then show ?thesis
    using decision_needs_admission [of clk mpol mp mt md rq attrs now]
    unfolding request_granted_def by blast
next
  case True
  then obtain pol p t where eq: "mpol = Some pol" "mp = Some p" "mt = Some t"
    and adm: "request_admissible pol p t rq attrs" by blast
  show ?thesis
  proof (cases "find (rule_fires clk p rq attrs) (pol_rules pol)")
    case None
    with decision_without_rule(1) [OF adm None] adm eq show ?thesis
      by (simp add: request_granted_def)
  next
    case (Some r)
    with decision_by_rule [OF adm Some, of md now] adm eq show ?thesis
      by (cases "rule_effect r") (auto simp: request_granted_def Let_def)
  qed
qed

text \<open>
  C10. Tenant isolation and attribution: whatever is allowed is granted to the requesting
  principal, in the requested tenant, under that tenant's own policy and for the requested
  capability, and a named resource resolves to that tenant.
\<close>

theorem allowed_request_stays_in_tenant:
  assumes "evaluate_authorization_request clk mpol mp mt md rq attrs now
             = Allow g res act matched conds audit"
  shows "g_tenant_id g = rq_tenant rq \<and> g_principal_id g = rq_principal rq
    \<and> g_capability g = rq_capability rq \<and> res = rq_resource rq \<and> act = Some (rq_action rq)
    \<and> (\<exists>p t pol. mp = Some p \<and> mt = Some t \<and> mpol = Some pol
         \<and> p_tenant_id p = rq_tenant rq \<and> t_id t = rq_tenant rq
         \<and> g_policy_id g = t_policy_id t \<and> pol_id pol = t_policy_id t)
    \<and> (\<forall>r. rq_resource rq = Some r \<longrightarrow>
         (case resource_tenant attrs of Some rt \<Rightarrow> rt | None \<Rightarrow> rr_tenant_id r) = rq_tenant rq)"
proof -
  have al: "is_allowed (evaluate_authorization_request clk mpol mp mt md rq attrs now)"
    using assms by simp
  obtain pol p t where eq: "mpol = Some pol" "mp = Some p" "mt = Some t"
    and adm: "request_admissible pol p t rq attrs"
    using decision_needs_admission [OF al] by blast
  have g: "g_tenant_id g = t_id t \<and> g_principal_id g = p_id p \<and> g_policy_id g = pol_id pol
      \<and> g_capability g = rq_capability rq \<and> res = rq_resource rq \<and> act = Some (rq_action rq)"
    using assms eq
    by (auto simp: evaluate_authorization_request_def allow_def deny_for_def
        deny_for_with_conditions_def claim_grant_def delegated_grant_def Let_def
        split: if_splits option.splits sum.splits dest!: request_rules_Inr)
  with adm eq show ?thesis
    by (auto simp: request_admissible_def resource_tenant_ok_def)
qed

theorem allowed_request_stays_in_tenant_witness:
  "\<exists>g. decision_grant (evaluate_authorization_request None (Some sample_policy) (Some sample_human)
           (Some sample_tenant) None (sample_request ''alice'' ''users.read'' ''user'') None 15)
         = Some g
     \<and> g_tenant_id g = ''acme'' \<and> g_principal_id g = ''alice'' \<and> g_capability g = ''users.read''"
proof -
  let ?d = "evaluate_authorization_request None (Some sample_policy) (Some sample_human)
           (Some sample_tenant) None (sample_request ''alice'' ''users.read'' ''user'') None 15"
  have "is_allowed ?d"
    by (simp add: sample_defs decision_defs is_allowed_def)
  then obtain g res act ms cs au where eq: "?d = Allow g res act ms cs au"
    by (cases ?d) auto
  from allowed_request_stays_in_tenant [OF eq] show ?thesis
    by (simp add: eq decision_grant_def) (simp add: sample_request_def)
qed

lemma decision_delegated:
  assumes "decision_grant (evaluate_authorization_request clk mpol mp mt md rq attrs now) = Some g"
    and "g_authority g \<noteq> BasisClaim \<or> g_delegation_id g \<noteq> None"
  obtains pol p t d where "mpol = Some pol" "mp = Some p" "mt = Some t" "md = Some d"
    "request_admissible pol p t rq attrs" "p_kind p = Agent"
    "delegation_covers d p t rq attrs now" "g = delegated_grant pol p t d (rq_capability rq)"
proof -
  have al: "is_allowed (evaluate_authorization_request clk mpol mp mt md rq attrs now)"
    using assms(1) by (simp add: is_allowed_iff)
  then obtain pol p t where eq: "mpol = Some pol" "mp = Some p" "mt = Some t"
    and adm: "request_admissible pol p t rq attrs"
    using decision_needs_admission by blast
  have none: "find (rule_fires clk p rq attrs) (pol_rules pol) = None"
  proof (rule ccontr)
    assume "find (rule_fires clk p rq attrs) (pol_rules pol) \<noteq> None"
    then obtain r where "find (rule_fires clk p rq attrs) (pol_rules pol) = Some r" by blast
    from decision_by_rule [OF adm this, of md now] assms eq show False
      by (auto simp: Let_def claim_grant_def split: if_splits)
  qed
  with assms(1) eq obtain d where "md = Some d" "p_kind p = Agent"
    "delegation_covers d p t rq attrs now" "g = delegated_grant pol p t d (rq_capability rq)"
    using decision_without_rule(2) [OF adm none] by blast
  with eq adm that show thesis by blast
qed

text \<open>
  Provenance of delegated authority: an allowed request whose grant is not based on the
  principal's own claims is backed by the delegation presented, which is unrevoked, already
  issued, unexpired, addressed to this very agent in this tenant, lists the capability and
  covers the resource; the grant names the delegator and the whole chain, ending in this
  delegation.
\<close>

theorem delegated_grant_provenance:
  assumes "decision_grant (evaluate_authorization_request clk mpol mp mt md rq attrs now) = Some g"
    and "g_authority g \<noteq> BasisClaim"
  shows "\<exists>d p. md = Some d \<and> mp = Some p \<and> p_kind p = Agent
    \<and> p_agent_state p = Some StateActive
    \<and> d_revoked_at d = None \<and> d_issued_at d \<le> now
    \<and> (\<forall>e. d_expires_at d = Some e \<longrightarrow> now < e)
    \<and> d_delegate d = rq_principal rq \<and> d_tenant_id d = rq_tenant rq
    \<and> rq_capability rq \<in> set (d_capabilities d)
    \<and> delegation_scope_matches (d_resource_scope d) rq attrs
    \<and> g_delegated_by g = Some (d_delegator d) \<and> g_delegation_id g = Some (d_id d)
    \<and> g_delegation_chain g = d_chain d @ [d_id d] \<and> g_principal_id g = d_delegate d"
proof -
  obtain pol p t d where "mp = Some p" "md = Some d" "request_admissible pol p t rq attrs"
    "p_kind p = Agent" "delegation_covers d p t rq attrs now"
    "g = delegated_grant pol p t d (rq_capability rq)"
    by (rule decision_delegated [OF assms(1)]) (use assms(2) in auto)
  then show ?thesis
    by (auto simp: delegation_covers_def is_valid_at_iff request_admissible_def
        delegated_grant_def delegation_chain_def)
qed

theorem delegated_grant_provenance_witness:
  "\<exists>g. decision_grant (evaluate_authorization_request None (Some sample_policy) (Some sample_agent)
           (Some sample_tenant) (Some (sample_delegation ''bot''))
           (sample_request ''bot'' ''invoices.read'' ''invoice'') None 15) = Some g
     \<and> g_delegated_by g = Some ''alice'' \<and> g_delegation_chain g = [''d1'']"
proof -
  let ?d = "evaluate_authorization_request None (Some sample_policy) (Some sample_agent)
           (Some sample_tenant) (Some (sample_delegation ''bot''))
           (sample_request ''bot'' ''invoices.read'' ''invoice'') None 15"
  have g: "decision_grant ?d = Some (delegated_grant sample_policy sample_agent sample_tenant
             (sample_delegation ''bot'') ''invoices.read'')"
    by (simp add: sample_defs decision_defs)
  show ?thesis
    unfolding g using delegated_grant_provenance [OF g] by (auto simp: sample_delegation_def)
qed

text \<open>
  Deny rules are decisive in order: an admissible request is refused as denied by policy
  exactly when the first rule that applies and holds is a Deny rule, whatever Allow rules
  follow it and whatever delegation is presented.
\<close>

theorem first_deny_decides:
  assumes "request_admissible pol p t rq attrs"
  shows "denial_reason (evaluate_authorization_request clk (Some pol) (Some p) (Some t) md rq attrs now)
           = Some PolicyDenied
    \<longleftrightarrow> (\<exists>before r after. pol_rules pol = before @ r # after \<and> rule_fires clk p rq attrs r
          \<and> rule_effect r = EffectDeny \<and> (\<forall>x \<in> set before. \<not> rule_fires clk p rq attrs x))"
    (is "?L \<longleftrightarrow> ?R")
proof -
  have R: "?R \<longleftrightarrow> (\<exists>r. find (rule_fires clk p rq attrs) (pol_rules pol) = Some r
                      \<and> rule_effect r = EffectDeny)"
    by (auto simp: find_Some_iff_split)
  show ?thesis
  proof (cases "find (rule_fires clk p rq attrs) (pol_rules pol)")
    case (Some r)
    from decision_by_rule [OF assms Some, of md now] show ?thesis
      unfolding R Some by (cases "rule_effect r") (auto simp: Let_def)
  next
    case None
    obtain f where "request_rules clk pol p t rq attrs 0 None (pol_rules pol) = Inl f"
      using request_rules_Inr [of clk pol p t rq attrs 0 None "pol_rules pol"] None
      by (cases "request_rules clk pol p t rq attrs 0 None (pol_rules pol)") auto
    then have "\<not> ?L"
      using assms
      by (auto simp: evaluate_authorization_request_def request_admissible_def
          agent_state_denial_None [THEN iffD2] split: option.splits if_splits)
    then show ?thesis unfolding R None by simp
  qed
qed

theorem first_deny_decides_witness:
  "denial_reason (evaluate_authorization_request None (Some sample_policy) (Some sample_human)
      (Some sample_tenant) None (sample_request ''alice'' ''users.delete'' ''user'') None 15)
     = Some PolicyDenied"
proof -
  have adm: "request_admissible sample_policy sample_human sample_tenant
      (sample_request ''alice'' ''users.delete'' ''user'') None"
    by (simp add: sample_defs decision_defs)
  show ?thesis
    by (rule first_deny_decides [OF adm, THEN iffD2],
        rule exI [of _ "[hd (pol_rules sample_policy)]"],
        rule exI [of _ "pol_rules sample_policy ! 1"], rule exI [of _ "[]"])
      (simp add: sample_defs decision_defs)
qed

text \<open>
  The evidence is faithful: a condition is reported to hold exactly when it does hold of
  the principal's claims, the resource's attributes and the clock, and exactly when every
  piece of evidence reported for it passes.
\<close>

theorem evidence_is_faithful:
  "fst (evaluate_condition clk p res c) = condition_holds clk p res c
   \<and> (fst (evaluate_condition clk p res c) \<longleftrightarrow>
        filter (\<lambda>e. ev_result e = Fail) (snd (evaluate_condition clk p res c)) = [])"
proof -
  have "ev_result e = Fail \<longleftrightarrow> ev_result e \<noteq> Pass" for e :: ConditionEvidence
    by (cases "ev_result e") auto
  then show ?thesis
    using evidence_of_condition [of clk p res c] by (simp add: list_all_iff filter_empty_conv)
qed

subsection \<open>The envelope\<close>

lemma grant_delegated_snoc_cases:
  assumes "g \<in> set (fold (\<lambda>cap gs. if list_ex (\<lambda>g. g_capability g = cap) gs then gs
                    else gs @ [delegated_grant pol p t d cap]) caps gs)"
  shows "g \<in> set gs \<or>
    (\<exists>cap \<in> set caps. g = delegated_grant pol p t d cap \<and> cap \<notin> g_capability ` set gs)"
  using assms
proof (induction caps arbitrary: gs)
  case (Cons c caps)
  show ?case
  proof (cases "list_ex (\<lambda>g. g_capability g = c) gs")
    case True
    then show ?thesis using Cons.IH [of gs] Cons.prems by auto
  next
    case False
    then have "c \<notin> g_capability ` set gs" by (auto simp: list_ex_iff)
    then show ?thesis
      using Cons.IH [of "gs @ [delegated_grant pol p t d c]"] Cons.prems False by auto
  qed
qed simp

lemma grant_delegated_cases:
  "g \<in> set (grant_delegated pol p t d gs) \<Longrightarrow> g \<in> set gs \<or>
    (\<exists>cap \<in> set (d_capabilities d).
       g = delegated_grant pol p t d cap \<and> cap \<notin> g_capability ` set gs)"
  unfolding grant_delegated_def by (rule grant_delegated_snoc_cases)

lemma capabilities_grant_delegated [simp]:
  "g_capability ` set (grant_delegated pol p t d gs)
     = g_capability ` set gs \<union> set (d_capabilities d)"
proof -
  have "g_capability ` set (fold (\<lambda>cap gs. if list_ex (\<lambda>g. g_capability g = cap) gs then gs
                    else gs @ [delegated_grant pol p t d cap]) caps gs)
     = g_capability ` set gs \<union> set caps" for caps
    by (induction caps arbitrary: gs) (auto simp: list_ex_iff)
  then show ?thesis by (simp add: grant_delegated_def)
qed

definition delegation_live :: "Principal \<Rightarrow> TenantContext \<Rightarrow> int \<Rightarrow> Delegation \<Rightarrow> bool" where
  "delegation_live p t now d \<longleftrightarrow>
     d_tenant_id d = t_id t \<and> d_delegate d = p_id p \<and> is_valid_at d now"

lemma grant_delegations_simps [simp]:
  "grant_delegations pol p t now [] gs = gs"
  "grant_delegations pol p t now (d # ds) gs =
     (if delegation_live p t now d
      then grant_delegations pol p t now ds (grant_delegated pol p t d gs)
      else grant_delegations pol p t now ds gs)"
  by (auto simp: grant_delegations_def delegation_live_def)

lemma grant_delegations_cases:
  "g \<in> set (grant_delegations pol p t now ds gs) \<Longrightarrow> g \<in> set gs \<or>
    (\<exists>d \<in> set ds. delegation_live p t now d \<and>
      (\<exists>cap \<in> set (d_capabilities d).
         g = delegated_grant pol p t d cap \<and> cap \<notin> g_capability ` set gs))"
proof (induction ds arbitrary: gs)
  case (Cons d ds)
  show ?case
  proof (cases "delegation_live p t now d")
    case False
    then show ?thesis
      using Cons by auto
  next
    case True
    then show ?thesis
      using Cons.IH [of "grant_delegated pol p t d gs"] Cons.prems
      by (auto dest!: grant_delegated_cases)
  qed
qed simp

lemma capabilities_grant_delegations:
  "g_capability ` set (grant_delegations pol p t now ds gs)
     = g_capability ` set gs
       \<union> (\<Union>d \<in> {d \<in> set ds. delegation_live p t now d}. set (d_capabilities d))"
  by (induction ds arbitrary: gs) auto

lemma capabilities_grant_claims:
  "g_capability ` set (grant_claims clk pol p t)
     = {rule_capability r |r. r \<in> set (pol_rules pol) \<and> condition_holds clk p None (rule_condition r)}"
  by (auto simp: grant_claims_def condition_matches_def image_image)

lemma envelope_Inr:
  "evaluate_with_delegations clk pol p t ds now = Inr env \<longleftrightarrow>
     p_tenant_id p = t_id t \<and> pol_id pol = t_policy_id t
     \<and> env = (if p_kind p = Agent \<and> p_agent_state p \<noteq> Some StateActive then envelope_empty
              else \<lparr>granted_capabilities =
                 grant_delegations pol p t now ds (grant_claims clk pol p t)\<rparr>)"
  by (auto simp: evaluate_with_delegations_def)

text \<open>
  The capability envelope of a principal holds exactly the capabilities of the rules its
  claims satisfy and of the live delegations addressed to it in this tenant; an agent that is
  not active holds none.
\<close>

theorem envelope_capabilities_spec:
  assumes "evaluate_with_delegations clk pol p t ds now = Inr env"
  shows "set (envelope_capabilities env) =
    (if p_kind p = Agent \<and> p_agent_state p \<noteq> Some StateActive then {}
     else set (map rule_capability
                 (filter (\<lambda>r. condition_holds clk p None (rule_condition r)) (pol_rules pol)))
          \<union> set (concat (map d_capabilities
                 (filter (\<lambda>d. d_tenant_id d = t_id t \<and> d_delegate d = p_id p
                     \<and> d_revoked_at d = None \<and> d_issued_at d \<le> now
                     \<and> (\<forall>e. d_expires_at d = Some e \<longrightarrow> now < e)) ds))))"
proof -
  have "envelope_capabilities env =
      (if p_kind p = Agent \<and> p_agent_state p \<noteq> Some StateActive then []
       else map g_capability (grant_delegations pol p t now ds (grant_claims clk pol p t)))"
    using assms by (simp add: envelope_Inr envelope_capabilities_def envelope_empty_def)
  then show ?thesis
    by (auto simp: capabilities_grant_delegations capabilities_grant_claims delegation_live_def
        is_valid_at_iff)
qed

theorem envelope_capabilities_spec_witness:
  "\<exists>env. evaluate_with_delegations None sample_policy sample_agent sample_tenant
           [sample_delegation ''bot''] 15 = Inr env
     \<and> ''invoices.read'' \<in> set (envelope_capabilities env)
     \<and> ''users.read'' \<notin> set (envelope_capabilities env)"
proof -
  obtain env where env: "evaluate_with_delegations None sample_policy sample_agent sample_tenant
           [sample_delegation ''bot''] 15 = Inr env"
    by (simp add: evaluate_with_delegations_def sample_defs)
  from envelope_capabilities_spec [OF env]
  have "set (envelope_capabilities env) = {''invoices.read'', ''users.delete''}"
    by (simp add: sample_defs)
  with env show ?thesis by simp
qed

text \<open>
  Every grant of an envelope explains itself: it names this principal, tenant and policy;
  it is either the principal's own authority under a rule its claims satisfy, or the authority
  of a live delegation, with the delegator and the chain ending in that delegation. What the
  principal holds by its own claims is never attributed to a delegation.
\<close>

theorem envelope_provenance:
  assumes "evaluate_with_delegations clk pol p t ds now = Inr env"
    and "g \<in> set (granted_capabilities env)"
  shows "g_principal_id g = p_id p \<and> g_tenant_id g = t_id t \<and> g_policy_id g = t_policy_id t
    \<and> (case g_authority g of
         BasisClaim \<Rightarrow> g_delegated_by g = None \<and> g_delegation_id g = None
           \<and> (\<exists>r \<in> set (pol_rules pol). rule_capability r = g_capability g
                \<and> condition_holds clk p None (rule_condition r)
                \<and> g_claim_basis g = claim_basis (rule_condition r))
       | BasisDelegated \<Rightarrow>
           (\<exists>d \<in> set ds. d_delegate d = p_id p \<and> d_tenant_id d = t_id t \<and> is_valid_at d now
              \<and> g_capability g \<in> set (d_capabilities d)
              \<and> g_delegated_by g = Some (d_delegator d) \<and> g_delegation_id g = Some (d_id d)
              \<and> g_delegation_chain g = d_chain d @ [d_id d])
           \<and> (\<forall>r \<in> set (pol_rules pol). condition_holds clk p None (rule_condition r)
                \<longrightarrow> rule_capability r \<noteq> g_capability g))"
proof -
  have t: "pol_id pol = t_policy_id t" using assms(1) by (simp add: envelope_Inr)
  have "g \<in> set (grant_delegations pol p t now ds (grant_claims clk pol p t))"
    using assms by (auto simp: envelope_Inr envelope_empty_def split: if_splits)
  then consider "g \<in> set (grant_claims clk pol p t)"
    | d cap where "d \<in> set ds" "delegation_live p t now d" "cap \<in> set (d_capabilities d)"
      "g = delegated_grant pol p t d cap" "cap \<notin> g_capability ` set (grant_claims clk pol p t)"
    by (blast dest: grant_delegations_cases)
  then show ?thesis
  proof cases
    case 1
    then show ?thesis
      using t by (auto simp: grant_claims_def claim_grant_def condition_matches_def)
  next
    case 2
    then show ?thesis
      using t unfolding capabilities_grant_claims
      by (auto simp: delegation_live_def delegated_grant_def delegation_chain_def)
  qed
qed

theorem envelope_provenance_witness:
  "\<exists>env. evaluate_with_delegations None sample_policy sample_human sample_tenant [] 15 = Inr env
     \<and> (\<exists>g. granted_capabilities env = g # tl (granted_capabilities env)
          \<and> g_principal_id g = ''alice'' \<and> g_policy_id g = ''p1'')"
proof -
  obtain env where env:
    "evaluate_with_delegations None sample_policy sample_human sample_tenant [] 15 = Inr env"
    by (simp add: evaluate_with_delegations_def sample_defs)
  then have ne: "granted_capabilities env \<noteq> []"
    by (auto simp: envelope_Inr sample_defs grant_claims_def condition_matches_def)
  from envelope_provenance [OF env hd_in_set [OF ne]] env ne show ?thesis
    by (intro exI [of _ env] conjI exI [of _ "hd (granted_capabilities env)"])
      (simp_all add: sample_human_def principal_human_def sample_tenant_def)
qed

subsection \<open>Deciding a capability\<close>

lemma capability_rules_Some:
  "capability_rules clk pol p t cap rs = Some d \<Longrightarrow>
     \<exists>r \<in> set rs. rule_capability r = cap \<and> condition_holds clk p None (rule_condition r)
       \<and> is_allowed d \<and> decision_grant d = Some (claim_grant pol p t cap (rule_condition r))"
  by (induction clk pol p t cap rs rule: capability_rules.induct)
    (auto split: if_splits prod.splits simp flip: fst_evaluate_condition)

lemma capability_rules_None:
  "capability_rules clk pol p t cap rs = None \<longleftrightarrow>
     (\<forall>r \<in> set rs. rule_capability r = cap \<longrightarrow> \<not> condition_holds clk p None (rule_condition r))"
  by (induction clk pol p t cap rs rule: capability_rules.induct)
    (auto split: if_splits prod.splits simp flip: fst_evaluate_condition)

lemma capability_allowed_iff:
  "is_allowed (evaluate_capability clk (Some pol) (Some p) (Some t) md cap now) \<longleftrightarrow>
     p_tenant_id p = t_id t \<and> pol_id pol = t_policy_id t
     \<and> (p_kind p = Agent \<longrightarrow> p_agent_state p = Some StateActive)
     \<and> ((\<exists>r \<in> set (pol_rules pol). rule_capability r = cap
            \<and> condition_holds clk p None (rule_condition r))
        \<or> p_kind p = Agent
          \<and> (\<exists>d. md = Some d \<and> delegation_live p t now d \<and> cap \<in> set (d_capabilities d)))"
  (is "?L \<longleftrightarrow> ?R")
proof (cases "capability_rules clk pol p t cap (pol_rules pol)")
  case (Some d)
  then show ?thesis
    using capability_rules_Some [OF Some]
    by (auto simp: evaluate_capability_def agent_state_denial_None [symmetric]
        split: option.splits)
next
  case None
  with capability_rules_None [of clk pol p t cap "pol_rules pol"] show ?thesis
    by (auto simp: evaluate_capability_def agent_state_denial_None [symmetric]
        delegation_live_def is_valid_at_iff split: option.splits if_splits)
qed

text \<open>
  For an agent, the envelope and the single-capability decision agree: the envelope
  computed from a list of delegations allows a capability exactly when the decision procedure
  allows it with no delegation or with one delegation of that list.
\<close>

theorem agent_envelope_agrees_with_decision:
  assumes "p_kind p = Agent"
    and "evaluate_with_delegations clk pol p t ds now = Inr env"
  shows "envelope_allows env cap \<longleftrightarrow>
    (\<exists>md \<in> insert None (Some ` set ds).
       is_allowed (evaluate_capability clk (Some pol) (Some p) (Some t) md cap now))"
proof (cases "p_agent_state p = Some StateActive")
  case True
  with assms have "set (envelope_capabilities env) =
      {rule_capability r |r. r \<in> set (pol_rules pol)
             \<and> condition_holds clk p None (rule_condition r)}
      \<union> (\<Union>d \<in> {d \<in> set ds. delegation_live p t now d}. set (d_capabilities d))"
    by (simp add: envelope_Inr envelope_capabilities_def capabilities_grant_delegations
        capabilities_grant_claims)
  moreover have "p_tenant_id p = t_id t" "pol_id pol = t_policy_id t"
    using assms(2) by (simp_all add: envelope_Inr)
  ultimately show ?thesis
    using assms(1) True by (auto simp: envelope_allows_iff capability_allowed_iff)
next
  case False
  with assms have "env = envelope_empty" by (simp add: envelope_Inr)
  with assms(1) False show ?thesis
    by (simp add: envelope_allows_iff capability_allowed_iff envelope_capabilities_def
        envelope_empty_def)
qed

theorem agent_envelope_agrees_with_decision_witness:
  "\<exists>env. evaluate_with_delegations None sample_policy sample_agent sample_tenant
           [sample_delegation ''bot''] 15 = Inr env
     \<and> envelope_allows env ''invoices.read'' \<and> \<not> envelope_allows env ''users.read''"
proof -
  obtain env where env: "evaluate_with_delegations None sample_policy sample_agent sample_tenant
           [sample_delegation ''bot''] 15 = Inr env"
    by (simp add: evaluate_with_delegations_def sample_defs)
  have a: "p_kind sample_agent = Agent" by (simp add: sample_defs)
  show ?thesis
    using agent_envelope_agrees_with_decision [OF a env, of "''invoices.read''"]
      agent_envelope_agrees_with_decision [OF a env, of "''users.read''"] env
    by (simp add: capability_allowed_iff sample_defs delegation_live_def is_valid_at_iff)
qed

text \<open>
  For a service the two disagree: a live delegation puts its capabilities into the
  service's envelope, but the decision procedures only look at a delegation when the principal
  is an agent, so a capability the service has by delegation alone is refused by both.
\<close>

theorem service_delegation_never_decides:
  assumes "p_kind p = Service"
    and "evaluate_with_delegations clk pol p t ds now = Inr env"
    and "d \<in> set ds" "d_tenant_id d = t_id t" "d_delegate d = p_id p" "is_valid_at d now"
    and "cap \<in> set (d_capabilities d)"
    and "\<forall>r \<in> set (pol_rules pol). rule_capability r \<noteq> cap"
    and "rq_capability rq = cap"
  shows "envelope_allows env cap
    \<and> \<not> is_allowed (evaluate_capability clk (Some pol) (Some p) (Some t) (Some d) cap now)
    \<and> \<not> is_allowed (evaluate_authorization_request clk (Some pol) (Some p) (Some t) (Some d)
                      rq attrs now)"
proof (intro conjI)
  show "envelope_allows env cap"
    using assms
    by (auto simp: envelope_allows_iff envelope_Inr envelope_capabilities_def
        capabilities_grant_delegations delegation_live_def)
  show "\<not> is_allowed (evaluate_capability clk (Some pol) (Some p) (Some t) (Some d) cap now)"
    using assms(1,8) by (auto simp: capability_allowed_iff)
  have none: "find (rule_fires clk p rq attrs) (pol_rules pol) = None"
    using assms(8,9) by (auto simp: find_None_iff rule_fires_def rule_applies_def)
  show "\<not> is_allowed (evaluate_authorization_request clk (Some pol) (Some p) (Some t) (Some d)
                      rq attrs now)"
    using decision_without_rule(1) [OF _ none, of t "Some d" now] assms(1)
      decision_needs_admission [of clk "Some pol" "Some p" "Some t" "Some d" rq attrs now]
    by auto
qed

theorem service_delegation_never_decides_witness:
  "\<exists>env. evaluate_with_delegations None sample_policy sample_service sample_tenant
           [sample_delegation ''cron''] 15 = Inr env
     \<and> envelope_allows env ''invoices.read''
     \<and> \<not> is_allowed (evaluate_capability None (Some sample_policy) (Some sample_service)
           (Some sample_tenant) (Some (sample_delegation ''cron'')) ''invoices.read'' 15)"
proof -
  obtain env where env: "evaluate_with_delegations None sample_policy sample_service sample_tenant
           [sample_delegation ''cron''] 15 = Inr env"
    by (simp add: evaluate_with_delegations_def sample_defs)
  from service_delegation_never_decides [OF _ env, of "sample_delegation ''cron''"
      "''invoices.read''" "sample_request ''cron'' ''invoices.read'' ''invoice''" None] env
  show ?thesis by (simp add: sample_defs is_valid_at_iff)
qed

text \<open>
  Neither the envelope nor the single-capability decision reads a rule's effect: turning
  every rule of the policy into an Allow rule, or into a Deny rule, changes no decision and no
  envelope.
\<close>

theorem effect_is_not_read:
  "evaluate_capability clk
     (Some (pol\<lparr>pol_rules := map (\<lambda>r. r\<lparr>rule_effect := e\<rparr>) (pol_rules pol)\<rparr>)) mp mt md cap now
   = evaluate_capability clk (Some pol) mp mt md cap now
   \<and> evaluate_with_delegations clk
       (pol\<lparr>pol_rules := map (\<lambda>r. r\<lparr>rule_effect := e\<rparr>) (pol_rules pol)\<rparr>) p t ds now
   = evaluate_with_delegations clk pol p t ds now"
proof -
  define q where "q = pol\<lparr>pol_rules := map (\<lambda>r. r\<lparr>rule_effect := e\<rparr>) (pol_rules pol)\<rparr>"
  have q: "pol_id q = pol_id pol" "pol_rules q = map (\<lambda>r. r\<lparr>rule_effect := e\<rparr>) (pol_rules pol)"
    by (simp_all add: q_def)
  have g: "claim_grant q = claim_grant pol" "delegated_grant q = delegated_grant pol"
    by (simp_all add: fun_eq_iff claim_grant_def delegated_grant_def q)
  have "capability_rules clk q p t cap (map (\<lambda>r. r\<lparr>rule_effect := e\<rparr>) rs)
      = capability_rules clk pol p t cap rs" for p t rs
    by (induction rs) (auto simp: g split: prod.splits)
  then have "evaluate_capability clk (Some q) mp mt md cap now
      = evaluate_capability clk (Some pol) mp mt md cap now"
    by (cases mp; cases mt) (simp_all add: evaluate_capability_def g q split: option.split)
  moreover have "grant_claims clk q p t = grant_claims clk pol p t"
    by (simp add: grant_claims_def g q filter_map o_def)
  moreover have "grant_delegated q p t d gs = grant_delegated pol p t d gs" for d gs
    unfolding grant_delegated_def g ..
  then have "grant_delegations q p t now ds gs = grant_delegations pol p t now ds gs" for gs
    by (induction ds arbitrary: gs) simp_all
  ultimately show ?thesis
    unfolding q_def [symmetric] by (simp add: evaluate_with_delegations_def q)
qed

subsection \<open>Scopes\<close>

text \<open>
  Narrowing a resource scope narrows what it covers: if a scope is a subset of a parent
  scope by the contract's test, then every request the scope covers is covered by the parent.
\<close>

theorem narrower_scope_covers_less:
  assumes "is_subset_of sc parent"
    and "delegation_scope_matches sc rq attrs"
  shows "delegation_scope_matches parent rq attrs"
proof (cases "is_unconstrained sc")
  case True
  then have "is_unconstrained parent"
    using assms(1)
    by (cases "rs_attributes parent")
      (auto simp: is_subset_of_iff is_unconstrained_def)
  then show ?thesis by (simp add: delegation_scope_matches_def)
next
  case False
  then obtain res where res: "rq_resource rq = Some res"
    using assms(2) by (auto simp: delegation_scope_matches_def split: option.splits)
  have sub: "set (rs_attributes parent) \<subseteq> set (rs_attributes sc)"
    using assms(1) by (auto simp: is_subset_of_iff intro: map_of_SomeD)
  from assms(2) False res have m:
    "case rs_resource_type sc of Some ty \<Rightarrow> ty = rr_resource_type res | None \<Rightarrow> True"
    "case rs_resource_id sc of Some i \<Rightarrow> i = ''*'' \<or> i = rr_resource_id res | None \<Rightarrow> True"
    "list_all (\<lambda>(k, expected).
               if k = ''tenant'' \<or> k = ''tenant_id''
               then matches_tenant expected (rr_tenant_id res)
               else resource_value attrs k = Some expected) (rs_attributes sc)"
    by (simp_all add: delegation_scope_matches_def)
  have "case rs_resource_type parent of Some ty \<Rightarrow> ty = rr_resource_type res | None \<Rightarrow> True"
    using m(1) assms(1) by (cases "rs_resource_type parent") (simp_all add: is_subset_of_iff)
  moreover have
    "case rs_resource_id parent of Some i \<Rightarrow> i = ''*'' \<or> i = rr_resource_id res | None \<Rightarrow> True"
    using m(2) assms(1) by (cases "rs_resource_id parent") (simp_all add: is_subset_of_iff)
  moreover have "list_all (\<lambda>(k, expected).
               if k = ''tenant'' \<or> k = ''tenant_id''
               then matches_tenant expected (rr_tenant_id res)
               else resource_value attrs k = Some expected) (rs_attributes parent)"
    using m(3) sub unfolding list_all_iff by blast
  ultimately show ?thesis
    by (simp add: delegation_scope_matches_def res)
qed

theorem narrower_scope_covers_less_witness:
  "delegation_scope_matches (scope_resource ''invoice'')
     (sample_request ''bot'' ''invoices.read'' ''invoice'') None"
  by (rule narrower_scope_covers_less [of "scope_exact ''invoice'' ''7''"])
    (simp_all add: is_subset_of_def scope_exact_def sample_defs decision_defs)

end
