(* ===== verification/Mesh.thy ===== *)
theory Mesh
  imports Evaluator Resolution
begin

text \<open>
  The auth mesh (\<^verbatim>\<open>crates/runtime/src/mesh.rs\<close>): one state with the declaration, the
  connector registry, the stores and the sequence counters, and every operation on it:
  authentication and registration, sessions, delegation, agent runs and agent lifecycle, and
  the authorization entry points, which record every decision in the audit trail before they
  return it.

  The state record extends \<open>Directory\<close> (identities and principals). What the mesh gets
  from outside is the record \<open>Env\<close>: Argon2, the source of session ids, the system clock
  that \<^verbatim>\<open>TimeBound\<close> reads, and the audit log, which the program takes as a trait
  object; its state has the type \<open>'l\<close>.
\<close>

subsection \<open>State\<close>

record RuntimeContext =
  c_principal :: Principal
  c_tenant :: TenantContext
  c_session_id :: "SessionId option"
  c_delegation :: "Delegation option"
  c_run :: "AgentRun option"
  c_claims :: Claims
  c_capabilities :: CapabilityEnvelope

definition context_delegated_by :: "RuntimeContext \<Rightarrow> PrincipalId option" where
  "context_delegated_by c = map_option d_delegator (c_delegation c)"

definition holds :: "RuntimeContext \<Rightarrow> Capability \<Rightarrow> bool" where
  "holds c cap = envelope_allows (c_capabilities c) cap"

definition with_run :: "RuntimeContext \<Rightarrow> AgentRun \<Rightarrow> RuntimeContext" where
  "with_run c r = c\<lparr>c_run := Some r\<rparr>"

record 'l Env =
  env_argon2 :: Argon2
  env_mint :: "u64 \<Rightarrow> SessionId"
  env_clock :: "int option"
  env_record :: "TenantContext \<Rightarrow> AuditEvent \<Rightarrow> ('l, StorageError, unit) eff"
  env_events :: "TenantContext \<Rightarrow> int option \<Rightarrow> nat \<Rightarrow> 'l \<Rightarrow> StorageError + AuditEvent list"

record 'l Mesh = Directory +
  m_config :: AuthConfig
  m_registry :: ConnectorRegistry
  m_tenants :: MemoryTenantRoot
  m_sessions :: MemorySessionStore
  m_delegations :: MemoryDelegationStore
  m_runs :: MemoryRunStore
  m_policies :: MemoryPolicyStore
  m_audit :: 'l
  m_session_ttl :: int
  m_audit_sequence :: u64
  m_run_sequence :: u64
  m_decisions :: "AuthorizationEvidence list"

record Registration =
  reg_kind :: PrincipalKind
  reg_claims :: "(string, string) bmap"

record AuthenticatedSession =
  as_session :: Session
  as_external :: ExternalIdentity
  as_context :: RuntimeContext

record DelegationRequest =
  dr_id :: DelegationId
  dr_delegator :: PrincipalId
  dr_delegate :: PrincipalId
  dr_capabilities :: "Capability list"
  dr_resource_scope :: ResourceScope
  dr_issued_at :: int
  dr_expires_at :: "int option"

record RunCreationRequest =
  cr_id :: "RunId option"
  cr_task_id :: TaskId
  cr_task_purpose :: string
  cr_delegation_id :: DelegationId
  cr_parent_run_id :: "RunId option"
  cr_capabilities :: "Capability list"
  cr_resource_scope :: ResourceScope
  cr_expires_at :: int
  cr_constraints :: "string list"

record AuditRecord =
  rec_kind :: AuditEventKind
  rec_principal_id :: "PrincipalId option"
  rec_session_id :: "SessionId option"
  rec_delegation_id :: "DelegationId option"
  rec_metadata :: "(string \<times> string) list"

definition audit_record :: "AuditEventKind \<Rightarrow> AuditRecord" where
  "audit_record k = \<lparr>rec_kind = k, rec_principal_id = None, rec_session_id = None,
     rec_delegation_id = None, rec_metadata = []\<rparr>"

subsection \<open>Errors\<close>

definition connector_denial :: "ConnectorError \<Rightarrow> DenialReason" where
  "connector_denial e = (case e of
     UnknownConnector _ \<Rightarrow> UnsupportedConnector
   | Unsupported _ \<Rightarrow> UnsupportedConnector
   | NotDeclared _ \<Rightarrow> UnsupportedConnector
   | DuplicateConnector _ \<Rightarrow> UnsupportedConnector
   | InvalidRequest _ _ \<Rightarrow> UnknownPrincipal
   | InvalidCredentials _ \<Rightarrow> UnknownPrincipal
   | ChallengeMismatch _ \<Rightarrow> UnknownPrincipal
   | PasswordReusedError _ \<Rightarrow> PasswordReused
   | PasswordHashingFailed _ \<Rightarrow> PolicyDenied)"

definition connector_stage :: "ConnectorError \<Rightarrow> AuthLifecycleStage" where
  "connector_stage e = (case e of
     UnknownConnector _ \<Rightarrow> ConnectorResolution
   | NotDeclared _ \<Rightarrow> ConnectorResolution
   | DuplicateConnector _ \<Rightarrow> ConnectorResolution
   | _ \<Rightarrow> ProviderAuthentication)"

definition connector_error :: "ConnectorError \<Rightarrow> AuthError" where
  "connector_error e = auth_error (connector_stage e) (connector_error_text e) (connector_denial e)"

definition session_error :: "StorageError \<Rightarrow> AuthError" where
  "session_error e = auth_error SessionValidation e
     (if e = ''expired session'' then ExpiredSession
      else if e = ''revoked session'' then RevokedSession
      else if e = ''tenant mismatch'' then TenantMismatch
      else InvalidSession)"

definition principal_error :: "StorageError \<Rightarrow> AuthError" where
  "principal_error e = auth_error PrincipalResolution e
     (if e = ''tenant mismatch'' then TenantMismatch else UnknownPrincipal)"

definition delegation_error :: "string \<Rightarrow> AuthError" where
  "delegation_error msg = auth_error DelegationManagement msg InvalidDelegation"

definition run_error :: "DenialReason \<Rightarrow> string \<Rightarrow> AuthError" where
  "run_error denial msg = auth_error DelegationManagement msg denial"

subsection \<open>Construction\<close>

definition mesh_new ::
  "AuthConfig \<Rightarrow> ConnectorRegistry \<Rightarrow> MemoryTenantRoot \<Rightarrow> MemoryPolicyStore \<Rightarrow> 'l
   \<Rightarrow> AuthError + 'l Mesh" where
  "mesh_new cfg reg tenants policies log =
     rbind (map_err (\<lambda>e. auth_error Configuration e UnsupportedConnector) (config_validate cfg)) (\<lambda>_.
     rbind (for_each (\<lambda>p. check (bcontains reg p)
              (auth_error Configuration (''declared provider '' @ in_backticks p @ '' has no connector'')
                 UnsupportedConnector)) (cf_providers cfg)) (\<lambda>_.
     Inr \<lparr>dir_identities = identity_store_new, dir_principals = principal_store_new,
       m_config = cfg, m_registry = reg, m_tenants = tenants, m_sessions = session_store_new,
       m_delegations = delegation_store_new, m_runs = run_store_new, m_policies = policies,
       m_audit = log, m_session_ttl = 3600, m_audit_sequence = 0, m_run_sequence = 0,
       m_decisions = []\<rparr>))"

definition with_session_ttl :: "int \<Rightarrow> 'l Mesh \<Rightarrow> 'l Mesh" where
  "with_session_ttl seconds s = s\<lparr>m_session_ttl := seconds\<rparr>"

subsection \<open>Lookups\<close>

definition tenant :: "string \<Rightarrow> 'l Mesh \<Rightarrow> AuthError + TenantContext" where
  "tenant i s =
     rbind (check (trim i \<noteq> []) (auth_error TenantResolution ''missing tenant'' UnknownTenant)) (\<lambda>_.
     ok_or (auth_error TenantResolution (''unknown tenant '' @ in_backticks i) UnknownTenant)
       (get_tenant i (m_tenants s)))"

definition principal_of ::
  "TenantContext \<Rightarrow> PrincipalId \<Rightarrow> 'l Mesh \<Rightarrow> AuthError + Principal" where
  "principal_of t i s =
     rbind (map_err principal_error (get_principal t i (dir_principals s))) (\<lambda>mp.
     ok_or (auth_error PrincipalResolution (''unknown principal '' @ in_backticks i) UnknownPrincipal)
       mp)"

definition connector :: "string \<Rightarrow> 'l Mesh \<Rightarrow> AuthError + Connector" where
  "connector i s =
     rbind (check (declares_provider (m_config s) i)
       (auth_error ConnectorResolution
          (''connector '' @ in_backticks i @ '' is not declared by '' @ in_backticks ''use auth'')
          UnsupportedConnector)) (\<lambda>_.
     map_err connector_error (registry_get (m_registry s) i))"

definition delegations_for :: "TenantContext \<Rightarrow> PrincipalId \<Rightarrow> 'l Mesh \<Rightarrow> Delegation list" where
  "delegations_for t i s = list_delegations_for_delegate t i (m_delegations s)"

definition condition_of_policy :: "PolicyDef \<Rightarrow> Condition" where
  "condition_of_policy pd =
     (let conds = (if pd_tenant_current pd then [TenantCurrent] else [])
          @ map (\<lambda>c. let values = map CEnum (pc_values c) in
                 if length values = 1 then ClaimEquals (pc_claim c) (hd values)
                 else ClaimIn (pc_claim c) values) (pd_claims pd)
      in case conds of [] \<Rightarrow> Always | [c] \<Rightarrow> c | _ \<Rightarrow> CondAll conds)"

definition policy_from_config :: "AuthConfig \<Rightarrow> TenantContext \<Rightarrow> Policy option" where
  "policy_from_config cfg t =
     (if cf_policies cfg = [] then None
      else Some \<lparr>pol_id = t_policy_id t, pol_rules = map (\<lambda>pd.
        \<lparr>rule_capability = pd_capability pd, rule_condition = condition_of_policy pd,
         rule_resource = map_option selector_any (pd_resource pd), rule_action = pd_action pd,
         rule_effect = EffectAllow\<rparr>) (cf_policies cfg)\<rparr>)"

definition policy :: "TenantContext \<Rightarrow> 'l Mesh \<Rightarrow> AuthError + Policy" where
  "policy t s =
     ok_or (auth_error PolicyEvaluation (''tenant '' @ in_backticks (t_id t) @ '' has no policy'')
         PolicyNotFound)
       (case policy_for t (m_policies s) of
          Some pol \<Rightarrow> Some pol | None \<Rightarrow> policy_from_config (m_config s) t)"

definition assert_principal_is_usable :: "Principal \<Rightarrow> AuthError + unit" where
  "assert_principal_is_usable p =
     (if p_kind p \<noteq> Agent then Inr ()
      else if p_agent_state p = Some StateActive then Inr ()
      else if p_agent_state p = Some StateSuspended
      then Inl (auth_error AgentLifecycle ''agent is suspended'' AgentSuspended)
      else Inl (auth_error AgentLifecycle ''agent is not active'' AgentRevoked))"

definition mesh_begin :: "string \<Rightarrow> AuthRequest \<Rightarrow> 'l Mesh \<Rightarrow> AuthError + AuthChallenge" where
  "mesh_begin tid rq s =
     rbind (tenant tid s) (\<lambda>_.
     rbind (connector (arq_connector rq) s) (\<lambda>c.
     map_err connector_error (connector_begin c rq)))"

definition authenticate_external ::
  "'l Env \<Rightarrow> TenantContext \<Rightarrow> AuthResponse \<Rightarrow> 'l Mesh \<Rightarrow> AuthError + ExternalIdentity" where
  "authenticate_external env t rs s =
     rbind (connector (ars_connector rs) s) (\<lambda>c.
     rbind (check (case ars_tenant rs of Some declared \<Rightarrow> declared = t_id t | None \<Rightarrow> True)
       (auth_error ProviderAuthentication ''authentication response targets a different tenant''
          TenantMismatch)) (\<lambda>_.
     rbind (map_err connector_error (connector_authenticate (env_argon2 env) c rs)) (\<lambda>x.
     rbind (check (xi_connector x = ars_connector rs)
       (auth_error ProviderAuthentication ''connector returned an identity for a different connector''
          UnsupportedConnector)) (\<lambda>_.
     rbind (check (trim (xi_subject x) \<noteq> [])
       (auth_error ProviderAuthentication ''connector returned an empty subject'' UnknownPrincipal))
     (\<lambda>_. Inr x)))))"

definition authentication_method_for_provider :: "string \<Rightarrow> AuthenticationMethod" where
  "authentication_method_for_provider provider =
     (if provider = ''local'' then MethodPassword else MethodExternalIdentity)"

text \<open>
  \<^verbatim>\<open>context_for\<close>: what a principal holds now. The delegation shown is that of the
  first delegated grant of the envelope.
\<close>

definition context_for ::
  "'l Env \<Rightarrow> TenantContext \<Rightarrow> Principal \<Rightarrow> SessionId option \<Rightarrow> int \<Rightarrow> 'l Mesh
   \<Rightarrow> AuthError + RuntimeContext" where
  "context_for env t p sid now s =
     rbind (policy t s) (\<lambda>pol.
     let ds = delegations_for t (p_id p) s in
     rbind (map_err (\<lambda>e. auth_error PolicyEvaluation e TenantMismatch)
              (evaluate_with_delegations (env_clock env) pol p t ds now)) (\<lambda>caps.
     Inr \<lparr>c_principal = p, c_tenant = t, c_session_id = sid,
       c_delegation = (case map_option g_delegation_id
             (find (\<lambda>g. g_delegation_id g \<noteq> None) (granted_capabilities caps)) of
           Some (Some i) \<Rightarrow> find (\<lambda>d. d_id d = i) ds | _ \<Rightarrow> None),
       c_run = None, c_claims = p_claims p, c_capabilities = caps\<rparr>))"

subsection \<open>The audit trail\<close>

definition audit_event_id :: "TenantContext \<Rightarrow> u64 \<Rightarrow> AuditEventId" where
  "audit_event_id t n = ''evt_'' @ hex16 (stable_hash (t_id t @ ''|'' @ show_nat (unat n)))"

definition parse_u64 :: "string \<Rightarrow> u64 option" where
  "parse_u64 s = (case parse_nat (if starts_with ''+'' s then tl s else s) of
     Some n \<Rightarrow> (if n < 2 ^ 64 then Some (of_nat n) else None) | None \<Rightarrow> None)"

definition meta_find :: "(string \<Rightarrow> bool) \<Rightarrow> AuditRecord \<Rightarrow> string option" where
  "meta_find P r = map_option snd (find (\<lambda>e. P (fst e)) (rec_metadata r))"

definition audit_event ::
  "AuthConfig \<Rightarrow> TenantContext \<Rightarrow> u64 \<Rightarrow> AuditRecord \<Rightarrow> int \<Rightarrow> AuditEvent" where
  "audit_event cfg t n r now =
     \<lparr>au_event_id = audit_event_id t n, au_tenant_id = t_id t,
      au_principal_id = rec_principal_id r,
      au_delegator_id = meta_find (\<lambda>k. k = ''delegator'') r,
      au_session_id = rec_session_id r, au_delegation_id = rec_delegation_id r,
      au_run_id = meta_find (\<lambda>k. k = ''run_id'') r,
      au_kind = rec_kind r, au_timestamp = now,
      au_action = meta_find (\<lambda>k. k = ''action'' \<or> k = ''capability'') r,
      au_resource = meta_find (\<lambda>k. k = ''resource'') r,
      au_decision = (case rec_kind r of
          KindAuthorizationGranted \<Rightarrow> Some ''allow''
        | KindAuthorizationDenied \<Rightarrow> Some ''deny'' | _ \<Rightarrow> None),
      au_reason = meta_find (\<lambda>k. k = ''reason'') r,
      au_authority_revision =
        Option.bind (meta_find (\<lambda>k. k = ''authority_revision'') r) parse_u64,
      au_contract_fingerprint = Some (fingerprint cfg), au_durability = DurabilityRequired,
      au_metadata = bcollect (rec_metadata r)\<rparr>"

definition audit ::
  "'l Env \<Rightarrow> TenantContext \<Rightarrow> AuditRecord \<Rightarrow> int \<Rightarrow> ('l Mesh, AuthError, unit) eff" where
  "audit env t r now = (\<lambda>s.
     let e = audit_event (m_config s) t (m_audit_sequence s) r now in
     case env_record env t e (m_audit s) of (res, l) \<Rightarrow>
       (map_err (\<lambda>err. auth_error RuntimeContextStage err TenantMismatch) res,
        s\<lparr>m_audit_sequence := m_audit_sequence s + 1, m_audit := l\<rparr>))"

definition last_audit_event_id :: "TenantContext \<Rightarrow> 'l Mesh \<Rightarrow> AuditEventId" where
  "last_audit_event_id t s =
     audit_event_id t (if m_audit_sequence s = 0 then 0 else m_audit_sequence s - 1)"

definition mesh_audit_events ::
  "'l Env \<Rightarrow> TenantContext \<Rightarrow> int option \<Rightarrow> nat \<Rightarrow> 'l Mesh \<Rightarrow> AuthError + AuditEvent list" where
  "mesh_audit_events env t since lim s =
     map_err (\<lambda>e. auth_error RuntimeContextStage e TenantMismatch)
       (env_events env t since lim (m_audit s))"

definition on_sessions ::
  "(MemorySessionStore, StorageError, 'a) eff \<Rightarrow> ('l Mesh, StorageError, 'a) eff" where
  "on_sessions m = zoom m_sessions (\<lambda>c s. s\<lparr>m_sessions := c\<rparr>) m"

definition on_delegations ::
  "(MemoryDelegationStore, StorageError, 'a) eff \<Rightarrow> ('l Mesh, StorageError, 'a) eff" where
  "on_delegations m = zoom m_delegations (\<lambda>c s. s\<lparr>m_delegations := c\<rparr>) m"

definition on_runs ::
  "(MemoryRunStore, StorageError, 'a) eff \<Rightarrow> ('l Mesh, StorageError, 'a) eff" where
  "on_runs m = zoom m_runs (\<lambda>c s. s\<lparr>m_runs := c\<rparr>) m"

subsection \<open>Authentication, registration and sessions\<close>

definition open_session ::
  "'l Env \<Rightarrow> TenantContext \<Rightarrow> IdentityId \<Rightarrow> int \<Rightarrow> ('l Mesh, AuthError, Session) eff" where
  "open_session env t i now = (\<lambda>s.
     mapErr session_error (on_sessions
       (create_session (env_mint env) t i (i64_add now (m_session_ttl s)))) s)"

text \<open>
  The end that \<^verbatim>\<open>sign_in\<close> and \<^verbatim>\<open>sign_up\<close> share: a session is opened, an event of the
  given kind recorded, and the context built.
\<close>

definition open_authenticated ::
  "'l Env \<Rightarrow> AuditEventKind \<Rightarrow> TenantContext \<Rightarrow> ExternalIdentity \<Rightarrow> ResolvedPrincipal \<Rightarrow> int
   \<Rightarrow> ('l Mesh, AuthError, AuthenticatedSession) eff" where
  "open_authenticated env kind t x rp now =
     andThen (open_session env t (i_id (rp_identity rp)) now) (\<lambda>session.
     andThen (audit env t ((audit_record kind)
         \<lparr>rec_principal_id := Some (p_id (rp_principal rp)), rec_session_id := Some (s_id session),
          rec_metadata :=
            [(''provider'', xi_connector x),
             (''authentication_method'',
               method_as_str (authentication_method_for_provider (xi_connector x))),
             (''authentication_assurance'', assurance_as_str Basic),
             (''authentication_result'', ''success'')]\<rparr>) now) (\<lambda>_.
     andThen (reading (context_for env t (rp_principal rp) (Some (s_id session)) now)) (\<lambda>ctx.
     ok \<lparr>as_session = session, as_external = x, as_context = ctx\<rparr>)))"

definition sign_in ::
  "'l Env \<Rightarrow> string \<Rightarrow> AuthResponse \<Rightarrow> int \<Rightarrow> ('l Mesh, AuthError, AuthenticatedSession) eff" where
  "sign_in env tid rs now =
     andThen (reading (tenant tid)) (\<lambda>t.
     andThen (reading (authenticate_external env t rs)) (\<lambda>x.
     andThen (reading (resolve_principal t x)) (\<lambda>mrp.
     andThen (reading (\<lambda>_. ok_or (auth_error PrincipalResolution
         (''external identity '' @ in_backticks (xi_connector x @ '':'' @ xi_subject x)
          @ '' is not linked in this tenant'') UnknownPrincipal) mrp)) (\<lambda>rp.
     andThen (reading (\<lambda>_. assert_principal_is_usable (rp_principal rp))) (\<lambda>_.
     open_authenticated env KindLogin t x rp now)))))"

definition registration_claims :: "Registration \<Rightarrow> 'l Mesh \<Rightarrow> AuthError + Claims" where
  "registration_claims reg s =
     (if reg_kind reg = Agent
      then rbind (check (reg_claims reg = [])
             (auth_error AgentLifecycle ''agent authority comes from delegation, not from claims''
                ClaimMismatch)) (\<lambda>_. Inr [])
      else resolve_claims (m_config s) (reg_claims reg))"

definition sign_up ::
  "'l Env \<Rightarrow> string \<Rightarrow> AuthResponse \<Rightarrow> Registration \<Rightarrow> int
   \<Rightarrow> ('l Mesh, AuthError, AuthenticatedSession) eff" where
  "sign_up env tid rs reg now =
     andThen (reading (tenant tid)) (\<lambda>t.
     andThen (reading (\<lambda>s. check (\<not> (reg_kind reg = Agent \<and> \<not> cf_agents (m_config s)))
         (auth_error AgentLifecycle (''agents are not declared by '' @ in_backticks ''use auth'')
            UnknownPrincipal))) (\<lambda>_.
     andThen (reading (authenticate_external env t rs)) (\<lambda>x.
     andThen (reading (registration_claims reg)) (\<lambda>cs.
     andThen (provision_principal t x (reg_kind reg) cs now) (\<lambda>rp.
     open_authenticated env KindAccountLinked t x rp now)))))"

definition mesh_link_account ::
  "'l Env \<Rightarrow> string \<Rightarrow> PrincipalId \<Rightarrow> AuthResponse \<Rightarrow> int
   \<Rightarrow> ('l Mesh, AuthError, ExternalBinding) eff" where
  "mesh_link_account env tid i rs now =
     andThen (reading (tenant tid)) (\<lambda>t.
     andThen (reading (authenticate_external env t rs)) (\<lambda>x.
     andThen (link_external_identity t i x now) (\<lambda>b.
     andThen (audit env t ((audit_record KindAccountLinked)
         \<lparr>rec_principal_id := Some i, rec_metadata := [(''connector'', xi_connector x)]\<rparr>) now)
       (\<lambda>_. ok b))))"

definition logout :: "'l Env \<Rightarrow> string \<Rightarrow> SessionId \<Rightarrow> int \<Rightarrow> ('l Mesh, AuthError, unit) eff" where
  "logout env tid sid now =
     andThen (reading (tenant tid)) (\<lambda>t.
     andThen (mapErr session_error (on_sessions (revoke_session t sid now))) (\<lambda>_.
     audit env t ((audit_record KindSessionRevoked)\<lparr>rec_session_id := Some sid\<rparr>) now))"

definition resolve_session ::
  "'l Env \<Rightarrow> string \<Rightarrow> SessionId \<Rightarrow> int \<Rightarrow> 'l Mesh \<Rightarrow> AuthError + Session \<times> RuntimeContext" where
  "resolve_session env tid sid now s =
     rbind (tenant tid s) (\<lambda>t.
     rbind (map_err session_error (validate_session t sid now (m_sessions s))) (\<lambda>session.
     rbind (map_err identity_error
              (get_identity t (s_identity_id session) (dir_identities s))) (\<lambda>mi.
     rbind (ok_or (auth_error IdentityResolution ''session identity is unknown'' InvalidSession) mi)
       (\<lambda>identity.
     rbind (ok_or (auth_error PrincipalResolution ''session identity is not bound to a principal''
                UnknownPrincipal)
              (resolve_external_identity t (i_provider identity) (i_provider_subject identity)
                 (dir_principals s))) (\<lambda>i.
     rbind (principal_of t i s) (\<lambda>p.
     rbind (assert_principal_is_usable p) (\<lambda>_.
     rbind (context_for env t p (Some (s_id session)) now s) (\<lambda>ctx.
     Inr (session, ctx)))))))))"

definition session_context ::
  "'l Env \<Rightarrow> string \<Rightarrow> SessionId \<Rightarrow> int \<Rightarrow> 'l Mesh \<Rightarrow> AuthError + RuntimeContext" where
  "session_context env tid sid now s =
     rbind (resolve_session env tid sid now s) (\<lambda>(_, ctx). Inr ctx)"

subsection \<open>A sample mesh\<close>

text \<open>
  A mesh with one tenant, a human, an agent, a service and a delegation from the human to the
  agent, over the in-memory audit log.
\<close>

definition sample_env :: "MemoryAuditLog Env" where
  "sample_env = \<lparr>env_argon2 = sample_argon2, env_mint = (\<lambda>n. ''sess_'' @ show_nat (unat n)),
     env_clock = Some 0, env_record = record_event,
     env_events = (\<lambda>t since lim l. Inr (audit_events t since lim l))\<rparr>"

definition sample_mesh :: "MemoryAuditLog Mesh" where
  "sample_mesh =
     \<lparr>dir_identities = identity_store_new,
      dir_principals = \<lparr>st_principals = [(''alice'', sample_human), (''bot'', sample_agent),
        (''cron'', sample_service)], st_bindings = []\<rparr>,
      m_config = (sample_contract [''local''])\<lparr>cf_agents := True\<rparr>,
      m_registry = [(''local'', LocalConn [])],
      m_tenants = \<lparr>st_tenants = [(''acme'', sample_tenant)]\<rparr>,
      m_sessions = session_store_new,
      m_delegations = \<lparr>st_delegations = [(''d1'', sample_delegation ''bot'')]\<rparr>,
      m_runs = run_store_new, m_policies = [(''p1'', sample_policy)],
      m_audit = audit_log_new, m_session_ttl = 3600, m_audit_sequence = 0, m_run_sequence = 0,
      m_decisions = []\<rparr>"

definition sample_context :: "Principal \<Rightarrow> RuntimeContext" where
  "sample_context p = \<lparr>c_principal = p, c_tenant = sample_tenant, c_session_id = None,
     c_delegation = None, c_run = None, c_claims = p_claims p, c_capabilities = envelope_empty\<rparr>"

lemma sample_audit_log: "audit_log (env_record sample_env) log_events"
  using mem_log.audit_log_axioms by (simp add: sample_env_def)

lemma sample_tenant_found [simp]: "tenant ''acme'' (sample_mesh\<lparr>m_runs := rs\<rparr>) = Inr sample_tenant"
  by (simp add: tenant_def trim_plain plain_def sample_mesh_def get_tenant_def check_def)

end
