(* ===== verification/Authority.thy ===== *)
theory Authority
  imports Mesh
begin

text \<open>
  The mesh operations that pass authority on or take it away
  (\<^verbatim>\<open>crates/runtime/src/mesh.rs\<close>, from \<^verbatim>\<open>delegate\<close> to
  \<^verbatim>\<open>set_agent_state\<close>): delegation and its revocation, agent runs and their
  cancellation, and the lifecycle of agents.
\<close>

subsection \<open>Delegation\<close>

text \<open>
  The loop of \<^verbatim>\<open>delegate\<close> over the requested capabilities, with the chain it
  accumulates: the delegator holds each one, and a delegator that is an agent narrows the first
  live delegation it holds it by.
\<close>

fun check_delegable ::
  "Principal \<Rightarrow> Delegation list \<Rightarrow> CapabilityEnvelope \<Rightarrow> DelegationRequest \<Rightarrow> int
   \<Rightarrow> Capability list \<Rightarrow> DelegationId list \<Rightarrow> AuthError + DelegationId list" where
  "check_delegable p ds env rq now [] chain = Inr chain"
| "check_delegable p ds env rq now (cap # caps) chain =
     (let not_held = auth_error DelegationManagement
            (''delegator '' @ in_backticks (dr_delegator rq) @ '' does not hold '' @ in_backticks cap)
            DelegationExceedsAuthority
      in
      rbind (check (envelope_allows env cap) not_held) (\<lambda>_.
      if p_kind p = Agent then
        rbind (ok_or not_held
                 (find (\<lambda>d. is_valid_at d now \<and> cap \<in> set (d_capabilities d)) ds)) (\<lambda>parent.
        rbind (check (is_subset_of (dr_resource_scope rq) (d_resource_scope parent))
          (auth_error DelegationManagement ''delegation scope must narrow the delegator's authority''
             DelegationScopeDenied)) (\<lambda>_.
        check_delegable p ds env rq now caps
          (if chain = [] then d_chain parent @ [d_id parent] else chain)))
      else check_delegable p ds env rq now caps chain))"

definition invalid_delegation :: "StorageError \<Rightarrow> AuthError" where
  "invalid_delegation e = auth_error DelegationManagement e InvalidDelegation"

definition delegate ::
  "'l Env \<Rightarrow> string \<Rightarrow> DelegationRequest \<Rightarrow> int \<Rightarrow> ('l Mesh, AuthError, Delegation) eff" where
  "delegate env tid rq now =
     andThen (reading (tenant tid)) (\<lambda>t.
     andThen (reading (\<lambda>s. check (cf_agents (m_config s))
         (auth_error DelegationManagement (''delegation requires '' @ in_backticks ''agents = true'')
            InvalidDelegation))) (\<lambda>_.
     andThen (require (dr_capabilities rq \<noteq> [])
         (delegation_error ''delegation must be capability-scoped'')) (\<lambda>_.
     andThen (require (case dr_expires_at rq of
           Some e \<Rightarrow> \<not> (e \<le> dr_issued_at rq \<or> e \<le> now) | None \<Rightarrow> True)
         (delegation_error ''delegation expires before it can be used'')) (\<lambda>_.
     andThen (reading (principal_of t (dr_delegator rq))) (\<lambda>delegator.
     andThen (reading (principal_of t (dr_delegate rq))) (\<lambda>target.
     andThen (require (p_kind target \<noteq> Human)
         (delegation_error ''delegation targets an agent or a service'')) (\<lambda>_.
     andThen (reading (\<lambda>_. assert_principal_is_usable target)) (\<lambda>_.
     andThen (reading (policy t)) (\<lambda>pol.
     andThen (reading (\<lambda>s. Inr (delegations_for t (p_id delegator) s))) (\<lambda>ds.
     andThen (reading (\<lambda>_. map_err (\<lambda>e. auth_error PolicyEvaluation e PolicyNotFound)
         (evaluate_with_delegations (env_clock env) pol delegator t ds now))) (\<lambda>caps.
     andThen (reading (\<lambda>_. check_delegable delegator ds caps rq now (dr_capabilities rq) []))
       (\<lambda>chain.
     andThen (mapErr invalid_delegation (on_delegations (create_delegation
         \<lparr>d_id = dr_id rq, d_delegator = dr_delegator rq, d_delegate = dr_delegate rq,
          d_tenant_id = t_id t, d_capabilities = dr_capabilities rq,
          d_resource_scope = dr_resource_scope rq, d_issued_at = dr_issued_at rq,
          d_expires_at = dr_expires_at rq, d_revoked_at = None, d_chain = chain\<rparr>))) (\<lambda>d.
     andThen (audit env t ((audit_record KindDelegationCreated)
         \<lparr>rec_principal_id := Some (d_delegate d), rec_delegation_id := Some (d_id d),
          rec_metadata := [(''delegator'', d_delegator d)]\<rparr>) now) (\<lambda>_.
     ok d))))))))))))))"

definition revoke_delegation ::
  "'l Env \<Rightarrow> string \<Rightarrow> DelegationId \<Rightarrow> int \<Rightarrow> ('l Mesh, AuthError, unit) eff" where
  "revoke_delegation env tid i now =
     andThen (reading (tenant tid)) (\<lambda>t.
     andThen (mapErr invalid_delegation (on_delegations (store_revoke_delegation t i now))) (\<lambda>_.
     audit env t ((audit_record KindDelegationRevoked)\<lparr>rec_delegation_id := Some i\<rparr>) now))"

subsection \<open>Runs\<close>

definition run_not_found :: "StorageError \<Rightarrow> AuthError" where
  "run_not_found e = run_error RunNotFound e"

definition agent_runs :: "TenantContext \<Rightarrow> PrincipalId \<Rightarrow> 'l Mesh \<Rightarrow> AgentRun list" where
  "agent_runs t agent s = list_runs_for_agent t agent (m_runs s)"

definition agent_run :: "TenantContext \<Rightarrow> RunId \<Rightarrow> 'l Mesh \<Rightarrow> AuthError + AgentRun option" where
  "agent_run t i s = map_err run_not_found (get_run t i (m_runs s))"

definition agent_run_by_credential ::
  "TenantContext \<Rightarrow> ExecutionCredentialId \<Rightarrow> 'l Mesh \<Rightarrow> AgentRun option" where
  "agent_run_by_credential t c s = find_run_by_credential t c (m_runs s)"

definition next_run_id :: "TenantContext \<Rightarrow> ('l Mesh, AuthError, RunId) eff" where
  "next_run_id t = (\<lambda>s.
     (Inr (''run_'' @ hex16 (stable_hash (t_id t @ ''|'' @ show_nat (unat (m_run_sequence s))))),
      s\<lparr>m_run_sequence := m_run_sequence s + 1\<rparr>))"

definition execution_credential ::
  "TenantContext \<Rightarrow> RunId \<Rightarrow> 'l Mesh \<Rightarrow> ExecutionCredentialId" where
  "execution_credential t i s =
     ''exec_'' @ hex16 (stable_hash (t_id t @ ''|'' @ i @ ''|'' @ fingerprint (m_config s)))"

definition checked_run ::
  "TenantContext \<Rightarrow> RunId \<Rightarrow> int \<Rightarrow> 'l Mesh \<Rightarrow> AuthError + AgentRun" where
  "checked_run t i now s =
     rbind (agent_run t i s) (\<lambda>mr.
     rbind (ok_or (run_error RunNotFound ''run not found'') mr) (\<lambda>r.
     rbind (case r_status r of
         StatusActive \<Rightarrow> Inr ()
       | StatusCancelled \<Rightarrow> Inl (run_error RunCancelled ''run is cancelled'')
       | StatusExpired \<Rightarrow> Inl (run_error RunExpired ''run is expired'')
       | StatusCompleted \<Rightarrow> Inl (run_error RunCancelled ''run is no longer active'')
       | StatusFailed \<Rightarrow> Inl (run_error RunCancelled ''run is no longer active'')) (\<lambda>_.
     rbind (check (\<not> now \<ge> r_expires_at r) (run_error RunExpired ''run is expired'')) (\<lambda>_.
     Inr r))))"

definition tenant_scope_holds :: "ResourceScope \<Rightarrow> TenantId \<Rightarrow> bool" where
  "tenant_scope_holds sc i =
     (case (case map_of (rs_attributes sc) ''tenant'' of
              Some v \<Rightarrow> Some v | None \<Rightarrow> map_of (rs_attributes sc) ''tenant_id'') of
        Some v \<Rightarrow> matches_tenant v i | None \<Rightarrow> True)"

text \<open>The delegation a run is created under, with the checks on it and on the request.\<close>

definition run_delegation ::
  "TenantContext \<Rightarrow> PrincipalId \<Rightarrow> RunCreationRequest \<Rightarrow> int \<Rightarrow> 'l Mesh
   \<Rightarrow> AuthError + Delegation" where
  "run_delegation t agent rq now s =
     rbind (map_err invalid_delegation (get_delegation t (cr_delegation_id rq) (m_delegations s)))
       (\<lambda>md.
     rbind (ok_or (run_error DelegationMissing ''delegation not found'') md) (\<lambda>d.
     rbind (check (d_delegate d = agent \<and> d_tenant_id d = t_id t)
       (run_error InvalidDelegation ''delegation does not belong to this agent'')) (\<lambda>_.
     rbind (check (d_revoked_at d = None)
       (run_error RevokedDelegation ''delegation is revoked'')) (\<lambda>_.
     rbind (check (is_valid_at d now)
       (run_error ExpiredDelegation ''delegation is expired'')) (\<lambda>_.
     rbind (check (case d_expires_at d of Some e \<Rightarrow> \<not> cr_expires_at rq > e | None \<Rightarrow> True)
       (run_error RunExceedsDelegation ''run expiration exceeds delegation lifetime'')) (\<lambda>_.
     rbind (for_each (\<lambda>cap. check (cap \<in> set (d_capabilities d))
         (run_error RunExceedsDelegation
            (''run requests '' @ in_backticks cap @ '' outside delegation'')))
         (cr_capabilities rq)) (\<lambda>_.
     rbind (check (tenant_scope_holds (cr_resource_scope rq) (t_id t))
       (run_error RunExceedsDelegation ''run resource scope crosses tenant boundary'')) (\<lambda>_.
     rbind (check (is_subset_of (cr_resource_scope rq) (d_resource_scope d))
       (run_error RunExceedsDelegation ''run resource scope must narrow the delegation'')) (\<lambda>_.
     Inr d)))))))))"

definition run_parent_ok ::
  "TenantContext \<Rightarrow> RunCreationRequest \<Rightarrow> int \<Rightarrow> 'l Mesh \<Rightarrow> AuthError + unit" where
  "run_parent_ok t rq now s = (case cr_parent_run_id rq of
     None \<Rightarrow> Inr ()
   | Some i \<Rightarrow>
       rbind (map_err (\<lambda>_. run_error ParentRunScopeDenied ''parent run is not valid'')
                (checked_run t i now s)) (\<lambda>parent.
       rbind (for_each (\<lambda>cap. check (cap \<in> set (r_capability_scope parent))
           (run_error ParentRunScopeDenied
              (''child run requests '' @ in_backticks cap @ '' outside parent run'')))
           (cr_capabilities rq)) (\<lambda>_.
       check (is_subset_of (cr_resource_scope rq) (r_resource_scope parent)
              \<and> \<not> cr_expires_at rq > r_expires_at parent)
         (run_error ParentRunScopeDenied ''child run must narrow the parent run''))))"

text \<open>The record of a new run.\<close>

definition new_run ::
  "TenantContext \<Rightarrow> PrincipalId \<Rightarrow> RunCreationRequest \<Rightarrow> int \<Rightarrow> u64 \<Rightarrow> string \<Rightarrow> Delegation
   \<Rightarrow> RunId \<Rightarrow> ExecutionCredentialId \<Rightarrow> AgentRun" where
  "new_run t agent rq now revision contract_fp d i credential =
     \<lparr>r_id = i, r_tenant_id = t_id t, r_agent_principal = agent,
       r_delegator = d_delegator d, r_delegation_id = d_id d,
       r_delegation_chain = d_chain d @ [d_id d],
       r_task = \<lparr>ts_id = cr_task_id rq, ts_purpose = cr_task_purpose rq,
          ts_capabilities = cr_capabilities rq, ts_resource_scope = cr_resource_scope rq,
          ts_expires_at = cr_expires_at rq, ts_constraints = cr_constraints rq\<rparr>,
       r_parent_run_id = cr_parent_run_id rq, r_created_at = now,
       r_expires_at = cr_expires_at rq, r_status = StatusActive,
       r_authority_revision = revision, r_contract_fingerprint = contract_fp,
       r_capability_scope = cr_capabilities rq, r_resource_scope = cr_resource_scope rq,
       r_execution_credential = credential, r_cancelled_at = None\<rparr>"

definition create_agent_run ::
  "'l Env \<Rightarrow> string \<Rightarrow> PrincipalId \<Rightarrow> RunCreationRequest \<Rightarrow> int \<Rightarrow> u64 \<Rightarrow> string
   \<Rightarrow> ('l Mesh, AuthError, AgentRun) eff" where
  "create_agent_run env tid agent rq now revision contract_fp =
     andThen (reading (tenant tid)) (\<lambda>t.
     andThen (require (cr_capabilities rq \<noteq> [])
         (run_error RunExceedsDelegation ''run task must request structured capabilities'')) (\<lambda>_.
     andThen (require (\<not> cr_expires_at rq \<le> now)
         (run_error RunExpired ''run expires before it can be used'')) (\<lambda>_.
     andThen (reading (principal_of t agent)) (\<lambda>p.
     andThen (require (p_kind p = Agent)
         (run_error RunNotFound ''run principal must be an agent'')) (\<lambda>_.
     andThen (reading (\<lambda>_. assert_principal_is_usable p)) (\<lambda>_.
     andThen (reading (run_delegation t agent rq now)) (\<lambda>d.
     andThen (reading (run_parent_ok t rq now)) (\<lambda>_.
     andThen (case cr_id rq of Some i \<Rightarrow> ok i | None \<Rightarrow> next_run_id t) (\<lambda>i.
     andThen (reading (\<lambda>s. Inr (execution_credential t i s))) (\<lambda>credential.
     let r = new_run t agent rq now revision contract_fp d i credential in
     andThen (mapErr run_not_found (on_runs (put_run r))) (\<lambda>_.
     andThen (audit env t ((audit_record KindAgentRunCreated)
         \<lparr>rec_principal_id := Some (r_agent_principal r),
          rec_delegation_id := Some (r_delegation_id r),
          rec_metadata := [(''run_id'', r_id r), (''task_id'', ts_id (r_task r))]\<rparr>) now) (\<lambda>_.
     ok r))))))))))))"

definition cancel_agent_run ::
  "'l Env \<Rightarrow> string \<Rightarrow> RunId \<Rightarrow> int \<Rightarrow> ('l Mesh, AuthError, AgentRun) eff" where
  "cancel_agent_run env tid i now =
     andThen (reading (tenant tid)) (\<lambda>t.
     andThen (reading (agent_run t i)) (\<lambda>mr.
     andThen (reading (\<lambda>_. ok_or (run_error RunNotFound ''run not found'') mr)) (\<lambda>r.
     andThen (mapErr run_not_found (on_runs
         (update_run t (r\<lparr>r_status := StatusCancelled, r_cancelled_at := Some now\<rparr>)))) (\<lambda>r.
     andThen (audit env t ((audit_record KindAgentRunCancelled)
         \<lparr>rec_principal_id := Some (r_agent_principal r),
          rec_delegation_id := Some (r_delegation_id r),
          rec_metadata := [(''run_id'', r_id r), (''task_id'', ts_id (r_task r))]\<rparr>) now) (\<lambda>_.
     ok r)))))"

subsection \<open>The lifecycle of agents\<close>

definition agent_event_kind :: "AgentState \<Rightarrow> AuditEventKind" where
  "agent_event_kind state = (case state of
     StateSuspended \<Rightarrow> KindAgentSuspended | StateRevoked \<Rightarrow> KindAgentRevoked
   | _ \<Rightarrow> KindAgentCreated)"

definition mesh_set_agent_state ::
  "'l Env \<Rightarrow> string \<Rightarrow> PrincipalId \<Rightarrow> AgentState \<Rightarrow> int \<Rightarrow> ('l Mesh, AuthError, unit) eff" where
  "mesh_set_agent_state env tid agent state now =
     andThen (reading (tenant tid)) (\<lambda>t.
     andThen (mapErr (\<lambda>e. auth_error AgentLifecycle e UnknownPrincipal)
         (on_principals (set_agent_state t agent state))) (\<lambda>_.
     audit env t ((audit_record (agent_event_kind state))\<lparr>rec_principal_id := Some agent\<rparr>) now))"

definition suspend_agent ::
  "'l Env \<Rightarrow> string \<Rightarrow> PrincipalId \<Rightarrow> int \<Rightarrow> ('l Mesh, AuthError, unit) eff" where
  "suspend_agent env tid agent now = mesh_set_agent_state env tid agent StateSuspended now"

definition revoke_agent ::
  "'l Env \<Rightarrow> string \<Rightarrow> PrincipalId \<Rightarrow> int \<Rightarrow> ('l Mesh, AuthError, unit) eff" where
  "revoke_agent env tid agent now = mesh_set_agent_state env tid agent StateRevoked now"

definition retire_agent ::
  "'l Env \<Rightarrow> string \<Rightarrow> PrincipalId \<Rightarrow> int \<Rightarrow> ('l Mesh, AuthError, unit) eff" where
  "retire_agent env tid agent now = mesh_set_agent_state env tid agent StateRetired now"

end
