(* ===== verification/Authorize.thy ===== *)
theory Authorize
  imports Authority
begin

text \<open>
  The authorization entry points of the mesh (\<^verbatim>\<open>crates/runtime/src/mesh.rs\<close>):
  \<^verbatim>\<open>authorize\<close>, \<^verbatim>\<open>authorize_request\<close> and
  \<^verbatim>\<open>authorize_run_request\<close>, each of which decides, records the decision in the audit
  trail, and returns it only when it could be recorded.
\<close>

subsection \<open>What a decision is recorded as\<close>

definition decision_record ::
  "RuntimeContext \<Rightarrow> Capability \<Rightarrow> AuthorizationDecision \<Rightarrow> AuditRecord" where
  "decision_record ctx cap d =
     (let delegation_id =
            (case Option.bind (decision_grant d) g_delegation_id of
               Some i \<Rightarrow> Some i | None \<Rightarrow> map_option d_id (c_delegation ctx))
      in (audit_record (if is_allowed d then KindAuthorizationGranted else KindAuthorizationDenied))
        \<lparr>rec_principal_id := Some (p_id (c_principal ctx)),
         rec_session_id := c_session_id ctx,
         rec_delegation_id := delegation_id,
         rec_metadata :=
           [(''capability'', cap)]
           @ (case c_run ctx of
                Some r \<Rightarrow> [(''run_id'', r_id r), (''task_id'', ts_id (r_task r))] | None \<Rightarrow> [])
           @ (case denial_reason d of Some e \<Rightarrow> [(''reason'', denial_as_str e)] | None \<Rightarrow> [])
           @ (case dec_resource d of
                Some res \<Rightarrow> [(''resource'', resource_opaque res),
                  (''resource_type'', rr_resource_type res), (''resource_tenant'', rr_tenant_id res)]
              | None \<Rightarrow> [])
           @ (case dec_action d of Some a \<Rightarrow> [(''action'', a)] | None \<Rightarrow> [])\<rparr>)"

definition record_decision ::
  "'l Env \<Rightarrow> RuntimeContext \<Rightarrow> Capability \<Rightarrow> AuthorizationDecision \<Rightarrow> int
   \<Rightarrow> ('l Mesh, AuthError, AuditEventId) eff" where
  "record_decision env ctx cap d now =
     andThen (audit env (c_tenant ctx) (decision_record ctx cap d) now) (\<lambda>_.
     reading (\<lambda>s. Inr (last_audit_event_id (c_tenant ctx) s)))"

definition attach_audit_event ::
  "AuthorizationDecision \<Rightarrow> AuditEventId \<Rightarrow> AuthorizationDecision" where
  "attach_audit_event d i = (case d of
     Allow g res act rules conds _ \<Rightarrow> Allow g res act rules conds (Some i)
   | Deny reason cap res act pol rules conds _ \<Rightarrow> Deny reason cap res act pol rules conds (Some i))"

definition fallback_decision_id :: "RuntimeContext \<Rightarrow> Capability \<Rightarrow> int \<Rightarrow> string" where
  "fallback_decision_id ctx cap now =
     ''decision_'' @ hex16 (stable_hash
       (t_id (c_tenant ctx) @ ''|'' @ p_id (c_principal ctx) @ ''|'' @ cap @ ''|'' @ show_int now))"

definition decision_evidence ::
  "RuntimeContext \<Rightarrow> Capability \<Rightarrow> AuthorizationDecision \<Rightarrow> int \<Rightarrow> u64 \<Rightarrow> string
   \<Rightarrow> AuthorizationEvidence" where
  "decision_evidence ctx cap d now revision contract_fp =
     (let run = c_run ctx;
          decision_id = (case dec_audit_event_id d of
            Some i \<Rightarrow> i | None \<Rightarrow> fallback_decision_id ctx cap now)
      in case d of
        Allow g res act rules conds ev \<Rightarrow>
          \<lparr>ae_decision_id = decision_id, ae_timestamp = now,
           ae_principal = p_id (c_principal ctx), ae_tenant = t_id (c_tenant ctx),
           ae_capability = g_capability g, ae_action = act, ae_resource = res,
           ae_policy_id = Some (g_policy_id g), ae_matched_rules = rules, ae_conditions = conds,
           ae_authority = Some (g_authority g), ae_delegated_by = g_delegated_by g,
           ae_delegation_chain = g_delegation_chain g, ae_run_id = map_option r_id run,
           ae_task_id = map_option (\<lambda>r. ts_id (r_task r)) run,
           ae_agent_principal = map_option r_agent_principal run,
           ae_delegation_id = map_option r_delegation_id run,
           ae_parent_run_id = Option.bind run r_parent_run_id,
           ae_execution_scope = map_option r_resource_scope run,
           ae_authority_revision = revision, ae_contract_fingerprint = contract_fp,
           ae_decision = OutcomeAllow, ae_reason = decision_reason d, ae_audit_event_id = ev\<rparr>
      | Deny reason denied res act pol rules conds ev \<Rightarrow>
          \<lparr>ae_decision_id = decision_id, ae_timestamp = now,
           ae_principal = p_id (c_principal ctx), ae_tenant = t_id (c_tenant ctx),
           ae_capability = (case denied of Some c \<Rightarrow> c | None \<Rightarrow> cap),
           ae_action = act, ae_resource = res,
           ae_policy_id = pol, ae_matched_rules = rules, ae_conditions = conds,
           ae_authority = None, ae_delegated_by = map_option r_delegator run,
           ae_delegation_chain = (case run of Some r \<Rightarrow> r_delegation_chain r | None \<Rightarrow> []),
           ae_run_id = map_option r_id run,
           ae_task_id = map_option (\<lambda>r. ts_id (r_task r)) run,
           ae_agent_principal = map_option r_agent_principal run,
           ae_delegation_id = map_option r_delegation_id run,
           ae_parent_run_id = Option.bind run r_parent_run_id,
           ae_execution_scope = map_option r_resource_scope run,
           ae_authority_revision = revision, ae_contract_fingerprint = contract_fp,
           ae_decision = OutcomeDeny, ae_reason = decision_reason d, ae_audit_event_id = ev\<rparr>)"

definition remember_decision ::
  "RuntimeContext \<Rightarrow> Capability \<Rightarrow> AuthorizationDecision \<Rightarrow> int \<Rightarrow> u64 \<Rightarrow> 'l Mesh
   \<Rightarrow> AuthorizationDecision \<times> 'l Mesh" where
  "remember_decision ctx cap d now revision s =
     (let ds = m_decisions s
            @ [decision_evidence ctx cap d now revision (fingerprint (m_config s))]
      in (d, s\<lparr>m_decisions := (if length ds > 100 then tl ds else ds)\<rparr>))"

definition recent_decisions :: "'l Mesh \<Rightarrow> AuthorizationEvidence list" where
  "recent_decisions s = m_decisions s"

text \<open>The last step of every entry point.\<close>

definition conclude ::
  "'l Env \<Rightarrow> RuntimeContext \<Rightarrow> Capability \<Rightarrow> AuthorizationDecision \<Rightarrow> int \<Rightarrow> u64 \<Rightarrow> 'l Mesh
   \<Rightarrow> AuthorizationDecision \<times> 'l Mesh" where
  "conclude env ctx cap d now revision s =
     (case record_decision env ctx cap d now s of
        (Inr i, s') \<Rightarrow> remember_decision ctx cap (attach_audit_event d i) now revision s'
      | (Inl _, s') \<Rightarrow> (deny AuditUnavailable, s'))"

subsection \<open>Deciding\<close>

definition pick_delegation :: "Delegation list \<Rightarrow> Capability \<Rightarrow> int \<Rightarrow> Delegation option" where
  "pick_delegation ds cap now =
     (case find (\<lambda>d. is_valid_at d now \<and> cap \<in> set (d_capabilities d)) ds of
        Some d \<Rightarrow> Some d
      | None \<Rightarrow> find (\<lambda>d. cap \<in> set (d_capabilities d)) ds)"

definition authorize_with_authority_revision ::
  "'l Env \<Rightarrow> RuntimeContext \<Rightarrow> Capability \<Rightarrow> int \<Rightarrow> u64 \<Rightarrow> 'l Mesh
   \<Rightarrow> AuthorizationDecision \<times> 'l Mesh" where
  "authorize_with_authority_revision env ctx cap now revision s =
     (case policy (c_tenant ctx) s of
        Inl _ \<Rightarrow> (deny PolicyNotFound, s)
      | Inr pol \<Rightarrow>
          let ds = delegations_for (c_tenant ctx) (p_id (c_principal ctx)) s;
              d = evaluate_capability (env_clock env) (Some pol) (Some (c_principal ctx))
                    (Some (c_tenant ctx)) (pick_delegation ds cap now) cap now
          in conclude env ctx cap d now revision s)"

definition authorize ::
  "'l Env \<Rightarrow> RuntimeContext \<Rightarrow> Capability \<Rightarrow> int \<Rightarrow> 'l Mesh
   \<Rightarrow> AuthorizationDecision \<times> 'l Mesh" where
  "authorize env ctx cap now = authorize_with_authority_revision env ctx cap now 0"

definition authorize_request_with_authority_revision ::
  "'l Env \<Rightarrow> RuntimeContext \<Rightarrow> AuthorizationRequest \<Rightarrow> ResourceAttributes option \<Rightarrow> int \<Rightarrow> u64
   \<Rightarrow> 'l Mesh \<Rightarrow> AuthorizationDecision \<times> 'l Mesh" where
  "authorize_request_with_authority_revision env ctx rq attrs now revision s =
     (case policy (c_tenant ctx) s of
        Inl _ \<Rightarrow> (deny PolicyNotFound, s)
      | Inr pol \<Rightarrow>
          let ds = delegations_for (c_tenant ctx) (p_id (c_principal ctx)) s;
              d = evaluate_authorization_request (env_clock env) (Some pol)
                    (Some (c_principal ctx)) (Some (c_tenant ctx))
                    (pick_delegation ds (rq_capability rq) now) rq attrs now
          in conclude env ctx (rq_capability rq) d now revision s)"

definition authorize_request ::
  "'l Env \<Rightarrow> RuntimeContext \<Rightarrow> AuthorizationRequest \<Rightarrow> ResourceAttributes option \<Rightarrow> int
   \<Rightarrow> 'l Mesh \<Rightarrow> AuthorizationDecision \<times> 'l Mesh" where
  "authorize_request env ctx rq attrs now =
     authorize_request_with_authority_revision env ctx rq attrs now 0"

subsection \<open>Requests of a run\<close>

definition resource_scope_matches ::
  "ResourceScope \<Rightarrow> AuthorizationRequest \<Rightarrow> ResourceAttributes option \<Rightarrow> bool" where
  "resource_scope_matches sc rq attrs =
     (if is_unconstrained sc then True
      else case rq_resource rq of
        None \<Rightarrow> False
      | Some res \<Rightarrow>
          (case rs_resource_type sc of
             Some ty \<Rightarrow> ty = rr_resource_type res | None \<Rightarrow> True)
          \<and> (case rs_resource_id sc of
               Some i \<Rightarrow> i = ''*'' \<or> i = rr_resource_id res | None \<Rightarrow> True)
          \<and> list_all (\<lambda>(k, expected).
               if k = ''tenant'' \<or> k = ''tenant_id''
               then matches_tenant expected (rr_tenant_id res)
               else resource_value attrs k = Some expected) (rs_attributes sc))"

definition checked_run_for_request ::
  "RuntimeContext \<Rightarrow> RunId \<Rightarrow> AuthorizationRequest \<Rightarrow> ResourceAttributes option \<Rightarrow> int
   \<Rightarrow> 'l Mesh \<Rightarrow> DenialReason \<times> AgentRun option + AgentRun" where
  "checked_run_for_request ctx i rq attrs now s =
     (case checked_run (c_tenant ctx) i now s of
        Inl e \<Rightarrow> Inl (er_denial e, None)
      | Inr r \<Rightarrow>
          if r_agent_principal r \<noteq> p_id (c_principal ctx) \<or> r_tenant_id r \<noteq> t_id (c_tenant ctx)
          then Inl (RunNotFound, Some r)
          else if rq_capability rq \<notin> set (r_capability_scope r) then Inl (RunScopeDenied, Some r)
          else if \<not> resource_scope_matches (r_resource_scope r) rq attrs
          then Inl (RunScopeDenied, Some r)
          else Inr r)"

definition request_in_run :: "AuthorizationRequest \<Rightarrow> AgentRun \<Rightarrow> AuthorizationRequest" where
  "request_in_run rq r = rq\<lparr>rq_context := (rq_context rq)
     \<lparr>cx_run_id := Some (r_id r), cx_task_id := Some (ts_id (r_task r)),
      cx_agent_principal := Some (r_agent_principal r),
      cx_delegation_id := Some (r_delegation_id r),
      cx_delegation_chain := r_delegation_chain r\<rparr>\<rparr>"

definition authorize_run_request_with_authority_revision ::
  "'l Env \<Rightarrow> RuntimeContext \<Rightarrow> RunId \<Rightarrow> AuthorizationRequest \<Rightarrow> ResourceAttributes option
   \<Rightarrow> int \<Rightarrow> u64 \<Rightarrow> 'l Mesh \<Rightarrow> AuthorizationDecision \<times> 'l Mesh" where
  "authorize_run_request_with_authority_revision env ctx i rq attrs now revision s =
     (case checked_run_for_request ctx i rq attrs now s of
        Inr r \<Rightarrow>
          authorize_request_with_authority_revision env (with_run ctx r) (request_in_run rq r)
            attrs now revision s
      | Inl (reason, mr) \<Rightarrow>
          let run_ctx = (case mr of Some r \<Rightarrow> with_run ctx r | None \<Rightarrow> ctx);
              pid = (case policy (c_tenant ctx) s of Inr pol \<Rightarrow> Some (pol_id pol) | Inl _ \<Rightarrow> None);
              d = Deny reason (Some (rq_capability rq)) (rq_resource rq) (Some (rq_action rq)) pid
                    [] [] None
          in conclude env run_ctx (rq_capability rq) d now revision s)"

subsection \<open>How a decision is concluded\<close>

definition decision_event ::
  "'l Mesh \<Rightarrow> RuntimeContext \<Rightarrow> Capability \<Rightarrow> AuthorizationDecision \<Rightarrow> int \<Rightarrow> AuditEvent" where
  "decision_event s ctx cap d now =
     audit_event (m_config s) (c_tenant ctx) (m_audit_sequence s) (decision_record ctx cap d) now"

lemma decision_event_simps [simp]:
  "au_event_id (decision_event s ctx cap d now)
     = audit_event_id (c_tenant ctx) (m_audit_sequence s)"
  "au_tenant_id (decision_event s ctx cap d now) = t_id (c_tenant ctx)"
  "au_principal_id (decision_event s ctx cap d now) = Some (p_id (c_principal ctx))"
  "au_session_id (decision_event s ctx cap d now) = c_session_id ctx"
  "au_kind (decision_event s ctx cap d now)
     = (if is_allowed d then KindAuthorizationGranted else KindAuthorizationDenied)"
  "au_timestamp (decision_event s ctx cap d now) = now"
  "au_action (decision_event s ctx cap d now) = Some cap"
  "au_decision (decision_event s ctx cap d now)
     = Some (if is_allowed d then ''allow'' else ''deny'')"
  "au_authority_revision (decision_event s ctx cap d now) = None"
  by (simp_all add: decision_event_def audit_event_def decision_record_def audit_record_def Let_def
      meta_find_def split: option.split)

lemma decision_event_reason:
  "au_reason (decision_event s ctx cap d now) = map_option denial_as_str (denial_reason d)"
  by (simp add: decision_event_def audit_event_def decision_record_def audit_record_def Let_def
      meta_find_def split: option.split)

lemma decision_event_delegation:
  "au_delegation_id (decision_event s ctx cap d now) =
     (case Option.bind (decision_grant d) g_delegation_id of
        Some i \<Rightarrow> Some i | None \<Rightarrow> map_option d_id (c_delegation ctx))"
  by (simp add: decision_event_def audit_event_def decision_record_def audit_record_def Let_def)

lemma attach_simps [simp]:
  "is_allowed (attach_audit_event d i) = is_allowed d"
  "decision_grant (attach_audit_event d i) = decision_grant d"
  "denial_reason (attach_audit_event d i) = denial_reason d"
  "dec_audit_event_id (attach_audit_event d i) = Some i"
  by (cases d; simp add: attach_audit_event_def is_allowed_def decision_grant_def
      denial_reason_def)+

lemma not_allowed_deny [simp]: "\<not> is_allowed (deny reason)"
  by (simp add: deny_def is_allowed_def)

lemma conclude_cases:
  obtains (recorded) l where
    "env_record env (c_tenant ctx) (decision_event s ctx cap d now) (m_audit s) = (Inr (), l)"
    "conclude env ctx cap d now revision s =
       remember_decision ctx cap
         (attach_audit_event d (last_audit_event_id (c_tenant ctx)
            (s\<lparr>m_audit_sequence := m_audit_sequence s + 1, m_audit := l\<rparr>)))
         now revision (s\<lparr>m_audit_sequence := m_audit_sequence s + 1, m_audit := l\<rparr>)"
  | (unrecorded) e l where
    "env_record env (c_tenant ctx) (decision_event s ctx cap d now) (m_audit s) = (Inl e, l)"
    "conclude env ctx cap d now revision s =
       (deny AuditUnavailable, s\<lparr>m_audit_sequence := m_audit_sequence s + 1, m_audit := l\<rparr>)"
proof (cases "env_record env (c_tenant ctx) (decision_event s ctx cap d now) (m_audit s)")
  case (Pair r l)
  show ?thesis
  proof (cases r)
    case (Inl e)
    with Pair show ?thesis
      by (intro unrecorded [of e l])
        (simp_all add: conclude_def record_decision_def audit_def decision_event_def Let_def
          andThen_def map_err_def)
  next
    case (Inr u)
    with Pair show ?thesis
      by (intro recorded [of l])
        (simp_all add: conclude_def record_decision_def audit_def decision_event_def Let_def
          andThen_def map_err_def)
  qed
qed

lemma last_id_after:
  "n + 1 \<noteq> (0 :: u64) \<Longrightarrow>
     last_audit_event_id t (s\<lparr>m_audit_sequence := n + 1, m_audit := l\<rparr>) = audit_event_id t n"
  by (simp add: last_audit_event_id_def)

lemma fst_remember [simp]: "fst (remember_decision ctx cap d now revision s) = d"
  by (simp add: remember_decision_def Let_def)

lemma conclude_allowed:
  assumes "is_allowed (fst (conclude env ctx cap d now revision s))"
  shows "is_allowed d \<and> decision_grant (fst (conclude env ctx cap d now revision s)) = decision_grant d"
  by (rule conclude_cases [of env ctx s cap d now revision]) (use assms in simp_all)

lemma pick_delegation_mem:
  "pick_delegation ds cap now = Some d \<Longrightarrow> d \<in> set ds \<and> cap \<in> set (d_capabilities d)"
  by (auto simp: pick_delegation_def dest!: find_SomeD split: option.splits)

lemma conclude_recorded:
  assumes "audit_log (env_record env) trail" "m_audit_sequence s + 1 \<noteq> 0"
    and "conclude env ctx cap d now revision s = (d', s')" "is_allowed d'"
  shows "is_allowed d \<and> decision_grant d' = decision_grant d
    \<and> trail (m_audit s') = trail (m_audit s) @ [decision_event s ctx cap d now]
    \<and> dec_audit_event_id d' = Some (au_event_id (decision_event s ctx cap d now))"
proof (rule conclude_cases [of env ctx s cap d now revision], goal_cases)
  case (1 l)
  have "trail l = trail (m_audit s) @ [decision_event s ctx cap d now]"
    using audit_log.rec_ok [OF assms(1) 1(1)] .
  with 1(2) assms show ?thesis
    by (auto simp: remember_decision_def Let_def last_id_after)
next
  case (2 e l)
  with assms show ?thesis by auto
qed

text \<open>
  C18. No authority without a trace: when the audit log keeps its contract, a request the mesh
  allows has been allowed by the evaluator under the tenant's policy in force and the
  delegations the principal holds now, and exactly one event has been appended to the trail:
  the grant, with this tenant, principal, session, time and capability, under the event id the
  decision carries.
\<close>

theorem allowed_request_is_recorded:
  assumes "audit_log (env_record env) trail" "m_audit_sequence s + 1 \<noteq> 0"
    and "authorize_request_with_authority_revision env ctx rq attrs now revision s = (d, s')"
    and "is_allowed d"
  shows "\<exists>pol md e. policy (c_tenant ctx) s = Inr pol
    \<and> (md = None \<or> md \<in> Some ` set (delegations_for (c_tenant ctx) (p_id (c_principal ctx)) s))
    \<and> decision_grant d = decision_grant (evaluate_authorization_request (env_clock env) (Some pol)
         (Some (c_principal ctx)) (Some (c_tenant ctx)) md rq attrs now)
    \<and> trail (m_audit s') = trail (m_audit s) @ [e]
    \<and> dec_audit_event_id d = Some (au_event_id e) \<and> au_kind e = KindAuthorizationGranted
    \<and> au_tenant_id e = rq_tenant rq \<and> au_principal_id e = Some (rq_principal rq)
    \<and> au_session_id e = c_session_id ctx \<and> au_timestamp e = now
    \<and> au_action e = Some (rq_capability rq) \<and> au_decision e = Some ''allow''"
proof -
  let ?md = "pick_delegation (delegations_for (c_tenant ctx) (p_id (c_principal ctx)) s)
      (rq_capability rq) now"
  obtain pol where pol: "policy (c_tenant ctx) s = Inr pol"
    using assms(3,4)
    by (auto simp: authorize_request_with_authority_revision_def split: sum.splits)
  let ?d = "evaluate_authorization_request (env_clock env) (Some pol) (Some (c_principal ctx))
      (Some (c_tenant ctx)) ?md rq attrs now"
  let ?e = "decision_event s ctx (rq_capability rq) ?d now"
  have eq: "conclude env ctx (rq_capability rq) ?d now revision s = (d, s')"
    using assms(3) pol by (simp add: authorize_request_with_authority_revision_def Let_def)
  note r = conclude_recorded [OF assms(1,2) eq assms(4)]
  then have "is_allowed ?d" by blast
  from decision_needs_admission [OF this]
  have "p_id (c_principal ctx) = rq_principal rq \<and> t_id (c_tenant ctx) = rq_tenant rq"
    by (auto simp: request_admissible_def)
  moreover have "?md = None
      \<or> ?md \<in> Some ` set (delegations_for (c_tenant ctx) (p_id (c_principal ctx)) s)"
    using pick_delegation_mem by (cases ?md) auto
  ultimately show ?thesis
    using pol r by (intro exI [of _ pol] exI [of _ ?md] exI [of _ ?e]) simp
qed

abbreviation sample_invoice_request :: AuthorizationRequest where
  "sample_invoice_request \<equiv> sample_request ''bot'' ''invoices.read'' ''invoice''"

lemma sample_agent_authorized:
  assumes "c_principal ctx = sample_agent" "c_tenant ctx = sample_tenant"
  shows "is_allowed (fst (authorize_request_with_authority_revision sample_env ctx
    (sample_invoice_request\<lparr>rq_context := cx\<rparr>) None 15 revision (sample_mesh\<lparr>m_runs := rs\<rparr>)))"
proof -
  let ?rq = "sample_invoice_request\<lparr>rq_context := cx\<rparr>"
  let ?s = "sample_mesh\<lparr>m_runs := rs\<rparr>"
  let ?d = "evaluate_authorization_request (Some 0) (Some sample_policy) (Some sample_agent)
    (Some sample_tenant) (Some (sample_delegation ''bot'')) ?rq None 15"
  have "is_allowed ?d" by (simp add: decision_defs sample_defs is_allowed_def)
  moreover have "policy sample_tenant ?s = Inr sample_policy"
    by (simp add: policy_def policy_for_def sample_mesh_def sample_tenant_def)
  moreover have "delegations_for sample_tenant ''bot'' ?s = [sample_delegation ''bot'']"
    by (simp add: delegations_for_def list_delegations_for_delegate_def sample_mesh_def
        sample_tenant_def sample_delegation_def bvalues_def)
  moreover have "pick_delegation [sample_delegation ''bot''] ''invoices.read'' 15
      = Some (sample_delegation ''bot'')"
    by (simp add: pick_delegation_def sample_delegation_def)
  ultimately have "authorize_request_with_authority_revision sample_env ctx ?rq None 15 revision ?s
      = conclude sample_env ctx ''invoices.read'' ?d 15 revision ?s"
    using assms by (simp add: authorize_request_with_authority_revision_def sample_env_def
        sample_request_def sample_agent_def principal_agent_def Let_def)
  moreover have "is_allowed (fst (conclude sample_env ctx ''invoices.read'' ?d 15 revision ?s))"
    by (rule conclude_cases [of sample_env ctx ?s "''invoices.read''" ?d 15 revision])
      (use \<open>is_allowed ?d\<close> in \<open>auto simp: sample_env_def record_event_def andThen_def require_def
        split: if_splits\<close>)
  ultimately show ?thesis by simp
qed

theorem allowed_request_is_recorded_witness:
  "\<exists>d s' e. authorize_request_with_authority_revision sample_env (sample_context sample_agent)
       sample_invoice_request None 15 7 sample_mesh = (d, s')
     \<and> log_events (m_audit s') = [e] \<and> au_principal_id e = Some ''bot''"
proof -
  obtain d s' where eq: "authorize_request_with_authority_revision sample_env
      (sample_context sample_agent) sample_invoice_request None 15 7 sample_mesh = (d, s')"
    by fastforce
  moreover have "is_allowed d"
    using sample_agent_authorized [of "sample_context sample_agent"
        "rq_context sample_invoice_request" 7 "m_runs sample_mesh"] eq
    by (simp add: sample_context_def)
  ultimately show ?thesis
    using allowed_request_is_recorded [OF sample_audit_log _ eq]
    by (auto simp: sample_mesh_def audit_log_new_def sample_request_def)
qed

text \<open>
  C37. The mesh fails closed: while the audit log refuses events, no entry point allows
  anything, for whichever principal, capability, request or run, and no decision enters the
  list of recent decisions; a decision that was made is returned as an unavailable audit.
\<close>

theorem unrecorded_decisions_are_denied:
  assumes "\<And>t e l. isl (fst (env_record env t e l))"
  shows "\<not> is_allowed (fst (authorize_with_authority_revision env ctx cap now revision s))
    \<and> \<not> is_allowed (fst (authorize_request_with_authority_revision env ctx rq attrs now revision s))
    \<and> \<not> is_allowed
         (fst (authorize_run_request_with_authority_revision env ctx i rq attrs now revision s))
    \<and> fst (conclude env ctx cap d now revision s) = deny AuditUnavailable
    \<and> recent_decisions (snd (conclude env ctx cap d now revision s)) = recent_decisions s"
proof -
  have c: "fst (conclude env ctx cap d now revision s) = deny AuditUnavailable
      \<and> m_decisions (snd (conclude env ctx cap d now revision s)) = m_decisions s" for ctx cap d
    by (rule conclude_cases [of env ctx s cap d now revision])
      (use assms [of "c_tenant ctx" "decision_event s ctx cap d now" "m_audit s"] in auto)
  then have r: "\<not> is_allowed
      (fst (authorize_request_with_authority_revision env ctx rq attrs now revision s))" for ctx rq
    by (simp add: authorize_request_with_authority_revision_def Let_def split: sum.split)
  from c have "\<not> is_allowed (fst (authorize_with_authority_revision env ctx cap now revision s))"
    by (simp add: authorize_with_authority_revision_def Let_def split: sum.split)
  with c r show ?thesis
    by (auto simp: authorize_run_request_with_authority_revision_def Let_def recent_decisions_def
        split: sum.split)
qed

theorem unrecorded_decisions_are_denied_witness:
  "fst (conclude (sample_env\<lparr>env_record := (\<lambda>t e l. (Inl ''disk full'', l))\<rparr>)
     (sample_context sample_agent) ''invoices.read'' (deny PolicyDenied) 15 7 sample_mesh)
     = deny AuditUnavailable"
  using unrecorded_decisions_are_denied
    [of "sample_env\<lparr>env_record := (\<lambda>t e l. (Inl ''disk full'', l))\<rparr>"] by simp

text \<open>
  What the trail does not say: the event of a decision names the capability where the
  action belongs, whatever action the request had, and never the revision of the authority the
  decision was made under.
\<close>

theorem decision_event_omits_action_and_revision:
  "au_action (audit_event cfg t n (decision_record ctx cap d) now) = Some cap
   \<and> au_authority_revision (audit_event cfg t n (decision_record ctx cap d) now) = None"
  by (simp add: audit_event_def decision_record_def audit_record_def Let_def meta_find_def
      split: option.split)

subsection \<open>Requests of a run\<close>

lemma resource_scope_matches_eq: "resource_scope_matches = delegation_scope_matches"
  by (intro ext) (simp add: resource_scope_matches_def delegation_scope_matches_def)

lemma checked_run_for_request_Inr:
  "checked_run_for_request ctx i rq attrs now s = Inr r \<longleftrightarrow>
     checked_run (c_tenant ctx) i now s = Inr r \<and> r_agent_principal r = p_id (c_principal ctx)
     \<and> r_tenant_id r = t_id (c_tenant ctx) \<and> rq_capability rq \<in> set (r_capability_scope r)
     \<and> delegation_scope_matches (r_resource_scope r) rq attrs"
  by (auto simp: checked_run_for_request_def resource_scope_matches_eq split: sum.splits)

lemma scope_matches_in_run [simp]:
  "delegation_scope_matches sc (request_in_run rq r) attrs = delegation_scope_matches sc rq attrs"
  by (simp add: delegation_scope_matches_def request_in_run_def)

lemma authorize_request_allowed:
  assumes "is_allowed (fst (authorize_request_with_authority_revision env ctx rq attrs now revision s))"
  shows "\<exists>pol. policy (c_tenant ctx) s = Inr pol
    \<and> is_allowed (evaluate_authorization_request (env_clock env) (Some pol)
         (Some (c_principal ctx)) (Some (c_tenant ctx))
         (pick_delegation (delegations_for (c_tenant ctx) (p_id (c_principal ctx)) s)
            (rq_capability rq) now) rq attrs now)
    \<and> decision_grant
         (fst (authorize_request_with_authority_revision env ctx rq attrs now revision s))
      = decision_grant (evaluate_authorization_request (env_clock env) (Some pol)
         (Some (c_principal ctx)) (Some (c_tenant ctx))
         (pick_delegation (delegations_for (c_tenant ctx) (p_id (c_principal ctx)) s)
            (rq_capability rq) now) rq attrs now)"
proof (cases "policy (c_tenant ctx) s")
  case (Inl e)
  with assms show ?thesis by (simp add: authorize_request_with_authority_revision_def)
next
  case (Inr pol)
  with assms have "is_allowed (fst (conclude env ctx (rq_capability rq)
      (evaluate_authorization_request (env_clock env) (Some pol)
         (Some (c_principal ctx)) (Some (c_tenant ctx))
         (pick_delegation (delegations_for (c_tenant ctx) (p_id (c_principal ctx)) s)
            (rq_capability rq) now) rq attrs now) now revision s))"
    by (simp add: authorize_request_with_authority_revision_def Let_def)
  from conclude_allowed [OF this] Inr show ?thesis
    by (simp add: authorize_request_with_authority_revision_def Let_def)
qed

lemma authorize_run_allowed:
  assumes "is_allowed
      (fst (authorize_run_request_with_authority_revision env ctx i rq attrs now revision s))"
  shows "\<exists>r. checked_run_for_request ctx i rq attrs now s = Inr r
    \<and> is_allowed (fst (authorize_request_with_authority_revision env (with_run ctx r)
         (request_in_run rq r) attrs now revision s))
    \<and> fst (authorize_run_request_with_authority_revision env ctx i rq attrs now revision s)
      = fst (authorize_request_with_authority_revision env (with_run ctx r)
         (request_in_run rq r) attrs now revision s)"
proof (cases "checked_run_for_request ctx i rq attrs now s")
  case (Inl e)
  obtain reason mr where "e = (reason, mr)" by fastforce
  with Inl assms have "is_allowed (Deny reason (Some (rq_capability rq)) (rq_resource rq)
      (Some (rq_action rq)) (case policy (c_tenant ctx) s of Inr pol \<Rightarrow> Some (pol_id pol) | Inl _ \<Rightarrow> None)
      [] [] None)"
    by (auto simp: authorize_run_request_with_authority_revision_def Let_def
        dest: conclude_allowed)
  then show ?thesis by (simp add: is_allowed_def)
next
  case (Inr r)
  with assms show ?thesis by (simp add: authorize_run_request_with_authority_revision_def)
qed

text \<open>
  C20. A run's authority is bounded by the run: a request made for a run is allowed only while
  the run stored under that id is active and unexpired, belongs to the requesting agent in the
  requested tenant, lists the capability, and covers the resource.
\<close>

theorem allowed_run_request_stays_in_run:
  assumes "is_allowed
      (fst (authorize_run_request_with_authority_revision env ctx i rq attrs now revision s))"
  shows "\<exists>r. map_of (st_runs (m_runs s)) i = Some r \<and> r_status r = StatusActive
    \<and> now < r_expires_at r \<and> r_tenant_id r = rq_tenant rq \<and> r_agent_principal r = rq_principal rq
    \<and> rq_capability rq \<in> set (r_capability_scope r)
    \<and> delegation_scope_matches (r_resource_scope r) rq attrs"
proof -
  obtain r where r: "checked_run_for_request ctx i rq attrs now s = Inr r"
    "is_allowed (fst (authorize_request_with_authority_revision env (with_run ctx r)
       (request_in_run rq r) attrs now revision s))"
    using authorize_run_allowed [OF assms] by blast
  from authorize_request_allowed [OF r(2)] obtain pol md where
    "is_allowed (evaluate_authorization_request (env_clock env) (Some pol) (Some (c_principal ctx))
       (Some (c_tenant ctx)) md (request_in_run rq r) attrs now)"
    by (auto simp: with_run_def)
  from decision_needs_admission [OF this]
  have "p_id (c_principal ctx) = rq_principal rq" "t_id (c_tenant ctx) = rq_tenant rq"
    by (auto simp: request_admissible_def request_in_run_def)
  with r(1) show ?thesis
    by (auto simp: checked_run_for_request_Inr checked_run_def rbind_Inr agent_run_def
        runs.fetch_Some split: RunStatus.splits)
qed

definition sample_agent_run :: AgentRun where
  "sample_agent_run = new_run sample_tenant ''bot''
     \<lparr>cr_id = Some ''r1'', cr_task_id = ''t1'', cr_task_purpose = ''read'', cr_delegation_id = ''d1'',
      cr_parent_run_id = None, cr_capabilities = [''invoices.read''],
      cr_resource_scope = scope_resource ''invoice'', cr_expires_at = 18, cr_constraints = []\<rparr>
     12 7 ''fp'' (sample_delegation ''bot'') ''r1'' ''exec''"

lemma sample_run_authorized:
  "is_allowed (fst (authorize_run_request_with_authority_revision sample_env
     (sample_context sample_agent) ''r1'' sample_invoice_request None 15 7
     (sample_mesh\<lparr>m_runs := \<lparr>st_runs = [(''r1'', sample_agent_run)]\<rparr>\<rparr>)))"
proof -
  let ?s = "sample_mesh\<lparr>m_runs := \<lparr>st_runs = [(''r1'', sample_agent_run)]\<rparr>\<rparr>"
  have "checked_run_for_request (sample_context sample_agent) ''r1'' sample_invoice_request None 15
      ?s = Inr sample_agent_run"
    by (simp add: checked_run_for_request_Inr checked_run_def agent_run_def get_run_def
        sample_agent_run_def new_run_def sample_context_def sample_tenant_def sample_agent_def
        principal_agent_def sample_request_def scope_resource_def delegation_scope_matches_def
        is_unconstrained_def check_def map_err_def)
  moreover have "request_in_run sample_invoice_request sample_agent_run
      = sample_invoice_request\<lparr>rq_context :=
          rq_context (request_in_run sample_invoice_request sample_agent_run)\<rparr>"
    by (simp add: request_in_run_def)
  ultimately show ?thesis
    using sample_agent_authorized [of "with_run (sample_context sample_agent) sample_agent_run"
        "rq_context (request_in_run sample_invoice_request sample_agent_run)" 7
        "\<lparr>st_runs = [(''r1'', sample_agent_run)]\<rparr>"]
    by (simp add: authorize_run_request_with_authority_revision_def with_run_def
        sample_context_def)
qed

theorem allowed_run_request_stays_in_run_witness:
  "\<exists>r. map_of [(''r1'', sample_agent_run)] ''r1'' = Some r \<and> r_status r = StatusActive"
  using allowed_run_request_stays_in_run [OF sample_run_authorized] by auto

text \<open>
  Authority is decided on the caller's copy of the principal: no entry point reads the
  principal store or the session store, so suspending, revoking or retiring an agent, or
  revoking a session, changes no decision for a context that was built before.
\<close>

theorem stale_context_still_decides:
  "fst (authorize_request_with_authority_revision env ctx rq attrs now revision
       (s\<lparr>dir_principals := ps, m_sessions := ss\<rparr>))
     = fst (authorize_request_with_authority_revision env ctx rq attrs now revision s)"
proof -
  have c: "fst (conclude env ctx cap d now revision (s\<lparr>dir_principals := ps, m_sessions := ss\<rparr>))
      = fst (conclude env ctx cap d now revision s)" for cap d
    by (simp add: conclude_def record_decision_def andThen_def audit_def Let_def map_err_def
        last_audit_event_id_def split: prod.splits sum.splits)
  have p: "policy t (s\<lparr>dir_principals := ps, m_sessions := ss\<rparr>) = policy t s"
    "delegations_for t i (s\<lparr>dir_principals := ps, m_sessions := ss\<rparr>) = delegations_for t i s"
    for t i by (simp_all add: policy_def delegations_for_def split: option.split)
  show ?thesis
    unfolding authorize_request_with_authority_revision_def p
    by (simp add: c Let_def split: sum.split)
qed

end
