(* ===== verification/MeshSteps.thy ===== *)
theory MeshSteps
  imports Authorize
begin

text \<open>
  The mesh as a state machine: a step is any of its operations, called with any arguments and
  ending in any way. An invariant of the mesh is stated once as a locale, whose laws say what
  each elementary change of the state has to keep; every operation is composed of those
  changes, so every step and every run keeps the invariant.
\<close>

subsection \<open>Following the state through an operation\<close>

lemma snd_on_sessions [simp]:
  "snd (on_sessions m s) = s\<lparr>m_sessions := snd (m (m_sessions s))\<rparr>"
  by (simp add: on_sessions_def zoom_def split: prod.splits)

lemma snd_on_delegations [simp]:
  "snd (on_delegations m s) = s\<lparr>m_delegations := snd (m (m_delegations s))\<rparr>"
  by (simp add: on_delegations_def zoom_def split: prod.splits)

lemma snd_on_runs [simp]: "snd (on_runs m s) = s\<lparr>m_runs := snd (m (m_runs s))\<rparr>"
  by (simp add: on_runs_def zoom_def split: prod.splits)

lemma on_runs_result:
  "mapErr g (on_runs m) s = (r, s') \<Longrightarrow> s' = s\<lparr>m_runs := snd (m (m_runs s))\<rparr>"
  using snd_mapErr [of g "on_runs m" s] by simp

lemma snd_audit [simp]:
  "snd (audit env t r now s) = s\<lparr>m_audit_sequence := m_audit_sequence s + 1,
     m_audit := snd (env_record env t (audit_event (m_config s) t (m_audit_sequence s) r now)
                       (m_audit s))\<rparr>"
  by (simp add: audit_def Let_def split: prod.splits)

lemma snd_conclude:
  "\<exists>ds. snd (conclude env ctx cap d now revision s) =
     s\<lparr>m_audit_sequence := m_audit_sequence s + 1,
       m_audit := snd (env_record env (c_tenant ctx)
         (audit_event (m_config s) (c_tenant ctx) (m_audit_sequence s) (decision_record ctx cap d) now)
         (m_audit s)),
       m_decisions := ds\<rparr>"
proof -
  obtain r s' where a: "audit env (c_tenant ctx) (decision_record ctx cap d) now s = (r, s')"
    by fastforce
  then have s': "s' = s\<lparr>m_audit_sequence := m_audit_sequence s + 1,
       m_audit := snd (env_record env (c_tenant ctx)
         (audit_event (m_config s) (c_tenant ctx) (m_audit_sequence s) (decision_record ctx cap d) now)
         (m_audit s))\<rparr>"
    using snd_audit [of env "c_tenant ctx" "decision_record ctx cap d" now s] by simp
  show ?thesis
  proof (cases r)
    case (Inl e)
    then show ?thesis
      using a by (intro exI [of _ "m_decisions s"])
        (simp add: conclude_def record_decision_def andThen_def s')
  next
    case (Inr u)
    then show ?thesis
      using a by (simp add: conclude_def record_decision_def andThen_def remember_decision_def
          Let_def s' exI)
  qed
qed

subsection \<open>Steps\<close>

inductive mesh_step ::
  "(TenantContext \<Rightarrow> AuditEvent \<Rightarrow> ('l, StorageError, unit) eff) \<Rightarrow> 'l Mesh \<Rightarrow> 'l Mesh \<Rightarrow> bool"
  for rec where
  step_sign_in: "env_record env = rec \<Longrightarrow> mesh_step rec s (snd (sign_in env tid rs now s))"
| step_sign_up: "env_record env = rec \<Longrightarrow> mesh_step rec s (snd (sign_up env tid rs reg now s))"
| step_link: "env_record env = rec \<Longrightarrow> mesh_step rec s (snd (mesh_link_account env tid i rs now s))"
| step_logout: "env_record env = rec \<Longrightarrow> mesh_step rec s (snd (logout env tid sid now s))"
| step_delegate: "env_record env = rec \<Longrightarrow> mesh_step rec s (snd (delegate env tid rq now s))"
| step_revoke_delegation:
    "env_record env = rec \<Longrightarrow> mesh_step rec s (snd (revoke_delegation env tid i now s))"
| step_create_run:
    "env_record env = rec \<Longrightarrow> mesh_step rec s (snd (create_agent_run env tid agent crq now revision fp s))"
| step_cancel_run: "env_record env = rec \<Longrightarrow> mesh_step rec s (snd (cancel_agent_run env tid i now s))"
| step_agent_state:
    "env_record env = rec \<Longrightarrow> mesh_step rec s (snd (mesh_set_agent_state env tid agent st now s))"
| step_authorize:
    "env_record env = rec \<Longrightarrow>
       mesh_step rec s (snd (authorize_with_authority_revision env ctx cap now revision s))"
| step_authorize_request:
    "env_record env = rec \<Longrightarrow>
       mesh_step rec s (snd (authorize_request_with_authority_revision env ctx arq attrs now revision s))"
| step_authorize_run:
    "env_record env = rec \<Longrightarrow>
       mesh_step rec s (snd (authorize_run_request_with_authority_revision env ctx i arq attrs now revision s))"

text \<open>
  What the mesh has checked of a run when it is stored: it stays within its delegation and
  within its parent run.
\<close>

definition run_within :: "AgentRun \<Rightarrow> Capability list \<Rightarrow> ResourceScope \<Rightarrow> int option \<Rightarrow> bool" where
  "run_within r caps sc e \<longleftrightarrow> set (r_capability_scope r) \<subseteq> set caps
     \<and> is_subset_of (r_resource_scope r) sc
     \<and> (case e of Some e \<Rightarrow> r_expires_at r \<le> e | None \<Rightarrow> True)"

definition run_of_delegation :: "AgentRun \<Rightarrow> Delegation \<Rightarrow> bool" where
  "run_of_delegation r d \<longleftrightarrow> r_delegation_id r = d_id d \<and> r_delegator r = d_delegator d
     \<and> d_tenant_id d = r_tenant_id r \<and> d_delegate d = r_agent_principal r
     \<and> r_delegation_chain r = d_chain d @ [d_id d]
     \<and> run_within r (d_capabilities d) (d_resource_scope d) (d_expires_at d)"

definition run_of_parent :: "AgentRun \<Rightarrow> AgentRun \<Rightarrow> bool" where
  "run_of_parent r p \<longleftrightarrow> r_tenant_id p = r_tenant_id r
     \<and> run_within r (r_capability_scope p) (r_resource_scope p) (Some (r_expires_at p))"

definition run_admissible :: "'l Mesh \<Rightarrow> AgentRun \<Rightarrow> bool" where
  "run_admissible s r \<longleftrightarrow> r_status r = StatusActive \<and> r_cancelled_at r = None
     \<and> (\<exists>k d. map_of (st_delegations (m_delegations s)) k = Some d \<and> run_of_delegation r d)
     \<and> (\<forall>i. r_parent_run_id r = Some i \<longrightarrow>
          (\<exists>p. map_of (st_runs (m_runs s)) i = Some p \<and> run_of_parent r p))"

subsection \<open>What the checks of a run establish\<close>

lemma checked_run_Inr:
  "checked_run t i now s = Inr r \<longleftrightarrow> map_of (st_runs (m_runs s)) i = Some r
     \<and> r_tenant_id r = t_id t \<and> r_status r = StatusActive \<and> now < r_expires_at r"
  by (auto simp: checked_run_def rbind_Inr agent_run_def runs.fetch_Some not_le
      split: RunStatus.splits)

lemma run_delegation_Inr:
  assumes "run_delegation t agent rq now s = Inr d"
  shows "map_of (st_delegations (m_delegations s)) (cr_delegation_id rq) = Some d
    \<and> d_tenant_id d = t_id t \<and> d_delegate d = agent \<and> is_valid_at d now
    \<and> (case d_expires_at d of Some e \<Rightarrow> cr_expires_at rq \<le> e | None \<Rightarrow> True)
    \<and> set (cr_capabilities rq) \<subseteq> set (d_capabilities d)
    \<and> tenant_scope_holds (cr_resource_scope rq) (t_id t)
    \<and> is_subset_of (cr_resource_scope rq) (d_resource_scope d)"
  using assms
  by (auto simp: run_delegation_def rbind_Inr delegations.fetch_Some not_less split: option.splits)

lemma run_parent_ok_Inr:
  assumes "run_parent_ok t rq now s = Inr u" "cr_parent_run_id rq = Some i"
  shows "\<exists>p. map_of (st_runs (m_runs s)) i = Some p \<and> r_tenant_id p = t_id t
    \<and> r_status p = StatusActive \<and> now < r_expires_at p
    \<and> set (cr_capabilities rq) \<subseteq> set (r_capability_scope p)
    \<and> is_subset_of (cr_resource_scope rq) (r_resource_scope p)
    \<and> cr_expires_at rq \<le> r_expires_at p"
  using assms by (auto simp: run_parent_ok_def rbind_Inr checked_run_Inr not_less)

lemma new_run_admissible:
  assumes "run_delegation t agent rq now s = Inr d" "run_parent_ok t rq now s = Inr u"
    and "m_runs s1 = m_runs s" "m_delegations s1 = m_delegations s"
  shows "run_admissible s1 (new_run t agent rq now revision fp d i credential)"
proof -
  let ?r = "new_run t agent rq now revision fp d i credential"
  have "run_of_delegation ?r d"
    using run_delegation_Inr [OF assms(1)]
    by (auto simp: new_run_def run_of_delegation_def run_within_def split: option.split)
  moreover have "map_of (st_delegations (m_delegations s1)) (cr_delegation_id rq) = Some d"
    using run_delegation_Inr [OF assms(1)] assms(4) by simp
  moreover have "\<exists>p. map_of (st_runs (m_runs s1)) k = Some p \<and> run_of_parent ?r p"
    if "r_parent_run_id ?r = Some k" for k
    using run_parent_ok_Inr [OF assms(2), of k] that assms(3)
    by (auto simp: new_run_def run_of_parent_def run_within_def)
  moreover have "r_status ?r = StatusActive" "r_cancelled_at ?r = None"
    by (simp_all add: new_run_def)
  ultimately show ?thesis unfolding run_admissible_def by blast
qed

subsection \<open>Invariants\<close>

locale mesh_invariant =
  fixes rec :: "TenantContext \<Rightarrow> AuditEvent \<Rightarrow> ('l, StorageError, unit) eff"
    and P :: "'l Mesh \<Rightarrow> bool"
  assumes inv_audit:
      "P s \<Longrightarrow> P (s\<lparr>m_audit_sequence := n, m_audit := snd (rec t e (m_audit s))\<rparr>)"
    and inv_identities: "P s \<Longrightarrow> P (s\<lparr>dir_identities := ids\<rparr>)"
    and inv_principals: "P s \<Longrightarrow> P (s\<lparr>dir_principals := ps\<rparr>)"
    and inv_sessions: "P s \<Longrightarrow> P (s\<lparr>m_sessions := ss\<rparr>)"
    and inv_create_delegation: "P s \<Longrightarrow> d_revoked_at d = None \<Longrightarrow>
      P (s\<lparr>m_delegations := snd (create_delegation d (m_delegations s))\<rparr>)"
    and inv_revoke_delegation:
      "P s \<Longrightarrow> P (s\<lparr>m_delegations := snd (store_revoke_delegation t k at (m_delegations s))\<rparr>)"
    and inv_put_run:
      "P s \<Longrightarrow> run_admissible s r \<Longrightarrow> P (s\<lparr>m_runs := snd (put_run r (m_runs s))\<rparr>)"
    and inv_cancel_run: "P s \<Longrightarrow> get_run t i (m_runs s) = Inr (Some r) \<Longrightarrow>
      P (s\<lparr>m_runs := snd (update_run t
            (r\<lparr>r_status := StatusCancelled, r_cancelled_at := Some now\<rparr>) (m_runs s))\<rparr>)"
    and inv_run_sequence: "P s \<Longrightarrow> P (s\<lparr>m_run_sequence := n\<rparr>)"
    and inv_conclude:
      "P s \<Longrightarrow> env_record env = rec \<Longrightarrow> P (snd (conclude env ctx cap dec now revision s))"
begin

lemma kept_on_identities: "P s \<Longrightarrow> P (snd (on_identities m s))"
  using inv_identities by (simp split: prod.splits)

lemma kept_on_principals: "P s \<Longrightarrow> P (snd (on_principals m s))"
  using inv_principals by (simp split: prod.splits)

lemma preserves_on_identities: "preserves P (on_identities m)"
  unfolding preserves_def using kept_on_identities by blast

lemma preserves_on_principals: "preserves P (on_principals m)"
  unfolding preserves_def using kept_on_principals by blast

lemma preserves_on_sessions: "preserves P (on_sessions m)"
  using inv_sessions by (simp add: preserves_def)

lemma preserves_audit: "env_record env = rec \<Longrightarrow> preserves P (audit env t r now)"
  using inv_audit by (simp add: preserves_def)

lemma preserves_next_run_id: "preserves P (next_run_id t)"
  using inv_run_sequence by (simp add: preserves_def next_run_id_def)

lemmas primitive = preserves_on_identities preserves_on_principals preserves_on_sessions
  preserves_audit preserves_next_run_id preserves_ok preserves_fail preserves_require
  preserves_reading preserves_andThen preserves_mapErr preserves_if preserves_option

lemma preserves_open_session: "preserves P (open_session env t i now)"
  using inv_sessions by (simp add: preserves_def open_session_def)

lemma preserves_open_authenticated:
  "env_record env = rec \<Longrightarrow> preserves P (open_authenticated env kind t x rp now)"
  unfolding open_authenticated_def by (intro primitive preserves_open_session) auto

lemma preserves_link_identity_record: "preserves P (link_identity_record t con subj cs)"
  unfolding link_identity_record_def by (intro primitive)

lemma preserves_provision: "preserves P (provision_principal t x kind cs now)"
  unfolding provision_principal_def Let_def
  by (intro primitive preserves_link_identity_record)

lemma preserves_link_external: "preserves P (link_external_identity t i x now)"
  unfolding link_external_identity_def
  by (intro primitive preserves_link_identity_record)

lemma preserves_sign_in: "env_record env = rec \<Longrightarrow> preserves P (sign_in env tid rs now)"
  unfolding sign_in_def by (intro primitive preserves_open_authenticated)

lemma preserves_sign_up: "env_record env = rec \<Longrightarrow> preserves P (sign_up env tid rs reg now)"
  unfolding sign_up_def by (intro primitive preserves_open_authenticated preserves_provision)

lemma preserves_mesh_link_account:
  "env_record env = rec \<Longrightarrow> preserves P (mesh_link_account env tid i rs now)"
  unfolding mesh_link_account_def by (intro primitive preserves_link_external)

lemma preserves_logout: "env_record env = rec \<Longrightarrow> preserves P (logout env tid sid now)"
  unfolding logout_def by (intro primitive)

lemma preserves_set_agent_state:
  "env_record env = rec \<Longrightarrow> preserves P (mesh_set_agent_state env tid agent st now)"
  unfolding mesh_set_agent_state_def by (intro primitive)

lemma preserves_revoke_delegation:
  "env_record env = rec \<Longrightarrow> preserves P (revoke_delegation env tid i now)"
  unfolding revoke_delegation_def
proof (intro primitive)
  show "preserves P (on_delegations (store_revoke_delegation t i now))" for t
    using inv_revoke_delegation by (simp add: preserves_def)
qed

lemma preserves_delegate: "env_record env = rec \<Longrightarrow> preserves P (delegate env tid rq now)"
  unfolding delegate_def
proof (intro primitive)
  show "preserves P (on_delegations (create_delegation
      \<lparr>d_id = dr_id rq, d_delegator = dr_delegator rq, d_delegate = dr_delegate rq,
       d_tenant_id = t_id t, d_capabilities = dr_capabilities rq,
       d_resource_scope = dr_resource_scope rq, d_issued_at = dr_issued_at rq,
       d_expires_at = dr_expires_at rq, d_revoked_at = None, d_chain = chain\<rparr>))" for t chain
    using inv_create_delegation by (simp add: preserves_def)
qed

lemmas kept_reading = snd_andThen_reading [where Q = P]
lemmas kept_require = snd_andThen_require [where Q = P]
lemmas kept_andThen = snd_andThen [where Q = P]
lemmas kept = preserves_snd [where P = P]

lemma kept_create_agent_run:
  assumes "env_record env = rec" "P s"
  shows "P (snd (create_agent_run env tid agent rq now revision fp s))"
  unfolding create_agent_run_def
proof (intro kept_reading kept_require assms(2), goal_cases)
  case (1 t p u d u')
  have stored: "P (s1\<lparr>m_runs :=
      snd (put_run (new_run t agent rq now revision fp d i credential) (m_runs s1))\<rparr>)"
    if "P s1" "m_runs s1 = m_runs s" "m_delegations s1 = m_delegations s" for s1 i credential
    by (rule inv_put_run [OF that(1)], rule new_run_admissible) (use 1 that in auto)
  show ?case
  proof (rule kept_andThen, goal_cases)
    case (1 i s1)
    have s1: "P s1" "m_runs s1 = m_runs s" "m_delegations s1 = m_delegations s"
      using 1 assms(2) inv_run_sequence by (auto simp: next_run_id_def split: option.splits)
    show ?case
      unfolding Let_def
    proof (rule kept_reading [where s = s1, OF _ s1(1)], rule kept_andThen, goal_cases)
      case (1 credential x s2)
      have "P s2" unfolding on_runs_result [OF 1(2)] by (rule stored [OF s1])
      then show ?case by (rule kept [rotated]) (intro primitive assms(1))
    next
      case (2 credential e s2)
      show ?case unfolding on_runs_result [OF 2(2)] by (rule stored [OF s1])
    qed
  next
    case (2 e s1)
    then show ?case
      using assms(2) inv_run_sequence by (auto simp: next_run_id_def split: option.splits)
  qed
qed

lemma kept_cancel_agent_run:
  assumes "env_record env = rec" "P s"
  shows "P (snd (cancel_agent_run env tid i now s))"
  unfolding cancel_agent_run_def
proof (intro kept_reading assms(2), goal_cases)
  case (1 t mr r)
  then have "get_run t i (m_runs s) = Inr (Some r)" by (simp add: agent_run_def)
  note stored = inv_cancel_run [OF assms(2) this]
  show ?case
  proof (rule kept_andThen, goal_cases)
    case (1 r' s1)
    have "P s1" unfolding on_runs_result [OF 1] by (rule stored)
    then show ?case by (rule kept [rotated]) (intro primitive assms(1))
  next
    case (2 e s1)
    show ?case unfolding on_runs_result [OF 2] by (rule stored)
  qed
qed

lemma kept_authorize:
  "env_record env = rec \<Longrightarrow> P s \<Longrightarrow>
     P (snd (authorize_with_authority_revision env ctx cap now revision s))"
  by (auto simp: authorize_with_authority_revision_def Let_def inv_conclude split: sum.split)

lemma kept_authorize_request:
  "env_record env = rec \<Longrightarrow> P s \<Longrightarrow>
     P (snd (authorize_request_with_authority_revision env ctx arq attrs now revision s))"
  by (auto simp: authorize_request_with_authority_revision_def Let_def inv_conclude split: sum.split)

lemma kept_authorize_run:
  "env_record env = rec \<Longrightarrow> P s \<Longrightarrow>
     P (snd (authorize_run_request_with_authority_revision env ctx i arq attrs now revision s))"
  by (auto simp: authorize_run_request_with_authority_revision_def Let_def inv_conclude
      kept_authorize_request split: sum.split prod.split)

lemma kept_step: "mesh_step rec s s' \<Longrightarrow> P s \<Longrightarrow> P s'"
  by (induction rule: mesh_step.induct)
    (simp_all add: kept_create_agent_run kept_cancel_agent_run kept_authorize
      kept_authorize_request kept_authorize_run kept [OF preserves_sign_in]
      kept [OF preserves_sign_up] kept [OF preserves_mesh_link_account]
      kept [OF preserves_logout] kept [OF preserves_delegate]
      kept [OF preserves_revoke_delegation] kept [OF preserves_set_agent_state])

lemma kept_run: "(mesh_step rec)\<^sup>*\<^sup>* s s' \<Longrightarrow> P s \<Longrightarrow> P s'"
  by (induction rule: rtranclp_induct) (blast intro: kept_step)+

end

end
