(* ===== verification/MeshInvariants.thy ===== *)
theory MeshInvariants
  imports MeshSteps
begin

text \<open>
  What holds in every state the mesh can reach, whatever operations are called in whatever
  order: runs stay within their delegations and parents, cancelled runs and revoked
  delegations never come back, the trail only grows, and the list of recent decisions is
  bounded and backed by the trail.
\<close>

subsection \<open>Runs stay confined\<close>

definition run_confined :: "'l Mesh \<Rightarrow> AgentRun \<Rightarrow> bool" where
  "run_confined s r \<longleftrightarrow>
     (\<exists>d. map_of (st_delegations (m_delegations s)) (r_delegation_id r) = Some d
        \<and> run_of_delegation r d)
     \<and> (\<forall>i. r_parent_run_id r = Some i \<longrightarrow>
          (\<exists>p. map_of (st_runs (m_runs s)) i = Some p \<and> run_of_parent r p))"

definition runs_confined :: "'l Mesh \<Rightarrow> bool" where
  "runs_confined s \<longleftrightarrow> delegations_ok (m_delegations s)
     \<and> (\<forall>i r. map_of (st_runs (m_runs s)) i = Some r \<longrightarrow> r_id r = i \<and> run_confined s r)"

lemma run_of_delegation_revoked [simp]:
  "run_of_delegation r (d\<lparr>d_revoked_at := x\<rparr>) = run_of_delegation r d"
  by (simp add: run_of_delegation_def)

lemma run_of_cancelled [simp]:
  "run_of_delegation (r\<lparr>r_status := st, r_cancelled_at := x\<rparr>) d = run_of_delegation r d"
  "run_of_parent (r\<lparr>r_status := st, r_cancelled_at := x\<rparr>) p = run_of_parent r p"
  "run_of_parent r (p\<lparr>r_status := st, r_cancelled_at := x\<rparr>) = run_of_parent r p"
  by (simp_all add: run_of_delegation_def run_of_parent_def run_within_def split: option.split)

lemma delegation_step_run_of:
  assumes "delegation_step ds ds'" "map_of (st_delegations ds) k = Some d" "run_of_delegation r d"
  shows "\<exists>d'. map_of (st_delegations ds') k = Some d' \<and> run_of_delegation r d'"
  using delegation_step_entry [OF assms(1,2)] assms(3) by auto

lemma runs_confined_delegations:
  assumes "runs_confined s" "delegation_step (m_delegations s) ds"
  shows "runs_confined (s\<lparr>m_delegations := ds\<rparr>)"
  using assms delegation_step_run_of [OF assms(2)] delegation_step_ok [OF assms(2)]
  unfolding runs_confined_def run_confined_def by simp blast

lemma run_confined_put:
  assumes "run_confined s r" "map_of (st_runs (m_runs s)) k = None"
  shows "run_confined (s\<lparr>m_runs := \<lparr>st_runs = binsert k q (st_runs (m_runs s))\<rparr>\<rparr>) r"
  using assms unfolding run_confined_def by fastforce

lemma runs_confined_put:
  assumes "runs_confined s" "run_admissible s r"
  shows "runs_confined (s\<lparr>m_runs := snd (put_run r (m_runs s))\<rparr>)"
proof (cases "map_of (st_runs (m_runs s)) (r_id r)")
  case (Some q)
  then show ?thesis using assms(1) by (simp add: put_run_def)
next
  case None
  let ?s = "s\<lparr>m_runs := \<lparr>st_runs = binsert (r_id r) r (st_runs (m_runs s))\<rparr>\<rparr>"
  have s: "s\<lparr>m_runs := snd (put_run r (m_runs s))\<rparr> = ?s"
    using None by (simp add: put_run_def)
  have "run_confined s r"
    using assms by (auto simp: run_admissible_def run_confined_def runs_confined_def
        delegations_ok_def run_of_delegation_def)
  then have "run_confined ?s q" if "q = r \<or> map_of (st_runs (m_runs s)) i = Some q" for i q
    using that assms(1) run_confined_put [OF _ None] unfolding runs_confined_def by blast
  then have "runs_confined ?s"
    using assms(1) unfolding runs_confined_def by (simp split: if_splits) blast
  then show ?thesis unfolding s .
qed

lemma runs_confined_cancel:
  assumes "runs_confined s" "get_run t i (m_runs s) = Inr (Some r)"
  shows "runs_confined (s\<lparr>m_runs := snd (update_run t
           (r\<lparr>r_status := StatusCancelled, r_cancelled_at := Some now\<rparr>) (m_runs s))\<rparr>)"
proof -
  have r: "map_of (st_runs (m_runs s)) i = Some r" "r_id r = i" "r_tenant_id r = t_id t"
    using assms by (auto simp: runs.fetch_Some runs_confined_def)
  let ?r = "r\<lparr>r_status := StatusCancelled, r_cancelled_at := Some now\<rparr>"
  let ?s = "s\<lparr>m_runs := \<lparr>st_runs = binsert i ?r (st_runs (m_runs s))\<rparr>\<rparr>"
  have s: "s\<lparr>m_runs := snd (update_run t ?r (m_runs s))\<rparr> = ?s"
    using r by (simp add: update_run_def)
  have "run_confined ?s q" if "run_confined s q" for q
    using that r(1) unfolding run_confined_def by fastforce
  moreover have "run_confined ?s ?r = run_confined ?s r"
    by (simp add: run_confined_def)
  ultimately have "runs_confined ?s"
    using assms(1) r unfolding runs_confined_def by simp
  then show ?thesis unfolding s .
qed

lemma conclude_stable:
  assumes "P s" "\<And>n l ds. P s \<Longrightarrow> P (s\<lparr>m_audit_sequence := n, m_audit := l, m_decisions := ds\<rparr>)"
  shows "P (snd (conclude env ctx cap d now revision s))"
  using snd_conclude [of env ctx cap d now revision s] assms by auto

interpretation runs_confined: mesh_invariant rec runs_confined for rec
proof unfold_locales
  show "runs_confined s \<Longrightarrow>
      runs_confined (s\<lparr>m_delegations := snd (create_delegation d (m_delegations s))\<rparr>)" for s d
    by (rule runs_confined_delegations) (auto intro: delegation_step.step_create prod.collapse [symmetric])
  show "runs_confined s \<Longrightarrow>
      runs_confined (s\<lparr>m_delegations := snd (store_revoke_delegation t k at (m_delegations s))\<rparr>)"
    for s t k at
    by (rule runs_confined_delegations) (auto intro: delegation_step.step_revoke prod.collapse [symmetric])
  show "runs_confined s \<Longrightarrow> runs_confined (snd (conclude env ctx cap d now revision s))"
    for s env ctx cap d now revision
    by (rule conclude_stable) (simp_all add: runs_confined_def run_confined_def)
qed (auto simp: runs_confined_put runs_confined_cancel, auto simp: runs_confined_def run_confined_def)

text \<open>
  C3. Runs stay within the authority they were created under: from a mesh without runs,
  whatever operations follow, every run in the store belongs to the agent and the tenant of the
  delegation it names, asks for no capability, resource or lifetime beyond that delegation's,
  carries its whole chain, and stays within its parent run, if it has one.
\<close>

theorem runs_stay_within_authority:
  assumes "st_runs (m_runs s0) = []" "delegations_ok (m_delegations s0)"
    and "(mesh_step rec)\<^sup>*\<^sup>* s0 s" "map_of (st_runs (m_runs s)) i = Some r"
  shows "(\<exists>d. map_of (st_delegations (m_delegations s)) (r_delegation_id r) = Some d
      \<and> d_delegate d = r_agent_principal r \<and> d_tenant_id d = r_tenant_id r
      \<and> d_delegator d = r_delegator r \<and> r_delegation_chain r = d_chain d @ [d_id d]
      \<and> set (r_capability_scope r) \<subseteq> set (d_capabilities d)
      \<and> is_subset_of (r_resource_scope r) (d_resource_scope d)
      \<and> (case d_expires_at d of Some e \<Rightarrow> r_expires_at r \<le> e | None \<Rightarrow> True))
    \<and> (case r_parent_run_id r of None \<Rightarrow> True
       | Some j \<Rightarrow> (\<exists>p. map_of (st_runs (m_runs s)) j = Some p \<and> r_tenant_id p = r_tenant_id r
           \<and> set (r_capability_scope r) \<subseteq> set (r_capability_scope p)
           \<and> is_subset_of (r_resource_scope r) (r_resource_scope p)
           \<and> r_expires_at r \<le> r_expires_at p))"
proof -
  have "runs_confined s0" using assms(1,2) by (simp add: runs_confined_def)
  then have "runs_confined s" by (rule runs_confined.kept_run [OF assms(3)])
  then have "run_confined s r" using assms(4) by (simp add: runs_confined_def)
  then show ?thesis
    by (auto simp: run_confined_def run_of_delegation_def run_of_parent_def run_within_def
        split: option.split)
qed

definition sample_run_request :: RunCreationRequest where
  "sample_run_request =
     \<lparr>cr_id = Some ''r1'', cr_task_id = ''t1'', cr_task_purpose = ''read'', cr_delegation_id = ''d1'',
      cr_parent_run_id = None, cr_capabilities = [''invoices.read''],
      cr_resource_scope = scope_resource ''invoice'', cr_expires_at = 18, cr_constraints = []\<rparr>"

lemma sample_mesh_parts [simp]:
  "st_tenants (m_tenants sample_mesh) = [(''acme'', sample_tenant)]"
  "st_delegations (m_delegations sample_mesh) = [(''d1'', sample_delegation ''bot'')]"
  "st_runs (m_runs sample_mesh) = []"
  "m_audit sample_mesh = audit_log_new" "m_audit_sequence sample_mesh = 0"
  "m_decisions sample_mesh = []" "m_policies sample_mesh = [(''p1'', sample_policy)]"
  "st_principals (dir_principals sample_mesh)
     = [(''alice'', sample_human), (''bot'', sample_agent), (''cron'', sample_service)]"
  by (simp_all add: sample_mesh_def run_store_new_def)

lemma sample_tenant_known:
  "st_tenants (m_tenants s) = [(''acme'', sample_tenant)] \<Longrightarrow> tenant ''acme'' s = Inr sample_tenant"
  by (simp add: tenant_def trim_plain plain_def get_tenant_def check_def sample_tenant_def)

lemma sample_agent_known:
  "st_principals (dir_principals s) = st_principals (dir_principals sample_mesh) \<Longrightarrow>
     principal_of sample_tenant ''bot'' s = Inr sample_agent"
  by (simp add: principal_of_def get_principal_def sample_agent_def principal_agent_def
      sample_tenant_def map_err_def)

lemma sample_run_request_parts [simp]:
  "cr_id sample_run_request = Some ''r1''" "cr_delegation_id sample_run_request = ''d1''"
  "cr_parent_run_id sample_run_request = None"
  "cr_capabilities sample_run_request = [''invoices.read'']"
  "cr_resource_scope sample_run_request = scope_resource ''invoice''"
  "cr_expires_at sample_run_request = 18"
  by (simp_all add: sample_run_request_def)

lemma sample_parts [simp]:
  "t_id sample_tenant = ''acme''" "p_kind sample_agent = Agent"
  "assert_principal_is_usable sample_agent = Inr ()"
  by (simp_all add: sample_tenant_def assert_principal_is_usable_def sample_agent_def
      principal_agent_def)

lemma sample_mesh_ok: "delegations_ok (m_delegations sample_mesh)"
  by (simp add: delegations_ok_def sample_delegation_def)

lemma sample_run_created:
  obtains r s' where
    "create_agent_run sample_env ''acme'' ''bot'' sample_run_request 12 7 ''fp'' sample_mesh = (Inr r, s')"
    "map_of (st_runs (m_runs s')) ''r1'' = Some r" "r_id r = ''r1''"
    "r_capability_scope r = [''invoices.read'']" "r_tenant_id r = ''acme''"
    "m_tenants s' = m_tenants sample_mesh"
proof -
  have d: "run_delegation sample_tenant ''bot'' sample_run_request 12 sample_mesh
      = Inr (sample_delegation ''bot'')"
    by (simp add: run_delegation_def get_delegation_def sample_run_request_def
        sample_delegation_def sample_tenant_def map_err_def is_valid_at_iff check_def
        tenant_scope_holds_def scope_resource_def is_subset_of_iff)
  show thesis
    by (rule that, simp add: create_agent_run_def andThen_def sample_tenant_known
        sample_agent_known d run_parent_ok_def put_run_def on_runs_def zoom_def
        mapErr_def audit_def Let_def sample_env_def record_event_def audit_event_def map_err_def
        audit_record_def require_def)
      (simp_all add: new_run_def)
qed

theorem runs_stay_within_authority_witness:
  "\<exists>(s :: MemoryAuditLog Mesh) r. map_of (st_runs (m_runs s)) ''r1'' = Some r
     \<and> r_capability_scope r = [''invoices.read'']
     \<and> (\<exists>d. map_of (st_delegations (m_delegations s)) (r_delegation_id r) = Some d
          \<and> ''invoices.read'' \<in> set (d_capabilities d))"
proof -
  obtain r s' where c:
    "create_agent_run sample_env ''acme'' ''bot'' sample_run_request 12 7 ''fp'' sample_mesh = (Inr r, s')"
    "map_of (st_runs (m_runs s')) ''r1'' = Some r" "r_capability_scope r = [''invoices.read'']"
    by (rule sample_run_created)
  have "(mesh_step (env_record sample_env))\<^sup>*\<^sup>* sample_mesh s'"
    by (rule r_into_rtranclp) (use step_create_run [OF refl, of sample_env sample_mesh "''acme''" "''bot''"
        sample_run_request 12 7 "''fp''"] c(1) in simp)
  note within = runs_stay_within_authority
    [OF sample_mesh_parts(3) sample_mesh_ok this c(2)]
  show ?thesis
    using conjunct1 [OF within] c(2,3) by (intro exI [of _ s'] exI [of _ r]) auto
qed

subsection \<open>Cancelling a run is final\<close>

definition run_is_cancelled :: "RunId \<Rightarrow> 'l Mesh \<Rightarrow> bool" where
  "run_is_cancelled i s \<longleftrightarrow>
     (\<exists>r. map_of (st_runs (m_runs s)) i = Some r \<and> r_status r = StatusCancelled)"

interpretation run_is_cancelled: mesh_invariant rec "run_is_cancelled i" for rec i
proof unfold_locales
  show "run_is_cancelled i s \<Longrightarrow> run_is_cancelled i (snd (conclude env ctx cap d now revision s))"
    for s env ctx cap d now revision
    by (rule conclude_stable) (simp_all add: run_is_cancelled_def)
qed (auto simp: run_is_cancelled_def put_run_def update_run_def split: if_splits)

lemma audit_result: "audit env t r now s = (x, s') \<Longrightarrow> s' = s\<lparr>m_audit_sequence := m_audit_sequence s + 1,
     m_audit := snd (env_record env t (audit_event (m_config s) t (m_audit_sequence s) r now)
                       (m_audit s))\<rparr>"
  using snd_audit [of env t r now s] by simp

lemma cancel_agent_run_ok:
  assumes "cancel_agent_run env tid i now s = (Inr r, s')"
  shows "map_of (st_runs (m_runs s')) (r_id r) = Some r \<and> r_status r = StatusCancelled
    \<and> (\<exists>r0. map_of (st_runs (m_runs s)) i = Some r0 \<and> r_id r0 = r_id r)"
  using assms unfolding cancel_agent_run_def on_runs_def
  by (elim eff_elims)
    (auto dest!: audit_result simp: update_run_def agent_run_def runs.fetch_Some split: if_splits)

text \<open>
  C12. Cancelling a run is final: once a run of a mesh has been cancelled, then whatever
  operations follow, the run is still stored as cancelled and no request made in it is allowed,
  by whatever context and at whatever time.
\<close>

theorem cancelled_run_never_authorizes:
  assumes "st_runs (m_runs s0) = []" "delegations_ok (m_delegations s0)"
    and "(mesh_step rec)\<^sup>*\<^sup>* s0 s" "cancel_agent_run env tid i t0 s = (Inr r, s1)"
    and "(mesh_step rec)\<^sup>*\<^sup>* s1 s2"
  shows "(\<exists>r. map_of (st_runs (m_runs s2)) i = Some r \<and> r_status r = StatusCancelled)
    \<and> \<not> is_allowed
         (fst (authorize_run_request_with_authority_revision env' ctx i rq attrs now revision s2))"
proof -
  have "runs_confined s0" using assms(1,2) by (simp add: runs_confined_def)
  then have "runs_confined s" by (rule runs_confined.kept_run [OF assms(3)])
  then have "run_is_cancelled i s1"
    using cancel_agent_run_ok [OF assms(4)] by (auto simp: run_is_cancelled_def runs_confined_def)
  then have c: "run_is_cancelled i s2" by (rule run_is_cancelled.kept_run [OF assms(5)])
  then have "\<nexists>r. checked_run_for_request ctx i rq attrs now s2 = Inr r"
    by (auto simp: checked_run_for_request_Inr checked_run_Inr run_is_cancelled_def)
  then show ?thesis
    using c authorize_run_allowed [of env' ctx i rq attrs now revision s2]
    unfolding run_is_cancelled_def by blast
qed

theorem cancelled_run_never_authorizes_witness:
  "\<exists>(s :: MemoryAuditLog Mesh) r. map_of (st_runs (m_runs s)) ''r1'' = Some r
     \<and> r_status r = StatusCancelled"
proof -
  obtain r s where c:
    "create_agent_run sample_env ''acme'' ''bot'' sample_run_request 12 7 ''fp'' sample_mesh = (Inr r, s)"
    "map_of (st_runs (m_runs s)) ''r1'' = Some r" "r_id r = ''r1''" "r_tenant_id r = ''acme''"
    "m_tenants s = m_tenants sample_mesh"
    by (rule sample_run_created)
  have step: "(mesh_step (env_record sample_env))\<^sup>*\<^sup>* sample_mesh s"
    by (rule r_into_rtranclp) (use step_create_run [OF refl, of sample_env sample_mesh
        "''acme''" "''bot''" sample_run_request 12 7 "''fp''"] c(1) in simp)
  have "\<exists>r' s'. cancel_agent_run sample_env ''acme'' ''r1'' 13 s = (Inr r', s')"
    using c by (simp add: cancel_agent_run_def andThen_def sample_tenant_known agent_run_def
        get_run_def map_err_def update_run_def on_runs_def zoom_def mapErr_def audit_def Let_def
        sample_env_def record_event_def audit_event_def require_def)
  then obtain r' s' where "cancel_agent_run sample_env ''acme'' ''r1'' 13 s = (Inr r', s')" by blast
  from cancelled_run_never_authorizes
    [OF sample_mesh_parts(3) sample_mesh_ok step this rtranclp.rtrancl_refl]
  show ?thesis by blast
qed

subsection \<open>Revoking a delegation is final\<close>

definition delegations_sound :: "'l Mesh \<Rightarrow> bool" where
  "delegations_sound s \<longleftrightarrow>
     bwf (st_delegations (m_delegations s)) \<and> delegations_ok (m_delegations s)"

definition delegation_is_revoked :: "DelegationId \<Rightarrow> 'l Mesh \<Rightarrow> bool" where
  "delegation_is_revoked k s \<longleftrightarrow> delegations_sound s
     \<and> (\<exists>d. map_of (st_delegations (m_delegations s)) k = Some d \<and> d_revoked_at d \<noteq> None)"

lemma delegation_step_bwf:
  "delegation_step ds ds' \<Longrightarrow> bwf (st_delegations ds) \<Longrightarrow> bwf (st_delegations ds')"
  by (induction rule: delegation_step.induct)
    (auto simp: create_delegation_def store_revoke_delegation_def split: if_splits option.splits)

lemma delegations_sound_step:
  "delegations_sound s \<Longrightarrow> delegation_step (m_delegations s) ds \<Longrightarrow>
     delegations_sound (s\<lparr>m_delegations := ds\<rparr>)"
  by (simp add: delegations_sound_def delegation_step_bwf delegation_step_ok)

lemma delegation_is_revoked_step:
  assumes "delegation_is_revoked k s" "delegation_step (m_delegations s) ds"
  shows "delegation_is_revoked k (s\<lparr>m_delegations := ds\<rparr>)"
proof -
  obtain d where d: "map_of (st_delegations (m_delegations s)) k = Some d" "d_revoked_at d \<noteq> None"
    using assms(1) by (auto simp: delegation_is_revoked_def)
  show ?thesis
    using delegation_step_entry [OF assms(2) d(1)] d(2) assms
    by (auto simp: delegation_is_revoked_def delegations_sound_step)
qed

lemma create_is_delegation_step: "delegation_step ds (snd (create_delegation d ds))"
  by (rule delegation_step.step_create) (rule prod.collapse [symmetric])

lemma revoke_is_delegation_step: "delegation_step ds (snd (store_revoke_delegation t k at ds))"
  by (rule delegation_step.step_revoke) (rule prod.collapse [symmetric])

interpretation delegations_sound: mesh_invariant rec delegations_sound for rec
proof unfold_locales
  show "delegations_sound s \<Longrightarrow> delegations_sound (snd (conclude env ctx cap d now revision s))"
    for s env ctx cap d now revision
    by (rule conclude_stable) (simp_all add: delegations_sound_def)
qed (simp_all add: delegations_sound_step create_is_delegation_step revoke_is_delegation_step,
    simp_all add: delegations_sound_def)

interpretation delegation_is_revoked: mesh_invariant rec "delegation_is_revoked k" for rec k
proof unfold_locales
  show "delegation_is_revoked k s \<Longrightarrow>
      delegation_is_revoked k (snd (conclude env ctx cap d now revision s))"
    for s env ctx cap d now revision
    by (rule conclude_stable) (simp_all add: delegation_is_revoked_def delegations_sound_def)
qed (simp_all add: delegation_is_revoked_step create_is_delegation_step revoke_is_delegation_step,
    simp_all add: delegation_is_revoked_def delegations_sound_def)

lemma revoke_delegation_ok:
  assumes "revoke_delegation env tid k t0 s = (Inr u, s')" "delegations_sound s"
  shows "delegation_is_revoked k s'"
proof -
  have "delegations_sound s'"
    using delegations_sound.kept_step [OF step_revoke_delegation [OF refl, of env s tid k t0]]
      assms by simp
  moreover have "\<exists>d. map_of (st_delegations (m_delegations s')) k = Some d \<and> d_revoked_at d \<noteq> None"
    using assms(1) unfolding revoke_delegation_def on_delegations_def
    by (elim eff_elims)
      (auto dest!: audit_result simp: store_revoke_delegation_def split: if_splits option.splits)
  ultimately show ?thesis by (simp add: delegation_is_revoked_def)
qed

lemma revoked_delegation_not_granted:
  assumes "delegation_is_revoked k s"
    and "decision_grant
           (fst (authorize_request_with_authority_revision env ctx rq attrs now revision s)) = Some g"
  shows "g_delegation_id g \<noteq> Some k"
proof
  assume k: "g_delegation_id g = Some k"
  let ?ds = "delegations_for (c_tenant ctx) (p_id (c_principal ctx)) s"
  have "is_allowed (fst (authorize_request_with_authority_revision env ctx rq attrs now revision s))"
    using assms(2) by (simp add: is_allowed_iff)
  from authorize_request_allowed [OF this] assms(2) obtain pol where
    "decision_grant (evaluate_authorization_request (env_clock env) (Some pol)
       (Some (c_principal ctx)) (Some (c_tenant ctx))
       (pick_delegation ?ds (rq_capability rq) now) rq attrs now) = Some g" by auto
  then obtain pol' p t d where d: "pick_delegation ?ds (rq_capability rq) now = Some d"
    "delegation_covers d p t rq attrs now" "g = delegated_grant pol' p t d (rq_capability rq)"
    by (rule decision_delegated) (use k in auto)
  have "d \<in> set ?ds" using pick_delegation_mem [OF d(1)] by simp
  then obtain j where "map_of (st_delegations (m_delegations s)) j = Some d"
    using assms(1) by (auto simp: delegation_is_revoked_def delegations_sound_def
        delegations_for_def list_delegations_for_delegate_def set_bvalues)
  moreover have "d_id d = k" using k d(3) by (simp add: delegated_grant_def)
  ultimately have "map_of (st_delegations (m_delegations s)) k = Some d"
    using assms(1) by (auto simp: delegation_is_revoked_def delegations_sound_def delegations_ok_def)
  then show False
    using assms(1) d(2) by (auto simp: delegation_is_revoked_def delegation_covers_def is_valid_at_iff)
qed

text \<open>
  C4. Revoking a delegation is final: once a delegation has been revoked, then whatever
  operations follow, no decision of the mesh, for a request or for a request made in a run, is
  granted on that delegation, by whatever context and at whatever time.
\<close>

theorem revoked_delegation_never_authorizes:
  assumes "bwf (st_delegations (m_delegations s0))" "delegations_ok (m_delegations s0)"
    and "(mesh_step rec)\<^sup>*\<^sup>* s0 s" "revoke_delegation env tid k t0 s = (Inr u, s1)"
    and "(mesh_step rec)\<^sup>*\<^sup>* s1 s2"
  shows "map_option g_delegation_id (decision_grant
        (fst (authorize_request_with_authority_revision env' ctx rq attrs now revision s2)))
        \<noteq> Some (Some k)
    \<and> map_option g_delegation_id (decision_grant
        (fst (authorize_run_request_with_authority_revision env' ctx i rq attrs now revision s2)))
        \<noteq> Some (Some k)"
proof -
  have "delegations_sound s0" using assms(1,2) by (simp add: delegations_sound_def)
  then have "delegations_sound s" by (rule delegations_sound.kept_run [OF assms(3)])
  then have "delegation_is_revoked k s1" by (rule revoke_delegation_ok [OF assms(4)])
  then have "delegation_is_revoked k s2" by (rule delegation_is_revoked.kept_run [OF assms(5)])
  note never = revoked_delegation_not_granted [OF this]
  moreover have "g_delegation_id g \<noteq> Some k" if g: "decision_grant
      (fst (authorize_run_request_with_authority_revision env' ctx i rq attrs now revision s2))
        = Some g" for g
  proof -
    have "is_allowed
        (fst (authorize_run_request_with_authority_revision env' ctx i rq attrs now revision s2))"
      using g by (simp add: is_allowed_iff)
    from authorize_run_allowed [OF this] show ?thesis using never g by fastforce
  qed
  ultimately show ?thesis by auto
qed

theorem revoked_delegation_never_authorizes_witness:
  "\<exists>s1 :: MemoryAuditLog Mesh.
     revoke_delegation sample_env ''acme'' ''d1'' 13 sample_mesh = (Inr (), s1)
     \<and> map_option g_delegation_id (decision_grant (fst (authorize_request_with_authority_revision
           sample_env (sample_context sample_agent) sample_invoice_request None 15 7 s1)))
           \<noteq> Some (Some ''d1'')"
proof -
  have bwf: "bwf (st_delegations (m_delegations sample_mesh))" by (simp add: bwf_def)
  have "\<exists>s1. revoke_delegation sample_env ''acme'' ''d1'' 13 sample_mesh = (Inr (), s1)"
    by (simp add: revoke_delegation_def andThen_def sample_tenant_known store_revoke_delegation_def
        on_delegations_def zoom_def mapErr_def audit_def Let_def sample_env_def record_event_def
        audit_event_def require_def sample_delegation_def map_err_def)
  then obtain s1 where s1: "revoke_delegation sample_env ''acme'' ''d1'' 13 sample_mesh = (Inr (), s1)"
    by blast
  note never = revoked_delegation_never_authorizes
    [OF bwf sample_mesh_ok rtranclp.rtrancl_refl s1 rtranclp.rtrancl_refl]
  show ?thesis using never s1 by blast
qed

subsection \<open>The trail and the recent decisions\<close>

text \<open>The event that backs a piece of evidence.\<close>

definition backs :: "AuditEvent \<Rightarrow> AuthorizationEvidence \<Rightarrow> bool" where
  "backs e v \<longleftrightarrow> au_tenant_id e = ae_tenant v \<and> au_principal_id e = Some (ae_principal v)
     \<and> au_timestamp e = ae_timestamp v
     \<and> au_kind e = (if ae_decision v = OutcomeAllow then KindAuthorizationGranted
                    else KindAuthorizationDenied)"

lemma decision_event_backs:
  "backs (decision_event s ctx cap d now) (decision_evidence ctx cap (attach_audit_event d i) now revision fp)"
  by (cases d)
    (simp_all add: backs_def decision_evidence_def attach_audit_event_def Let_def is_allowed_def)

definition decisions_backed :: "('l \<Rightarrow> AuditEvent list) \<Rightarrow> 'l Mesh \<Rightarrow> bool" where
  "decisions_backed trail s \<longleftrightarrow> length (m_decisions s) \<le> 100
     \<and> (\<forall>v \<in> set (m_decisions s). \<exists>e \<in> set (trail (m_audit s)). backs e v)"

text \<open>A mesh over an audit log that keeps what it recorded.\<close>

locale audited_mesh = audit_log rec trail
  for rec :: "TenantContext \<Rightarrow> AuditEvent \<Rightarrow> ('l, StorageError, unit) eff"
    and trail :: "'l \<Rightarrow> AuditEvent list"
begin

lemma extends_rec: "extends l m \<Longrightarrow> extends l (snd (rec t e m))"
  using rec_extends extends_trans by blast

lemma extends_conclude:
  assumes "extends l (m_audit s)" "env_record env = rec"
  shows "extends l (m_audit (snd (conclude env ctx cap d now revision s)))"
  using snd_conclude [of env ctx cap d now revision s] extends_rec [OF assms(1)]
  unfolding assms(2) by auto

lemma backed_extends:
  "decisions_backed trail s \<Longrightarrow> extends (m_audit s) l \<Longrightarrow>
     decisions_backed trail (s\<lparr>m_audit_sequence := n, m_audit := l\<rparr>)"
  using extends_recorded unfolding decisions_backed_def by fastforce

lemma backed_conclude:
  assumes "decisions_backed trail s" "env_record env = rec"
  shows "decisions_backed trail (snd (conclude env ctx cap d now revision s))"
proof (rule conclude_cases [of env ctx s cap d now revision], goal_cases)
  case (1 l)
  let ?s = "s\<lparr>m_audit_sequence := m_audit_sequence s + 1, m_audit := l\<rparr>"
  let ?v = "decision_evidence ctx cap (attach_audit_event d (last_audit_event_id (c_tenant ctx) ?s))
      now revision (fingerprint (m_config s))"
  have "rec (c_tenant ctx) (decision_event s ctx cap d now) (m_audit s) = (Inr (), l)"
    using 1(1) assms(2) by simp
  then have "decision_event s ctx cap d now \<in> set (trail l)" "extends (m_audit s) l"
    using rec_recorded rec_extends [of "m_audit s"] by (blast, metis snd_conv)
  moreover have "set (tl xs) \<subseteq> set xs" for xs :: "AuthorizationEvidence list"
    by (cases xs) auto
  ultimately show ?case
    using backed_extends [OF assms(1)] decision_event_backs [of s ctx cap d now]
    unfolding 1(2) by (fastforce simp: remember_decision_def Let_def decisions_backed_def)
next
  case (2 e l)
  then have "extends (m_audit s) l"
    using rec_extends [of "m_audit s"] assms(2) by (metis snd_conv)
  then show ?case unfolding 2(2) using backed_extends [OF assms(1)] by simp
qed

end

sublocale audited_mesh \<subseteq> grows: mesh_invariant rec "\<lambda>s. extends l (m_audit s)" for l
  by unfold_locales (simp_all add: extends_rec extends_conclude)

sublocale audited_mesh \<subseteq> backed: mesh_invariant rec "decisions_backed trail"
  by unfold_locales (simp_all add: backed_conclude backed_extends rec_extends,
      simp_all add: decisions_backed_def)

context audited_mesh
begin

lemma trail_only_grows: "(mesh_step rec)\<^sup>*\<^sup>* s s' \<Longrightarrow> extends (m_audit s) (m_audit s')"
  using grows.kept_run [of s s' "m_audit s"] by (simp add: extends_refl)

lemma decisions_stay_backed:
  "(mesh_step rec)\<^sup>*\<^sup>* s s' \<Longrightarrow> decisions_backed trail s \<Longrightarrow> decisions_backed trail s'"
  by (rule backed.kept_run)

end

interpretation mem_mesh: audited_mesh record_event log_events
  by unfold_locales

text \<open>
  C19. The trail only grows and explains the recent decisions: over an audit log that appends
  what it accepts, whatever operations follow, the events that were in the trail stay in it, in
  order; the mesh remembers at most a hundred decisions; and each remembered decision has an
  event in the trail with its tenant, its principal, its time and its outcome.
\<close>

theorem trail_grows_and_backs_decisions:
  assumes "audit_log rec trail" "m_decisions s0 = []" "(mesh_step rec)\<^sup>*\<^sup>* s0 s"
  shows "(\<exists>es. trail (m_audit s) = trail (m_audit s0) @ es)
    \<and> length (recent_decisions s) \<le> 100
    \<and> (\<forall>v \<in> set (recent_decisions s). \<exists>e \<in> set (trail (m_audit s)).
         au_tenant_id e = ae_tenant v \<and> au_principal_id e = Some (ae_principal v)
         \<and> au_timestamp e = ae_timestamp v
         \<and> au_kind e = (if ae_decision v = OutcomeAllow then KindAuthorizationGranted
                        else KindAuthorizationDenied))"
proof -
  have am: "audited_mesh rec trail" using assms(1) by (rule audited_mesh.intro)
  have "decisions_backed trail s0" using assms(2) by (simp add: decisions_backed_def)
  then have "decisions_backed trail s" by (rule audited_mesh.decisions_stay_backed [OF am assms(3)])
  then show ?thesis
    using audited_mesh.trail_only_grows [OF am assms(3)]
    by (simp add: decisions_backed_def backs_def recent_decisions_def
        audit_log.extends_def [OF assms(1)])
qed

theorem trail_grows_and_backs_decisions_witness:
  "(\<exists>es. log_events (m_audit (snd (authorize_request_with_authority_revision sample_env
        (sample_context sample_agent) sample_invoice_request None 15 7 sample_mesh)))
        = log_events (m_audit sample_mesh) @ es)
     \<and> length (recent_decisions (snd (authorize_request_with_authority_revision sample_env
        (sample_context sample_agent) sample_invoice_request None 15 7 sample_mesh))) \<le> 100"
proof -
  let ?s = "snd (authorize_request_with_authority_revision sample_env (sample_context sample_agent)
      sample_invoice_request None 15 7 sample_mesh)"
  have "(mesh_step record_event)\<^sup>*\<^sup>* sample_mesh ?s"
    by (rule r_into_rtranclp) (rule step_authorize_request; simp add: sample_env_def)
  from trail_grows_and_backs_decisions [OF mem_log.audit_log_axioms sample_mesh_parts(6) this]
  show ?thesis by auto
qed

end
