(* ===== verification/MeshSessions.thy ===== *)
theory MeshSessions
  imports MeshInvariants
begin

text \<open>
  What signing in, signing up, resolving a session, logging out and suspending an agent
  establish: the functional facts of the mesh operations on sessions, over the stores of
  \<^verbatim>\<open>Stores\<close> and the resolution of \<^verbatim>\<open>Resolution\<close>.
\<close>

subsection \<open>What the lookups depend on\<close>

lemma tenant_cong: "m_tenants s' = m_tenants s \<Longrightarrow> tenant i s' = tenant i s"
  by (simp add: tenant_def)

lemma principal_of_cong: "dir_principals s' = dir_principals s \<Longrightarrow> principal_of t i s' = principal_of t i s"
  by (simp add: principal_of_def)

lemma resolve_principal_cong:
  assumes "dir_identities s' = dir_identities s" "dir_principals s' = dir_principals s"
  shows "resolve_principal t x s' = resolve_principal t x s"
  unfolding resolve_principal_def assms ..

lemma principal_of_Inr:
  "principal_of t i s = Inr p \<longleftrightarrow>
     map_of (st_principals (dir_principals s)) i = Some p \<and> p_tenant_id p = t_id t"
  by (auto simp: principal_of_def rbind_Inr principals.fetch_Some)

lemma usable_Inr:
  "assert_principal_is_usable p = Inr u \<longleftrightarrow>
     (p_kind p = Agent \<longrightarrow> p_agent_state p = Some StateActive)"
  by (auto simp: assert_principal_is_usable_def)

lemma context_for_Inr:
  assumes "context_for env t p sid now s = Inr ctx"
  shows "c_principal ctx = p \<and> c_tenant ctx = t \<and> c_session_id ctx = sid \<and> c_run ctx = None
    \<and> c_claims ctx = p_claims p
    \<and> (\<exists>pol. policy t s = Inr pol \<and> evaluate_with_delegations (env_clock env) pol p t
          (delegations_for t (p_id p) s) now = Inr (c_capabilities ctx))"
  using assms by (auto simp: context_for_def Let_def rbind_Inr)

lemma context_for_total:
  assumes "policy t s = Inr pol" "p_tenant_id p = t_id t" "pol_id pol = t_policy_id t"
  shows "\<exists>ctx. context_for env t p sid now s = Inr ctx"
proof -
  obtain caps where "evaluate_with_delegations (env_clock env) pol p t
      (delegations_for t (p_id p) s) now = Inr caps"
    using assms(2,3)
    by (cases "p_kind p = Agent \<and> p_agent_state p \<noteq> Some StateActive")
      (simp_all add: evaluate_with_delegations_def)
  then show ?thesis using assms(1) by (simp add: context_for_def Let_def map_err_def)
qed

lemma policy_cong:
  "m_policies s' = m_policies s \<Longrightarrow> m_config s' = m_config s \<Longrightarrow> policy t s' = policy t s"
  by (simp add: policy_def split: option.split)

lemma context_for_at_any_time:
  assumes "context_for env t p sid now s = Inr ctx" "m_policies s' = m_policies s"
    and "m_config s' = m_config s"
  obtains ctx' where "context_for env' t p sid' now' s' = Inr ctx'"
proof -
  obtain pol where pol: "policy t s = Inr pol" "evaluate_with_delegations (env_clock env) pol p t
      (delegations_for t (p_id p) s) now = Inr (c_capabilities ctx)"
    using context_for_Inr [OF assms(1)] by blast
  then have "p_tenant_id p = t_id t" "pol_id pol = t_policy_id t"
    by (auto simp: evaluate_with_delegations_def split: if_splits)
  moreover have "policy t s' = Inr pol" using pol(1) policy_cong [OF assms(2,3)] by simp
  ultimately show thesis using context_for_total that by blast
qed

subsection \<open>Opening and resolving a session\<close>

lemma open_authenticated_Inr:
  assumes "open_authenticated env kind t x rp now s = (Inr a, s')"
  obtains l where
    "s' = s\<lparr>m_sessions := \<lparr>st_sessions = binsert (s_id (as_session a)) (as_session a)
               (st_sessions (m_sessions s)), st_next_id = st_next_id (m_sessions s) + 1\<rparr>,
            m_audit_sequence := m_audit_sequence s + 1, m_audit := l\<rparr>"
    "as_session a = \<lparr>s_id = env_mint env (st_next_id (m_sessions s) + 1),
       s_identity_id = i_id (rp_identity rp), s_tenant_id = t_id t, s_created_at = 0,
       s_expires_at = i64_add now (m_session_ttl s), s_revoked_at = None\<rparr>"
    "as_external a = x"
    "context_for env t (rp_principal rp) (Some (s_id (as_session a))) now s' = Inr (as_context a)"
    "\<exists>e. env_record env t e (m_audit s) = (Inr (), l) \<and> au_kind e = kind
       \<and> au_principal_id e = Some (p_id (rp_principal rp))
       \<and> au_session_id e = Some (s_id (as_session a)) \<and> au_tenant_id e = t_id t
       \<and> au_timestamp e = now"
proof -
  obtain session s1 s2 ctx where
    o: "open_session env t (i_id (rp_identity rp)) now s = (Inr session, s1)" and
    e: "audit env t ((audit_record kind)
         \<lparr>rec_principal_id := Some (p_id (rp_principal rp)), rec_session_id := Some (s_id session),
          rec_metadata :=
            [(''provider'', xi_connector x),
             (''authentication_method'',
               method_as_str (authentication_method_for_provider (xi_connector x))),
             (''authentication_assurance'', assurance_as_str Basic),
             (''authentication_result'', ''success'')]\<rparr>) now s1 = (Inr (), s2)" and
    c: "context_for env t (rp_principal rp) (Some (s_id session)) now s2 = Inr ctx" and
    a: "a = \<lparr>as_session = session, as_external = x, as_context = ctx\<rparr>" "s' = s2"
    using assms unfolding open_authenticated_def by (elim eff_elims) auto
  have s1: "s1 = s\<lparr>m_sessions := \<lparr>st_sessions = binsert (s_id session) session
               (st_sessions (m_sessions s)), st_next_id = st_next_id (m_sessions s) + 1\<rparr>\<rparr>"
    "session = \<lparr>s_id = env_mint env (st_next_id (m_sessions s) + 1),
       s_identity_id = i_id (rp_identity rp), s_tenant_id = t_id t, s_created_at = 0,
       s_expires_at = i64_add now (m_session_ttl s), s_revoked_at = None\<rparr>"
    using o by (auto simp: open_session_def on_sessions_def zoom_def mapErr_def create_session_def Let_def)
  show thesis
  proof (rule that [of "m_audit s2"], goal_cases)
    case 1 then show ?case using audit_result [OF e] s1(1) by (simp add: a)
  next
    case 2 then show ?case using s1(2) by (simp add: a)
  next
    case 5 then show ?case
      using e by (auto simp: audit_def Let_def audit_event_def audit_record_def a s1(1)
          split: prod.splits)
  qed (use c in \<open>simp_all add: a\<close>)
qed

lemma resolve_session_Inr:
  "resolve_session env tid sid now s = Inr (session, ctx) \<longleftrightarrow>
     (\<exists>t identity i p. tenant tid s = Inr t \<and> validate_session t sid now (m_sessions s) = Inr session
        \<and> get_identity t (s_identity_id session) (dir_identities s) = Inr (Some identity)
        \<and> resolve_external_identity t (i_provider identity) (i_provider_subject identity)
            (dir_principals s) = Some i
        \<and> principal_of t i s = Inr p \<and> assert_principal_is_usable p = Inr ()
        \<and> context_for env t p (Some (s_id session)) now s = Inr ctx)"
  by (auto simp: resolve_session_def rbind_Inr)

subsection \<open>Signing in\<close>

lemma authenticate_external_Inr:
  "authenticate_external env t rs s = Inr x \<Longrightarrow>
     declares_provider (m_config s) (ars_connector rs) \<and> xi_connector x = ars_connector rs
     \<and> trim (xi_subject x) \<noteq> []
     \<and> (\<exists>c. registry_get (m_registry s) (ars_connector rs) = Inr c
          \<and> connector_authenticate (env_argon2 env) c rs = Inr x)"
  by (auto simp: authenticate_external_def connector_def rbind_Inr)

lemma resolve_principal_Inr:
  "resolve_principal t x s = Inr (Some rp) \<Longrightarrow>
     resolve_external_identity t (xi_connector x) (xi_subject x) (dir_principals s)
       = Some (b_principal_id (rp_binding rp))
     \<and> map_of (st_principals (dir_principals s)) (b_principal_id (rp_binding rp)) = Some (rp_principal rp)
     \<and> p_tenant_id (rp_principal rp) = t_id t
     \<and> find_identity t (xi_connector x) (xi_subject x) (dir_identities s) = Inr (Some (rp_identity rp))"
  by (auto simp: resolve_principal_def Let_def rbind_Inr principals.fetch_Some bindings_for_def
      dest!: find_SomeD split: option.splits)

lemma sign_in_Inr:
  assumes "sign_in env tid rs now s = (Inr a, s')"
  obtains t x rp where "tenant tid s = Inr t" "authenticate_external env t rs s = Inr x"
    "resolve_principal t x s = Inr (Some rp)" "assert_principal_is_usable (rp_principal rp) = Inr ()"
    "open_authenticated env KindLogin t x rp now s = (Inr a, s')"
  using assms unfolding sign_in_def by (elim eff_elims) (auto dest: eq_reflection)

text \<open>
  C32. Signing in is sound and creates nothing but a session. It succeeds only for a known
  tenant, a connector that the contract declares and that vouched for the response, and an
  external identity already bound to a principal of that tenant, active if it is an agent. The
  session is stored, unrevoked, for the identity that the directory holds for that external
  identity in the tenant; the context is that principal's, in that session. The event of the
  login is recorded. Everything else of the mesh is as before: it differs only in the new
  session and the counter of sessions, and in the trail and its counter.
\<close>

theorem sign_in_is_sound:
  assumes "audit_log (env_record env) trail" "sign_in env tid rs now s = (Inr a, s')"
  shows "\<exists>t x identity i p e. tenant tid s = Inr t \<and> authenticate_external env t rs s = Inr x
    \<and> as_external a = x \<and> xi_connector x = ars_connector rs
    \<and> declares_provider (m_config s) (ars_connector rs)
    \<and> resolve_external_identity t (xi_connector x) (xi_subject x) (dir_principals s) = Some i
    \<and> map_of (st_principals (dir_principals s)) i = Some p \<and> p_tenant_id p = t_id t
    \<and> (p_kind p = Agent \<longrightarrow> p_agent_state p = Some StateActive)
    \<and> c_principal (as_context a) = p \<and> c_tenant (as_context a) = t
    \<and> c_session_id (as_context a) = Some (s_id (as_session a))
    \<and> find_identity t (xi_connector x) (xi_subject x) (dir_identities s) = Inr (Some identity)
    \<and> s_identity_id (as_session a) = i_id identity
    \<and> map_of (st_sessions (m_sessions s')) (s_id (as_session a)) = Some (as_session a)
    \<and> s_tenant_id (as_session a) = t_id t \<and> s_revoked_at (as_session a) = None
    \<and> s_expires_at (as_session a) = i64_add now (m_session_ttl s)
    \<and> trail (m_audit s') = trail (m_audit s) @ [e] \<and> au_kind e = KindLogin
    \<and> au_principal_id e = Some (p_id p) \<and> au_session_id e = Some (s_id (as_session a))
    \<and> dir_identities s' = dir_identities s \<and> dir_principals s' = dir_principals s
    \<and> s' = s\<lparr>m_sessions := \<lparr>st_sessions = binsert (s_id (as_session a)) (as_session a)
                 (st_sessions (m_sessions s)), st_next_id = st_next_id (m_sessions s) + 1\<rparr>,
              m_audit_sequence := m_audit_sequence s + 1, m_audit := m_audit s'\<rparr>"
proof -
  obtain t x rp where si: "tenant tid s = Inr t" "authenticate_external env t rs s = Inr x"
    "resolve_principal t x s = Inr (Some rp)" "assert_principal_is_usable (rp_principal rp) = Inr ()"
    "open_authenticated env KindLogin t x rp now s = (Inr a, s')"
    by (rule sign_in_Inr [OF assms(2)])
  show ?thesis
  proof (rule open_authenticated_Inr [OF si(5)], goal_cases)
    case (1 l)
    then obtain e where e: "env_record env t e (m_audit s) = (Inr (), l)" "au_kind e = KindLogin"
      "au_principal_id e = Some (p_id (rp_principal rp))"
      "au_session_id e = Some (s_id (as_session a))" by blast
    have "trail l = trail (m_audit s) @ [e]" using audit_log.rec_ok [OF assms(1) e(1)] .
    with e 1(1-4) show ?case
      using si(1,2,4) authenticate_external_Inr [OF si(2)] resolve_principal_Inr [OF si(3)]
        context_for_Inr [OF 1(4)]
      by (intro exI [of _ t] exI [of _ x] exI [of _ "rp_identity rp"]
          exI [of _ "b_principal_id (rp_binding rp)"] exI [of _ "rp_principal rp"] exI [of _ e])
        (simp add: usable_Inr)
  qed
qed

subsection \<open>Signing up\<close>

lemma sign_up_Inr:
  assumes "sign_up env tid rs reg now s = (Inr a, s')"
  obtains t x cs rp s1 where "tenant tid s = Inr t" "reg_kind reg = Agent \<longrightarrow> cf_agents (m_config s)"
    "authenticate_external env t rs s = Inr x" "registration_claims reg s = Inr cs"
    "provision_principal t x (reg_kind reg) cs now s = (Inr rp, s1)"
    "open_authenticated env KindAccountLinked t x rp now s1 = (Inr a, s')"
  using assms unfolding sign_up_def by (elim eff_elims) (auto simp: check_def split: if_splits)

text \<open>What the mesh keeps fixed while it provisions.\<close>

definition same_setting :: "'l Mesh \<Rightarrow> 'l Mesh \<Rightarrow> bool" where
  "same_setting s s' \<longleftrightarrow> m_tenants s' = m_tenants s \<and> m_config s' = m_config s
     \<and> m_registry s' = m_registry s \<and> m_policies s' = m_policies s \<and> m_session_ttl s' = m_session_ttl s"

lemma same_setting_on [simp]:
  "same_setting s0 s \<Longrightarrow> same_setting s0 (s\<lparr>dir_identities := ids\<rparr>)"
  "same_setting s0 s \<Longrightarrow> same_setting s0 (s\<lparr>dir_principals := ps\<rparr>)"
  by (simp_all add: same_setting_def)

lemma preserves_same_setting:
  "preserves (same_setting s0) (on_identities m)" "preserves (same_setting s0) (on_principals n)"
  by (auto simp: preserves_def split: prod.splits)

lemma provision_same_setting:
  assumes "provision_principal t x kind cs now s = (r, s')"
  shows "same_setting s s'"
proof -
  have "preserves (same_setting s) (provision_principal t x kind cs now)"
    unfolding provision_principal_def link_identity_record_def Let_def
    by (intro eff_preserves preserves_same_setting)
  then show ?thesis using assms by (rule preservesD) (simp add: same_setting_def)
qed

lemma authenticate_external_cong:
  "same_setting s s' \<Longrightarrow> authenticate_external env t rs s' = authenticate_external env t rs s"
  by (simp add: authenticate_external_def connector_def same_setting_def)

lemma registration_claims_agent:
  "registration_claims reg s = Inr cs \<Longrightarrow> reg_kind reg = Agent \<Longrightarrow> cs = []"
  by (auto simp: registration_claims_def rbind_Inr)

lemma provision_needs_unbound:
  "provision_principal t x kind cs now s = (Inr rp, s') \<Longrightarrow>
     resolve_external_identity t (xi_connector x) (xi_subject x) (dir_principals s) = None"
  unfolding provision_principal_def by (elim eff_elims) (simp add: check_def split: if_splits)

lemma validate_opened:
  "map_of (st_sessions ss) (s_id x) = Some x \<Longrightarrow> s_tenant_id x = t_id t \<Longrightarrow> s_revoked_at x = None
     \<Longrightarrow> now < s_expires_at x \<Longrightarrow> validate_session t (s_id x) now ss = Inr x"
  by (simp add: validate_session_def)

text \<open>
  C31. Signing up and coming back: a registration that succeeds creates, for an identity that a
  declared connector vouched for, the principal with the deterministic id, the registered kind
  and exactly the claims that the contract resolved (none for an agent, which starts active);
  until the session expires, resolving it gives the session back with a context of that
  principal; and the same external identity cannot be signed up again.
\<close>

theorem sign_up_then_resolve:
  assumes "bindings_ok (dir_principals s)" "sign_up env tid rs reg now s = (Inr a, s')"
    and "now' < s_expires_at (as_session a)"
  shows "\<exists>t x p cs ctx. tenant tid s = Inr t \<and> authenticate_external env t rs s = Inr x
    \<and> registration_claims reg s = Inr cs \<and> c_principal (as_context a) = p
    \<and> p_id p = principal_id_for (t_id t) (xi_connector x) (xi_subject x)
    \<and> p_kind p = reg_kind reg \<and> p_tenant_id p = t_id t \<and> p_claims p = cs
    \<and> p_agent_state p = (if reg_kind reg = Agent then Some StateActive else None)
    \<and> (reg_kind reg = Agent \<longrightarrow> cs = [] \<and> cf_agents (m_config s))
    \<and> resolve_session env' tid (s_id (as_session a)) now' s' = Inr (as_session a, ctx)
    \<and> c_principal ctx = p \<and> c_claims ctx = cs
    \<and> isl (fst (sign_up env tid rs reg' now'' s'))"
proof -
  obtain t x cs rp s1 where su: "tenant tid s = Inr t" "reg_kind reg = Agent \<longrightarrow> cf_agents (m_config s)"
    "authenticate_external env t rs s = Inr x" "registration_claims reg s = Inr cs"
    "provision_principal t x (reg_kind reg) cs now s = (Inr rp, s1)"
    "open_authenticated env KindAccountLinked t x rp now s1 = (Inr a, s')"
    by (rule sign_up_Inr [OF assms(2)])
  note pr = provision_then_resolve [OF assms(1) su(5)]
  have rs: "resolve_principal t x s1
      = Inr (Some (rp\<lparr>rp_identity := (rp_identity rp)\<lparr>i_claims := cs\<rparr>\<rparr>))" using pr by blast
  note rp = resolve_principal_Inr [OF rs, simplified]
  show ?thesis
  proof (rule open_authenticated_Inr [OF su(6)], goal_cases)
    case (1 l)
    have dirs: "dir_identities s' = dir_identities s1" "dir_principals s' = dir_principals s1"
      "m_policies s' = m_policies s1" "m_config s' = m_config s1" by (simp_all add: 1(1))
    have set: "same_setting s s'"
      using provision_same_setting [OF su(5)] by (simp add: same_setting_def 1(1))
    then have t: "tenant tid s' = Inr t" using su(1) tenant_cong [of s' s] by (simp add: same_setting_def)
    have u: "assert_principal_is_usable (rp_principal rp) = Inr ()"
      unfolding usable_Inr using pr by simp
    obtain ctx where ctx: "context_for env' t (rp_principal rp) (Some (s_id (as_session a))) now' s' = Inr ctx"
      by (rule context_for_at_any_time [OF 1(4), of s' env' "Some (s_id (as_session a))" now']) auto
    have "validate_session t (s_id (as_session a)) now' (m_sessions s') = Inr (as_session a)"
      by (rule validate_opened) (use 1(1,2) assms(3) in \<open>simp_all\<close>)
    then have "resolve_session env' tid (s_id (as_session a)) now' s' = Inr (as_session a, ctx)"
      unfolding resolve_session_Inr using t pr rp ctx u dirs 1(2)
      by (intro exI [of _ t] exI [of _ "(rp_identity rp)\<lparr>i_claims := cs\<rparr>"]
          exI [of _ "b_principal_id (rp_binding rp)"] exI [of _ "rp_principal rp"])
        (simp add: principal_of_Inr)
    moreover have "isl (fst (sign_up env tid rs reg' now'' s'))"
    proof (rule ccontr)
      assume "\<not> isl (fst (sign_up env tid rs reg' now'' s'))"
      then obtain b s2 where "sign_up env tid rs reg' now'' s' = (Inr b, s2)"
        by (cases "sign_up env tid rs reg' now'' s'"; cases "fst (sign_up env tid rs reg' now'' s')") auto
      then show False
        by (rule sign_up_Inr) (use t su(3) authenticate_external_cong [OF set] rp dirs(2)
            provision_needs_unbound in fastforce)
    qed
    ultimately show ?case
      using su pr context_for_Inr [OF 1(4)] context_for_Inr [OF ctx]
        registration_claims_agent [OF su(4)]
      by (intro exI [of _ t] exI [of _ x] exI [of _ "rp_principal rp"] exI [of _ cs] exI [of _ ctx])
        simp
  qed
qed

text \<open>A mesh whose local connector knows one account, and the sign up with it.\<close>

definition sample_account_mesh :: "MemoryAuditLog Mesh" where
  "sample_account_mesh = sample_mesh\<lparr>m_registry := [(''local'', LocalConn [(''alice'',
     \<lparr>la_username = ''alice'', la_password_hash = ''$secret'', la_password_history = [],
      la_password_changed_at = 0, la_attributes = []\<rparr>)])]\<rparr>"

definition sample_sign_up :: "(MemoryAuditLog Mesh, AuthError, AuthenticatedSession) eff" where
  "sample_sign_up = sign_up sample_env ''acme'' (local_response (Some ''acme'') ''alice'' ''secret'')
     \<lparr>reg_kind = Human, reg_claims = []\<rparr> 12"

lemma sample_account_authenticates:
  assumes "same_setting sample_account_mesh s"
  shows "\<exists>attrs. authenticate_external sample_env sample_tenant
     (local_response (Some ''acme'') ''alice'' ''secret'') s
     = Inr \<lparr>xi_connector = ''local'', xi_subject = ''alice'', xi_attributes = attrs\<rparr>"
proof -
  have "trim ''alice'' = ''alice''" "trim ''secret'' = ''secret''"
    by (simp_all add: trim_plain plain_def)
  moreover have "m_config sample_mesh = (sample_contract [''local''])\<lparr>cf_agents := True\<rparr>"
    by (simp add: sample_mesh_def)
  ultimately show ?thesis
    unfolding authenticate_external_cong [OF assms]
    by (simp add: authenticate_external_def connector_def sample_account_mesh_def
        declares_provider_def sample_contract_def registry_get_def local_authenticate_def
        connector_authenticate_def local_id_def verify_password_def sample_env_def
        sample_argon2_def check_def map_err_def)
qed

lemma sample_audit_accepts:
  "\<exists>l. audit sample_env t r now s = (Inr (), s\<lparr>m_audit_sequence := m_audit_sequence s + 1, m_audit := l\<rparr>)"
proof -
  have "fst (audit sample_env t r now s) = Inr ()"
    by (simp add: audit_def Let_def sample_env_def record_event_def audit_event_def require_def
        andThen_def map_err_def)
  then show ?thesis using snd_audit [of sample_env t r now s] by (metis prod.collapse)
qed

lemma sample_open_authenticated:
  assumes "policy t s = Inr pol" "pol_id pol = t_policy_id t"
    and "p_tenant_id (rp_principal rp) = t_id t"
  shows "\<exists>a s'. open_authenticated sample_env kind t x rp now s = (Inr a, s')"
proof -
  obtain session s1 where o: "open_session sample_env t (i_id (rp_identity rp)) now s = (Inr session, s1)"
    "m_policies s1 = m_policies s" "m_config s1 = m_config s"
    by (simp add: open_session_def on_sessions_def zoom_def mapErr_def create_session_def Let_def)
  have c: "\<exists>ctx. context_for sample_env t (rp_principal rp) (Some (s_id session)) now
      (s1\<lparr>m_audit_sequence := n, m_audit := l\<rparr>) = Inr ctx" for n l
    by (rule context_for_total [of t _ pol "rp_principal rp"])
      (use assms o(2,3) policy_cong [of "s1\<lparr>m_audit_sequence := n, m_audit := l\<rparr>" s t] in simp_all)
  obtain l where e: "audit sample_env t ((audit_record kind)
         \<lparr>rec_principal_id := Some (p_id (rp_principal rp)), rec_session_id := Some (s_id session),
          rec_metadata :=
            [(''provider'', xi_connector x),
             (''authentication_method'',
               method_as_str (authentication_method_for_provider (xi_connector x))),
             (''authentication_assurance'', assurance_as_str Basic),
             (''authentication_result'', ''success'')]\<rparr>) now s1
       = (Inr (), s1\<lparr>m_audit_sequence := m_audit_sequence s1 + 1, m_audit := l\<rparr>)"
    using sample_audit_accepts by blast
  obtain ctx where "context_for sample_env t (rp_principal rp) (Some (s_id session)) now
      (s1\<lparr>m_audit_sequence := m_audit_sequence s1 + 1, m_audit := l\<rparr>) = Inr ctx"
    using c by blast
  then show ?thesis using o e by (simp add: open_authenticated_def andThen_def)
qed

lemma sample_account_provisions:
  "\<exists>rp s1. provision_principal sample_tenant
       \<lparr>xi_connector = ''local'', xi_subject = ''alice'', xi_attributes = attrs\<rparr> Human [] 12
       sample_account_mesh = (Inr rp, s1) \<and> p_tenant_id (rp_principal rp) = ''acme''"
  by (simp add: provision_defs sample_account_mesh_def sample_mesh_def)

lemma sample_sign_up_works:
  obtains a s' where "sample_sign_up sample_account_mesh = (Inr a, s')"
    "s_expires_at (as_session a) = 3612"
proof -
  let ?rs = "local_response (Some ''acme'') ''alice'' ''secret''"
  obtain attrs where x: "authenticate_external sample_env sample_tenant ?rs sample_account_mesh
      = Inr \<lparr>xi_connector = ''local'', xi_subject = ''alice'', xi_attributes = attrs\<rparr>"
    using sample_account_authenticates [of sample_account_mesh] by (auto simp: same_setting_def)
  obtain rp s1 where p: "provision_principal sample_tenant
       \<lparr>xi_connector = ''local'', xi_subject = ''alice'', xi_attributes = attrs\<rparr> Human [] 12
       sample_account_mesh = (Inr rp, s1)" "p_tenant_id (rp_principal rp) = ''acme''"
    using sample_account_provisions by blast
  have "policy sample_tenant s1 = Inr sample_policy" "pol_id sample_policy = t_policy_id sample_tenant"
    using provision_same_setting [OF p(1)]
    by (simp_all add: policy_def policy_for_def same_setting_def sample_account_mesh_def sample_defs)
  from sample_open_authenticated [OF this, of rp] p(2) obtain a s' where open_:
    "open_authenticated sample_env KindAccountLinked sample_tenant
       \<lparr>xi_connector = ''local'', xi_subject = ''alice'', xi_attributes = attrs\<rparr> rp 12 s1 = (Inr a, s')"
    by fastforce
  have "m_session_ttl s1 = 3600"
    using provision_same_setting [OF p(1)]
    by (simp add: same_setting_def sample_account_mesh_def sample_mesh_def)
  then have "s_expires_at (as_session a) = 3612"
    by - (rule open_authenticated_Inr [OF open_], simp add: i64_add_exact in_i64_def)
  moreover have "registration_claims \<lparr>reg_kind = Human, reg_claims = []\<rparr> sample_account_mesh = Inr []"
    by (simp add: registration_claims_def resolve_claims_def sample_account_mesh_def
        sample_mesh_def sample_contract_def config_default_def bkeys_def)
  moreover have "tenant ''acme'' sample_account_mesh = Inr sample_tenant"
    by (simp add: sample_account_mesh_def sample_tenant_known)
  ultimately have "sample_sign_up sample_account_mesh = (Inr a, s')"
    using x p open_ by (simp add: sample_sign_up_def sign_up_def andThen_def check_def)
  with \<open>s_expires_at (as_session a) = 3612\<close> show thesis by (rule that [rotated])
qed

theorem sign_up_then_resolve_witness:
  "\<exists>a s' ctx. sample_sign_up sample_account_mesh = (Inr a, s')
     \<and> resolve_session sample_env ''acme'' (s_id (as_session a)) 13 s' = Inr (as_session a, ctx)
     \<and> p_kind (c_principal ctx) = Human"
proof -
  obtain a s' where su: "sample_sign_up sample_account_mesh = (Inr a, s')"
    "s_expires_at (as_session a) = 3612"
    by (rule sample_sign_up_works)
  have "bindings_ok (dir_principals sample_account_mesh)"
    by (simp add: sample_account_mesh_def sample_mesh_def bindings_ok_def)
  moreover have "13 < s_expires_at (as_session a)" using su(2) by simp
  ultimately show ?thesis
    using sign_up_then_resolve [OF _ su(1) [unfolded sample_sign_up_def], where now' = 13
        and env' = sample_env and reg' = "\<lparr>reg_kind = Human, reg_claims = []\<rparr>" and now'' = 14] su(1)
    by auto
qed

lemma sample_sign_in_works:
  obtains s a s' where "sign_in sample_env ''acme''
     (local_response (Some ''acme'') ''alice'' ''secret'') 20 s = (Inr a, s')" "same_setting sample_account_mesh s"
proof -
  let ?rs = "local_response (Some ''acme'') ''alice'' ''secret''"
  obtain a0 s where su: "sample_sign_up sample_account_mesh = (Inr a0, s)"
    by (rule sample_sign_up_works)
  obtain t x cs rp s1 where st: "tenant ''acme'' sample_account_mesh = Inr t"
    "authenticate_external sample_env t ?rs sample_account_mesh = Inr x"
    "provision_principal t x Human cs 12 sample_account_mesh = (Inr rp, s1)"
    "open_authenticated sample_env KindAccountLinked t x rp 12 s1 = (Inr a0, s)"
    by (rule sign_up_Inr [OF su [unfolded sample_sign_up_def]]) auto
  have "bindings_ok (dir_principals sample_account_mesh)"
    by (simp add: sample_account_mesh_def sample_mesh_def bindings_ok_def)
  note pr = provision_then_resolve [OF this st(3)]
  let ?rp = "rp\<lparr>rp_identity := (rp_identity rp)\<lparr>i_claims := cs\<rparr>\<rparr>"
  obtain l where s: "s = s1\<lparr>m_sessions := \<lparr>st_sessions = binsert (s_id (as_session a0)) (as_session a0)
      (st_sessions (m_sessions s1)), st_next_id = st_next_id (m_sessions s1) + 1\<rparr>,
    m_audit_sequence := m_audit_sequence s1 + 1, m_audit := l\<rparr>"
    by (rule open_authenticated_Inr [OF st(4)])
  have set: "same_setting sample_account_mesh s"
    using provision_same_setting [OF st(3)] by (simp add: s same_setting_def)
  have t: "t = sample_tenant" using st(1) by (simp add: sample_account_mesh_def sample_tenant_known)
  have "policy sample_tenant s = Inr sample_policy" "pol_id sample_policy = t_policy_id sample_tenant"
    using set by (simp_all add: policy_def policy_for_def same_setting_def sample_account_mesh_def sample_defs)
  from sample_open_authenticated [OF this, of ?rp] pr obtain a s' where
    "open_authenticated sample_env KindLogin t x ?rp 20 s = (Inr a, s')"
    unfolding t by fastforce
  moreover have "resolve_principal t x s = Inr (Some ?rp)"
  proof -
    have "resolve_principal t x s = resolve_principal t x s1"
      by (rule resolve_principal_cong) (simp_all add: s)
    then show ?thesis using conjunct1 [OF pr] by (rule trans)
  qed
  moreover have "tenant ''acme'' s = Inr t"
    using st(1) set tenant_cong [of s sample_account_mesh] by (simp add: same_setting_def)
  moreover have "assert_principal_is_usable (rp_principal rp) = Inr ()"
    unfolding usable_Inr using pr by simp
  ultimately have "sign_in sample_env ''acme'' ?rs 20 s = (Inr a, s')"
    using st(2) authenticate_external_cong [OF set] by (simp add: sign_in_def andThen_def)
  then show thesis using set by (rule that)
qed

theorem sign_in_is_sound_witness:
  "\<exists>s a s' e. sign_in sample_env ''acme''
       (local_response (Some ''acme'') ''alice'' ''secret'') 20 s = (Inr a, s')
     \<and> log_events (m_audit s') = log_events (m_audit s) @ [e] \<and> au_kind e = KindLogin
     \<and> (\<exists>t x identity. authenticate_external sample_env t
            (local_response (Some ''acme'') ''alice'' ''secret'') s = Inr x
          \<and> find_identity t (xi_connector x) (xi_subject x) (dir_identities s) = Inr (Some identity)
          \<and> s_identity_id (as_session a) = i_id identity)"
proof -
  obtain s a s' where si: "sign_in sample_env ''acme''
     (local_response (Some ''acme'') ''alice'' ''secret'') 20 s = (Inr a, s')"
    by (rule sample_sign_in_works) blast
  from sign_in_is_sound [OF sample_audit_log si] si show ?thesis by blast
qed

subsection \<open>Logging out\<close>

text \<open>
  C35. Logging out ends the session: from then on it no longer resolves, at no time, and says
  that it was revoked; every other session resolves as before, and no session of another tenant
  can be ended this way.
\<close>

theorem logout_ends_session:
  assumes "logout env tid sid t0 s = (Inr (), s')"
  shows "(\<exists>e. session_context env' tid sid now s' = Inl e \<and> er_denial e = RevokedSession
            \<and> er_stage e = SessionValidation)
    \<and> (other \<noteq> sid \<longrightarrow> resolve_session env' tid' other now s' = resolve_session env' tid' other now s)
    \<and> (\<exists>t x. tenant tid s = Inr t \<and> map_of (st_sessions (m_sessions s)) sid = Some x
         \<and> s_tenant_id x = t_id t)"
proof -
  obtain t s1 where st: "tenant tid s = Inr t"
    "on_sessions (revoke_session t sid t0) s = (Inr (), s1)"
    "audit env t ((audit_record KindSessionRevoked)\<lparr>rec_session_id := Some sid\<rparr>) t0 s1 = (Inr (), s')"
    using assms unfolding logout_def by (elim eff_elims) auto
  then obtain x where x: "map_of (st_sessions (m_sessions s)) sid = Some x" "s_tenant_id x = t_id t"
    "s1 = s\<lparr>m_sessions := (m_sessions s)\<lparr>st_sessions :=
       binsert sid (x\<lparr>s_revoked_at := Some t0\<rparr>) (st_sessions (m_sessions s))\<rparr>\<rparr>"
    by (auto simp: on_sessions_def zoom_def revoke_session_def
        split: option.splits if_splits)
  note s' = audit_result [OF st(3), unfolded x(3)]
  have "tenant tid s' = Inr t" using st(1) tenant_cong [of s' s] by (simp add: s')
  then have "session_context env' tid sid now s'
      = Inl (session_error ''revoked session'')"
    using x by (simp add: session_context_def resolve_session_def validate_session_def map_err_def s')
  moreover have "resolve_session env' tid' other now s' = resolve_session env' tid' other now s"
    if "other \<noteq> sid"
  proof -
    have "tenant tid' s' = tenant tid' s" by (rule tenant_cong) (simp add: s')
    moreover have "validate_session u other now (m_sessions s')
        = validate_session u other now (m_sessions s)" for u
      using that by (simp add: validate_session_def s')
    moreover have "principal_of u i s' = principal_of u i s" for u i
      by (rule principal_of_cong) (simp add: s')
    moreover have "context_for env' u p sid' now s' = context_for env' u p sid' now s" for u p sid'
      using policy_cong [of s' s] by (simp add: context_for_def delegations_for_def s')
    ultimately show ?thesis by (simp add: resolve_session_def s')
  qed
  ultimately show ?thesis
    using st(1) x by (simp add: session_error_def auth_error_def)
qed

theorem logout_ends_session_witness:
  "\<exists>a s s' e. sample_sign_up sample_account_mesh = (Inr a, s)
     \<and> logout sample_env ''acme'' (s_id (as_session a)) 14 s = (Inr (), s')
     \<and> session_context sample_env ''acme'' (s_id (as_session a)) 15 s' = Inl e
     \<and> er_denial e = RevokedSession"
proof -
  obtain a s where su: "sample_sign_up sample_account_mesh = (Inr a, s)"
    by (rule sample_sign_up_works)
  obtain t x cs rp s1 where st: "tenant ''acme'' sample_account_mesh = Inr t"
    "provision_principal t x Human cs 12 sample_account_mesh = (Inr rp, s1)"
    "open_authenticated sample_env KindAccountLinked t x rp 12 s1 = (Inr a, s)"
    by (rule sign_up_Inr [OF su [unfolded sample_sign_up_def]]) auto
  have "\<exists>s'. logout sample_env ''acme'' (s_id (as_session a)) 14 s = (Inr (), s')"
  proof (rule open_authenticated_Inr [OF st(3)], goal_cases)
    case (1 l)
    have "tenant ''acme'' s = Inr t"
      using st(1) provision_same_setting [OF st(2)] tenant_cong [of s sample_account_mesh]
      by (simp add: 1(1) same_setting_def)
    moreover have "map_of (st_sessions (m_sessions s)) (s_id (as_session a)) = Some (as_session a)"
      "s_tenant_id (as_session a) = t_id t" using 1(1,2) by simp_all
    moreover obtain l' where "audit sample_env t r now s2
        = (Inr (), s2\<lparr>m_audit_sequence := m_audit_sequence s2 + 1, m_audit := l' r now s2\<rparr>)"
      for r now s2 using sample_audit_accepts [of t] by metis
    ultimately show ?case
      by (simp add: logout_def andThen_def mapErr_def on_sessions_def zoom_def revoke_session_def)
  qed
  then obtain s' where "logout sample_env ''acme'' (s_id (as_session a)) 14 s = (Inr (), s')" by blast
  from logout_ends_session [OF this] su this show ?thesis by blast
qed

subsection \<open>Suspending, revoking and retiring an agent\<close>

definition principals_keyed :: "'l Mesh \<Rightarrow> bool" where
  "principals_keyed s \<longleftrightarrow>
     (\<forall>k p. map_of (st_principals (dir_principals s)) k = Some p \<longrightarrow> p_id p = k)"

lemma mesh_set_agent_state_ok:
  assumes "mesh_set_agent_state env tid agent state t0 s = (Inr (), s')"
  obtains t p l where "tenant tid s = Inr t"
    "map_of (st_principals (dir_principals s)) agent = Some p" "p_kind p = Agent"
    "p_tenant_id p = t_id t"
    "s' = s\<lparr>dir_principals := (dir_principals s)\<lparr>st_principals :=
         binsert agent (p\<lparr>p_agent_state := Some state\<rparr>) (st_principals (dir_principals s))\<rparr>,
       m_audit_sequence := m_audit_sequence s + 1, m_audit := l\<rparr>"
proof -
  obtain t s1 where st: "tenant tid s = Inr t"
    "on_principals (set_agent_state t agent state) s = (Inr (), s1)"
    "audit env t ((audit_record (agent_event_kind state))\<lparr>rec_principal_id := Some agent\<rparr>) t0 s1
       = (Inr (), s')"
    using assms unfolding mesh_set_agent_state_def by (elim eff_elims) auto
  then obtain p where p: "map_of (st_principals (dir_principals s)) agent = Some p" "p_kind p = Agent"
    "p_tenant_id p = t_id t"
    "s1 = s\<lparr>dir_principals := (dir_principals s)\<lparr>st_principals :=
         binsert agent (p\<lparr>p_agent_state := Some state\<rparr>) (st_principals (dir_principals s))\<rparr>\<rparr>"
    by (auto simp: set_agent_state_def split: option.splits if_splits prod.splits)
  show thesis
    using audit_result [OF st(3)] unfolding p(4)
    by (intro that [OF st(1) p(1,2,3)]) simp
qed

text \<open>
  C36. Taking an agent out of service closes every way in: after an agent has been moved to any
  state but active, no session resolves to a context of that agent and no response signs in as
  it, in any tenant and at any time; what it holds of delegations is not touched.
\<close>

theorem inactive_agent_has_no_context:
  assumes "principals_keyed s" "mesh_set_agent_state env tid agent state t0 s = (Inr (), s')"
    and "state \<noteq> StateActive"
  shows "(\<nexists>x ctx. resolve_session env' tid' sid now s' = Inr (x, ctx)
            \<and> p_id (c_principal ctx) = agent)
    \<and> (\<nexists>a s2. sign_in env' tid' rs now s' = (Inr a, s2) \<and> p_id (c_principal (as_context a)) = agent)
    \<and> m_delegations s' = m_delegations s"
proof (rule mesh_set_agent_state_ok [OF assms(2)], goal_cases)
  case (1 t p l)
  have stored: "p_id q \<noteq> agent"
    if q: "map_of (st_principals (dir_principals s')) i = Some q" "assert_principal_is_usable q = Inr ()"
    for i q
  proof (cases "i = agent")
    case True
    then have "q = p\<lparr>p_agent_state := Some state\<rparr>" using q(1) by (simp add: 1(5))
    then show ?thesis using q(2) 1(3) assms(3) by (simp add: usable_Inr)
  next
    case False
    then have "map_of (st_principals (dir_principals s)) i = Some q" using q(1) by (simp add: 1(5))
    then show ?thesis using assms(1) False unfolding principals_keyed_def by blast
  qed
  have "p_id (c_principal ctx) \<noteq> agent" if r: "resolve_session env' tid' sid now s' = Inr (x, ctx)" for x ctx
  proof -
    obtain u i q where "principal_of u i s' = Inr q" "assert_principal_is_usable q = Inr ()"
      "context_for env' u q (Some (s_id x)) now s' = Inr ctx"
      using r unfolding resolve_session_Inr by blast
    then show ?thesis
      using stored context_for_Inr [of env' u q] unfolding principal_of_Inr by blast
  qed
  moreover have "p_id (c_principal (as_context a)) \<noteq> agent"
    if "sign_in env' tid' rs now s' = (Inr a, s2)" for a s2
  proof (rule sign_in_Inr [OF that], goal_cases)
    case (1 t' x rp)
    have "p_id (rp_principal rp) \<noteq> agent"
      using resolve_principal_Inr [OF 1(3)] stored 1(4) by blast
    moreover have "c_principal (as_context a) = rp_principal rp"
      by (rule open_authenticated_Inr [OF 1(5)]) (auto dest: context_for_Inr)
    ultimately show ?case by simp
  qed
  moreover have "m_delegations s' = m_delegations s" by (simp add: 1(5))
  ultimately show ?case by blast
qed

theorem inactive_agent_has_no_context_witness:
  "\<exists>s'. suspend_agent sample_env ''acme'' ''bot'' 13 sample_mesh = (Inr (), s')
     \<and> m_delegations s' = m_delegations sample_mesh"
proof -
  have "principals_keyed sample_mesh"
    by (simp add: principals_keyed_def sample_defs)
  moreover have "\<exists>s'. mesh_set_agent_state sample_env ''acme'' ''bot'' StateSuspended 13 sample_mesh
      = (Inr (), s')"
  proof -
    have "set_agent_state sample_tenant ''bot'' StateSuspended (dir_principals sample_mesh) = (Inr (),
        (dir_principals sample_mesh)\<lparr>st_principals := binsert ''bot''
           (sample_agent\<lparr>p_agent_state := Some StateSuspended\<rparr>)
           (st_principals (dir_principals sample_mesh))\<rparr>)"
      by (simp add: set_agent_state_def sample_defs)
    then show ?thesis
      using sample_audit_accepts [of sample_tenant]
      by (simp add: mesh_set_agent_state_def andThen_def sample_tenant_known mapErr_def)
        (metis Pair_inject)
  qed
  ultimately show ?thesis
    using inactive_agent_has_no_context unfolding suspend_agent_def by blast
qed

end
