(* ===== verification/Delegating.thy ===== *)
theory Delegating
  imports MeshSessions
begin

text \<open>
  What a delegation that the mesh accepts has been checked against, and where these checks
  stop: the facts of \<^verbatim>\<open>delegate\<close> and of runs beyond the invariants of
  \<^verbatim>\<open>MeshInvariants\<close>.
\<close>

subsection \<open>Delegating\<close>

text \<open>The first live delegation of a list that carries a capability.\<close>

definition first_live :: "Delegation list \<Rightarrow> int \<Rightarrow> Capability \<Rightarrow> Delegation option" where
  "first_live ds now cap = find (\<lambda>d. is_valid_at d now \<and> cap \<in> set (d_capabilities d)) ds"

lemma check_delegable_held:
  "check_delegable p ds env rq now caps chain = Inr chain' \<Longrightarrow> \<forall>cap \<in> set caps. envelope_allows env cap"
  by (induction caps arbitrary: chain)
    (auto simp: Let_def rbind_Inr split: if_splits)

lemma check_delegable_agent:
  assumes "check_delegable p ds env rq now caps chain = Inr chain'" "p_kind p = Agent"
  shows "\<forall>cap \<in> set caps. \<exists>parent. first_live ds now cap = Some parent
           \<and> is_subset_of (dr_resource_scope rq) (d_resource_scope parent)"
  using assms(1)
  by (induction caps arbitrary: chain) (auto simp: Let_def rbind_Inr first_live_def assms(2))

lemma check_delegable_chain:
  assumes "check_delegable p ds env rq now caps chain = Inr chain'"
  shows "p_kind p \<noteq> Agent \<Longrightarrow> chain' = chain" "p_kind p = Agent \<Longrightarrow> chain \<noteq> [] \<Longrightarrow> chain' = chain"
  using assms by (induction caps arbitrary: chain) (auto simp: Let_def rbind_Inr split: if_splits)

lemma check_delegable_first:
  assumes "check_delegable p ds env rq now (cap # caps) [] = Inr chain" "p_kind p = Agent"
  shows "\<exists>parent. first_live ds now cap = Some parent \<and> chain = d_chain parent @ [d_id parent]"
  using assms(1) check_delegable_chain(2) [of p ds env rq now caps]
  by (auto simp: Let_def rbind_Inr first_live_def assms(2))

lemma delegate_Inr:
  assumes "delegate env tid rq now s = (Inr d, s')"
  obtains t p target pol caps chain l where "tenant tid s = Inr t" "cf_agents (m_config s)"
    "dr_capabilities rq \<noteq> []"
    "case dr_expires_at rq of Some e \<Rightarrow> dr_issued_at rq < e \<and> now < e | None \<Rightarrow> True"
    "principal_of t (dr_delegator rq) s = Inr p" "principal_of t (dr_delegate rq) s = Inr target"
    "p_kind target \<noteq> Human" "assert_principal_is_usable target = Inr ()" "policy t s = Inr pol"
    "evaluate_with_delegations (env_clock env) pol p t (delegations_for t (p_id p) s) now = Inr caps"
    "check_delegable p (delegations_for t (p_id p) s) caps rq now (dr_capabilities rq) [] = Inr chain"
    "d = \<lparr>d_id = dr_id rq, d_delegator = dr_delegator rq, d_delegate = dr_delegate rq,
          d_tenant_id = t_id t, d_capabilities = dr_capabilities rq,
          d_resource_scope = dr_resource_scope rq, d_issued_at = dr_issued_at rq,
          d_expires_at = dr_expires_at rq, d_revoked_at = None, d_chain = chain\<rparr>"
    "create_delegation d (m_delegations s) = (Inr d, m_delegations s')"
    "s' = s\<lparr>m_delegations := m_delegations s', m_audit_sequence := m_audit_sequence s + 1, m_audit := l\<rparr>"
proof -
  obtain t p target pol caps chain s1 where st: "tenant tid s = Inr t" "cf_agents (m_config s)"
    "dr_capabilities rq \<noteq> []"
    "case dr_expires_at rq of Some e \<Rightarrow> \<not> (e \<le> dr_issued_at rq \<or> e \<le> now) | None \<Rightarrow> True"
    "principal_of t (dr_delegator rq) s = Inr p" "principal_of t (dr_delegate rq) s = Inr target"
    "p_kind target \<noteq> Human" "assert_principal_is_usable target = Inr ()" "policy t s = Inr pol"
    "evaluate_with_delegations (env_clock env) pol p t (delegations_for t (p_id p) s) now = Inr caps"
    "check_delegable p (delegations_for t (p_id p) s) caps rq now (dr_capabilities rq) [] = Inr chain" and
    c: "on_delegations (create_delegation
         \<lparr>d_id = dr_id rq, d_delegator = dr_delegator rq, d_delegate = dr_delegate rq,
          d_tenant_id = t_id t, d_capabilities = dr_capabilities rq,
          d_resource_scope = dr_resource_scope rq, d_issued_at = dr_issued_at rq,
          d_expires_at = dr_expires_at rq, d_revoked_at = None, d_chain = chain\<rparr>) s = (Inr d, s1)" and
    e: "audit env t ((audit_record KindDelegationCreated)
         \<lparr>rec_principal_id := Some (d_delegate d), rec_delegation_id := Some (d_id d),
          rec_metadata := [(''delegator'', d_delegator d)]\<rparr>) now s1 = (Inr (), s')"
    using assms unfolding delegate_def
    by (elim eff_elims) (simp add: check_def split: if_splits)
  obtain ds where d: "d = \<lparr>d_id = dr_id rq, d_delegator = dr_delegator rq, d_delegate = dr_delegate rq,
          d_tenant_id = t_id t, d_capabilities = dr_capabilities rq,
          d_resource_scope = dr_resource_scope rq, d_issued_at = dr_issued_at rq,
          d_expires_at = dr_expires_at rq, d_revoked_at = None, d_chain = chain\<rparr>"
    "s1 = s\<lparr>m_delegations := ds\<rparr>" "create_delegation d (m_delegations s) = (Inr d, ds)"
    using c by (auto simp: on_delegations_def zoom_def create_delegation_def split: if_splits)
  note s' = audit_result [OF e, unfolded d(2)]
  have "m_delegations s' = ds" "s' = s\<lparr>m_delegations := m_delegations s',
      m_audit_sequence := m_audit_sequence s + 1, m_audit := m_audit s'\<rparr>"
    by (simp_all add: s')
  then show thesis
    by (intro that [OF st(1-3) _ st(5-11) d(1)])
      (use st(4) d(3) in \<open>auto split: option.splits\<close>)
qed

text \<open>
  C21. Delegation passes on only what the delegator holds: a delegation that is accepted
  carries only capabilities in the delegator's envelope at that moment; it goes from one
  principal of the tenant to another, usable one that is not a human; it is live or yet to
  start, not expired; a delegator that is an agent narrows, for each capability, the first live
  delegation it holds it by, and the chain is the chain of the first of these with its id
  added; and it is stored under a new id, with every other delegation as before.
\<close>

theorem delegation_stays_in_authority:
  assumes "delegate env tid rq now s = (Inr d, s')"
  shows "\<exists>t p target pol caps. tenant tid s = Inr t \<and> cf_agents (m_config s)
    \<and> principal_of t (d_delegator d) s = Inr p \<and> principal_of t (d_delegate d) s = Inr target
    \<and> d_tenant_id d = t_id t \<and> d_delegator d \<noteq> d_delegate d
    \<and> p_kind target \<noteq> Human \<and> (p_kind target = Agent \<longrightarrow> p_agent_state target = Some StateActive)
    \<and> policy t s = Inr pol
    \<and> evaluate_with_delegations (env_clock env) pol p t (delegations_for t (p_id p) s) now = Inr caps
    \<and> d_capabilities d \<noteq> [] \<and> (\<forall>cap \<in> set (d_capabilities d). envelope_allows caps cap)
    \<and> d_revoked_at d = None \<and> (case d_expires_at d of Some e \<Rightarrow> now < e | None \<Rightarrow> True)
    \<and> (p_kind p \<noteq> Agent \<longrightarrow> d_chain d = [])
    \<and> (p_kind p = Agent \<longrightarrow>
         (\<forall>cap \<in> set (d_capabilities d). \<exists>parent.
            first_live (delegations_for t (p_id p) s) now cap = Some parent
            \<and> is_subset_of (d_resource_scope d) (d_resource_scope parent))
       \<and> (\<exists>parent. first_live (delegations_for t (p_id p) s) now (hd (d_capabilities d)) = Some parent
            \<and> d_chain d = d_chain parent @ [d_id parent]))
    \<and> map_of (st_delegations (m_delegations s)) (d_id d) = None
    \<and> map_of (st_delegations (m_delegations s'))
        = (map_of (st_delegations (m_delegations s)))(d_id d \<mapsto> d)"
proof (rule delegate_Inr [OF assms], goal_cases)
  case (1 t p target pol caps chain l)
  obtain cap cs where cs: "dr_capabilities rq = cap # cs" using 1(3) by (cases "dr_capabilities rq") auto
  have store: "d_delegator d \<noteq> d_delegate d"
    "map_of (st_delegations (m_delegations s)) (d_id d) = None"
    "map_of (st_delegations (m_delegations s'))
       = (map_of (st_delegations (m_delegations s)))(d_id d \<mapsto> d)"
    using 1(13)
    by (auto simp: create_delegation_def dest!: sym [of _ "m_delegations s'"] split: if_splits)
  have agent: "(\<forall>cap \<in> set (d_capabilities d). \<exists>parent.
            first_live (delegations_for t (p_id p) s) now cap = Some parent
            \<and> is_subset_of (d_resource_scope d) (d_resource_scope parent))
       \<and> (\<exists>parent. first_live (delegations_for t (p_id p) s) now (hd (d_capabilities d)) = Some parent
            \<and> d_chain d = d_chain parent @ [d_id parent])" if "p_kind p = Agent"
    using check_delegable_agent [OF 1(11) that] check_delegable_first [OF 1(11) [unfolded cs] that]
    by (simp add: 1(12) cs)
  have plain: "d_chain d = []" if "p_kind p \<noteq> Agent"
    using check_delegable_chain(1) [OF 1(11) that] by (simp add: 1(12))
  have fields: "d_capabilities d = dr_capabilities rq" "d_revoked_at d = None"
    "d_delegator d = dr_delegator rq" "d_delegate d = dr_delegate rq" "d_tenant_id d = t_id t"
    "d_expires_at d = dr_expires_at rq"
    by (simp_all add: 1(12))
  show ?case
    using 1(1-10) check_delegable_held [OF 1(11)] agent plain store fields
    by (intro exI [of _ t] exI [of _ p] exI [of _ target] exI [of _ pol] exI [of _ caps])
      (auto simp: usable_Inr split: option.splits)
qed

subsection \<open>Deciding by a delegation\<close>

lemma authorized_by_delegation:
  assumes "policy (c_tenant ctx) s = Inr pol"
    and "pick_delegation (delegations_for (c_tenant ctx) (p_id (c_principal ctx)) s)
           (rq_capability rq) now = Some d"
    and "decision_grant (evaluate_authorization_request (env_clock env) (Some pol)
           (Some (c_principal ctx)) (Some (c_tenant ctx)) (Some d) rq attrs now) = Some g"
    and "\<And>d. fst (env_record env (c_tenant ctx) (decision_event s ctx (rq_capability rq) d now)
           (m_audit s)) = Inr ()"
  shows "decision_grant (fst (authorize_request_with_authority_revision env ctx rq attrs now revision s))
    = Some g"
proof -
  let ?d = "evaluate_authorization_request (env_clock env) (Some pol)
           (Some (c_principal ctx)) (Some (c_tenant ctx)) (Some d) rq attrs now"
  have "decision_grant (fst (conclude env ctx (rq_capability rq) ?d now revision s)) = Some g"
    by (rule conclude_cases [of env ctx s "rq_capability rq" ?d now revision])
      (use assms(3) assms(4) [of ?d] in auto)
  then show ?thesis
    using assms(1,2) by (simp add: authorize_request_with_authority_revision_def Let_def)
qed

subsection \<open>What delegation does not bound\<close>

text \<open>A second agent, and the delegation to it by the first.\<close>

definition sample_sub_agent :: Principal where
  "sample_sub_agent = principal_agent ''bot2'' ''acme'' [] sample_version StateActive"

definition sample_chain_mesh :: "MemoryAuditLog Mesh" where
  "sample_chain_mesh = sample_mesh\<lparr>dir_principals := (dir_principals sample_mesh)
     \<lparr>st_principals := [(''alice'', sample_human), (''bot'', sample_agent),
        (''bot2'', sample_sub_agent), (''cron'', sample_service)]\<rparr>\<rparr>"

definition sample_redelegation ::
  "PrincipalId \<Rightarrow> PrincipalId \<Rightarrow> ResourceScope \<Rightarrow> DelegationRequest" where
  "sample_redelegation src dst sc = \<lparr>dr_id = ''d2'', dr_delegator = src, dr_delegate = dst,
     dr_capabilities = [''invoices.read''], dr_resource_scope = sc, dr_issued_at = 15,
     dr_expires_at = None\<rparr>"

definition sample_redelegated ::
  "PrincipalId \<Rightarrow> PrincipalId \<Rightarrow> ResourceScope \<Rightarrow> DelegationId list \<Rightarrow> Delegation" where
  "sample_redelegated src dst sc chain = \<lparr>d_id = ''d2'', d_delegator = src, d_delegate = dst,
     d_tenant_id = ''acme'', d_capabilities = [''invoices.read''], d_resource_scope = sc,
     d_issued_at = 15, d_expires_at = None, d_revoked_at = None, d_chain = chain\<rparr>"

lemma sample_redelegation_parts [simp]:
  "dr_id (sample_redelegation src dst sc) = ''d2''"
  "dr_delegator (sample_redelegation src dst sc) = src"
  "dr_delegate (sample_redelegation src dst sc) = dst"
  "dr_capabilities (sample_redelegation src dst sc) = [''invoices.read'']"
  "dr_resource_scope (sample_redelegation src dst sc) = sc"
  "dr_issued_at (sample_redelegation src dst sc) = 15"
  "dr_expires_at (sample_redelegation src dst sc) = None"
  by (simp_all add: sample_redelegation_def)

lemma sample_policy_found:
  "m_policies s = m_policies sample_mesh \<Longrightarrow> policy sample_tenant s = Inr sample_policy"
  by (simp add: policy_def policy_for_def sample_tenant_def)

lemma sample_envelope:
  assumes "p_tenant_id p = ''acme''" "p_kind p = Agent \<longrightarrow> p_agent_state p = Some StateActive"
    and "p_claims p = []"
  obtains caps where "evaluate_with_delegations (Some 0) sample_policy p sample_tenant
      [sample_delegation (p_id p)] 15 = Inr caps" "envelope_allows caps ''invoices.read''"
proof -
  obtain caps where "evaluate_with_delegations (Some 0) sample_policy p sample_tenant
      [sample_delegation (p_id p)] 15 = Inr caps"
    using assms by (auto simp: evaluate_with_delegations_def sample_defs)
  moreover from this have "envelope_allows caps ''invoices.read''"
    using assms
    by (auto simp: evaluate_with_delegations_def sample_defs envelope_allows_def envelope_grant_def
        grant_delegations_def grant_delegated_def delegated_grant_def is_valid_at_iff grant_claims_def
        claim_grant_def split: if_splits)
  ultimately show thesis by (rule that)
qed

text \<open>A redelegation in the sample is accepted.\<close>

lemma sample_redelegates:
  assumes "st_tenants (m_tenants s) = [(''acme'', sample_tenant)]" "cf_agents (m_config s)"
    and "m_policies s = m_policies sample_mesh"
    and "st_delegations (m_delegations s) = [(''d1'', sample_delegation src)]"
    and "map_of (st_principals (dir_principals s)) src = Some p" "p_id p = src"
    and "p_tenant_id p = ''acme''" "p_kind p = Agent \<longrightarrow> p_agent_state p = Some StateActive"
    and "p_claims p = []"
    and "map_of (st_principals (dir_principals s)) dst = Some q"
    and "p_tenant_id q = ''acme''" "p_kind q = Agent" "p_agent_state q = Some StateActive"
    and "p_kind p = Agent \<longrightarrow> is_subset_of sc (scope_resource ''invoice'')" "src \<noteq> dst"
  shows "\<exists>l. delegate sample_env ''acme'' (sample_redelegation src dst sc) 15 s
    = (Inr (sample_redelegated src dst sc (if p_kind p = Agent then [''d1''] else [])),
       s\<lparr>m_delegations := (m_delegations s)\<lparr>st_delegations :=
            [(''d1'', sample_delegation src),
             (''d2'', sample_redelegated src dst sc (if p_kind p = Agent then [''d1''] else []))]\<rparr>,
         m_audit_sequence := m_audit_sequence s + 1, m_audit := l\<rparr>)"
proof -
  obtain caps where caps: "evaluate_with_delegations (Some 0) sample_policy p sample_tenant
      [sample_delegation src] 15 = Inr caps" "envelope_allows caps ''invoices.read''"
    using sample_envelope [of p] assms by auto
  have pr: "principal_of sample_tenant src s = Inr p" "principal_of sample_tenant dst s = Inr q"
    "assert_principal_is_usable q = Inr ()"
    using assms by (simp_all add: principal_of_Inr usable_Inr)
  have ds: "delegations_for sample_tenant src s = [sample_delegation src]"
    using assms(4) by (simp add: delegations_for_def list_delegations_for_delegate_def bvalues_def
        sample_delegation_def)
  define chain where "chain = (if p_kind p = Agent then [''d1''] else [])"
  have ch: "check_delegable p [sample_delegation src] caps (sample_redelegation src dst sc) 15
      [''invoices.read''] [] = Inr chain"
    using caps(2) assms(14)
    by (auto simp: Let_def check_def sample_delegation_def is_valid_at_iff chain_def)
  let ?d = "sample_redelegated src dst sc chain"
  have d: "\<lparr>d_id = ''d2'', d_delegator = src, d_delegate = dst, d_tenant_id = ''acme'',
      d_capabilities = [''invoices.read''], d_resource_scope = sc, d_issued_at = 15,
      d_expires_at = None, d_revoked_at = None, d_chain = chain\<rparr> = ?d"
    by (simp add: sample_redelegated_def)
  have c: "create_delegation ?d (m_delegations s) = (Inr ?d, (m_delegations s)\<lparr>st_delegations :=
      [(''d1'', sample_delegation src), (''d2'', ?d)]\<rparr>)"
    using assms(4,15) by (simp add: create_delegation_def sample_redelegated_def)
  let ?s = "s\<lparr>m_delegations := (m_delegations s)\<lparr>st_delegations :=
      [(''d1'', sample_delegation src), (''d2'', ?d)]\<rparr>\<rparr>"
  obtain l where "audit sample_env sample_tenant ((audit_record KindDelegationCreated)
        \<lparr>rec_principal_id := Some (d_delegate ?d), rec_delegation_id := Some (d_id ?d),
         rec_metadata := [(''delegator'', d_delegator ?d)]\<rparr>) 15 ?s
      = (Inr (), ?s\<lparr>m_audit_sequence := m_audit_sequence s + 1, m_audit := l\<rparr>)"
    using sample_audit_accepts [of sample_tenant _ 15 ?s] by fastforce
  moreover have "env_clock sample_env = Some 0" by (simp add: sample_env_def)
  ultimately show ?thesis
    unfolding chain_def [symmetric]
    using assms(2,6,12)
    by (intro exI [of _ l]) (simp add: delegate_def andThen_def sample_tenant_known [OF assms(1)] pr
        sample_policy_found [OF assms(3)] ds caps(1) ch d c check_def require_def map_err_def
        on_delegations_def zoom_def mapErr_def del: check_delegable.simps)
qed

text \<open>What the new delegation then allows.\<close>

lemma sample_chain_redelegates:
  "\<exists>l. delegate sample_env ''acme'' (sample_redelegation ''bot'' ''bot2'' (scope_resource ''invoice'')) 15
       sample_chain_mesh
     = (Inr (sample_redelegated ''bot'' ''bot2'' (scope_resource ''invoice'') [''d1'']),
        sample_chain_mesh\<lparr>m_delegations := \<lparr>st_delegations = [(''d1'', sample_delegation ''bot''),
            (''d2'', sample_redelegated ''bot'' ''bot2'' (scope_resource ''invoice'') [''d1''])]\<rparr>,
          m_audit_sequence := 1, m_audit := l\<rparr>)"
  using sample_redelegates [of sample_chain_mesh "''bot''" sample_agent "''bot2''" sample_sub_agent
      "scope_resource ''invoice''"]
  by (auto simp: sample_chain_mesh_def sample_mesh_def sample_sub_agent_def sample_agent_def
      principal_agent_def is_subset_of_iff scope_resource_def)

theorem delegation_stays_in_authority_witness:
  "\<exists>d s' (parent :: Delegation). delegate sample_env ''acme''
         (sample_redelegation ''bot'' ''bot2'' (scope_resource ''invoice'')) 15 sample_chain_mesh = (Inr d, s')
     \<and> d_id parent = ''d1'' \<and> d_chain d = d_chain parent @ [''d1'']
     \<and> map_of (st_delegations (m_delegations s')) ''d2'' = Some d"
proof -
  let ?d = "sample_redelegated ''bot'' ''bot2'' (scope_resource ''invoice'') [''d1'']"
  obtain s' where d: "delegate sample_env ''acme''
      (sample_redelegation ''bot'' ''bot2'' (scope_resource ''invoice'')) 15 sample_chain_mesh = (Inr ?d, s')"
    using sample_chain_redelegates by blast
  have "map_of (st_delegations (m_delegations s'))
      = (map_of (st_delegations (m_delegations sample_chain_mesh)))(d_id ?d \<mapsto> ?d)"
    using delegation_stays_in_authority [OF d] by blast
  then have "map_of (st_delegations (m_delegations s')) (d_id ?d) = Some ?d" by simp
  moreover have "d_id ?d = ''d2''" by (simp add: sample_redelegated_def)
  ultimately have m: "map_of (st_delegations (m_delegations s')) ''d2'' = Some ?d" by (simp only:)
  have "d_id (sample_delegation ''bot'') = ''d1''
      \<and> d_chain ?d = d_chain (sample_delegation ''bot'') @ [''d1'']"
    by (simp add: sample_redelegated_def sample_delegation_def)
  with d m show ?thesis by blast
qed

lemma sample_redelegated_authorizes:
  assumes "m_policies s = m_policies sample_mesh" "q = principal_agent dst ''acme'' [] v StateActive"
    and "delegations_for sample_tenant dst s = [sample_redelegated src dst sc chain]"
    and "sc = scope_any \<or> sc = scope_resource ty"
  shows "decision_grant (fst (authorize_request_with_authority_revision sample_env (sample_context q)
      (sample_request dst ''invoices.read'' ty) None 17 7 s))
    = Some (delegated_grant sample_policy q sample_tenant (sample_redelegated src dst sc chain)
        ''invoices.read'')"
proof (rule authorized_by_delegation)
  show "policy (c_tenant (sample_context q)) s = Inr sample_policy"
    using sample_policy_found [OF assms(1)] by (simp add: sample_context_def)
  show "pick_delegation (delegations_for (c_tenant (sample_context q)) (p_id (c_principal (sample_context q))) s)
      (rq_capability (sample_request dst ''invoices.read'' ty)) 17
    = Some (sample_redelegated src dst sc chain)"
    using assms(3)
    by (simp add: sample_context_def assms(2) principal_agent_def sample_request_def
        pick_delegation_def sample_redelegated_def)
  show "decision_grant (evaluate_authorization_request (env_clock sample_env) (Some sample_policy)
      (Some (c_principal (sample_context q))) (Some (c_tenant (sample_context q)))
      (Some (sample_redelegated src dst sc chain)) (sample_request dst ''invoices.read'' ty) None 17)
    = Some (delegated_grant sample_policy q sample_tenant (sample_redelegated src dst sc chain)
        ''invoices.read'')"
    using assms(4)
    by (auto simp: decision_defs sample_defs assms(2) sample_context_def sample_redelegated_def
        scope_any_def decision_grant_def)
  show "fst (env_record sample_env (c_tenant (sample_context q)) (decision_event s (sample_context q)
      (rq_capability (sample_request dst ''invoices.read'' ty)) d 17) (m_audit s)) = Inr ()" for d
    by (simp add: sample_env_def record_event_def require_def andThen_def)
qed

text \<open>
  A service can hand on more than it was given: the check that a new delegation narrows
  the delegator's own covers agents only, so a service that holds a capability for one type of
  resource until some time delegates it for every resource and for ever, with an empty chain,
  and the delegate is then allowed what the service never held.
\<close>

theorem service_redelegation_widens:
  "\<exists>s d s' g. delegations_for sample_tenant ''cron'' s = [sample_delegation ''cron'']
     \<and> principal_of sample_tenant ''cron'' s = Inr sample_service
     \<and> delegate sample_env ''acme'' (sample_redelegation ''cron'' ''bot'' scope_any) 15 s = (Inr d, s')
     \<and> d_chain d = [] \<and> d_expires_at d = None
     \<and> \<not> is_subset_of (d_resource_scope d) (d_resource_scope (sample_delegation ''cron''))
     \<and> decision_grant (fst (authorize_request_with_authority_revision sample_env
          (sample_context sample_agent) (sample_request ''bot'' ''invoices.read'' ''payment'') None 17 7 s'))
        = Some g \<and> g_delegated_by g = Some ''cron'' \<and> g_delegation_chain g = [''d2'']"
proof -
  let ?s = "sample_mesh\<lparr>m_delegations := \<lparr>st_delegations = [(''d1'', sample_delegation ''cron'')]\<rparr>\<rparr>"
  let ?d = "sample_redelegated ''cron'' ''bot'' scope_any []"
  obtain l where d: "delegate sample_env ''acme'' (sample_redelegation ''cron'' ''bot'' scope_any) 15 ?s
      = (Inr ?d, ?s\<lparr>m_delegations := \<lparr>st_delegations = [(''d1'', sample_delegation ''cron''), (''d2'', ?d)]\<rparr>,
           m_audit_sequence := 1, m_audit := l\<rparr>)" (is "_ = (_, ?s')")
    using sample_redelegates [of ?s "''cron''" sample_service "''bot''" sample_agent scope_any]
    by (auto simp: sample_mesh_def sample_service_def principal_service_def sample_agent_def principal_agent_def)
  have "delegations_for sample_tenant ''bot'' ?s' = [?d]"
    by (simp add: delegations_for_def list_delegations_for_delegate_def bvalues_def
        sample_delegation_def sample_redelegated_def)
  then have "decision_grant (fst (authorize_request_with_authority_revision sample_env
      (sample_context sample_agent) (sample_request ''bot'' ''invoices.read'' ''payment'') None 17 7 ?s'))
    = Some (delegated_grant sample_policy sample_agent sample_tenant ?d ''invoices.read'')"
    by (intro sample_redelegated_authorizes) (simp_all add: sample_agent_def)
  moreover have "delegations_for sample_tenant ''cron'' ?s = [sample_delegation ''cron'']"
    "principal_of sample_tenant ''cron'' ?s = Inr sample_service"
    by (simp_all add: delegations_for_def list_delegations_for_delegate_def bvalues_def
        sample_delegation_def principal_of_Inr sample_service_def principal_service_def)
  moreover have "d_chain ?d = []" "d_expires_at ?d = None"
    "\<not> is_subset_of (d_resource_scope ?d) (d_resource_scope (sample_delegation ''cron''))"
    by (simp_all add: sample_redelegated_def sample_delegation_def is_subset_of_iff scope_any_def
        scope_resource_def)
  moreover have "g_delegated_by (delegated_grant sample_policy sample_agent sample_tenant ?d ''invoices.read'')
      = Some ''cron''"
    "g_delegation_chain (delegated_grant sample_policy sample_agent sample_tenant ?d ''invoices.read'')
      = [''d2'']"
    by (simp_all add: delegated_grant_def sample_redelegated_def delegation_chain_def)
  ultimately show ?thesis using d by blast
qed

text \<open>
  Revoking a delegation leaves what was delegated from it: an agent that held a capability
  until some time delegates it to another agent without an end; after its own delegation has
  been revoked, the other agent is still allowed, by a grant whose chain starts with the
  revoked delegation.
\<close>

theorem sub_delegation_outlives_parent:
  "\<exists>s d s1 s2 g.
     delegations_for sample_tenant ''bot'' s = [sample_delegation ''bot'']
     \<and> delegate sample_env ''acme'' (sample_redelegation ''bot'' ''bot2'' (scope_resource ''invoice'')) 15 s
         = (Inr d, s1)
     \<and> revoke_delegation sample_env ''acme'' ''d1'' 16 s1 = (Inr (), s2)
     \<and> decision_grant (fst (authorize_request_with_authority_revision sample_env
          (sample_context sample_sub_agent) (sample_request ''bot2'' ''invoices.read'' ''invoice'')
          None 17 7 s2)) = Some g
     \<and> g_delegation_chain g = [''d1'', ''d2''] \<and> g_delegated_by g = Some ''bot''
     \<and> d_expires_at (sample_delegation ''bot'') = Some 20 \<and> d_expires_at d = None"
proof -
  let ?sc = "scope_resource ''invoice''"
  let ?d = "sample_redelegated ''bot'' ''bot2'' ?sc [''d1'']"
  let ?g = "delegated_grant sample_policy sample_sub_agent sample_tenant ?d ''invoices.read''"
  obtain l where d: "delegate sample_env ''acme'' (sample_redelegation ''bot'' ''bot2'' ?sc) 15 sample_chain_mesh
      = (Inr ?d, sample_chain_mesh\<lparr>m_delegations := \<lparr>st_delegations =
            [(''d1'', sample_delegation ''bot''), (''d2'', ?d)]\<rparr>, m_audit_sequence := 1, m_audit := l\<rparr>)"
    (is "_ = (_, ?s1)")
    using sample_chain_redelegates by blast
  let ?r = "(sample_delegation ''bot'')\<lparr>d_revoked_at := Some 16\<rparr>"
  have "\<exists>n l'. revoke_delegation sample_env ''acme'' ''d1'' 16 ?s1
      = (Inr (), ?s1\<lparr>m_delegations := \<lparr>st_delegations = [(''d1'', ?r), (''d2'', ?d)]\<rparr>,
           m_audit_sequence := n, m_audit := l'\<rparr>)"
  proof -
    have "tenant ''acme'' ?s1 = Inr sample_tenant"
      by (rule sample_tenant_known) (simp add: sample_chain_mesh_def)
    moreover have "d_tenant_id (sample_delegation ''bot'') = ''acme''"
      by (simp add: sample_delegation_def)
    moreover obtain l' where "audit sample_env sample_tenant
          ((audit_record KindDelegationRevoked)\<lparr>rec_delegation_id := Some ''d1''\<rparr>) 16
          (?s1\<lparr>m_delegations := \<lparr>st_delegations = [(''d1'', ?r), (''d2'', ?d)]\<rparr>\<rparr>)
        = (Inr (), ?s1\<lparr>m_delegations := \<lparr>st_delegations = [(''d1'', ?r), (''d2'', ?d)]\<rparr>,
             m_audit_sequence := 2, m_audit := l'\<rparr>)"
      using sample_audit_accepts [of sample_tenant _ 16
          "?s1\<lparr>m_delegations := \<lparr>st_delegations = [(''d1'', ?r), (''d2'', ?d)]\<rparr>\<rparr>"] by fastforce
    ultimately show ?thesis
      by (intro exI [of _ 2] exI [of _ l']) (simp add: revoke_delegation_def andThen_def
          on_delegations_def zoom_def mapErr_def store_revoke_delegation_def)
  qed
  then obtain n l' where r: "revoke_delegation sample_env ''acme'' ''d1'' 16 ?s1
      = (Inr (), ?s1\<lparr>m_delegations := \<lparr>st_delegations = [(''d1'', ?r), (''d2'', ?d)]\<rparr>,
           m_audit_sequence := n, m_audit := l'\<rparr>)" (is "_ = (_, ?s2)") by blast
  have "delegations_for sample_tenant ''bot2'' ?s2 = [?d]"
    by (simp add: delegations_for_def list_delegations_for_delegate_def bvalues_def
        sample_delegation_def sample_redelegated_def)
  then have "decision_grant (fst (authorize_request_with_authority_revision sample_env
      (sample_context sample_sub_agent) (sample_request ''bot2'' ''invoices.read'' ''invoice'') None 17 7 ?s2))
    = Some ?g"
    by (intro sample_redelegated_authorizes) (simp_all add: sample_sub_agent_def sample_chain_mesh_def)
  moreover have "delegations_for sample_tenant ''bot'' sample_chain_mesh = [sample_delegation ''bot'']"
    by (simp add: delegations_for_def list_delegations_for_delegate_def bvalues_def
        sample_delegation_def sample_chain_mesh_def)
  moreover have "g_delegation_chain ?g = [''d1'', ''d2'']" "g_delegated_by ?g = Some ''bot''"
    "d_expires_at (sample_delegation ''bot'') = Some 20" "d_expires_at ?d = None"
    by (simp_all add: delegated_grant_def sample_redelegated_def delegation_chain_def sample_delegation_def)
  ultimately show ?thesis using d r by blast
qed

text \<open>
  A run is not tied to its own delegation: after the delegation a run was created under has
  been revoked, requests made in the run are still allowed when the agent holds another live
  delegation of the capability, by whomever, although the context of the decision names the
  revoked one.
\<close>

theorem run_outlives_its_delegation:
  "\<exists>s r d g. map_of (st_runs (m_runs s)) ''r1'' = Some r \<and> r_delegation_id r = ''d1''
     \<and> map_of (st_delegations (m_delegations s)) ''d1'' = Some d \<and> d_revoked_at d = Some 16
     \<and> decision_grant (fst (authorize_run_request_with_authority_revision sample_env
          (sample_context sample_agent) ''r1'' (sample_request ''bot'' ''invoices.read'' ''invoice'')
          None 17 7 s)) = Some g
     \<and> g_delegation_id g = Some ''d2''"
proof -
  let ?r = "(sample_delegation ''bot'')\<lparr>d_revoked_at := Some 16\<rparr>"
  let ?d = "sample_redelegated ''carol'' ''bot'' scope_any []"
  let ?s = "sample_mesh\<lparr>m_delegations := \<lparr>st_delegations = [(''d1'', ?r), (''d2'', ?d)]\<rparr>,
     m_runs := \<lparr>st_runs = [(''r1'', sample_agent_run)]\<rparr>\<rparr>"
  let ?rq = "sample_request ''bot'' ''invoices.read'' ''invoice''"
  let ?ctx = "with_run (sample_context sample_agent) sample_agent_run"
  let ?g = "delegated_grant sample_policy sample_agent sample_tenant ?d ''invoices.read''"
  have run: "checked_run_for_request (sample_context sample_agent) ''r1'' ?rq None 17 ?s
      = Inr sample_agent_run"
    by (simp add: checked_run_for_request_Inr checked_run_Inr sample_agent_run_def new_run_def
        sample_context_def sample_agent_def principal_agent_def sample_request_def
        delegation_scope_matches_def is_unconstrained_def scope_resource_def)
  have ds: "delegations_for sample_tenant ''bot'' ?s = [?r, ?d]"
    by (simp add: delegations_for_def list_delegations_for_delegate_def bvalues_def
        sample_delegation_def sample_redelegated_def)
  have "decision_grant (fst (authorize_request_with_authority_revision sample_env ?ctx
      (request_in_run ?rq sample_agent_run) None 17 7 ?s)) = Some ?g"
  proof (rule authorized_by_delegation)
    show "policy (c_tenant ?ctx) ?s = Inr sample_policy"
      using sample_policy_found [of ?s] by (simp add: sample_context_def with_run_def)
    show "pick_delegation (delegations_for (c_tenant ?ctx) (p_id (c_principal ?ctx)) ?s)
        (rq_capability (request_in_run ?rq sample_agent_run)) 17 = Some ?d"
      using ds by (simp add: sample_context_def with_run_def sample_agent_def principal_agent_def
          sample_request_def request_in_run_def pick_delegation_def is_valid_at_iff
          sample_redelegated_def)
    show "decision_grant (evaluate_authorization_request (env_clock sample_env) (Some sample_policy)
        (Some (c_principal ?ctx)) (Some (c_tenant ?ctx)) (Some ?d)
        (request_in_run ?rq sample_agent_run) None 17) = Some ?g"
      by (simp add: decision_defs sample_defs sample_context_def with_run_def request_in_run_def
          sample_redelegated_def scope_any_def decision_grant_def)
    show "fst (env_record sample_env (c_tenant ?ctx) (decision_event ?s ?ctx
        (rq_capability (request_in_run ?rq sample_agent_run)) d 17) (m_audit ?s)) = Inr ()" for d
      by (simp add: sample_env_def record_event_def require_def andThen_def)
  qed
  then have "decision_grant (fst (authorize_run_request_with_authority_revision sample_env
      (sample_context sample_agent) ''r1'' ?rq None 17 7 ?s)) = Some ?g"
    using run by (simp add: authorize_run_request_with_authority_revision_def)
  moreover have "r_delegation_id sample_agent_run = ''d1''"
    by (simp add: sample_agent_run_def new_run_def sample_delegation_def)
  moreover have "g_delegation_id ?g = Some ''d2''"
    by (simp add: delegated_grant_def sample_redelegated_def)
  moreover have "map_of (st_runs (m_runs ?s)) ''r1'' = Some sample_agent_run"
    "map_of (st_delegations (m_delegations ?s)) ''d1'' = Some ?r" "d_revoked_at ?r = Some 16"
    by simp_all
  ultimately show ?thesis by blast
qed

text \<open>
  Narrowing resources does not narrow the choice of delegation: an agent with two live
  delegations of a capability for different types of resource is decided by the first of them
  in the order of their ids, so a request the second one covers is denied.
\<close>

theorem first_delegation_shadows_others:
  "\<exists>s d1 d2 p rq. delegations_for sample_tenant (p_id p) s = [d1, d2]
     \<and> delegation_covers d2 p sample_tenant rq None 17
     \<and> denial_reason (fst (authorize_request_with_authority_revision sample_env
          (sample_context p) rq None 17 7 s)) = Some DelegationScopeDenied"
proof -
  let ?d = "sample_redelegated ''carol'' ''bot'' (scope_resource ''payment'') []"
  let ?s = "sample_mesh\<lparr>m_delegations := \<lparr>st_delegations =
      [(''d1'', sample_delegation ''bot''), (''d2'', ?d)]\<rparr>\<rparr>"
  let ?rq = "sample_request ''bot'' ''invoices.read'' ''payment''"
  let ?ctx = "sample_context sample_agent"
  have ds: "delegations_for sample_tenant ''bot'' ?s = [sample_delegation ''bot'', ?d]"
    by (simp add: delegations_for_def list_delegations_for_delegate_def bvalues_def
        sample_delegation_def sample_redelegated_def)
  let ?e = "evaluate_authorization_request (Some 0) (Some sample_policy) (Some sample_agent)
      (Some sample_tenant) (Some (sample_delegation ''bot'')) ?rq None 17"
  have "denial_reason ?e = Some DelegationScopeDenied"
    by (simp add: decision_defs sample_defs denial_reason_def)
  have "denial_reason (fst (conclude sample_env ?ctx ''invoices.read'' ?e 17 7 ?s))
      = Some DelegationScopeDenied"
    by (rule conclude_cases [of sample_env ?ctx ?s "''invoices.read''" ?e 17 7])
      (use \<open>denial_reason ?e = Some DelegationScopeDenied\<close> in \<open>auto simp: sample_env_def
        record_event_def andThen_def require_def split: if_splits\<close>)
  then have "denial_reason (fst (authorize_request_with_authority_revision sample_env ?ctx ?rq None 17 7 ?s))
      = Some DelegationScopeDenied"
    using ds sample_policy_found [of ?s]
    by (simp add: authorize_request_with_authority_revision_def sample_context_def sample_agent_def
        principal_agent_def sample_request_def Let_def pick_delegation_def is_valid_at_iff
        sample_delegation_def sample_env_def)
  moreover have "delegation_covers ?d sample_agent sample_tenant ?rq None 17"
    by (simp add: delegation_covers_def sample_redelegated_def sample_defs is_valid_at_iff
        delegation_scope_matches_def is_unconstrained_def)
  moreover have "p_id sample_agent = ''bot''" by (simp add: sample_defs)
  ultimately show ?thesis using ds by metis
qed

end
