(* ===== verification/Control.thy ===== *)
theory Control
  imports Request
begin

text \<open>
  Live authority and its changes (\<^verbatim>\<open>crates/boundary/src/control.rs\<close> and
  \<^verbatim>\<open>proposal_store.rs\<close>, and the proposal operations of \<^verbatim>\<open>runtime.rs\<close>): the state that
  overlays the contract, the changes to it, proposals with their approval, application and
  history.

  Readings of the system clock are a stream in the state, in nanoseconds since the epoch. The
  hash of approval tokens is a parameter, since the standard library does not specify the
  algorithm of \<^verbatim>\<open>DefaultHasher\<close>, and so is the derived debug text of a policy; what is
  fed to the hash is modelled.
\<close>

subsection \<open>Live authority\<close>

type_synonym RouteId = "Method \<times> string"

record RouteProtection =
  pr_capability :: "string option"

record ProviderState =
  pv_enabled :: bool

record LiveAuthorityState =
  lv_route_protection :: "(RouteId, RouteProtection) bmap"
  lv_capability_policies :: "(string, Policy) bmap"
  lv_provider_state :: "(string, ProviderState) bmap"
  lv_password_policy :: "PasswordPolicy option"
  lv_revision :: u64

definition live_authority_new :: LiveAuthorityState where
  "live_authority_new = \<lparr>lv_route_protection = [], lv_capability_policies = [],
     lv_provider_state = [], lv_password_policy = None, lv_revision = 0\<rparr>"

definition next_revision :: "LiveAuthorityState \<Rightarrow> u64" where
  "next_revision s = lv_revision s + 1"

datatype AuthorityChange =
    ProtectRoute Method string string
  | UnprotectRoute Method string
  | SetCapabilityPolicy string Policy
  | SetProviderEnabled string bool
  | SetPasswordPolicy PasswordPolicy
  | Revert string

definition change_type :: "AuthorityChange \<Rightarrow> string" where
  "change_type c = (case c of
     ProtectRoute _ _ _ \<Rightarrow> ''protect_route'' | UnprotectRoute _ _ \<Rightarrow> ''unprotect_route''
   | SetCapabilityPolicy _ _ \<Rightarrow> ''set_capability_policy''
   | SetProviderEnabled _ _ \<Rightarrow> ''set_provider_enabled''
   | SetPasswordPolicy _ \<Rightarrow> ''set_password_policy'' | Revert _ \<Rightarrow> ''revert'')"

record PreviewState =
  vw_route_protection :: "(RouteId, RouteProtection) bmap"
  vw_capability_policies :: "(string, Policy) bmap"
  vw_provider_state :: "(string, ProviderState) bmap"
  vw_password_policy :: "PasswordPolicy option"

definition preview_state_from :: "LiveAuthorityState \<Rightarrow> PreviewState" where
  "preview_state_from s = \<lparr>vw_route_protection = lv_route_protection s,
     vw_capability_policies = lv_capability_policies s,
     vw_provider_state = lv_provider_state s, vw_password_policy = lv_password_policy s\<rparr>"

record Preview =
  pre_before :: PreviewState
  pre_after :: PreviewState

record ChangeProposal =
  cp_id :: string
  cp_change :: AuthorityChange
  cp_preview :: Preview
  cp_revision :: u64

record Approval =
  ap_token :: string

text \<open>What the hash of an approval is fed: a string is its bytes and an end byte.\<close>

record Hashing =
  hs_hash :: "string \<Rightarrow> u64"
  hs_debug_policy :: "Policy \<Rightarrow> string"

definition hash_str :: "string \<Rightarrow> string" where
  "hash_str s = s @ [CHR 0xFF]"

definition authority_hash :: "Hashing \<Rightarrow> AuthorityChange \<Rightarrow> u64" where
  "authority_hash hs c = hs_hash hs (case c of
     ProtectRoute m path cap \<Rightarrow>
       hash_str ''ProtectRoute'' @ hash_str (method_text m) @ hash_str path @ hash_str cap
   | UnprotectRoute m path \<Rightarrow>
       hash_str ''UnprotectRoute'' @ hash_str (method_text m) @ hash_str path
   | SetCapabilityPolicy cap pol \<Rightarrow>
       hash_str ''SetCapabilityPolicy'' @ hash_str cap @ hash_str (hs_debug_policy hs pol)
   | SetProviderEnabled p b \<Rightarrow>
       hash_str ''SetProviderEnabled'' @ hash_str p @ [if b then CHR 0x01 else CHR 0x00]
   | SetPasswordPolicy pw \<Rightarrow> hash_str ''SetPasswordPolicy'' @ hash_str (revision_fingerprint pw)
   | Revert i \<Rightarrow> hash_str ''Revert'' @ hash_str i)"

definition approval_for :: "Hashing \<Rightarrow> ChangeProposal \<Rightarrow> Approval" where
  "approval_for hs p = \<lparr>ap_token = ''dev-approval-'' @ show_nat (unat (authority_hash hs (cp_change p)))\<rparr>"

definition approval_verify :: "Hashing \<Rightarrow> Approval \<Rightarrow> ChangeProposal \<Rightarrow> bool" where
  "approval_verify hs a p \<longleftrightarrow> ap_token a = ap_token (approval_for hs p)"

text \<open>
  The function \<^verbatim>\<open>apply_change\<close> of \<^verbatim>\<open>control.rs\<close>, as opposed to the operation of the same
  name of the runtime.
\<close>

definition changed :: "LiveAuthorityState \<Rightarrow> AuthorityChange \<Rightarrow> string + LiveAuthorityState" where
  "changed current c =
     (let next = current\<lparr>lv_revision := next_revision current\<rparr> in case c of
        ProtectRoute m path cap \<Rightarrow> Inr (next\<lparr>lv_route_protection :=
          binsert (m, path) \<lparr>pr_capability = Some cap\<rparr> (lv_route_protection next)\<rparr>)
      | UnprotectRoute m path \<Rightarrow> Inr (next\<lparr>lv_route_protection :=
          bremove (m, path) (lv_route_protection next)\<rparr>)
      | SetCapabilityPolicy cap pol \<Rightarrow> Inr (next\<lparr>lv_capability_policies :=
          binsert cap pol (lv_capability_policies next)\<rparr>)
      | SetProviderEnabled p b \<Rightarrow> Inr (next\<lparr>lv_provider_state :=
          binsert p \<lparr>pv_enabled = b\<rparr> (lv_provider_state next)\<rparr>)
      | SetPasswordPolicy pw \<Rightarrow>
          rbind (password_policy_validate pw) (\<lambda>_. Inr (next\<lparr>lv_password_policy := Some pw\<rparr>))
      | Revert _ \<Rightarrow> Inl ''revert requires an applied change record'')"

subsection \<open>Proposals\<close>

datatype ProposalStatus =
  Pending | Approved | Applied | Rejected | Active | Orphaned | Stale | Superseded

definition proposal_status_as_str :: "ProposalStatus \<Rightarrow> string" where
  "proposal_status_as_str s = (case s of
     Pending \<Rightarrow> ''pending'' | Approved \<Rightarrow> ''approved'' | Applied \<Rightarrow> ''applied''
   | Rejected \<Rightarrow> ''rejected'' | Active \<Rightarrow> ''active'' | Orphaned \<Rightarrow> ''orphaned''
   | Stale \<Rightarrow> ''stale'' | Superseded \<Rightarrow> ''superseded'')"

datatype ProposalSource = Explicit | Inferred | Imported

definition proposal_source_as_str :: "ProposalSource \<Rightarrow> string" where
  "proposal_source_as_str s = (case s of
     Explicit \<Rightarrow> ''explicit'' | Inferred \<Rightarrow> ''inferred'' | Imported \<Rightarrow> ''imported'')"

record StoredProposal =
  sp_id :: string
  sp_change :: AuthorityChange
  sp_preview :: Preview
  sp_revision :: u64
  sp_contract_fingerprint :: string
  sp_discovery_revision :: u64
  sp_source :: ProposalSource
  sp_status :: ProposalStatus
  sp_created_at :: nat
  sp_applied_at :: "nat option"
  sp_change_id :: "string option"
  sp_rejection_reason :: "string option"

record ProposalMetadata =
  pm_id :: string
  pm_change_type :: string
  pm_status :: ProposalStatus
  pm_revision :: u64
  pm_source :: ProposalSource
  pm_created_at :: nat
  pm_applied_at :: "nat option"

record ChangeRecord =
  ch_change_id :: string
  ch_proposal_id :: string
  ch_change :: AuthorityChange
  ch_previous_state :: LiveAuthorityState
  ch_resulting_state :: LiveAuthorityState
  ch_applied_at :: nat
  ch_applied_by :: "string option"
  ch_reverted_change_id :: "string option"

record MemoryProposalStore =
  mp_proposals :: "(string, StoredProposal) bmap"
  mp_changes :: "(string, ChangeRecord) bmap"
  mp_next_id :: u64

definition proposal_store_new :: MemoryProposalStore where
  "proposal_store_new = \<lparr>mp_proposals = [], mp_changes = [], mp_next_id = 1\<rparr>"

definition allocate_proposal_id :: "(MemoryProposalStore, string, string) eff" where
  "allocate_proposal_id = (\<lambda>s.
     (Inr (''proposal-'' @ show_nat (unat (mp_next_id s))), s\<lparr>mp_next_id := mp_next_id s + 1\<rparr>))"

definition store_proposal :: "StoredProposal \<Rightarrow> (MemoryProposalStore, string, unit) eff" where
  "store_proposal p = (\<lambda>s.
     if bcontains (mp_proposals s) (sp_id p)
     then (Inl (''proposal '' @ in_backticks (sp_id p) @ '' already exists''), s)
     else (Inr (), s\<lparr>mp_proposals := binsert (sp_id p) p (mp_proposals s)\<rparr>))"

definition not_found :: "string \<Rightarrow> string \<Rightarrow> string" where
  "not_found what i = what @ '' '' @ in_backticks i @ '' was not found''"

definition store_retrieve_proposal :: "string \<Rightarrow> MemoryProposalStore \<Rightarrow> string + StoredProposal" where
  "store_retrieve_proposal i s = ok_or (not_found ''proposal'' i) (map_of (mp_proposals s) i)"

definition page :: "nat \<Rightarrow> nat \<Rightarrow> 'a list \<Rightarrow> 'a list" where
  "page limit offset xs = take limit (drop offset xs)"

definition store_list_proposals :: "nat \<Rightarrow> nat \<Rightarrow> MemoryProposalStore \<Rightarrow> ProposalMetadata list" where
  "store_list_proposals limit offset s =
     map (\<lambda>p. \<lparr>pm_id = sp_id p, pm_change_type = change_type (sp_change p), pm_status = sp_status p,
        pm_revision = sp_revision p, pm_source = sp_source p, pm_created_at = sp_created_at p,
        pm_applied_at = sp_applied_at p\<rparr>)
       (page limit offset (rev (sort_key sp_created_at (bvalues (mp_proposals s)))))"

definition find_proposal ::
  "AuthorityChange \<Rightarrow> string \<Rightarrow> u64 \<Rightarrow> MemoryProposalStore \<Rightarrow> StoredProposal option" where
  "find_proposal c fp disc s =
     find (\<lambda>p. sp_change p = c \<and> sp_contract_fingerprint p = fp \<and> sp_discovery_revision p = disc)
       (bvalues (mp_proposals s))"

definition update_proposal ::
  "string \<Rightarrow> (StoredProposal \<Rightarrow> StoredProposal) \<Rightarrow> (MemoryProposalStore, string, unit) eff" where
  "update_proposal i f = (\<lambda>s. case map_of (mp_proposals s) i of
     None \<Rightarrow> (Inl (not_found ''proposal'' i), s)
   | Some p \<Rightarrow> (Inr (), s\<lparr>mp_proposals := binsert i (f p) (mp_proposals s)\<rparr>))"

definition mark_applied :: "string \<Rightarrow> string \<Rightarrow> nat \<Rightarrow> (MemoryProposalStore, string, unit) eff" where
  "mark_applied i change_id at = update_proposal i
     (\<lambda>p. p\<lparr>sp_status := Applied, sp_applied_at := Some at, sp_change_id := Some change_id\<rparr>)"

definition mark_approved :: "string \<Rightarrow> (MemoryProposalStore, string, unit) eff" where
  "mark_approved i = update_proposal i (\<lambda>p. p\<lparr>sp_status := Approved\<rparr>)"

definition mark_rejected :: "string \<Rightarrow> string \<Rightarrow> (MemoryProposalStore, string, unit) eff" where
  "mark_rejected i reason = update_proposal i
     (\<lambda>p. p\<lparr>sp_status := Rejected, sp_rejection_reason := Some reason\<rparr>)"

definition store_change_record :: "ChangeRecord \<Rightarrow> (MemoryProposalStore, string, unit) eff" where
  "store_change_record r = (\<lambda>s.
     (Inr (), s\<lparr>mp_changes := binsert (ch_change_id r) r (mp_changes s)\<rparr>))"

definition retrieve_change_record :: "string \<Rightarrow> MemoryProposalStore \<Rightarrow> string + ChangeRecord" where
  "retrieve_change_record i s = ok_or (not_found ''change'' i) (map_of (mp_changes s) i)"

definition list_change_records :: "nat \<Rightarrow> nat \<Rightarrow> MemoryProposalStore \<Rightarrow> ChangeRecord list" where
  "list_change_records limit offset s =
     page limit offset (rev (sort_key ch_applied_at (bvalues (mp_changes s))))"

definition apply_revert_change ::
  "LiveAuthorityState \<Rightarrow> string \<Rightarrow> ChangeRecord \<Rightarrow> string + LiveAuthorityState" where
  "apply_revert_change current i r =
     (if ch_change_id r \<noteq> i
      then Inl ''revert change id does not match the stored record''
      else if lv_revision current < lv_revision (ch_resulting_state r)
      then Inl ''cannot revert against an older authority state''
      else Inr ((ch_previous_state r)\<lparr>lv_revision := next_revision current\<rparr>))"

subsection \<open>The operations of the runtime\<close>

record Control =
  ct_contract :: AuthConfig
  ct_authority :: LiveAuthorityState
  ct_proposals :: MemoryProposalStore
  ct_clock :: "nat \<Rightarrow> nat"
  ct_clock_reads :: nat

text \<open>\<^verbatim>\<open>SystemTime::now()\<close>.\<close>

definition system_now :: "('z Control_scheme, string, nat) eff" where
  "system_now = (\<lambda>s. (Inr (ct_clock s (ct_clock_reads s)), s\<lparr>ct_clock_reads := ct_clock_reads s + 1\<rparr>))"

definition on_proposals ::
  "(MemoryProposalStore, string, 'a) eff \<Rightarrow> ('z Control_scheme, string, 'a) eff" where
  "on_proposals m = zoom ct_proposals (\<lambda>c s. s\<lparr>ct_proposals := c\<rparr>) m"

definition live_authority :: "'z Control_scheme \<Rightarrow> LiveAuthorityState" where
  "live_authority s = ct_authority s"

definition preview_authority_change ::
  "LiveAuthorityState \<Rightarrow> AuthorityChange \<Rightarrow> 'z Control_scheme \<Rightarrow> string + LiveAuthorityState" where
  "preview_authority_change current c s = (case c of
     Revert i \<Rightarrow> rbind (retrieve_change_record i (ct_proposals s)) (\<lambda>r. apply_revert_change current i r)
   | _ \<Rightarrow> changed current c)"

definition stale_revision :: "u64 \<Rightarrow> u64 \<Rightarrow> string" where
  "stale_revision expected current =
     ''STALE_AUTHORITY_PROPOSAL: expected authority revision '' @ show_nat (unat expected)
     @ '', current authority revision '' @ show_nat (unat current)"

definition stale_contract :: string where
  "stale_contract = ''STALE_AUTHORITY_PROPOSAL: contract fingerprint changed''"

definition verify_stored_proposal_is_current ::
  "StoredProposal \<Rightarrow> 'z Control_scheme \<Rightarrow> string + unit" where
  "verify_stored_proposal_is_current p s =
     rbind (check (sp_contract_fingerprint p = fingerprint (ct_contract s)) stale_contract) (\<lambda>_.
     rbind (check (sp_revision p = lv_revision (ct_authority s))
       (stale_revision (sp_revision p) (lv_revision (ct_authority s)))) (\<lambda>_.
     rbind (preview_authority_change (ct_authority s) (sp_change p) s) (\<lambda>_. Inr ())))"

definition propose_change_with_metadata ::
  "AuthorityChange \<Rightarrow> ProposalSource \<Rightarrow> u64 \<Rightarrow> ('z Control_scheme, string, ChangeProposal) eff" where
  "propose_change_with_metadata c source disc =
     andThen (reading (\<lambda>s. Inr (ct_authority s))) (\<lambda>current.
     andThen (reading (preview_authority_change current c)) (\<lambda>after.
     andThen (on_proposals allocate_proposal_id) (\<lambda>i.
     andThen (reading (\<lambda>s. Inr (fingerprint (ct_contract s)))) (\<lambda>fp.
     let p = \<lparr>cp_id = i, cp_change = c,
           cp_preview = \<lparr>pre_before = preview_state_from current, pre_after = preview_state_from after\<rparr>,
           cp_revision = lv_revision current\<rparr>
     in andThen system_now (\<lambda>t.
        andThen (on_proposals (store_proposal
          \<lparr>sp_id = i, sp_change = c, sp_preview = cp_preview p, sp_revision = cp_revision p,
           sp_contract_fingerprint = fp, sp_discovery_revision = disc, sp_source = source,
           sp_status = Pending, sp_created_at = t, sp_applied_at = None, sp_change_id = None,
           sp_rejection_reason = None\<rparr>)) (\<lambda>_. ok p))))))"

definition propose_change :: "AuthorityChange \<Rightarrow> ('z Control_scheme, string, ChangeProposal) eff" where
  "propose_change c = propose_change_with_metadata c Explicit 0"

definition retrieve_proposal :: "string \<Rightarrow> 'z Control_scheme \<Rightarrow> string + StoredProposal" where
  "retrieve_proposal i s = store_retrieve_proposal i (ct_proposals s)"

definition list_proposals :: "nat \<Rightarrow> nat \<Rightarrow> 'z Control_scheme \<Rightarrow> ProposalMetadata list" where
  "list_proposals limit offset s = store_list_proposals limit offset (ct_proposals s)"

definition history :: "nat \<Rightarrow> nat \<Rightarrow> 'z Control_scheme \<Rightarrow> ChangeRecord list" where
  "history limit offset s = list_change_records limit offset (ct_proposals s)"

definition ensure_proposal ::
  "AuthorityChange \<Rightarrow> ProposalSource \<Rightarrow> u64 \<Rightarrow> ('z Control_scheme, string, StoredProposal) eff" where
  "ensure_proposal c source disc =
     andThen (reading (\<lambda>s. Inr (find_proposal c (fingerprint (ct_contract s)) disc (ct_proposals s))))
       (\<lambda>existing. case existing of
          Some p \<Rightarrow> ok p
        | None \<Rightarrow>
            andThen (propose_change_with_metadata c source disc) (\<lambda>p.
            reading (retrieve_proposal (cp_id p))))"

definition approve_stored_proposal :: "string \<Rightarrow> ('z Control_scheme, string, unit) eff" where
  "approve_stored_proposal i =
     andThen (reading (retrieve_proposal i)) (\<lambda>p.
     let go = andThen (reading (verify_stored_proposal_is_current p)) (\<lambda>_.
              on_proposals (mark_approved i));
         review = fail (''proposal '' @ in_backticks i @ '' is '' @ proposal_status_as_str (sp_status p)
              @ '' and requires reconciliation review'')
     in case sp_status p of
          Pending \<Rightarrow> go
        | Approved \<Rightarrow> ok ()
        | Applied \<Rightarrow> fail (''proposal '' @ in_backticks i @ '' is already applied'')
        | Rejected \<Rightarrow> fail (''proposal '' @ in_backticks i @ '' is rejected'')
        | Active \<Rightarrow> review | Orphaned \<Rightarrow> review | Stale \<Rightarrow> review | Superseded \<Rightarrow> review)"

definition reject_stored_proposal :: "string \<Rightarrow> string \<Rightarrow> ('z Control_scheme, string, unit) eff" where
  "reject_stored_proposal i reason =
     andThen (reading (retrieve_proposal i)) (\<lambda>p.
     case sp_status p of
       Applied \<Rightarrow> fail (''proposal '' @ in_backticks i @ '' is already applied'')
     | Rejected \<Rightarrow> ok ()
     | _ \<Rightarrow> on_proposals (mark_rejected i reason))"

definition reverted_change :: "AuthorityChange \<Rightarrow> string option" where
  "reverted_change c = (case c of Revert i \<Rightarrow> Some i | _ \<Rightarrow> None)"

definition apply_change ::
  "Hashing \<Rightarrow> ChangeProposal \<Rightarrow> Approval \<Rightarrow> ('z Control_scheme, string, string) eff" where
  "apply_change hs p a =
     andThen (require (approval_verify hs a p) ''approval token does not match proposal'') (\<lambda>_.
     andThen (reading (\<lambda>s. Inr (ct_authority s))) (\<lambda>previous.
     andThen (require (cp_revision p = lv_revision previous)
       ''change conflicts with newer authority state'') (\<lambda>_.
     andThen (reading (preview_authority_change previous (cp_change p))) (\<lambda>next.
     andThen system_now (\<lambda>t.
     let change_id = ''change-'' @ show_nat (t div 1000000) @ ''-rev'' @ show_nat (unat (lv_revision next)) in
     andThen (\<lambda>s. (Inr (), s\<lparr>ct_authority := next\<rparr>)) (\<lambda>_.
     andThen (reading (retrieve_proposal (cp_id p))) (\<lambda>_.
     andThen system_now (\<lambda>at.
     andThen (on_proposals (mark_applied (cp_id p) change_id at)) (\<lambda>_.
     andThen system_now (\<lambda>at.
     andThen (on_proposals (store_change_record
       \<lparr>ch_change_id = change_id, ch_proposal_id = cp_id p, ch_change = cp_change p,
        ch_previous_state = previous, ch_resulting_state = next, ch_applied_at = at,
        ch_applied_by = None, ch_reverted_change_id = reverted_change (cp_change p)\<rparr>)) (\<lambda>_.
     ok change_id)))))))))))"

definition proposal_of :: "StoredProposal \<Rightarrow> ChangeProposal" where
  "proposal_of p = \<lparr>cp_id = sp_id p, cp_change = sp_change p, cp_preview = sp_preview p,
     cp_revision = sp_revision p\<rparr>"

definition apply_stored_proposal ::
  "Hashing \<Rightarrow> string \<Rightarrow> Approval \<Rightarrow> ('z Control_scheme, string, string \<times> u64) eff" where
  "apply_stored_proposal hs i a =
     andThen (reading (retrieve_proposal i)) (\<lambda>p.
     andThen (require (sp_status p = Approved) (''proposal '' @ in_backticks i @ '' is not approved'')) (\<lambda>_.
     andThen (reading (verify_stored_proposal_is_current p)) (\<lambda>_.
     andThen (apply_change hs (proposal_of p) a) (\<lambda>change_id.
     reading (\<lambda>s. Inr (change_id, lv_revision (live_authority s)))))))"

definition apply_approved_stored_proposal ::
  "Hashing \<Rightarrow> string \<Rightarrow> ('z Control_scheme, string, string \<times> u64) eff" where
  "apply_approved_stored_proposal hs i =
     andThen (reading (retrieve_proposal i)) (\<lambda>p.
     apply_stored_proposal hs i (approval_for hs (proposal_of p)))"

text \<open>A batch: all proposals are retrieved and checked, the changes are computed one after the
  other, and only then is the state replaced and the history written.\<close>

primrec retrieve_all :: "string list \<Rightarrow> 'z Control_scheme \<Rightarrow> string + StoredProposal list" where
  "retrieve_all [] s = Inr []"
| "retrieve_all (i # is) s =
     rbind (retrieve_proposal i s) (\<lambda>p. rbind (retrieve_all is s) (\<lambda>ps. Inr (p # ps)))"

primrec plan_batch ::
  "string \<Rightarrow> u64 \<Rightarrow> nat \<Rightarrow> StoredProposal list \<Rightarrow> LiveAuthorityState
   \<Rightarrow> ('z Control_scheme, string, LiveAuthorityState \<times> ChangeRecord list) eff" where
  "plan_batch fp base n [] next = ok (next, [])"
| "plan_batch fp base n (p # ps) next =
     andThen (require (sp_contract_fingerprint p = fp) stale_contract) (\<lambda>_.
     andThen (require (sp_revision p = base) (stale_revision (sp_revision p) base)) (\<lambda>_.
     andThen (reading (preview_authority_change next (sp_change p))) (\<lambda>after.
     andThen system_now (\<lambda>t.
     andThen system_now (\<lambda>at.
     let r = \<lparr>ch_change_id = ''change-'' @ show_nat (t div 1000000) @ ''-'' @ show_nat n @ ''-rev''
                @ show_nat (unat (lv_revision after)),
              ch_proposal_id = sp_id p, ch_change = sp_change p, ch_previous_state = next,
              ch_resulting_state = after, ch_applied_at = at, ch_applied_by = None,
              ch_reverted_change_id = reverted_change (sp_change p)\<rparr>
     in andThen (plan_batch fp base (n + 1) ps after) (\<lambda>(final, rs). ok (final, r # rs)))))))"

primrec record_batch ::
  "ChangeRecord list \<Rightarrow> ('z Control_scheme, string, (string \<times> string \<times> u64) list) eff" where
  "record_batch [] = ok []"
| "record_batch (r # rs) =
     andThen (reading (retrieve_proposal (ch_proposal_id r))) (\<lambda>_.
     andThen system_now (\<lambda>at.
     andThen (on_proposals (mark_applied (ch_proposal_id r) (ch_change_id r) at)) (\<lambda>_.
     andThen (on_proposals (store_change_record r)) (\<lambda>_.
     andThen (record_batch rs) (\<lambda>outcomes.
     ok ((ch_proposal_id r, ch_change_id r, lv_revision (ch_resulting_state r)) # outcomes))))))"

definition apply_approved_stored_proposals ::
  "string list \<Rightarrow> ('z Control_scheme, string, (string \<times> string \<times> u64) list) eff" where
  "apply_approved_stored_proposals is =
     (if is = [] then ok [] else
      andThen (reading (retrieve_all is)) (\<lambda>ps.
      andThen (reading (\<lambda>_. for_each (\<lambda>p. check (sp_status p = Approved)
          (''proposal '' @ in_backticks (sp_id p) @ '' is not approved'')) ps)) (\<lambda>_.
      andThen (reading (\<lambda>s. Inr (ct_authority s))) (\<lambda>current.
      andThen (reading (\<lambda>s. Inr (fingerprint (ct_contract s)))) (\<lambda>fp.
      andThen (plan_batch fp (lv_revision current) 0 ps current) (\<lambda>(final, rs).
      andThen (\<lambda>s. (Inr (), s\<lparr>ct_authority := final\<rparr>)) (\<lambda>_.
      record_batch rs)))))))"

definition get_route_protection :: "Method \<Rightarrow> string \<Rightarrow> 'z Control_scheme \<Rightarrow> string option" where
  "get_route_protection m path s =
     Option.bind (map_of (lv_route_protection (ct_authority s)) (m, path)) pr_capability"

definition is_provider_enabled :: "string \<Rightarrow> 'z Control_scheme \<Rightarrow> bool" where
  "is_provider_enabled p s = (case map_of (lv_provider_state (ct_authority s)) p of
     Some v \<Rightarrow> pv_enabled v | None \<Rightarrow> True)"

subsection \<open>Facts of changes\<close>

lemma changed_revision: "changed current c = Inr after \<Longrightarrow> lv_revision after = lv_revision current + 1"
  by (auto simp: changed_def Let_def next_revision_def rbind_Inr split: AuthorityChange.splits)

lemma preview_revision:
  "preview_authority_change current c s = Inr after \<Longrightarrow> lv_revision after = lv_revision current + 1"
  by (auto simp: preview_authority_change_def rbind_Inr apply_revert_change_def next_revision_def
      split: AuthorityChange.splits if_splits dest: changed_revision)

lemma preview_cong:
  "mp_changes (ct_proposals s') = mp_changes (ct_proposals s) \<Longrightarrow>
     preview_authority_change current c s' = preview_authority_change current c s"
  by (simp add: preview_authority_change_def retrieve_change_record_def split: AuthorityChange.split)

lemma retrieve_Inr: "retrieve_proposal i s = Inr p \<longleftrightarrow> map_of (mp_proposals (ct_proposals s)) i = Some p"
  by (simp add: retrieve_proposal_def store_retrieve_proposal_def)

lemma verify_Inr:
  "verify_stored_proposal_is_current p s = Inr u \<longleftrightarrow>
     sp_contract_fingerprint p = fingerprint (ct_contract s)
     \<and> sp_revision p = lv_revision (ct_authority s)
     \<and> (\<exists>after. preview_authority_change (ct_authority s) (sp_change p) s = Inr after)"
  by (auto simp: verify_stored_proposal_is_current_def rbind_Inr)

lemma approval_for_verifies [simp]: "approval_verify hs (approval_for hs p) p"
  by (simp add: approval_verify_def)

text \<open>Proposals are stored under their own ids.\<close>

definition proposals_keyed :: "'z Control_scheme \<Rightarrow> bool" where
  "proposals_keyed s \<longleftrightarrow> (\<forall>i p. map_of (mp_proposals (ct_proposals s)) i = Some p \<longrightarrow> sp_id p = i)"

subsection \<open>Applying a proposal\<close>

lemma apply_change_Inr:
  assumes "apply_change hs p a s = (Inr change_id, s')"
  obtains after sp at1 at2 n where "approval_verify hs a p"
    "cp_revision p = lv_revision (ct_authority s)"
    "preview_authority_change (ct_authority s) (cp_change p) s = Inr after"
    "map_of (mp_proposals (ct_proposals s)) (cp_id p) = Some sp"
    "s' = s\<lparr>ct_authority := after, ct_proposals := (ct_proposals s)
       \<lparr>mp_proposals := binsert (cp_id p) (sp\<lparr>sp_status := Applied, sp_applied_at := Some at1,
            sp_change_id := Some change_id\<rparr>) (mp_proposals (ct_proposals s)),
        mp_changes := binsert change_id \<lparr>ch_change_id = change_id, ch_proposal_id = cp_id p,
            ch_change = cp_change p, ch_previous_state = ct_authority s, ch_resulting_state = after,
            ch_applied_at = at2, ch_applied_by = None,
            ch_reverted_change_id = reverted_change (cp_change p)\<rparr> (mp_changes (ct_proposals s))\<rparr>,
        ct_clock_reads := n\<rparr>"
proof -
  obtain after where 1: "approval_verify hs a p" "cp_revision p = lv_revision (ct_authority s)"
    "preview_authority_change (ct_authority s) (cp_change p) s = Inr after"
    using assms unfolding apply_change_def by (elim eff_elims) auto
  obtain sp where 2: "map_of (mp_proposals (ct_proposals s)) (cp_id p) = Some sp"
    using assms 1
    by (cases "map_of (mp_proposals (ct_proposals s)) (cp_id p)")
      (auto simp: apply_change_def andThen_def require_def system_now_def Let_def
        retrieve_proposal_def store_retrieve_proposal_def)
  define cid where "cid = ''change-'' @ show_nat (ct_clock s (ct_clock_reads s) div 1000000) @ ''-rev''
      @ show_nat (unat (lv_revision after))"
  define s1 where "s1 = s\<lparr>ct_authority := after, ct_proposals := (ct_proposals s)
       \<lparr>mp_proposals := binsert (cp_id p) (sp\<lparr>sp_status := Applied,
            sp_applied_at := Some (ct_clock s (ct_clock_reads s + 1)),
            sp_change_id := Some cid\<rparr>) (mp_proposals (ct_proposals s)),
        mp_changes := binsert cid \<lparr>ch_change_id = cid, ch_proposal_id = cp_id p,
            ch_change = cp_change p, ch_previous_state = ct_authority s, ch_resulting_state = after,
            ch_applied_at = ct_clock s (ct_clock_reads s + 1 + 1), ch_applied_by = None,
            ch_reverted_change_id = reverted_change (cp_change p)\<rparr> (mp_changes (ct_proposals s))\<rparr>,
        ct_clock_reads := ct_clock_reads s + 1 + 1 + 1\<rparr>"
  have "apply_change hs p a s = (Inr cid, s1)"
    by (simp add: apply_change_def andThen_def require_def system_now_def Let_def 1 2
        retrieve_proposal_def store_retrieve_proposal_def on_proposals_def zoom_def mark_applied_def
        update_proposal_def store_change_record_def cid_def s1_def)
  then have "change_id = cid" "s' = s1" using assms by simp_all
  then show thesis using 1 2 by (intro that) (simp_all add: s1_def)
qed

lemma apply_change_works:
  assumes "approval_verify hs a p" "cp_revision p = lv_revision (ct_authority s)"
    and "preview_authority_change (ct_authority s) (cp_change p) s = Inr after"
    and "map_of (mp_proposals (ct_proposals s)) (cp_id p) = Some sp"
  shows "\<exists>change_id s'. apply_change hs p a s = (Inr change_id, s')"
  using assms
  by (simp add: apply_change_def andThen_def require_def system_now_def Let_def
      retrieve_proposal_def store_retrieve_proposal_def on_proposals_def zoom_def mark_applied_def
      update_proposal_def store_change_record_def)

lemma apply_stored_Inr:
  assumes "apply_stored_proposal hs i a s = (Inr (change_id, revision), s')"
  obtains p where "map_of (mp_proposals (ct_proposals s)) i = Some p" "sp_status p = Approved"
    "sp_contract_fingerprint p = fingerprint (ct_contract s)"
    "sp_revision p = lv_revision (ct_authority s)"
    "apply_change hs (proposal_of p) a s = (Inr change_id, s')" "revision = lv_revision (ct_authority s')"
  using assms unfolding apply_stored_proposal_def
  by (elim eff_elims) (auto simp: retrieve_Inr verify_Inr live_authority_def)

text \<open>
  A stored proposal is applied only while it is approved and current: its contract is the
  contract of the runtime, its revision that of the live authority, and its approval that of
  its own change; then the live authority becomes what the change previews, at the next
  revision, the proposal is applied under the new change id, and the history holds the change
  with the states before and after it.
\<close>

theorem stored_proposal_applies_when_current:
  assumes "proposals_keyed s" "apply_stored_proposal hs i a s = (Inr (change_id, revision), s')"
  shows "\<exists>p after r. map_of (mp_proposals (ct_proposals s)) i = Some p \<and> sp_status p = Approved
    \<and> sp_contract_fingerprint p = fingerprint (ct_contract s)
    \<and> sp_revision p = lv_revision (live_authority s) \<and> approval_verify hs a (proposal_of p)
    \<and> preview_authority_change (live_authority s) (sp_change p) s = Inr after
    \<and> live_authority s' = after \<and> revision = lv_revision after \<and> revision = lv_revision (live_authority s) + 1
    \<and> map_option sp_status (map_of (mp_proposals (ct_proposals s')) i) = Some Applied
    \<and> map_option sp_change_id (map_of (mp_proposals (ct_proposals s')) i) = Some (Some change_id)
    \<and> map_of (mp_changes (ct_proposals s')) change_id = Some r \<and> ch_proposal_id r = i
    \<and> ch_change r = sp_change p \<and> ch_previous_state r = live_authority s
    \<and> ch_resulting_state r = after
    \<and> ct_contract s' = ct_contract s"
proof (rule apply_stored_Inr [OF assms(2)], goal_cases)
  case (1 p)
  have i: "cp_id (proposal_of p) = i" "cp_change (proposal_of p) = sp_change p"
    using assms(1) 1(1) by (auto simp: proposals_keyed_def proposal_of_def)
  show ?case
  proof (rule apply_change_Inr [OF 1(5)], goal_cases)
    case (1 after sp at1 at2 n)
    then have "lv_revision after = lv_revision (ct_authority s) + 1"
      using preview_revision by blast
    then show ?case
      using 1(1,3) \<open>map_of (mp_proposals (ct_proposals s)) i = Some p\<close>
        \<open>sp_status p = Approved\<close> \<open>sp_contract_fingerprint p = fingerprint (ct_contract s)\<close>
        \<open>sp_revision p = lv_revision (ct_authority s)\<close> \<open>revision = lv_revision (ct_authority s')\<close>
      by (intro exI [of _ p] exI [of _ after]) (simp add: 1(5) i live_authority_def)
  qed
qed

subsection \<open>The life of a proposal\<close>

definition next_proposal_id :: "'z Control_scheme \<Rightarrow> string" where
  "next_proposal_id s = ''proposal-'' @ show_nat (unat (mp_next_id (ct_proposals s)))"

definition new_proposal ::
  "AuthorityChange \<Rightarrow> ProposalSource \<Rightarrow> u64 \<Rightarrow> LiveAuthorityState \<Rightarrow> 'z Control_scheme \<Rightarrow> StoredProposal" where
  "new_proposal c source disc after s =
     \<lparr>sp_id = next_proposal_id s, sp_change = c,
      sp_preview = \<lparr>pre_before = preview_state_from (ct_authority s), pre_after = preview_state_from after\<rparr>,
      sp_revision = lv_revision (ct_authority s), sp_contract_fingerprint = fingerprint (ct_contract s),
      sp_discovery_revision = disc, sp_source = source, sp_status = Pending,
      sp_created_at = ct_clock s (ct_clock_reads s), sp_applied_at = None, sp_change_id = None,
      sp_rejection_reason = None\<rparr>"

lemma propose_works:
  assumes "preview_authority_change (ct_authority s) c s = Inr after"
    and "map_of (mp_proposals (ct_proposals s)) (next_proposal_id s) = None"
  shows "propose_change_with_metadata c source disc s =
    (Inr (proposal_of (new_proposal c source disc after s)),
     s\<lparr>ct_proposals := (ct_proposals s)\<lparr>mp_next_id := mp_next_id (ct_proposals s) + 1,
         mp_proposals := binsert (next_proposal_id s) (new_proposal c source disc after s)
           (mp_proposals (ct_proposals s))\<rparr>,
       ct_clock_reads := ct_clock_reads s + 1\<rparr>)"
  using assms(2)
  by (simp add: propose_change_with_metadata_def andThen_def assms(1) on_proposals_def zoom_def
      allocate_proposal_id_def system_now_def store_proposal_def Let_def new_proposal_def
      proposal_of_def next_proposal_id_def bcontains_iff)

lemma approve_works:
  assumes "map_of (mp_proposals (ct_proposals s)) i = Some p" "sp_status p = Pending"
    and "sp_contract_fingerprint p = fingerprint (ct_contract s)"
    and "sp_revision p = lv_revision (ct_authority s)"
    and "preview_authority_change (ct_authority s) (sp_change p) s = Inr after"
  shows "approve_stored_proposal i s = (Inr (), s\<lparr>ct_proposals := (ct_proposals s)
    \<lparr>mp_proposals := binsert i (p\<lparr>sp_status := Approved\<rparr>) (mp_proposals (ct_proposals s))\<rparr>\<rparr>)"
proof -
  have "verify_stored_proposal_is_current p s = Inr ()" using assms(3-5) by (simp add: verify_Inr)
  moreover have "retrieve_proposal i s = Inr p" using assms(1) by (simp add: retrieve_Inr)
  ultimately show ?thesis
    using assms(1,2) by (simp add: approve_stored_proposal_def andThen_def Let_def on_proposals_def
        zoom_def mark_approved_def update_proposal_def)
qed

lemma apply_approved_works:
  assumes "map_of (mp_proposals (ct_proposals s)) i = Some p" "sp_status p = Approved" "sp_id p = i"
    and "sp_contract_fingerprint p = fingerprint (ct_contract s)"
    and "sp_revision p = lv_revision (ct_authority s)"
    and "preview_authority_change (ct_authority s) (sp_change p) s = Inr after"
  obtains change_id s' where "apply_approved_stored_proposal hs i s = (Inr (change_id, lv_revision after), s')"
    "apply_change hs (proposal_of p) (approval_for hs (proposal_of p)) s = (Inr change_id, s')"
    "ct_authority s' = after"
proof -
  have po: "cp_id (proposal_of p) = i" "cp_change (proposal_of p) = sp_change p"
    "cp_revision (proposal_of p) = sp_revision p"
    using assms(3) by (simp_all add: proposal_of_def)
  obtain change_id s' where a: "apply_change hs (proposal_of p) (approval_for hs (proposal_of p)) s
      = (Inr change_id, s')"
    using apply_change_works [of hs "approval_for hs (proposal_of p)" "proposal_of p" s after p] assms po
    by auto
  have s': "ct_authority s' = after"
    by (rule apply_change_Inr [OF a]) (use assms(6) po in simp)
  have "verify_stored_proposal_is_current p s = Inr ()" using assms(4-6) by (simp add: verify_Inr)
  moreover have "retrieve_proposal i s = Inr p" using assms(1) by (simp add: retrieve_Inr)
  ultimately have "apply_approved_stored_proposal hs i s = (Inr (change_id, lv_revision after), s')"
    using a assms(2) s' by (simp add: apply_approved_stored_proposal_def apply_stored_proposal_def
        andThen_def require_def live_authority_def)
  then show thesis using a s' by (rule that)
qed

lemma preview_applies:
  assumes "preview_authority_change (live_authority s) c s = Inr after"
    and "map_of (mp_proposals (ct_proposals s)) (next_proposal_id s) = None"
  shows "\<exists>p s1 s2 change_id s3. propose_change c s = (Inr p, s1) \<and> cp_id p = next_proposal_id s
    \<and> live_authority s1 = live_authority s
    \<and> isl (fst (apply_approved_stored_proposal hs (cp_id p) s1))
    \<and> approve_stored_proposal (cp_id p) s1 = (Inr (), s2) \<and> live_authority s2 = live_authority s
    \<and> apply_approved_stored_proposal hs (cp_id p) s2 = (Inr (change_id, lv_revision after), s3)
    \<and> live_authority s3 = after \<and> lv_revision after = lv_revision (live_authority s) + 1
    \<and> isl (fst (apply_approved_stored_proposal hs (cp_id p) s3))"
proof -
  let ?i = "next_proposal_id s" and ?q = "new_proposal c Explicit 0 after s"
  have pv: "preview_authority_change (ct_authority s) c s = Inr after"
    using assms(1) by (simp add: live_authority_def)
  obtain s1 where p: "propose_change c s = (Inr (proposal_of ?q), s1)"
    and s1: "s1 = s\<lparr>ct_proposals := (ct_proposals s)\<lparr>mp_next_id := mp_next_id (ct_proposals s) + 1,
         mp_proposals := binsert ?i ?q (mp_proposals (ct_proposals s))\<rparr>,
       ct_clock_reads := ct_clock_reads s + 1\<rparr>"
    using propose_works [OF pv assms(2)] by (simp add: propose_change_def)
  have pv1: "preview_authority_change (ct_authority s) c s1 = Inr after"
    using pv preview_cong [of s1 s] by (simp add: s1)
  have q: "map_of (mp_proposals (ct_proposals s1)) ?i = Some ?q" "sp_status ?q = Pending" "sp_id ?q = ?i"
    "sp_contract_fingerprint ?q = fingerprint (ct_contract s1)"
    "sp_revision ?q = lv_revision (ct_authority s1)" "sp_change ?q = c" "ct_authority s1 = ct_authority s"
    by (simp_all add: s1 new_proposal_def)
  obtain s2 where a: "approve_stored_proposal ?i s1 = (Inr (), s2)"
    and s2: "s2 = s1\<lparr>ct_proposals := (ct_proposals s1)\<lparr>mp_proposals := binsert ?i (?q\<lparr>sp_status := Approved\<rparr>)
       (mp_proposals (ct_proposals s1))\<rparr>\<rparr>"
    using approve_works [OF q(1,2,4,5), of after] pv1 q(6,7) by simp
  let ?r = "?q\<lparr>sp_status := Approved\<rparr>"
  have "preview_authority_change (ct_authority s) c s2 = Inr after"
    using pv1 preview_cong [of s2 s1] by (simp add: s2)
  then obtain change_id s3 where ap: "apply_approved_stored_proposal hs ?i s2 = (Inr (change_id, lv_revision after), s3)"
    "apply_change hs (proposal_of ?r) (approval_for hs (proposal_of ?r)) s2 = (Inr change_id, s3)"
    "ct_authority s3 = after"
    using apply_approved_works [of s2 ?i ?r after hs] q by (auto simp: s2)
  have "\<exists>p3. map_of (mp_proposals (ct_proposals s3)) ?i = Some p3 \<and> sp_status p3 = Applied"
    by (rule apply_change_Inr [OF ap(2)]) (simp add: proposal_of_def q(3))
  then have "isl (fst (apply_approved_stored_proposal hs ?i s3))"
    by (auto simp: apply_approved_stored_proposal_def apply_stored_proposal_def andThen_def
        require_def retrieve_proposal_def store_retrieve_proposal_def)
  moreover have "isl (fst (apply_approved_stored_proposal hs ?i s1))"
    using q(1,2) by (simp add: apply_approved_stored_proposal_def apply_stored_proposal_def andThen_def
        require_def retrieve_proposal_def store_retrieve_proposal_def)
  moreover have "cp_id (proposal_of ?q) = ?i" by (simp add: proposal_of_def q(3))
  ultimately show ?thesis
    using p a ap preview_revision [OF pv]
    by (intro exI [of _ "proposal_of ?q"] exI [of _ s1] exI [of _ s2] exI [of _ change_id] exI [of _ s3])
      (simp add: live_authority_def s1 s2)
qed

text \<open>
  C23. A change that the live authority accepts goes through: proposing it stores a pending
  proposal under the next id and changes nothing; it cannot be applied before it is approved;
  approving it changes nothing either; applying it then makes exactly the previewed change, at
  the next revision; and it can be applied only once.
\<close>

theorem proposal_goes_through:
  assumes "preview_authority_change (live_authority s) c s = Inr after"
    and "map_of (mp_proposals (ct_proposals s)) (next_proposal_id s) = None"
  shows "\<exists>p s1 s2 change_id s3. propose_change c s = (Inr p, s1) \<and> cp_id p = next_proposal_id s
    \<and> live_authority s1 = live_authority s
    \<and> isl (fst (apply_approved_stored_proposal hs (cp_id p) s1))
    \<and> approve_stored_proposal (cp_id p) s1 = (Inr (), s2) \<and> live_authority s2 = live_authority s
    \<and> apply_approved_stored_proposal hs (cp_id p) s2 = (Inr (change_id, lv_revision after), s3)
    \<and> live_authority s3 = after \<and> lv_revision after = lv_revision (live_authority s) + 1
    \<and> isl (fst (apply_approved_stored_proposal hs (cp_id p) s3))"
  by (rule preview_applies [OF assms])

definition sample_hashing :: Hashing where
  "sample_hashing = \<lparr>hs_hash = (\<lambda>s. of_nat (length s)), hs_debug_policy = pol_id\<rparr>"

definition sample_control :: Control where
  "sample_control = \<lparr>ct_contract = sample_contract [''local''], ct_authority = live_authority_new,
     ct_proposals = proposal_store_new, ct_clock = (\<lambda>n. n), ct_clock_reads = 0\<rparr>"

theorem proposal_goes_through_witness:
  "\<exists>s3. get_route_protection Post ''/invoices'' s3 = Some ''invoice.create''
     \<and> lv_revision (live_authority s3) = 1
     \<and> (\<exists>p s1 s2 cid. propose_change (ProtectRoute Post ''/invoices'' ''invoice.create'') sample_control
            = (Inr p, s1)
          \<and> approve_stored_proposal (cp_id p) s1 = (Inr (), s2)
          \<and> apply_approved_stored_proposal sample_hashing (cp_id p) s2 = (Inr (cid, 1), s3))"
proof -
  obtain after where after: "preview_authority_change (live_authority sample_control)
      (ProtectRoute Post ''/invoices'' ''invoice.create'') sample_control = Inr after"
    "lv_revision after = 1"
    "map_of (lv_route_protection after) (Post, ''/invoices'') = Some \<lparr>pr_capability = Some ''invoice.create''\<rparr>"
    by (simp add: preview_authority_change_def changed_def Let_def live_authority_def sample_control_def
        live_authority_new_def next_revision_def)
  have "map_of (mp_proposals (ct_proposals sample_control)) (next_proposal_id sample_control) = None"
    by (simp add: sample_control_def proposal_store_new_def)
  from proposal_goes_through [OF after(1) this, of sample_hashing] after(2,3)
  show ?thesis by (auto simp: get_route_protection_def live_authority_def)
qed

theorem stored_proposal_applies_when_current_witness:
  "\<exists>(s :: Control) i s' change_id. apply_stored_proposal sample_hashing i
       (approval_for sample_hashing (proposal_of (new_proposal (SetProviderEnabled ''local'' False) Explicit 0
          live_authority_new sample_control))) s = (Inr (change_id, 1), s')
     \<and> map_option sp_status (map_of (mp_proposals (ct_proposals s')) i) = Some Applied"
proof -
  let ?c = "SetProviderEnabled ''local'' False"
  let ?q = "(new_proposal ?c Explicit 0 live_authority_new sample_control)\<lparr>sp_status := Approved\<rparr>"
  let ?s = "sample_control\<lparr>ct_proposals := proposal_store_new\<lparr>mp_proposals := [(sp_id ?q, ?q)]\<rparr>\<rparr>"
  obtain after where after: "preview_authority_change (ct_authority ?s) ?c ?s = Inr after"
    "lv_revision after = 1"
    by (simp add: preview_authority_change_def changed_def Let_def sample_control_def
        live_authority_new_def next_revision_def)
  obtain cid s' where ap: "apply_approved_stored_proposal sample_hashing (sp_id ?q) ?s
      = (Inr (cid, lv_revision after), s')"
  proof (rule apply_approved_works [of ?s "sp_id ?q" ?q after sample_hashing])
    show "sp_contract_fingerprint ?q = fingerprint (ct_contract ?s)"
      "sp_revision ?q = lv_revision (ct_authority ?s)"
      by (simp_all add: new_proposal_def)
    show "preview_authority_change (ct_authority ?s) (sp_change ?q) ?s = Inr after"
      using after(1) by (simp add: new_proposal_def)
  qed (simp_all)
  then have st: "apply_stored_proposal sample_hashing (sp_id ?q)
      (approval_for sample_hashing (proposal_of ?q)) ?s = (Inr (cid, 1), s')"
    using after(2) by (simp add: apply_approved_stored_proposal_def andThen_def retrieve_proposal_def
        store_retrieve_proposal_def)
  have "proposals_keyed ?s" by (simp add: proposals_keyed_def)
  from stored_proposal_applies_when_current [OF this st]
  have "map_option sp_status (map_of (mp_proposals (ct_proposals s')) (sp_id ?q)) = Some Applied"
    by blast
  moreover have "proposal_of ?q = proposal_of (new_proposal ?c Explicit 0 live_authority_new sample_control)"
    by (simp add: proposal_of_def)
  ultimately show ?thesis
    using st by (intro exI [of _ ?s] exI [of _ "sp_id ?q"] exI [of _ s'] exI [of _ cid]) simp
qed

subsection \<open>Steps\<close>

inductive control_step :: "Hashing \<Rightarrow> 'z Control_scheme \<Rightarrow> 'z Control_scheme \<Rightarrow> bool" for hs where
  step_propose: "control_step hs s (snd (propose_change_with_metadata c source disc s))"
| step_ensure: "control_step hs s (snd (ensure_proposal c source disc s))"
| step_approve: "control_step hs s (snd (approve_stored_proposal i s))"
| step_reject: "control_step hs s (snd (reject_stored_proposal i reason s))"
| step_apply: "control_step hs s (snd (apply_stored_proposal hs i a s))"
| step_apply_approved: "control_step hs s (snd (apply_approved_stored_proposal hs i s))"
| step_batch: "control_step hs s (snd (apply_approved_stored_proposals is s))"

definition settled :: "ProposalStatus \<Rightarrow> bool" where
  "settled st \<longleftrightarrow> st = Applied \<or> st = Rejected"

text \<open>A proposal that is applied or rejected keeps its status, and every proposal its change.\<close>

definition moves :: "'z Control_scheme \<Rightarrow> 'z Control_scheme \<Rightarrow> bool" where
  "moves s s' \<longleftrightarrow> (\<forall>i p. map_of (mp_proposals (ct_proposals s)) i = Some p \<longrightarrow>
     (\<exists>p'. map_of (mp_proposals (ct_proposals s')) i = Some p' \<and> sp_change p' = sp_change p
        \<and> sp_revision p' = sp_revision p \<and> (settled (sp_status p) \<longrightarrow> sp_status p' = sp_status p)))"

text \<open>A record of the history holds one change: the state after it is what the change makes of the
  state before it, one revision on.\<close>

definition good_record :: "ChangeRecord \<Rightarrow> bool" where
  "good_record r \<longleftrightarrow> lv_revision (ch_resulting_state r) = lv_revision (ch_previous_state r) + 1
     \<and> (reverted_change (ch_change r) = None \<longrightarrow>
          changed (ch_previous_state r) (ch_change r) = Inr (ch_resulting_state r))"

definition history_sound :: "'z Control_scheme \<Rightarrow> bool" where
  "history_sound s \<longleftrightarrow> (\<forall>k r. map_of (mp_changes (ct_proposals s)) k = Some r \<longrightarrow>
     ch_change_id r = k \<and> good_record r)"

lemma moves_refl: "moves s s"
  by (simp add: moves_def)

lemma moves_trans: "moves s t \<Longrightarrow> moves t u \<Longrightarrow> moves s u"
  unfolding moves_def by metis

lemma moves_store:
  assumes "mp_proposals (ct_proposals s') = mp_proposals (ct_proposals s)"
  shows "moves s s'"
  using assms by (simp add: moves_def)

lemma moves_binsert:
  assumes "mp_proposals (ct_proposals s') = binsert i p' (mp_proposals (ct_proposals s))"
    and "\<And>p. map_of (mp_proposals (ct_proposals s)) i = Some p \<Longrightarrow> sp_change p' = sp_change p
      \<and> sp_revision p' = sp_revision p \<and> (settled (sp_status p) \<longrightarrow> sp_status p' = sp_status p)"
  shows "moves s s'"
  using assms by (simp add: moves_def)

definition sound_move :: "'z Control_scheme \<Rightarrow> 'z Control_scheme \<Rightarrow> bool" where
  "sound_move s s' \<longleftrightarrow> (proposals_keyed s \<and> history_sound s \<longrightarrow>
     proposals_keyed s' \<and> history_sound s' \<and> moves s s')"

lemma sound_move_refl [simp]: "sound_move s s"
  by (simp add: sound_move_def moves_refl)

lemma sound_move_trans: "sound_move s t \<Longrightarrow> sound_move t u \<Longrightarrow> sound_move s u"
  unfolding sound_move_def using moves_trans by blast

lemma sound_move_frame:
  assumes "ct_proposals s' = ct_proposals s"
  shows "sound_move s s'"
  using assms by (simp add: sound_move_def proposals_keyed_def history_sound_def moves_def)

lemma sound_move_allocated:
  assumes "mp_proposals (ct_proposals s') = mp_proposals (ct_proposals s)"
    "mp_changes (ct_proposals s') = mp_changes (ct_proposals s)"
  shows "sound_move s s'"
  using assms by (simp add: sound_move_def proposals_keyed_def history_sound_def moves_def)

lemma sound_move_update:
  assumes "ct_proposals s' = (ct_proposals s)\<lparr>mp_proposals := binsert i q (mp_proposals (ct_proposals s))\<rparr>"
    and "sp_id q = i"
    and "\<And>p. map_of (mp_proposals (ct_proposals s)) i = Some p \<Longrightarrow> sp_change q = sp_change p
      \<and> sp_revision q = sp_revision p \<and> (settled (sp_status p) \<longrightarrow> sp_status q = sp_status p)"
  shows "sound_move s s'"
proof -
  have "moves s s'" by (rule moves_binsert [of s' i q]) (use assms in simp_all)
  then show ?thesis using assms(1,2)
    by (auto simp: sound_move_def proposals_keyed_def history_sound_def)
qed

lemma sound_move_propose: "sound_move s (snd (propose_change_with_metadata c source disc s))"
proof (cases "preview_authority_change (ct_authority s) c s")
  case (Inl e)
  then show ?thesis by (simp add: propose_change_with_metadata_def andThen_def)
next
  case (Inr after)
  show ?thesis
  proof (cases "map_of (mp_proposals (ct_proposals s)) (next_proposal_id s)")
    case None
    show ?thesis
      unfolding propose_works [OF Inr None] snd_conv
    proof (rule sound_move_trans [where t = "s\<lparr>ct_proposals := (ct_proposals s)
          \<lparr>mp_next_id := mp_next_id (ct_proposals s) + 1\<rparr>\<rparr>"])
      show "sound_move s (s\<lparr>ct_proposals := (ct_proposals s)\<lparr>mp_next_id := mp_next_id (ct_proposals s) + 1\<rparr>\<rparr>)"
        by (rule sound_move_allocated) simp_all
    qed (rule sound_move_update [where i = "next_proposal_id s" and q = "new_proposal c source disc after s"], use None in \<open>simp_all add: new_proposal_def\<close>)
  next
    case (Some p)
    then have "mp_proposals (ct_proposals (snd (propose_change_with_metadata c source disc s)))
          = mp_proposals (ct_proposals s)"
      "mp_changes (ct_proposals (snd (propose_change_with_metadata c source disc s)))
          = mp_changes (ct_proposals s)"
      by (simp_all add: propose_change_with_metadata_def andThen_def Inr on_proposals_def zoom_def
          allocate_proposal_id_def system_now_def store_proposal_def Let_def next_proposal_id_def
          bcontains_iff)
    then show ?thesis by (rule sound_move_allocated)
  qed
qed

lemma sound_move_ensure: "sound_move s (snd (ensure_proposal c source disc s))"
proof (cases "find_proposal c (fingerprint (ct_contract s)) disc (ct_proposals s)")
  case None
  have "sound_move s (snd (andThen (propose_change_with_metadata c source disc)
      (\<lambda>p. reading (retrieve_proposal (cp_id p))) s))"
  proof (rule snd_andThen [where Q = "sound_move s"], goal_cases)
    case (1 x u)
    then show ?case using sound_move_propose [of s c source disc] by simp
  next
    case (2 e u)
    then show ?case using sound_move_propose [of s c source disc] by simp
  qed
  then show ?thesis using None by (simp add: ensure_proposal_def andThen_def)
qed (simp add: ensure_proposal_def andThen_def)

lemma sound_move_record:
  assumes "mp_proposals (ct_proposals s') = mp_proposals (ct_proposals s)"
    and "mp_changes (ct_proposals s') = binsert (ch_change_id r) r (mp_changes (ct_proposals s))"
    and "good_record r"
  shows "sound_move s s'"
  using assms by (simp add: sound_move_def proposals_keyed_def history_sound_def moves_def)

lemma sound_move_mark:
  assumes "map_of (mp_proposals (ct_proposals s)) i = Some p"
    and "settled (sp_status p) \<Longrightarrow> sp_status (f p) = sp_status p"
    and "\<And>p. sp_id (f p) = sp_id p \<and> sp_change (f p) = sp_change p \<and> sp_revision (f p) = sp_revision p"
  shows "sound_move s (snd (on_proposals (update_proposal i f) s))"
proof -
  have s': "snd (on_proposals (update_proposal i f) s) = s\<lparr>ct_proposals := (ct_proposals s)
      \<lparr>mp_proposals := binsert i (f p) (mp_proposals (ct_proposals s))\<rparr>\<rparr>"
    by (simp add: on_proposals_def zoom_def update_proposal_def assms(1))
  show ?thesis
  proof (cases "sp_id p = i")
    case True
    show ?thesis
      unfolding s' by (rule sound_move_update [where i = i and q = "f p"]) (use assms True in simp_all)
  next
    case False
    then have "\<not> proposals_keyed s" using assms(1) by (auto simp: proposals_keyed_def)
    then show ?thesis by (simp add: sound_move_def)
  qed
qed

lemma sound_move_approve: "sound_move s (snd (approve_stored_proposal i s))"
proof (cases "retrieve_proposal i s")
  case (Inr p)
  then have "map_of (mp_proposals (ct_proposals s)) i = Some p" by (simp add: retrieve_Inr)
  then have "sound_move s (snd (on_proposals (mark_approved i) s))" if "sp_status p = Pending"
    unfolding mark_approved_def by (rule sound_move_mark) (use that in \<open>simp_all add: settled_def\<close>)
  then show ?thesis
    by (cases "verify_stored_proposal_is_current p s")
      (auto simp: approve_stored_proposal_def andThen_def Inr Let_def split: ProposalStatus.split)
qed (simp add: approve_stored_proposal_def andThen_def)

lemma sound_move_reject: "sound_move s (snd (reject_stored_proposal i reason s))"
proof (cases "retrieve_proposal i s")
  case (Inr p)
  then have "map_of (mp_proposals (ct_proposals s)) i = Some p" by (simp add: retrieve_Inr)
  then have "sound_move s (snd (on_proposals (mark_rejected i reason) s))" if "\<not> settled (sp_status p)"
    unfolding mark_rejected_def by (rule sound_move_mark) (use that in simp_all)
  then show ?thesis
    by (auto simp: reject_stored_proposal_def andThen_def Inr settled_def split: ProposalStatus.split)
qed (simp add: reject_stored_proposal_def andThen_def)

lemma history_of_change:
  assumes "preview_authority_change current c s = Inr after"
  shows "lv_revision after = lv_revision current + 1
    \<and> (reverted_change c = None \<longrightarrow> changed current c = Inr after)"
  using preview_revision [OF assms] assms
  by (auto simp: preview_authority_change_def reverted_change_def split: AuthorityChange.splits)

lemma apply_change_Inl:
  assumes "apply_change hs p a s = (Inl e, s')" "map_of (mp_proposals (ct_proposals s)) (cp_id p) = Some sp"
  shows "s' = s"
proof (cases "approval_verify hs a p \<and> cp_revision p = lv_revision (ct_authority s)")
  case False
  then show ?thesis using assms(1)
    by (cases "approval_verify hs a p") (simp_all add: apply_change_def andThen_def require_def)
next
  case True
  show ?thesis
  proof (cases "preview_authority_change (ct_authority s) (cp_change p) s")
    case (Inl x)
    then show ?thesis using True assms(1) by (simp add: apply_change_def andThen_def require_def)
  next
    case (Inr after)
    then show ?thesis using apply_change_works [of hs a p s after sp] True assms by auto
  qed
qed

lemma sound_move_applied:
  assumes "apply_change hs p a s = (Inr change_id, s')"
    and "map_of (mp_proposals (ct_proposals s)) (cp_id p) = Some sp" "\<not> settled (sp_status sp)"
  shows "sound_move s s'"
proof (rule apply_change_Inr [OF assms(1)], goal_cases)
  case (1 after sp' at1 at2 n)
  let ?q = "sp\<lparr>sp_status := Applied, sp_applied_at := Some at1, sp_change_id := Some change_id\<rparr>"
  let ?s1 = "snd (on_proposals (mark_applied (cp_id p) change_id at1) s)"
  let ?r = "\<lparr>ch_change_id = change_id, ch_proposal_id = cp_id p,
            ch_change = cp_change p, ch_previous_state = ct_authority s, ch_resulting_state = after,
            ch_applied_at = at2, ch_applied_by = None,
            ch_reverted_change_id = reverted_change (cp_change p)\<rparr>"
  have sp: "sp' = sp" using 1(4) assms(2) by simp
  have "sound_move s ?s1"
    unfolding mark_applied_def by (rule sound_move_mark [OF assms(2)]) (use assms(3) in simp_all)
  moreover have "sound_move ?s1 s'"
  proof (rule sound_move_record [where r = ?r])
    show "good_record ?r" using history_of_change [OF 1(3)] by (simp add: good_record_def)
  qed (simp_all add: 1(5) sp on_proposals_def zoom_def mark_applied_def update_proposal_def assms(2))
  ultimately show ?case by (rule sound_move_trans)
qed

lemma sound_move_apply: "sound_move s (snd (apply_stored_proposal hs i a s))"
proof (cases "apply_stored_proposal hs i a s")
  case (Pair r s')
  show ?thesis
  proof (cases r)
    case (Inr x)
    obtain change_id revision where x: "x = (change_id, revision)" by (cases x)
    show ?thesis
    proof (rule apply_stored_Inr [OF Pair [unfolded Inr x]], goal_cases)
      case (1 p)
      show ?case
      proof (cases "sp_id p = i")
        case True
        have "sound_move s s'"
          by (rule sound_move_applied [OF 1(5), of p])
            (use 1(1,2) True in \<open>simp_all add: proposal_of_def settled_def\<close>)
        then show ?thesis by (simp add: Pair)
      next
        case False
        then have "\<not> proposals_keyed s" using 1(1) by (auto simp: proposals_keyed_def)
        then show ?thesis by (simp add: sound_move_def)
      qed
    qed
  next
    case (Inl e)
    show ?thesis
    proof (cases "proposals_keyed s")
      case True
      have "s' = s"
      proof (cases "retrieve_proposal i s")
        case (Inr p)
        then have p: "map_of (mp_proposals (ct_proposals s)) (cp_id (proposal_of p)) = Some p"
          using True by (auto simp: retrieve_Inr proposals_keyed_def proposal_of_def)
        show ?thesis
          using Pair Inr \<open>r = Inl e\<close> apply_change_Inl [OF _ p]
          by (auto simp: apply_stored_proposal_def andThen_def require_def
              split: if_splits sum.splits prod.splits)
      qed (use Pair Inl in \<open>simp add: apply_stored_proposal_def andThen_def\<close>)
      then show ?thesis by (simp add: Pair)
    qed (simp add: sound_move_def)
  qed
qed

lemma sound_move_apply_approved: "sound_move s (snd (apply_approved_stored_proposal hs i s))"
  unfolding apply_approved_stored_proposal_def
  by (rule snd_andThen_reading [where Q = "sound_move s"]) (simp_all add: sound_move_apply)

text \<open>A batch.\<close>

lemma andThen_now: "andThen system_now k s = k (ct_clock s (ct_clock_reads s)) (snd (system_now s))"
  by (simp add: andThen_def system_now_def)

lemma plan_batch_state:
  "snd (plan_batch fp base n ps current s) = s\<lparr>ct_clock_reads := ct_clock_reads (snd (plan_batch fp base n ps current s))\<rparr>"
    (is "?same s (snd (plan_batch fp base n ps current s))")
proof (induction ps arbitrary: n current s)
  case (Cons p ps)
  let ?Q = "\<lambda>t. t = s\<lparr>ct_clock_reads := ct_clock_reads t\<rparr>"
  have now: "?Q (snd (system_now (snd (system_now s))))" by (simp add: system_now_def)
  have tail: "?Q (snd (andThen (plan_batch fp base (n + 1) ps after) (\<lambda>(final, rs). ok (final, f rs))
      (snd (system_now (snd (system_now s))))))" for after f
  proof (rule snd_andThen [where Q = ?Q], goal_cases)
    case (1 x u)
    then have "u = snd (plan_batch fp base (n + 1) ps after (snd (system_now (snd (system_now s)))))" by simp
    then show ?case using Cons.IH [of "n + 1" after "snd (system_now (snd (system_now s)))"]
      by (cases x) (simp add: system_now_def)
  next
    case (2 e u)
    then have "u = snd (plan_batch fp base (n + 1) ps after (snd (system_now (snd (system_now s)))))" by simp
    then show ?case using Cons.IH [of "n + 1" after "snd (system_now (snd (system_now s)))"]
      by (simp add: system_now_def)
  qed
  show ?case
    unfolding plan_batch.simps
  proof (rule snd_andThen_require [where Q = ?Q], rule snd_andThen_require [where Q = ?Q],
      rule snd_andThen_reading [where Q = ?Q], goal_cases)
    case (1 after)
    show ?case using tail [of after] by (simp only: andThen_now Let_def)
  qed simp_all
qed simp

lemma plan_batch_records:
  assumes "plan_batch fp base n ps current s = (Inr (final, rs), s')"
  shows "map ch_proposal_id rs = map sp_id ps \<and> (\<forall>r \<in> set rs. good_record r)"
  using assms
proof (induction ps arbitrary: n current s final rs)
  case (Cons p ps)
  from Cons.prems obtain after t at m u rs' where "preview_authority_change current (sp_change p) s = Inr after"
    and "plan_batch fp base (n + 1) ps after u = (Inr (final, rs'), s')"
    and "rs = \<lparr>ch_change_id = m, ch_proposal_id = sp_id p, ch_change = sp_change p, ch_previous_state = current,
              ch_resulting_state = after, ch_applied_at = at, ch_applied_by = None,
              ch_reverted_change_id = reverted_change (sp_change p)\<rparr> # rs'"
    unfolding plan_batch.simps Let_def
    by (elim eff_elims) (auto split: prod.splits)
  then show ?case using Cons.IH [of "n + 1" after u final rs'] history_of_change [of current "sp_change p" s after]
    by (simp add: good_record_def)
qed simp

lemma store_record_run:
  "on_proposals (store_change_record r) s = (Inr (), s\<lparr>ct_proposals := (ct_proposals s)
     \<lparr>mp_changes := binsert (ch_change_id r) r (mp_changes (ct_proposals s))\<rparr>\<rparr>)"
  by (simp add: on_proposals_def zoom_def store_change_record_def)

lemma mark_applied_run:
  assumes "map_of (mp_proposals (ct_proposals s)) i = Some p"
  shows "on_proposals (mark_applied i cid at) s = (Inr (), s\<lparr>ct_proposals := (ct_proposals s)
     \<lparr>mp_proposals := binsert i (p\<lparr>sp_status := Applied, sp_applied_at := Some at, sp_change_id := Some cid\<rparr>)
        (mp_proposals (ct_proposals s))\<rparr>\<rparr>)"
  using assms by (simp add: on_proposals_def zoom_def mark_applied_def update_proposal_def)

lemma andThen_run: "m s = (Inr x, t) \<Longrightarrow> andThen m k s = k x t"
  by (simp add: andThen_def)

lemma sound_move_record_batch:
  assumes "\<forall>r \<in> set rs. good_record r"
    and "\<forall>r \<in> set rs. \<exists>p. map_of (mp_proposals (ct_proposals s)) (ch_proposal_id r) = Some p
      \<and> sp_status p \<in> {Approved, Applied}"
  shows "sound_move s (snd (record_batch rs s))"
  using assms
proof (induction rs arbitrary: s)
  case (Cons r rs)
  let ?i = "ch_proposal_id r" and ?at = "ct_clock s (ct_clock_reads s)"
  obtain p where p: "map_of (mp_proposals (ct_proposals s)) ?i = Some p" "sp_status p \<in> {Approved, Applied}"
    using Cons.prems(2) by auto
  define t where "t = snd (system_now s)"
  define u where "u = snd (on_proposals (mark_applied ?i (ch_change_id r) ?at) t)"
  define v where "v = snd (on_proposals (store_change_record r) u)"
  have t: "ct_proposals t = ct_proposals s" by (simp add: t_def system_now_def)
  have pt: "map_of (mp_proposals (ct_proposals t)) ?i = Some p" using p by (simp add: t)
  have u: "on_proposals (mark_applied ?i (ch_change_id r) ?at) t = (Inr (), u)"
    "mp_proposals (ct_proposals u) = binsert ?i (p\<lparr>sp_status := Applied, sp_applied_at := Some ?at,
      sp_change_id := Some (ch_change_id r)\<rparr>) (mp_proposals (ct_proposals s))"
    by (simp_all add: u_def mark_applied_run [OF pt] t)
  have v: "on_proposals (store_change_record r) u = (Inr (), v)"
    "mp_proposals (ct_proposals v) = mp_proposals (ct_proposals u)"
    "mp_changes (ct_proposals v) = binsert (ch_change_id r) r (mp_changes (ct_proposals u))"
    by (simp_all add: v_def store_record_run)
  have "sound_move s t" by (rule sound_move_frame) (rule t)
  moreover have "sound_move t u"
    unfolding u_def mark_applied_def
    by (rule sound_move_mark [OF pt]) (use p in \<open>auto simp: settled_def\<close>)
  moreover have "sound_move u v"
    by (rule sound_move_record [where r = r]) (use v Cons.prems(1) in auto)
  moreover have "sound_move v (snd (record_batch rs v))"
  proof (rule Cons.IH)
    show "\<forall>q \<in> set rs. \<exists>p. map_of (mp_proposals (ct_proposals v)) (ch_proposal_id q) = Some p
        \<and> sp_status p \<in> {Approved, Applied}"
      using Cons.prems(2) by (auto simp: v u)
  qed (use Cons.prems(1) in simp)
  ultimately have all: "sound_move s (snd (record_batch rs v))" by (blast intro: sound_move_trans)
  have "andThen (on_proposals (mark_applied ?i (ch_change_id r) ?at)) k t = k () u"
    "andThen (on_proposals (store_change_record r)) k u = k () v"
    for k :: "unit \<Rightarrow> ('a Control_scheme, string, (string \<times> string \<times> u64) list) eff"
    by (rule andThen_run, rule u, rule andThen_run, rule v)
  then have "record_batch (r # rs) s = andThen (record_batch rs) (\<lambda>outcomes.
      ok ((?i, ch_change_id r, lv_revision (ch_resulting_state r)) # outcomes)) v"
    unfolding record_batch.simps
    by (simp add: retrieve_Inr [THEN iffD2, OF p(1)] andThen_now
        t_def [symmetric] andThen_def [of "reading f" for f])
  moreover have "sound_move s (snd (andThen (record_batch rs) (\<lambda>outcomes.
      ok ((?i, ch_change_id r, lv_revision (ch_resulting_state r)) # outcomes)) v))"
    by (rule snd_andThen [where Q = "sound_move s"]) (use all in simp_all)
  ultimately show ?case by simp
qed simp

lemma retrieve_all_Inr:
  "retrieve_all is s = Inr ps \<longleftrightarrow>
     list_all2 (\<lambda>i p. map_of (mp_proposals (ct_proposals s)) i = Some p) is ps"
  by (induction "is" arbitrary: ps) (auto simp: rbind_Inr retrieve_Inr list_all2_Cons1)

lemma sound_move_batch: "sound_move s (snd (apply_approved_stored_proposals is s))"
proof (cases "is = [] \<or> \<not> proposals_keyed s")
  case True
  then show ?thesis by (auto simp: apply_approved_stored_proposals_def sound_move_def moves_refl)
next
  case False
  have "sound_move s (snd (andThen (plan_batch fp base 0 ps current) (\<lambda>(final, rs).
      andThen (\<lambda>s. (Inr (), s\<lparr>ct_authority := final\<rparr>)) (\<lambda>_. record_batch rs)) s))"
    if "retrieve_all is s = Inr ps" "\<forall>p \<in> set ps. sp_status p = Approved" for ps fp base current
  proof (rule snd_andThen [where Q = "sound_move s"], goal_cases)
    case (1 x u)
    obtain final rs where x: "x = (final, rs)" by (cases x)
    have u: "ct_proposals u = ct_proposals s"
      using plan_batch_state [of fp base 0 ps current s] 1 by (metis (no_types, lifting)
        Control.ext_inject Control.surjective Control.update_convs(5) snd_conv)
    have rs: "map ch_proposal_id rs = map sp_id ps" "\<forall>r \<in> set rs. good_record r"
      using plan_batch_records 1 x by blast+
    have st: "\<exists>p. map_of (mp_proposals (ct_proposals s)) k = Some p \<and> sp_status p \<in> {Approved, Applied}"
      if "k \<in> set (map sp_id ps)" for k
      using that \<open>retrieve_all is s = Inr ps\<close> \<open>\<forall>p \<in> set ps. sp_status p = Approved\<close> False
      by (fastforce simp: retrieve_all_Inr list_all2_conv_all_nth in_set_conv_nth proposals_keyed_def)
    have "sound_move u (u\<lparr>ct_authority := final\<rparr>)" "sound_move s u"
      by (rule sound_move_frame, simp add: u)+
    moreover have "sound_move (u\<lparr>ct_authority := final\<rparr>) (snd (record_batch rs (u\<lparr>ct_authority := final\<rparr>)))"
    proof (rule sound_move_record_batch [OF rs(2)], rule ballI)
      fix r assume "r \<in> set rs"
      then have "ch_proposal_id r \<in> set (map sp_id ps)" unfolding rs(1) [symmetric] by simp
      then show "\<exists>p. map_of (mp_proposals (ct_proposals (u\<lparr>ct_authority := final\<rparr>))) (ch_proposal_id r) = Some p
          \<and> sp_status p \<in> {Approved, Applied}"
        using st by (simp add: u)
    qed
    ultimately show ?case by (simp add: x andThen_run) (blast intro: sound_move_trans)
  next
    case (2 e u)
    then have "ct_proposals u = ct_proposals s"
      using plan_batch_state [of fp base 0 ps current s] by (metis (no_types, lifting)
        Control.ext_inject Control.surjective Control.update_convs(5) snd_conv)
    then show ?case by (rule sound_move_frame)
  qed
  then have "sound_move s (snd (andThen (plan_batch (fingerprint (ct_contract s)) (lv_revision (ct_authority s)) 0 ps
        (ct_authority s)) (\<lambda>(final, rs).
      andThen (\<lambda>s. (Inr (), s\<lparr>ct_authority := final\<rparr>)) (\<lambda>_. record_batch rs)) s))"
    if "retrieve_all is s = Inr ps" "for_each (\<lambda>p. check (sp_status p = Approved)
          (''proposal '' @ in_backticks (sp_id p) @ '' is not approved'')) ps = Inr u" for ps u
    using that by (simp add: for_each_Inr)
  then show ?thesis
    using False unfolding apply_approved_stored_proposals_def
    by (simp, intro snd_andThen_reading [where Q = "sound_move s"]) (auto simp: sound_move_refl)
qed

text \<open>
  Whatever is proposed, approved, rejected or applied, one proposal or a batch at a time, a
  proposal once applied or rejected keeps that status and every proposal keeps its change, no
  proposal is lost, and every record of the history remains sound: the state after it is what
  its change makes of the state before it, at the next revision.
\<close>

theorem settled_proposals_stay:
  assumes "(control_step hs)\<^sup>*\<^sup>* s s'" "proposals_keyed s" "history_sound s"
  shows "proposals_keyed s' \<and> history_sound s' \<and> moves s s'"
proof -
  have "sound_move s s'"
    using assms(1)
  proof (induction rule: rtranclp_induct)
    case (step t u)
    from step(2) have "sound_move t u"
      by cases (simp_all add: sound_move_propose sound_move_ensure sound_move_approve sound_move_reject
          sound_move_apply sound_move_apply_approved sound_move_batch)
    with step.IH show ?case by (rule sound_move_trans)
  qed simp
  then show ?thesis using assms(2,3) by (simp add: sound_move_def)
qed

definition sample_stored :: "ProposalStatus \<Rightarrow> Control" where
  "sample_stored st = sample_control\<lparr>ct_proposals := proposal_store_new\<lparr>mp_proposals :=
     [(''proposal-9'', (new_proposal (SetProviderEnabled ''local'' False) Explicit 0 live_authority_new
         sample_control)\<lparr>sp_id := ''proposal-9'', sp_status := st\<rparr>)]\<rparr>\<rparr>"

lemma movesD:
  "moves s s' \<Longrightarrow> map_of (mp_proposals (ct_proposals s)) i = Some p \<Longrightarrow>
     \<exists>p'. map_of (mp_proposals (ct_proposals s')) i = Some p' \<and> sp_change p' = sp_change p
       \<and> (settled (sp_status p) \<longrightarrow> sp_status p' = sp_status p)"
  unfolding moves_def by blast

theorem settled_proposals_stay_witness:
  "\<exists>p. map_of (mp_proposals (ct_proposals (snd (approve_stored_proposal ''proposal-9'' (sample_stored Rejected)))))
       ''proposal-9'' = Some p \<and> sp_status p = Rejected
     \<and> sp_change p = SetProviderEnabled ''local'' False"
proof -
  have "(control_step sample_hashing)\<^sup>*\<^sup>* (sample_stored Rejected)
      (snd (approve_stored_proposal ''proposal-9'' (sample_stored Rejected)))"
    by (rule r_into_rtranclp) (rule step_approve)
  moreover have "proposals_keyed (sample_stored Rejected)" "history_sound (sample_stored Rejected)"
    by (simp_all add: sample_stored_def proposals_keyed_def history_sound_def proposal_store_new_def)
  ultimately have "moves (sample_stored Rejected) (snd (approve_stored_proposal ''proposal-9'' (sample_stored Rejected)))"
    using settled_proposals_stay by blast
  moreover obtain p where "map_of (mp_proposals (ct_proposals (sample_stored Rejected))) ''proposal-9'' = Some p"
    "sp_status p = Rejected" "sp_change p = SetProviderEnabled ''local'' False"
    by (simp add: sample_stored_def new_proposal_def)
  ultimately show ?thesis by (auto simp: settled_def dest: movesD)
qed

subsection \<open>Reverting\<close>

text \<open>
  A change that was applied can be reverted at once, and reverting it gives back the live
  authority from before it in everything but the revision, which keeps growing.
\<close>

theorem revert_restores:
  assumes "apply_change hs p a s = (Inr change_id, s1)"
    and "map_of (mp_proposals (ct_proposals s1)) (next_proposal_id s1) = None"
  shows "\<exists>q s2 s3 cid s4. propose_change (Revert change_id) s1 = (Inr q, s2)
    \<and> approve_stored_proposal (cp_id q) s2 = (Inr (), s3)
    \<and> apply_approved_stored_proposal hs (cp_id q) s3 = (Inr (cid, lv_revision (live_authority s1) + 1), s4)
    \<and> live_authority s4 = (live_authority s)\<lparr>lv_revision := lv_revision (live_authority s) + 2\<rparr>"
proof (rule apply_change_Inr [OF assms(1)], goal_cases)
  case (1 after sp at1 at2 n)
  have auth: "ct_authority s1 = after" by (simp add: 1(5))
  have rv: "lv_revision after = lv_revision (ct_authority s) + 1" using preview_revision [OF 1(3)] .
  have "preview_authority_change (live_authority s1) (Revert change_id) s1
      = Inr ((ct_authority s)\<lparr>lv_revision := lv_revision (ct_authority s) + 2\<rparr>)" (is "_ = Inr ?back")
    by (simp add: preview_authority_change_def retrieve_change_record_def apply_revert_change_def 1(5)
        live_authority_def next_revision_def rv)
  from preview_applies [OF this assms(2), of hs] show ?case
    by (auto simp: live_authority_def auth rv)
qed

definition sample_disable :: ChangeProposal where
  "sample_disable = \<lparr>cp_id = ''proposal-9'', cp_change = SetProviderEnabled ''local'' False,
     cp_preview = \<lparr>pre_before = preview_state_from live_authority_new,
       pre_after = preview_state_from live_authority_new\<rparr>, cp_revision = 0\<rparr>"

lemma sample_disable_applies:
  obtains cid s' p' where
    "apply_change hs sample_disable (approval_for hs sample_disable) (sample_stored st) = (Inr cid, s')"
    "ct_authority s' = live_authority_new\<lparr>lv_revision := 1, lv_provider_state := [(''local'', \<lparr>pv_enabled = False\<rparr>)]\<rparr>"
    "mp_proposals (ct_proposals s') = [(''proposal-9'', p')]" "sp_status p' = Applied"
    "mp_next_id (ct_proposals s') = 1"
proof -
  let ?after = "live_authority_new\<lparr>lv_revision := 1, lv_provider_state := [(''local'', \<lparr>pv_enabled = False\<rparr>)]\<rparr>"
  have p: "preview_authority_change (ct_authority (sample_stored st)) (cp_change sample_disable) (sample_stored st)
      = Inr ?after"
    by (simp add: preview_authority_change_def changed_def Let_def sample_disable_def sample_stored_def
        sample_control_def live_authority_new_def next_revision_def)
  have "cp_revision sample_disable = lv_revision (ct_authority (sample_stored st))"
    "\<exists>sp. map_of (mp_proposals (ct_proposals (sample_stored st))) (cp_id sample_disable) = Some sp"
    by (simp_all add: sample_disable_def sample_stored_def sample_control_def live_authority_new_def)
  then obtain cid s' where a: "apply_change hs sample_disable (approval_for hs sample_disable) (sample_stored st)
      = (Inr cid, s')"
    using apply_change_works [OF _ _ p] by (metis approval_for_verifies)
  show thesis
  proof (rule apply_change_Inr [OF a], goal_cases)
    case (1 after sp at1 at2 n)
    then have "after = ?after" using p by simp
    then show ?case
      using 1(5) by (intro that [OF a, of "sp\<lparr>sp_status := Applied, sp_applied_at := Some at1, sp_change_id := Some cid\<rparr>"])
        (simp_all add: sample_disable_def sample_stored_def proposal_store_new_def)
  qed
qed

theorem revert_restores_witness:
  "\<exists>c1 s1 q s2 s3 c2 s4. apply_change sample_hashing sample_disable
         (approval_for sample_hashing sample_disable) (sample_stored Approved) = (Inr c1, s1)
     \<and> \<not> is_provider_enabled ''local'' s1 \<and> propose_change (Revert c1) s1 = (Inr q, s2)
     \<and> approve_stored_proposal (cp_id q) s2 = (Inr (), s3)
     \<and> apply_approved_stored_proposal sample_hashing (cp_id q) s3 = (Inr (c2, 2), s4)
     \<and> is_provider_enabled ''local'' s4"
proof (rule sample_disable_applies [of sample_hashing Approved], goal_cases)
  case (1 cid s' p')
  have "map_of (mp_proposals (ct_proposals s')) (next_proposal_id s') = None"
    using 1(3,5) by (simp add: next_proposal_id_def show_nat.simps [of "Suc 0"] char_of_def)
  from revert_restores [OF 1(1) this] obtain q s2 s3 c2 s4 where r:
    "propose_change (Revert cid) s' = (Inr q, s2)" "approve_stored_proposal (cp_id q) s2 = (Inr (), s3)"
    "apply_approved_stored_proposal sample_hashing (cp_id q) s3 = (Inr (c2, lv_revision (live_authority s') + 1), s4)"
    "live_authority s4 = (live_authority (sample_stored Approved))
        \<lparr>lv_revision := lv_revision (live_authority (sample_stored Approved)) + 2\<rparr>"
    by blast
  have "\<not> is_provider_enabled ''local'' s'" using 1(2) by (simp add: is_provider_enabled_def)
  moreover have "is_provider_enabled ''local'' s4" "lv_revision (live_authority s') + 1 = 2"
    using r(4) 1(2) by (simp_all add: is_provider_enabled_def live_authority_def sample_stored_def
        sample_control_def live_authority_new_def)
  ultimately show ?case using 1(1) r(1-3) by metis
qed

text \<open>
  Reverting an earlier change drops the changes made after it: the live authority becomes the
  state before the reverted change.
\<close>

theorem revert_drops_later_changes:
  assumes "apply_change hs p a s = (Inr c1, s1)" "apply_change hs q b s1 = (Inr c2, s2)" "c2 \<noteq> c1"
    and "lv_revision (live_authority s) < 2 ^ 64 - 2"
  shows "preview_authority_change (live_authority s2) (Revert c1) s2
    = Inr ((live_authority s)\<lparr>lv_revision := lv_revision (live_authority s) + 3\<rparr>)"
proof (rule apply_change_Inr [OF assms(1)], goal_cases)
  case (1 a1 sp1 t1 t2 n)
  note one = this
  show ?case
  proof (rule apply_change_Inr [OF assms(2)], goal_cases)
    case (1 a2 sp2 t3 t4 m)
    have r: "lv_revision a1 = lv_revision (ct_authority s) + 1" "lv_revision a2 = lv_revision (ct_authority s) + 2"
      using preview_revision [OF one(3)] preview_revision [OF 1(3)] one(5) by simp_all
    have "\<not> lv_revision (ct_authority s) + 2 < lv_revision (ct_authority s) + 1"
      using assms(4) by (simp add: live_authority_def) (unat_arith; simp)
    then show ?thesis
      using assms(3) one(5)
      by (simp add: preview_authority_change_def retrieve_change_record_def apply_revert_change_def 1(5)
          live_authority_def next_revision_def r)
  qed
qed

text \<open>
  \<^verbatim>\<open>apply_change\<close> itself does not look at the status of the stored proposal: a rejected
  proposal is applied by it, and its status becomes that of an applied one.
\<close>

theorem apply_change_takes_rejected:
  "\<exists>cid s'. apply_change hs sample_disable (approval_for hs sample_disable) (sample_stored Rejected) = (Inr cid, s')
     \<and> \<not> is_provider_enabled ''local'' s'
     \<and> map_option sp_status (map_of (mp_proposals (ct_proposals s')) ''proposal-9'') = Some Applied"
  by (rule sample_disable_applies [of hs Rejected]) (auto simp: is_provider_enabled_def)

end
