(* ===== verification/AuthoritySpec.thy ===== *)
theory AuthoritySpec
  imports Control
begin

text \<open>
  What the control plane promises about the live authority, as an abstract machine, and the
  proof that the operations of \<open>Control\<close> implement it. The machine knows nothing of
  proposals, approvals, batches or clocks: it has the authority in force and the ones that
  were in force, and it either makes one change, or puts one of the earlier authorities back
  under the next revision.
\<close>

subsection \<open>Simulations\<close>

locale simulation =
  fixes impl :: "'s \<Rightarrow> 's \<Rightarrow> bool" and spec :: "'t \<Rightarrow> 't \<Rightarrow> bool" and rel :: "'s \<Rightarrow> 't \<Rightarrow> bool"
  assumes simulate: "rel s x \<Longrightarrow> impl s s' \<Longrightarrow> \<exists>y. spec\<^sup>*\<^sup>* x y \<and> rel s' y"
begin

lemma simulate_star: "impl\<^sup>*\<^sup>* s s' \<Longrightarrow> rel s x \<Longrightarrow> \<exists>y. spec\<^sup>*\<^sup>* x y \<and> rel s' y"
proof (induction rule: rtranclp_induct)
  case base
  then show ?case by blast
next
  case (step t u)
  then obtain y where "spec\<^sup>*\<^sup>* x y" "rel t y" by blast
  with simulate [OF \<open>rel t y\<close> \<open>impl t u\<close>] show ?case by (meson rtranclp_trans)
qed

text \<open>An invariant of the machine holds of every state of the implementation.\<close>

lemma invariant_transfers:
  assumes "impl\<^sup>*\<^sup>* s s'" "rel s x" "I x" "\<And>x y. I x \<Longrightarrow> spec x y \<Longrightarrow> I y"
  shows "\<exists>y. rel s' y \<and> I y"
proof -
  obtain y where y: "spec\<^sup>*\<^sup>* x y" "rel s' y" using simulate_star [OF assms(1,2)] by blast
  from y(1) assms(3) have "I y" by (induction rule: rtranclp_induct) (blast intro: assms(4))+
  with y(2) show ?thesis by blast
qed

end

subsection \<open>The authority machine\<close>

type_synonym AuthorityMachine = "LiveAuthorityState \<times> LiveAuthorityState set"

inductive amends :: "AuthorityMachine \<Rightarrow> AuthorityMachine \<Rightarrow> bool" where
  amend: "changed a c = Inr b \<Longrightarrow> amends (a, past) (b, insert a past)"
| restore: "b \<in> past \<Longrightarrow> amends (a, past) (b\<lparr>lv_revision := lv_revision a + 1\<rparr>, insert a past)"

inductive_cases amendsE: "amends x y"

definition simulates :: "'z Control_scheme \<Rightarrow> AuthorityMachine \<Rightarrow> bool" where
  "simulates s x \<longleftrightarrow> ct_authority s = fst x
     \<and> (\<forall>k r. map_of (mp_changes (ct_proposals s)) k = Some r \<longrightarrow> ch_previous_state r \<in> snd x)"

lemma simulates_cong:
  "ct_authority s' = ct_authority s \<Longrightarrow> mp_changes (ct_proposals s') = mp_changes (ct_proposals s)
     \<Longrightarrow> simulates s' x = simulates s x"
  by (simp add: simulates_def)

lemma simulates_more: "simulates s (a, past) \<Longrightarrow> past \<subseteq> past' \<Longrightarrow> simulates s (a, past')"
  by (auto simp: simulates_def)

subsection \<open>Operations that leave the authority alone\<close>

lemma preserves_system_now: "preserves (\<lambda>s. simulates s x) system_now"
  by (auto simp: preserves_def system_now_def simulates_def)

lemma preserves_on_proposals:
  assumes "\<And>c. mp_changes (snd (m c)) = mp_changes c"
  shows "preserves (\<lambda>s. simulates s x) (on_proposals m)"
  unfolding on_proposals_def by (rule preserves_zoom) (use assms in \<open>simp add: simulates_def\<close>)

lemma proposals_keep_changes [simp]:
  "mp_changes (snd (allocate_proposal_id c)) = mp_changes c"
  "mp_changes (snd (store_proposal p c)) = mp_changes c"
  "mp_changes (snd (update_proposal i f c)) = mp_changes c"
  "mp_changes (snd (mark_applied i cid at c)) = mp_changes c"
  "mp_changes (snd (mark_approved i c)) = mp_changes c"
  "mp_changes (snd (mark_rejected i reason c)) = mp_changes c"
  by (simp_all add: allocate_proposal_id_def store_proposal_def update_proposal_def mark_applied_def
      mark_approved_def mark_rejected_def split: option.split)

lemmas preserves_simulates = preserves_system_now preserves_on_proposals

lemma preserves_propose: "preserves (\<lambda>s. simulates s x) (propose_change_with_metadata c source disc)"
  unfolding propose_change_with_metadata_def Let_def
  by (intro eff_preserves preserves_simulates) simp_all

lemma preserves_ensure: "preserves (\<lambda>s. simulates s x) (ensure_proposal c source disc)"
  unfolding ensure_proposal_def by (intro eff_preserves preserves_propose)

lemma preserves_approve: "preserves (\<lambda>s. simulates s x) (approve_stored_proposal i)"
  unfolding approve_stored_proposal_def Let_def
proof (intro preserves_andThen preserves_reading)
  fix p
  show "preserves (\<lambda>s. simulates s x) (case sp_status p of
          Pending \<Rightarrow> andThen (reading (verify_stored_proposal_is_current p)) (\<lambda>_. on_proposals (mark_approved i))
        | Approved \<Rightarrow> ok ()
        | Applied \<Rightarrow> fail (''proposal '' @ in_backticks i @ '' is already applied'')
        | Rejected \<Rightarrow> fail (''proposal '' @ in_backticks i @ '' is rejected'')
        | _ \<Rightarrow> fail (''proposal '' @ in_backticks i @ '' is '' @ proposal_status_as_str (sp_status p)
              @ '' and requires reconciliation review''))"
    by (cases "sp_status p")
      (simp_all add: preserves_ok preserves_fail preserves_andThen preserves_reading preserves_on_proposals)
qed

lemma preserves_reject: "preserves (\<lambda>s. simulates s x) (reject_stored_proposal i reason)"
  unfolding reject_stored_proposal_def
proof (intro preserves_andThen preserves_reading)
  fix p
  show "preserves (\<lambda>s. simulates s x) (case sp_status p of
       Applied \<Rightarrow> fail (''proposal '' @ in_backticks i @ '' is already applied'')
     | Rejected \<Rightarrow> ok ()
     | _ \<Rightarrow> on_proposals (mark_rejected i reason))"
    by (cases "sp_status p")
      (simp_all add: preserves_ok preserves_fail preserves_andThen preserves_reading preserves_on_proposals)
qed

subsection \<open>Operations that change it\<close>

lemma preview_amends:
  assumes "simulates s (b, past)" "preview_authority_change a c s = Inr next_state"
  shows "amends (a, past) (next_state, insert a past)"
proof (cases "\<exists>i. c = Revert i")
  case True
  then obtain i r where "map_of (mp_changes (ct_proposals s)) i = Some r"
    "next_state = (ch_previous_state r)\<lparr>lv_revision := lv_revision a + 1\<rparr>"
    using assms(2) by (auto simp: preview_authority_change_def rbind_Inr retrieve_change_record_def
        apply_revert_change_def next_revision_def split: if_splits)
  moreover from this(1) have "ch_previous_state r \<in> past" using assms(1) by (auto simp: simulates_def)
  ultimately show ?thesis by (simp add: restore)
next
  case False
  then have "changed a c = Inr next_state"
    using assms(2) by (cases c) (simp_all add: preview_authority_change_def)
  then show ?thesis by (rule amend)
qed

lemma apply_change_unstored:
  assumes "map_of (mp_proposals (ct_proposals s)) (cp_id p) = None"
  shows "snd (apply_change hs p a s) = s
    \<or> (\<exists>next_state n. preview_authority_change (ct_authority s) (cp_change p) s = Inr next_state
         \<and> snd (apply_change hs p a s) = s\<lparr>ct_clock_reads := n, ct_authority := next_state\<rparr>)"
  using assms
  by (cases "approval_verify hs a p \<and> cp_revision p = lv_revision (ct_authority s)";
      cases "preview_authority_change (ct_authority s) (cp_change p) s")
    (auto simp: apply_change_def andThen_def require_def system_now_def Let_def retrieve_proposal_def
      store_retrieve_proposal_def)

definition refines :: "'z Control_scheme \<Rightarrow> 'z Control_scheme \<Rightarrow> bool" where
  "refines s s' \<longleftrightarrow> (\<forall>x. simulates s x \<longrightarrow> (\<exists>y. amends\<^sup>*\<^sup>* x y \<and> simulates s' y))"

lemma refines_refl [simp]: "refines s s"
  by (auto simp: refines_def)

lemma refines_preserves: "(\<And>x. preserves (\<lambda>s. simulates s x) m) \<Longrightarrow> refines s (snd (m s))"
  unfolding refines_def preserves_def by blast

lemma refines_apply_change: "refines s (snd (apply_change hs p a s))"
proof (cases "map_of (mp_proposals (ct_proposals s)) (cp_id p)")
  case None
  from apply_change_unstored [OF this, of hs a] show ?thesis
  proof (elim disjE exE conjE)
    fix next_state n
    assume 1: "preview_authority_change (ct_authority s) (cp_change p) s = Inr next_state"
      "snd (apply_change hs p a s) = s\<lparr>ct_clock_reads := n, ct_authority := next_state\<rparr>"
    show ?thesis
      unfolding refines_def
    proof (intro allI impI)
      fix x assume sim: "simulates s x"
      obtain b past where x: "x = (b, past)" by (cases x)
      have "amends x (next_state, insert b past)"
        using preview_amends [of s b past "ct_authority s"] sim 1(1) by (simp add: x simulates_def)
      moreover have "simulates (snd (apply_change hs p a s)) (next_state, insert b past)"
        using sim by (auto simp: 1(2) x simulates_def)
      ultimately show "\<exists>y. amends\<^sup>*\<^sup>* x y \<and> simulates (snd (apply_change hs p a s)) y" by blast
    qed
  qed simp
next
  case (Some sp)
  show ?thesis
  proof (cases "apply_change hs p a s")
    case (Pair r s')
    show ?thesis
    proof (cases r)
      case (Inl e)
      then show ?thesis using apply_change_Inl [OF Pair [unfolded Inl] Some] Pair by simp
    next
      case (Inr cid)
      show ?thesis
      proof (rule apply_change_Inr [OF Pair [unfolded Inr]])
        fix after sp' at1 at2 n
        assume 1: "preview_authority_change (ct_authority s) (cp_change p) s = Inr after"
          "s' = s\<lparr>ct_authority := after, ct_proposals := (ct_proposals s)
       \<lparr>mp_proposals := binsert (cp_id p) (sp'\<lparr>sp_status := Applied, sp_applied_at := Some at1,
            sp_change_id := Some cid\<rparr>) (mp_proposals (ct_proposals s)),
        mp_changes := binsert cid \<lparr>ch_change_id = cid, ch_proposal_id = cp_id p,
            ch_change = cp_change p, ch_previous_state = ct_authority s, ch_resulting_state = after,
            ch_applied_at = at2, ch_applied_by = None,
            ch_reverted_change_id = reverted_change (cp_change p)\<rparr> (mp_changes (ct_proposals s))\<rparr>,
        ct_clock_reads := n\<rparr>"
        show ?thesis
          unfolding refines_def Pair snd_conv
        proof (intro allI impI)
          fix x assume sim: "simulates s x"
          obtain b past where x: "x = (b, past)" by (cases x)
          have "amends x (after, insert b past)"
            using preview_amends [of s b past "ct_authority s"] sim 1(1) by (simp add: x simulates_def)
          moreover have "simulates s' (after, insert b past)"
            using sim by (auto simp: 1(2) x simulates_def)
          ultimately show "\<exists>y. amends\<^sup>*\<^sup>* x y \<and> simulates s' y" by blast
        qed
      qed
    qed
  qed
qed

lemma refines_apply_stored: "refines s (snd (apply_stored_proposal hs i a s))"
  unfolding apply_stored_proposal_def
proof (rule snd_andThen_reading [where Q = "refines s"], goal_cases)
  case (1 p)
  have "refines s u" if "apply_change hs (proposal_of p) a s = (r, u)" for r u
    using refines_apply_change [of s hs "proposal_of p" a] that by simp
  then show ?case
    by (intro snd_andThen_require [where Q = "refines s"] snd_andThen_reading [where Q = "refines s"]
        snd_andThen [where Q = "refines s"]) auto
qed simp

lemma plan_batch_amends:
  assumes "plan_batch fp base n ps current s = (Inr (final, rs), s')" "simulates s (b, past)"
  shows "\<exists>past'. amends\<^sup>*\<^sup>* (current, past) (final, past') \<and> past \<subseteq> past'
    \<and> (\<forall>r \<in> set rs. ch_previous_state r \<in> past')"
  using assms
proof (induction ps arbitrary: n current s final rs past)
  case Nil
  then show ?case by auto
next
  case (Cons p ps)
  from Cons.prems(1) obtain after u rs' r where step: "preview_authority_change current (sp_change p) s = Inr after"
    and tail: "plan_batch fp base (n + 1) ps after u = (Inr (final, rs'), s')"
    and r: "rs = r # rs'" "ch_previous_state r = current"
    and u: "u = snd (system_now (snd (system_now s)))"
    unfolding plan_batch.simps Let_def andThen_now
    by (elim andThen_InrE require_InrE reading_InrE) (auto simp: andThen_now elim!: andThen_InrE split: prod.splits)
  have "simulates u (b, past)"
    using Cons.prems(2) by (simp add: u system_now_def simulates_def)
  then have "simulates u (b, insert current past)" by (rule simulates_more) blast
  from Cons.IH [OF tail this] obtain past' where p: "amends\<^sup>*\<^sup>* (after, insert current past) (final, past')"
    "insert current past \<subseteq> past'" "\<forall>r \<in> set rs'. ch_previous_state r \<in> past'" by blast
  have "amends (current, past) (after, insert current past)"
    using preview_amends [OF Cons.prems(2) step] .
  with p r show ?case by (auto intro: converse_rtranclp_into_rtranclp)
qed

lemma preserves_record_batch:
  "\<forall>r \<in> set rs. ch_previous_state r \<in> past \<Longrightarrow> preserves (\<lambda>s. simulates s (a, past)) (record_batch rs)"
proof (induction rs)
  case (Cons r rs)
  have "preserves (\<lambda>s. simulates s (a, past)) (on_proposals (store_change_record r))"
    using Cons.prems by (auto simp: preserves_def store_record_run simulates_def)
  moreover note Cons.IH [OF Cons.prems [simplified, THEN conjunct2]]
  ultimately show ?case
    unfolding record_batch.simps
    by - (rule preserves_andThen preserves_reading preserves_system_now preserves_ok | assumption
      | (rule preserves_on_proposals, simp))+
qed (simp add: preserves_ok)

lemma refines_batch: "refines s (snd (apply_approved_stored_proposals is s))"
proof (cases "is = []")
  case False
  have "refines s (snd (andThen (plan_batch fp base 0 ps (ct_authority s)) (\<lambda>(final, rs).
      andThen (\<lambda>s. (Inr (), s\<lparr>ct_authority := final\<rparr>)) (\<lambda>_. record_batch rs)) s))" for ps fp base
  proof (rule snd_andThen [where Q = "refines s"], goal_cases)
    case (1 fr u)
    obtain final rs where fr: "fr = (final, rs)" by (cases fr)
    obtain n where u: "u = s\<lparr>ct_clock_reads := n\<rparr>"
      using plan_batch_state [of fp base 0 ps "ct_authority s" s] unfolding 1 snd_conv by (rule that)
    have same: "simulates (u\<lparr>ct_authority := final\<rparr>) (final, past) \<longleftrightarrow> simulates s (ct_authority s, past)" for past
      by (simp add: u simulates_def)
    show ?case
      unfolding refines_def
    proof (intro allI impI)
      fix x assume sim: "simulates s x"
      then obtain past where x: "x = (ct_authority s, past)" by (cases x) (simp add: simulates_def)
      obtain past' where p: "amends\<^sup>*\<^sup>* (ct_authority s, past) (final, past')" "past \<subseteq> past'"
        "\<forall>r \<in> set rs. ch_previous_state r \<in> past'"
        using plan_batch_amends [OF 1 [unfolded fr] sim [unfolded x]] by blast
      have "simulates (u\<lparr>ct_authority := final\<rparr>) (final, past')"
        unfolding same using sim x p(2) simulates_more by blast
      with preserves_record_batch [OF p(3)] have
        "simulates (snd (record_batch rs (u\<lparr>ct_authority := final\<rparr>))) (final, past')"
        unfolding preserves_def by blast
      then show "\<exists>y. amends\<^sup>*\<^sup>* x y \<and> simulates (snd ((case fr of (final, rs) \<Rightarrow>
          andThen (\<lambda>s. (Inr (), s\<lparr>ct_authority := final\<rparr>)) (\<lambda>_. record_batch rs)) u)) y"
        using p(1) by (auto simp: fr x andThen_run)
    qed
  next
    case (2 e u)
    obtain n where "u = s\<lparr>ct_clock_reads := n\<rparr>"
      using plan_batch_state [of fp base 0 ps "ct_authority s" s] unfolding 2 snd_conv by (rule that)
    then show ?case by (auto simp: refines_def simulates_def)
  qed
  with False show ?thesis
    unfolding apply_approved_stored_proposals_def
    by (simp, intro snd_andThen_reading [where Q = "refines s"]) simp_all
qed (simp add: apply_approved_stored_proposals_def)

lemma control_step_refines: "control_step hs s s' \<Longrightarrow> refines s s'"
proof (induction rule: control_step.induct)
  case (step_apply_approved s i)
  show ?case
    unfolding apply_approved_stored_proposal_def
    by (rule snd_andThen_reading [where Q = "refines s"]) (simp_all add: refines_apply_stored)
qed (simp_all add: refines_preserves preserves_propose preserves_ensure preserves_approve preserves_reject
    refines_apply_stored refines_batch)

interpretation authority: simulation "control_step hs" amends simulates for hs
  by unfold_locales (rule control_step_refines [unfolded refines_def, rule_format])

lemma control_steps:
  assumes "preview_authority_change (live_authority s) c s = Inr after"
    and "map_of (mp_proposals (ct_proposals s)) (next_proposal_id s) = None"
  obtains s' where "(control_step hs)\<^sup>*\<^sup>* s s'" "ct_authority s' = after"
proof -
  obtain p s1 s2 cid s3 where 1: "propose_change c s = (Inr p, s1)" "approve_stored_proposal (cp_id p) s1 = (Inr (), s2)"
    "apply_approved_stored_proposal hs (cp_id p) s2 = (Inr (cid, lv_revision after), s3)" "live_authority s3 = after"
    using preview_applies [OF assms, of hs] by blast
  have "control_step hs s s1" using step_propose [of hs s c Explicit 0] 1(1) by (simp add: propose_change_def)
  moreover have "control_step hs s1 s2" using step_approve [of hs s1 "cp_id p"] 1(2) by simp
  moreover have "control_step hs s2 s3" using step_apply_approved [of hs s2 "cp_id p"] 1(3) by simp
  ultimately have "(control_step hs)\<^sup>*\<^sup>* s s3" by (meson r_into_rtranclp rtranclp_trans)
  then show thesis using 1(4) by (intro that) (simp_all add: live_authority_def)
qed

text \<open>
  The control plane implements the authority machine: whatever is proposed, approved,
  rejected, applied or applied as a batch, successfully or not, the live authority goes only
  through single changes and restorations of authorities that were in force before, each under
  the next revision, and the states the history would restore are among those.
\<close>

theorem control_refines_machine:
  assumes "(control_step hs)\<^sup>*\<^sup>* s s'" "simulates s (a, past)"
  shows "\<exists>a' past'. amends\<^sup>*\<^sup>* (a, past) (a', past') \<and> simulates s' (a', past') \<and> live_authority s' = a'"
proof -
  obtain y where "amends\<^sup>*\<^sup>* (a, past) y" "simulates s' y"
    using authority.simulate_star [OF assms] by blast
  then show ?thesis by (cases y) (auto simp: simulates_def live_authority_def)
qed

text \<open>What the machine keeps: a password policy that was set is a valid one.\<close>

definition password_policy_ok :: "LiveAuthorityState \<Rightarrow> bool" where
  "password_policy_ok a \<longleftrightarrow> (\<forall>p. lv_password_policy a = Some p \<longrightarrow> password_policy_validate p = Inr ())"

lemma changed_password_policy_ok: "changed a c = Inr b \<Longrightarrow> password_policy_ok a \<Longrightarrow> password_policy_ok b"
  by (auto simp: changed_def Let_def password_policy_ok_def rbind_Inr split: AuthorityChange.splits)

lemma amends_password_policy_ok:
  "\<forall>a \<in> insert (fst x) (snd x). password_policy_ok a \<Longrightarrow> amends x y \<Longrightarrow>
     \<forall>a \<in> insert (fst y) (snd y). password_policy_ok a"
  by (elim amendsE) (auto dest: changed_password_policy_ok simp: password_policy_ok_def)

text \<open>
  C26. A weak password policy never comes into force: starting from an authority without one and
  an empty history, whatever is proposed, applied or reverted, a password policy in the live
  authority is one that the contract's validation accepts.
\<close>

theorem live_password_policy_is_valid:
  assumes "(control_step hs)\<^sup>*\<^sup>* s s'" "lv_password_policy (live_authority s) = None"
    and "mp_changes (ct_proposals s) = []"
  shows "password_policy_ok (live_authority s')"
proof -
  have "simulates s (ct_authority s, {})" using assms(3) by (simp add: simulates_def)
  moreover have "\<forall>a \<in> insert (fst (ct_authority s, {})) (snd (ct_authority s, {})). password_policy_ok a"
    using assms(2) by (simp add: password_policy_ok_def live_authority_def)
  ultimately have "\<exists>y. simulates s' y \<and> (\<forall>a \<in> insert (fst y) (snd y). password_policy_ok a)"
    by (rule authority.invariant_transfers [OF assms(1) _ _ amends_password_policy_ok])
  then show ?thesis by (auto simp: simulates_def live_authority_def)
qed

definition sample_strict :: PasswordPolicy where
  "sample_strict = password_policy_default\<lparr>pw_min_length := 20\<rparr>"

lemma sample_strict_applies:
  obtains s' where "(control_step sample_hashing)\<^sup>*\<^sup>* sample_control s'"
    "lv_password_policy (ct_authority s') = Some sample_strict"
proof -
  obtain after where after: "preview_authority_change (live_authority sample_control)
      (SetPasswordPolicy sample_strict) sample_control = Inr after" "lv_password_policy after = Some sample_strict"
  proof
    show "preview_authority_change (live_authority sample_control) (SetPasswordPolicy sample_strict) sample_control
        = Inr (live_authority_new\<lparr>lv_revision := 1, lv_password_policy := Some sample_strict\<rparr>)"
      by (simp add: preview_authority_change_def changed_def Let_def live_authority_def sample_control_def
        live_authority_new_def next_revision_def sample_strict_def password_policy_default_def
        password_policy_validate_def check_def)
  qed simp
  have "map_of (mp_proposals (ct_proposals sample_control)) (next_proposal_id sample_control) = None"
    by (simp add: sample_control_def proposal_store_new_def)
  from control_steps [OF after(1) this, of sample_hashing] after(2) show thesis
    by (metis that)
qed

theorem control_refines_machine_witness:
  "\<exists>s' a' past'. (control_step sample_hashing)\<^sup>*\<^sup>* sample_control s'
     \<and> amends\<^sup>*\<^sup>* (live_authority_new, {}) (a', past') \<and> live_authority s' = a'
     \<and> lv_password_policy a' = Some sample_strict"
proof (rule sample_strict_applies)
  fix s' assume s': "(control_step sample_hashing)\<^sup>*\<^sup>* sample_control s'"
    "lv_password_policy (ct_authority s') = Some sample_strict"
  have "simulates sample_control (live_authority_new, {})"
    by (simp add: simulates_def sample_control_def proposal_store_new_def)
  from control_refines_machine [OF s'(1) this] s' show ?thesis
    by (auto simp: live_authority_def)
qed

theorem live_password_policy_is_valid_witness:
  "\<exists>s'. (control_step sample_hashing)\<^sup>*\<^sup>* sample_control s' \<and> password_policy_ok (live_authority s')
     \<and> lv_password_policy (ct_authority s') = Some sample_strict"
proof (rule sample_strict_applies)
  fix s' assume s': "(control_step sample_hashing)\<^sup>*\<^sup>* sample_control s'"
    "lv_password_policy (ct_authority s') = Some sample_strict"
  have "lv_password_policy (live_authority sample_control) = None" "mp_changes (ct_proposals sample_control) = []"
    by (simp_all add: sample_control_def live_authority_def live_authority_new_def proposal_store_new_def)
  from live_password_policy_is_valid [OF s'(1) this] s' show ?thesis by blast
qed

end
