(* ===== verification/Injection.thy ===== *)
theory Injection
  imports Mesh
begin

text \<open>
  Building the authority context of a request from what a trusted front end says about it
  (\<^verbatim>\<open>crates/runtime/src/injection.rs\<close>): tenant, provider and subject, session, claims, and
  the envelope of the default policy. Every stage either produces its value or names the
  stage it failed in.
\<close>

record IncomingRequest =
  in_host :: string
  in_headers :: "(string, string) bmap"
  in_auth_subject :: "string option"

definition non_empty :: "string \<Rightarrow> string option" where
  "non_empty s = (if trim s \<noteq> [] then Some (trim s) else None)"

definition non_empty_header :: "(string, string) bmap \<Rightarrow> string \<Rightarrow> string option" where
  "non_empty_header hs name = Option.bind (map_of hs name) non_empty"

definition stage_denial :: "AuthLifecycleStage \<Rightarrow> DenialReason" where
  "stage_denial stage = (case stage of
     TenantResolution \<Rightarrow> UnknownTenant
   | ConnectorResolution \<Rightarrow> UnsupportedConnector
   | ProviderAuthentication \<Rightarrow> UnsupportedConnector
   | SessionValidation \<Rightarrow> InvalidSession
   | ClaimsResolution \<Rightarrow> MissingClaim
   | _ \<Rightarrow> UnknownPrincipal)"

definition stage_error :: "AuthLifecycleStage \<Rightarrow> string \<Rightarrow> AuthError" where
  "stage_error stage msg = auth_error stage msg (stage_denial stage)"

text \<open>Two sources of one value: they may not disagree, the first one wins.\<close>

definition agreed :: "string option \<Rightarrow> string option \<Rightarrow> AuthError \<Rightarrow> AuthError \<Rightarrow> AuthError + string" where
  "agreed a b ambiguous missing = (case (a, b) of
     (Some x, Some y) \<Rightarrow> (if x \<noteq> y then Inl ambiguous else Inr x)
   | (Some x, None) \<Rightarrow> Inr x
   | (None, Some y) \<Rightarrow> Inr y
   | (None, None) \<Rightarrow> Inl missing)"

definition host_tenant :: "string \<Rightarrow> string option" where
  "host_tenant host = Option.bind (split_once (CHR ''.'') host) (\<lambda>(subdomain, _). non_empty subdomain)"

definition resolve_tenant :: "IncomingRequest \<Rightarrow> AuthError + TenantContext" where
  "resolve_tenant rq =
     rbind (agreed (non_empty_header (in_headers rq) ''x-tenant-id'') (host_tenant (in_host rq))
       (stage_error TenantResolution ''ambiguous tenant resolution'')
       (stage_error TenantResolution ''missing tenant'')) (\<lambda>t.
     Inr \<lparr>t_id = t, t_namespace = t, t_policy_id = t @ ''-default-policy'', t_storage_root_id = t @ ''-root''\<rparr>)"

record AuthenticatedProvider =
  ap_provider :: string
  ap_subject :: string

definition authenticate_provider :: "AuthConfig \<Rightarrow> IncomingRequest \<Rightarrow> AuthError + AuthenticatedProvider" where
  "authenticate_provider cfg rq =
     rbind (ok_or (stage_error ProviderAuthentication ''missing auth provider'')
       (non_empty_header (in_headers rq) ''x-auth-provider'')) (\<lambda>provider.
     rbind (check (declares_provider cfg provider)
       (stage_error ProviderAuthentication ''auth provider is not configured for this tenant'')) (\<lambda>_.
     rbind (check (md_status (describe provider) = Supported)
       (stage_error ConnectorResolution
         (''connector '' @ in_backticks provider @ '' is declared but not implemented''))) (\<lambda>_.
     rbind (agreed (Option.bind (in_auth_subject rq) non_empty)
       (non_empty_header (in_headers rq) ''x-auth-subject'')
       (stage_error ProviderAuthentication ''ambiguous auth subject'')
       (stage_error ProviderAuthentication ''missing auth subject'')) (\<lambda>subject.
     Inr \<lparr>ap_provider = provider, ap_subject = subject\<rparr>))))"

definition resolve_identity :: "TenantContext \<Rightarrow> AuthenticatedProvider \<Rightarrow> Identity" where
  "resolve_identity t a =
     \<lparr>i_id = t_id t @ '':'' @ ap_provider a @ '':'' @ ap_subject a,
      i_provider = ap_provider a, i_provider_subject = ap_subject a, i_tenant_id = t_id t,
      i_claims = [], i_version = \<lparr>major = 1, minor = 0\<rparr>,
      i_offline = \<lparr>max_age_seconds = 300, must_revalidate = True\<rparr>\<rparr>"

definition injected_principal :: "Identity \<Rightarrow> Claims \<Rightarrow> Principal" where
  "injected_principal i claims =
     \<lparr>p_id = i_id i,
      p_kind = (if i_provider i = ''agent'' then Agent
                else if i_provider i = ''service'' then Service else Human),
      p_tenant_id = i_tenant_id i, p_claims = claims, p_version = i_version i, p_agent_state = None\<rparr>"

definition incoming_session :: "IncomingRequest \<Rightarrow> Identity \<Rightarrow> AuthError + string" where
  "incoming_session rq i =
     rbind (ok_or (stage_error SessionValidation ''missing session id'')
       (non_empty_header (in_headers rq) ''x-session-id'')) (\<lambda>sid.
     rbind (check (case non_empty_header (in_headers rq) ''x-session-identity-id'' of
         Some j \<Rightarrow> j = i_id i | None \<Rightarrow> True)
       (stage_error SessionValidation ''session identity does not match resolved identity'')) (\<lambda>_.
     Inr sid))"

definition provided_claims :: "IncomingRequest \<Rightarrow> (string, string) bmap" where
  "provided_claims rq = bcollect (List.map_filter
     (\<lambda>(h, v). map_option (\<lambda>n. (n, v)) (strip_prefix ''x-auth-claim-'' h)) (in_headers rq))"

definition build_runtime_context ::
  "TenantContext \<Rightarrow> Principal \<Rightarrow> string \<Rightarrow> Claims \<Rightarrow> CapabilityEnvelope \<Rightarrow> AuthError + RuntimeContext" where
  "build_runtime_context t p sid claims env =
     (if p_tenant_id p \<noteq> t_id t \<or> p_claims p \<noteq> claims
      then Inl (stage_error RuntimeContextStage ''runtime context inputs do not match'')
      else Inr \<lparr>c_principal = p, c_tenant = t, c_session_id = Some sid, c_delegation = None, c_run = None,
             c_claims = claims, c_capabilities = env\<rparr>)"

definition default_policy :: "TenantContext \<Rightarrow> Policy" where
  "default_policy t = \<lparr>pol_id = t_policy_id t,
     pol_rules = [rule_allow ''storage.read'' (TimeBound 0 (2 ^ 63 - 1))]\<rparr>"

definition inject_auth_context ::
  "int option \<Rightarrow> AuthConfig \<Rightarrow> IncomingRequest \<Rightarrow> AuthError + RuntimeContext" where
  "inject_auth_context clock cfg rq =
     rbind (resolve_tenant rq) (\<lambda>t.
     rbind (authenticate_provider cfg rq) (\<lambda>a.
     let i = resolve_identity t a in
     rbind (incoming_session rq i) (\<lambda>sid.
     rbind (resolve_claims cfg (provided_claims rq)) (\<lambda>claims.
     let p = injected_principal (i\<lparr>i_claims := claims\<rparr>) claims in
     rbind (map_err (\<lambda>msg. auth_error PolicyEvaluation msg TenantMismatch)
       (evaluate clock (default_policy t) p t)) (\<lambda>env.
     build_runtime_context t p sid claims env)))))"

subsection \<open>What injection attests\<close>

definition attests :: "string option \<Rightarrow> string option \<Rightarrow> string \<Rightarrow> bool" where
  "attests a b x \<longleftrightarrow> (a = Some x \<and> b \<in> {None, Some x}) \<or> (a = None \<and> b = Some x)"

lemma agreed_Inr: "agreed a b ambiguous missing = Inr x \<longleftrightarrow> attests a b x"
  by (auto simp: agreed_def attests_def split: option.splits if_splits)

lemma supported_local: "md_status (describe i) = Supported \<longleftrightarrow> i = ''local''"
  by (auto simp: describe_def catalog_lookup_def catalog_def)

text \<open>The context injection builds, written out.\<close>

definition injected_context ::
  "int option \<Rightarrow> string \<Rightarrow> string \<Rightarrow> string \<Rightarrow> Claims \<Rightarrow> RuntimeContext" where
  "injected_context clock tid subject sid claims =
     (let i = tid @ '':local:'' @ subject in
      \<lparr>c_principal = \<lparr>p_id = i, p_kind = Human, p_tenant_id = tid, p_claims = claims,
         p_version = \<lparr>major = 1, minor = 0\<rparr>, p_agent_state = None\<rparr>,
       c_tenant = \<lparr>t_id = tid, t_namespace = tid, t_policy_id = tid @ ''-default-policy'',
         t_storage_root_id = tid @ ''-root''\<rparr>,
       c_session_id = Some sid, c_delegation = None, c_run = None, c_claims = claims,
       c_capabilities = \<lparr>granted_capabilities =
         (if (case clock of Some n \<Rightarrow> 0 \<le> n \<and> n < 2 ^ 63 | None \<Rightarrow> False)
          then [\<lparr>g_capability = ''storage.read'', g_policy_id = tid @ ''-default-policy'', g_tenant_id = tid,
            g_principal_id = i, g_principal_kind = Human, g_authority = BasisClaim,
            g_claim_basis = [''time''], g_delegation_id = None, g_delegation_chain = [],
            g_delegated_by = None\<rparr>]
          else [])\<rparr>\<rparr>)"

definition injected_tenant :: "string \<Rightarrow> TenantContext" where
  "injected_tenant tid = \<lparr>t_id = tid, t_namespace = tid, t_policy_id = tid @ ''-default-policy'',
     t_storage_root_id = tid @ ''-root''\<rparr>"

lemma resolve_tenant_Inr: "resolve_tenant rq = Inr t \<longleftrightarrow> (\<exists>tid.
    attests (non_empty_header (in_headers rq) ''x-tenant-id'') (host_tenant (in_host rq)) tid
    \<and> t = injected_tenant tid)"
  by (auto simp: resolve_tenant_def rbind_Inr agreed_Inr injected_tenant_def)

lemma authenticate_provider_Inr: "authenticate_provider cfg rq = Inr a \<longleftrightarrow> (\<exists>subject.
    non_empty_header (in_headers rq) ''x-auth-provider'' = Some ''local'' \<and> declares_provider cfg ''local''
    \<and> attests (Option.bind (in_auth_subject rq) non_empty)
        (non_empty_header (in_headers rq) ''x-auth-subject'') subject
    \<and> a = \<lparr>ap_provider = ''local'', ap_subject = subject\<rparr>)"
  by (auto simp: authenticate_provider_def rbind_Inr agreed_Inr check_def supported_local split: if_splits)

lemma incoming_session_Inr: "incoming_session rq i = Inr sid \<longleftrightarrow>
    non_empty_header (in_headers rq) ''x-session-id'' = Some sid
    \<and> non_empty_header (in_headers rq) ''x-session-identity-id'' \<in> {None, Some (i_id i)}"
  by (auto simp: incoming_session_def rbind_Inr check_def split: if_splits option.splits)

lemma default_envelope:
  assumes "p_tenant_id p = t_id t" "p_kind p = Human"
  shows "evaluate clock (default_policy t) p t = Inr \<lparr>granted_capabilities =
     (if (case clock of Some n \<Rightarrow> 0 \<le> n \<and> n < 2 ^ 63 | None \<Rightarrow> False)
      then [claim_grant (default_policy t) p t ''storage.read'' (TimeBound 0 (2 ^ 63 - 1))] else [])\<rparr>"
  using assms
  by (auto simp: evaluate_def evaluate_with_delegations_def default_policy_def grant_claims_def
      grant_delegations_def rule_allow_def condition_matches_def Let_def split: option.splits)

text \<open>
  C33. Injection succeeds exactly on requests that attest everything: a tenant from the header
  or the host that are not in conflict, the one provider that is implemented and declared, a
  subject without conflict, a session that does not name another identity, and every declared
  claim with a value of its kind. The context is then determined: a human of that tenant with
  those claims, and reading storage as the only capability while the clock can be read.
\<close>

theorem injection_is_attested:
  "inject_auth_context clock cfg rq = Inr ctx \<longleftrightarrow> (\<exists>tid subject sid claims.
     attests (non_empty_header (in_headers rq) ''x-tenant-id'') (host_tenant (in_host rq)) tid
     \<and> non_empty_header (in_headers rq) ''x-auth-provider'' = Some ''local'' \<and> declares_provider cfg ''local''
     \<and> attests (Option.bind (in_auth_subject rq) non_empty)
         (non_empty_header (in_headers rq) ''x-auth-subject'') subject
     \<and> non_empty_header (in_headers rq) ''x-session-id'' = Some sid
     \<and> non_empty_header (in_headers rq) ''x-session-identity-id'' \<in> {None, Some (tid @ '':local:'' @ subject)}
     \<and> resolve_claims cfg (provided_claims rq) = Inr claims
     \<and> ctx = injected_context clock tid subject sid claims)"
proof -
  define P where "P = (\<lambda>tid subject claims. injected_principal
    ((resolve_identity (injected_tenant tid) \<lparr>ap_provider = ''local'', ap_subject = subject\<rparr>)\<lparr>i_claims := claims\<rparr>)
    claims)"
  define rest where "rest = (\<lambda>t a. rbind (incoming_session rq (resolve_identity t a)) (\<lambda>sid.
     rbind (resolve_claims cfg (provided_claims rq)) (\<lambda>claims.
     rbind (map_err (\<lambda>msg. auth_error PolicyEvaluation msg TenantMismatch)
       (evaluate clock (default_policy t) (injected_principal ((resolve_identity t a)\<lparr>i_claims := claims\<rparr>) claims) t))
       (\<lambda>env. build_runtime_context t (injected_principal ((resolve_identity t a)\<lparr>i_claims := claims\<rparr>) claims)
          sid claims env))))"
  have P: "p_tenant_id (P tid subject claims) = t_id (injected_tenant tid)" "p_kind (P tid subject claims) = Human"
    for tid subject claims
    by (simp_all add: P_def injected_principal_def resolve_identity_def injected_tenant_def)
  have built: "rbind (map_err f (evaluate clock (default_policy (injected_tenant tid)) (P tid subject claims)
      (injected_tenant tid)))
      (\<lambda>env. build_runtime_context (injected_tenant tid) (P tid subject claims) sid claims env)
    = Inr (injected_context clock tid subject sid claims)" for f tid subject sid claims
    unfolding default_envelope [OF P]
    by (simp add: map_err_def build_runtime_context_def P_def injected_principal_def resolve_identity_def
        injected_context_def Let_def claim_grant_def default_policy_def injected_tenant_def)
  have "rest (injected_tenant tid) \<lparr>ap_provider = ''local'', ap_subject = subject\<rparr>
    = rbind (incoming_session rq (resolve_identity (injected_tenant tid) \<lparr>ap_provider = ''local'', ap_subject = subject\<rparr>))
        (\<lambda>sid. rbind (resolve_claims cfg (provided_claims rq)) (\<lambda>claims.
          Inr (injected_context clock tid subject sid claims)))" for tid subject
    unfolding rest_def by (simp only: built [unfolded P_def])
  moreover have "i_id (resolve_identity (injected_tenant tid) \<lparr>ap_provider = ''local'', ap_subject = subject\<rparr>)
    = tid @ '':local:'' @ subject" for tid subject
    by (simp add: resolve_identity_def injected_tenant_def)
  ultimately have r: "rest (injected_tenant tid) \<lparr>ap_provider = ''local'', ap_subject = subject\<rparr> = Inr ctx \<longleftrightarrow> (\<exists>sid claims.
     non_empty_header (in_headers rq) ''x-session-id'' = Some sid
     \<and> non_empty_header (in_headers rq) ''x-session-identity-id'' \<in> {None, Some (tid @ '':local:'' @ subject)}
     \<and> resolve_claims cfg (provided_claims rq) = Inr claims
     \<and> ctx = injected_context clock tid subject sid claims)" for tid subject
    by (auto simp: rbind_Inr incoming_session_Inr)
  have "inject_auth_context clock cfg rq = Inr ctx \<longleftrightarrow> (\<exists>t a. resolve_tenant rq = Inr t
      \<and> authenticate_provider cfg rq = Inr a \<and> rest t a = Inr ctx)"
    unfolding inject_auth_context_def Let_def rest_def rbind_Inr [of "resolve_tenant rq"]
      rbind_Inr [of "authenticate_provider cfg rq"] by blast
  also have "\<dots> \<longleftrightarrow> (\<exists>tid subject.
     attests (non_empty_header (in_headers rq) ''x-tenant-id'') (host_tenant (in_host rq)) tid
     \<and> non_empty_header (in_headers rq) ''x-auth-provider'' = Some ''local'' \<and> declares_provider cfg ''local''
     \<and> attests (Option.bind (in_auth_subject rq) non_empty)
         (non_empty_header (in_headers rq) ''x-auth-subject'') subject
     \<and> rest (injected_tenant tid) \<lparr>ap_provider = ''local'', ap_subject = subject\<rparr> = Inr ctx)"
    unfolding resolve_tenant_Inr authenticate_provider_Inr by blast
  finally show ?thesis unfolding r by blast
qed

definition sample_incoming :: IncomingRequest where
  "sample_incoming = \<lparr>in_host = ''tenant-a.example.com'',
     in_headers = bcollect [(''x-tenant-id'', ''tenant-a''), (''x-auth-provider'', ''local''),
       (''x-auth-subject'', ''user-1''), (''x-session-id'', ''session-1''), (''x-auth-claim-role'', ''admin'')],
     in_auth_subject = None\<rparr>"

text \<open>The request of the unit test, and the same request with another tenant in the header.\<close>

theorem injection_is_attested_witness:
  "inject_auth_context (Some 7) sample_claims_contract sample_incoming
     = Inr (injected_context (Some 7) ''tenant-a'' ''user-1'' ''session-1'' [(''role'', CEnum ''admin'')])"
proof -
  have trims: "trim ''tenant-a'' = ''tenant-a''" "trim ''local'' = ''local''" "trim ''user-1'' = ''user-1''"
    "trim ''session-1'' = ''session-1''" "trim ''admin'' = ''admin''"
    by (simp_all add: trim_plain plain_def)
  have h: "map_of (in_headers sample_incoming) ''x-tenant-id'' = Some ''tenant-a''"
    "map_of (in_headers sample_incoming) ''x-auth-provider'' = Some ''local''"
    "map_of (in_headers sample_incoming) ''x-auth-subject'' = Some ''user-1''"
    "map_of (in_headers sample_incoming) ''x-session-id'' = Some ''session-1''"
    "map_of (in_headers sample_incoming) ''x-session-identity-id'' = None"
    "provided_claims sample_incoming = [(''role'', ''admin'')]"
    "split_once (CHR ''.'') (in_host sample_incoming) = Some (''tenant-a'', ''example.com'')"
    "in_auth_subject sample_incoming = None"
    by code_simp+
  have r: "resolve_claims sample_claims_contract [(''role'', ''admin'')] = Inr [(''role'', CEnum ''admin'')]"
    by (simp add: resolve_claims_def sample_claims_contract_def parameter_of_def trims
        parse_claim_value_def bkeys_def config_claim_def check_def)
  have d: "declares_provider sample_claims_contract ''local''"
    by (simp add: declares_provider_def sample_claims_contract_def sample_contract_def)
  show ?thesis
    unfolding injection_is_attested 
    by (rule exI [of _ "''tenant-a''"], rule exI [of _ "''user-1''"], rule exI [of _ "''session-1''"],
        rule exI [of _ "[(''role'', CEnum ''admin'')]"])
      (simp add: non_empty_header_def non_empty_def host_tenant_def h trims attests_def r d)
qed

end
