(* ===== verification/Ceremony.thy ===== *)
theory Ceremony
  imports Prelude
begin

text \<open>
  Recovery ceremonies (\<^verbatim>\<open>crates/boundary/src/ceremony.rs\<close>): one-time challenges by mail,
  and the mail port. A challenge is stored under the hash of its token. SHA-256 and the bytes
  drawn from the operating system are parameters: the hash is a function on strings, the bytes
  are an argument of \<open>issue\<close>.
\<close>

subsection \<open>The mail port\<close>

record MailMessage =
  mm_template :: string
  mm_identity :: string
  mm_to :: string
  mm_tenant :: string
  mm_variables :: "(string, string) bmap"
  mm_idempotency_key :: string

type_synonym MemoryMailPort = "MailMessage list"

definition memory_mail_send :: "MailMessage \<Rightarrow> (MemoryMailPort, string, unit) eff" where
  "memory_mail_send m = (\<lambda>s. (Inr (), s @ [m]))"

definition memory_mail_messages :: "MemoryMailPort \<Rightarrow> MailMessage list" where
  "memory_mail_messages s = s"

text \<open>What the boundary relies on of the port: a message that was accepted is sent, once.\<close>

locale mail_port =
  fixes send :: "MailMessage \<Rightarrow> ('m, string, unit) eff"
    and sent :: "'m \<Rightarrow> MailMessage list"
  assumes send_accepted: "send m s = (Inr (), s') \<Longrightarrow> sent s' = sent s @ [m]"
    and send_refused: "send m s = (Inl e, s') \<Longrightarrow> sent s' = sent s"
begin

lemma sent_grows: "\<exists>ms. sent (snd (send m s)) = sent s @ ms \<and> set ms \<subseteq> {m}"
proof (cases "send m s")
  case (Pair r s')
  then show ?thesis
    by (cases r) (auto dest: send_accepted send_refused)
qed

end

interpretation mem_mail: mail_port memory_mail_send memory_mail_messages
  by unfold_locales (auto simp: memory_mail_send_def memory_mail_messages_def)

subsection \<open>Challenges\<close>

datatype CeremonyKind = CeremonyPasswordReset | CeremonyEmailVerification

record Challenge =
  cl_kind :: CeremonyKind
  cl_tenant :: string
  cl_account :: string
  cl_expires_at :: int
  cl_consumed :: bool
  cl_revoked :: bool

type_synonym ChallengeStore = "(string, Challenge) bmap"

text \<open>\<^verbatim>\<open>{byte:02x}\<close> of every byte.\<close>

definition hex_token :: "string \<Rightarrow> string" where
  "hex_token bytes = concat (map (\<lambda>b. [hex_digit (of_char b div 16), hex_digit (of_char b mod 16)]) bytes)"

definition issue ::
  "(string \<Rightarrow> string) \<Rightarrow> string \<Rightarrow> CeremonyKind \<Rightarrow> string \<Rightarrow> string \<Rightarrow> int
   \<Rightarrow> (ChallengeStore, string, string) eff" where
  "issue sha bytes kind tenant account expires_at = (\<lambda>c.
     let token = hex_token bytes in
     (Inr token, binsert (sha token)
        \<lparr>cl_kind = kind, cl_tenant = tenant, cl_account = account, cl_expires_at = expires_at,
         cl_consumed = False, cl_revoked = False\<rparr> c))"

text \<open>
  The operation runs while the challenges are locked, so its state \<open>'s\<close> is that of the
  program without them.
\<close>

definition consume_with ::
  "(string \<Rightarrow> string) \<Rightarrow> string \<Rightarrow> CeremonyKind \<Rightarrow> int \<Rightarrow> (string \<Rightarrow> string \<Rightarrow> ('s, string, unit) eff)
   \<Rightarrow> (ChallengeStore \<times> 's, string, unit) eff" where
  "consume_with sha token kind now operation = (\<lambda>(c, s).
     case map_of c (sha token) of
       None \<Rightarrow> (Inl ''invalid recovery challenge'', (c, s))
     | Some e \<Rightarrow>
         if cl_kind e \<noteq> kind \<or> cl_revoked e \<or> cl_consumed e \<or> now \<ge> cl_expires_at e
         then (Inl ''invalid or expired recovery challenge'', (c, s))
         else (case operation (cl_tenant e) (cl_account e) s of
             (Inl err, s') \<Rightarrow> (Inl err, (c, s'))
           | (Inr _, s') \<Rightarrow> (Inr (), (binsert (sha token) (e\<lparr>cl_consumed := True\<rparr>) c, s'))))"

definition revoke_token :: "(string \<Rightarrow> string) \<Rightarrow> string \<Rightarrow> ChallengeStore \<Rightarrow> bool \<times> ChallengeStore" where
  "revoke_token sha token c = (case map_of c (sha token) of
     None \<Rightarrow> (False, c)
   | Some e \<Rightarrow> (True, binsert (sha token) (e\<lparr>cl_revoked := True\<rparr>) c))"

subsection \<open>A challenge is good for one use\<close>

text \<open>The challenges that \<open>consume_with\<close> accepts.\<close>

definition live :: "CeremonyKind \<Rightarrow> int \<Rightarrow> Challenge \<Rightarrow> bool" where
  "live kind now e \<longleftrightarrow>
     cl_kind e = kind \<and> \<not> cl_revoked e \<and> \<not> cl_consumed e \<and> now < cl_expires_at e"

lemma consume_with_cases:
  assumes "consume_with sha token kind now operation (c, s) = (r, (c', s'))"
  obtains (unknown) "map_of c (sha token) = None" "r = Inl ''invalid recovery challenge''" "c' = c" "s' = s"
  | (dead) e where "map_of c (sha token) = Some e" "\<not> live kind now e"
      "r = Inl ''invalid or expired recovery challenge''" "c' = c" "s' = s"
  | (failed) e err where "map_of c (sha token) = Some e" "live kind now e"
      "operation (cl_tenant e) (cl_account e) s = (Inl err, s')" "r = Inl err" "c' = c"
  | (consumed) e where "map_of c (sha token) = Some e" "live kind now e"
      "operation (cl_tenant e) (cl_account e) s = (Inr (), s')" "r = Inr ()"
      "c' = binsert (sha token) (e\<lparr>cl_consumed := True\<rparr>) c"
  using assms
  by (auto simp: consume_with_def live_def split: option.splits if_splits prod.splits sum.splits)

lemma sample_tokens: "hex_token [CHR 0x0A] = ''0a''" "hex_token [CHR 0x0B] = ''0b''"
  by code_simp+

text \<open>
  C40. The token of a challenge that was just issued works until it expires, for ceremonies of
  its kind: it runs the operation with the tenant and the account it was issued for. When the
  operation succeeds the token is spent, and no operation runs for it again, of any kind and at
  any time; when the operation fails the challenge stays as it is.
\<close>

theorem challenge_is_good_for_one_use:
  assumes "issue sha bytes kind tenant account expires_at c = (Inr token, c1)" "now < expires_at"
  shows "(\<forall>operation s err s'. operation tenant account s = (Inl err, s') \<longrightarrow>
         consume_with sha token kind now operation (c1, s) = (Inl err, (c1, s')))
    \<and> (\<forall>operation s s'. operation tenant account s = (Inr (), s') \<longrightarrow>
         (\<exists>c2. consume_with sha token kind now operation (c1, s) = (Inr (), (c2, s'))
           \<and> (\<forall>kind' now' operation' s2. consume_with sha token kind' now' operation' (c2, s2)
                = (Inl ''invalid or expired recovery challenge'', (c2, s2)))))"
proof -
  have e: "map_of c1 (sha token) = Some \<lparr>cl_kind = kind, cl_tenant = tenant, cl_account = account,
         cl_expires_at = expires_at, cl_consumed = False, cl_revoked = False\<rparr>"
    using assms(1) by (auto simp: issue_def Let_def)
  show ?thesis using assms(2) by (auto simp: e consume_with_def)
qed

theorem challenge_is_good_for_one_use_witness:
  "consume_with (\<lambda>t. t) ''0a'' CeremonyPasswordReset 5 (\<lambda>_ _ s. (Inr (), s + 1))
     (snd (issue (\<lambda>t. t) [CHR 0x0A] CeremonyPasswordReset ''acme'' ''alice'' 900 []), 0 :: nat)
   = (Inr (), ([(''0a'', \<lparr>cl_kind = CeremonyPasswordReset, cl_tenant = ''acme'', cl_account = ''alice'',
        cl_expires_at = 900, cl_consumed = True, cl_revoked = False\<rparr>)], 1))"
proof -
  have i: "issue (\<lambda>t. t) [CHR 0x0A] CeremonyPasswordReset ''acme'' ''alice'' 900 []
    = (Inr ''0a'', snd (issue (\<lambda>t. t) [CHR 0x0A] CeremonyPasswordReset ''acme'' ''alice'' 900 []))"
    by (simp add: issue_def Let_def sample_tokens)
  have "fst (consume_with (\<lambda>t. t) ''0a'' CeremonyPasswordReset 5 (\<lambda>_ _ s. (Inr (), s + 1))
     (snd (issue (\<lambda>t. t) [CHR 0x0A] CeremonyPasswordReset ''acme'' ''alice'' 900 []), 0 :: nat)) = Inr ()"
    using challenge_is_good_for_one_use [OF i, of 5, THEN conjunct2, rule_format,
      of "\<lambda>_ _ s. (Inr (), s + 1)" "0 :: nat" 1] by auto
  then show ?thesis
    by (simp add: consume_with_def issue_def Let_def sample_tokens)
qed

subsection \<open>Steps\<close>

text \<open>
  The challenges under any sequence of operations. Tokens are drawn so that their hashes are
  new, which is what 256 random bits and SHA-256 are relied on for.
\<close>

inductive challenge_step ::
  "(string \<Rightarrow> string) \<Rightarrow> ChallengeStore \<times> 's \<Rightarrow> ChallengeStore \<times> 's \<Rightarrow> bool" for sha where
  step_issue: "map_of c (sha (hex_token bytes)) = None \<Longrightarrow>
     challenge_step sha (c, s) (snd (issue sha bytes kind tenant account expires_at c), s)"
| step_consume: "challenge_step sha (c, s) (snd (consume_with sha token kind now operation (c, s)))"
| step_revoke: "challenge_step sha (c, s) (snd (revoke_token sha token c), s)"

text \<open>A challenge only ever becomes consumed or revoked, and is never forgotten.\<close>

definition ages_to :: "Challenge \<Rightarrow> Challenge \<Rightarrow> bool" where
  "ages_to e f \<longleftrightarrow> cl_kind f = cl_kind e \<and> cl_tenant f = cl_tenant e \<and> cl_account f = cl_account e
     \<and> cl_expires_at f = cl_expires_at e \<and> (cl_consumed e \<longrightarrow> cl_consumed f)
     \<and> (cl_revoked e \<longrightarrow> cl_revoked f)"

lemma ages_to_refl: "ages_to e e"
  by (simp add: ages_to_def)

lemma ages_to_trans: "ages_to e f \<Longrightarrow> ages_to f g \<Longrightarrow> ages_to e g"
  by (auto simp: ages_to_def)

lemma ages_to_spent: "ages_to e f \<Longrightarrow> \<not> live kind now e \<Longrightarrow> \<not> live kind now f"
  by (auto simp: ages_to_def live_def)

lemma challenge_step_ages:
  assumes "challenge_step sha t t'" "map_of (fst t) k = Some e"
  shows "\<exists>f. map_of (fst t') k = Some f \<and> ages_to e f"
  using assms(1)
proof cases
  case (step_issue c bytes s kind tenant account expires_at)
  then show ?thesis using assms(2) by (auto simp: issue_def Let_def intro: ages_to_refl)
next
  case (step_consume c s token kind now operation)
  obtain r c2 s2 where run: "consume_with sha token kind now operation (c, s) = (r, (c2, s2))"
    by (metis surj_pair)
  then have "fst t' = c2" using step_consume by simp
  with run show ?thesis
    using assms(2) step_consume(1)
    by (cases rule: consume_with_cases) (auto simp: ages_to_def)
next
  case (step_revoke c s token)
  then show ?thesis
    using assms(2) by (auto simp: revoke_token_def ages_to_def split: option.splits)
qed

text \<open>
  A challenge that was consumed or revoked, or that has expired, is not accepted again,
  whatever is issued, consumed or revoked afterwards: an attempt to use its token fails and
  changes nothing.
\<close>

theorem spent_challenge_stays_spent:
  assumes "(challenge_step sha)\<^sup>*\<^sup>* (c, s) (c', s')" "map_of c (sha token) = Some e" "\<not> live kind now e"
  shows "consume_with sha token kind now operation (c', s')
    = (Inl ''invalid or expired recovery challenge'', (c', s'))"
proof -
  have "\<exists>f. map_of (fst (c', s')) (sha token) = Some f \<and> ages_to e f"
    using assms(1)
  proof (induction rule: rtranclp_induct)
    case base
    then show ?case using assms(2) ages_to_refl by auto
  next
    case (step y z)
    then obtain f where f: "map_of (fst y) (sha token) = Some f" "ages_to e f" by blast
    obtain g where "map_of (fst z) (sha token) = Some g" "ages_to f g"
      using challenge_step_ages [OF step(2) f(1)] by blast
    then show ?case using ages_to_trans [OF f(2)] by blast
  qed
  then obtain f where f: "map_of c' (sha token) = Some f" "ages_to e f" by auto
  have "\<not> live kind now f" using ages_to_spent [OF f(2) assms(3)] .
  with f(1) show ?thesis by (auto simp: consume_with_def live_def)
qed

theorem spent_challenge_stays_spent_witness:
  "\<exists>c. fst (revoke_token (\<lambda>t. t) ''0a''
          (snd (issue (\<lambda>t. t) [CHR 0x0A] CeremonyEmailVerification ''acme'' ''alice'' 900 [])))
     \<and> c = snd (issue (\<lambda>t. t) [CHR 0x0B] CeremonyEmailVerification ''acme'' ''bob'' 900
         (snd (revoke_token (\<lambda>t. t) ''0a''
          (snd (issue (\<lambda>t. t) [CHR 0x0A] CeremonyEmailVerification ''acme'' ''alice'' 900 [])))))
     \<and> consume_with (\<lambda>t. t) ''0a'' CeremonyEmailVerification 5 (\<lambda>_ _ s. (Inr (), s)) (c, ())
       = (Inl ''invalid or expired recovery challenge'', (c, ()))"
proof -
  let ?c = "snd (revoke_token (\<lambda>t. t) ''0a''
          (snd (issue (\<lambda>t. t) [CHR 0x0A] CeremonyEmailVerification ''acme'' ''alice'' 900 [])))"
  let ?c' = "snd (issue (\<lambda>t. t) [CHR 0x0B] CeremonyEmailVerification ''acme'' ''bob'' 900 ?c)"
  have r: "fst (revoke_token (\<lambda>t. t) ''0a''
          (snd (issue (\<lambda>t. t) [CHR 0x0A] CeremonyEmailVerification ''acme'' ''alice'' 900 [])))"
    by (simp add: issue_def revoke_token_def Let_def sample_tokens)
  have e: "map_of ?c ''0a'' = Some \<lparr>cl_kind = CeremonyEmailVerification, cl_tenant = ''acme'',
      cl_account = ''alice'', cl_expires_at = 900, cl_consumed = False, cl_revoked = True\<rparr>"
    by (simp add: issue_def revoke_token_def Let_def sample_tokens)
  have "map_of ?c (hex_token [CHR 0x0B]) = None" by (simp add: issue_def revoke_token_def Let_def sample_tokens)
  then have "(challenge_step (\<lambda>t. t))\<^sup>*\<^sup>* (?c, ()) (?c', ())"
    by (intro r_into_rtranclp step_issue) simp
  from spent_challenge_stays_spent [OF this e] r show ?thesis by (simp add: live_def)
qed

end
