(* ===== verification/Boundary.thy ===== *)
theory Boundary
  imports Control Ceremony MeshSessions
begin

text \<open>
  The application boundary (\<^verbatim>\<open>crates/boundary/src\<close>: \<^verbatim>\<open>boundary.rs\<close>,
  \<^verbatim>\<open>context.rs\<close> and the authority operations of \<^verbatim>\<open>runtime.rs\<close>): the
  authoritative context of a request and its projection for a browser, the state of the
  runtime, and the one path on which a request is authenticated and authorized against what a
  route requires.

  The state \<open>Runtime\<close> extends \<open>Control\<close> (contract, live authority, proposals) with
  the mesh, the challenges and the mail port. Readings of the injected clock and the bytes
  drawn from the operating system are streams in the state. The mail port is a trait object,
  like the audit log: its state has the type \<open>'m\<close>, its \<^verbatim>\<open>send\<close> is a parameter.
\<close>

subsection \<open>Contexts\<close>

record DelegationContext =
  dx_delegation :: Delegation
  dx_delegated_by :: PrincipalId

definition delegation_context_new :: "Delegation \<Rightarrow> DelegationContext" where
  "delegation_context_new d = \<lparr>dx_delegation = d, dx_delegated_by = d_delegator d\<rparr>"

record AuthContext =
  ax_principal :: Principal
  ax_tenant :: TenantContext
  ax_session :: Session
  ax_claims :: Claims
  ax_capabilities :: CapabilityEnvelope
  ax_decision :: "AuthorizationDecision option"
  ax_delegation :: "DelegationContext option"
  ax_runtime :: RuntimeContext

definition auth_context_new :: "Session \<Rightarrow> RuntimeContext \<Rightarrow> AuthContext" where
  "auth_context_new session rc = \<lparr>ax_principal = c_principal rc, ax_tenant = c_tenant rc,
     ax_session = session, ax_claims = c_claims rc, ax_capabilities = c_capabilities rc,
     ax_decision = None, ax_delegation = map_option delegation_context_new (c_delegation rc),
     ax_runtime = rc\<rparr>"

definition with_decision :: "AuthorizationDecision \<Rightarrow> AuthContext \<Rightarrow> AuthContext" where
  "with_decision d x = x\<lparr>ax_decision := Some d\<rparr>"

definition is_agent :: "AuthContext \<Rightarrow> bool" where
  "is_agent x \<longleftrightarrow> p_kind (ax_principal x) = Agent"

definition delegated_by :: "AuthContext \<Rightarrow> PrincipalId option" where
  "delegated_by x = map_option dx_delegated_by (ax_delegation x)"

definition context_holds :: "AuthContext \<Rightarrow> Capability \<Rightarrow> bool" where
  "context_holds x cap = envelope_allows (ax_capabilities x) cap"

definition context_credential :: "AuthContext \<Rightarrow> SessionCredential" where
  "context_credential x = \<lparr>sc_tenant_id = t_id (ax_tenant x), sc_session_id = s_id (ax_session x)\<rparr>"

text \<open>What a browser is given.\<close>

record ClientDelegation =
  xd_id :: string
  xd_delegated_by :: string
  xd_capabilities :: "string list"

record ClientAuthContext =
  xc_authenticated :: bool
  xc_principal_id :: string
  xc_principal_kind :: string
  xc_tenant_id :: string
  xc_claims :: "(string \<times> string) list"
  xc_capabilities :: "string list"
  xc_session_expires_at :: int
  xc_delegation :: "ClientDelegation option"

definition boundary_principal_kind_str :: "PrincipalKind \<Rightarrow> string" where
  "boundary_principal_kind_str k = (case k of Human \<Rightarrow> ''human'' | Agent \<Rightarrow> ''agent'' | Service \<Rightarrow> ''service'')"

definition claim_string :: "ClaimValue \<Rightarrow> string" where
  "claim_string v = (case v of CEnum x \<Rightarrow> x | CString x \<Rightarrow> x | CInteger i \<Rightarrow> show_int i
     | CBoolean b \<Rightarrow> show_bool b)"

definition project :: "AuthContext \<Rightarrow> ClientAuthContext" where
  "project x = \<lparr>xc_authenticated = True, xc_principal_id = p_id (ax_principal x),
     xc_principal_kind = boundary_principal_kind_str (p_kind (ax_principal x)),
     xc_tenant_id = t_id (ax_tenant x),
     xc_claims = map (\<lambda>(n, v). (n, claim_string v)) (ax_claims x),
     xc_capabilities = envelope_capabilities (ax_capabilities x),
     xc_session_expires_at = s_expires_at (ax_session x),
     xc_delegation = map_option (\<lambda>d. \<lparr>xd_id = d_id (dx_delegation d),
        xd_delegated_by = dx_delegated_by d,
        xd_capabilities = d_capabilities (dx_delegation d)\<rparr>) (ax_delegation x)\<rparr>"

definition replace_char :: "char \<Rightarrow> string \<Rightarrow> string \<Rightarrow> string" where
  "replace_char c r s = concat (map (\<lambda>x. if x = c then r else [x]) s)"

definition escape :: "string \<Rightarrow> string" where
  "escape v = replace_char (CHR 0x22) [CHR 0x5C, CHR 0x22] (replace_char (CHR 0x5C) [CHR 0x5C, CHR 0x5C] v)"

definition quoted :: "string \<Rightarrow> string" where
  "quoted v = [CHR 0x22] @ escape v @ [CHR 0x22]"

text \<open>A name of the surrounding JSON, which is not escaped.\<close>

definition json_key :: "string \<Rightarrow> string" where
  "json_key k = [CHR 0x22] @ k @ [CHR 0x22] @ '': ''"

definition client_to_json :: "ClientAuthContext \<Rightarrow> string" where
  "client_to_json x =
     (let claims = join '', '' (map (\<lambda>(n, v). quoted n @ '': '' @ quoted v) (xc_claims x));
          capabilities = join '', '' (map quoted (xc_capabilities x));
          delegation = (case xc_delegation x of
              Some d \<Rightarrow> ''{'' @ json_key ''id'' @ quoted (xd_id d) @ '', ''
                @ json_key ''delegated_by'' @ quoted (xd_delegated_by d) @ '', ''
                @ json_key ''capabilities'' @ ''['' @ join '', '' (map quoted (xd_capabilities d)) @ '']}''
            | None \<Rightarrow> ''null'')
      in ''{'' @ json_key ''authenticated'' @ show_bool (xc_authenticated x) @ '', ''
         @ json_key ''principal'' @ ''{'' @ json_key ''id'' @ quoted (xc_principal_id x) @ '', ''
         @ json_key ''kind'' @ quoted (xc_principal_kind x) @ ''}, ''
         @ json_key ''tenant'' @ ''{'' @ json_key ''id'' @ quoted (xc_tenant_id x) @ ''}, ''
         @ json_key ''claims'' @ ''{'' @ claims @ ''}, ''
         @ json_key ''capabilities'' @ ''['' @ capabilities @ ''], ''
         @ json_key ''session'' @ ''{'' @ json_key ''expires_at'' @ show_int (xc_session_expires_at x) @ ''}, ''
         @ json_key ''delegation'' @ delegation @ ''}'')"

definition anonymous_json :: string where
  "anonymous_json = ''{'' @ json_key ''authenticated'' @ ''false, '' @ json_key ''principal'' @ ''null, ''
     @ json_key ''tenant'' @ ''null, '' @ json_key ''claims'' @ ''{}, '' @ json_key ''capabilities'' @ ''[], ''
     @ json_key ''session'' @ ''null, '' @ json_key ''delegation'' @ ''null}''"

subsection \<open>The runtime\<close>

datatype BindingMode = Embedded | Standalone

definition binding_mode_as_str :: "BindingMode \<Rightarrow> string" where
  "binding_mode_as_str m = (case m of Embedded \<Rightarrow> ''embedded'' | Standalone \<Rightarrow> ''standalone'')"

datatype RegistrationPolicy = RegistrationClosed | SelfService "(string, string) bmap"

definition self_service :: "(string \<times> string) list \<Rightarrow> RegistrationPolicy" where
  "self_service claims = SelfService (bcollect claims)"

datatype SignInOutcome =
    Authenticated AuthContext SessionCredential
  | Challenged AuthChallenge

record EffectivePasswordPolicy =
  ep_policy :: PasswordPolicy
  ep_authority_revision :: u64
  ep_contract_fingerprint :: string
  ep_policy_revision :: u64

datatype Requirement = PublicRoute | AuthenticatedRoute | CapabilityRoute string

definition requirement_is_public :: "Requirement \<Rightarrow> bool" where
  "requirement_is_public r \<longleftrightarrow> r = PublicRoute"

definition requirement_describe :: "Requirement \<Rightarrow> string" where
  "requirement_describe r = (case r of PublicRoute \<Rightarrow> ''public''
     | AuthenticatedRoute \<Rightarrow> ''authenticated'' | CapabilityRoute c \<Rightarrow> c)"

type_synonym ResourceResolver = "ResourceRef \<Rightarrow> AuthorizationContext \<Rightarrow> ResourceAttributes"

definition no_resource_resolver :: ResourceResolver where
  "no_resource_resolver resource ctx = with_tenant resource_attributes_new (rr_tenant_id resource)"

record ('l, 'm) Runtime = Control +
  rt_mesh :: "'l Mesh"
  rt_mode :: BindingMode
  rt_resolver :: ResourceResolver
  rt_registration :: RegistrationPolicy
  rt_mail :: "'m option"
  rt_challenges :: ChallengeStore
  rt_clock :: "nat \<Rightarrow> int"
  rt_clock_reads :: nat
  rt_random :: "nat \<Rightarrow> string"
  rt_random_reads :: nat

record ('l, 'm) Outside =
  ou_env :: "'l Env"
  ou_send :: "MailMessage \<Rightarrow> ('m, string, unit) eff"
  ou_sha256 :: "string \<Rightarrow> string"

text \<open>
  \<^verbatim>\<open>AuthPortRuntime::new\<close>: the mesh is built over the same contract. The streams are what
  the clocks and the random source will return.
\<close>

definition runtime_new ::
  "AuthConfig \<Rightarrow> ConnectorRegistry \<Rightarrow> MemoryTenantRoot \<Rightarrow> MemoryPolicyStore \<Rightarrow> 'l \<Rightarrow> BindingMode
   \<Rightarrow> 'm \<Rightarrow> (nat \<Rightarrow> nat) \<Rightarrow> (nat \<Rightarrow> int) \<Rightarrow> (nat \<Rightarrow> string) \<Rightarrow> AuthError + ('l, 'm) Runtime" where
  "runtime_new cfg reg tenants policies log mode mail system_clock clock random =
     rbind (mesh_new cfg reg tenants policies log) (\<lambda>mesh.
     Inr \<lparr>ct_contract = cfg, ct_authority = live_authority_new, ct_proposals = proposal_store_new,
       ct_clock = system_clock, ct_clock_reads = 0,
       rt_mesh = mesh, rt_mode = mode, rt_resolver = no_resource_resolver,
       rt_registration = RegistrationClosed, rt_mail = Some mail, rt_challenges = [],
       rt_clock = clock, rt_clock_reads = 0, rt_random = random, rt_random_reads = 0\<rparr>)"

definition with_resource_resolver :: "ResourceResolver \<Rightarrow> ('l, 'm) Runtime \<Rightarrow> ('l, 'm) Runtime" where
  "with_resource_resolver r s = s\<lparr>rt_resolver := r\<rparr>"

definition with_registration :: "RegistrationPolicy \<Rightarrow> ('l, 'm) Runtime \<Rightarrow> ('l, 'm) Runtime" where
  "with_registration r s = s\<lparr>rt_registration := r\<rparr>"

definition runtime_with_session_ttl :: "int \<Rightarrow> ('l, 'm) Runtime \<Rightarrow> ('l, 'm) Runtime" where
  "runtime_with_session_ttl seconds s = s\<lparr>rt_mesh := with_session_ttl seconds (rt_mesh s)\<rparr>"

text \<open>\<^verbatim>\<open>self.now()\<close>.\<close>

definition now :: "(('l, 'm) Runtime, 'e, int) eff" where
  "now = (\<lambda>s. (Inr (rt_clock s (rt_clock_reads s)), s\<lparr>rt_clock_reads := rt_clock_reads s + 1\<rparr>))"

definition on_mesh :: "('l Mesh, AuthError, 'a) eff \<Rightarrow> (('l, 'm) Runtime, AuthError, 'a) eff" where
  "on_mesh m = zoom rt_mesh (\<lambda>c s. s\<lparr>rt_mesh := c\<rparr>) m"

text \<open>An operation of the mesh that always answers.\<close>

definition deciding :: "('l Mesh \<Rightarrow> 'a \<times> 'l Mesh) \<Rightarrow> (('l, 'm) Runtime, AuthError, 'a) eff" where
  "deciding f = on_mesh (\<lambda>m. case f m of (x, m') \<Rightarrow> (Inr x, m'))"

definition runtime_audit_events ::
  "('l, 'm) Outside \<Rightarrow> TenantContext \<Rightarrow> int option \<Rightarrow> nat \<Rightarrow> ('l, 'm) Runtime \<Rightarrow> AuthError + AuditEvent list"
where
  "runtime_audit_events out t since limit s = mesh_audit_events (ou_env out) t since limit (rt_mesh s)"

definition effective_password_policy :: "('l, 'm) Runtime \<Rightarrow> EffectivePasswordPolicy" where
  "effective_password_policy s = \<lparr>ep_policy = (case lv_password_policy (ct_authority s) of
        Some p \<Rightarrow> p | None \<Rightarrow> cf_password_policy (ct_contract s)),
     ep_authority_revision = lv_revision (ct_authority s),
     ep_contract_fingerprint = fingerprint (ct_contract s),
     ep_policy_revision = lv_revision (ct_authority s)\<rparr>"

subsection \<open>Authentication and authorization of requests\<close>

definition authenticate ::
  "('l, 'm) Outside \<Rightarrow> BoundaryRequest \<Rightarrow> (('l, 'm) Runtime, AuthError, AuthContext) eff" where
  "authenticate out rq =
     andThen (reading (\<lambda>_. ok_or (auth_error SessionValidation ''no session credential'' MissingCredential)
       (credential rq))) (\<lambda>c.
     andThen now (\<lambda>t.
     andThen (reading (\<lambda>s. resolve_session (ou_env out) (sc_tenant_id c) (sc_session_id c) t (rt_mesh s)))
       (\<lambda>(session, rc).
     andThen (require (case tenant_hint rq of Some hint \<Rightarrow> hint = t_id (c_tenant rc) | None \<Rightarrow> True)
       (auth_error TenantResolution ''request addresses a tenant the session does not belong to''
          TenantMismatch)) (\<lambda>_.
     ok (auth_context_new session rc)))))"

definition no_capability_named :: AuthError where
  "no_capability_named = auth_error PolicyEvaluation ''no capability named'' UnknownCapability"

definition boundary_authorize ::
  "('l, 'm) Outside \<Rightarrow> AuthContext \<Rightarrow> string \<Rightarrow> (('l, 'm) Runtime, AuthError, AuthorizationDecision) eff"
where
  "boundary_authorize out x cap =
     andThen (require (trim cap \<noteq> []) no_capability_named) (\<lambda>_.
     andThen (reading (\<lambda>s. Inr (map_of (lv_capability_policies (ct_authority s)) cap))) (\<lambda>override.
     andThen now (\<lambda>t. case override of
       Some pol \<Rightarrow> ok (evaluate_capability (env_clock (ou_env out)) (Some pol) (Some (ax_principal x))
         (Some (ax_tenant x)) (map_option dx_delegation (ax_delegation x)) cap t)
     | None \<Rightarrow>
         andThen (reading (\<lambda>s. Inr (lv_revision (live_authority s)))) (\<lambda>revision.
         deciding (authorize_with_authority_revision (ou_env out) (ax_runtime x) cap t revision)))))"

definition resolved_attributes ::
  "AuthorizationRequest \<Rightarrow> ('l, 'm) Runtime \<Rightarrow> ResourceAttributes option" where
  "resolved_attributes rq s = map_option (\<lambda>r. rt_resolver s r (rq_context rq)) (rq_resource rq)"

definition authorize_resource ::
  "('l, 'm) Outside \<Rightarrow> AuthContext \<Rightarrow> AuthorizationRequest
   \<Rightarrow> (('l, 'm) Runtime, AuthError, AuthorizationDecision) eff" where
  "authorize_resource out x rq =
     andThen (require (trim (rq_capability rq) \<noteq> []) no_capability_named) (\<lambda>_.
     andThen (reading (\<lambda>s. Inr (resolved_attributes rq s))) (\<lambda>attrs.
     andThen now (\<lambda>t.
     andThen (reading (\<lambda>s. Inr (lv_revision (live_authority s)))) (\<lambda>revision.
     deciding (authorize_request_with_authority_revision (ou_env out) (ax_runtime x) rq attrs t revision)))))"

definition authorize_run_resource ::
  "('l, 'm) Outside \<Rightarrow> AuthContext \<Rightarrow> RunId \<Rightarrow> AuthorizationRequest
   \<Rightarrow> (('l, 'm) Runtime, AuthError, AuthorizationDecision) eff" where
  "authorize_run_resource out x i rq =
     andThen (require (trim (rq_capability rq) \<noteq> []) no_capability_named) (\<lambda>_.
     andThen (reading (\<lambda>s. Inr (resolved_attributes rq s))) (\<lambda>attrs.
     andThen now (\<lambda>t.
     andThen (reading (\<lambda>s. Inr (lv_revision (live_authority s)))) (\<lambda>revision.
     deciding (authorize_run_request_with_authority_revision (ou_env out) (ax_runtime x) i rq attrs t
       revision)))))"

subsection \<open>Runs\<close>

definition runtime_create_agent_run ::
  "('l, 'm) Outside \<Rightarrow> string \<Rightarrow> PrincipalId \<Rightarrow> RunCreationRequest \<Rightarrow> (('l, 'm) Runtime, AuthError, AgentRun) eff"
where
  "runtime_create_agent_run out tid agent rq =
     andThen now (\<lambda>t.
     andThen (reading (\<lambda>s. Inr (lv_revision (live_authority s), fingerprint (ct_contract s))))
       (\<lambda>(revision, fp). on_mesh (create_agent_run (ou_env out) tid agent rq t revision fp)))"

definition runtime_agent_runs ::
  "string \<Rightarrow> PrincipalId \<Rightarrow> ('l, 'm) Runtime \<Rightarrow> AuthError + AgentRun list" where
  "runtime_agent_runs tid agent s =
     rbind (tenant tid (rt_mesh s)) (\<lambda>t. Inr (agent_runs t agent (rt_mesh s)))"

definition runtime_agent_run ::
  "string \<Rightarrow> RunId \<Rightarrow> ('l, 'm) Runtime \<Rightarrow> AuthError + AgentRun option" where
  "runtime_agent_run tid i s = rbind (tenant tid (rt_mesh s)) (\<lambda>t. agent_run t i (rt_mesh s))"

definition runtime_agent_run_by_credential ::
  "string \<Rightarrow> ExecutionCredentialId \<Rightarrow> ('l, 'm) Runtime \<Rightarrow> AuthError + AgentRun option" where
  "runtime_agent_run_by_credential tid c s =
     rbind (tenant tid (rt_mesh s)) (\<lambda>t. Inr (agent_run_by_credential t c (rt_mesh s)))"

definition runtime_cancel_agent_run ::
  "('l, 'm) Outside \<Rightarrow> string \<Rightarrow> RunId \<Rightarrow> (('l, 'm) Runtime, AuthError, AgentRun) eff" where
  "runtime_cancel_agent_run out tid i =
     andThen now (\<lambda>t. on_mesh (cancel_agent_run (ou_env out) tid i t))"

definition run_id_from_request ::
  "AuthContext \<Rightarrow> BoundaryRequest \<Rightarrow> ('l, 'm) Runtime \<Rightarrow> AuthError + RunId option" where
  "run_id_from_request x rq s = (case field ''run_id'' rq of
     Some i \<Rightarrow> Inr (Some i)
   | None \<Rightarrow>
       (case (case field ''execution_credential'' rq of Some c \<Rightarrow> Some c
              | None \<Rightarrow> field ''run_credential'' rq) of
          None \<Rightarrow> Inr None
        | Some c \<Rightarrow>
            rbind (runtime_agent_run_by_credential (t_id (ax_tenant x)) c s) (\<lambda>mr.
            rbind (ok_or (auth_error PolicyEvaluation ''run credential was not found'' RunNotFound) mr)
              (\<lambda>r. Inr (Some (r_id r))))))"

subsection \<open>What a request targets\<close>

definition trim_slashes :: "string \<Rightarrow> string" where
  "trim_slashes s = rev (dropWhile (\<lambda>c. c = CHR ''/'') (rev (dropWhile (\<lambda>c. c = CHR ''/'') s)))"

fun split_on :: "char \<Rightarrow> string \<Rightarrow> string list" where
  "split_on c [] = [[]]"
| "split_on c (x # xs) = (case split_on c xs of
     [] \<Rightarrow> [[x]] | w # ws \<Rightarrow> (if x = c then [] # w # ws else (x # w) # ws))"

definition path_segments :: "string \<Rightarrow> string list" where
  "path_segments path = filter (\<lambda>w. w \<noteq> []) (split_on (CHR ''/'') (trim_slashes path))"

definition singular_resource :: "string \<Rightarrow> string" where
  "singular_resource r = (case strip_suffix ''ies'' r of
     Some prefix \<Rightarrow> prefix @ ''y''
   | None \<Rightarrow> (case strip_suffix ''s'' r of Some prefix \<Rightarrow> prefix | None \<Rightarrow> r))"

definition method_action :: "Method \<Rightarrow> string option" where
  "method_action m = (case m of Get \<Rightarrow> Some ''read'' | Post \<Rightarrow> Some ''create'' | Put \<Rightarrow> Some ''update''
     | Patch \<Rightarrow> Some ''update'' | Delete \<Rightarrow> Some ''delete'' | Head \<Rightarrow> None | Options \<Rightarrow> None)"

definition infer_resource_target :: "Method \<Rightarrow> string \<Rightarrow> (string \<times> string \<times> Action) option" where
  "infer_resource_target m path = (case path_segments path of
     [] \<Rightarrow> None
   | seg # rest \<Rightarrow>
       if seg = ''auth'' \<or> seg = ''_authport'' then None
       else map_option (\<lambda>action. (singular_resource seg, (case rest of [] \<Rightarrow> ''*'' | i # _ \<Rightarrow> i), action))
         (method_action m))"

definition authorization_request ::
  "RuntimeContext \<Rightarrow> string \<Rightarrow> BoundaryRequest \<Rightarrow> AuthorizationRequest option" where
  "authorization_request rc cap rq =
     map_option (\<lambda>(ty, i, action). \<lparr>rq_principal = p_id (c_principal rc), rq_tenant = t_id (c_tenant rc),
        rq_capability = cap, rq_action = action,
        rq_resource = Some \<lparr>rr_resource_type = ty, rr_resource_id = i, rr_tenant_id = t_id (c_tenant rc)\<rparr>,
        rq_context = authorization_context_default\<rparr>)
       (infer_resource_target (br_method rq) (br_path rq))"

subsection \<open>Enforcement\<close>

definition decide_request ::
  "('l, 'm) Outside \<Rightarrow> AuthContext \<Rightarrow> string \<Rightarrow> BoundaryRequest
   \<Rightarrow> (('l, 'm) Runtime, AuthError, AuthorizationDecision) eff" where
  "decide_request out x cap rq = (case authorization_request (ax_runtime x) cap rq of
     Some arq \<Rightarrow>
       andThen (reading (run_id_from_request x rq)) (\<lambda>run. case run of
         Some i \<Rightarrow> authorize_run_resource out x i arq
       | None \<Rightarrow> authorize_resource out x arq)
   | None \<Rightarrow> boundary_authorize out x cap)"

definition enforce ::
  "('l, 'm) Outside \<Rightarrow> BoundaryRequest \<Rightarrow> Requirement \<Rightarrow> (('l, 'm) Runtime, AuthError, AuthContext option) eff"
where
  "enforce out rq requirement = (case requirement of
     PublicRoute \<Rightarrow> (\<lambda>s. case authenticate out rq s of
         (Inr x, s') \<Rightarrow> (Inr (Some x), s') | (Inl _, s') \<Rightarrow> (Inr None, s'))
   | AuthenticatedRoute \<Rightarrow> andThen (authenticate out rq) (\<lambda>x. ok (Some x))
   | CapabilityRoute cap \<Rightarrow>
       andThen (authenticate out rq) (\<lambda>x.
       andThen (decide_request out x cap rq) (\<lambda>d. case d of
         Allow _ _ _ _ _ _ \<Rightarrow> ok (Some (with_decision d x))
       | Deny reason _ _ _ _ _ _ _ \<Rightarrow> fail (auth_error PolicyEvaluation
           (in_backticks cap @ '' is not granted to this principal'') reason))))"

end
