(* ===== verification/Http.thy ===== *)
theory Http
  imports Boundary Utf8
begin

text \<open>
  HTTP messages (\<^verbatim>\<open>crates/server/src/http.rs\<close>, and the encoders of
  \<^verbatim>\<open>proxy.rs\<close> that send a request on): from bytes to the request the boundary
  consumes, forms, flat JSON, and responses. A connection is the bytes it delivers.
\<close>

subsection \<open>UTF-8\<close>

text \<open>
  The length of a sequence by its first byte, and the range of the second byte; the other bytes
  are continuation bytes.
\<close>

definition utf8_lead :: "char \<Rightarrow> (nat \<times> nat \<times> nat) option" where
  "utf8_lead c = (let b = (of_char c :: nat) in
     if b < 128 then Some (1, 0, 0)
     else if 194 \<le> b \<and> b \<le> 223 then Some (2, 128, 191)
     else if b = 224 then Some (3, 160, 191)
     else if b = 237 then Some (3, 128, 159)
     else if 225 \<le> b \<and> b \<le> 239 then Some (3, 128, 191)
     else if b = 240 then Some (4, 144, 191)
     else if 241 \<le> b \<and> b \<le> 243 then Some (4, 128, 191)
     else if b = 244 then Some (4, 128, 143)
     else None)"

text \<open>How many bytes the first character takes, or as many as begin one; and whether it is one.\<close>

definition utf8_first :: "char \<Rightarrow> string \<Rightarrow> nat \<times> bool" where
  "utf8_first b bs = (case utf8_lead b of
     None \<Rightarrow> (1, False)
   | Some (n, lo, hi) \<Rightarrow>
       let m = (if n = 1 then 1 else case bs of
           [] \<Rightarrow> 1
         | c # cs \<Rightarrow> if lo \<le> (of_char c :: nat) \<and> (of_char c :: nat) \<le> hi
             then 2 + length (takeWhile continuation (take (n - 2) cs)) else 1)
       in (m, m = n))"

definition replacement :: string where
  "replacement = [CHR 0xEF, CHR 0xBF, CHR 0xBD]"

lemma utf8_first_pos: "0 < fst (utf8_first b bs)"
  by (auto simp: utf8_first_def Let_def split: option.split list.split)

text \<open>\<^verbatim>\<open>String::from_utf8_lossy\<close>, and \<^verbatim>\<open>from_utf8(..).is_ok()\<close>.\<close>

function utf8_lossy :: "string \<Rightarrow> string" where
  "utf8_lossy [] = []"
| "utf8_lossy (b # bs) =
     (if snd (utf8_first b bs) then take (fst (utf8_first b bs)) (b # bs) else replacement)
     @ utf8_lossy (drop (fst (utf8_first b bs)) (b # bs))"
  by pat_completeness auto
termination
  by (relation "measure length") (use utf8_first_pos in \<open>auto simp: Suc_le_eq\<close>)

function utf8_valid :: "string \<Rightarrow> bool" where
  "utf8_valid [] \<longleftrightarrow> True"
| "utf8_valid (b # bs) \<longleftrightarrow> snd (utf8_first b bs) \<and> utf8_valid (drop (fst (utf8_first b bs)) (b # bs))"
  by pat_completeness auto
termination
  by (relation "measure length") (use utf8_first_pos in \<open>auto simp: Suc_le_eq\<close>)

subsection \<open>Forms and targets\<close>

definition hex_value :: "char \<Rightarrow> nat option" where
  "hex_value c = (let b = (of_char c :: nat) in
     if 48 \<le> b \<and> b \<le> 57 then Some (b - 48)
     else if 65 \<le> b \<and> b \<le> 70 then Some (b - 55)
     else if 97 \<le> b \<and> b \<le> 102 then Some (b - 87)
     else None)"

definition hex_byte :: "char \<Rightarrow> char \<Rightarrow> char option" where
  "hex_byte h l = Option.bind (hex_value h) (\<lambda>x. map_option (\<lambda>y. char_of (16 * x + y)) (hex_value l))"

function decode_bytes :: "string \<Rightarrow> string" where
  "decode_bytes [] = []"
| "decode_bytes (c # cs) =
     (if c = CHR ''%'' \<and> 2 \<le> length cs then
        (case hex_byte (cs ! 0) (cs ! 1) of
           Some b \<Rightarrow> b # decode_bytes (drop 2 cs) | None \<Rightarrow> c # decode_bytes cs)
      else c # decode_bytes cs)"
  by pat_completeness auto
termination
  by (relation "measure length") auto

definition percent_decode :: "string \<Rightarrow> string" where
  "percent_decode s = utf8_lossy (decode_bytes (replace_char (CHR ''+'') '' '' s))"

definition parse_form :: "string \<Rightarrow> (string, string) bmap" where
  "parse_form s = bcollect (map (\<lambda>(n, v). (percent_decode n, percent_decode v))
     (List.map_filter (split_once (CHR ''='')) (filter (\<lambda>p. trim p \<noteq> []) (split_on (CHR ''&'') s))))"

definition split_target :: "string \<Rightarrow> string \<times> (string, string) bmap" where
  "split_target target = (case split_once (CHR ''?'') target of
     Some (path, query) \<Rightarrow> (path, parse_form query) | None \<Rightarrow> (target, []))"

definition parse_cookies :: "string \<Rightarrow> (string, string) bmap" where
  "parse_cookies v = bcollect (map (\<lambda>(n, x). (trim n, trim x))
     (List.map_filter (\<lambda>pair. split_once (CHR ''='') (trim pair)) (split_on (CHR '';'') v)))"

subsection \<open>Flat JSON\<close>

definition dquote :: string where "dquote = [CHR 0x22]"
definition backslash :: string where "backslash = [CHR 0x5C]"

text \<open>A string after its opening quotation mark.\<close>

fun read_json_string :: "string list \<Rightarrow> string \<times> string list" where
  "read_json_string [] = ([], [])"
| "read_json_string [c] = (if c = dquote then ([], []) else (c, []))"
| "read_json_string (c # d # ds) =
     (if c = backslash then
        (case read_json_string ds of (v, r) \<Rightarrow>
          ((if d = ''n'' then [CHR 0x0A] else if d = ''t'' then [CHR 0x09] else d) @ v, r))
      else if c = dquote then ([], d # ds)
      else (case read_json_string (d # ds) of (v, r) \<Rightarrow> (c @ v, r)))"

definition opens :: "string \<Rightarrow> bool" where "opens c \<longleftrightarrow> c = ''{'' \<or> c = ''[''"
definition closes :: "string \<Rightarrow> bool" where "closes c \<longleftrightarrow> c = ''}'' \<or> c = '']''"

text \<open>The rest after a nested value.\<close>

fun skip_nested :: "nat \<Rightarrow> string list \<Rightarrow> string list" where
  "skip_nested n [] = []"
| "skip_nested n (c # cs) =
     (if opens c then skip_nested (n + 1) cs
      else if closes c then (if n = 1 then cs else skip_nested (n - 1) cs)
      else skip_nested n cs)"

definition json_plain :: "string \<Rightarrow> bool" where
  "json_plain c \<longleftrightarrow> c \<noteq> '','' \<and> c \<noteq> ''}'' \<and> c \<noteq> '']''"

definition skip_white :: "string list \<Rightarrow> string list" where
  "skip_white = dropWhile (\<lambda>c. c \<in> set white_space)"

lemma read_json_string_length: "length (snd (read_json_string cs)) \<le> length cs"
  by (induction cs rule: read_json_string.induct) (auto split: prod.split)

lemma skip_nested_length: "length (skip_nested n cs) \<le> length cs"
  by (induction n cs rule: skip_nested.induct) (auto intro: le_SucI)

lemma skip_white_length: "length (skip_white cs) \<le> length cs"
  by (simp add: skip_white_def length_dropWhile_le)

text \<open>The entries in the order they appear; \<open>d\<close> is the depth of nesting.\<close>

function json_entries :: "nat \<Rightarrow> string list \<Rightarrow> (string \<times> string) list" where
  "json_entries d [] = []"
| "json_entries d (c # cs) =
     (if opens c then json_entries (d + 1) cs
      else if closes c then json_entries (d - 1) cs
      else if c = dquote \<and> d = 1 then
        (let key = fst (read_json_string cs); rest = skip_white (snd (read_json_string cs)) in
         if rest = [] \<or> hd rest \<noteq> '':'' then json_entries d rest
         else (let v = skip_white (tl rest) in
           if v = [] then []
           else if hd v = dquote
           then (key, fst (read_json_string (tl v))) # json_entries d (snd (read_json_string (tl v)))
           else if opens (hd v) then json_entries d (skip_nested 0 v)
           else (key, trim (concat (takeWhile json_plain v))) # json_entries d (dropWhile json_plain v)))
      else json_entries d cs)"
  by pat_completeness auto
termination
proof (relation "measure (\<lambda>(d, cs). length cs)", simp, goal_cases)
  case (3 d c cs key rest)
  then show ?case using read_json_string_length [of cs] skip_white_length [of "snd (read_json_string cs)"] by simp
next
  case (4 d c cs key rest v)
  have "length rest \<le> length cs" "length v \<le> length (tl rest)"
    using 4 read_json_string_length [of cs] skip_white_length [of "snd (read_json_string cs)"]
      skip_white_length [of "tl rest"] by auto
  moreover have "length (snd (read_json_string (tl v))) \<le> length (tl v)" by (rule read_json_string_length)
  ultimately show ?case by simp
next
  case (5 d c cs key rest v)
  have "length rest \<le> length cs" "length v \<le> length (tl rest)"
    using 5 read_json_string_length [of cs] skip_white_length [of "snd (read_json_string cs)"]
      skip_white_length [of "tl rest"] by auto
  moreover have "length (skip_nested 0 v) \<le> length v" by (rule skip_nested_length)
  ultimately show ?case by simp
next
  case (6 d c cs key rest v)
  have "length rest \<le> length cs" "length v \<le> length (tl rest)"
    using 6 read_json_string_length [of cs] skip_white_length [of "snd (read_json_string cs)"]
      skip_white_length [of "tl rest"] by auto
  moreover have "length (dropWhile json_plain v) \<le> length v" by (rule length_dropWhile_le)
  ultimately show ?case by simp
qed auto

declare json_entries.simps(2) [simp del]

definition parse_flat_json :: "string \<Rightarrow> (string, string) bmap" where
  "parse_flat_json s = bcollect (json_entries 0 (utf8_chars s))"

subsection \<open>Requests\<close>

record HttpRequest =
  hq_method :: Method
  hq_target :: string
  hq_path :: string
  hq_query :: "(string, string) bmap"
  hq_headers :: "(string, string) bmap"
  hq_cookies :: "(string, string) bmap"
  hq_body :: string

definition assemble :: "Method \<Rightarrow> string \<Rightarrow> (string, string) bmap \<Rightarrow> string \<Rightarrow> HttpRequest" where
  "assemble m target hs body = \<lparr>hq_method = m, hq_target = target, hq_path = fst (split_target target),
     hq_query = snd (split_target target), hq_headers = hs,
     hq_cookies = (case map_of hs ''cookie'' of Some v \<Rightarrow> parse_cookies v | None \<Rightarrow> []), hq_body = body\<rparr>"

definition http_header :: "string \<Rightarrow> HttpRequest \<Rightarrow> string option" where
  "http_header name rq = map_of (hq_headers rq) (ascii_lower name)"

definition trim_start :: "string \<Rightarrow> string" where
  "trim_start = strip_seqs white_space"

definition parsed_body :: "HttpRequest \<Rightarrow> (string, string) bmap" where
  "parsed_body rq =
     (let content_type = (case http_header ''content-type'' rq of Some v \<Rightarrow> v | None \<Rightarrow> []);
          body = utf8_lossy (hq_body rq)
      in if contains_str ''json'' content_type then parse_flat_json body
         else if contains_str ''form-urlencoded'' content_type then parse_form body
         else if starts_with ''{'' (trim_start body) then parse_flat_json body
         else parse_form body)"

definition to_boundary :: "HttpRequest \<Rightarrow> BoundaryRequest" where
  "to_boundary rq = sanitized \<lparr>br_method = hq_method rq, br_path = hq_path rq, br_headers = hq_headers rq,
     br_cookies = hq_cookies rq, br_query = hq_query rq, br_body = parsed_body rq\<rparr>"

text \<open>Reading a request off a connection that delivers these bytes and then ends.\<close>

definition max_body_bytes :: nat where "max_body_bytes = 2 ^ 20"

definition read_line :: "string \<Rightarrow> string + string \<times> string" where
  "read_line s = (let ln = takeWhile (\<lambda>c. c \<noteq> CHR 0x0A) s @ take 1 (dropWhile (\<lambda>c. c \<noteq> CHR 0x0A) s) in
     if utf8_valid ln then Inr (ln, drop 1 (dropWhile (\<lambda>c. c \<noteq> CHR 0x0A) s))
     else Inl ''stream did not contain valid UTF-8'')"

definition trim_line_end :: "string \<Rightarrow> string" where
  "trim_line_end l = rev (dropWhile (\<lambda>c. c = CHR 0x0D \<or> c = CHR 0x0A) (rev l))"

definition add_header :: "string \<Rightarrow> (string, string) bmap \<Rightarrow> (string, string) bmap" where
  "add_header ln hs = (case split_once (CHR '':'') ln of
     Some (n, v) \<Rightarrow> binsert (ascii_lower (trim n)) (trim v) hs | None \<Rightarrow> hs)"

lemma read_line_shorter: "read_line s = Inr (ln, rest) \<Longrightarrow> ln \<noteq> [] \<Longrightarrow> length rest < length s"
proof -
  assume r: "read_line s = Inr (ln, rest)" "ln \<noteq> []"
  let ?t = "takeWhile (\<lambda>c. c \<noteq> CHR 0x0A) s" and ?d = "dropWhile (\<lambda>c. c \<noteq> CHR 0x0A) s"
  have "length s = length ?t + length ?d" by (metis length_append takeWhile_dropWhile_id)
  moreover have "rest = drop 1 ?d" "?t \<noteq> [] \<or> ?d \<noteq> []"
    using r by (auto simp: read_line_def Let_def split: if_splits)
  ultimately show ?thesis by (cases ?d; cases ?t) simp_all
qed

function read_headers :: "string \<Rightarrow> (string, string) bmap \<Rightarrow> string + (string, string) bmap \<times> string" where
  "read_headers s hs = (case read_line s of
     Inl e \<Rightarrow> Inl e
   | Inr (ln, rest) \<Rightarrow>
       if ln = [] then Inr (hs, rest)
       else if trim_line_end ln = [] then Inr (hs, rest)
       else read_headers rest (add_header (trim_line_end ln) hs))"
  by pat_completeness auto
termination
  by (relation "measure (\<lambda>(s, hs). length s)") (auto intro: read_line_shorter)

declare read_headers.simps [simp del]

definition content_length :: "(string, string) bmap \<Rightarrow> nat" where
  "content_length hs = min max_body_bytes
     (case Option.bind (map_of hs ''content-length'') (parse_unsigned (2 ^ 64)) of Some n \<Rightarrow> n | None \<Rightarrow> 0)"

definition read_from :: "string \<Rightarrow> string + HttpRequest" where
  "read_from s =
     rbind (read_line s) (\<lambda>(ln, s).
     rbind (check (ln \<noteq> []) ''empty request'') (\<lambda>_.
     let parts = split_whitespace ln in
     rbind (ok_or ''unsupported method'' (case parts of m # _ \<Rightarrow> method_parse m | [] \<Rightarrow> None)) (\<lambda>m.
     rbind (ok_or ''missing request target'' (case parts of _ # t # _ \<Rightarrow> Some t | _ \<Rightarrow> None)) (\<lambda>target.
     rbind (read_headers s []) (\<lambda>(hs, s).
     rbind (check (content_length hs \<le> length s) ''failed to fill whole buffer'') (\<lambda>_.
     Inr (assemble m target hs (take (content_length hs) s))))))))"

subsection \<open>Responses\<close>

record HttpResponse =
  hp_status :: nat
  hp_headers :: "(string \<times> string) list"
  hp_body :: string

definition http_escape :: "string \<Rightarrow> string" where
  "http_escape v = replace_char (CHR 0x0A) [CHR 0x5C, CHR ''n''] (escape v)"

definition response_new :: "nat \<Rightarrow> string \<Rightarrow> string \<Rightarrow> HttpResponse" where
  "response_new status ct body = \<lparr>hp_status = status, hp_headers = [(''content-type'', ct)], hp_body = body\<rparr>"

definition response_json :: "nat \<Rightarrow> string \<Rightarrow> HttpResponse" where
  "response_json status body = response_new status ''application/json'' body"

definition response_html :: "nat \<Rightarrow> string \<Rightarrow> HttpResponse" where
  "response_html status body = response_new status ''text/html; charset=utf-8'' body"

definition response_text :: "nat \<Rightarrow> string \<Rightarrow> HttpResponse" where
  "response_text status body = response_new status ''text/plain; charset=utf-8'' body"

definition http_quoted :: "string \<Rightarrow> string" where
  "http_quoted v = [CHR 0x22] @ http_escape v @ [CHR 0x22]"

definition response_denied :: "nat \<Rightarrow> string \<Rightarrow> string \<Rightarrow> HttpResponse" where
  "response_denied status reason message = response_json status
     (''{'' @ json_key ''error'' @ http_quoted (if status = 401 then ''unauthenticated'' else ''denied'') @ '', ''
      @ json_key ''reason'' @ http_quoted reason @ '', '' @ json_key ''message'' @ http_quoted message @ ''}'')"

definition response_bad_request :: "string \<Rightarrow> HttpResponse" where
  "response_bad_request message = response_json 400
     (''{'' @ json_key ''error'' @ http_quoted ''bad_request'' @ '', '' @ json_key ''message'' @ http_quoted message @ ''}'')"

definition response_not_implemented :: "string \<Rightarrow> HttpResponse" where
  "response_not_implemented message = response_json 501
     (''{'' @ json_key ''error'' @ http_quoted ''not_implemented'' @ '', '' @ json_key ''message''
      @ http_quoted message @ ''}'')"

definition response_with_header :: "string \<Rightarrow> string \<Rightarrow> HttpResponse \<Rightarrow> HttpResponse" where
  "response_with_header name v r = r\<lparr>hp_headers := hp_headers r @ [(name, v)]\<rparr>"

definition with_session_cookie :: "string \<Rightarrow> HttpResponse \<Rightarrow> HttpResponse" where
  "with_session_cookie v = response_with_header ''set-cookie''
     (session_cookie @ ''='' @ v @ ''; Path=/; HttpOnly; SameSite=Lax'')"

definition clearing_session_cookie :: "HttpResponse \<Rightarrow> HttpResponse" where
  "clearing_session_cookie = response_with_header ''set-cookie''
     (session_cookie @ ''=; Path=/; HttpOnly; SameSite=Lax; Max-Age=0'')"

definition reason_phrase :: "nat \<Rightarrow> string" where
  "reason_phrase status =
     (if status = 200 then ''OK'' else if status = 201 then ''Created'' else if status = 302 then ''Found''
      else if status = 304 then ''Not Modified'' else if status = 400 then ''Bad Request''
      else if status = 401 then ''Unauthorized'' else if status = 403 then ''Forbidden''
      else if status = 404 then ''Not Found'' else if status = 405 then ''Method Not Allowed''
      else if status = 500 then ''Internal Server Error'' else if status = 502 then ''Bad Gateway''
      else ''Unknown'')"

definition crlf :: string where "crlf = [CHR 0x0D, CHR 0x0A]"

definition connection_headers :: "string list" where
  "connection_headers = [''content-length'', ''connection'', ''transfer-encoding'', ''keep-alive'',
     ''proxy-connection'', ''upgrade'']"

definition write_to :: "HttpResponse \<Rightarrow> string" where
  "write_to r = ''HTTP/1.1 '' @ show_nat (hp_status r) @ '' '' @ reason_phrase (hp_status r) @ crlf
     @ concat (map (\<lambda>(n, v). n @ '': '' @ v @ crlf)
         (filter (\<lambda>(n, _). ascii_lower n \<notin> set connection_headers) (hp_headers r)))
     @ ''content-length: '' @ show_nat (length (hp_body r)) @ crlf
     @ ''connection: close'' @ crlf @ crlf @ hp_body r"

subsection \<open>Sending a request on\<close>

definition hex_char :: "nat \<Rightarrow> char" where
  "hex_char n = char_of (if n < 10 then 48 + n else 55 + n)"

definition escape_byte :: "char \<Rightarrow> string" where
  "escape_byte c = [CHR ''%'', hex_char (of_char c div 16), hex_char (of_char c mod 16)]"

definition url_safe :: "char \<Rightarrow> bool" where
  "url_safe c \<longleftrightarrow> is_alphanumeric c \<or> c \<in> set ''-_.~/:''"

definition percent_encode :: "string \<Rightarrow> string" where
  "percent_encode s = concat (map (\<lambda>c. if url_safe c then [c] else escape_byte c) s)"

text \<open>The target and the body the proxy sends to the application.\<close>

definition forwarded_target :: "BoundaryRequest \<Rightarrow> string" where
  "forwarded_target rq = br_path rq @ (if br_query rq = [] then []
     else ''?'' @ join ''&'' (map (\<lambda>(n, v). percent_encode n @ ''='' @ percent_encode v) (br_query rq)))"

definition encode_body :: "(string, string) bmap \<Rightarrow> string" where
  "encode_body m = (if m = [] then []
     else ''{'' @ join '', '' (map (\<lambda>(n, v). http_quoted n @ '': '' @ http_quoted v) m) @ ''}'')"

subsection \<open>Percent encoding\<close>

lemma char_nibbles: "(of_char c :: nat) div 16 < 16" "(of_char c :: nat) mod 16 < 16"
proof -
  have "(of_char c :: nat) < 256" by simp
  then show "(of_char c :: nat) div 16 < 16" by linarith
qed simp

lemma hex_digit_char: "n < 16 \<Longrightarrow> hex_value (hex_char n) = Some n"
  by (auto simp: hex_value_def hex_char_def Let_def)

lemma hex_byte_escape: "hex_byte (hex_char (of_char c div 16)) (hex_char (of_char c mod 16)) = Some c"
  using char_nibbles [of c] by (simp add: hex_byte_def hex_digit_char)

lemma decode_encode: "decode_bytes (percent_encode s) = s"
proof (induction s)
  case Nil
  then show ?case by (simp add: percent_encode_def)
next
  case (Cons c s)
  have "\<not> url_safe (CHR ''%'')" by code_simp
  then show ?case
    using Cons by (cases "url_safe c") (auto simp: percent_encode_def escape_byte_def hex_byte_escape)
qed

lemma encode_safe: "c \<in> set (percent_encode s) \<Longrightarrow> url_safe c \<or> c = CHR ''%''"
proof -
  have hex: "url_safe (hex_char n)" if "n < 16" for n
  proof -
    have "list_all (\<lambda>n. url_safe (hex_char n)) [0..<16]" by code_simp
    then show ?thesis using that by (simp add: list_all_iff)
  qed
  show "c \<in> set (percent_encode s) \<Longrightarrow> url_safe c \<or> c = CHR ''%''"
    by (auto simp: percent_encode_def escape_byte_def hex char_nibbles split: if_splits)
qed

lemma encode_separators:
  "CHR ''='' \<notin> set (percent_encode s)" "CHR ''&'' \<notin> set (percent_encode s)" "CHR ''+'' \<notin> set (percent_encode s)"
  "CHR ''?'' \<notin> set (percent_encode s)"
proof -
  have "\<not> url_safe (CHR ''='')" "\<not> url_safe (CHR ''&'')" "\<not> url_safe (CHR ''+'')" "\<not> url_safe (CHR ''?'')"
    by code_simp+
  then show "CHR ''='' \<notin> set (percent_encode s)" "CHR ''&'' \<notin> set (percent_encode s)"
    "CHR ''+'' \<notin> set (percent_encode s)" "CHR ''?'' \<notin> set (percent_encode s)"
    using encode_safe by fastforce+
qed

lemma replace_char_absent: "c \<notin> set s \<Longrightarrow> replace_char c r s = s"
  by (induction s) (auto simp: replace_char_def)

lemma utf8_lossy_valid: "utf8_valid s \<Longrightarrow> utf8_lossy s = s"
  by (induction s rule: utf8_lossy.induct) auto

lemma percent_roundtrip: "utf8_valid s \<Longrightarrow> percent_decode (percent_encode s) = s"
  by (simp add: percent_decode_def replace_char_absent encode_separators decode_encode utf8_lossy_valid)

lemma utf8_valid_ascii: "ascii s \<Longrightarrow> utf8_valid s"
proof (induction s)
  case (Cons b s)
  then have "utf8_first b s = (1, True)" "ascii s"
    by (auto simp: ascii_def utf8_first_def utf8_lead_def Let_def)
  then show ?case using Cons.IH by simp
qed simp

subsection \<open>Queries\<close>

lemma split_on_absent: "c \<notin> set s \<Longrightarrow> split_on c s = [s]"
  by (induction s) auto

lemma split_on_nonempty: "split_on c s \<noteq> []"
  by (induction s) (auto split: list.splits)

lemma split_on_append: "c \<notin> set a \<Longrightarrow> split_on c (a @ c # b) = a # split_on c b"
proof (induction a)
  case Nil
  then show ?case using split_on_nonempty [of c b] by (auto split: list.split)
qed auto

lemma split_on_join:
  "ps \<noteq> [] \<Longrightarrow> \<forall>p \<in> set ps. c \<notin> set p \<Longrightarrow> split_on c (join [c] ps) = ps"
  by (induction "[c]" ps rule: join.induct) (auto simp: split_on_absent split_on_append)

lemma strip_seqs_keeps:
  "x \<in> set s \<Longrightarrow> \<forall>w \<in> set ws. x \<notin> set w \<Longrightarrow> x \<in> set (strip_seqs ws s)"
proof (induction ws s rule: strip_seqs.induct)
  case (1 ws s)
  show ?case
  proof (cases "find (\<lambda>w. w \<noteq> [] \<and> starts_with w s) ws")
    case None
    then show ?thesis using 1 by (simp add: strip_seqs.simps [of ws s])
  next
    case (Some w)
    then have w: "w \<in> set ws" "starts_with w s" by (auto simp: find_Some_iff)
    then have "x \<in> set (drop (length w) s)"
      using "1.prems" by (metis Un_iff set_append starts_withD)
    then show ?thesis using "1.IH" [OF Some] "1.prems"(2) Some by (simp add: strip_seqs.simps [of ws s])
  qed
qed

lemma trim_keeps:
  assumes "x \<in> set s" "\<forall>w \<in> set white_space. x \<notin> set w"
  shows "trim s \<noteq> []"
proof -
  have "x \<in> set (rev (strip_seqs white_space s))" using strip_seqs_keeps [OF assms] by simp
  then have "x \<in> set (strip_seqs (map rev white_space) (rev (strip_seqs white_space s)))"
    using assms(2) by (intro strip_seqs_keeps) auto
  then show ?thesis by (auto simp: trim_def)
qed

lemma map_of_fold_binsert:
  "map_of (fold (\<lambda>(k, v). binsert k v) es m) = map_of m ++ map_of (rev es)"
  by (induction es arbitrary: m) (auto simp: map_add_assoc [symmetric])

lemma bwf_bcollect [simp]: "bwf (bcollect es)"
proof -
  have "bwf m \<Longrightarrow> bwf (fold (\<lambda>(k, v). binsert k v) es m)" for m by (induction es arbitrary: m) auto
  then show ?thesis by (simp add: bcollect_def)
qed

lemma bcollect_bwf: "bwf m \<Longrightarrow> bcollect m = m"
proof (rule bwf_ext)
  assume m: "bwf m"
  have "distinct (map fst m)" using bwf_distinct [OF m] .
  then have "map_of (rev m) = map_of m" by (subst map_of_inject_set) (auto simp: rev_map [symmetric])
  then show "map_of (bcollect m) = map_of m" by (simp add: bcollect_def map_of_fold_binsert)
qed auto

lemma equals_not_space: "\<forall>w \<in> set white_space. CHR ''='' \<notin> set w"
proof -
  have "list_all (\<lambda>w. CHR ''='' \<notin> set w) white_space" by code_simp
  then show ?thesis by (simp add: list_all_iff)
qed

definition pairs_valid :: "(string, string) bmap \<Rightarrow> bool" where
  "pairs_valid m \<longleftrightarrow> list_all (\<lambda>(n, v). utf8_valid n \<and> utf8_valid v) m"

lemma parse_form_encoded:
  assumes "bwf m" "pairs_valid m" "m \<noteq> []"
  shows "parse_form (join ''&'' (map (\<lambda>(n, v). percent_encode n @ ''='' @ percent_encode v) m)) = m"
proof -
  let ?ps = "map (\<lambda>(n, v). percent_encode n @ ''='' @ percent_encode v) m"
  have "split_on (CHR ''&'') (join ''&'' ?ps) = ?ps"
    by (rule split_on_join) (use assms(3) encode_separators(2) in auto)
  moreover have "filter (\<lambda>p. trim p \<noteq> []) ?ps = ?ps"
    by (rule filter_True) (auto intro!: trim_keeps [OF _ equals_not_space])
  moreover have "List.map_filter (split_once (CHR ''='')) ?ps = map (\<lambda>(n, v). (percent_encode n, percent_encode v)) m"
    by (induction m) (auto simp: List.map_filter_simps encode_separators(1))
  moreover have "map (\<lambda>(n, v). (percent_decode n, percent_decode v)) (map (\<lambda>(n, v). (percent_encode n, percent_encode v)) m) = m"
    using assms(2) by (induction m) (auto simp: pairs_valid_def percent_roundtrip)
  ultimately show ?thesis using bcollect_bwf [OF assms(1)] by (simp add: parse_form_def)
qed

text \<open>
  The request target survives forwarding: when the proxy writes path and query into the
  target of the upstream request, splitting that target gives the same path and the same
  query, whatever the parameters contain, separators, percent signs and all Unicode included.
\<close>

lemma split_forwarded_target:
  assumes "CHR ''?'' \<notin> set (br_path rq)" "bwf (br_query rq)" "pairs_valid (br_query rq)"
  shows "split_target (forwarded_target rq) = (br_path rq, br_query rq)"
proof (cases "br_query rq = []")
  case True
  then show ?thesis using assms(1) split_once_None [of "CHR ''?''" "br_path rq"]
    by (simp add: forwarded_target_def split_target_def)
next
  case False
  then show ?thesis using assms parse_form_encoded by (simp add: forwarded_target_def split_target_def)
qed

subsection \<open>What a client sends\<close>

lemma ascii_lower_idem: "ascii_lower (ascii_lower s) = ascii_lower s"
proof -
  have "ascii_lower_char (ascii_lower_char c) = ascii_lower_char c" for c
    by (auto simp: ascii_lower_char_def)
  then show ?thesis by (simp add: ascii_lower_def)
qed

definition lower_names :: "(string, string) bmap \<Rightarrow> bool" where
  "lower_names hs \<longleftrightarrow> (\<forall>n \<in> fst ` set hs. ascii_lower n = n)"

lemma set_binsert: "fst ` set (binsert k v m) = insert k (fst ` set m)"
  by (metis dom_fun_upd dom_map_of_conv_image_fst map_of_binsert option.distinct(1))

lemma lower_names_binsert: "lower_names hs \<Longrightarrow> ascii_lower k = k \<Longrightarrow> lower_names (binsert k v hs)"
  unfolding lower_names_def set_binsert by blast

lemma lower_namesD: "lower_names hs \<Longrightarrow> n \<in> fst ` set hs \<Longrightarrow> ascii_lower n = n"
  unfolding lower_names_def by blast

lemma words_word:
  assumes "w \<noteq> []" "list_all plain w" "sp \<in> set white_space"
  shows "words (chs w @ sp # cs) = w # words cs"
proof -
  have plain: "[c] \<notin> set white_space" if "plain c" for c
    using white_space_not_plain that by fastforce
  then have "\<forall>x \<in> set (chs w). x \<notin> set white_space" using assms(2) by (auto simp: chs_def list_all_iff)
  then have "takeWhile (\<lambda>c. c \<notin> set white_space) (chs w @ sp # cs) = chs w"
    "dropWhile (\<lambda>c. c \<notin> set white_space) (chs w @ sp # cs) = sp # cs"
    using assms(3) by (simp_all add: takeWhile_append2 dropWhile_append2)
  moreover obtain c v where "w = c # v" "plain c"
    using assms(1,2) by (cases w) auto
  ultimately show ?thesis using assms(3) plain by simp
qed

lemma read_headers_lower: "lower_names hs \<Longrightarrow> read_headers s hs = Inr (hs', r) \<Longrightarrow> lower_names hs'"
proof (induction s hs rule: read_headers.induct)
  case (1 s hs)
  show ?case
  proof (cases "read_line s")
    case (Inl e)
    then show ?thesis using "1.prems"(2) by (simp add: read_headers.simps [of s hs])
  next
    case (Inr p)
    obtain ln rest where p: "p = (ln, rest)" by (cases p)
    show ?thesis
    proof (cases "ln = [] \<or> trim_line_end ln = []")
      case True
      then show ?thesis using 1 Inr p by (auto simp: read_headers.simps [of s hs] split: if_splits)
    next
      case False
      then have "read_headers rest (add_header (trim_line_end ln) hs) = Inr (hs', r)"
        using "1.prems"(2) Inr p by (simp add: read_headers.simps [of s hs])
      moreover have "lower_names (add_header (trim_line_end ln) hs)"
        using "1.prems"(1) by (auto simp: add_header_def lower_names_binsert ascii_lower_idem split: option.split)
      ultimately show ?thesis using "1.IH" [OF Inr] p False by blast
    qed
  qed
qed

text \<open>
  C11. Nothing a client sends speaks for the boundary: whatever bytes arrive, if they are read as
  a request, no header that reaches the boundary is one of the reserved names in any spelling,
  and the body is at most a megabyte, exactly as long as the (capped) content length.
\<close>

theorem client_cannot_inject_context:
  assumes "read_from s = Inr rq"
  shows "(\<forall>n. map_of (br_headers (to_boundary rq)) n \<noteq> None \<longrightarrow> \<not> starts_with reserved_header_prefix (ascii_lower n))
    \<and> length (hq_body rq) = content_length (hq_headers rq) \<and> length (hq_body rq) \<le> 2 ^ 20"
proof -
  obtain m target hs rest s' where r: "read_headers s' [] = Inr (hs, rest)" "content_length hs \<le> length rest"
    "rq = assemble m target hs (take (content_length hs) rest)"
    using assms by (auto simp: read_from_def rbind_Inr Let_def)
  have "lower_names hs" using read_headers_lower [OF _ r(1)] by (simp add: lower_names_def)
  moreover have hs: "hq_headers rq = hs" "length (hq_body rq) = content_length hs"
    using r(2,3) by (simp_all add: assemble_def)
  moreover have "content_length hs \<le> 2 ^ 20" by (simp add: content_length_def max_body_bytes_def)
  moreover have "\<not> starts_with reserved_header_prefix (ascii_lower n)"
    if "map_of (br_headers (to_boundary rq)) n \<noteq> None" for n
  proof -
    have "n \<in> fst ` set (br_headers (to_boundary rq))" using that by (simp add: map_of_eq_None_iff)
    then have "\<not> starts_with reserved_header_prefix n" "n \<in> fst ` set hs"
      by (auto simp: to_boundary_def sanitized_def hs(1))
    then show ?thesis using lower_namesD [OF \<open>lower_names hs\<close>] by simp
  qed
  ultimately show ?thesis by simp
qed

definition sample_bytes :: string where
  "sample_bytes = ''GET / '' @ crlf @ ''X-AuthBoundry-Tenant: a'' @ crlf @ crlf"

lemma sample_read:
  "read_from sample_bytes = Inr (assemble Get ''/'' [(''x-authboundry-tenant'', ''a'')] [])"
proof -
  have l: "read_line sample_bytes = Inr (''GET / '' @ crlf, ''X-AuthBoundry-Tenant: a'' @ crlf @ crlf)"
    "read_line (''X-AuthBoundry-Tenant: a'' @ crlf @ crlf) = Inr (''X-AuthBoundry-Tenant: a'' @ crlf, crlf)"
    "read_line crlf = Inr (crlf, [])"
    "trim_line_end (''X-AuthBoundry-Tenant: a'' @ crlf) = ''X-AuthBoundry-Tenant: a''" "trim_line_end crlf = []"
    "ascii_lower ''X-AuthBoundry-Tenant'' = ''x-authboundry-tenant''"
    "split_once (CHR '':'') ''X-AuthBoundry-Tenant: a'' = Some (''X-AuthBoundry-Tenant'', '' a'')"
    by code_simp+
  have sp: "'' '' \<in> set white_space" by (simp add: white_space_def)
  have w: "words (chs ''GET'' @ '' '' # cs) = ''GET'' # words cs" "words (chs ''/'' @ '' '' # cs) = ''/'' # words cs" for cs
    by (rule words_word [OF _ _ sp]; simp add: plain_def)+
  have "utf8_chars (''GET / '' @ crlf) = chs ''GET'' @ '' '' # chs ''/'' @ '' '' # chs crlf"
    by code_simp
  then have "split_whitespace (''GET / '' @ crlf) = ''GET'' # ''/'' # words (chs crlf)"
    by (simp only: split_whitespace_def w)
  moreover have "method_parse ''GET'' = Some Get" by code_simp
  moreover have "trim ''X-AuthBoundry-Tenant'' = ''X-AuthBoundry-Tenant''" "trim '' a'' = ''a''"
    using trim_padded [of "''a''" 1 0] by (simp_all add: trim_plain plain_def)
  moreover have "read_headers (''X-AuthBoundry-Tenant: a'' @ crlf @ crlf) []
     = Inr ([(''x-authboundry-tenant'', ''a'')], [])"
  proof -
    have "read_headers crlf hs = Inr (hs, [])" for hs
      by (subst read_headers.simps) (simp add: l)
    moreover have "add_header ''X-AuthBoundry-Tenant: a'' [] = [(''x-authboundry-tenant'', ''a'')]"
      using \<open>trim '' a'' = ''a''\<close> \<open>trim ''X-AuthBoundry-Tenant'' = _\<close>
      by (simp only: add_header_def l option.case prod.case binsert.simps)
    ultimately show ?thesis
      by (subst read_headers.simps)
        (simp only: l sum.case prod.case append_is_Nil_conv list.distinct if_False simp_thms)
  qed
  ultimately show ?thesis
    by (simp add: read_from_def l check_def Let_def content_length_def)
qed

theorem client_cannot_inject_context_witness:
  "\<exists>rq. read_from sample_bytes = Inr rq \<and> map_of (hq_headers rq) ''x-authboundry-tenant'' = Some ''a''
     \<and> map_of (br_headers (to_boundary rq)) ''x-authboundry-tenant'' = None"
proof -
  have "starts_with reserved_header_prefix (ascii_lower ''x-authboundry-tenant'')" by code_simp
  then show ?thesis using client_cannot_inject_context [OF sample_read] sample_read by (auto simp: assemble_def)
qed

subsection \<open>Bodies\<close>

definition escape_char_http :: "char \<Rightarrow> string" where
  "escape_char_http c = (if c = CHR 0x22 then [CHR 0x5C, CHR 0x22] else if c = CHR 0x5C then [CHR 0x5C, CHR 0x5C]
     else if c = CHR 0x0A then [CHR 0x5C, CHR ''n''] else [c])"

lemma http_escape_concat: "http_escape s = concat (map escape_char_http s)"
  by (induction s) (auto simp: http_escape_def escape_def replace_char_def escape_char_http_def)

lemma read_escaped:
  "read_json_string (chs (http_escape s) @ dquote # cs) = (s, cs)"
proof (induction s)
  case Nil
  then show ?case by (cases cs) (simp_all add: http_escape_concat dquote_def backslash_def)
next
  case (Cons c s)
  obtain d ds where t: "chs (http_escape s) @ dquote # cs = d # ds"
    by (cases "chs (http_escape s)") auto
  show ?case
    using Cons t by (auto simp: http_escape_concat escape_char_http_def dquote_def backslash_def
        split: prod.splits)
qed

lemma chs_quoted: "chs (http_quoted s) = dquote # chs (http_escape s) @ [dquote]"
  by (simp add: http_quoted_def dquote_def)

lemma json_skips:
  "json_entries 0 (''{'' # cs) = json_entries 1 cs" "json_entries 1 ('','' # cs) = json_entries 1 cs"
  "json_entries 1 ('' '' # cs) = json_entries 1 cs" "json_entries 1 [''}''] = []"
  by (simp_all add: json_entries.simps(2) opens_def closes_def dquote_def)

lemma skip_white_to:
  "skip_white ('':'' # cs) = '':'' # cs" "skip_white (dquote # cs) = dquote # cs" "skip_white ('' '' # cs) = skip_white cs"
proof -
  have "'':'' \<notin> set white_space" "dquote \<notin> set white_space" "'' '' \<in> set white_space"
    by (simp_all add: white_space_def dquote_def)
  then show "skip_white ('':'' # cs) = '':'' # cs" "skip_white (dquote # cs) = dquote # cs"
    "skip_white ('' '' # cs) = skip_white cs"
    by (simp_all add: skip_white_def)
qed

lemma json_entry:
  "json_entries 1 (chs (http_quoted k @ '': '' @ http_quoted v) @ cs) = (k, v) # json_entries 1 cs"
proof -
  have "chs (http_quoted k @ '': '' @ http_quoted v) @ cs
    = dquote # chs (http_escape k) @ dquote # '':'' # '' '' # dquote # chs (http_escape v) @ dquote # cs"
    by (simp add: chs_quoted)
  moreover have "\<not> opens dquote" "\<not> closes dquote" by (simp_all add: opens_def closes_def dquote_def)
  ultimately show ?thesis
    by (simp add: json_entries.simps(2) read_escaped skip_white_to Let_def)
qed

lemma json_entries_join:
  "json_entries 1 (chs (join '', '' (map (\<lambda>(n, v). http_quoted n @ '': '' @ http_quoted v) m)) @ [''}'']) = m"
proof (induction m)
  case Nil
  then show ?case using json_skips(4) by simp
next
  case (Cons e m)
  obtain k v where e: "e = (k, v)" by (cases e)
  have step: "json_entries 1 (chs (http_quoted k @ '': '' @ http_quoted v) @ cs) = (k, v) # json_entries 1 cs" for cs
    by (rule json_entry)
  show ?case
  proof (cases m)
    case Nil
    then show ?thesis using step [of "[''}'']"] json_skips(4) by (simp add: e)
  next
    case (Cons e' m')
    let ?rest = "join '', '' (map (\<lambda>(n, v). http_quoted n @ '': '' @ http_quoted v) m)"
    have "join '', '' (map (\<lambda>(n, v). http_quoted n @ '': '' @ http_quoted v) (e # m))
      = (http_quoted k @ '': '' @ http_quoted v) @ '', '' @ ?rest"
      by (simp add: Cons e)
    then have "json_entries 1 (chs (join '', '' (map (\<lambda>(n, v). http_quoted n @ '': '' @ http_quoted v) (e # m))) @ [''}''])
      = (k, v) # json_entries 1 ('','' # '' '' # chs ?rest @ [''}''])"
      using step [of "'','' # '' '' # chs ?rest @ [''}'']"] by simp
    then show ?thesis using Cons.IH e json_skips(2,3) by simp
  qed
qed

lemma http_escape_ascii: "ascii s \<Longrightarrow> ascii (http_escape s)"
  by (induction s) (auto simp: http_escape_concat escape_char_http_def)

lemma join_ascii: "\<forall>p \<in> set ps. ascii p \<Longrightarrow> ascii sep \<Longrightarrow> ascii (join sep ps)"
  by (induction sep ps rule: join.induct) auto

text \<open>
  The fields of a body survive forwarding: the JSON the proxy writes for the application
  reads back, through the same parser, as the same fields, for all ASCII names and values,
  quotation marks, backslashes and line breaks included.
\<close>

lemma parse_encoded_body:
  assumes "bwf m" "list_all (\<lambda>(n, v). ascii n \<and> ascii v) m"
  shows "parse_flat_json (encode_body m) = m"
proof (cases "m = []")
  case True
  then show ?thesis by (simp add: encode_body_def parse_flat_json_def bcollect_def)
next
  case False
  let ?t = "join '', '' (map (\<lambda>(n, v). http_quoted n @ '': '' @ http_quoted v) m)"
  have "ascii ?t"
    using assms(2) by (intro join_ascii) (auto simp: list_all_iff http_quoted_def http_escape_ascii)
  then have "utf8_chars (encode_body m) = ''{'' # chs ?t @ [''}'']"
    using False by (subst utf8_chars_chs) (simp_all add: encode_body_def)
  then show ?thesis
    using json_entries_join [of m] bcollect_bwf [OF assms(1)] by (simp add: parse_flat_json_def json_skips)
qed

end
