(* ===== verification/Router.thy ===== *)
theory Router
  imports Http
begin

text \<open>
  \<^verbatim>\<open>server/src/router.rs\<close>: the route policy that maps requests to required authority,
  the interface through which the server reaches the application, and the application whose
  handlers run in the same process. The state of an application is a parameter \<open>'a\<close>:
  handlers are closures that may change it.
\<close>

subsection \<open>Route policies\<close>

datatype RouteOutcome = Matched Requirement | MethodNotAllowed | NotFound | NoPolicy

datatype PathPattern = ExactPath string | PathPrefix string

record RouteRule =
  rl_methods :: "Method list"
  rl_pattern :: PathPattern
  rl_requirement :: Requirement

type_synonym RoutePolicy = "RouteRule list"

definition pattern_matches :: "PathPattern \<Rightarrow> string \<Rightarrow> bool" where
  "pattern_matches p path = (case p of ExactPath expected \<Rightarrow> expected = path
     | PathPrefix prefix \<Rightarrow> starts_with prefix path)"

definition policy_rule :: "Method list \<Rightarrow> PathPattern \<Rightarrow> Requirement \<Rightarrow> RoutePolicy \<Rightarrow> RoutePolicy" where
  "policy_rule methods pattern requirement pol =
     pol @ [\<lparr>rl_methods = methods, rl_pattern = pattern, rl_requirement = requirement\<rparr>]"

definition policy_public :: "Method list \<Rightarrow> string \<Rightarrow> RoutePolicy \<Rightarrow> RoutePolicy" where
  "policy_public methods path = policy_rule methods (ExactPath path) PublicRoute"

definition policy_authenticated :: "Method list \<Rightarrow> string \<Rightarrow> RoutePolicy \<Rightarrow> RoutePolicy" where
  "policy_authenticated methods path = policy_rule methods (ExactPath path) AuthenticatedRoute"

definition policy_capability :: "Method list \<Rightarrow> string \<Rightarrow> string \<Rightarrow> RoutePolicy \<Rightarrow> RoutePolicy" where
  "policy_capability methods path cap = policy_rule methods (ExactPath path) (CapabilityRoute cap)"

text \<open>The loop of \<^verbatim>\<open>resolve\<close>, with the flag \<^verbatim>\<open>path_matched\<close>.\<close>

fun resolve_rules :: "bool \<Rightarrow> RouteRule list \<Rightarrow> Method \<Rightarrow> string \<Rightarrow> RouteOutcome" where
  "resolve_rules path_matched [] m path = (if path_matched then MethodNotAllowed else NoPolicy)"
| "resolve_rules path_matched (r # rs) m path =
     (if \<not> pattern_matches (rl_pattern r) path then resolve_rules path_matched rs m path
      else if m \<in> set (rl_methods r) then Matched (rl_requirement r)
      else resolve_rules True rs m path)"

definition policy_resolve :: "RoutePolicy \<Rightarrow> Method \<Rightarrow> string \<Rightarrow> RouteOutcome" where
  "policy_resolve pol = resolve_rules False pol"

subsection \<open>The application behind the boundary\<close>

record AppRequest =
  ap_request :: BoundaryRequest
  ap_auth :: "AuthContext option"

definition app_context :: "AppRequest \<Rightarrow> AuthContext option" where
  "app_context r = ap_auth r"

definition app_field :: "string \<Rightarrow> AppRequest \<Rightarrow> string option" where
  "app_field name r = field name (ap_request r)"

type_synonym 'a AppHandler = "AppRequest \<Rightarrow> 'a \<Rightarrow> HttpResponse \<times> 'a"

datatype RouteSource = FromExpress | FromEmbedded | FromStandalone | FromRust | FromClient | FromPython | FromUnknown

definition route_source_as_str :: "RouteSource \<Rightarrow> string" where
  "route_source_as_str r = (case r of FromExpress \<Rightarrow> ''express'' | FromEmbedded \<Rightarrow> ''embedded''
     | FromStandalone \<Rightarrow> ''standalone'' | FromRust \<Rightarrow> ''rust'' | FromClient \<Rightarrow> ''client''
     | FromPython \<Rightarrow> ''python'' | FromUnknown \<Rightarrow> ''unknown'')"

record RouteCandidate =
  rd_method :: string
  rd_path :: string
  rd_source :: RouteSource
  rd_capability :: "string option"

text \<open>
  The trait \<^verbatim>\<open>ApplicationBinding\<close> as a record of its methods; an upgrade is given the
  stream, which is part of the state.
\<close>

record 'a Binding =
  bi_resolve :: "Method \<Rightarrow> string \<Rightarrow> RouteOutcome"
  bi_handle :: "BoundaryRequest \<Rightarrow> AuthContext option \<Rightarrow> 'a \<Rightarrow> HttpResponse \<times> 'a"
  bi_upgrade :: "HttpRequest \<Rightarrow> AuthContext option \<Rightarrow> 'a \<Rightarrow> bool \<times> 'a"
  bi_observed_routes :: "RouteCandidate list"

definition binding_upgrade_default :: "HttpRequest \<Rightarrow> AuthContext option \<Rightarrow> 'a \<Rightarrow> bool \<times> 'a" where
  "binding_upgrade_default rq x a = (False, a)"

subsection \<open>Handlers in the same process\<close>

record 'a RouterApp =
  ra_routes :: "(Method \<times> string \<times> Requirement) list"
  ra_handlers :: "(Method \<times> string, 'a AppHandler) bmap"

definition router_new :: "'a RouterApp" where
  "router_new = \<lparr>ra_routes = [], ra_handlers = []\<rparr>"

definition router_route ::
  "Method \<Rightarrow> string \<Rightarrow> Requirement \<Rightarrow> 'a AppHandler \<Rightarrow> 'a RouterApp \<Rightarrow> 'a RouterApp" where
  "router_route m path requirement h app = app\<lparr>ra_routes := ra_routes app @ [(m, path, requirement)],
     ra_handlers := binsert (m, path) h (ra_handlers app)\<rparr>"

definition router_require :: "Method \<Rightarrow> string \<Rightarrow> string \<Rightarrow> 'a AppHandler \<Rightarrow> 'a RouterApp \<Rightarrow> 'a RouterApp" where
  "router_require m path cap = router_route m path (CapabilityRoute cap)"

definition router_public :: "Method \<Rightarrow> string \<Rightarrow> 'a AppHandler \<Rightarrow> 'a RouterApp \<Rightarrow> 'a RouterApp" where
  "router_public m path = router_route m path PublicRoute"

definition router_authenticated :: "Method \<Rightarrow> string \<Rightarrow> 'a AppHandler \<Rightarrow> 'a RouterApp \<Rightarrow> 'a RouterApp" where
  "router_authenticated m path = router_route m path AuthenticatedRoute"

definition router_policy :: "'a RouterApp \<Rightarrow> RoutePolicy" where
  "router_policy app =
     fold (\<lambda>(m, path, requirement). policy_rule [m] (ExactPath path) requirement) (ra_routes app) []"

definition router_resolve :: "'a RouterApp \<Rightarrow> Method \<Rightarrow> string \<Rightarrow> RouteOutcome" where
  "router_resolve app m path = (case policy_resolve (router_policy app) m path of
     NoPolicy \<Rightarrow> NotFound | other \<Rightarrow> other)"

definition router_handle ::
  "'a RouterApp \<Rightarrow> BoundaryRequest \<Rightarrow> AuthContext option \<Rightarrow> 'a \<Rightarrow> HttpResponse \<times> 'a" where
  "router_handle app rq x a = (case map_of (ra_handlers app) (br_method rq, br_path rq) of
     Some h \<Rightarrow> h \<lparr>ap_request = rq, ap_auth = x\<rparr> a
   | None \<Rightarrow> (response_denied 404 ''no_route'' ''no such route'', a))"

definition router_observed_routes :: "'a RouterApp \<Rightarrow> RouteCandidate list" where
  "router_observed_routes app = map (\<lambda>(m, path, requirement). \<lparr>rd_method = method_text m, rd_path = path,
     rd_source = FromEmbedded,
     rd_capability = (case requirement of CapabilityRoute cap \<Rightarrow> Some cap | _ \<Rightarrow> None)\<rparr>) (ra_routes app)"

definition router_binding :: "'a RouterApp \<Rightarrow> 'a Binding" where
  "router_binding app = \<lparr>bi_resolve = router_resolve app, bi_handle = router_handle app,
     bi_upgrade = binding_upgrade_default, bi_observed_routes = router_observed_routes app\<rparr>"

subsection \<open>What a policy decides\<close>

definition rule_covers :: "Method \<Rightarrow> string \<Rightarrow> RouteRule \<Rightarrow> bool" where
  "rule_covers m path r \<longleftrightarrow> pattern_matches (rl_pattern r) path \<and> m \<in> set (rl_methods r)"

definition first_rule :: "RoutePolicy \<Rightarrow> Method \<Rightarrow> string \<Rightarrow> RouteRule option" where
  "first_rule pol m path = find (rule_covers m path) pol"

lemma resolve_rules_spec:
  "resolve_rules b rs m path = (case find (rule_covers m path) rs of Some r \<Rightarrow> Matched (rl_requirement r)
     | None \<Rightarrow> if b \<or> (\<exists>r \<in> set rs. pattern_matches (rl_pattern r) path) then MethodNotAllowed else NoPolicy)"
  by (induction b rs m path rule: resolve_rules.induct) (auto simp: rule_covers_def)

text \<open>
  C22. A route policy decides by its first rule that covers both the path and the method; a path
  that rules cover for other methods only is a wrong method, and a path no rule covers has no
  policy: it is never matched.
\<close>

theorem policy_resolve_spec:
  "policy_resolve pol m path = (case first_rule pol m path of
     Some r \<Rightarrow> Matched (rl_requirement r)
   | None \<Rightarrow> if \<exists>r \<in> set pol. pattern_matches (rl_pattern r) path then MethodNotAllowed else NoPolicy)"
  unfolding policy_resolve_def first_rule_def resolve_rules_spec by (auto split: option.split)

lemma policy_resolve_Matched:
  "policy_resolve pol m path = Matched r \<longleftrightarrow> (\<exists>rule. first_rule pol m path = Some rule \<and> r = rl_requirement rule)"
  unfolding policy_resolve_def first_rule_def resolve_rules_spec by (auto split: option.split)

lemma first_rule_covers: "first_rule pol m path = Some r \<Longrightarrow> r \<in> set pol \<and> rule_covers m path r"
  unfolding first_rule_def by (rule find_SomeD)

subsection \<open>The interface the server relies on\<close>

text \<open>
  Whatever stands behind the boundary, a path is matched exactly when the declared policy
  matches it; an application in the same process also has a handler for it.
\<close>

locale application_interface =
  fixes resolve :: "Method \<Rightarrow> string \<Rightarrow> RouteOutcome"
    and declared :: RoutePolicy
  assumes resolve_declared: "resolve m path = Matched r \<longleftrightarrow> policy_resolve declared m path = Matched r"
begin

lemma matched_by_rule:
  "resolve m path = Matched r \<longleftrightarrow> (\<exists>rule. first_rule declared m path = Some rule \<and> r = rl_requirement rule)"
  by (simp add: resolve_declared policy_resolve_Matched)

lemma unlisted_refused:
  assumes "\<And>r. r \<in> set declared \<Longrightarrow> \<not> rule_covers m path r"
  shows "resolve m path \<noteq> Matched r"
  using assms by (auto simp: matched_by_rule dest: first_rule_covers)

lemma earliest_rule_decides:
  assumes "declared = before @ rule # after" "\<And>r. r \<in> set before \<Longrightarrow> \<not> rule_covers m path r"
    "rule_covers m path rule"
  shows "resolve m path = Matched (rl_requirement rule)"
  using assms by (auto simp: matched_by_rule first_rule_def find_Some_iff_split)

end

locale embedded_application = application_interface resolve declared
  for resolve :: "Method \<Rightarrow> string \<Rightarrow> RouteOutcome" and declared :: RoutePolicy +
  fixes serves :: "Method \<Rightarrow> string \<Rightarrow> bool"
  assumes matched_served: "resolve m path = Matched r \<Longrightarrow> serves m path"
begin

lemma declared_served:
  assumes "rule \<in> set declared" "rule_covers m path rule"
  shows "serves m path"
proof -
  have "first_rule declared m path \<noteq> None"
    using assms by (auto simp: first_rule_def find_None_iff)
  then show ?thesis using matched_served by (auto simp: matched_by_rule)
qed

end

subsection \<open>Registered routes\<close>

type_synonym 'a registration = "Method \<times> string \<times> Requirement \<times> 'a AppHandler"

definition router_build :: "'a registration list \<Rightarrow> 'a RouterApp" where
  "router_build regs = fold (\<lambda>(m, path, requirement, h). router_route m path requirement h) regs router_new"

definition registered_at :: "Method \<Rightarrow> string \<Rightarrow> 'a registration \<Rightarrow> bool" where
  "registered_at m path r \<longleftrightarrow> fst r = m \<and> fst (snd r) = path"

lemma build_routes:
  "ra_routes (fold (\<lambda>(m, path, requirement, h). router_route m path requirement h) regs app)
   = ra_routes app @ map (\<lambda>(m, path, requirement, h). (m, path, requirement)) regs"
  by (induction regs arbitrary: app) (auto simp: router_route_def)

lemma build_handlers:
  "map_of (ra_handlers (fold (\<lambda>(m, path, requirement, h). router_route m path requirement h) regs app)) (m, path)
   = (case find (registered_at m path) (rev regs) of Some r \<Rightarrow> Some (snd (snd (snd r)))
      | None \<Rightarrow> map_of (ra_handlers app) (m, path))"
proof (induction regs rule: rev_induct)
  case (snoc r regs)
  then show ?case by (cases r) (simp add: router_route_def registered_at_def)
qed simp

lemma fold_policy_rule:
  "fold (\<lambda>(m, path, requirement). policy_rule [m] (ExactPath path) requirement) routes pol
   = pol @ map (\<lambda>(m, path, requirement). \<lparr>rl_methods = [m], rl_pattern = ExactPath path,
       rl_requirement = requirement\<rparr>) routes"
  by (induction routes arbitrary: pol) (auto simp: policy_rule_def)

lemma build_policy:
  "router_policy (router_build regs) = map (\<lambda>(m, path, requirement, h). \<lparr>rl_methods = [m],
     rl_pattern = ExactPath path, rl_requirement = requirement\<rparr>) regs"
  by (simp add: router_policy_def router_build_def build_routes fold_policy_rule router_new_def
      comp_def case_prod_beta)

lemma find_map_covers:
  "find (rule_covers m path) (map (\<lambda>(m, path, requirement, h). \<lparr>rl_methods = [m],
     rl_pattern = ExactPath path, rl_requirement = requirement\<rparr>) regs)
   = map_option (\<lambda>(m, path, requirement, h). \<lparr>rl_methods = [m], rl_pattern = ExactPath path,
       rl_requirement = requirement\<rparr>) (find (registered_at m path) regs)"
  by (induction regs) (auto simp: rule_covers_def pattern_matches_def registered_at_def)

text \<open>
  An application built by registering routes requires of a request what its first
  registration for the method and the path says, and runs the handler of the last one; where
  every pair is registered once the two are the same registration. Anything else is refused
  without a handler running.
\<close>

theorem router_registrations:
  "router_resolve (router_build regs) m path = (case find (registered_at m path) regs of
       Some (_, _, requirement, _) \<Rightarrow> Matched requirement
     | None \<Rightarrow> if path \<in> (\<lambda>r. fst (snd r)) ` set regs then MethodNotAllowed else NotFound)
   \<and> router_handle (router_build regs) rq x a =
     (case find (registered_at (br_method rq) (br_path rq)) (rev regs) of
       Some (_, _, _, h) \<Rightarrow> h \<lparr>ap_request = rq, ap_auth = x\<rparr> a
     | None \<Rightarrow> (response_denied 404 ''no_route'' ''no such route'', a))"
proof
  show "router_resolve (router_build regs) m path = (case find (registered_at m path) regs of
       Some (_, _, requirement, _) \<Rightarrow> Matched requirement
     | None \<Rightarrow> if path \<in> (\<lambda>r. fst (snd r)) ` set regs then MethodNotAllowed else NotFound)"
    unfolding router_resolve_def build_policy policy_resolve_def resolve_rules_spec find_map_covers
    by (cases "find (registered_at m path) regs") (auto simp: pattern_matches_def intro: rev_image_eqI)
  show "router_handle (router_build regs) rq x a =
     (case find (registered_at (br_method rq) (br_path rq)) (rev regs) of
       Some (_, _, _, h) \<Rightarrow> h \<lparr>ap_request = rq, ap_auth = x\<rparr> a
     | None \<Rightarrow> (response_denied 404 ''no_route'' ''no such route'', a))"
    unfolding router_handle_def router_build_def build_handlers router_new_def
    by (cases "find (registered_at (br_method rq) (br_path rq)) (rev regs)") auto
qed

text \<open>
  A second registration of the same method and path changes the handler and not the
  requirement: a handler registered with a capability runs on requests that hold nothing.
\<close>

theorem later_handler_runs_under_earlier_requirement:
  "let app = router_require m path cap guarded (router_public m path open_handler router_new) in
   router_resolve app m path = Matched PublicRoute
   \<and> router_handle app (boundary_request_new m path) None a
     = guarded \<lparr>ap_request = boundary_request_new m path, ap_auth = None\<rparr> a"
  by (simp add: router_require_def router_public_def router_route_def router_new_def router_resolve_def
      router_policy_def policy_rule_def policy_resolve_def pattern_matches_def router_handle_def
      boundary_request_new_def Let_def)

lemma find_rev_None: "find P (rev xs) = None \<longleftrightarrow> find P xs = None"
  by (simp add: find_None_iff)

interpretation router: embedded_application "router_resolve (router_build regs)"
  "router_policy (router_build regs)" "\<lambda>m path. bcontains (ra_handlers (router_build regs)) (m, path)"
  for regs
proof
  show "router_resolve (router_build regs) m path = Matched r
    \<longleftrightarrow> policy_resolve (router_policy (router_build regs)) m path = Matched r" for m path r
    by (simp add: router_resolve_def split: RouteOutcome.split)
  show "bcontains (ra_handlers (router_build regs)) (m, path)"
    if "router_resolve (router_build regs) m path = Matched r" for m path r
  proof -
    have "find (registered_at m path) regs \<noteq> None"
      using that unfolding router_resolve_def build_policy policy_resolve_Matched first_rule_def
      by (auto simp: find_map_covers policy_resolve_def resolve_rules_spec split: RouteOutcome.splits option.splits if_splits)
    then have "find (registered_at m path) (rev regs) \<noteq> None" by (simp add: find_rev_None)
    then show ?thesis unfolding router_build_def bcontains_iff build_handlers by auto
  qed
qed

lemma registered_route_has_handler:
  "bcontains (ra_handlers (router_build regs)) (m, path)"
  if "rule \<in> set (router_policy (router_build regs))" "rule_covers m path rule"
  using that by (rule router.declared_served)

end
