(* ===== verification/Surface.thy ===== *)
theory Surface
  imports Request Connectors "HOL-Library.Sublist"
begin

text \<open>
  The surface derived from a contract (\<^verbatim>\<open>crates/surface/src/surface.rs\<close>): the routes of
  the auth service, the providers, features, principals, experiences and screens it offers, and
  its fingerprint. Everything is a function of the contract.
\<close>

subsection \<open>Vocabulary\<close>

datatype AuthMethod = AuthGet | AuthPost | AuthDelete

definition auth_method_parse :: "string \<Rightarrow> AuthMethod option" where
  "auth_method_parse value = map_of
     [(''GET'', AuthGet), (''POST'', AuthPost), (''DELETE'', AuthDelete)] (ascii_upper value)"

fun auth_method_as_str :: "AuthMethod \<Rightarrow> string" where
  "auth_method_as_str AuthGet = ''GET''"
| "auth_method_as_str AuthPost = ''POST''"
| "auth_method_as_str AuthDelete = ''DELETE''"

datatype AuthOperation =
  OpLogin | OpSignup | OpPasswordChange | OpPasswordForgot | OpPasswordReset
  | OpPasswordPolicy | OpLogout | OpSession | OpSessions | OpProfile | OpDevices
  | OpEmailVerification | OpMfa | OpPasskeys | OpRecovery | OpProviders | OpAuthorize
  | OpPolicies | OpAuthorizationDecisions | OpAuthorizationExplain | OpAccountLinks
  | OpCurrentTenant | OpTenants | OpAgents | OpDelegations

fun operation_as_str :: "AuthOperation \<Rightarrow> string" where
  "operation_as_str OpLogin = ''login''"
| "operation_as_str OpSignup = ''signup''"
| "operation_as_str OpPasswordChange = ''password_change''"
| "operation_as_str OpPasswordForgot = ''password_forgot''"
| "operation_as_str OpPasswordReset = ''password_reset''"
| "operation_as_str OpPasswordPolicy = ''password_policy''"
| "operation_as_str OpLogout = ''logout''"
| "operation_as_str OpSession = ''session''"
| "operation_as_str OpSessions = ''sessions''"
| "operation_as_str OpProfile = ''profile''"
| "operation_as_str OpDevices = ''devices''"
| "operation_as_str OpEmailVerification = ''email_verification''"
| "operation_as_str OpMfa = ''mfa''"
| "operation_as_str OpPasskeys = ''passkeys''"
| "operation_as_str OpRecovery = ''recovery''"
| "operation_as_str OpProviders = ''providers''"
| "operation_as_str OpAuthorize = ''authorize''"
| "operation_as_str OpPolicies = ''policies''"
| "operation_as_str OpAuthorizationDecisions = ''authorization_decisions''"
| "operation_as_str OpAuthorizationExplain = ''authorization_explain''"
| "operation_as_str OpAccountLinks = ''account_links''"
| "operation_as_str OpCurrentTenant = ''current_tenant''"
| "operation_as_str OpTenants = ''tenants''"
| "operation_as_str OpAgents = ''agents''"
| "operation_as_str OpDelegations = ''delegations''"

datatype AuthFeature =
  FeatLogin | FeatSignup | FeatSessions | FeatTenants | FeatAccountLinking | FeatProfile
  | FeatDevices | FeatEmailVerification | FeatMfa | FeatPasskeys | FeatRecovery
  | FeatAgents | FeatDelegation | FeatControlPlane

fun feature_as_str :: "AuthFeature \<Rightarrow> string" where
  "feature_as_str FeatLogin = ''login''"
| "feature_as_str FeatSignup = ''signup''"
| "feature_as_str FeatSessions = ''sessions''"
| "feature_as_str FeatTenants = ''tenants''"
| "feature_as_str FeatAccountLinking = ''account_linking''"
| "feature_as_str FeatProfile = ''profile''"
| "feature_as_str FeatDevices = ''devices''"
| "feature_as_str FeatEmailVerification = ''email_verification''"
| "feature_as_str FeatMfa = ''mfa''"
| "feature_as_str FeatPasskeys = ''passkeys''"
| "feature_as_str FeatRecovery = ''recovery''"
| "feature_as_str FeatAgents = ''agents''"
| "feature_as_str FeatDelegation = ''delegation''"
| "feature_as_str FeatControlPlane = ''control_plane''"

record AuthFeatures =
  af_login :: bool
  af_signup :: bool
  af_sessions :: bool
  af_tenants :: bool
  af_account_linking :: bool
  af_profile :: bool
  af_devices :: bool
  af_email_verification :: bool
  af_mfa :: bool
  af_passkeys :: bool
  af_recovery :: bool
  af_agents :: bool
  af_delegation :: bool
  af_control_plane :: bool

definition features_derive :: "AuthConfig \<Rightarrow> AuthFeatures" where
  "features_derive c = \<lparr>af_login = True,
     af_signup = True,
     af_sessions = True,
     af_tenants = cf_multi_tenant c,
     af_account_linking = 1 < length (cf_providers c),
     af_profile = experience_enabled (cf_experience c) ExpProfile,
     af_devices = experience_enabled (cf_experience c) ExpDeviceManagement,
     af_email_verification = experience_enabled (cf_experience c) ExpEmailVerification,
     af_mfa = experience_enabled (cf_experience c) ExpMfa,
     af_passkeys = experience_enabled (cf_experience c) ExpPasskeys,
     af_recovery = experience_enabled (cf_experience c) ExpRecovery,
     af_agents = cf_agents c,
     af_delegation = cf_agents c,
     af_control_plane = True\<rparr>"

fun feature_enabled :: "AuthFeatures \<Rightarrow> AuthFeature \<Rightarrow> bool" where
  "feature_enabled f FeatLogin = af_login f"
| "feature_enabled f FeatSignup = af_signup f"
| "feature_enabled f FeatSessions = af_sessions f"
| "feature_enabled f FeatTenants = af_tenants f"
| "feature_enabled f FeatAccountLinking = af_account_linking f"
| "feature_enabled f FeatProfile = af_profile f"
| "feature_enabled f FeatDevices = af_devices f"
| "feature_enabled f FeatEmailVerification = af_email_verification f"
| "feature_enabled f FeatMfa = af_mfa f"
| "feature_enabled f FeatPasskeys = af_passkeys f"
| "feature_enabled f FeatRecovery = af_recovery f"
| "feature_enabled f FeatAgents = af_agents f"
| "feature_enabled f FeatDelegation = af_delegation f"
| "feature_enabled f FeatControlPlane = af_control_plane f"

definition all_features :: "AuthFeature list" where
  "all_features =
     [FeatLogin, FeatSignup, FeatSessions, FeatTenants, FeatAccountLinking, FeatProfile
      , FeatDevices, FeatEmailVerification, FeatMfa, FeatPasskeys, FeatRecovery, FeatAgents
      , FeatDelegation, FeatControlPlane]"

definition features_canonical :: "AuthFeatures \<Rightarrow> string" where
  "features_canonical f =
     concat (map (\<lambda>x. feature_as_str x @ ''='' @ show_bool (feature_enabled f x) @ '';'') all_features)"

datatype AgentOperation =
  CreateAgent | DescribeAgent | ListAgents | SuspendAgent | RevokeAgent | CreateDelegation
  | ListDelegations | RevokeDelegation

fun agent_operation_as_str :: "AgentOperation \<Rightarrow> string" where
  "agent_operation_as_str CreateAgent = ''agent.create''"
| "agent_operation_as_str DescribeAgent = ''agent.describe''"
| "agent_operation_as_str ListAgents = ''agent.list''"
| "agent_operation_as_str SuspendAgent = ''agent.suspend''"
| "agent_operation_as_str RevokeAgent = ''agent.revoke''"
| "agent_operation_as_str CreateDelegation = ''delegation.create''"
| "agent_operation_as_str ListDelegations = ''delegation.list''"
| "agent_operation_as_str RevokeDelegation = ''delegation.revoke''"

definition agent_surface :: "AgentOperation list" where
  "agent_surface =
     [CreateAgent, DescribeAgent, ListAgents, SuspendAgent, RevokeAgent, CreateDelegation
      , ListDelegations, RevokeDelegation]"

datatype PrincipalSurfaceKind = SurfaceHuman | SurfaceAgent | SurfaceService

definition principal_surface_as_str :: "PrincipalSurfaceKind \<Rightarrow> string" where
  "principal_surface_as_str k = (case k of SurfaceHuman \<Rightarrow> ''human'' | SurfaceAgent \<Rightarrow> ''agent''
     | SurfaceService \<Rightarrow> ''service'')"

definition principals_derive :: "AuthFeatures \<Rightarrow> PrincipalSurfaceKind list" where
  "principals_derive f = [SurfaceHuman] @ (if af_agents f then [SurfaceAgent] else []) @ [SurfaceService]"

subsection \<open>Providers and claims\<close>

type_synonym ProviderSurface = ConnectorMetadata

text \<open>The provider as the catalog describes it, field by field.\<close>

definition provider_derive :: "string \<Rightarrow> ProviderSurface" where
  "provider_derive i = (let m = describe i in
     \<lparr>md_id = md_id m, md_display_name = md_display_name m, md_kind = md_kind m, md_status = md_status m\<rparr>)"

definition is_actionable :: "ProviderSurface \<Rightarrow> bool" where
  "is_actionable p \<longleftrightarrow> md_status p = Supported"

text \<open>A check mark, a circle, a cross, in UTF-8.\<close>

definition provider_marker :: "ProviderSurface \<Rightarrow> string" where
  "provider_marker p = (case md_status p of
     Supported \<Rightarrow> [CHR 0xE2, CHR 0x9C, CHR 0x93]
   | Declared \<Rightarrow> [CHR 0xE2, CHR 0x97, CHR 0x8B]
   | UnknownStatus \<Rightarrow> [CHR 0xE2, CHR 0x9C, CHR 0x97])"

record ClaimSurface =
  cu_name :: string
  cu_kind :: ClaimKind

subsection \<open>Routes\<close>

record AuthRoute =
  ro_path :: string
  ro_aliases :: "string list"
  ro_methods :: "AuthMethod list"
  ro_operation :: AuthOperation
  ro_requires_session :: bool
  ro_feature :: AuthFeature

definition route_matches :: "AuthRoute \<Rightarrow> string \<Rightarrow> bool" where
  "route_matches r path \<longleftrightarrow> ro_path r = path \<or> path \<in> set (ro_aliases r)"

definition route_allows :: "AuthRoute \<Rightarrow> AuthMethod \<Rightarrow> bool" where
  "route_allows r m \<longleftrightarrow> m \<in> set (ro_methods r)"

definition route_new ::
  "string \<Rightarrow> AuthMethod list \<Rightarrow> AuthOperation \<Rightarrow> bool \<Rightarrow> AuthFeature \<Rightarrow> AuthRoute" where
  "route_new path methods op session feature = \<lparr>ro_path = path, ro_aliases = [], ro_methods = methods,
     ro_operation = op, ro_requires_session = session, ro_feature = feature\<rparr>"

definition with_alias :: "string \<Rightarrow> AuthRoute \<Rightarrow> AuthRoute" where
  "with_alias a r = r\<lparr>ro_aliases := ro_aliases r @ [a]\<rparr>"

definition provided :: "bool \<Rightarrow> 'a list \<Rightarrow> 'a list" where
  "provided b xs = (if b then xs else [])"

definition routes_derive :: "AuthConfig \<Rightarrow> AuthFeatures \<Rightarrow> AuthRoute list" where
  "routes_derive c f = (let on = experience_enabled (cf_experience c) in
     provided (on ExpSignIn) [with_alias ''/login'' (with_alias ''/auth/sign-in''
       (route_new ''/auth/login'' [AuthGet, AuthPost] OpLogin False FeatLogin))]
     @ provided (on ExpSignUp) [with_alias ''/signup''
       (route_new ''/auth/signup'' [AuthGet, AuthPost] OpSignup False FeatSignup)]
     @ provided (on ExpPasswordChange)
       [route_new ''/auth/password/change'' [AuthPost] OpPasswordChange False FeatSignup]
     @ provided (on ExpPasswordReset)
       [with_alias ''/forgot-password''
         (route_new ''/auth/password/forgot'' [AuthGet, AuthPost] OpPasswordForgot False FeatSignup),
        with_alias ''/reset-password''
         (route_new ''/auth/password/reset'' [AuthGet, AuthPost] OpPasswordReset False FeatSignup)]
     @ [route_new ''/_authboundry/password-policy'' [AuthGet] OpPasswordPolicy False FeatControlPlane]
     @ provided (on ExpSignOut) [with_alias ''/auth/sign-out''
       (route_new ''/auth/logout'' [AuthPost] OpLogout True FeatSessions)]
     @ provided (on ExpSessionManagement)
       [route_new ''/auth/session'' [AuthGet, AuthDelete] OpSession True FeatSessions,
        route_new ''/auth/sessions'' [AuthGet] OpSessions True FeatSessions]
     @ provided (on ExpProfile) [route_new ''/auth/profile'' [AuthGet] OpProfile True FeatProfile]
     @ provided (on ExpDeviceManagement) [route_new ''/auth/devices'' [AuthGet] OpDevices True FeatDevices]
     @ provided (on ExpEmailVerification) [with_alias ''/verify-email''
       (route_new ''/auth/email/verification'' [AuthGet, AuthPost] OpEmailVerification False
          FeatEmailVerification)]
     @ provided (on ExpMfa) [route_new ''/auth/mfa'' [AuthGet, AuthPost] OpMfa True FeatMfa]
     @ provided (on ExpPasskeys)
       [route_new ''/auth/passkeys'' [AuthGet, AuthPost] OpPasskeys True FeatPasskeys]
     @ provided (on ExpRecovery) [route_new ''/auth/recovery'' [AuthPost] OpRecovery False FeatRecovery]
     @ provided (on ExpSignIn) [route_new ''/auth/providers'' [AuthGet] OpProviders False FeatLogin]
     @ [route_new ''/auth/authorize'' [AuthPost] OpAuthorize True FeatSessions,
        route_new ''/_authboundry/policies'' [AuthGet] OpPolicies True FeatControlPlane,
        route_new ''/_authboundry/authorization/decisions'' [AuthGet] OpAuthorizationDecisions True
          FeatControlPlane,
        route_new ''/_authboundry/authorization/explain'' [AuthGet] OpAuthorizationExplain True
          FeatControlPlane]
     @ provided (af_account_linking f \<and> on ExpAccountLinking)
       [route_new ''/auth/account/links'' [AuthGet, AuthPost, AuthDelete] OpAccountLinks True
          FeatAccountLinking]
     @ provided (af_tenants f \<and> on ExpTenantSwitching)
       [route_new ''/auth/tenant'' [AuthGet] OpCurrentTenant True FeatTenants,
        route_new ''/auth/tenants'' [AuthGet] OpTenants True FeatTenants]
     @ provided (af_agents f)
       [route_new ''/auth/agents'' [AuthGet, AuthPost, AuthDelete] OpAgents True FeatAgents]
     @ provided (af_delegation f)
       [route_new ''/auth/delegations'' [AuthGet, AuthPost, AuthDelete] OpDelegations True FeatDelegation])"

subsection \<open>Experiences\<close>

record ExperienceSurface =
  es_id :: AuthExperienceCapability
  es_purpose :: string
  es_required_capabilities :: "AuthExperienceCapability list"
  es_authentication_methods :: "AuthenticationMethod list"
  es_required_assurance :: AuthenticationAssurance
  es_inputs :: "string list"
  es_outputs :: "string list"
  es_state :: ExperienceState
  es_operation :: "AuthOperation option"

fun experience_profile ::
  "AuthExperienceCapability \<Rightarrow> string \<times> AuthenticationMethod list \<times> AuthenticationAssurance
   \<times> string list \<times> string list \<times> AuthOperation option" where
  "experience_profile ExpSignIn =
    (''authenticate a principal and open a session'',
     [MethodPassword, MethodExternalIdentity], Basic,
     [''tenant_hint'', ''provider'', ''credential''],
     [''principal'', ''session'', ''authentication_assurance''], Some OpLogin)"
| "experience_profile ExpSignUp =
    (''register an identity through the authoritative runtime'',
     [MethodPassword, MethodExternalIdentity], Basic,
     [''tenant_hint'', ''provider'', ''credential''],
     [''principal'', ''session''], Some OpSignup)"
| "experience_profile ExpSignOut =
    (''revoke the current session'',
     [], Basic,
     [''session''],
     [''session_revoked''], Some OpLogout)"
| "experience_profile ExpPassword =
    (''password authentication capability'',
     [MethodPassword], Basic,
     [''username'', ''password''],
     [''authentication_result''], None)"
| "experience_profile ExpPasswordReset =
    (''recover access through a password reset ceremony'',
     [MethodRecovery], Basic,
     [''principal_hint''],
     [''recovery_ceremony''], Some OpPasswordReset)"
| "experience_profile ExpPasswordChange =
    (''change a known password through the public protocol'',
     [MethodPassword], Basic,
     [''current_password'', ''new_password''],
     [''password_changed''], Some OpPasswordChange)"
| "experience_profile ExpExternalIdentity =
    (''verify an identity through an external provider'',
     [MethodExternalIdentity], Basic,
     [''provider'', ''provider_response''],
     [''external_identity''], Some OpProviders)"
| "experience_profile ExpAccountLinking =
    (''link another verified external identity to the same principal'',
     [MethodExternalIdentity], Basic,
     [''session'', ''provider_response''],
     [''identity_link''], Some OpAccountLinks)"
| "experience_profile ExpEmailVerification =
    (''verify an email identity'',
     [MethodExternalIdentity], Basic,
     [''email'', ''verification_response''],
     [''verified_identity''], Some OpEmailVerification)"
| "experience_profile ExpMfa =
    (''perform or enroll a multi-factor authentication method'',
     [MethodMfa], Strong,
     [''session'', ''challenge_response''],
     [''authentication_assurance''], Some OpMfa)"
| "experience_profile ExpPasskeys =
    (''perform a passkey ceremony'',
     [MethodPasskey], PhishingResistant,
     [''principal_hint'', ''ceremony_response''],
     [''authentication_result''], Some OpPasskeys)"
| "experience_profile ExpDeviceManagement =
    (''manage authenticating devices without granting principal authority'',
     [MethodDeviceApproval], Strong,
     [''session'', ''device''],
     [''device''], Some OpDevices)"
| "experience_profile ExpSessionManagement =
    (''inspect or revoke sessions through public protocol APIs'',
     [], Basic,
     [''session''],
     [''session''], Some OpSessions)"
| "experience_profile ExpProfile =
    (''read AuthBoundry identity profile data, not application domain profile data'',
     [], Basic,
     [''session''],
     [''authboundry_identity_profile'', ''application_profile_ref''], Some OpProfile)"
| "experience_profile ExpTenantSwitching =
    (''select among tenant identities authorized by AuthBoundry'',
     [], Basic,
     [''session''],
     [''tenant''], Some OpTenants)"
| "experience_profile ExpRecovery =
    (''recover an account through a recovery ceremony independent of password reset'',
     [MethodRecovery], Basic,
     [''principal_hint'', ''recovery_method''],
     [''recovery_ceremony''], Some OpRecovery)"

definition experience_derive :: "AuthConfig \<Rightarrow> AuthExperienceCapability \<Rightarrow> ExperienceSurface" where
  "experience_derive c e = (case experience_profile e of
     (purpose, methods, assurance, inputs, outputs, operation) \<Rightarrow>
       \<lparr>es_id = e, es_purpose = purpose, es_required_capabilities = [e],
        es_authentication_methods = methods, es_required_assurance = assurance,
        es_inputs = inputs, es_outputs = outputs, es_state = experience_state (cf_experience c) e,
        es_operation = operation\<rparr>)"

definition experiences_derive :: "AuthConfig \<Rightarrow> AuthFeatures \<Rightarrow> ExperienceSurface list" where
  "experiences_derive c f = map (experience_derive c)
     (filter (\<lambda>e. case e of ExpTenantSwitching \<Rightarrow> af_tenants f
        | ExpAccountLinking \<Rightarrow> af_account_linking f | _ \<Rightarrow> True) all_experiences)"

definition experience_surface_canonical :: "ExperienceSurface \<Rightarrow> string" where
  "experience_surface_canonical e = ''experience='' @ experience_as_str (es_id e) @ '':''
     @ experience_state_as_str (es_state e) @ '':'' @ assurance_as_str (es_required_assurance e) @ '':''
     @ join '','' (map method_as_str (es_authentication_methods e)) @ '';''"

subsection \<open>Screens\<close>

record UiScreenSurface =
  us_screen :: UiScreen
  us_mode :: AuthUiMode
  us_providers :: "string list"

definition offers_providers :: "UiScreen \<Rightarrow> bool" where
  "offers_providers s \<longleftrightarrow> s \<in> {ScreenLogin, ScreenSignup, ScreenAccount, ScreenPasswordForgot,
     ScreenPasswordReset, ScreenPasswordChange, ScreenEmailVerification, ScreenAccountLinks}"

definition screen_derive :: "AuthConfig \<Rightarrow> UiScreen \<Rightarrow> UiScreenSurface" where
  "screen_derive c s = \<lparr>us_screen = s, us_mode = mode_for (cf_ui c) s,
     us_providers = (if offers_providers s
       then filter (\<lambda>p. md_status (describe p) = Supported) (cf_providers c) else [])\<rparr>"

record AuthUiSurface =
  uu_renderer :: ExperienceRenderer
  uu_mode :: AuthUiMode
  uu_theme :: string
  uu_screens :: "UiScreenSurface list"

definition ui_derive :: "AuthConfig \<Rightarrow> AuthFeatures \<Rightarrow> AuthUiSurface" where
  "ui_derive c f = \<lparr>uu_renderer = ui_renderer (cf_ui c), uu_mode = ui_mode (cf_ui c),
     uu_theme = ui_theme (cf_ui c),
     uu_screens = map (screen_derive c)
       ([ScreenLogin, ScreenSignup, ScreenAccount, ScreenPasswordForgot, ScreenPasswordReset,
         ScreenPasswordChange, ScreenEmailVerification, ScreenAccountLinks, ScreenProfile, ScreenDevices,
         ScreenSessions, ScreenMfa, ScreenPasskeys, ScreenRecovery]
        @ provided (af_tenants f) [ScreenTenant] @ provided (af_agents f) [ScreenAgents])\<rparr>"

definition ui_screen :: "AuthUiSurface \<Rightarrow> UiScreen \<Rightarrow> UiScreenSurface option" where
  "ui_screen u s = find (\<lambda>e. us_screen e = s) (uu_screens u)"

definition ui_surface_canonical :: "AuthUiSurface \<Rightarrow> string" where
  "ui_surface_canonical u = ''ui='' @ renderer_as_str (uu_renderer u) @ '';'' @ ui_mode_as_str (uu_mode u)
     @ '';'' @ uu_theme u @ '';''
     @ concat (map (\<lambda>s. screen_as_str (us_screen s) @ '':'' @ ui_mode_as_str (us_mode s) @ '':''
          @ concat (map (\<lambda>p. p @ '','') (us_providers s)) @ '';'') (uu_screens u))"

subsection \<open>The boundary\<close>

datatype BindingModeSurface = SurfaceEmbedded | SurfaceStandalone

definition binding_mode_surface_as_str :: "BindingModeSurface \<Rightarrow> string" where
  "binding_mode_surface_as_str m = (case m of SurfaceEmbedded \<Rightarrow> ''embedded''
     | SurfaceStandalone \<Rightarrow> ''standalone'')"

record BoundarySurface =
  bs_contract :: string
  bs_modes :: "BindingModeSurface list"
  bs_session_credential :: string

definition boundary_contract :: string where
  "boundary_contract = ''authboundry.boundary/v1''"

definition boundary_derive :: BoundarySurface where
  "boundary_derive = \<lparr>bs_contract = boundary_contract, bs_modes = [SurfaceEmbedded, SurfaceStandalone],
     bs_session_credential = ''cookie:'' @ session_cookie\<rparr>"

definition boundary_canonical :: "BoundarySurface \<Rightarrow> string" where
  "boundary_canonical b = ''boundary='' @ bs_contract b @ '';''
     @ join '','' (map binding_mode_surface_as_str (bs_modes b)) @ '';'' @ bs_session_credential b @ '';''"

subsection \<open>The surface\<close>

record AuthSurface =
  sf_routes :: "AuthRoute list"
  sf_boundary :: BoundarySurface
  sf_providers :: "ProviderSurface list"
  sf_features :: AuthFeatures
  sf_claims :: "ClaimSurface list"
  sf_principals :: "PrincipalSurfaceKind list"
  sf_agents :: "AgentOperation list option"
  sf_ui :: AuthUiSurface
  sf_experiences :: "ExperienceSurface list"
  sf_multi_tenant :: bool
  sf_isolation :: IsolationMode
  sf_contract_fingerprint :: string

definition surface_derive :: "AuthConfig \<Rightarrow> AuthSurface" where
  "surface_derive config = (let c = canonical config; f = features_derive c in
     \<lparr>sf_routes = routes_derive c f, sf_boundary = boundary_derive,
      sf_providers = map provider_derive (cf_providers c), sf_features = f,
      sf_claims = map (\<lambda>d. \<lparr>cu_name = cd_name d, cu_kind = cd_kind d\<rparr>) (cf_claims c),
      sf_principals = principals_derive f,
      sf_agents = (if af_agents f then Some agent_surface else None),
      sf_ui = ui_derive c f, sf_experiences = experiences_derive c f,
      sf_multi_tenant = cf_multi_tenant c, sf_isolation = cf_isolation c,
      sf_contract_fingerprint = fingerprint c\<rparr>)"

definition route :: "AuthSurface \<Rightarrow> string \<Rightarrow> AuthRoute option" where
  "route sf path = find (\<lambda>r. route_matches r path) (sf_routes sf)"

definition exposes :: "AuthSurface \<Rightarrow> string \<Rightarrow> bool" where
  "exposes sf path \<longleftrightarrow> route sf path \<noteq> None"

definition surface_paths :: "AuthSurface \<Rightarrow> string list" where
  "surface_paths sf = map ro_path (sf_routes sf)"

definition surface_provider :: "AuthSurface \<Rightarrow> string \<Rightarrow> ProviderSurface option" where
  "surface_provider sf i = find (\<lambda>p. md_id p = i) (sf_providers sf)"

definition surface_fingerprint :: "AuthSurface \<Rightarrow> string" where
  "surface_fingerprint sf = hex16 (stable_hash (sf_contract_fingerprint sf
     @ '';tenant='' @ show_bool (sf_multi_tenant sf) @ '';isolation='' @ isolation_as_str (sf_isolation sf) @ '';''
     @ concat (map (\<lambda>r. ro_path r @ concat (map (\<lambda>a. ''|'' @ a) (ro_aliases r)) @ ''(''
         @ concat (map (\<lambda>m. auth_method_as_str m @ '','') (ro_methods r))
         @ (if ro_requires_session r then '')s;'' else '');'')) (sf_routes sf))
     @ concat (map (\<lambda>p. md_id p @ '':'' @ connector_kind_as_str (md_kind p) @ '':''
         @ connector_status_as_str (md_status p) @ '';'') (sf_providers sf))
     @ concat (map (\<lambda>d. cu_name d @ ''='' @ claim_kind_describe (cu_kind d) @ '';'') (sf_claims sf))
     @ concat (map (\<lambda>k. principal_surface_as_str k @ '';'') (sf_principals sf))
     @ features_canonical (sf_features sf) @ ui_surface_canonical (sf_ui sf)
     @ concat (map experience_surface_canonical (sf_experiences sf))
     @ boundary_canonical (sf_boundary sf)))"

subsection \<open>Facts\<close>

definition spellings :: "AuthRoute \<Rightarrow> string list" where
  "spellings r = ro_path r # ro_aliases r"

lemma route_matches_spellings: "route_matches r p \<longleftrightarrow> p \<in> set (spellings r)"
  by (auto simp: route_matches_def spellings_def)

lemma subseq_provided: "(b \<longrightarrow> b') \<Longrightarrow> subseq (provided b xs) (provided b' xs)"
  by (simp add: provided_def)

lemma in_provided [simp]: "x \<in> set (provided b xs) \<longleftrightarrow> b \<and> x \<in> set xs"
  by (simp add: provided_def)

text \<open>Routes are only ever left out: what a contract derives is a subsequence of what derives
  when everything is declared.\<close>

lemma routes_derive_mono:
  assumes "\<And>e. experience_enabled (cf_experience c) e \<Longrightarrow> experience_enabled (cf_experience d) e"
    and "af_account_linking f \<Longrightarrow> af_account_linking g" "af_tenants f \<Longrightarrow> af_tenants g"
    and "af_agents f \<Longrightarrow> af_agents g" "af_delegation f \<Longrightarrow> af_delegation g"
  shows "subseq (routes_derive c f) (routes_derive d g)"
  unfolding routes_derive_def Let_def
  by (intro list_emb_append_mono subseq_provided subseq_order.order_refl) (use assms in auto)

definition all_enabled :: AuthExperience where
  "all_enabled = \<lparr>x_sign_in = ExpEnabled, x_sign_up = ExpEnabled, x_sign_out = ExpEnabled,
     x_password = ExpEnabled, x_password_reset = ExpEnabled, x_password_change = ExpEnabled,
     x_external_identity = ExpEnabled, x_account_linking = ExpEnabled,
     x_email_verification = ExpEnabled, x_mfa = ExpEnabled, x_passkeys = ExpEnabled,
     x_device_management = ExpEnabled, x_session_management = ExpEnabled, x_profile = ExpEnabled,
     x_tenant_switching = ExpEnabled, x_recovery = ExpEnabled\<rparr>"

definition all_declared :: AuthConfig where
  "all_declared = config_default\<lparr>cf_providers := [''github'', ''local''], cf_multi_tenant := True,
     cf_agents := True, cf_experience := all_enabled\<rparr>"

lemma all_enabled_enabled: "experience_enabled all_enabled e"
  by (cases e) (simp_all add: all_enabled_def experience_enabled_def is_invokable_def)

lemma routes_derive_all_declared:
  "subseq (routes_derive c f) (routes_derive all_declared (features_derive all_declared))"
  by (rule routes_derive_mono)
    (simp_all add: all_declared_def all_enabled_enabled features_derive_def)

lemma all_spellings_distinct:
  "distinct (concat (map spellings (routes_derive all_declared (features_derive all_declared))))"
  by code_simp

lemma distinct_subseq: "subseq xs ys \<Longrightarrow> distinct ys \<Longrightarrow> distinct xs"
  by (induction rule: list_emb.induct) (auto dest: list_emb_set)

lemma subseq_concat_map: "subseq xs ys \<Longrightarrow> subseq (concat (map f xs)) (concat (map f ys))"
  by (induction rule: list_emb.induct) (auto intro: subseq_drop_many list_emb_append_mono)

lemma spellings_distinct: "distinct (concat (map spellings (routes_derive c f)))"
  by (rule distinct_subseq
      [OF subseq_concat_map [OF routes_derive_all_declared] all_spellings_distinct])

lemma find_unique_spelling:
  assumes "distinct (concat (map spellings rs))" "r \<in> set rs" "p \<in> set (spellings r)"
  shows "find (\<lambda>r. route_matches r p) rs = Some r"
  using assms by (induction rs) (auto simp: route_matches_spellings)

lemma exposes_spellings:
  "exposes (surface_derive c) p \<longleftrightarrow>
     p \<in> set (concat (map spellings (routes_derive (canonical c) (features_derive (canonical c)))))"
  by (auto simp: exposes_def route_def surface_derive_def Let_def find_None_iff
      route_matches_spellings)

text \<open>
  C28. Routing is unambiguous: in the surface of any contract, whatever it declares, every
  spelling of a route (its path or an alias) is the spelling of that route only, so looking it
  up gives exactly that route, in whatever order the routes come; and a path is exposed exactly
  when it is one of the spellings.
\<close>

theorem routes_are_unambiguous:
  "(\<forall>r\<in>set (sf_routes (surface_derive c)). \<forall>p\<in>set (spellings r).
      route (surface_derive c) p = Some r
      \<and> (\<forall>r'\<in>set (sf_routes (surface_derive c)). p \<in> set (spellings r') \<longrightarrow> r' = r))
   \<and> (exposes (surface_derive c) p
      \<longleftrightarrow> p \<in> set (concat (map spellings (sf_routes (surface_derive c)))))"
proof
  have found: "route (surface_derive c) q = Some r"
    if "r \<in> set (sf_routes (surface_derive c))" "q \<in> set (spellings r)" for r q
    using that by (auto simp: surface_derive_def Let_def route_def
        intro: find_unique_spelling [OF spellings_distinct])
  then show "\<forall>r\<in>set (sf_routes (surface_derive c)). \<forall>p\<in>set (spellings r).
      route (surface_derive c) p = Some r
      \<and> (\<forall>r'\<in>set (sf_routes (surface_derive c)). p \<in> set (spellings r') \<longrightarrow> r' = r)"
    by (metis option.inject)
  show "exposes (surface_derive c) p
      \<longleftrightarrow> p \<in> set (concat (map spellings (sf_routes (surface_derive c))))"
    by (auto simp: exposes_def route_def find_None_iff route_matches_spellings)
qed

lemma canonical_fields [simp]:
  "cf_experience (canonical c) = cf_experience c"
  "cf_multi_tenant (canonical c) = cf_multi_tenant c"
  "cf_agents (canonical c) = cf_agents c"
  "length (cf_providers (canonical c)) = length (cf_providers c)"
  "set (cf_providers (canonical c)) = set (cf_providers c)"
  by (simp_all add: canonical_def)

lemma login_route_of_all_declared:
  "with_alias ''/login'' (with_alias ''/auth/sign-in''
     (route_new ''/auth/login'' [AuthGet, AuthPost] OpLogin False FeatLogin))
   \<in> set (sf_routes (surface_derive all_declared))"
  by (simp add: surface_derive_def Let_def routes_derive_def)
    (simp add: all_declared_def all_enabled_enabled)

theorem routes_are_unambiguous_witness:
  "map_option ro_operation (route (surface_derive all_declared) ''/auth/sign-in'') = Some OpLogin"
  using bspec [OF bspec [OF conjunct1 [OF routes_are_unambiguous] login_route_of_all_declared],
      of "''/auth/sign-in''", THEN conjunct1]
  by (simp add: spellings_def with_alias_def route_new_def)

text \<open>
  The surface and its fingerprint depend on the contract and not on how it is written
  down: two declarations that differ only in order have the same surface if one of them is
  valid.
\<close>

theorem reordered_contract_same_surface:
  assumes "config_validate c = Inr ()" "reordered c d"
  shows "surface_derive c = surface_derive d
    \<and> surface_fingerprint (surface_derive c) = surface_fingerprint (surface_derive d)"
  using canonical_reordered [OF assms] by (simp add: surface_derive_def)

lemma sample_reordered:
  "reordered (sample_contract [''github'', ''local'']) (sample_contract [''local'', ''github''])"
  by (simp add: reordered_def sample_contract_def)

theorem reordered_contract_same_surface_witness:
  "surface_derive (sample_contract [''github'', ''local''])
     = surface_derive (sample_contract [''local'', ''github''])"
  using reordered_contract_same_surface [OF sample_contracts_valid(2) sample_reordered] ..

text \<open>
  The features of a surface do not follow the declared experiences throughout: a contract
  that disables signing up has no sign-up route, and its features still say that signing up
  is enabled.
\<close>

theorem signup_feature_ignores_declaration:
  "\<exists>c. config_validate c = Inr () \<and> \<not> experience_enabled (cf_experience c) ExpSignUp
     \<and> \<not> exposes (surface_derive c) ''/auth/signup''
     \<and> feature_enabled (sf_features (surface_derive c)) FeatSignup"
proof -
  let ?c = "sample_contract [''github'', ''local'']
      \<lparr>cf_experience := experience_set experience_default ExpSignUp ExpDisabled\<rparr>"
  have "config_validate ?c = Inr ()"
    using sample_contracts_valid(2)
    by (simp add: contract_ok_def config_default_def ui_default_def storage_default_def
        experience_default_def password_policy_default_def experience_enabled_def is_invokable_def
        sample_contract_def)
  moreover have "\<not> experience_enabled (cf_experience ?c) ExpSignUp"
    by (simp add: experience_enabled_def is_invokable_def experience_default_def)
  moreover have "\<not> exposes (surface_derive ?c) ''/auth/signup''"
    unfolding exposes_spellings by code_simp
  moreover have "feature_enabled (sf_features (surface_derive ?c)) FeatSignup"
    by (simp add: surface_derive_def Let_def features_derive_def)
  ultimately show ?thesis by blast
qed

end
