(* ===== verification/Enforcing.thy ===== *)
theory Enforcing
  imports Boundary Delegating
begin

text \<open>
  What enforcement guarantees, over the definitions of \<open>Boundary\<close>: who is let through, on
  what decision, with what trace; what of a request can matter; and where live authority does
  not reach.
\<close>

subsection \<open>Authentication\<close>

lemma now_run: "now s = (Inr (rt_clock s (rt_clock_reads s)), s\<lparr>rt_clock_reads := rt_clock_reads s + 1\<rparr>)"
  by (simp add: now_def)

lemma authenticate_Inr:
  assumes "authenticate out rq s = (Inr x, s')"
  obtains c session rc where "credential rq = Some c"
    "resolve_session (ou_env out) (sc_tenant_id c) (sc_session_id c) (rt_clock s (rt_clock_reads s))
       (rt_mesh s) = Inr (session, rc)"
    "\<And>hint. tenant_hint rq = Some hint \<Longrightarrow> hint = t_id (c_tenant rc)"
    "x = auth_context_new session rc" "s' = s\<lparr>rt_clock_reads := rt_clock_reads s + 1\<rparr>"
  using assms unfolding authenticate_def
  by (elim eff_elims) (auto simp: now_run require_def split: option.splits if_splits prod.splits elim!: eff_elims)

lemma authenticate_state: "snd (authenticate out rq s) \<in> {s, s\<lparr>rt_clock_reads := rt_clock_reads s + 1\<rparr>}"
  unfolding authenticate_def
proof (rule snd_andThen_reading [where Q = "\<lambda>u. u \<in> {s, s\<lparr>rt_clock_reads := rt_clock_reads s + 1\<rparr>}"], goal_cases)
  case (1 c)
  show ?case
    by (rule snd_andThen [where Q = "\<lambda>u. u \<in> {s, s\<lparr>rt_clock_reads := rt_clock_reads s + 1\<rparr>}"])
      (auto simp: now_run require_def andThen_def split: sum.split prod.split)
qed simp

lemma context_fields [simp]:
  "ax_runtime (auth_context_new session rc) = rc" "ax_principal (auth_context_new session rc) = c_principal rc"
  "ax_tenant (auth_context_new session rc) = c_tenant rc" "ax_session (auth_context_new session rc) = session"
  "ax_runtime (with_decision d x) = ax_runtime x" "ax_decision (with_decision d x) = Some d"
  "ax_principal (with_decision d x) = ax_principal x" "ax_session (with_decision d x) = ax_session x"
  "ax_tenant (with_decision d x) = ax_tenant x"
  by (simp_all add: auth_context_new_def with_decision_def)

lemma enforce_capability_Inr:
  assumes "enforce out rq (CapabilityRoute cap) s = (Inr mx, s')"
  obtains x s1 d where "authenticate out rq s = (Inr x, s1)" "decide_request out x cap rq s1 = (Inr d, s')"
    "is_allowed d" "mx = Some (with_decision d x)"
proof -
  obtain x s1 d s2 where 1: "authenticate out rq s = (Inr x, s1)" "decide_request out x cap rq s1 = (Inr d, s2)"
    "(case d of Allow _ _ _ _ _ _ \<Rightarrow> ok (Some (with_decision d x))
       | Deny reason _ _ _ _ _ _ _ \<Rightarrow> fail (auth_error PolicyEvaluation
           (in_backticks cap @ '' is not granted to this principal'') reason)) s2 = (Inr mx, s')"
    using assms unfolding enforce_def by (auto elim!: eff_elims)
  then show thesis by (cases d) (auto simp: is_allowed_def fail_def intro: that)
qed

subsection \<open>Decisions\<close>

text \<open>How the entry points of the runtime run those of the mesh.\<close>

lemma deciding_run:
  "deciding f s = (Inr (fst (f (rt_mesh s))), s\<lparr>rt_mesh := snd (f (rt_mesh s))\<rparr>)"
  by (simp add: deciding_def on_mesh_def zoom_def split: prod.split)

lemma andThen_state:
  "andThen (reading f) k s = (case f s of Inl e \<Rightarrow> (Inl e, s) | Inr x \<Rightarrow> k x s)"
  "andThen (require b e) m s = (if b then m () s else (Inl e, s))"
  "andThen now g s = g (rt_clock s (rt_clock_reads s)) (s\<lparr>rt_clock_reads := rt_clock_reads s + 1\<rparr>)"
  by (simp_all add: andThen_def require_def now_def split: sum.split)

lemma authorize_resource_run:
  "authorize_resource out x rq s = (if trim (rq_capability rq) = [] then (Inl no_capability_named, s)
     else let r = authorize_request_with_authority_revision (ou_env out) (ax_runtime x) rq
            (resolved_attributes rq s) (rt_clock s (rt_clock_reads s)) (lv_revision (ct_authority s)) (rt_mesh s)
       in (Inr (fst r), s\<lparr>rt_clock_reads := rt_clock_reads s + 1, rt_mesh := snd r\<rparr>))"
  by (simp add: authorize_resource_def andThen_state deciding_run live_authority_def Let_def)

lemma authorize_run_resource_run:
  "authorize_run_resource out x i rq s = (if trim (rq_capability rq) = [] then (Inl no_capability_named, s)
     else let r = authorize_run_request_with_authority_revision (ou_env out) (ax_runtime x) i rq
            (resolved_attributes rq s) (rt_clock s (rt_clock_reads s)) (lv_revision (ct_authority s)) (rt_mesh s)
       in (Inr (fst r), s\<lparr>rt_clock_reads := rt_clock_reads s + 1, rt_mesh := snd r\<rparr>))"
  by (simp add: authorize_run_resource_def andThen_state deciding_run live_authority_def Let_def)

lemma boundary_authorize_run:
  "boundary_authorize out x cap s = (if trim cap = [] then (Inl no_capability_named, s)
     else let t = rt_clock s (rt_clock_reads s); s1 = s\<lparr>rt_clock_reads := rt_clock_reads s + 1\<rparr> in
       case map_of (lv_capability_policies (ct_authority s)) cap of
         Some pol \<Rightarrow> (Inr (evaluate_capability (env_clock (ou_env out)) (Some pol) (Some (ax_principal x))
           (Some (ax_tenant x)) (map_option dx_delegation (ax_delegation x)) cap t), s1)
       | None \<Rightarrow> let r = authorize_with_authority_revision (ou_env out) (ax_runtime x) cap t
            (lv_revision (ct_authority s)) (rt_mesh s) in (Inr (fst r), s1\<lparr>rt_mesh := snd r\<rparr>))"
  by (simp add: boundary_authorize_def andThen_state deciding_run live_authority_def Let_def split: option.split)

lemma allowed_conclude:
  "is_allowed (fst (conclude env ctx cap d t revision m)) \<Longrightarrow> is_allowed d"
  using conclude_allowed by blast

lemma picked_delegation_stored: "set_option (pick_delegation ds cap t) \<subseteq> set ds"
  using pick_delegation_mem by (cases "pick_delegation ds cap t") fastforce+

lemma authorize_capability_allowed:
  assumes "is_allowed (fst (authorize_with_authority_revision env ctx cap t revision m))"
  shows "\<exists>pol md. policy (c_tenant ctx) m = Inr pol
    \<and> set_option md \<subseteq> set (delegations_for (c_tenant ctx) (p_id (c_principal ctx)) m)
    \<and> decision_grant (evaluate_capability (env_clock env) (Some pol) (Some (c_principal ctx))
        (Some (c_tenant ctx)) md cap t)
      = decision_grant (fst (authorize_with_authority_revision env ctx cap t revision m))"
proof (cases "policy (c_tenant ctx) m")
  case (Inl e)
  with assms show ?thesis by (simp add: authorize_with_authority_revision_def)
next
  case (Inr pol)
  let ?md = "pick_delegation (delegations_for (c_tenant ctx) (p_id (c_principal ctx)) m) cap t"
  from Inr have run: "authorize_with_authority_revision env ctx cap t revision m = conclude env ctx cap
      (evaluate_capability (env_clock env) (Some pol) (Some (c_principal ctx)) (Some (c_tenant ctx)) ?md cap t)
      t revision m"
    by (simp add: authorize_with_authority_revision_def Let_def)
  from conclude_allowed [OF assms [unfolded run]] Inr show ?thesis
    by (intro exI [of _ pol] exI [of _ ?md]) (simp add: run picked_delegation_stored)
qed

lemma authorize_request_evaluated:
  assumes "is_allowed (fst (authorize_request_with_authority_revision env ctx rq attrs t revision m))"
  shows "\<exists>pol md. policy (c_tenant ctx) m = Inr pol
    \<and> set_option md \<subseteq> set (delegations_for (c_tenant ctx) (p_id (c_principal ctx)) m)
    \<and> decision_grant (evaluate_authorization_request (env_clock env) (Some pol) (Some (c_principal ctx))
        (Some (c_tenant ctx)) md rq attrs t)
      = decision_grant (fst (authorize_request_with_authority_revision env ctx rq attrs t revision m))"
  using authorize_request_allowed [OF assms] picked_delegation_stored by metis

lemma authorize_run_evaluated:
  assumes "is_allowed (fst (authorize_run_request_with_authority_revision env ctx i rq attrs t revision m))"
  shows "\<exists>pol md r. policy (c_tenant ctx) m = Inr pol
    \<and> set_option md \<subseteq> set (delegations_for (c_tenant ctx) (p_id (c_principal ctx)) m)
    \<and> decision_grant (evaluate_authorization_request (env_clock env) (Some pol) (Some (c_principal ctx))
        (Some (c_tenant ctx)) md (request_in_run rq r) attrs t)
      = decision_grant (fst (authorize_run_request_with_authority_revision env ctx i rq attrs t revision m))"
proof -
  obtain r where "is_allowed (fst (authorize_request_with_authority_revision env (with_run ctx r)
         (request_in_run rq r) attrs t revision m))"
    and same: "fst (authorize_run_request_with_authority_revision env ctx i rq attrs t revision m)
      = fst (authorize_request_with_authority_revision env (with_run ctx r) (request_in_run rq r) attrs t revision m)"
    using authorize_run_allowed [OF assms] by blast
  from authorize_request_evaluated [OF this(1)] show ?thesis unfolding same by (auto simp: with_run_def)
qed

lemma evaluate_capability_grant:
  assumes "decision_grant (evaluate_capability clk (Some pol) (Some p) (Some t) md cap at) = Some g"
  shows "g_capability g = cap \<and> g_principal_id g = p_id p \<and> g_tenant_id g = t_id t \<and> g_policy_id g = pol_id pol"
proof -
  have rules: "g_capability g = cap \<and> g_principal_id g = p_id p \<and> g_tenant_id g = t_id t \<and> g_policy_id g = pol_id pol"
    if "capability_rules clk pol p t cap rs = Some d" "decision_grant d = Some g" for rs d
    using that by (induction rs)
      (auto simp: allow_def claim_grant_def decision_grant_def split: if_splits prod.splits)
  show ?thesis using assms rules
    by (auto simp: evaluate_capability_def allow_def deny_def delegated_grant_def decision_grant_def
        split: if_splits option.splits)
qed

lemma evaluate_request_grant:
  assumes "decision_grant (evaluate_authorization_request clk (Some pol) (Some p) (Some t) md rq attrs at) = Some g"
  shows "g_capability g = rq_capability rq \<and> g_principal_id g = p_id p \<and> g_tenant_id g = t_id t
    \<and> g_policy_id g = pol_id pol"
  using assms by (auto simp: evaluate_authorization_request_def allow_def deny_for_def decision_grant_def
      deny_for_with_conditions_def claim_grant_def delegated_grant_def Let_def
      split: if_splits option.splits sum.splits dest!: request_rules_Inr)

text \<open>
  The grant behind an allowed request is what the policy engine grants the principal in the
  tenant, with at most a stored delegation to the principal: for the resource and the action that
  the request targets, with what the runtime's resolver says of the resource, when it targets one,
  and for the capability alone otherwise.
\<close>

definition granted_by ::
  "int option \<Rightarrow> Policy \<Rightarrow> Principal \<Rightarrow> TenantContext \<Rightarrow> string \<Rightarrow> BoundaryRequest \<Rightarrow> int
   \<Rightarrow> ('l, 'm) Runtime \<Rightarrow> GrantedCapability \<Rightarrow> bool" where
  "granted_by clk pol p t cap rq at s g \<longleftrightarrow>
     (\<exists>md. set_option md \<subseteq> set (delegations_for t (p_id p) (rt_mesh s)) \<and>
     (case infer_resource_target (br_method rq) (br_path rq) of
        None \<Rightarrow> decision_grant (evaluate_capability clk (Some pol) (Some p) (Some t) md cap at) = Some g
      | Some (ty, i, action) \<Rightarrow> \<exists>arq resource.
          resource = \<lparr>rr_resource_type = ty, rr_resource_id = i, rr_tenant_id = t_id t\<rparr>
          \<and> rq_capability arq = cap \<and> rq_action arq = action \<and> rq_principal arq = p_id p
          \<and> rq_tenant arq = t_id t \<and> rq_resource arq = Some resource
          \<and> decision_grant (evaluate_authorization_request clk (Some pol) (Some p) (Some t) md arq
              (Some (rt_resolver s resource authorization_context_default)) at) = Some g))"

lemma granted_by_reads [simp]:
  "granted_by clk pol p t cap rq at (s\<lparr>rt_clock_reads := n\<rparr>) g = granted_by clk pol p t cap rq at s g"
  by (simp add: granted_by_def split: option.split prod.split)

lemma granted_by_names:
  assumes "granted_by clk pol p t cap rq at s g"
  shows "g_capability g = cap \<and> g_principal_id g = p_id p \<and> g_tenant_id g = t_id t \<and> g_policy_id g = pol_id pol"
  using assms unfolding granted_by_def
  by (auto split: option.splits prod.splits dest!: evaluate_capability_grant evaluate_request_grant)

lemma decide_request_granted:
  assumes "decide_request out (auth_context_new session rc) cap rq s = (Inr d, s')" "is_allowed d"
    and stored: "set_option (c_delegation rc)
      \<subseteq> set (delegations_for (c_tenant rc) (p_id (c_principal rc)) (rt_mesh s))"
  shows "\<exists>pol g. decision_grant d = Some g
    \<and> (policy (c_tenant rc) (rt_mesh s) = Inr pol
        \<or> infer_resource_target (br_method rq) (br_path rq) = None
          \<and> map_of (lv_capability_policies (live_authority s)) cap = Some pol)
    \<and> granted_by (env_clock (ou_env out)) pol (c_principal rc) (c_tenant rc) cap rq
        (rt_clock s (rt_clock_reads s)) s g"
proof (cases "infer_resource_target (br_method rq) (br_path rq)")
  case None
  then have run: "boundary_authorize out (auth_context_new session rc) cap s = (Inr d, s')"
    using assms(1) by (simp add: decide_request_def authorization_request_def)
  from assms(2) obtain g where g: "decision_grant d = Some g" by (auto simp: is_allowed_iff)
  show ?thesis
  proof (cases "map_of (lv_capability_policies (ct_authority s)) cap")
    case (Some pol)
    from run Some have "d = evaluate_capability (env_clock (ou_env out)) (Some pol) (Some (c_principal rc))
        (Some (c_tenant rc)) (c_delegation rc) cap (rt_clock s (rt_clock_reads s))"
      by (cases "c_delegation rc") (auto simp: boundary_authorize_run Let_def auth_context_new_def
          delegation_context_new_def split: if_splits)
    with g stored have "granted_by (env_clock (ou_env out)) pol (c_principal rc) (c_tenant rc) cap rq
        (rt_clock s (rt_clock_reads s)) s g"
      unfolding granted_by_def None by (intro exI [of _ "c_delegation rc"]) simp
    with Some None g show ?thesis by (auto simp: live_authority_def)
  next
    case no_override: None
    from run no_override have d: "d = fst (authorize_with_authority_revision (ou_env out) rc cap
        (rt_clock s (rt_clock_reads s)) (lv_revision (ct_authority s)) (rt_mesh s))"
      by (auto simp: boundary_authorize_run Let_def split: if_splits)
    from authorize_capability_allowed [OF assms(2) [unfolded d], folded d] None g show ?thesis
      by (auto simp: granted_by_def)
  qed
next
  case (Some target)
  obtain ty i action where target: "target = (ty, i, action)" by (cases target)
  define resource where "resource =
    \<lparr>rr_resource_type = ty, rr_resource_id = i, rr_tenant_id = t_id (c_tenant rc)\<rparr>"
  define arq where "arq = \<lparr>rq_principal = p_id (c_principal rc), rq_tenant = t_id (c_tenant rc),
        rq_capability = cap, rq_action = action, rq_resource = Some resource,
        rq_context = authorization_context_default\<rparr>"
  let ?attrs = "Some (rt_resolver s resource authorization_context_default)"
  have "authorization_request rc cap rq = Some arq"
    using Some target by (simp add: authorization_request_def arq_def resource_def)
  then have run: "(case run_id_from_request (auth_context_new session rc) rq s of
      Inl e \<Rightarrow> (Inl e, s)
    | Inr (Some i) \<Rightarrow> authorize_run_resource out (auth_context_new session rc) i arq s
    | Inr None \<Rightarrow> authorize_resource out (auth_context_new session rc) arq s) = (Inr d, s')"
    using assms(1)
    by (auto simp: decide_request_def andThen_state split: sum.splits option.splits)
  have attrs: "resolved_attributes arq s = ?attrs" by (simp add: resolved_attributes_def arq_def)
  from assms(2) obtain g where g: "decision_grant d = Some g" by (auto simp: is_allowed_iff)
  have ev: "\<exists>pol md arq'. policy (c_tenant rc) (rt_mesh s) = Inr pol
      \<and> set_option md \<subseteq> set (delegations_for (c_tenant rc) (p_id (c_principal rc)) (rt_mesh s))
      \<and> arq' \<in> insert arq (range (request_in_run arq))
      \<and> decision_grant (evaluate_authorization_request (env_clock (ou_env out)) (Some pol) (Some (c_principal rc))
          (Some (c_tenant rc)) md arq' ?attrs (rt_clock s (rt_clock_reads s))) = Some g"
  proof (cases "run_id_from_request (auth_context_new session rc) rq s")
    case (Inl e)
    then show ?thesis using run by simp
  next
    case (Inr mi)
    show ?thesis
    proof (cases mi)
      case None
      then have d: "d = fst (authorize_request_with_authority_revision (ou_env out) rc arq
          ?attrs (rt_clock s (rt_clock_reads s)) (lv_revision (ct_authority s)) (rt_mesh s))"
        using run Inr by (auto simp: authorize_resource_run attrs Let_def split: if_splits)
      from authorize_request_evaluated [OF assms(2) [unfolded d], folded d] g show ?thesis by auto
    next
      case (Some j)
      then have d: "d = fst (authorize_run_request_with_authority_revision (ou_env out) rc j arq
          ?attrs (rt_clock s (rt_clock_reads s)) (lv_revision (ct_authority s)) (rt_mesh s))"
        using run Inr by (auto simp: authorize_run_resource_run attrs Let_def split: if_splits)
      from authorize_run_evaluated [OF assms(2) [unfolded d], folded d] obtain pol md r where
        "policy (c_tenant rc) (rt_mesh s) = Inr pol"
        "set_option md \<subseteq> set (delegations_for (c_tenant rc) (p_id (c_principal rc)) (rt_mesh s))"
        "decision_grant (evaluate_authorization_request (env_clock (ou_env out)) (Some pol) (Some (c_principal rc))
          (Some (c_tenant rc)) md (request_in_run arq r) ?attrs (rt_clock s (rt_clock_reads s))) = decision_grant d"
        by blast
      with g show ?thesis by (intro exI [of _ pol] exI [of _ md] exI [of _ "request_in_run arq r"]) simp
    qed
  qed
  then obtain pol md arq' where pol: "policy (c_tenant rc) (rt_mesh s) = Inr pol"
    and md: "set_option md \<subseteq> set (delegations_for (c_tenant rc) (p_id (c_principal rc)) (rt_mesh s))"
    and arq': "arq' \<in> insert arq (range (request_in_run arq))"
    and granted: "decision_grant (evaluate_authorization_request (env_clock (ou_env out)) (Some pol)
          (Some (c_principal rc)) (Some (c_tenant rc)) md arq' ?attrs (rt_clock s (rt_clock_reads s))) = Some g"
    by blast
  have "rq_capability arq' = cap \<and> rq_action arq' = action \<and> rq_principal arq' = p_id (c_principal rc)
      \<and> rq_tenant arq' = t_id (c_tenant rc) \<and> rq_resource arq' = Some resource"
    using arq' by (auto simp: arq_def request_in_run_def)
  then have "granted_by (env_clock (ou_env out)) pol (c_principal rc) (c_tenant rc) cap rq
      (rt_clock s (rt_clock_reads s)) s g"
    unfolding granted_by_def Some target using granted md
    by (intro exI [of _ md]) (auto simp: resource_def)
  with pol g show ?thesis by blast
qed

lemma context_for_delegation_stored:
  "context_for env t p sid at m = Inr rc \<Longrightarrow> set_option (c_delegation rc) \<subseteq> set (delegations_for t (p_id p) m)"
  unfolding context_for_def Let_def rbind_Inr
  by (elim exE conjE, drule sym) (auto dest: find_SomeD split: option.splits)

lemma enforce_grants:
  assumes "enforce out rq (CapabilityRoute cap) s = (Inr mx, s')"
  obtains x c t identity i d g pol where "mx = Some x" "credential rq = Some c"
    "tenant (sc_tenant_id c) (rt_mesh s) = Inr t" "ax_tenant x = t"
    "validate_session t (sc_session_id c) (rt_clock s (rt_clock_reads s)) (m_sessions (rt_mesh s))
       = Inr (ax_session x)"
    "\<And>hint. tenant_hint rq = Some hint \<Longrightarrow> hint = t_id t"
    "get_identity t (s_identity_id (ax_session x)) (dir_identities (rt_mesh s)) = Inr (Some identity)"
    "resolve_external_identity t (i_provider identity) (i_provider_subject identity)
       (dir_principals (rt_mesh s)) = Some i"
    "principal_of t i (rt_mesh s) = Inr (ax_principal x)"
    "assert_principal_is_usable (ax_principal x) = Inr ()"
    "ax_decision x = Some d" "decision_grant d = Some g"
    "g_capability g = cap" "g_principal_id g = p_id (ax_principal x)" "g_tenant_id g = t_id t"
    "policy t (rt_mesh s) = Inr pol
      \<or> infer_resource_target (br_method rq) (br_path rq) = None
        \<and> map_of (lv_capability_policies (live_authority s)) cap = Some pol"
    "granted_by (env_clock (ou_env out)) pol (ax_principal x) t cap rq (rt_clock s (rt_clock_reads s + 1)) s g"
proof (rule enforce_capability_Inr [OF assms])
  fix x s1 d
  assume decided: "authenticate out rq s = (Inr x, s1)" "decide_request out x cap rq s1 = (Inr d, s')"
    "is_allowed d" "mx = Some (with_decision d x)"
  show thesis
  proof (rule authenticate_Inr [OF decided(1)], goal_cases)
    case (1 c session rc)
    from 1(2) obtain t identity i p where st: "tenant (sc_tenant_id c) (rt_mesh s) = Inr t"
      "validate_session t (sc_session_id c) (rt_clock s (rt_clock_reads s)) (m_sessions (rt_mesh s)) = Inr session"
      "get_identity t (s_identity_id session) (dir_identities (rt_mesh s)) = Inr (Some identity)"
      "resolve_external_identity t (i_provider identity) (i_provider_subject identity)
         (dir_principals (rt_mesh s)) = Some i"
      "principal_of t i (rt_mesh s) = Inr p" "assert_principal_is_usable p = Inr ()"
      "context_for (ou_env out) t p (Some (s_id session)) (rt_clock s (rt_clock_reads s)) (rt_mesh s) = Inr rc"
      by (auto simp: resolve_session_Inr)
    have rc: "c_principal rc = p" "c_tenant rc = t" using st(7) by (auto simp: context_for_def rbind_Inr Let_def)
    have "set_option (c_delegation rc) \<subseteq> set (delegations_for (c_tenant rc) (p_id (c_principal rc)) (rt_mesh s1))"
      using context_for_delegation_stored [OF st(7)] by (simp add: 1(5) rc)
    from decide_request_granted [OF decided(2) [unfolded 1(4)] decided(3) this]
    obtain pol g where g: "decision_grant d = Some g" "policy t (rt_mesh s) = Inr pol
        \<or> infer_resource_target (br_method rq) (br_path rq) = None
          \<and> map_of (lv_capability_policies (live_authority s)) cap = Some pol"
      "granted_by (env_clock (ou_env out)) pol p t cap rq (rt_clock s (rt_clock_reads s + 1)) s g"
      by (auto simp: 1(5) rc live_authority_def)
    have x: "ax_session x = session" "ax_principal x = p" "ax_tenant x = t"
      by (simp_all add: 1(4) rc auth_context_new_def)
    show ?case
      by (rule that [of "with_decision d x" c t identity i d g pol])
        (use decided(4) st g rc 1(1,3) granted_by_names [OF g(3)] in \<open>simp_all add: x with_decision_def\<close>)
  qed
qed

text \<open>
  C9. Enforcement lets a request through a protected route only on authority that is read back
  from the runtime's own state. The request presents a credential, whose session is live now in
  the credential's tenant; a tenant the request addresses is that tenant. The principal of the
  context is the one stored for the identity that the session names, and usable. The decision in
  the context is an allowance whose grant is for the capability of the route, that principal and
  that tenant; and it is the grant that the policy engine gives under the tenant's policy for the
  resource and the action the request targets, or, for a request that targets none, for the
  capability, there under the tenant's policy or the live policy of the capability, in either
  case with at most a delegation stored for the principal.
\<close>

theorem enforce_lets_only_authority_through:
  assumes "enforce out rq (CapabilityRoute cap) s = (Inr mx, s')"
  shows "\<exists>x c t identity i d g pol. mx = Some x \<and> credential rq = Some c
    \<and> tenant (sc_tenant_id c) (rt_mesh s) = Inr t \<and> ax_tenant x = t
    \<and> validate_session t (sc_session_id c) (rt_clock s (rt_clock_reads s)) (m_sessions (rt_mesh s))
        = Inr (ax_session x)
    \<and> (\<forall>hint. tenant_hint rq = Some hint \<longrightarrow> hint = t_id t)
    \<and> get_identity t (s_identity_id (ax_session x)) (dir_identities (rt_mesh s)) = Inr (Some identity)
    \<and> resolve_external_identity t (i_provider identity) (i_provider_subject identity)
        (dir_principals (rt_mesh s)) = Some i
    \<and> principal_of t i (rt_mesh s) = Inr (ax_principal x)
    \<and> assert_principal_is_usable (ax_principal x) = Inr ()
    \<and> ax_decision x = Some d \<and> decision_grant d = Some g
    \<and> g_capability g = cap \<and> g_principal_id g = p_id (ax_principal x) \<and> g_tenant_id g = t_id t
    \<and> (policy t (rt_mesh s) = Inr pol
        \<or> infer_resource_target (br_method rq) (br_path rq) = None
          \<and> map_of (lv_capability_policies (live_authority s)) cap = Some pol)
    \<and> granted_by (env_clock (ou_env out)) pol (ax_principal x) t cap rq
        (rt_clock s (rt_clock_reads s + 1)) s g"
  by (rule enforce_grants [OF assms]) blast

subsection \<open>What of a request counts\<close>

lemma run_id_cong:
  assumes "\<And>name. field name rq' = field name rq"
  shows "run_id_from_request x rq' s = run_id_from_request x rq s"
  unfolding run_id_from_request_def assms ..

lemma enforce_reads:
  assumes "credential r' = credential r" "tenant_hint r' = tenant_hint r" "br_method r' = br_method r"
    "br_path r' = br_path r" "\<And>name. field name r' = field name r"
  shows "enforce out r' requirement s = enforce out r requirement s"
proof -
  have a: "authenticate out r' = authenticate out r" unfolding authenticate_def assms(1,2) ..
  have "authorization_request rc cap r' = authorization_request rc cap r" for rc cap
    by (simp add: authorization_request_def assms)
  then have d: "decide_request out x cap r' = decide_request out x cap r" for x cap
    unfolding decide_request_def run_id_cong [OF assms(5)] by simp
  show ?thesis unfolding enforce_def a d ..
qed

text \<open>
  C34. Of a request, enforcement looks at its method, its path, its fields, the credential and
  the tenant it addresses, and at nothing else: no other header and no other cookie changes
  what it answers or what it leaves behind; and taking the reserved headers from a request, as
  the boundary does first, changes nothing.
\<close>

theorem only_the_credential_speaks:
  "enforce out (sanitized rq) requirement s = enforce out rq requirement s
   \<and> (credential rq' = credential rq \<and> tenant_hint rq' = tenant_hint rq
      \<and> br_method rq' = br_method rq \<and> br_path rq' = br_path rq
      \<and> (\<forall>name. field name rq' = field name rq)
      \<longrightarrow> enforce out rq' requirement s = enforce out rq requirement s)"
proof -
  have "br_method (sanitized rq) = br_method rq" "br_path (sanitized rq) = br_path rq"
    by (simp_all add: sanitized_def)
  then show ?thesis using enforce_reads [of "sanitized rq" rq] sanitized_reads enforce_reads [of rq' rq] by blast
qed

subsection \<open>The trace of an allowed request\<close>

lemma authorize_request_traced:
  assumes "audit_log (env_record env) trail" "m_audit_sequence m + 1 \<noteq> 0"
    and "is_allowed (fst (authorize_request_with_authority_revision env ctx rq attrs t revision m))"
  shows "\<exists>d. trail (m_audit (snd (authorize_request_with_authority_revision env ctx rq attrs t revision m)))
        = trail (m_audit m) @ [decision_event m ctx (rq_capability rq) d t] \<and> is_allowed d
    \<and> dec_audit_event_id (fst (authorize_request_with_authority_revision env ctx rq attrs t revision m))
        = Some (audit_event_id (c_tenant ctx) (m_audit_sequence m))"
proof (cases "policy (c_tenant ctx) m")
  case (Inl e)
  with assms(3) show ?thesis by (simp add: authorize_request_with_authority_revision_def)
next
  case (Inr pol)
  then obtain d where c: "authorize_request_with_authority_revision env ctx rq attrs t revision m
      = conclude env ctx (rq_capability rq) d t revision m"
    by (simp add: authorize_request_with_authority_revision_def Let_def)
  obtain d' m' where c': "conclude env ctx (rq_capability rq) d t revision m = (d', m')" by fastforce
  with conclude_recorded [OF assms(1,2) c'] assms(3) c show ?thesis by auto
qed

lemma authorize_capability_traced:
  assumes "audit_log (env_record env) trail" "m_audit_sequence m + 1 \<noteq> 0"
    and "is_allowed (fst (authorize_with_authority_revision env ctx cap t revision m))"
  shows "\<exists>d. trail (m_audit (snd (authorize_with_authority_revision env ctx cap t revision m)))
        = trail (m_audit m) @ [decision_event m ctx cap d t] \<and> is_allowed d
    \<and> dec_audit_event_id (fst (authorize_with_authority_revision env ctx cap t revision m))
        = Some (audit_event_id (c_tenant ctx) (m_audit_sequence m))"
proof (cases "policy (c_tenant ctx) m")
  case (Inl e)
  with assms(3) show ?thesis by (simp add: authorize_with_authority_revision_def)
next
  case (Inr pol)
  then obtain d where c: "authorize_with_authority_revision env ctx cap t revision m
      = conclude env ctx cap d t revision m"
    by (simp add: authorize_with_authority_revision_def Let_def)
  obtain d' m' where c': "conclude env ctx cap d t revision m = (d', m')" by fastforce
  with conclude_recorded [OF assms(1,2) c'] assms(3) c show ?thesis by auto
qed

lemma authorize_run_traced:
  assumes "audit_log (env_record env) trail" "m_audit_sequence m + 1 \<noteq> 0"
    and "is_allowed (fst (authorize_run_request_with_authority_revision env ctx i rq attrs t revision m))"
  shows "\<exists>d r. trail (m_audit (snd (authorize_run_request_with_authority_revision env ctx i rq attrs t revision m)))
        = trail (m_audit m) @ [decision_event m (with_run ctx r) (rq_capability rq) d t] \<and> is_allowed d
    \<and> dec_audit_event_id (fst (authorize_run_request_with_authority_revision env ctx i rq attrs t revision m))
        = Some (audit_event_id (c_tenant ctx) (m_audit_sequence m))"
proof -
  obtain r where r: "checked_run_for_request ctx i rq attrs t m = Inr r"
    using authorize_run_allowed [OF assms(3)] by blast
  then have eq: "authorize_run_request_with_authority_revision env ctx i rq attrs t revision m
      = authorize_request_with_authority_revision env (with_run ctx r) (request_in_run rq r) attrs t revision m"
    by (simp add: authorize_run_request_with_authority_revision_def)
  from authorize_request_traced [OF assms(1,2), of "with_run ctx r" "request_in_run rq r" attrs t revision]
    assms(3)
  show ?thesis unfolding eq by (auto simp: with_run_def request_in_run_def)
qed

text \<open>
  A request that a protected route lets through leaves its trace: when the audit log keeps
  its contract, and the decision is not taken by a live policy of the capability, exactly one
  event has been appended to the trail: a grant, of this capability, to the principal, tenant
  and session of the context, at the time of the decision, under the event id that the decision
  in the context carries.
\<close>

theorem enforced_access_is_recorded:
  assumes "audit_log (env_record (ou_env out)) trail" "m_audit_sequence (rt_mesh s) + 1 \<noteq> 0"
    and "enforce out rq (CapabilityRoute cap) s = (Inr (Some x), s')"
    and "infer_resource_target (br_method rq) (br_path rq) \<noteq> None
      \<or> map_of (lv_capability_policies (live_authority s)) cap = None"
  shows "\<exists>e d. trail (m_audit (rt_mesh s')) = trail (m_audit (rt_mesh s)) @ [e]
    \<and> au_kind e = KindAuthorizationGranted \<and> au_decision e = Some ''allow'' \<and> au_action e = Some cap
    \<and> au_principal_id e = Some (p_id (ax_principal x)) \<and> au_tenant_id e = t_id (ax_tenant x)
    \<and> au_session_id e = Some (s_id (ax_session x)) \<and> au_timestamp e = rt_clock s (rt_clock_reads s + 1)
    \<and> ax_decision x = Some d \<and> dec_audit_event_id d = Some (au_event_id e)"
proof (rule enforce_capability_Inr [OF assms(3)], goal_cases)
  case (1 x0 s1 d)
  note decided = this
  show ?case
  proof (rule authenticate_Inr [OF 1(1)], goal_cases)
    case (1 c session rc)
    have rc: "c_session_id rc = Some (s_id session)"
      using 1(2) context_for_Inr unfolding resolve_session_Inr by blast
    have s1: "rt_mesh s1 = rt_mesh s" "ct_authority s1 = ct_authority s"
      "rt_clock s1 (rt_clock_reads s1) = rt_clock s (rt_clock_reads s + 1)"
      by (simp_all add: 1(5))
    have x: "x = with_decision d (auth_context_new session rc)" using decided(4) 1(4) by simp
    have "\<exists>d0 mr. trail (m_audit (rt_mesh s')) = trail (m_audit (rt_mesh s))
          @ [decision_event (rt_mesh s) (rc\<lparr>c_run := mr\<rparr>) cap d0 (rt_clock s (rt_clock_reads s + 1))]
        \<and> is_allowed d0 \<and> dec_audit_event_id d = Some (audit_event_id (c_tenant rc) (m_audit_sequence (rt_mesh s)))"
    proof (cases "authorization_request rc cap rq")
      case None
      then have run: "boundary_authorize out (auth_context_new session rc) cap s1 = (Inr d, s')"
        using decided(2) by (simp add: 1(4) decide_request_def)
      have no_override: "map_of (lv_capability_policies (ct_authority s1)) cap = None"
        using assms(4) None by (auto simp: authorization_request_def s1 live_authority_def)
      define r where "r = authorize_with_authority_revision (ou_env out) rc cap
          (rt_clock s (rt_clock_reads s + 1)) (lv_revision (ct_authority s)) (rt_mesh s)"
      have dr: "d = fst r" "rt_mesh s' = snd r"
        using run no_override by (auto simp: boundary_authorize_run Let_def s1 r_def split: if_splits)
      have "rc\<lparr>c_run := c_run rc\<rparr> = rc" by simp
      with authorize_capability_traced [OF assms(1,2), of rc cap "rt_clock s (rt_clock_reads s + 1)"
          "lv_revision (ct_authority s)"] decided(3)
      show ?thesis unfolding dr r_def by metis
    next
      case (Some arq)
      then have cap: "rq_capability arq = cap" by (auto simp: authorization_request_def)
      have run: "(case run_id_from_request (auth_context_new session rc) rq s1 of
            Inl e \<Rightarrow> (Inl e, s1)
          | Inr (Some i) \<Rightarrow> authorize_run_resource out (auth_context_new session rc) i arq s1
          | Inr None \<Rightarrow> authorize_resource out (auth_context_new session rc) arq s1) = (Inr d, s')"
        using decided(2) Some
        by (auto simp: 1(4) decide_request_def andThen_state split: sum.splits option.splits)
      show ?thesis
      proof (cases "run_id_from_request (auth_context_new session rc) rq s1")
        case (Inl e)
        then show ?thesis using run by simp
      next
        case run_id: (Inr mi)
        show ?thesis
        proof (cases mi)
          case None
          define r where "r = authorize_request_with_authority_revision (ou_env out) rc arq
              (resolved_attributes arq s1) (rt_clock s (rt_clock_reads s + 1)) (lv_revision (ct_authority s)) (rt_mesh s)"
          have dr: "d = fst r" "rt_mesh s' = snd r"
            using run run_id None by (auto simp: authorize_resource_run Let_def s1 r_def split: if_splits)
          have "rc\<lparr>c_run := c_run rc\<rparr> = rc" by simp
          with authorize_request_traced [OF assms(1,2), of rc arq "resolved_attributes arq s1"
              "rt_clock s (rt_clock_reads s + 1)" "lv_revision (ct_authority s)"] decided(3)
          show ?thesis unfolding dr r_def cap by metis
        next
          case (Some i)
          define r where "r = authorize_run_request_with_authority_revision (ou_env out) rc i arq
              (resolved_attributes arq s1) (rt_clock s (rt_clock_reads s + 1)) (lv_revision (ct_authority s)) (rt_mesh s)"
          have dr: "d = fst r" "rt_mesh s' = snd r"
            using run run_id Some by (auto simp: authorize_run_resource_run Let_def s1 r_def split: if_splits)
          from authorize_run_traced [OF assms(1,2), of rc i arq "resolved_attributes arq s1"
              "rt_clock s (rt_clock_reads s + 1)" "lv_revision (ct_authority s)"] decided(3)
          show ?thesis unfolding dr r_def cap with_run_def by blast
        qed
      qed
    qed
    then obtain d0 mr where "trail (m_audit (rt_mesh s')) = trail (m_audit (rt_mesh s))
          @ [decision_event (rt_mesh s) (rc\<lparr>c_run := mr\<rparr>) cap d0 (rt_clock s (rt_clock_reads s + 1))]"
      "is_allowed d0" "dec_audit_event_id d = Some (audit_event_id (c_tenant rc) (m_audit_sequence (rt_mesh s)))"
      by blast
    then show ?thesis by (simp add: x rc)
  qed
qed

subsection \<open>A sample runtime\<close>

text \<open>The sample mesh with a session of the agent, behind the boundary.\<close>

definition sample_outside :: "(MemoryAuditLog, MemoryMailPort) Outside" where
  "sample_outside = \<lparr>ou_env = sample_env, ou_send = memory_mail_send, ou_sha256 = (\<lambda>t. t)\<rparr>"

definition sample_identity :: Identity where
  "sample_identity = \<lparr>i_id = ''i1'', i_provider = ''local'', i_provider_subject = ''bot'',
     i_tenant_id = ''acme'', i_claims = [], i_version = sample_version, i_offline = \<lparr>max_age_seconds = 0, must_revalidate = True\<rparr>\<rparr>"

definition sample_session :: Session where
  "sample_session = \<lparr>s_id = ''sess_1'', s_identity_id = ''i1'', s_tenant_id = ''acme'', s_created_at = 0,
     s_expires_at = 100, s_revoked_at = None\<rparr>"

definition sample_session_mesh :: "MemoryAuditLog Mesh" where
  "sample_session_mesh = sample_mesh\<lparr>dir_identities := \<lparr>st_identities = [(''i1'', sample_identity)],
       st_by_provider = [((''acme'', ''local'', ''bot''), ''i1'')]\<rparr>,
     dir_principals := (dir_principals sample_mesh)\<lparr>st_bindings := [((''acme'', ''local'', ''bot''),
        \<lparr>b_tenant_id = ''acme'', b_connector = ''local'', b_external_subject = ''bot'',
         b_principal_id = ''bot'', b_linked_at = 0\<rparr>)]\<rparr>,
     m_sessions := \<lparr>st_sessions = [(''sess_1'', sample_session)], st_next_id = 2\<rparr>\<rparr>"

definition sample_runtime :: "(MemoryAuditLog, MemoryMailPort) Runtime" where
  "sample_runtime = \<lparr>ct_contract = m_config sample_mesh, ct_authority = live_authority_new,
     ct_proposals = proposal_store_new, ct_clock = (\<lambda>n. n), ct_clock_reads = 0,
     rt_mesh = sample_session_mesh, rt_mode = Embedded, rt_resolver = no_resource_resolver,
     rt_registration = RegistrationClosed, rt_mail = Some [], rt_challenges = [],
     rt_clock = (\<lambda>_. 15), rt_clock_reads = 0, rt_random = (\<lambda>n. [char_of n]), rt_random_reads = 0\<rparr>"

definition sample_credential :: SessionCredential where
  "sample_credential = \<lparr>sc_tenant_id = ''acme'', sc_session_id = ''sess_1''\<rparr>"

definition sample_get :: "string \<Rightarrow> BoundaryRequest" where
  "sample_get path = with_credential sample_credential (boundary_request_new Get path)"

lemma sample_get_parts [simp]:
  "credential (sample_get path) = Some sample_credential" "tenant_hint (sample_get path) = None"
  "field name (sample_get path) = None" "br_method (sample_get path) = Get" "br_path (sample_get path) = path"
  "sc_tenant_id sample_credential = ''acme''" "sc_session_id sample_credential = ''sess_1''"
proof -
  show "credential (sample_get path) = Some sample_credential"
    unfolding sample_get_def by (rule credential_encode_read) (simp_all add: sample_credential_def plain_def)
qed (simp_all add: sample_get_def with_credential_def with_cookie_def boundary_request_new_def
    boundary_request_default_def tenant_hint_def header_def field_def present_def sample_credential_def)

lemma sample_session_mesh_parts [simp]:
  "m_tenants sample_session_mesh = m_tenants sample_mesh" "m_policies sample_session_mesh = m_policies sample_mesh"
  "m_delegations sample_session_mesh = m_delegations sample_mesh" "m_audit sample_session_mesh = audit_log_new"
  "m_audit_sequence sample_session_mesh = 0"
  by (simp_all add: sample_session_mesh_def sample_mesh_def)

lemma sample_runtime_parts [simp]:
  "rt_mesh sample_runtime = sample_session_mesh" "rt_clock sample_runtime n = 15" "rt_clock_reads sample_runtime = 0"
  "ct_authority sample_runtime = live_authority_new" "rt_resolver sample_runtime = no_resource_resolver"
  "ou_env sample_outside = sample_env"
  by (simp_all add: sample_runtime_def sample_outside_def)

lemma sample_session_resolves:
  obtains rc where "resolve_session sample_env ''acme'' ''sess_1'' 15 sample_session_mesh = Inr (sample_session, rc)"
    "c_principal rc = sample_agent" "c_tenant rc = sample_tenant"
proof -
  have t: "tenant ''acme'' sample_session_mesh = Inr sample_tenant"
    by (rule sample_tenant_known) (simp add: sample_mesh_def)
  have "policy sample_tenant sample_session_mesh = Inr sample_policy"
    by (rule sample_policy_found) simp
  moreover have "p_tenant_id sample_agent = t_id sample_tenant" "pol_id sample_policy = t_policy_id sample_tenant"
    by (simp_all add: sample_defs)
  ultimately obtain rc where rc: "context_for sample_env sample_tenant sample_agent (Some ''sess_1'') 15 sample_session_mesh
      = Inr rc"
    using context_for_total by blast
  have "validate_session sample_tenant ''sess_1'' 15 (m_sessions sample_session_mesh) = Inr sample_session"
    "get_identity sample_tenant ''i1'' (dir_identities sample_session_mesh) = Inr (Some sample_identity)"
    "resolve_external_identity sample_tenant ''local'' ''bot'' (dir_principals sample_session_mesh) = Some ''bot''"
    by (simp_all add: validate_session_def sample_session_mesh_def sample_session_def sample_tenant_def
        get_identity_def sample_identity_def resolve_external_identity_def)
  moreover have "principal_of sample_tenant ''bot'' sample_session_mesh = Inr sample_agent"
    by (simp add: principal_of_Inr sample_session_mesh_def sample_mesh_def sample_defs)
  moreover have "assert_principal_is_usable sample_agent = Inr ()"
    by (simp add: usable_Inr sample_defs)
  ultimately have "resolve_session sample_env ''acme'' ''sess_1'' 15 sample_session_mesh = Inr (sample_session, rc)"
    unfolding resolve_session_Inr using t rc
    by (intro exI [of _ sample_tenant] exI [of _ sample_identity] exI [of _ "''bot''"] exI [of _ sample_agent])
      (simp add: sample_session_def sample_identity_def)
  then show thesis using that context_for_Inr [OF rc] by blast
qed

lemma sample_authenticates:
  obtains rc where "authenticate sample_outside (sample_get path) sample_runtime
      = (Inr (auth_context_new sample_session rc), sample_runtime\<lparr>rt_clock_reads := 1\<rparr>)"
    "c_principal rc = sample_agent" "c_tenant rc = sample_tenant"
proof (rule sample_session_resolves, goal_cases)
  case (1 rc)
  then have "authenticate sample_outside (sample_get path) sample_runtime
      = (Inr (auth_context_new sample_session rc), sample_runtime\<lparr>rt_clock_reads := 1\<rparr>)"
    by (simp add: authenticate_def andThen_state)
  then show ?case using 1(3,4) by (rule that)
qed

lemma sample_target: "infer_resource_target Get ''/invoices/7'' = Some (''invoice'', ''7'', ''read'')"
  by (simp add: infer_resource_target_def path_segments_def trim_slashes_def singular_resource_def
      strip_suffix_def strip_prefix_def starts_with_def method_action_def)

lemma sample_enforced:
  obtains x s' where "enforce sample_outside (sample_get ''/invoices/7'') (CapabilityRoute ''invoices.read'') sample_runtime
      = (Inr (Some x), s')"
    "ax_principal x = sample_agent" "ax_session x = sample_session"
proof (rule sample_authenticates [of "''/invoices/7''"], goal_cases)
  case (1 rc)
  let ?x = "auth_context_new sample_session rc" and ?s = "sample_runtime\<lparr>rt_clock_reads := Suc 0\<rparr>"
  let ?arq = "\<lparr>rq_principal = ''bot'', rq_tenant = ''acme'', rq_capability = ''invoices.read'', rq_action = ''read'',
     rq_resource = Some \<lparr>rr_resource_type = ''invoice'', rr_resource_id = ''7'', rr_tenant_id = ''acme''\<rparr>,
     rq_context = authorization_context_default\<rparr>"
  let ?attrs = "Some \<lparr>ra_tenant_id = Some ''acme'', ra_values = []\<rparr>"
  have arq: "authorization_request rc ''invoices.read'' (sample_get ''/invoices/7'') = Some ?arq"
    using 1(3,4) by (simp add: authorization_request_def sample_target sample_defs)
  have attrs: "resolved_attributes ?arq ?s = ?attrs"
    by (simp add: resolved_attributes_def no_resource_resolver_def with_tenant_def resource_attributes_new_def)
  define r where "r = authorize_request_with_authority_revision sample_env rc ?arq ?attrs 15
      (lv_revision live_authority_new) sample_session_mesh"
  let ?d = "evaluate_authorization_request (Some 0) (Some sample_policy) (Some sample_agent)
    (Some sample_tenant) (Some (sample_delegation ''bot'')) ?arq ?attrs 15"
  have allowed: "is_allowed ?d" by (simp add: decision_defs sample_defs is_allowed_def)
  have "policy sample_tenant sample_session_mesh = Inr sample_policy"
    by (rule sample_policy_found) simp
  moreover have "delegations_for sample_tenant ''bot'' sample_session_mesh = [sample_delegation ''bot'']"
    by (simp add: delegations_for_def list_delegations_for_delegate_def sample_mesh_def
        sample_tenant_def sample_delegation_def bvalues_def)
  moreover have "pick_delegation [sample_delegation ''bot''] ''invoices.read'' 15 = Some (sample_delegation ''bot'')"
    by (simp add: pick_delegation_def sample_delegation_def)
  moreover have "p_id sample_agent = ''bot''" "env_clock sample_env = Some 0"
    by (simp_all add: sample_defs sample_env_def)
  ultimately have r: "r = conclude sample_env rc ''invoices.read'' ?d 15 (lv_revision live_authority_new) sample_session_mesh"
    using 1(3,4) by (simp add: r_def authorize_request_with_authority_revision_def Let_def)
  have "is_allowed (fst r)"
    unfolding r by (rule conclude_cases [of sample_env rc sample_session_mesh "''invoices.read''" ?d 15 "lv_revision live_authority_new"])
      (use allowed in \<open>auto simp: sample_env_def record_event_def andThen_def require_def split: if_splits\<close>)
  moreover have "trim ''invoices.read'' \<noteq> []" by (simp add: trim_plain plain_def)
  then have "decide_request sample_outside ?x ''invoices.read'' (sample_get ''/invoices/7'') ?s
      = (Inr (fst r), ?s\<lparr>rt_clock_reads := Suc (Suc 0), rt_mesh := snd r\<rparr>)"
    by (simp add: decide_request_def arq andThen_state run_id_from_request_def authorize_resource_run attrs
        r_def Let_def)
  ultimately have "enforce sample_outside (sample_get ''/invoices/7'') (CapabilityRoute ''invoices.read'') sample_runtime
      = (Inr (Some (with_decision (fst r) ?x)), ?s\<lparr>rt_clock_reads := Suc (Suc 0), rt_mesh := snd r\<rparr>)"
    using 1(2) by (cases "fst r") (simp_all add: enforce_def andThen_def is_allowed_def ok_def)
  then show ?case by (rule that) (simp_all add: 1(3))
qed

theorem enforce_lets_only_authority_through_witness:
  "\<exists>x s' t d g. enforce sample_outside (sample_get ''/invoices/7'') (CapabilityRoute ''invoices.read'') sample_runtime
       = (Inr (Some x), s')
     \<and> ax_principal x = sample_agent \<and> tenant ''acme'' sample_session_mesh = Inr t \<and> ax_tenant x = t
     \<and> ax_decision x = Some d \<and> decision_grant d = Some g
     \<and> g_capability g = ''invoices.read'' \<and> g_principal_id g = ''bot''
     \<and> (\<exists>pol. granted_by (Some 0) pol sample_agent t ''invoices.read'' (sample_get ''/invoices/7'') 15 sample_runtime g)"
proof (rule sample_enforced, goal_cases)
  case (1 x s')
  from enforce_lets_only_authority_through [OF 1(1)] obtain t d g pol where
    "tenant ''acme'' sample_session_mesh = Inr t" "ax_tenant x = t"
    "ax_decision x = Some d" "decision_grant d = Some g" "g_capability g = ''invoices.read''"
    "g_principal_id g = p_id (ax_principal x)"
    "granted_by (env_clock sample_env) pol (ax_principal x) t ''invoices.read'' (sample_get ''/invoices/7'') 15
       sample_runtime g"
    by auto
  moreover have "env_clock sample_env = Some 0" by (simp add: sample_env_def)
  moreover have "p_id sample_agent = ''bot''" by (simp add: sample_defs)
  ultimately show ?case using 1 by (metis (no_types))
qed

theorem only_the_credential_speaks_witness:
  "fst (enforce sample_outside (with_header ''x-authboundry-principal'' ''alice'' (sample_get ''/invoices/7''))
     (CapabilityRoute ''invoices.read'') sample_runtime)
   = fst (enforce sample_outside (sample_get ''/invoices/7'') (CapabilityRoute ''invoices.read'') sample_runtime)"
proof -
  let ?rq = "sample_get ''/invoices/7''" and ?rq' = "with_header ''x-authboundry-principal'' ''alice'' (sample_get ''/invoices/7'')"
  have "credential ?rq' = credential ?rq \<and> tenant_hint ?rq' = tenant_hint ?rq
      \<and> br_method ?rq' = br_method ?rq \<and> br_path ?rq' = br_path ?rq \<and> (\<forall>name. field name ?rq' = field name ?rq)"
    by (simp add: with_header_def credential_def tenant_hint_def header_def field_def sample_get_def
        with_credential_def with_cookie_def boundary_request_new_def boundary_request_default_def present_def
        ascii_lower_def ascii_lower_char_def)
  from only_the_credential_speaks [THEN conjunct2, rule_format, OF this] show ?thesis
    by (rule arg_cong [where f = fst])
qed

theorem enforced_access_is_recorded_witness:
  "\<exists>x s' e. enforce sample_outside (sample_get ''/invoices/7'') (CapabilityRoute ''invoices.read'') sample_runtime
       = (Inr (Some x), s')
     \<and> log_events (m_audit (rt_mesh s')) = [e] \<and> au_principal_id e = Some ''bot'' \<and> au_action e = Some ''invoices.read''"
proof (rule sample_enforced, goal_cases)
  case (1 x s')
  have "audit_log (env_record (ou_env sample_outside)) log_events" using sample_audit_log by simp
  from enforced_access_is_recorded [OF this _ 1(1)] 1 show ?case
    by (auto simp: audit_log_new_def sample_target sample_defs)
qed

subsection \<open>Where live authority does not reach\<close>

definition with_live_policies :: "(string, Policy) bmap \<Rightarrow> ('l, 'm) Runtime \<Rightarrow> ('l, 'm) Runtime" where
  "with_live_policies ps s = s\<lparr>ct_authority := (ct_authority s)\<lparr>lv_capability_policies := ps\<rparr>\<rparr>"

lemma with_live_policies_parts [simp]:
  "rt_mesh (with_live_policies ps s) = rt_mesh s" "rt_clock (with_live_policies ps s) = rt_clock s"
  "rt_clock_reads (with_live_policies ps s) = rt_clock_reads s" "rt_resolver (with_live_policies ps s) = rt_resolver s"
  "lv_revision (ct_authority (with_live_policies ps s)) = lv_revision (ct_authority s)"
  by (simp_all add: with_live_policies_def)

lemma authenticate_with_live_policies:
  "authenticate out rq (with_live_policies ps s) = map_prod id (with_live_policies ps) (authenticate out rq s)"
  by (simp add: authenticate_def andThen_state ok_def with_live_policies_def split: sum.split option.split prod.split)

lemma decide_with_live_policies:
  assumes "infer_resource_target (br_method rq) (br_path rq) \<noteq> None"
  shows "fst (decide_request out x cap rq (with_live_policies ps s)) = fst (decide_request out x cap rq s)"
proof -
  obtain arq where arq: "authorization_request (ax_runtime x) cap rq = Some arq"
    using assms by (auto simp: authorization_request_def)
  have "run_id_from_request x rq (with_live_policies ps s) = run_id_from_request x rq s"
    unfolding run_id_from_request_def runtime_agent_run_by_credential_def with_live_policies_parts ..
  moreover have "resolved_attributes arq (with_live_policies ps s) = resolved_attributes arq s"
    by (simp add: resolved_attributes_def)
  ultimately show ?thesis
    by (simp add: decide_request_def arq andThen_state authorize_resource_run authorize_run_resource_run Let_def
        split: sum.split option.split)
qed

text \<open>
  The live policy of a capability does not reach a route that targets a resource: whatever
  policies the control plane has set for capabilities, the answer to such a request is the same,
  since only the decision about a bare capability looks them up.
\<close>

theorem live_policies_do_not_reach_resources:
  assumes "infer_resource_target (br_method rq) (br_path rq) \<noteq> None"
  shows "fst (enforce out rq (CapabilityRoute cap) (with_live_policies ps s))
    = fst (enforce out rq (CapabilityRoute cap) s)"
proof (cases "authenticate out rq s")
  case (Pair r s1)
  show ?thesis
  proof (cases r)
    case (Inl e)
    with Pair show ?thesis by (simp add: enforce_def andThen_def authenticate_with_live_policies)
  next
    case (Inr x)
    have fst_bind: "fst (andThen m k u) = (case fst (m u) of Inl e \<Rightarrow> Inl e | Inr d \<Rightarrow> fst (k d (snd (m u))))"
      for m :: "(('a, 'b) Runtime, AuthError, AuthorizationDecision) eff"
        and k :: "AuthorizationDecision \<Rightarrow> (('a, 'b) Runtime, AuthError, AuthContext option) eff" and u
      by (cases "m u"; cases "fst (m u)") (auto simp: andThen_def)
    show ?thesis
      using Pair Inr decide_with_live_policies [OF assms, of out x cap ps s1]
      by (simp add: enforce_def authenticate_with_live_policies andThen_def [of "authenticate out rq"] fst_bind
          ok_def fail_def split: sum.split AuthorizationDecision.split)
  qed
qed

theorem live_policies_do_not_reach_resources_witness:
  "\<exists>x. fst (enforce sample_outside (sample_get ''/invoices/7'') (CapabilityRoute ''invoices.read'')
       (with_live_policies [(''invoices.read'', \<lparr>pol_id = ''p1'', pol_rules = []\<rparr>)] sample_runtime)) = Inr (Some x)
     \<and> ax_principal x = sample_agent"
proof (rule sample_enforced, goal_cases)
  case (1 x s')
  have "infer_resource_target (br_method (sample_get ''/invoices/7'')) (br_path (sample_get ''/invoices/7'')) \<noteq> None"
    by (simp add: sample_target)
  from live_policies_do_not_reach_resources [OF this, of sample_outside "''invoices.read''"
      "[(''invoices.read'', \<lparr>pol_id = ''p1'', pol_rules = []\<rparr>)]" sample_runtime] 1
  show ?case by (intro exI [of _ x]) simp
qed

text \<open>
  A decision by a live policy leaves no trace: the mesh, with its audit trail and its decisions,
  is as before, and the decision carries no event.
\<close>

theorem live_decision_leaves_no_trace:
  assumes "map_of (lv_capability_policies (live_authority s)) cap = Some pol"
    and "boundary_authorize out x cap s = (Inr d, s')"
  shows "rt_mesh s' = rt_mesh s \<and> d = evaluate_capability (env_clock (ou_env out)) (Some pol)
      (Some (ax_principal x)) (Some (ax_tenant x)) (map_option dx_delegation (ax_delegation x)) cap
      (rt_clock s (rt_clock_reads s))"
  using assms by (auto simp: boundary_authorize_run live_authority_def Let_def split: if_splits)

end
