(* ===== verification/Accounts.thy ===== *)
theory Accounts
  imports Surface Enforcing Utf8
begin

text \<open>
  The account flows of the boundary (\<^verbatim>\<open>crates/boundary/src/runtime.rs\<close>): signing in and
  up through a connector, the password policy, changing and resetting passwords, verifying
  addresses, signing out. They compose the mesh, the connectors of its registry, the one-time
  challenges and the mail port.
\<close>

subsection \<open>Passwords\<close>

definition is_special :: "string \<Rightarrow> bool" where
  "is_special ch \<longleftrightarrow> \<not> (case ch of [c] \<Rightarrow> is_alphanumeric c | _ \<Rightarrow> False)
     \<and> ch \<notin> set white_space"

definition password_error :: "string \<Rightarrow> DenialReason \<Rightarrow> AuthError" where
  "password_error message denial = auth_error ProviderAuthentication message denial"

definition validate_password_with :: "string \<Rightarrow> PasswordPolicy \<Rightarrow> AuthError + unit" where
  "validate_password_with pw pp = (let chars = utf8_chars pw in
     if length chars < pw_min_length pp
     then Inl (password_error ''PASSWORD_TOO_SHORT'' PasswordTooShort)
     else if length chars > pw_max_length pp
     then Inl (password_error ''PASSWORD_TOO_LONG'' PasswordTooLong)
     else if pw_require_uppercase pp \<and> \<not> list_ex is_upper pw
     then Inl (password_error ''PASSWORD_MISSING_UPPERCASE'' PasswordMissingUppercase)
     else if pw_require_lowercase pp \<and> \<not> list_ex is_lower pw
     then Inl (password_error ''PASSWORD_MISSING_LOWERCASE'' PasswordMissingLowercase)
     else if pw_require_number pp \<and> \<not> list_ex is_digit pw
     then Inl (password_error ''PASSWORD_MISSING_NUMBER'' PasswordMissingNumber)
     else if pw_require_special_character pp \<and> \<not> list_ex is_special chars
     then Inl (password_error ''PASSWORD_MISSING_SPECIAL_CHARACTER'' PasswordMissingSpecialCharacter)
     else Inr ())"

definition validate_password :: "string \<Rightarrow> ('l, 'm) Runtime \<Rightarrow> AuthError + unit" where
  "validate_password pw s = validate_password_with pw (ep_policy (effective_password_policy s))"

definition i64_saturating_sub :: "int \<Rightarrow> int \<Rightarrow> int" where
  "i64_saturating_sub a b = max (- (2 ^ 63)) (min (2 ^ 63 - 1) (a - b))"

definition ensure_password_not_expired ::
  "ExternalIdentity \<Rightarrow> int \<Rightarrow> ('l, 'm) Runtime \<Rightarrow> AuthError + unit" where
  "ensure_password_not_expired x t s =
     (case pw_expiration_days (ep_policy (effective_password_policy s)) of
        None \<Rightarrow> Inr ()
      | Some days \<Rightarrow>
          (case Option.bind (map_of (xi_attributes x) ''password_changed_at'') parse_i64 of
             None \<Rightarrow> Inr ()
           | Some changed_at \<Rightarrow>
               check (i64_saturating_sub t changed_at \<le> int (unat days) * 86400)
                 (password_error ''PASSWORD_EXPIRED'' PasswordExpired)))"

subsection \<open>Requests and connectors\<close>

definition to_auth_error :: "ConnectorError \<Rightarrow> AuthError" where
  "to_auth_error e = auth_error ProviderAuthentication (connector_error_text e)
     (case e of PasswordReusedError _ \<Rightarrow> PasswordReused
      | UnknownConnector _ \<Rightarrow> UnsupportedConnector | Unsupported _ \<Rightarrow> UnsupportedConnector
      | InvalidCredentials _ \<Rightarrow> MissingCredential | ChallengeMismatch _ \<Rightarrow> MissingCredential
      | _ \<Rightarrow> PolicyDenied)"

definition required_field :: "BoundaryRequest \<Rightarrow> string \<Rightarrow> (('l, 'm) Runtime, AuthError, string) eff" where
  "required_field rq name = reading (\<lambda>_. ok_or
     (auth_error ProviderAuthentication (''missing '' @ in_backticks name) MissingCredential)
     (field name rq))"

text \<open>The fields of the body, then those of the query, which replace them.\<close>

definition connector_parameters :: "BoundaryRequest \<Rightarrow> (string, string) bmap" where
  "connector_parameters rq = bcollect (filter (\<lambda>(name, _). name \<noteq> ''tenant'' \<and> name \<noteq> ''connector'')
     (br_body rq @ br_query rq))"

definition require_mail_contract :: "string \<Rightarrow> (('l, 'm) Runtime, AuthError, unit) eff" where
  "require_mail_contract template = reading (\<lambda>s. case cf_mail (ct_contract s) of
     None \<Rightarrow> Inr ()
   | Some mail \<Rightarrow> check (bcontains (ml_identities mail) ''auth'' \<and> bcontains (ml_templates mail) template)
       (auth_error Configuration (''MailPort contract does not declare '' @ in_backticks template)
          PolicyDenied))"

text \<open>
  The connectors are shared objects the registry of the mesh holds: an operation of a connector
  changes the account state behind its name. The registry itself is asked, not the declaration.
\<close>

definition registered :: "string \<Rightarrow> (('l, 'm) Runtime, ConnectorError, Connector) eff" where
  "registered i = reading (\<lambda>s. registry_get (m_registry (rt_mesh s)) i)"

definition on_connector ::
  "string \<Rightarrow> (Connector, ConnectorError, unit) eff \<Rightarrow> (('l, 'm) Runtime, ConnectorError, unit) eff" where
  "on_connector i op = (\<lambda>s. let reg = m_registry (rt_mesh s) in
     case registry_get reg i of
       Inl e \<Rightarrow> (Inl e, s)
     | Inr c \<Rightarrow> (case op c of (r, c') \<Rightarrow>
         (r, s\<lparr>rt_mesh := (rt_mesh s)\<lparr>m_registry := binsert i c' reg\<rparr>\<rparr>)))"

text \<open>\<^verbatim>\<open>let _ = ...\<close>: the effects stay, the result is dropped.\<close>

definition attempt :: "('s, 'e, 'a) eff \<Rightarrow> ('s, 'f, unit) eff" where
  "attempt m = (\<lambda>s. (Inr (), snd (m s)))"

definition email_verification_on :: "('l, 'm) Runtime \<Rightarrow> bool" where
  "email_verification_on s = af_email_verification (sf_features (surface_derive (ct_contract s)))"

definition close_session ::
  "('l, 'm) Outside \<Rightarrow> string \<Rightarrow> AuthenticatedSession \<Rightarrow> int \<Rightarrow> (('l, 'm) Runtime, AuthError, unit) eff" where
  "close_session out tid a t = attempt (on_mesh (logout (ou_env out) tid (s_id (as_session a)) t))"

definition signed_in :: "AuthenticatedSession \<Rightarrow> SignInOutcome" where
  "signed_in a = (let x = auth_context_new (as_session a) (as_context a)
     in Authenticated x (context_credential x))"

subsection \<open>Signing in\<close>

text \<open>The challenge the connector issues for a request, and the response the request makes.\<close>

definition flow_request :: "BoundaryRequest \<Rightarrow> string \<Rightarrow> string \<Rightarrow> AuthRequest" where
  "flow_request rq tid con =
     (request_for_tenant (auth_request_new con) tid)\<lparr>arq_parameters := connector_parameters rq\<rparr>"

definition flow_response :: "BoundaryRequest \<Rightarrow> string \<Rightarrow> AuthChallenge \<Rightarrow> AuthResponse" where
  "flow_response rq tid ch =
     (response_for_tenant (to_challenge ch) tid)\<lparr>ars_parameters := connector_parameters rq\<rparr>"

definition attribute_is :: "ExternalIdentity \<Rightarrow> string \<Rightarrow> string \<Rightarrow> bool" where
  "attribute_is x k v \<longleftrightarrow> map_of (xi_attributes x) k = Some v"

definition runtime_sign_in ::
  "('l, 'm) Outside \<Rightarrow> BoundaryRequest \<Rightarrow> (('l, 'm) Runtime, AuthError, SignInOutcome) eff" where
  "runtime_sign_in out rq =
     andThen now (\<lambda>t.
     andThen (required_field rq ''tenant'') (\<lambda>tid.
     andThen (required_field rq ''connector'') (\<lambda>con.
     andThen (on_mesh (reading (mesh_begin tid (flow_request rq tid con)))) (\<lambda>ch.
     if ch_kind ch \<noteq> Credentials then ok (Challenged ch)
     else
     andThen (on_mesh (sign_in (ou_env out) tid (flow_response rq tid ch) t)) (\<lambda>a.
     andThen (reading (ensure_password_not_expired (as_external a) t)) (\<lambda>_.
     andThen (reading (\<lambda>s. Inr (email_verification_on s))) (\<lambda>verification.
     if verification \<and> attribute_is (as_external a) ''email_verification_required'' ''true''
        \<and> \<not> attribute_is (as_external a) ''email_verified'' ''true''
     then andThen (close_session out tid a t) (\<lambda>_. fail (auth_error ProviderAuthentication
       ''Please verify your email address before signing in.'' PolicyDenied))
     else ok (signed_in a))))))))"

definition sign_out :: "('l, 'm) Outside \<Rightarrow> BoundaryRequest \<Rightarrow> (('l, 'm) Runtime, AuthError, unit) eff" where
  "sign_out out rq =
     andThen (authenticate out rq) (\<lambda>x.
     andThen now (\<lambda>t. on_mesh (logout (ou_env out) (t_id (ax_tenant x)) (s_id (ax_session x)) t)))"

subsection \<open>Ceremonies by mail\<close>

text \<open>The operations of the challenges and of the mail port, inside the runtime.\<close>

definition issue_challenge ::
  "('l, 'm) Outside \<Rightarrow> CeremonyKind \<Rightarrow> string \<Rightarrow> string \<Rightarrow> int \<Rightarrow> (('l, 'm) Runtime, AuthError, string) eff"
where
  "issue_challenge out kind tid account expires_at = (\<lambda>s.
     let s' = s\<lparr>rt_random_reads := rt_random_reads s + 1\<rparr> in
     mapErr (\<lambda>message. auth_error RuntimeContextStage message PolicyDenied)
       (zoom rt_challenges (\<lambda>c s. s\<lparr>rt_challenges := c\<rparr>)
          (issue (ou_sha256 out) (rt_random s (rt_random_reads s)) kind tid account expires_at)) s')"

definition send_mail :: "('l, 'm) Outside \<Rightarrow> MailMessage \<Rightarrow> (('l, 'm) Runtime, AuthError, unit) eff" where
  "send_mail out m = (\<lambda>s. case rt_mail s of
     None \<Rightarrow> (Inl (auth_error Configuration ''MailPort is not configured'' PolicyDenied), s)
   | Some port \<Rightarrow> (case ou_send out m port of
       (r, port') \<Rightarrow> (map_err (\<lambda>message. auth_error ProviderAuthentication message PolicyDenied) r,
          s\<lparr>rt_mail := Some port'\<rparr>)))"

definition account_key :: "string \<Rightarrow> string \<Rightarrow> string" where
  "account_key con user = con @ [CHR 0x00] @ user"

text \<open>
  The part \<^verbatim>\<open>forgot_password\<close> and \<^verbatim>\<open>request_email_verification\<close> share: a token for
  the account is issued and mailed to its address; where there is no address, nothing happens
  and nothing is said.
\<close>

definition mail_token ::
  "('l, 'm) Outside \<Rightarrow> CeremonyKind \<Rightarrow> int \<Rightarrow> (string \<Rightarrow> string \<times> string) \<Rightarrow> string \<Rightarrow> (string \<Rightarrow> string)
   \<Rightarrow> string \<Rightarrow> string \<Rightarrow> string \<Rightarrow> (('l, 'm) Runtime, AuthError, unit) eff" where
  "mail_token out kind seconds link template idempotency tid con user =
     andThen (mapErr to_auth_error (registered con)) (\<lambda>c.
     case recovery_address c user of
       None \<Rightarrow> ok ()
     | Some address \<Rightarrow>
     andThen (reading (\<lambda>s. check (rt_mail s \<noteq> None)
       (auth_error Configuration ''MailPort is not configured'' PolicyDenied))) (\<lambda>_.
     andThen now (\<lambda>t. let expires_at = i64_add t seconds in
     andThen (issue_challenge out kind tid (account_key con user) expires_at) (\<lambda>token.
     send_mail out \<lparr>mm_template = template, mm_identity = ''auth'', mm_to = address, mm_tenant = tid,
       mm_variables = bcollect [(''token'', token), (''user.name'', user),
         (''app.name'', ''AuthBoundry application''), (''expires_at'', show_int expires_at),
         (''support_url'', ''''), link token],
       mm_idempotency_key = idempotency token\<rparr>))))"

definition mail_reset ::
  "('l, 'm) Outside \<Rightarrow> string \<Rightarrow> string \<Rightarrow> string \<Rightarrow> (('l, 'm) Runtime, AuthError, unit) eff" where
  "mail_reset out tid con user = mail_token out CeremonyPasswordReset 900
     (\<lambda>token. (''reset_url'', ''/auth/password/reset?token='' @ token)) ''password_reset''
     (\<lambda>token. ''password-reset:'' @ token) tid con user"

definition mail_verification ::
  "('l, 'm) Outside \<Rightarrow> string \<Rightarrow> string \<Rightarrow> string \<Rightarrow> (('l, 'm) Runtime, AuthError, unit) eff" where
  "mail_verification out tid con user = mail_token out CeremonyEmailVerification 3600
     (\<lambda>token. (''verification_url'', ''/auth/email/verification?token='' @ token))
     ''email_verification'' (\<lambda>token. ''email-verification:'' @ token) tid con user"

definition forgot_password ::
  "('l, 'm) Outside \<Rightarrow> BoundaryRequest \<Rightarrow> (('l, 'm) Runtime, AuthError, unit) eff" where
  "forgot_password out rq =
     andThen (reading (\<lambda>s. check (pw_allow_reset (ep_policy (effective_password_policy s)))
       (auth_error ProviderAuthentication ''password resets are disabled'' PolicyDenied))) (\<lambda>_.
     andThen (require_mail_contract ''password_reset'') (\<lambda>_.
     andThen (required_field rq ''tenant'') (\<lambda>tid.
     andThen (required_field rq ''connector'') (\<lambda>con.
     andThen (required_field rq ''username'') (\<lambda>user.
     mail_reset out tid con user)))))"

definition request_email_verification ::
  "('l, 'm) Outside \<Rightarrow> BoundaryRequest \<Rightarrow> (('l, 'm) Runtime, AuthError, unit) eff" where
  "request_email_verification out rq =
     andThen (require_mail_contract ''email_verification'') (\<lambda>_.
     andThen (required_field rq ''tenant'') (\<lambda>tid.
     andThen (required_field rq ''connector'') (\<lambda>con.
     andThen (required_field rq ''username'') (\<lambda>user.
     mail_verification out tid con user))))"

text \<open>
  Redeeming a token: the operation runs while the challenges are locked and touches only the
  rest of the runtime.
\<close>

definition redeem ::
  "('l, 'm) Outside \<Rightarrow> string \<Rightarrow> CeremonyKind \<Rightarrow> int \<Rightarrow> (string \<Rightarrow> string \<Rightarrow> (('l, 'm) Runtime, string, unit) eff)
   \<Rightarrow> (('l, 'm) Runtime, AuthError, unit) eff" where
  "redeem out token kind t op =
     mapErr (\<lambda>message. auth_error ProviderAuthentication message MissingCredential)
       (zoom (\<lambda>s. (rt_challenges s, s)) (\<lambda>(c, s') _. s'\<lparr>rt_challenges := c\<rparr>)
          (consume_with (ou_sha256 out) token kind t op))"

definition apply_reset ::
  "('l, 'm) Outside \<Rightarrow> string \<Rightarrow> PasswordPolicy \<Rightarrow> string \<Rightarrow> string \<Rightarrow> (('l, 'm) Runtime, string, unit) eff" where
  "apply_reset out pw pp tid account = (case split_once (CHR 0x00) account of
     None \<Rightarrow> fail ''invalid recovery challenge''
   | Some (con, user) \<Rightarrow> mapErr connector_error_text
       (andThen (registered con) (\<lambda>_. andThen now (\<lambda>t.
        on_connector con (on_local (local_reset_password (env_argon2 (ou_env out)) user pw pp t))))))"

definition apply_verification ::
  "string \<Rightarrow> string \<Rightarrow> (('l, 'm) Runtime, string, unit) eff" where
  "apply_verification tid account = (case split_once (CHR 0x00) account of
     None \<Rightarrow> fail ''invalid verification challenge''
   | Some (con, user) \<Rightarrow> mapErr connector_error_text
       (on_connector con (on_local (local_mark_email_verified user))))"

definition reset_password ::
  "('l, 'm) Outside \<Rightarrow> BoundaryRequest \<Rightarrow> (('l, 'm) Runtime, AuthError, unit) eff" where
  "reset_password out rq =
     andThen (reading (\<lambda>s. Inr (ep_policy (effective_password_policy s)))) (\<lambda>policy.
     andThen (required_field rq ''token'') (\<lambda>token.
     andThen (required_field rq (if field ''new_password'' rq \<noteq> None then ''new_password'' else ''password''))
       (\<lambda>pw.
     andThen (reading (\<lambda>_. validate_password_with pw policy)) (\<lambda>_.
     andThen now (\<lambda>t.
     redeem out token CeremonyPasswordReset t (apply_reset out pw policy))))))"

definition verify_email ::
  "('l, 'm) Outside \<Rightarrow> BoundaryRequest \<Rightarrow> (('l, 'm) Runtime, AuthError, unit) eff" where
  "verify_email out rq =
     andThen (required_field rq ''token'') (\<lambda>token.
     andThen now (\<lambda>t. redeem out token CeremonyEmailVerification t apply_verification))"

definition revoke_challenge :: "('l, 'm) Outside \<Rightarrow> string \<Rightarrow> ('l, 'm) Runtime \<Rightarrow> ('l, 'm) Runtime" where
  "revoke_challenge out token s =
     s\<lparr>rt_challenges := snd (revoke_token (ou_sha256 out) token (rt_challenges s))\<rparr>"

definition runtime_change_password ::
  "('l, 'm) Outside \<Rightarrow> BoundaryRequest \<Rightarrow> (('l, 'm) Runtime, AuthError, unit) eff" where
  "runtime_change_password out rq =
     andThen (reading (\<lambda>s. Inr (ep_policy (effective_password_policy s)))) (\<lambda>policy.
     andThen (require (pw_allow_change policy)
       (auth_error ProviderAuthentication ''password changes are disabled'' PolicyDenied)) (\<lambda>_.
     andThen (required_field rq ''tenant'') (\<lambda>tid.
     andThen (required_field rq ''connector'') (\<lambda>con.
     andThen (required_field rq ''username'') (\<lambda>user.
     andThen (required_field rq ''current_password'') (\<lambda>current.
     andThen (required_field rq ''new_password'') (\<lambda>pw.
     andThen (reading (\<lambda>_. validate_password_with pw policy)) (\<lambda>_.
     andThen (mapErr to_auth_error (registered con)) (\<lambda>_.
     andThen now (\<lambda>t.
     mapErr to_auth_error (on_connector con (on_local
       (local_change_password (env_argon2 (ou_env out)) user current pw policy t)))))))))))))"

subsection \<open>Registration\<close>

definition contains_at :: "string \<Rightarrow> bool" where
  "contains_at s \<longleftrightarrow> CHR ''@'' \<in> set s"

text \<open>The address of a new account: the given one, or a user name that is an address.\<close>

definition address_for :: "string option \<Rightarrow> string \<Rightarrow> string option" where
  "address_for email user = (case email of Some e \<Rightarrow> Some e
     | None \<Rightarrow> if contains_at user then Some user else None)"

definition new_account_attributes :: "string option \<Rightarrow> string \<Rightarrow> bool \<Rightarrow> (string, string) bmap" where
  "new_account_attributes email user verification = (case address_for email user of
     None \<Rightarrow> []
   | Some address \<Rightarrow> (if verification
        then binsert ''email_verification_required'' ''true'' (binsert ''email'' address [])
        else binsert ''email'' address []))"

text \<open>An unknown local account is created with the credentials of the request.\<close>

definition ensure_local_account ::
  "('l, 'm) Outside \<Rightarrow> BoundaryRequest \<Rightarrow> string \<Rightarrow> Connector \<Rightarrow> AuthResponse
   \<Rightarrow> (('l, 'm) Runtime, AuthError, unit) eff" where
  "ensure_local_account out rq con c rs =
     (if con = ''local'' \<and> isl (connector_authenticate (env_argon2 (ou_env out)) c rs)
      then andThen (required_field rq ''username'') (\<lambda>user.
           andThen (required_field rq ''password'') (\<lambda>pw.
           andThen (reading (\<lambda>s. Inr (email_verification_on s))) (\<lambda>verification.
           mapErr to_auth_error (on_connector con (on_local (local_create_account
             (env_argon2 (ou_env out)) user pw
             (new_account_attributes (field ''email'' rq) user verification)))))))
      else ok ())"

text \<open>Where addresses are verified, the session of a new account with an address is closed.\<close>

definition start_verification ::
  "('l, 'm) Outside \<Rightarrow> BoundaryRequest \<Rightarrow> string \<Rightarrow> AuthenticatedSession \<Rightarrow> int
   \<Rightarrow> (('l, 'm) Runtime, AuthError, unit) eff" where
  "start_verification out rq tid a t =
     andThen (reading (\<lambda>s. Inr (email_verification_on s))) (\<lambda>verification.
     if verification
     then andThen (request_email_verification out rq) (\<lambda>_.
       if field ''email'' rq \<noteq> None
          \<or> (case field ''username'' rq of Some user \<Rightarrow> contains_at user | None \<Rightarrow> False)
       then close_session out tid a t else ok ())
     else ok ())"

definition check_new_password ::
  "BoundaryRequest \<Rightarrow> Connector \<Rightarrow> (('l, 'm) Runtime, AuthError, unit) eff" where
  "check_new_password rq c = (if supports_password_management c
     then andThen (required_field rq ''password'') (\<lambda>pw. reading (validate_password pw)) else ok ())"

definition runtime_sign_up ::
  "('l, 'm) Outside \<Rightarrow> BoundaryRequest \<Rightarrow> (('l, 'm) Runtime, AuthError, SignInOutcome) eff" where
  "runtime_sign_up out rq =
     andThen (reading (\<lambda>s. case rt_registration s of
       RegistrationClosed \<Rightarrow> Inl (auth_error Configuration ''registration is closed for this deployment''
         UnknownPrincipal)
     | SelfService cs \<Rightarrow> Inr cs)) (\<lambda>cs.
     andThen now (\<lambda>t.
     andThen (required_field rq ''tenant'') (\<lambda>tid.
     andThen (required_field rq ''connector'') (\<lambda>con.
     andThen (mapErr to_auth_error (registered con)) (\<lambda>c.
     andThen (check_new_password rq c) (\<lambda>_.
     andThen (on_mesh (reading (mesh_begin tid (flow_request rq tid con)))) (\<lambda>ch.
     if ch_kind ch \<noteq> Credentials then ok (Challenged ch)
     else
     andThen (ensure_local_account out rq con c (flow_response rq tid ch)) (\<lambda>_.
     andThen (on_mesh (sign_up (ou_env out) tid (flow_response rq tid ch)
       \<lparr>reg_kind = Human, reg_claims = cs\<rparr> t)) (\<lambda>a.
     andThen (start_verification out rq tid a t) (\<lambda>_.
     ok (signed_in a)))))))))))"

definition create_local_user ::
  "('l, 'm) Outside \<Rightarrow> string \<Rightarrow> string \<Rightarrow> string \<Rightarrow> string option \<Rightarrow> (string, string) bmap
   \<Rightarrow> (('l, 'm) Runtime, AuthError, unit) eff" where
  "create_local_user out tid user pw email cs =
     andThen (reading (validate_password pw)) (\<lambda>_.
     andThen (mapErr to_auth_error (registered ''local'')) (\<lambda>c.
     andThen (mapErr to_auth_error (on_connector ''local'' (on_local (local_create_account
       (env_argon2 (ou_env out)) user pw (new_account_attributes email user False))))) (\<lambda>_.
     andThen (mapErr to_auth_error (reading (\<lambda>_. connector_begin c (request_with_parameter
       (request_for_tenant (auth_request_new ''local'') tid) ''username'' user)))) (\<lambda>ch.
     andThen now (\<lambda>t.
     andThen (on_mesh (sign_up (ou_env out) tid
       (response_with_parameter (response_with_parameter (response_for_tenant (to_challenge ch) tid)
          ''username'' user) ''password'' pw)
       \<lparr>reg_kind = Human, reg_claims = cs\<rparr> t)) (\<lambda>_. ok ()))))))"

end
