(* ===== verification/Views.thy ===== *)
theory Views
  imports Router Topology Accounts "HOL-Library.Log_Nat"
begin

text \<open>
  The JSON the control plane answers with: the value type of \<^verbatim>\<open>server/src/http.rs\<close>, the
  descriptions of \<^verbatim>\<open>server/src/control_types.rs\<close> and the views of
  \<^verbatim>\<open>server/src/control_routes.rs\<close>. Every number there is an integer converted to a
  64-bit float and printed back as an integer; a number is modelled by the integer the float
  stands for.
\<close>

subsection \<open>JSON values\<close>

datatype Json = JString string | JNumber int | JBool bool | JNull | JArray "Json list"
  | JObject "(string \<times> Json) list"

text \<open>\<^verbatim>\<open>as f64\<close> of an integer: 53 bits, ties to even; \<^verbatim>\<open>as i64\<close> saturates.\<close>

definition f64_of_nat :: "nat \<Rightarrow> nat" where
  "f64_of_nat n = (let b = floorlog 2 n in
     if b \<le> 53 then n
     else let e = b - 53; q = n div 2 ^ e; r = n mod 2 ^ e; h = 2 ^ (e - 1) in
       (if r < h \<or> r = h \<and> even q then q else q + 1) * 2 ^ e)"

definition f64_of_int :: "int \<Rightarrow> int" where
  "f64_of_int i = (if i < 0 then - int (f64_of_nat (nat (- i))) else int (f64_of_nat (nat i)))"

definition f64_to_i64 :: "int \<Rightarrow> int" where
  "f64_to_i64 v = max (- (2 ^ 63)) (min (2 ^ 63 - 1) v)"

definition json_nat :: "nat \<Rightarrow> Json" where "json_nat n = JNumber (int (f64_of_nat n))"

definition json_int :: "int \<Rightarrow> Json" where "json_int i = JNumber (f64_of_int i)"

definition json_u64 :: "u64 \<Rightarrow> Json" where "json_u64 w = json_nat (unat w)"

fun json_text :: "Json \<Rightarrow> string" where
  "json_text (JString s) = http_quoted s"
| "json_text (JNumber v) = show_int (f64_to_i64 v)"
| "json_text (JBool b) = show_bool b"
| "json_text JNull = ''null''"
| "json_text (JArray items) = ''['' @ join '', '' (map json_text items) @ '']''"
| "json_text (JObject pairs) =
     ''{'' @ join '', '' (map (\<lambda>p. http_quoted (fst p) @ '': '' @ json_text (snd p)) pairs) @ ''}''"

definition response_ok_json :: "Json \<Rightarrow> HttpResponse" where
  "response_ok_json j = response_json 200 (json_text j)"

definition optional_id_json :: "string option \<Rightarrow> Json" where
  "optional_id_json v = (case v of Some x \<Rightarrow> JString x | None \<Rightarrow> JNull)"

definition optional_number :: "('a \<Rightarrow> Json) \<Rightarrow> 'a option \<Rightarrow> Json" where
  "optional_number f v = (case v of Some x \<Rightarrow> f x | None \<Rightarrow> JNull)"

definition json_strings :: "string list \<Rightarrow> Json" where
  "json_strings xs = JArray (map JString xs)"

subsection \<open>The deployment\<close>

record ApplicationDescription =
  de_name :: string
  de_deployment_mode :: string
  de_contract_fingerprint :: string
  de_surface_fingerprint :: string
  de_started_at :: nat
  de_uptime_seconds :: nat

definition seconds :: "nat \<Rightarrow> nat" where
  "seconds nanos = nanos div 1000000000"

definition application_to_json :: "ApplicationDescription \<Rightarrow> Json" where
  "application_to_json d = JObject [(''name'', JString (de_name d)),
     (''deployment_mode'', JString (de_deployment_mode d)),
     (''contract_fingerprint'', JString (de_contract_fingerprint d)),
     (''surface_fingerprint'', JString (de_surface_fingerprint d)),
     (''started_at'', json_nat (seconds (de_started_at d))),
     (''uptime_seconds'', json_nat (de_uptime_seconds d))]"

datatype DescribedProtection = Unprotected | SessionRequired | CapabilityRequired string

definition protection_to_json :: "DescribedProtection \<Rightarrow> Json" where
  "protection_to_json p = (case p of Unprotected \<Rightarrow> JString ''none''
     | SessionRequired \<Rightarrow> JString ''session_required''
     | CapabilityRequired cap \<Rightarrow>
         JObject [(''type'', JString ''capability_required''), (''capability'', JString cap)])"

record RouteDescription =
  rx_path :: string
  rx_methods :: "string list"
  rx_protection :: DescribedProtection
  rx_aliases :: "string list"

definition route_to_json :: "RouteDescription \<Rightarrow> Json" where
  "route_to_json r = JObject [(''path'', JString (rx_path r)), (''methods'', json_strings (rx_methods r)),
     (''protection'', protection_to_json (rx_protection r)), (''aliases'', json_strings (rx_aliases r))]"

text \<open>The live protection shown for a route is that of its first method.\<close>

definition first_method_protection :: "AuthRoute \<Rightarrow> ('l, 'm) Runtime \<Rightarrow> DescribedProtection" where
  "first_method_protection r s = (case ro_methods r of
     [] \<Rightarrow> Unprotected
   | m # _ \<Rightarrow> (case get_route_protection (case m of AuthGet \<Rightarrow> Get | AuthPost \<Rightarrow> Post | AuthDelete \<Rightarrow> Delete)
         (ro_path r) s of Some cap \<Rightarrow> CapabilityRequired cap | None \<Rightarrow> Unprotected))"

definition routes_view :: "('l, 'm) Runtime \<Rightarrow> HttpResponse" where
  "routes_view s = response_ok_json (JArray (map (\<lambda>r. route_to_json
     \<lparr>rx_path = ro_path r, rx_methods = map auth_method_as_str (ro_methods r),
      rx_protection = first_method_protection r s, rx_aliases = ro_aliases r\<rparr>)
     (sf_routes (surface_derive (ct_contract s)))))"

subsection \<open>Storage, audit and reporting\<close>

definition store_descriptor_json :: "StoreDescriptor \<Rightarrow> Json" where
  "store_descriptor_json d = JObject [(''class'', JString (store_class_as_str (sd_class d))),
     (''provider'', JString (sd_provider d)), (''role'', JString (store_role_as_str (sd_role d))),
     (''authoritative'', JBool (sd_role d = RoleAuthority \<or> sd_role d = RoleAudit)),
     (''capabilities'', JArray (map (\<lambda>c. JString (storage_capability_as_str c)) (sd_capabilities d)))]"

definition storage_topology :: "('l, 'm) Runtime \<Rightarrow> StorageTopology" where
  "storage_topology s = (let st = cf_storage (ct_contract s)
     in from_declaration (sc_authority st) (sc_audit st) (sc_reporting st))"

definition storage_view :: "('l, 'm) Runtime \<Rightarrow> HttpResponse" where
  "storage_view s = (let st = cf_storage (ct_contract s) in response_ok_json (JObject
     [(''boundary'', JString ''storage_adapter_contract''), (''authority_store'', JString (sc_authority st)),
      (''audit_store'', JString (sc_audit st)), (''reporting_store'', JString (sc_reporting st)),
      (''stores'', JArray (map store_descriptor_json (storage_topology s)))]))"

definition storage_capabilities_view :: "('l, 'm) Runtime \<Rightarrow> HttpResponse" where
  "storage_capabilities_view s = response_ok_json (JObject
     [(''capabilities'', JArray (map store_descriptor_json (storage_topology s)))])"

definition audit_config_view :: "('l, 'm) Runtime \<Rightarrow> HttpResponse" where
  "audit_config_view s = response_ok_json (JObject
     [(''canonical_event'', JString ''authboundry.audit/v1''),
      (''durable_store'', JString (sc_audit (cf_storage (ct_contract s)))),
      (''sink_is_authoritative'', JBool False), (''required_event_failures'', JString ''fail_closed'')])"

definition reporting_view :: "('l, 'm) Runtime \<Rightarrow> HttpResponse" where
  "reporting_view s = response_ok_json (JObject
     [(''source'', JString ''canonical_audit_events''),
      (''store'', JString (sc_reporting (cf_storage (ct_contract s)))), (''authoritative'', JBool False),
      (''projections'', json_strings [''authentication_activity'', ''authorization_activity'',
         ''administrative_changes'', ''provider_usage'', ''failed_authentication'', ''denied_authorization'',
         ''agent_activity'', ''delegation_history'', ''revocation_activity'', ''tenant_activity''])])"

definition audit_event_json :: "AuditEvent \<Rightarrow> Json" where
  "audit_event_json e = JObject [(''id'', JString (au_event_id e)), (''timestamp'', json_int (au_timestamp e)),
     (''tenant'', JString (au_tenant_id e)), (''principal'', optional_id_json (au_principal_id e)),
     (''delegator'', optional_id_json (au_delegator_id e)), (''session_id'', optional_id_json (au_session_id e)),
     (''delegation_id'', optional_id_json (au_delegation_id e)), (''run_id'', optional_id_json (au_run_id e)),
     (''kind'', JString (kind_as_str (au_kind e))), (''action'', optional_id_json (au_action e)),
     (''resource'', optional_id_json (au_resource e)), (''decision'', optional_id_json (au_decision e)),
     (''reason'', optional_id_json (au_reason e)),
     (''authority_revision'', optional_number json_u64 (au_authority_revision e)),
     (''contract_fingerprint'', optional_id_json (au_contract_fingerprint e)),
     (''durability'', JString (durability_as_str (au_durability e))),
     (''metadata'', JObject (map (\<lambda>(k, v). (k, JString v)) (sort_key fst (au_metadata e))))]"

subsection \<open>Policies and decisions\<close>

definition policy_summary_json :: "string \<Rightarrow> Policy \<Rightarrow> Json" where
  "policy_summary_json cap pol = JObject [(''id'', JString (pol_id pol)), (''capability'', JString cap),
     (''rules'', JArray (map (\<lambda>r. JObject [(''capability'', JString (rule_capability r)),
        (''effect'', JString (case rule_effect r of EffectAllow \<Rightarrow> ''allow'' | EffectDeny \<Rightarrow> ''deny'')),
        (''resource'', optional_id_json (map_option sel_resource_type (rule_resource r))),
        (''action'', optional_id_json (rule_action r))]) (pol_rules pol)))]"

definition contract_policy_json :: "PolicyDef \<Rightarrow> (string \<times> Json) list" where
  "contract_policy_json p = [(''id'', JString (pd_capability p)), (''capability'', JString (pd_capability p)),
     (''tenant'', JString (if pd_tenant_current p then ''current'' else ''unspecified''))]"

definition policies_view :: "('l, 'm) Runtime \<Rightarrow> HttpResponse" where
  "policies_view s = (let authority = live_authority s in response_ok_json (JObject
     [(''revision'', json_u64 (lv_revision authority)),
      (''live_policies'', JArray (map (\<lambda>(cap, pol). policy_summary_json cap pol)
         (lv_capability_policies authority))),
      (''contract_policies'', JArray (map (\<lambda>p. JObject (contract_policy_json p
          @ [(''resource'', optional_id_json (pd_resource p)), (''action'', optional_id_json (pd_action p))]))
         (cf_policies (ct_contract s))))]))"

text \<open>\<^verbatim>\<open>trim_start_matches\<close> and \<^verbatim>\<open>trim_end_matches\<close>: as often as the text is there.\<close>

definition trim_start_matches :: "string \<Rightarrow> string \<Rightarrow> string" where
  "trim_start_matches p s = strip_seqs [p] s"

definition trim_end_matches :: "string \<Rightarrow> string \<Rightarrow> string" where
  "trim_end_matches p s = rev (strip_seqs [rev p] (rev s))"

definition policy_view :: "string \<Rightarrow> ('l, 'm) Runtime \<Rightarrow> HttpResponse" where
  "policy_view path s = (let i = trim_start_matches ''/_authboundry/policies/'' path in
     case find (\<lambda>(cap, pol). cap = i \<or> pol_id pol = i) (lv_capability_policies (live_authority s)) of
       Some (cap, pol) \<Rightarrow> response_ok_json (policy_summary_json cap pol)
     | None \<Rightarrow> (case find (\<lambda>p. pd_capability p = i) (cf_policies (ct_contract s)) of
         Some p \<Rightarrow> response_ok_json (JObject (contract_policy_json p))
       | None \<Rightarrow> response_denied 404 ''policy_not_found'' ''no such policy''))"

definition claim_value_json :: "ClaimValue \<Rightarrow> Json" where
  "claim_value_json v = (case v of CEnum x \<Rightarrow> JString x | CString x \<Rightarrow> JString x
     | CInteger i \<Rightarrow> json_int i | CBoolean b \<Rightarrow> JBool b)"

definition resource_scope_json :: "ResourceScope \<Rightarrow> Json" where
  "resource_scope_json sc = JObject [(''resource_type'', optional_id_json (rs_resource_type sc)),
     (''resource_id'', optional_id_json (rs_resource_id sc)),
     (''attributes'', JObject (map (\<lambda>(k, v). (k, claim_value_json v)) (rs_attributes sc)))]"

definition condition_json :: "ConditionEvidence \<Rightarrow> Json" where
  "condition_json e = JObject [(''condition'', JString (ev_condition e)),
     (''result'', JString (condition_result_as_str (ev_result e))), (''fact'', optional_id_json (ev_fact e))]"

definition authority_source_json :: "AuthorizationEvidence \<Rightarrow> Json" where
  "authority_source_json d = (case ae_authority d of
     None \<Rightarrow> JNull
   | Some b \<Rightarrow> if basis_as_str b = ''delegated'' \<and> ae_delegation_chain d \<noteq> []
       then JObject [(''type'', JString ''delegation''), (''id'', JString (last (ae_delegation_chain d))),
         (''delegator'', optional_id_json (ae_delegated_by d))]
       else JObject [(''type'', JString ''policy'')])"

definition decision_summary :: "AuthorizationEvidence \<Rightarrow> string" where
  "decision_summary d = ae_capability d @ '' ''
     @ (case ae_action d of Some a \<Rightarrow> a | None \<Rightarrow> ''use'') @ '' '' @ outcome_as_str (ae_decision d)
     @ '' for '' @ ae_principal d @ '' on ''
     @ (case ae_resource d of Some r \<Rightarrow> resource_opaque r | None \<Rightarrow> ''no resource'')
     @ '' because '' @ decision_reason_as_str (ae_reason d)"

definition decision_json :: "AuthorizationEvidence \<Rightarrow> Json" where
  "decision_json d = JObject [(''decision_id'', JString (ae_decision_id d)),
     (''timestamp'', json_int (ae_timestamp d)), (''decision'', JString (outcome_as_str (ae_decision d))),
     (''allowed'', JBool (outcome_as_str (ae_decision d) = ''allow'')),
     (''reason'', JString (decision_reason_as_str (ae_reason d))), (''principal'', JString (ae_principal d)),
     (''tenant'', JString (ae_tenant d)), (''capability'', JString (ae_capability d)),
     (''resource'', optional_id_json (map_option resource_opaque (ae_resource d))),
     (''action'', optional_id_json (ae_action d)), (''policy_id'', optional_id_json (ae_policy_id d)),
     (''matched_rules'', json_strings (ae_matched_rules d)),
     (''conditions'', JArray (map condition_json (ae_conditions d))),
     (''authority'', optional_id_json (map_option basis_as_str (ae_authority d))),
     (''source'', JString (if map_option basis_as_str (ae_authority d) = Some ''delegated''
        then ''delegation'' else ''policy'')),
     (''authority_source'', authority_source_json d),
     (''delegation_chain'', json_strings (ae_delegation_chain d)), (''run_id'', optional_id_json (ae_run_id d)),
     (''task_id'', optional_id_json (ae_task_id d)),
     (''agent_principal'', optional_id_json (ae_agent_principal d)),
     (''delegation_id'', optional_id_json (ae_delegation_id d)),
     (''parent_run_id'', optional_id_json (ae_parent_run_id d)),
     (''execution_scope'', optional_number resource_scope_json (ae_execution_scope d)),
     (''authority_revision'', json_u64 (ae_authority_revision d)),
     (''contract_fingerprint'', JString (ae_contract_fingerprint d)),
     (''audit_event_id'', optional_id_json (ae_audit_event_id d)),
     (''summary'', JString (decision_summary d))]"

definition authorization_decisions_view :: "('l, 'm) Runtime \<Rightarrow> HttpResponse" where
  "authorization_decisions_view s = response_ok_json (JObject
     [(''decisions'', JArray (map decision_json (recent_decisions (rt_mesh s))))])"

definition authorization_explain_view :: "('l, 'm) Runtime \<Rightarrow> HttpResponse" where
  "authorization_explain_view s = (let ds = recent_decisions (rt_mesh s) in response_ok_json (JObject
     [(''latest_decision'', if ds = [] then JNull else decision_json (last ds)),
      (''message'', JString ''authorization explanations are derived from structured decisions'')]))"

definition decision_at :: "string \<Rightarrow> ('l, 'm) Runtime \<Rightarrow> HttpResponse" where
  "decision_at i s = (case find (\<lambda>d. ae_decision_id d = i) (recent_decisions (rt_mesh s)) of
     Some d \<Rightarrow> response_ok_json (decision_json d)
   | None \<Rightarrow> response_denied 404 ''decision_not_found'' ''no such authorization decision'')"

definition authorization_decision_view :: "string \<Rightarrow> ('l, 'm) Runtime \<Rightarrow> HttpResponse" where
  "authorization_decision_view path s =
     decision_at (trim_start_matches ''/_authboundry/authorization/decisions/'' path) s"

definition authorization_decision_explain_view :: "string \<Rightarrow> ('l, 'm) Runtime \<Rightarrow> HttpResponse" where
  "authorization_decision_explain_view path s = decision_at (trim_end_matches ''/''
     (trim_end_matches ''/explain'' (trim_start_matches ''/_authboundry/authorization/decisions/'' path))) s"

definition providers_view :: "('l, 'm) Runtime \<Rightarrow> HttpResponse" where
  "providers_view s = response_ok_json (JArray (map (\<lambda>p. JObject [(''id'', JString (md_id p)),
     (''kind'', JString (connector_kind_as_str (md_kind p))),
     (''enabled'', JString (if is_provider_enabled (md_id p) s then ''true'' else ''false''))])
     (sf_providers (surface_derive (ct_contract s)))))"

subsection \<open>Password policies\<close>

definition password_rules_json :: "PasswordPolicy \<Rightarrow> (string \<times> Json) list" where
  "password_rules_json p = [(''min_length'', json_nat (pw_min_length p)),
     (''max_length'', json_nat (pw_max_length p)), (''require_uppercase'', JBool (pw_require_uppercase p)),
     (''require_lowercase'', JBool (pw_require_lowercase p)), (''require_number'', JBool (pw_require_number p)),
     (''require_special_character'', JBool (pw_require_special_character p)),
     (''expiration_days'', optional_number (\<lambda>d. json_nat (unat d)) (pw_expiration_days p)),
     (''history_count'', json_nat (pw_history_count p))]"

definition password_policy_json_value :: "PasswordPolicy \<Rightarrow> Json" where
  "password_policy_json_value p = JObject (password_rules_json p)"

definition password_policy_json :: "('l, 'm) Runtime \<Rightarrow> Json" where
  "password_policy_json s = (let effective = effective_password_policy s; p = ep_policy effective in
     JObject (password_rules_json p
       @ [(''allow_password_change'', JBool (pw_allow_change p)),
          (''allow_password_reset'', JBool (pw_allow_reset p)),
          (''authority_revision'', json_u64 (ep_authority_revision effective)),
          (''contract_fingerprint'', JString (ep_contract_fingerprint effective)),
          (''policy_revision'', json_u64 (ep_policy_revision effective))]))"

subsection \<open>Agents, delegations and runs\<close>

definition agent_state_text :: "AgentState \<Rightarrow> string" where
  "agent_state_text state = (case state of StateCreated \<Rightarrow> ''created'' | StateActive \<Rightarrow> ''active''
     | StateSuspended \<Rightarrow> ''suspended'' | StateRevoked \<Rightarrow> ''revoked'' | StateRetired \<Rightarrow> ''retired'')"

definition agent_json :: "Principal \<Rightarrow> Json" where
  "agent_json p = JObject [(''id'', JString (p_id p)), (''kind'', JString ''agent''),
     (''tenant'', JString (p_tenant_id p)),
     (''status'', JString (case p_agent_state p of Some state \<Rightarrow> agent_state_text state | None \<Rightarrow> ''unknown''))]"

definition delegation_json :: "Delegation \<Rightarrow> Json" where
  "delegation_json d = JObject [(''id'', JString (d_id d)), (''delegator'', JString (d_delegator d)),
     (''delegate'', JString (d_delegate d)), (''expires_at'', optional_number json_int (d_expires_at d)),
     (''status'', JString (if d_revoked_at d \<noteq> None then ''revoked'' else ''active''))]"

definition run_json :: "AgentRun \<Rightarrow> Json" where
  "run_json r = JObject [(''id'', JString (r_id r)), (''agent_principal'', JString (r_agent_principal r)),
     (''delegator'', JString (r_delegator r)), (''delegation_id'', JString (r_delegation_id r)),
     (''delegation_chain'', json_strings (r_delegation_chain r)),
     (''parent_run_id'', optional_id_json (r_parent_run_id r)), (''task_id'', JString (ts_id (r_task r))),
     (''task_purpose'', JString (ts_purpose (r_task r))),
     (''capability_scope'', json_strings (r_capability_scope r)),
     (''resource_scope'', resource_scope_json (r_resource_scope r)),
     (''created_at'', json_int (r_created_at r)), (''expires_at'', json_int (r_expires_at r)),
     (''status'', JString (run_status_as_str (r_status r))),
     (''authority_revision'', json_u64 (r_authority_revision r)),
     (''contract_fingerprint'', JString (r_contract_fingerprint r)),
     (''execution_credential'', JString (r_execution_credential r))]"

subsection \<open>Changes and proposals\<close>

definition change_to_json :: "AuthorityChange \<Rightarrow> Json" where
  "change_to_json c = JObject (case c of
     ProtectRoute m path cap \<Rightarrow> [(''type'', JString ''protect_route''), (''method'', JString (method_text m)),
       (''path'', JString path), (''capability'', JString cap)]
   | UnprotectRoute m path \<Rightarrow> [(''type'', JString ''unprotect_route''), (''method'', JString (method_text m)),
       (''path'', JString path)]
   | SetCapabilityPolicy cap pol \<Rightarrow> [(''type'', JString ''set_capability_policy''),
       (''capability'', JString cap), (''policy'', JString (pol_id pol))]
   | SetProviderEnabled p b \<Rightarrow> [(''type'', JString ''set_provider_enabled''), (''provider'', JString p),
       (''enabled'', JBool b)]
   | SetPasswordPolicy pw \<Rightarrow> [(''type'', JString ''set_password_policy''),
       (''policy'', password_policy_json_value pw)]
   | Revert i \<Rightarrow> [(''type'', JString ''revert''), (''change_id'', JString i)])"

definition route_protection_map_to_json :: "(RouteId, RouteProtection) bmap \<Rightarrow> Json" where
  "route_protection_map_to_json routes = JArray (map (\<lambda>((m, path), protection).
     JObject [(''method'', JString (method_text m)), (''path'', JString path),
       (''capability'', optional_id_json (pr_capability protection))]) routes)"

definition preview_state_to_json :: "PreviewState \<Rightarrow> Json" where
  "preview_state_to_json v = JObject
     [(''route_protection'', route_protection_map_to_json (vw_route_protection v)),
      (''capability_policies'', JObject (map (\<lambda>(cap, pol). (cap, JString (pol_id pol)))
         (vw_capability_policies v))),
      (''provider_state'', JObject (map (\<lambda>(p, state). (p, JBool (pv_enabled state))) (vw_provider_state v))),
      (''password_policy'', optional_number password_policy_json_value (vw_password_policy v))]"

definition preview_to_json :: "Preview \<Rightarrow> Json" where
  "preview_to_json p = JObject [(''before'', preview_state_to_json (pre_before p)),
     (''after'', preview_state_to_json (pre_after p))]"

definition system_time_json :: "nat \<Rightarrow> Json" where
  "system_time_json t = json_nat (seconds t)"

definition proposal_metadata_to_json :: "ProposalMetadata \<Rightarrow> Json" where
  "proposal_metadata_to_json p = JObject [(''id'', JString (pm_id p)),
     (''change_type'', JString (pm_change_type p)), (''status'', JString (proposal_status_as_str (pm_status p))),
     (''revision'', json_u64 (pm_revision p)), (''source'', JString (proposal_source_as_str (pm_source p))),
     (''created_at'', system_time_json (pm_created_at p)),
     (''applied_at'', optional_number system_time_json (pm_applied_at p))]"

definition stored_proposal_to_json :: "StoredProposal \<Rightarrow> Json" where
  "stored_proposal_to_json p = JObject [(''id'', JString (sp_id p)), (''change'', change_to_json (sp_change p)),
     (''preview'', preview_to_json (sp_preview p)), (''revision'', json_u64 (sp_revision p)),
     (''contract_fingerprint'', JString (sp_contract_fingerprint p)),
     (''discovery_revision'', json_u64 (sp_discovery_revision p)),
     (''source'', JString (proposal_source_as_str (sp_source p))),
     (''status'', JString (proposal_status_as_str (sp_status p))),
     (''created_at'', system_time_json (sp_created_at p)),
     (''applied_at'', optional_number system_time_json (sp_applied_at p)),
     (''change_id'', optional_id_json (sp_change_id p)),
     (''rejection_reason'', optional_id_json (sp_rejection_reason p))]"

definition change_record_to_json :: "ChangeRecord \<Rightarrow> Json" where
  "change_record_to_json r = JObject [(''change_id'', JString (ch_change_id r)),
     (''proposal_id'', JString (ch_proposal_id r)), (''change_type'', JString (change_type (ch_change r))),
     (''change'', change_to_json (ch_change r)), (''applied_at'', system_time_json (ch_applied_at r)),
     (''applied_by'', optional_id_json (ch_applied_by r)),
     (''reverted_change_id'', optional_id_json (ch_reverted_change_id r)),
     (''previous_revision'', json_u64 (lv_revision (ch_previous_state r))),
     (''resulting_revision'', json_u64 (lv_revision (ch_resulting_state r)))]"

end
