(* ===== verification/Discovery.thy ===== *)
theory Discovery
  imports Views "HOL-Library.Multiset"
begin

text \<open>
  The part of \<^verbatim>\<open>crates/discovery/src/lib.rs\<close> that decides: from the routes of an
  application to a proposal of authority, and the reconciliation of the routes that were found
  with the authority that is in force. Finding the routes, that is reading source files, is not
  modelled: an application is given by its name and its routes. The hasher of the standard
  library is a parameter, a function of the bytes it is fed.
\<close>

subsection \<open>The vocabulary\<close>

definition source_rank :: "RouteSource \<Rightarrow> nat" where
  "source_rank r = (case r of FromExpress \<Rightarrow> 0 | FromEmbedded \<Rightarrow> 1 | FromStandalone \<Rightarrow> 2 | FromRust \<Rightarrow> 3
     | FromClient \<Rightarrow> 4 | FromPython \<Rightarrow> 5 | FromUnknown \<Rightarrow> 6)"

lemma source_rank_inj: "source_rank a = source_rank b \<longleftrightarrow> a = b"
  by (cases a; cases b) (simp_all add: source_rank_def)

instantiation RouteSource :: linorder
begin

definition less_eq_RouteSource :: "RouteSource \<Rightarrow> RouteSource \<Rightarrow> bool" where
  "less_eq_RouteSource a b \<longleftrightarrow> source_rank a \<le> source_rank b"

definition less_RouteSource :: "RouteSource \<Rightarrow> RouteSource \<Rightarrow> bool" where
  "less_RouteSource a b \<longleftrightarrow> source_rank a < source_rank b"

instance
  by standard (auto simp: less_eq_RouteSource_def less_RouteSource_def source_rank_inj)

end

datatype Confidence = ConfidenceHigh | ConfidenceMedium | ConfidenceLow | ConfidenceUnknown

definition confidence_as_str :: "Confidence \<Rightarrow> string" where
  "confidence_as_str c = (case c of ConfidenceHigh \<Rightarrow> ''high'' | ConfidenceMedium \<Rightarrow> ''medium''
     | ConfidenceLow \<Rightarrow> ''low'' | ConfidenceUnknown \<Rightarrow> ''unknown'')"

datatype InferenceKind = InferredCapability

definition inference_kind_as_str :: "InferenceKind \<Rightarrow> string" where
  "inference_kind_as_str k = (case k of InferredCapability \<Rightarrow> ''capability'')"

record ResourceInference =
  ri_resource_type :: string
  ri_resource_id :: string
  ri_action :: string

record Inference =
  in_kind :: InferenceKind
  in_capability :: string
  in_resource :: "ResourceInference option"
  in_confidence :: Confidence
  in_reasons :: "string list"

datatype ProtectionState = StatePublic | StateProtected | StateUnprotected

definition protection_as_str :: "ProtectionState \<Rightarrow> string" where
  "protection_as_str p = (case p of StatePublic \<Rightarrow> ''public'' | StateProtected \<Rightarrow> ''protected''
     | StateUnprotected \<Rightarrow> ''unprotected'')"

record DiscoveredRoute =
  ds_id :: string
  ds_method :: string
  ds_path :: string
  ds_source :: RouteSource
  ds_capability :: "string option"
  ds_inference :: "Inference option"
  ds_protection :: ProtectionState
  ds_protection_reason :: string

datatype ProposalReviewStatus =
    ReviewRecommended | ReviewApproved | ReviewRejected | ReviewAlreadyProtected | ReviewAlreadyPublic | ReviewStale

definition review_as_str :: "ProposalReviewStatus \<Rightarrow> string" where
  "review_as_str r = (case r of ReviewRecommended \<Rightarrow> ''recommended'' | ReviewApproved \<Rightarrow> ''approved''
     | ReviewRejected \<Rightarrow> ''rejected'' | ReviewAlreadyProtected \<Rightarrow> ''already_protected''
     | ReviewAlreadyPublic \<Rightarrow> ''already_public'' | ReviewStale \<Rightarrow> ''stale'')"

datatype ProposalOrigin = OriginExplicit | OriginInferred | OriginImported

definition origin_as_str :: "ProposalOrigin \<Rightarrow> string" where
  "origin_as_str r = (case r of OriginExplicit \<Rightarrow> ''explicit'' | OriginInferred \<Rightarrow> ''inferred''
     | OriginImported \<Rightarrow> ''imported'')"

datatype RecommendationAction = ActionNoChange | ActionProtectRoute

definition action_as_str :: "RecommendationAction \<Rightarrow> string" where
  "action_as_str a = (case a of ActionNoChange \<Rightarrow> ''no_change'' | ActionProtectRoute \<Rightarrow> ''protect_route'')"

record AuthorityRecommendation =
  rm_id :: "string option"
  rm_method :: string
  rm_path :: string
  rm_action :: RecommendationAction
  rm_capability :: "string option"
  rm_status :: ProposalReviewStatus
  rm_current_authority_state :: string
  rm_proposed_authority_state :: string
  rm_source :: ProposalOrigin
  rm_discovery_revision :: u64
  rm_authority_revision :: u64
  rm_contract_fingerprint :: string
  rm_confidence :: Confidence
  rm_reasons :: "string list"
  rm_reason :: string

record AuthorityProposal =
  pl_application :: string
  pl_contract_fingerprint :: string
  pl_discovery_revision :: u64
  pl_live_revision :: u64
  pl_routes :: "DiscoveredRoute list"
  pl_inferences :: "Inference list"
  pl_recommendations :: "AuthorityRecommendation list"
  pl_warnings :: "string list"

text \<open>Of an application only its name and its routes matter here.\<close>

record ApplicationCandidate =
  ac_name :: "string option"
  ac_routes :: "RouteCandidate list"

type_synonym Mappings = "(string \<times> string, string) bmap"

subsection \<open>Paths\<close>

definition ends_with :: "string \<Rightarrow> string \<Rightarrow> bool" where
  "ends_with p s \<longleftrightarrow> strip_suffix p s \<noteq> None"

definition route_segments :: "string \<Rightarrow> string list" where
  "route_segments path = filter (\<lambda>w. w \<noteq> []) (split_on (CHR ''/'') (trim_slashes path))"

definition param_segment :: string where "param_segment = '':param''"

definition is_parameter :: "string \<Rightarrow> bool" where
  "is_parameter seg \<longleftrightarrow> seg = param_segment"

definition normalize_segment :: "string \<Rightarrow> string" where
  "normalize_segment part = (if starts_with '':'' part
       \<or> starts_with ''{'' part \<and> ends_with ''}'' part \<or> starts_with ''['' part \<and> ends_with '']'' part
     then param_segment else ascii_lower part)"

definition normalize_path :: "string \<Rightarrow> string" where
  "normalize_path path = (let trimmed = trim path in
     if trimmed = ''/'' then ''/'' else ''/'' @ join ''/'' (map normalize_segment (route_segments trimmed)))"

definition is_plural :: "string \<Rightarrow> bool" where
  "is_plural r \<longleftrightarrow> ends_with ''s'' r \<and> \<not> ends_with ''ss'' r \<and> 1 < length r"

definition route_singular :: "string \<Rightarrow> string" where
  "route_singular r = (case strip_suffix ''ies'' r of
     Some stem \<Rightarrow> stem @ ''y''
   | None \<Rightarrow> if ends_with ''s'' r \<and> \<not> ends_with ''ss'' r then trim_end_matches ''s'' r else r)"

definition parameter_name :: "string \<Rightarrow> string option" where
  "parameter_name seg = (case strip_prefix '':'' seg of Some n \<Rightarrow> Some n
     | None \<Rightarrow> Option.bind (strip_prefix ''{'' seg) (strip_suffix ''}''))"

subsection \<open>Inference\<close>

definition unmapped_reason :: string where
  "unmapped_reason = ''no explicit capability mapping exists''"

definition inferred :: "string \<Rightarrow> ResourceInference \<Rightarrow> Confidence \<Rightarrow> string list \<Rightarrow> Inference" where
  "inferred cap resource confidence reasons = \<lparr>in_kind = InferredCapability, in_capability = cap,
     in_resource = Some resource, in_confidence = confidence, in_reasons = reasons @ [unmapped_reason]\<rparr>"

definition plural_confidence :: "string \<Rightarrow> Confidence" where
  "plural_confidence r = (if is_plural r then ConfidenceHigh else ConfidenceLow)"

definition collection_inference :: "string \<Rightarrow> string \<Rightarrow> Inference option" where
  "collection_inference method resource =
     map_option (\<lambda>action. inferred (route_singular resource @ ''.'' @ action)
         \<lparr>ri_resource_type = route_singular resource, ri_resource_id = ''*'', ri_action = action\<rparr>
         (plural_confidence resource)
         [''method is '' @ method, ''resource is '' @ resource, ''route is not parameterized''])
       (if method = ''GET'' then Some ''read'' else if method = ''POST'' then Some ''create'' else None)"

definition item_inference :: "string \<Rightarrow> string \<Rightarrow> string option \<Rightarrow> string \<Rightarrow> Inference option" where
  "item_inference method resource raw seg =
     map_option (\<lambda>action. inferred (route_singular resource @ ''.'' @ action)
         \<lparr>ri_resource_type = route_singular resource,
          ri_resource_id = (case (case Option.bind raw parameter_name of Some n \<Rightarrow> Some n
              | None \<Rightarrow> parameter_name seg) of Some n \<Rightarrow> ''{'' @ n @ ''}'' | None \<Rightarrow> ''*''),
          ri_action = action\<rparr>
         (plural_confidence resource)
         [''method is '' @ method, ''resource is '' @ resource, ''route is parameterized''])
       (if method = ''GET'' then Some ''read'' else if method = ''PUT'' \<or> method = ''PATCH'' then Some ''update''
        else if method = ''DELETE'' then Some ''delete'' else None)"

definition action_inference :: "string \<Rightarrow> string \<Rightarrow> string \<Rightarrow> Inference" where
  "action_inference method resource action = inferred (route_singular resource @ ''.'' @ action)
     \<lparr>ri_resource_type = route_singular resource, ri_resource_id = ''*'', ri_action = action\<rparr>
     (if method = ''POST'' then ConfidenceHigh else ConfidenceMedium)
     [''method is '' @ method, ''resource is '' @ resource, ''action segment is '' @ action]"

definition review_inference :: "string \<Rightarrow> Inference" where
  "review_inference resource = \<lparr>in_kind = InferredCapability,
     in_capability = route_singular resource @ ''.review'',
     in_resource = Some \<lparr>ri_resource_type = route_singular resource, ri_resource_id = ''*'',
       ri_action = ''review''\<rparr>,
     in_confidence = ConfidenceLow, in_reasons = [''route shape is ambiguous; review manually'']\<rparr>"

definition infrastructure :: "string list" where
  "infrastructure = [''auth'', ''health'', ''healthz'', ''ready'', ''readyz'', ''metrics'']"

definition infer_capability :: "string \<Rightarrow> string \<Rightarrow> Inference option" where
  "infer_capability m path =
     (let method = ascii_upper m; segments = route_segments (normalize_path path);
          raw = route_segments path
      in case segments of
           [] \<Rightarrow> None
         | resource # rest \<Rightarrow>
             if resource \<in> set infrastructure then None
             else (case rest of
                 [] \<Rightarrow> collection_inference method resource
               | [seg] \<Rightarrow>
                   if is_parameter seg
                   then item_inference method resource (case raw of _ # r # _ \<Rightarrow> Some r | _ \<Rightarrow> None) seg
                   else if \<not> is_parameter resource then Some (action_inference method resource seg)
                   else Some (review_inference resource)
               | _ \<Rightarrow> Some (review_inference resource)))"

definition classify_protection :: "string \<Rightarrow> string \<Rightarrow> string option \<Rightarrow> ProtectionState \<times> string" where
  "classify_protection m path cap =
     (if cap \<noteq> None then (StateProtected, ''explicit or existing authority mapping'')
      else let normalized = normalize_path path in
        if normalized \<in> {''/'', ''/health'', ''/healthz'', ''/ready'', ''/readyz''}
        then (StatePublic, ''recognized safe infrastructure endpoint'')
        else if normalized = ''/metrics'' then (StatePublic, ''recognized metrics endpoint'')
        else if normalized = ''/auth'' \<or> starts_with ''/auth/'' normalized
        then (StatePublic, ''AuthBoundry-owned authority endpoint'')
        else (StateUnprotected, if ascii_lower m = ''get''
          then ''application route remains behaviorally compatible until approved''
          else ''mutating application endpoint; protection is recommended, not applied''))"

definition describe_route :: "RouteCandidate \<Rightarrow> Mappings \<Rightarrow> DiscoveredRoute" where
  "describe_route r existing =
     (let path = normalize_path (rd_path r);
          cap = (case rd_capability r of Some c \<Rightarrow> Some c | None \<Rightarrow> map_of existing (rd_method r, path));
          p = classify_protection (rd_method r) (rd_path r) cap
      in \<lparr>ds_id = rd_method r @ '' '' @ path, ds_method = rd_method r, ds_path = path,
          ds_source = rd_source r, ds_capability = cap,
          ds_inference = (if cap \<noteq> None then None else infer_capability (rd_method r) (rd_path r)),
          ds_protection = fst p, ds_protection_reason = snd p\<rparr>)"

subsection \<open>Revisions\<close>

text \<open>
  What the hasher is fed: a string is its bytes and an end byte, an integer eight bytes, an
  option its tag and then its content, a list its length and then its elements.
\<close>

definition hash_u64 :: "u64 \<Rightarrow> string" where
  "hash_u64 w = map (\<lambda>i. char_of (unat w div 256 ^ i mod 256)) [0..<8]"

definition hash_option_str :: "string option \<Rightarrow> string" where
  "hash_option_str v = (case v of None \<Rightarrow> hash_u64 0 | Some s \<Rightarrow> hash_u64 1 @ hash_str s)"

definition hash_strs :: "string list \<Rightarrow> string" where
  "hash_strs xs = hash_u64 (of_nat (length xs)) @ concat (map hash_str xs)"

definition hash_inference :: "Inference \<Rightarrow> string" where
  "hash_inference i = hash_str (in_capability i)
     @ (case in_resource i of Some r \<Rightarrow> hash_str (ri_resource_type r) @ hash_str (ri_resource_id r)
          @ hash_str (ri_action r) | None \<Rightarrow> [])
     @ hash_str (confidence_as_str (in_confidence i)) @ hash_strs (in_reasons i)"

definition discovery_revision :: "(string \<Rightarrow> u64) \<Rightarrow> DiscoveredRoute list \<Rightarrow> u64" where
  "discovery_revision h routes = h (concat (map (\<lambda>r. hash_str (ds_method r) @ hash_str (ds_path r)
     @ hash_str (route_source_as_str (ds_source r)) @ hash_option_str (ds_capability r)
     @ (case ds_inference r of Some i \<Rightarrow> hash_inference i | None \<Rightarrow> [])) routes))"

subsection \<open>Proposals\<close>

definition recommended_action :: "DiscoveredRoute \<Rightarrow> RecommendationAction" where
  "recommended_action r = (if ds_protection r = StateUnprotected \<and> ds_capability r = None
       \<and> (case ds_inference r of Some i \<Rightarrow> in_confidence i \<noteq> ConfidenceUnknown | None \<Rightarrow> False)
       \<and> ds_method r \<noteq> ''GET''
     then ActionProtectRoute else ActionNoChange)"

definition recommend :: "u64 \<Rightarrow> u64 \<Rightarrow> string \<Rightarrow> DiscoveredRoute \<Rightarrow> AuthorityRecommendation" where
  "recommend revision standing fp r = (let action = recommended_action r in
     \<lparr>rm_id = None, rm_method = ds_method r, rm_path = ds_path r, rm_action = action,
      rm_capability = (case ds_capability r of Some c \<Rightarrow> Some c
        | None \<Rightarrow> map_option in_capability (ds_inference r)),
      rm_status = (case ds_protection r of StatePublic \<Rightarrow> ReviewAlreadyPublic
        | StateProtected \<Rightarrow> ReviewAlreadyProtected | StateUnprotected \<Rightarrow> ReviewRecommended),
      rm_current_authority_state = protection_as_str (ds_protection r),
      rm_proposed_authority_state = (case action of ActionProtectRoute \<Rightarrow> ''protected''
        | ActionNoChange \<Rightarrow> protection_as_str (ds_protection r)),
      rm_source = (if ds_capability r \<noteq> None then OriginExplicit else OriginInferred),
      rm_discovery_revision = revision, rm_authority_revision = standing, rm_contract_fingerprint = fp,
      rm_confidence = (case ds_inference r of Some i \<Rightarrow> in_confidence i | None \<Rightarrow> ConfidenceUnknown),
      rm_reasons = (case ds_inference r of Some i \<Rightarrow> in_reasons i | None \<Rightarrow> [ds_protection_reason r]),
      rm_reason = (case action of ActionNoChange \<Rightarrow> ''nothing is applied without approval''
        | ActionProtectRoute \<Rightarrow> ''mutating route has a deterministic capability inference'')\<rparr>)"

definition application_name :: "ApplicationCandidate \<Rightarrow> string" where
  "application_name a = (case ac_name a of Some n \<Rightarrow> n | None \<Rightarrow> ''application'')"

definition propose_authority ::
  "(string \<Rightarrow> u64) \<Rightarrow> ApplicationCandidate \<Rightarrow> string \<Rightarrow> u64 \<Rightarrow> Mappings \<Rightarrow> AuthorityProposal" where
  "propose_authority h app fp standing existing =
     (let routes = sort_key (\<lambda>r. (ds_path r, ds_method r, ds_source r))
            (map (\<lambda>r. describe_route r existing) (ac_routes app));
          revision = discovery_revision h routes
      in \<lparr>pl_application = application_name app, pl_contract_fingerprint = fp,
          pl_discovery_revision = revision, pl_live_revision = standing, pl_routes = routes,
          pl_inferences = List.map_filter ds_inference routes,
          pl_recommendations = map (recommend revision standing fp) routes, pl_warnings = []\<rparr>)"

subsection \<open>Reconciliation\<close>

datatype AuthorityDrift = NewRoute | RemovedRoute | RouteChanged | CapabilityConflict | OrphanedDrift | StaleProposal

definition drift_as_str :: "AuthorityDrift \<Rightarrow> string" where
  "drift_as_str d = (case d of NewRoute \<Rightarrow> ''new_route'' | RemovedRoute \<Rightarrow> ''removed_route''
     | RouteChanged \<Rightarrow> ''route_changed'' | CapabilityConflict \<Rightarrow> ''capability_conflict''
     | OrphanedDrift \<Rightarrow> ''orphaned_authority'' | StaleProposal \<Rightarrow> ''stale_proposal'')"

record OrphanedAuthority =
  oa_method :: string
  oa_path :: string
  oa_capability :: string
  oa_reason :: string

record ChangedRoute =
  cg_previous :: DiscoveredRoute
  cg_current :: DiscoveredRoute
  cg_reason :: string

record ProposalHistoryItem =
  hi_id :: string
  hi_method :: string
  hi_path :: string
  hi_capability :: string
  hi_status :: string
  hi_discovery_revision :: u64
  hi_authority_revision :: u64

record AuthorityDriftItem =
  di_kind :: AuthorityDrift
  di_route :: string
  di_previous_state :: string
  di_current_state :: string
  di_authority_state :: string
  di_recommended_action :: string
  di_discovery_revision :: u64
  di_authority_revision :: u64

record ReconciliationResult =
  rz_application :: string
  rz_contract_fingerprint :: string
  rz_discovery_revision :: u64
  rz_authority_revision :: u64
  rz_reconciliation_revision :: u64
  rz_new_routes :: "DiscoveredRoute list"
  rz_removed_routes :: "DiscoveredRoute list"
  rz_changed_routes :: "ChangedRoute list"
  rz_unchanged_routes :: "DiscoveredRoute list"
  rz_equivalent_routes :: "ChangedRoute list"
  rz_orphaned_authority :: "OrphanedAuthority list"
  rz_new_authority_proposals :: "AuthorityRecommendation list"
  rz_stale_proposals :: "ProposalHistoryItem list"
  rz_warnings :: "string list"
  rz_drift :: "AuthorityDriftItem list"

definition equivalent_route_keys ::
  "ApplicationCandidate option \<Rightarrow> ApplicationCandidate \<Rightarrow> (string \<times> string) list" where
  "equivalent_route_keys previous current = (case previous of None \<Rightarrow> []
   | Some p \<Rightarrow>
       (let raw = bcollect (map (\<lambda>r. ((rd_method r, normalize_path (rd_path r)), rd_path r)) (ac_routes p))
        in remdups_adj (sort (List.map_filter (\<lambda>r. let key = (rd_method r, normalize_path (rd_path r)) in
             case map_of raw key of Some path \<Rightarrow> if path \<noteq> rd_path r then Some key else None | None \<Rightarrow> None)
           (ac_routes current)))))"

definition route_key :: "DiscoveredRoute \<Rightarrow> string \<times> string" where
  "route_key r = (ds_method r, normalize_path (ds_path r))"

definition route_family :: "DiscoveredRoute \<Rightarrow> string" where
  "route_family r = (case find (\<lambda>seg. \<not> is_parameter seg) (route_segments (normalize_path (ds_path r))) of
     Some seg \<Rightarrow> seg | None \<Rightarrow> [])"

text \<open>
  The pairing of removed and new routes of the same family: each removed route takes the first
  new route that is still free.
\<close>

definition changed_route :: "DiscoveredRoute \<Rightarrow> DiscoveredRoute \<Rightarrow> ChangedRoute" where
  "changed_route old new = \<lparr>cg_previous = old, cg_current = new,
     cg_reason = (if ds_method old \<noteq> ds_method new then ''HTTP method changed'' else ''route shape changed'')\<rparr>"

fun pair_routes ::
  "nat \<Rightarrow> DiscoveredRoute list \<Rightarrow> DiscoveredRoute list \<Rightarrow> nat list \<Rightarrow> nat list \<Rightarrow> ChangedRoute list
   \<Rightarrow> nat list \<times> nat list \<times> ChangedRoute list" where
  "pair_routes i [] new paired_new paired_removed changes = (paired_new, paired_removed, changes)"
| "pair_routes i (r # rs) new paired_new paired_removed changes =
     (case find (\<lambda>(j, n). j \<notin> set paired_new \<and> route_family r = route_family n) (enumerate 0 new) of
        Some (j, n) \<Rightarrow> pair_routes (i + 1) rs new (paired_new @ [j]) (paired_removed @ [i])
          (changes @ [changed_route r n])
      | None \<Rightarrow> pair_routes (i + 1) rs new paired_new paired_removed changes)"

definition unpaired :: "nat list \<Rightarrow> 'a list \<Rightarrow> 'a list" where
  "unpaired paired xs = map snd (filter (\<lambda>(i, _). i \<notin> set paired) (enumerate 0 xs))"

definition drift_item ::
  "AuthorityDrift \<Rightarrow> string \<Rightarrow> string \<Rightarrow> string \<Rightarrow> string \<Rightarrow> string \<Rightarrow> u64 \<Rightarrow> u64 \<Rightarrow> AuthorityDriftItem" where
  "drift_item kind r previous current authority action disc arev =
     \<lparr>di_kind = kind, di_route = r, di_previous_state = previous, di_current_state = current,
      di_authority_state = authority, di_recommended_action = action, di_discovery_revision = disc,
      di_authority_revision = arev\<rparr>"

definition method_path :: "string \<Rightarrow> string \<Rightarrow> string" where
  "method_path m path = m @ '' '' @ path"

definition route_text :: "DiscoveredRoute \<Rightarrow> string" where
  "route_text r = method_path (ds_method r) (ds_path r)"

definition reconciliation_revision :: "(string \<Rightarrow> u64) \<Rightarrow> u64 \<Rightarrow> u64 \<Rightarrow> string \<Rightarrow> AuthorityDriftItem list \<Rightarrow> u64" where
  "reconciliation_revision h disc arev fp drift = h (hash_str fp @ hash_u64 disc @ hash_u64 arev
     @ concat (map (\<lambda>d. hash_str (drift_as_str (di_kind d)) @ hash_str (di_route d)
         @ hash_str (di_previous_state d) @ hash_str (di_current_state d) @ hash_str (di_authority_state d)
         @ hash_str (di_recommended_action d)) drift))"

text \<open>The conflicts of the standing authority with what would be inferred.\<close>

definition authority_conflict :: "Mappings \<Rightarrow> DiscoveredRoute \<Rightarrow> (string \<times> string) option" where
  "authority_conflict standing r = (case (infer_capability (ds_method r) (ds_path r), map_of standing (route_key r)) of
     (Some i, Some existing) \<Rightarrow> if existing \<noteq> in_capability i then Some (existing, in_capability i) else None
   | _ \<Rightarrow> None)"

definition conflict_warning :: "DiscoveredRoute \<Rightarrow> string \<times> string \<Rightarrow> string" where
  "conflict_warning r c = ''authority conflict for '' @ route_text r @ '': existing explicit authority ''
     @ fst c @ '' differs from inferred '' @ snd c"

definition orphaned :: "Mappings \<Rightarrow> (string \<times> string, DiscoveredRoute) bmap \<Rightarrow> OrphanedAuthority list" where
  "orphaned standing current_keys = sort_key (\<lambda>a. (oa_path a, oa_method a))
     (List.map_filter (\<lambda>((m, path), cap). if bcontains current_keys (m, normalize_path path) then None
        else Some \<lparr>oa_method = m, oa_path = normalize_path path, oa_capability = cap,
          oa_reason = ''route no longer discovered; historical authority retained''\<rparr>) standing)"

definition stale :: "ProposalHistoryItem list \<Rightarrow> (string \<times> string, DiscoveredRoute) bmap \<Rightarrow> ProposalHistoryItem list" where
  "stale past current_keys = sort_key hi_id (filter (\<lambda>p. hi_status p \<noteq> ''applied''
     \<and> \<not> bcontains current_keys (hi_method p, normalize_path (hi_path p))) past)"

definition keyed :: "DiscoveredRoute list \<Rightarrow> (string \<times> string, DiscoveredRoute) bmap" where
  "keyed routes = bcollect (map (\<lambda>r. (route_key r, r)) routes)"

definition route_sorted :: "DiscoveredRoute list \<Rightarrow> DiscoveredRoute list" where
  "route_sorted = sort_key (\<lambda>r. (ds_path r, ds_method r))"

text \<open>The keys of \<open>a\<close> that are not in \<open>b\<close>, and those that are, in order.\<close>

definition only_in :: "(string \<times> string, DiscoveredRoute) bmap \<Rightarrow> (string \<times> string, DiscoveredRoute) bmap
   \<Rightarrow> DiscoveredRoute list" where
  "only_in a b = bvalues (filter (\<lambda>e. \<not> bcontains b (fst e)) a)"

definition in_both :: "(string \<times> string, DiscoveredRoute) bmap \<Rightarrow> (string \<times> string, DiscoveredRoute) bmap
   \<Rightarrow> DiscoveredRoute list" where
  "in_both a b = bvalues (filter (\<lambda>e. bcontains b (fst e)) a)"

definition equivalent_changes :: "(string \<times> string) list \<Rightarrow> (string \<times> string, DiscoveredRoute) bmap
   \<Rightarrow> (string \<times> string, DiscoveredRoute) bmap \<Rightarrow> ChangedRoute list" where
  "equivalent_changes keys previous current = List.map_filter (\<lambda>(key, r). case map_of previous key of
     Some p \<Rightarrow> if key \<in> set keys then Some \<lparr>cg_previous = p, cg_current = r,
         cg_reason = ''route parameter syntax normalized to the same authority route''\<rparr> else None
   | None \<Rightarrow> None) current"

definition reconcile_descriptions ::
  "(string \<Rightarrow> u64) \<Rightarrow> string \<Rightarrow> string \<Rightarrow> u64 \<Rightarrow> DiscoveredRoute list \<Rightarrow> AuthorityProposal \<Rightarrow> Mappings
   \<Rightarrow> ProposalHistoryItem list \<Rightarrow> (string \<times> string) list \<Rightarrow> ReconciliationResult" where
  "reconcile_descriptions h application fp arev previous_routes proposal standing past equivalent_keys =
     (let current_routes = route_sorted (pl_routes proposal); disc = pl_discovery_revision proposal;
          previous = keyed (route_sorted previous_routes); current = keyed current_routes;
          (paired_new, paired_removed, changes) =
            pair_routes 0 (only_in previous current) (only_in current previous) [] [] [];
          new = unpaired paired_new (only_in current previous);
          removed = unpaired paired_removed (only_in previous current);
          orphans = orphaned standing current; stales = stale past current;
          conflicts = List.map_filter (\<lambda>r. map_option (Pair r) (authority_conflict standing r)) current_routes;
          drift = sort_key (\<lambda>d. (di_route d, drift_as_str (di_kind d)))
            (map (\<lambda>r. drift_item NewRoute (route_text r) ''absent'' ''discovered''
                 (protection_as_str (ds_protection r)) ''review'' disc arev) new
             @ map (\<lambda>r. drift_item RemovedRoute (route_text r) ''discovered'' ''absent''
                 (protection_as_str (ds_protection r)) ''review'' disc arev) removed
             @ map (\<lambda>c. drift_item RouteChanged (route_text (cg_current c)) (route_text (cg_previous c))
                 (route_text (cg_current c)) (protection_as_str (ds_protection (cg_current c))) ''review'' disc arev) changes
             @ map (\<lambda>a. drift_item OrphanedDrift (method_path (oa_method a) (oa_path a)) ''protected''
                 ''route_absent'' (''retained:'' @ oa_capability a) ''review'' disc arev) orphans
             @ map (\<lambda>p. drift_item StaleProposal (method_path (hi_method p) (normalize_path (hi_path p)))
                 (hi_status p) ''route_absent'' (''proposal:'' @ hi_id p) ''reject_or_supersede'' disc arev) stales
             @ map (\<lambda>(r, existing, cap). drift_item CapabilityConflict (route_text r) existing cap
                 ''explicit authority preserved'' ''review'' disc arev) conflicts)
      in \<lparr>rz_application = application, rz_contract_fingerprint = fp, rz_discovery_revision = disc,
          rz_authority_revision = arev,
          rz_reconciliation_revision = reconciliation_revision h disc arev fp drift,
          rz_new_routes = new, rz_removed_routes = removed, rz_changed_routes = changes,
          rz_unchanged_routes = in_both current previous,
          rz_equivalent_routes = equivalent_changes equivalent_keys previous current,
          rz_orphaned_authority = orphans,
          rz_new_authority_proposals = sort_key (\<lambda>m. (rm_path m, rm_method m))
            (filter (\<lambda>m. rm_action m = ActionProtectRoute) (pl_recommendations proposal)),
          rz_stale_proposals = stales,
          rz_warnings = map (\<lambda>(r, c). conflict_warning r c) conflicts, rz_drift = drift\<rparr>)"

text \<open>Without a previous application the authority in force stands for it.\<close>

definition approved_route :: "(string \<times> string) \<times> string \<Rightarrow> DiscoveredRoute" where
  "approved_route e = (case e of ((m, path), cap) \<Rightarrow> \<lparr>ds_id = m @ '' '' @ normalize_path path, ds_method = m,
     ds_path = normalize_path path, ds_source = FromUnknown, ds_capability = Some cap, ds_inference = None,
     ds_protection = StateProtected, ds_protection_reason = ''previously approved authority mapping''\<rparr>)"

definition reconcile ::
  "(string \<Rightarrow> u64) \<Rightarrow> ApplicationCandidate option \<Rightarrow> ApplicationCandidate \<Rightarrow> string \<Rightarrow> u64 \<Rightarrow> Mappings
   \<Rightarrow> ProposalHistoryItem list \<Rightarrow> ReconciliationResult" where
  "reconcile h previous current fp arev standing past =
     reconcile_descriptions h (application_name current) fp arev
       (case previous of Some p \<Rightarrow> pl_routes (propose_authority h p fp arev standing)
        | None \<Rightarrow> map approved_route standing)
       (propose_authority h current fp arev standing) standing past (equivalent_route_keys previous current)"

subsection \<open>Renderings\<close>

definition rendered_object :: "(string \<times> string) list \<Rightarrow> string" where
  "rendered_object fs = ''{'' @ join '', '' (map (\<lambda>(k, v). json_key k @ v) fs) @ ''}''"

definition rendered_list :: "('a \<Rightarrow> string) \<Rightarrow> 'a list \<Rightarrow> string" where
  "rendered_list f xs = ''['' @ join '', '' (map f xs) @ '']''"

definition show_u64 :: "u64 \<Rightarrow> string" where
  "show_u64 w = show_nat (unat w)"

definition option_string_json :: "string option \<Rightarrow> string" where
  "option_string_json v = (case v of Some s \<Rightarrow> quoted s | None \<Rightarrow> ''null'')"

definition resource_inference_json :: "ResourceInference \<Rightarrow> string" where
  "resource_inference_json r = rendered_object [(''type'', quoted (ri_resource_type r)),
     (''id'', quoted (ri_resource_id r)), (''action'', quoted (ri_action r))]"

definition inference_json :: "Inference \<Rightarrow> string" where
  "inference_json i = rendered_object
     [(''kind'', [CHR 0x22] @ inference_kind_as_str (in_kind i) @ [CHR 0x22]),
      (''capability'', quoted (in_capability i)),
      (''resource'', case in_resource i of Some r \<Rightarrow> resource_inference_json r | None \<Rightarrow> ''null''),
      (''confidence'', [CHR 0x22] @ confidence_as_str (in_confidence i) @ [CHR 0x22]),
      (''reasons'', rendered_list quoted (in_reasons i))]"

definition route_json :: "DiscoveredRoute \<Rightarrow> string" where
  "route_json r = rendered_object
     [(''id'', quoted (ds_id r)), (''method'', quoted (ds_method r)), (''path'', quoted (ds_path r)),
      (''source'', [CHR 0x22] @ route_source_as_str (ds_source r) @ [CHR 0x22]),
      (''capability'', option_string_json (ds_capability r)),
      (''inference'', case ds_inference r of Some i \<Rightarrow> inference_json i | None \<Rightarrow> ''null''),
      (''protection'', [CHR 0x22] @ protection_as_str (ds_protection r) @ [CHR 0x22]),
      (''protection_reason'', quoted (ds_protection_reason r))]"

definition recommendation_json :: "AuthorityRecommendation \<Rightarrow> string" where
  "recommendation_json m = rendered_object
     [(''id'', option_string_json (rm_id m)), (''method'', quoted (rm_method m)),
      (''path'', quoted (rm_path m)),
      (''action'', [CHR 0x22] @ action_as_str (rm_action m) @ [CHR 0x22]),
      (''capability'', option_string_json (rm_capability m)),
      (''status'', [CHR 0x22] @ review_as_str (rm_status m) @ [CHR 0x22]),
      (''current_authority_state'', quoted (rm_current_authority_state m)),
      (''proposed_authority_state'', quoted (rm_proposed_authority_state m)),
      (''source'', [CHR 0x22] @ origin_as_str (rm_source m) @ [CHR 0x22]),
      (''discovery_revision'', show_u64 (rm_discovery_revision m)),
      (''authority_revision'', show_u64 (rm_authority_revision m)),
      (''contract_fingerprint'', quoted (rm_contract_fingerprint m)),
      (''confidence'', [CHR 0x22] @ confidence_as_str (rm_confidence m) @ [CHR 0x22]),
      (''reasons'', rendered_list quoted (rm_reasons m)), (''reason'', quoted (rm_reason m))]"

definition changed_route_json :: "ChangedRoute \<Rightarrow> string" where
  "changed_route_json c = rendered_object [(''previous'', route_json (cg_previous c)),
     (''current'', route_json (cg_current c)), (''reason'', quoted (cg_reason c))]"

definition orphaned_authority_json :: "OrphanedAuthority \<Rightarrow> string" where
  "orphaned_authority_json a = rendered_object [(''method'', quoted (oa_method a)),
     (''path'', quoted (oa_path a)), (''capability'', quoted (oa_capability a)), (''reason'', quoted (oa_reason a))]"

definition proposal_history_json :: "ProposalHistoryItem \<Rightarrow> string" where
  "proposal_history_json p = rendered_object [(''id'', quoted (hi_id p)), (''method'', quoted (hi_method p)),
     (''path'', quoted (hi_path p)), (''capability'', quoted (hi_capability p)),
     (''status'', quoted (hi_status p)), (''discovery_revision'', show_u64 (hi_discovery_revision p)),
     (''authority_revision'', show_u64 (hi_authority_revision p))]"

definition drift_item_json :: "AuthorityDriftItem \<Rightarrow> string" where
  "drift_item_json d = rendered_object
     [(''type'', [CHR 0x22] @ drift_as_str (di_kind d) @ [CHR 0x22]), (''route'', quoted (di_route d)),
      (''previous_state'', quoted (di_previous_state d)), (''current_state'', quoted (di_current_state d)),
      (''authority_state'', quoted (di_authority_state d)),
      (''recommended_action'', quoted (di_recommended_action d)),
      (''discovery_revision'', show_u64 (di_discovery_revision d)),
      (''authority_revision'', show_u64 (di_authority_revision d))]"

text \<open>A document: one field a line, indented.\<close>

definition rendered_document :: "(string \<times> string) list \<Rightarrow> string" where
  "rendered_document fs = ''{'' @ [CHR 0x0A] @ ''  ''
     @ join ('','' @ [CHR 0x0A] @ ''  '') (map (\<lambda>(k, v). json_key k @ v) fs) @ [CHR 0x0A] @ ''}'' @ [CHR 0x0A]"

definition render_proposal_json :: "AuthorityProposal \<Rightarrow> string" where
  "render_proposal_json p = rendered_document
     [(''application'', quoted (pl_application p)),
      (''contract_fingerprint'', quoted (pl_contract_fingerprint p)),
      (''discovery_revision'', show_u64 (pl_discovery_revision p)),
      (''live_revision'', show_u64 (pl_live_revision p)),
      (''routes'', rendered_list route_json (pl_routes p)),
      (''inferences'', rendered_list inference_json (pl_inferences p)),
      (''recommendations'', rendered_list recommendation_json (pl_recommendations p)),
      (''warnings'', rendered_list quoted (pl_warnings p))]"

definition show_length :: "'a list \<Rightarrow> string" where
  "show_length xs = show_nat (length xs)"

definition render_reconciliation_json :: "ReconciliationResult \<Rightarrow> string" where
  "render_reconciliation_json z = rendered_document
     [(''application'', quoted (rz_application z)),
      (''contract_fingerprint'', quoted (rz_contract_fingerprint z)),
      (''discovery_revision'', show_u64 (rz_discovery_revision z)),
      (''authority_revision'', show_u64 (rz_authority_revision z)),
      (''reconciliation_revision'', show_u64 (rz_reconciliation_revision z)),
      (''summary'', rendered_object [(''new_routes'', show_length (rz_new_routes z)),
         (''removed_routes'', show_length (rz_removed_routes z)),
         (''changed_routes'', show_length (rz_changed_routes z)),
         (''unchanged_routes'', show_length (rz_unchanged_routes z)),
         (''orphaned_authority'', show_length (rz_orphaned_authority z)),
         (''capability_conflicts'', show_length (filter (\<lambda>d. di_kind d = CapabilityConflict) (rz_drift z))),
         (''stale_proposals'', show_length (rz_stale_proposals z)), (''unsafe_automatic_changes'', ''0'')]),
      (''new_routes'', rendered_list route_json (rz_new_routes z)),
      (''removed_routes'', rendered_list route_json (rz_removed_routes z)),
      (''changed_routes'', rendered_list changed_route_json (rz_changed_routes z)),
      (''unchanged_routes'', rendered_list route_json (rz_unchanged_routes z)),
      (''equivalent_routes'', rendered_list changed_route_json (rz_equivalent_routes z)),
      (''orphaned_authority'', rendered_list orphaned_authority_json (rz_orphaned_authority z)),
      (''new_authority_proposals'', rendered_list recommendation_json (rz_new_authority_proposals z)),
      (''stale_proposals'', rendered_list proposal_history_json (rz_stale_proposals z)),
      (''warnings'', rendered_list quoted (rz_warnings z)),
      (''drift'', rendered_list drift_item_json (rz_drift z))]"

definition render_drift_json :: "ReconciliationResult \<Rightarrow> string" where
  "render_drift_json z = rendered_document
     [(''contract_fingerprint'', quoted (rz_contract_fingerprint z)),
      (''discovery_revision'', show_u64 (rz_discovery_revision z)),
      (''authority_revision'', show_u64 (rz_authority_revision z)),
      (''reconciliation_revision'', show_u64 (rz_reconciliation_revision z)),
      (''drift'', rendered_list drift_item_json (rz_drift z))]"

text \<open>
  The texts shown at the command line. A column is padded with spaces to a number of characters;
  the arrow is one character of three bytes.
\<close>

definition pad :: "nat \<Rightarrow> string \<Rightarrow> string" where
  "pad n s = s @ replicate (n - length (utf8_chars s)) (CHR '' '')"

definition line_break :: string where "line_break = [CHR 0x0A]"

definition arrow :: string where "arrow = [CHR 0xE2, CHR 0x86, CHR 0x92]"

definition rendered_lines :: "string list \<Rightarrow> string" where
  "rendered_lines xs = concat (map (\<lambda>x. x @ line_break) xs)"

definition has_confidence :: "Confidence \<Rightarrow> DiscoveredRoute \<Rightarrow> bool" where
  "has_confidence c r \<longleftrightarrow> (case ds_inference r of Some i \<Rightarrow> in_confidence i = c | None \<Rightarrow> False)"

definition inference_text :: "DiscoveredRoute \<Rightarrow> string" where
  "inference_text r = (case ds_inference r of None \<Rightarrow> []
   | Some i \<Rightarrow> rendered_lines ([ds_method r @ '' '' @ ds_path r, ''  '' @ arrow @ '' '' @ in_capability i, ''  Reasons:'']
       @ map (\<lambda>reason. ''    '' @ reason) (in_reasons i)))"

definition confidence_text :: "AuthorityProposal \<Rightarrow> Confidence \<Rightarrow> string" where
  "confidence_text p c = (let matching = filter (has_confidence c) (pl_routes p) in
     if matching = [] then []
     else rendered_lines [ascii_upper (confidence_as_str c) @ '' CONFIDENCE''] @ concat (map inference_text matching))"

definition capability_text :: "string \<Rightarrow> DiscoveredRoute \<Rightarrow> string" where
  "capability_text otherwise r = (case ds_capability r of Some c \<Rightarrow> c
   | None \<Rightarrow> (case ds_inference r of Some i \<Rightarrow> in_capability i | None \<Rightarrow> otherwise))"

definition render_proposal_text :: "AuthorityProposal \<Rightarrow> string" where
  "render_proposal_text p = rendered_lines
       [''AUTHORITY PROPOSAL'', ''Application: '' @ pl_application p,
        ''Observed routes: '' @ show_length (pl_routes p),
        ''Inferred capabilities: '' @ show_length (pl_inferences p),
        ''Authority revision: '' @ show_u64 (pl_live_revision p),
        ''Contract fingerprint: '' @ pl_contract_fingerprint p]
     @ concat (map (confidence_text p) [ConfidenceHigh, ConfidenceMedium, ConfidenceLow])
     @ rendered_lines [''SAFE DEFAULTS'']
     @ concat (map (\<lambda>r. rendered_lines
         [pad 6 (ds_method r) @ '' '' @ pad 24 (ds_path r) @ '' '' @ pad 11 (protection_as_str (ds_protection r))
            @ '' '' @ capability_text ''(none)'' r,
          ''  reason: '' @ ds_protection_reason r]) (pl_routes p))
     @ rendered_lines ([''RECOMMENDED PROTECTION'']
         @ map (\<lambda>m. rm_method m @ '' '' @ rm_path m @ '' -> ''
               @ (case rm_capability m of Some c \<Rightarrow> c | None \<Rightarrow> ''(review)''))
             (filter (\<lambda>m. rm_action m = ActionProtectRoute) (pl_recommendations p))
         @ [''NO CHANGE'']
         @ map (\<lambda>m. rm_method m @ '' '' @ rm_path m)
             (filter (\<lambda>m. rm_action m = ActionNoChange) (pl_recommendations p))
         @ [''Nothing has been changed.''])"

text \<open>A section is there only when it has entries.\<close>

definition text_section :: "string \<Rightarrow> ('a \<Rightarrow> string list) \<Rightarrow> 'a list \<Rightarrow> string" where
  "text_section title f xs = (if xs = [] then [] else rendered_lines (title # concat (map f xs)))"

definition new_route_text :: "DiscoveredRoute \<Rightarrow> string list" where
  "new_route_text r =
     [''  '' @ ds_method r @ '' '' @ ds_path r,
      ''  '' @ arrow @ '' '' @ (case ds_inference r of Some i \<Rightarrow> in_capability i
         | None \<Rightarrow> (case ds_capability r of Some c \<Rightarrow> c | None \<Rightarrow> ''(review)'')),
      ''  '' @ arrow @ '' '' @ ascii_upper (case ds_inference r of Some i \<Rightarrow> confidence_as_str (in_confidence i)
         | None \<Rightarrow> ''unknown'') @ '' confidence'',
      ''  '' @ arrow @ '' review required'']"

definition render_reconciliation_text :: "ReconciliationResult \<Rightarrow> string" where
  "render_reconciliation_text z = rendered_lines
       [''AuthBoundry Authority Reconciliation'', ''Contract: '' @ rz_contract_fingerprint z,
        ''Discovery: '' @ show_u64 (rz_discovery_revision z),
        ''Authority: '' @ show_u64 (rz_authority_revision z),
        ''Reconciliation: '' @ show_u64 (rz_reconciliation_revision z)]
     @ text_section ''NEW'' new_route_text (rz_new_routes z)
     @ text_section ''REMOVED'' (\<lambda>a. [''  '' @ oa_method a @ '' '' @ oa_path a,
         ''  '' @ arrow @ '' '' @ oa_capability a, ''  '' @ arrow @ '' orphaned authority'']) (rz_orphaned_authority z)
     @ text_section ''CHANGED'' (\<lambda>c. [''  '' @ ds_method (cg_current c) @ '' '' @ ds_path (cg_current c)
           @ '' (was '' @ ds_method (cg_previous c) @ '' '' @ ds_path (cg_previous c) @ '')'',
         ''  '' @ arrow @ '' '' @ capability_text ''(review)'' (cg_current c),
         ''  '' @ arrow @ '' existing authority preserved'']) (rz_changed_routes z)
     @ rendered_lines [''UNCHANGED'', ''  '' @ show_length (rz_unchanged_routes z) @ '' routes'',
         ''No authority was changed.'']"

subsection \<open>Every route is accounted for\<close>

lemma enumerate_zip: "enumerate 0 xs = zip [0..<length xs] xs"
  by (simp add: enumerate_eq_zip)

lemma unpaired_nth: "unpaired paired xs = map (nth xs) (filter (\<lambda>i. i \<notin> set paired) [0..<length xs])"
proof -
  have "zip [0..<length xs] xs = map (\<lambda>i. (i, xs ! i)) [0..<length xs]"
    by (rule nth_equalityI) simp_all
  then show ?thesis by (simp add: unpaired_def enumerate_zip filter_map comp_def case_prod_unfold)
qed

lemma mset_unpaired:
  assumes "distinct paired" "set paired \<subseteq> {..<length xs}"
  shows "mset (unpaired paired xs) + mset (map (nth xs) paired) = mset xs"
proof -
  have p: "mset paired = mset (filter (\<lambda>i. i \<in> set paired) [0..<length xs])"
  proof (rule set_eq_iff_mset_eq_distinct [THEN iffD1])
    show "set paired = set (filter (\<lambda>i. i \<in> set paired) [0..<length xs])" using assms(2) by auto
  qed (use assms(1) in simp_all)
  have "mset (unpaired paired xs) + mset (map (nth xs) paired)
      = image_mset (nth xs) (mset (filter (\<lambda>i. i \<notin> set paired) [0..<length xs]) + mset paired)"
    by (simp add: unpaired_nth)
  also have "\<dots> = image_mset (nth xs) (mset [0..<length xs])"
    unfolding p by (metis multiset_partition mset_filter union_commute)
  also have "\<dots> = mset (map (nth xs) [0..<length xs])" by simp
  also have "\<dots> = mset xs" by (simp add: map_nth)
  finally show ?thesis .
qed

definition paired_up :: "DiscoveredRoute list \<Rightarrow> DiscoveredRoute list \<Rightarrow> nat \<Rightarrow> nat list \<Rightarrow> nat list
   \<Rightarrow> ChangedRoute list \<Rightarrow> bool" where
  "paired_up removed new i ns rs changes \<longleftrightarrow>
     distinct ns \<and> set ns \<subseteq> {..<length new} \<and> map cg_current changes = map (nth new) ns
     \<and> distinct rs \<and> set rs \<subseteq> {..<i} \<and> map cg_previous changes = map (nth removed) rs
     \<and> (\<forall>c \<in> set changes. route_family (cg_previous c) = route_family (cg_current c))"

lemma pair_routes_paired_up:
  assumes "paired_up removed new i ns rs changes" "drop i removed = rest"
    "pair_routes i rest new ns rs changes = (ns', rs', changes')" "i \<le> length removed"
  shows "paired_up removed new (length removed) ns' rs' changes'"
  using assms
proof (induction i rest new ns rs changes arbitrary: ns' rs' changes' rule: pair_routes.induct)
  case (1 i new ns rs changes)
  then have "i = length removed" by simp
  with 1 show ?case by simp
next
  case (2 i r rest new ns rs changes)
  have i: "i < length removed" "removed ! i = r" "drop (i + 1) removed = rest"
    using 2(4) by (auto simp: nth_via_drop drop_Suc tl_drop [symmetric] intro: ccontr)
  show ?case
  proof (cases "find (\<lambda>(j, n). j \<notin> set ns \<and> route_family r = route_family n) (enumerate 0 new)")
    case None
    have "paired_up removed new (i + 1) ns rs changes" using 2(3) by (auto simp: paired_up_def)
    then show ?thesis using "2.IH"(1) [OF None _ i(3)] 2(5) i(1) None by simp
  next
    case (Some e)
    obtain j n where e: "e = (j, n)" by (cases e)
    have j: "j < length new" "new ! j = n" "j \<notin> set ns" "route_family r = route_family n"
      using find_SomeD [OF Some [unfolded e]] by (auto simp: enumerate_zip set_zip)
    have "paired_up removed new (i + 1) (ns @ [j]) (rs @ [i]) (changes @ [changed_route r n])"
      using 2(3) j i(2) by (auto simp: paired_up_def changed_route_def)
    then show ?thesis using "2.IH"(2) [OF Some e [symmetric] _ i(3)] 2(5) i(1) Some e by simp
  qed
qed

lemma pair_routes_mset:
  assumes "pair_routes 0 removed new [] [] [] = (ns, rs, changes)"
  shows "mset (unpaired ns new) + mset (map cg_current changes) = mset new"
    and "mset (unpaired rs removed) + mset (map cg_previous changes) = mset removed"
    and "\<forall>c \<in> set changes. route_family (cg_previous c) = route_family (cg_current c)"
proof -
  have p: "paired_up removed new (length removed) ns rs changes"
    by (rule pair_routes_paired_up [OF _ _ assms]) (simp_all add: paired_up_def)
  show "mset (unpaired ns new) + mset (map cg_current changes) = mset new"
    using p mset_unpaired [of ns new] by (simp add: paired_up_def)
  show "mset (unpaired rs removed) + mset (map cg_previous changes) = mset removed"
    using p mset_unpaired [of rs removed] by (simp add: paired_up_def)
  show "\<forall>c \<in> set changes. route_family (cg_previous c) = route_family (cg_current c)"
    using p by (simp add: paired_up_def)
qed

lemma mset_filter_parts:
  "mset (map f (filter (\<lambda>x. \<not> P x) xs)) + mset (map f (filter P xs)) = mset (map f xs)"
  by (induction xs) simp_all

lemma only_in_both:
  "mset (only_in a b) + mset (in_both a b) = mset (bvalues a)"
  unfolding only_in_def in_both_def bvalues_def by (rule mset_filter_parts)

lemma keyed_snoc: "keyed (xs @ [r]) = binsert (route_key r) r (keyed xs)"
  by (simp add: keyed_def bcollect_def)

lemma keyed_entries:
  "bwf (keyed xs)" "fst ` set (keyed xs) = route_key ` set xs" "e \<in> set (keyed xs) \<Longrightarrow> fst e = route_key (snd e)"
proof -
  have sub: "set (binsert k v m) \<subseteq> insert (k, v) (set m)" for k :: "string \<times> string" and v :: DiscoveredRoute and m
    by (induction k v m rule: binsert.induct) auto
  show "bwf (keyed xs)" "fst ` set (keyed xs) = route_key ` set xs"
    by (induction xs rule: rev_induct) (simp_all add: keyed_snoc keyed_def [of "[]"] bcollect_def [of "[]"])
  show "e \<in> set (keyed xs) \<Longrightarrow> fst e = route_key (snd e)"
  proof (induction xs rule: rev_induct)
    case (snoc r xs)
    then show ?case using sub [of "route_key r" r "keyed xs"] by (auto simp: keyed_snoc)
  qed (simp add: keyed_def bcollect_def)
qed

lemma keyed_filter:
  "mset (map route_key (bvalues (filter (\<lambda>e. P (fst e)) (keyed xs)))) = mset_set {k \<in> route_key ` set xs. P k}"
proof -
  have "map route_key (bvalues (filter (\<lambda>e. P (fst e)) (keyed xs))) = map fst (filter (\<lambda>e. P (fst e)) (keyed xs))"
    using keyed_entries(3) by (auto simp: bvalues_def)
  also have "\<dots> = filter P (map fst (keyed xs))" by (simp add: filter_map comp_def)
  finally have e: "map route_key (bvalues (filter (\<lambda>e. P (fst e)) (keyed xs))) = filter P (map fst (keyed xs))" .
  have "distinct (filter P (map fst (keyed xs)))"
    by (rule distinct_filter) (rule bwf_distinct [OF keyed_entries(1)])
  from mset_set_set [OF this] show ?thesis by (simp add: e keyed_entries(2))
qed

lemma bcontains_keyed: "bcontains (keyed ys) key \<longleftrightarrow> key \<in> route_key ` set ys"
  unfolding bcontains_iff map_of_eq_None_iff keyed_entries(2) by simp

lemma only_in_keys:
  "mset (map route_key (only_in (keyed xs) (keyed ys))) = mset_set (route_key ` set xs - route_key ` set ys)"
  using keyed_filter [of "\<lambda>k. k \<notin> route_key ` set ys" xs]
  unfolding only_in_def bcontains_keyed by (simp only: set_diff_eq)

lemma in_both_keys:
  "mset (map route_key (in_both (keyed xs) (keyed ys))) = mset_set (route_key ` set xs \<inter> route_key ` set ys)"
  using keyed_filter [of "\<lambda>k. k \<in> route_key ` set ys" xs]
  unfolding in_both_def bcontains_keyed by (simp only: Int_def)

lemma set_route_sorted [simp]: "set (route_sorted xs) = set xs"
  by (simp add: route_sorted_def)

lemma map_key_mset: "mset a + mset b = mset c \<Longrightarrow> mset (map f (a @ b)) = mset (map f c)"
  by (metis mset_append mset_map)

lemma routes_accounted:
  assumes "pair_routes 0 (only_in previous current) (only_in current previous) [] [] [] = (ns, rs, changes)"
    "previous = keyed (route_sorted old)" "current = keyed (route_sorted routes)"
  shows "mset (map route_key (unpaired ns (only_in current previous) @ map cg_current changes @ in_both current previous))
      = mset_set (route_key ` set routes)"
    and "mset (map route_key (unpaired rs (only_in previous current) @ map cg_previous changes))
      = mset_set (route_key ` set old - route_key ` set routes)"
proof -
  let ?R = "route_key ` set routes" and ?O = "route_key ` set old"
  note p = pair_routes_mset [OF assms(1)]
  show "mset (map route_key (unpaired rs (only_in previous current) @ map cg_previous changes)) = mset_set (?O - ?R)"
    unfolding map_key_mset [OF p(2)] by (simp only: assms(2,3) only_in_keys set_route_sorted)
  have "mset (map route_key (unpaired ns (only_in current previous) @ map cg_current changes)) = mset_set (?R - ?O)"
    unfolding map_key_mset [OF p(1)] by (simp only: assms(2,3) only_in_keys set_route_sorted)
  moreover have "mset (map route_key (in_both current previous)) = mset_set (?R \<inter> ?O)"
    by (simp only: assms(2,3) in_both_keys set_route_sorted)
  moreover have "mset_set (?R - ?O) + mset_set (?R \<inter> ?O) = mset_set ?R"
    by (subst mset_set_Union [symmetric]) (auto intro!: arg_cong [of _ _ mset_set])
  ultimately show "mset (map route_key (unpaired ns (only_in current previous) @ map cg_current changes @ in_both current previous))
      = mset_set ?R"
    by (simp add: add.assoc [symmetric])
qed

lemma orphaned_mset:
  "mset (map (\<lambda>a. (oa_method a, oa_path a, oa_capability a)) (orphaned standing (keyed routes)))
     = mset (map (\<lambda>((m, path), cap). (m, normalize_path path, cap))
         (filter (\<lambda>((m, path), cap). (m, normalize_path path) \<notin> route_key ` set routes) standing))"
  unfolding orphaned_def bcontains_keyed mset_map mset_sort
  by (induction standing) (auto simp: List.map_filter_simps)

text \<open>
  C14. A reconciliation accounts for every route exactly once: the keys (method and normalized
  path) of the new, the changed and the unchanged routes are, without repetition, those of the
  routes found; each key of the routes known before is either removed, changed or still there; a
  changed route keeps its family; and a standing mapping whose route is gone is reported as
  orphaned, with its capability.
\<close>

theorem reconciliation_accounts_for_every_route:
  "(\<lambda>z. mset (map route_key (rz_new_routes z @ map cg_current (rz_changed_routes z) @ rz_unchanged_routes z))
        = mset_set (route_key ` set (pl_routes proposal))
      \<and> mset (map route_key (rz_removed_routes z @ map cg_previous (rz_changed_routes z)))
        = mset_set (route_key ` set old - route_key ` set (pl_routes proposal))
      \<and> list_all (\<lambda>c. route_family (cg_previous c) = route_family (cg_current c)) (rz_changed_routes z)
      \<and> mset (map (\<lambda>a. (oa_method a, oa_path a, oa_capability a)) (rz_orphaned_authority z))
        = mset (map (\<lambda>((m, path), cap). (m, normalize_path path, cap))
            (filter (\<lambda>((m, path), cap). (m, normalize_path path) \<notin> route_key ` set (pl_routes proposal)) standing)))
     (reconcile_descriptions h application fp arev old proposal standing past keys)"
proof -
  obtain ns rs changes where p: "pair_routes 0
      (only_in (keyed (route_sorted old)) (keyed (route_sorted (pl_routes proposal))))
      (only_in (keyed (route_sorted (pl_routes proposal))) (keyed (route_sorted old))) [] [] [] = (ns, rs, changes)"
    by (cases "pair_routes 0
      (only_in (keyed (route_sorted old)) (keyed (route_sorted (pl_routes proposal))))
      (only_in (keyed (route_sorted (pl_routes proposal))) (keyed (route_sorted old))) [] [] []") blast
  show ?thesis
    using routes_accounted [OF p refl refl] pair_routes_mset(3) [OF p]
      orphaned_mset [of standing "route_sorted (pl_routes proposal)"]
    unfolding reconcile_descriptions_def
    by (simp only: Let_def p case_prod_conv ReconciliationResult.simps list_all_iff simp_thms set_route_sorted)
qed

subsection \<open>What a proposal recommends\<close>

lemma infer_capability_infrastructure:
  "infer_capability m path = Some i \<Longrightarrow> \<exists>resource rest. route_segments (normalize_path path) = resource # rest
     \<and> resource \<notin> set infrastructure"
  by (auto simp: infer_capability_def Let_def split: list.splits if_splits)

lemma describe_route_simps [simp]:
  "ds_method (describe_route r existing) = rd_method r"
  "ds_path (describe_route r existing) = normalize_path (rd_path r)"
  "ds_capability (describe_route r existing) = (case rd_capability r of Some c \<Rightarrow> Some c
     | None \<Rightarrow> map_of existing (rd_method r, normalize_path (rd_path r)))"
  by (simp_all add: describe_route_def Let_def)

lemma recommended_protect:
  assumes "recommended_action (describe_route r existing) = ActionProtectRoute"
  shows "rd_method r \<noteq> ''GET'' \<and> rd_capability r = None
    \<and> map_of existing (rd_method r, normalize_path (rd_path r)) = None
    \<and> (\<exists>i. infer_capability (rd_method r) (rd_path r) = Some i \<and> ds_inference (describe_route r existing) = Some i)"
  using assms by (auto simp: recommended_action_def describe_route_def Let_def split: if_splits option.splits)

lemma recommendation_protects:
  assumes "m \<in> set (pl_recommendations (propose_authority h app fp arev existing))"
    "rm_action m = ActionProtectRoute"
  shows "\<exists>r i resource rest. r \<in> set (ac_routes app) \<and> rm_method m = rd_method r
    \<and> rm_path m = normalize_path (rd_path r) \<and> rd_method r \<noteq> ''GET'' \<and> rd_capability r = None
    \<and> map_of existing (rd_method r, normalize_path (rd_path r)) = None
    \<and> route_segments (normalize_path (rd_path r)) = resource # rest \<and> resource \<notin> set infrastructure
    \<and> infer_capability (rd_method r) (rd_path r) = Some i \<and> rm_capability m = Some (in_capability i)
    \<and> rm_status m = ReviewRecommended \<and> rm_id m = None"
proof -
  obtain r where r: "r \<in> set (ac_routes app)"
    and m: "m = recommend (pl_discovery_revision (propose_authority h app fp arev existing)) arev fp
      (describe_route r existing)"
    using assms(1) by (auto simp: propose_authority_def Let_def)
  have a: "recommended_action (describe_route r existing) = ActionProtectRoute"
    using assms(2) by (simp add: m recommend_def Let_def)
  from recommended_protect [OF a] obtain i where i: "infer_capability (rd_method r) (rd_path r) = Some i"
    "ds_inference (describe_route r existing) = Some i" "rd_method r \<noteq> ''GET''" "rd_capability r = None"
    "map_of existing (rd_method r, normalize_path (rd_path r)) = None" by blast
  have u: "ds_protection (describe_route r existing) = StateUnprotected"
    using a by (simp add: recommended_action_def split: if_splits)
  obtain resource rest where s: "route_segments (normalize_path (rd_path r)) = resource # rest"
    "resource \<notin> set infrastructure" using infer_capability_infrastructure [OF i(1)] by blast
  show ?thesis
    by (rule exI [of _ r], rule exI [of _ i], rule exI [of _ resource], rule exI [of _ rest])
      (simp add: r i s m recommend_def Let_def u del: infrastructure_def)
qed

text \<open>
  C27. A proposal covers every route found, touches nothing that is settled and is only a
  proposal. It has one recommendation for each route found, under the route's method and
  normalized path and not yet stored; the recommendations are in the order of the proposal's
  routes, which are those found, sorted by path, method and source. A recommendation that asks for
  protection is for a route found that is not a GET, that names no capability, that has no
  standing mapping under exactly its method and normalized path (one under another spelling of
  the path is not looked for), and that is not infrastructure; it carries the capability that is
  inferred for the route.
\<close>

theorem recommendations_are_conservative:
  "let p = propose_authority h app fp arev existing in
     map (\<lambda>m. (rm_method m, rm_path m)) (pl_recommendations p) = map (\<lambda>r. (ds_method r, ds_path r)) (pl_routes p)
   \<and> mset (map (\<lambda>m. (rm_method m, rm_path m)) (pl_recommendations p))
       = mset (map (\<lambda>r. (rd_method r, normalize_path (rd_path r))) (ac_routes app))
   \<and> mset (pl_routes p) = mset (map (\<lambda>r. describe_route r existing) (ac_routes app))
   \<and> sorted (map (\<lambda>r. (ds_path r, ds_method r, ds_source r)) (pl_routes p))
   \<and> (\<forall>m\<in>set (pl_recommendations p). rm_id m = None)
   \<and> (\<forall>m\<in>set (pl_recommendations p). rm_action m = ActionProtectRoute \<longrightarrow>
        (\<exists>r i resource rest. r \<in> set (ac_routes app) \<and> rm_method m = rd_method r
          \<and> rm_path m = normalize_path (rd_path r) \<and> rd_method r \<noteq> ''GET'' \<and> rd_capability r = None
          \<and> map_of existing (rd_method r, normalize_path (rd_path r)) = None
          \<and> route_segments (normalize_path (rd_path r)) = resource # rest \<and> resource \<notin> set infrastructure
          \<and> infer_capability (rd_method r) (rd_path r) = Some i \<and> rm_capability m = Some (in_capability i)
          \<and> rm_status m = ReviewRecommended))"
proof -
  define p where "p = propose_authority h app fp arev existing"
  have routes: "pl_routes p = sort_key (\<lambda>r. (ds_path r, ds_method r, ds_source r))
      (map (\<lambda>r. describe_route r existing) (ac_routes app))"
    by (simp add: p_def propose_authority_def Let_def)
  have recs: "pl_recommendations p = map (recommend (pl_discovery_revision p) arev fp) (pl_routes p)"
    by (simp add: p_def propose_authority_def Let_def)
  have places: "map (\<lambda>m. (rm_method m, rm_path m)) (pl_recommendations p)
      = map (\<lambda>r. (ds_method r, ds_path r)) (pl_routes p)"
    by (simp add: recs recommend_def Let_def)
  have found: "mset (pl_routes p) = mset (map (\<lambda>r. describe_route r existing) (ac_routes app))"
    by (simp add: routes)
  have "mset (map (\<lambda>m. (rm_method m, rm_path m)) (pl_recommendations p))
      = image_mset (\<lambda>r. (ds_method r, ds_path r)) (mset (pl_routes p))"
    unfolding places by simp
  also have "\<dots> = mset (map (\<lambda>r. (rd_method r, normalize_path (rd_path r))) (ac_routes app))"
    unfolding found by (simp add: multiset.map_comp comp_def)
  finally have covered: "mset (map (\<lambda>m. (rm_method m, rm_path m)) (pl_recommendations p))
      = mset (map (\<lambda>r. (rd_method r, normalize_path (rd_path r))) (ac_routes app))" .
  have sorted: "sorted (map (\<lambda>r. (ds_path r, ds_method r, ds_source r)) (pl_routes p))"
    unfolding routes by (rule sorted_sort_key)
  have "\<forall>m\<in>set (pl_recommendations p). rm_id m = None" by (simp add: recs recommend_def Let_def)
  with places covered found sorted show ?thesis
    unfolding p_def [symmetric] Let_def
    using recommendation_protects [of _ h app fp arev existing, folded p_def] by blast
qed

definition sample_route :: RouteCandidate where
  "sample_route = \<lparr>rd_method = ''DELETE'', rd_path = ''/Invoices/:id'', rd_source = FromExpress,
     rd_capability = None\<rparr>"

lemma sample_trim: "trim ''/Invoices/:id'' = ''/Invoices/:id''"
  by (rule trim_plain) (simp_all add: plain_def)

lemma sample_path: "normalize_path ''/Invoices/:id'' = ''/invoices/:param''"
  unfolding normalize_path_def Let_def sample_trim by code_simp

lemma sample_capability:
  "map_option in_capability (infer_capability ''DELETE'' ''/Invoices/:id'') = Some ''invoice.delete''"
  unfolding infer_capability_def Let_def sample_path by code_simp

lemma sample_described:
  "ds_inference (describe_route sample_route []) = infer_capability ''DELETE'' ''/Invoices/:id''"
  "ds_protection (describe_route sample_route []) = StateUnprotected"
  unfolding describe_route_def Let_def sample_route_def classify_protection_def RouteCandidate.simps sample_path
  by (simp_all add: starts_with_def)

lemma sample_confidence:
  "map_option in_confidence (infer_capability ''DELETE'' ''/Invoices/:id'') = Some ConfidenceHigh"
  unfolding infer_capability_def Let_def sample_path by code_simp

lemma sample_recommended: "recommended_action (describe_route sample_route []) = ActionProtectRoute"
proof -
  have "rd_method sample_route = ''DELETE''" "rd_capability sample_route = None" by (simp_all add: sample_route_def)
  then show ?thesis using sample_confidence
    by (auto simp: recommended_action_def sample_described)
qed

definition sample_recommendation :: AuthorityRecommendation where
  "sample_recommendation = hd (pl_recommendations
     (propose_authority (\<lambda>_. 0) \<lparr>ac_name = None, ac_routes = [sample_route]\<rparr> ''fp'' 7 []))"

theorem recommendations_are_conservative_witness:
  "rm_path sample_recommendation = ''/invoices/:param''
   \<and> rm_capability sample_recommendation = Some ''invoice.delete''
   \<and> rm_status sample_recommendation = ReviewRecommended
   \<and> length (pl_recommendations
        (propose_authority (\<lambda>_. 0) \<lparr>ac_name = None, ac_routes = [sample_route]\<rparr> ''fp'' 7 [])) = 1"
proof -
  let ?p = "propose_authority (\<lambda>_. 0) \<lparr>ac_name = None, ac_routes = [sample_route]\<rparr> ''fp'' 7 []"
  note facts = recommendations_are_conservative [of "\<lambda>_. 0" "\<lparr>ac_name = None, ac_routes = [sample_route]\<rparr>" "''fp''" 7 "[]",
      unfolded Let_def]
  have one: "length (pl_recommendations ?p) = 1"
    using facts [THEN conjunct2, THEN conjunct1, THEN mset_eq_length] by simp
  have m: "sample_recommendation \<in> set (pl_recommendations ?p)"
    by (simp add: sample_recommendation_def propose_authority_def Let_def)
  have "rm_action sample_recommendation = ActionProtectRoute"
    using sample_recommended by (simp add: sample_recommendation_def propose_authority_def Let_def recommend_def)
  with facts m obtain r i where "r \<in> set [sample_route]" "rm_path sample_recommendation = normalize_path (rd_path r)"
    "infer_capability (rd_method r) (rd_path r) = Some i" "rm_capability sample_recommendation = Some (in_capability i)"
    "rm_status sample_recommendation = ReviewRecommended"
    by fastforce
  with one sample_capability show ?thesis by (auto simp: sample_route_def sample_path)
qed

end
