(* ===== verification/Proxy.thy ===== *)
theory Proxy
  imports Router Enforcing
begin

text \<open>
  \<^verbatim>\<open>server/src/proxy.rs\<close>, \<^verbatim>\<open>client.rs\<close> and \<^verbatim>\<open>upstream.rs\<close>: the
  standalone placement. A request that satisfied the boundary is rebuilt without the client's
  use of the reserved headers and with the derived context, written to the application's
  connection, and the response is read back. The network is a parameter.
\<close>

subsection \<open>Upstreams\<close>

datatype UpstreamScheme = SchemeHttp | SchemeHttps

record ApplicationUpstream =
  au_scheme :: UpstreamScheme
  au_host :: string
  au_port :: nat

text \<open>\<^verbatim>\<open>split_once\<close> at a string and \<^verbatim>\<open>rsplit_once\<close> at a character.\<close>

fun split_once_str :: "string \<Rightarrow> string \<Rightarrow> (string \<times> string) option" where
  "split_once_str p [] = (if p = [] then Some ([], []) else None)"
| "split_once_str p (c # s) = (if starts_with p (c # s) then Some ([], drop (length p) (c # s))
     else map_option (\<lambda>(a, b). (c # a, b)) (split_once_str p s))"

definition rsplit_once :: "char \<Rightarrow> string \<Rightarrow> (string \<times> string) option" where
  "rsplit_once c s = map_option (\<lambda>(b, a). (rev a, rev b)) (split_once c (rev s))"

definition upstream_pair :: "string \<Rightarrow> string + string \<times> string" where
  "upstream_pair authority = (case strip_prefix ''['' authority of
     Some rest \<Rightarrow> ok_or ''IPv6 upstreams must use [host]:port'' (split_once_str '']:'' rest)
   | None \<Rightarrow>
       rbind (ok_or ''application upstream must include an explicit port''
         (rsplit_once (CHR '':'') authority)) (\<lambda>pair.
       rbind (check (CHR '':'' \<notin> set (fst pair)) ''IPv6 upstreams must use [host]:port'') (\<lambda>_. Inr pair)))"

definition upstream_from :: "UpstreamScheme \<Rightarrow> string \<Rightarrow> string + ApplicationUpstream" where
  "upstream_from scheme authority =
     rbind (check (authority \<noteq> [] \<and> set authority \<inter> set ''/?#@'' = {})
       ''application upstream must be an origin without a path'') (\<lambda>_.
     rbind (upstream_pair authority) (\<lambda>(host, port).
     rbind (check (host \<noteq> [] \<and> \<not> list_ex (\<lambda>c. c \<in> set white_space) (utf8_chars host))
       ''application upstream host is invalid'') (\<lambda>_.
     rbind (ok_or ''application upstream port is invalid''
       (case parse_unsigned (2 ^ 16) port of Some n \<Rightarrow> if 0 < n then Some n else None | None \<Rightarrow> None)) (\<lambda>n.
     Inr \<lparr>au_scheme = scheme, au_host = host, au_port = n\<rparr>))))"

definition upstream_parse :: "string \<Rightarrow> string + ApplicationUpstream" where
  "upstream_parse v =
     (let v = (case strip_suffix ''/'' v of Some w \<Rightarrow> w | None \<Rightarrow> v) in
     rbind (case strip_prefix ''http://'' v of
         Some a \<Rightarrow> Inr (SchemeHttp, a)
       | None \<Rightarrow> (case strip_prefix ''https://'' v of
           Some a \<Rightarrow> Inr (SchemeHttps, a)
         | None \<Rightarrow> Inl ''application upstream must use http:// or https://''))
       (\<lambda>(scheme, authority). upstream_from scheme authority))"

definition upstream_authority :: "ApplicationUpstream \<Rightarrow> string" where
  "upstream_authority u = (if CHR '':'' \<in> set (au_host u)
     then ''['' @ au_host u @ '']:'' @ show_nat (au_port u)
     else au_host u @ '':'' @ show_nat (au_port u))"

definition upstream_display :: "ApplicationUpstream \<Rightarrow> string" where
  "upstream_display u = (case au_scheme u of SchemeHttp \<Rightarrow> ''http'' | SchemeHttps \<Rightarrow> ''https'')
     @ ''://'' @ upstream_authority u"

subsection \<open>The client side of HTTP\<close>

record ClientRequest =
  cq_method :: Method
  cq_path :: string
  cq_headers :: "(string \<times> string) list"
  cq_body :: string

definition client_request_new :: "Method \<Rightarrow> string \<Rightarrow> ClientRequest" where
  "client_request_new m path = \<lparr>cq_method = m, cq_path = path, cq_headers = [], cq_body = []\<rparr>"

definition client_post_json :: "string \<Rightarrow> string \<Rightarrow> ClientRequest" where
  "client_post_json path body = \<lparr>cq_method = Post, cq_path = path,
     cq_headers = [(''content-type'', ''application/json'')], cq_body = body\<rparr>"

definition client_with_header :: "string \<Rightarrow> string \<Rightarrow> ClientRequest \<Rightarrow> ClientRequest" where
  "client_with_header name v rq = rq\<lparr>cq_headers := cq_headers rq @ [(name, v)]\<rparr>"

definition client_with_cookie :: "string \<Rightarrow> string \<Rightarrow> ClientRequest \<Rightarrow> ClientRequest" where
  "client_with_cookie name v = client_with_header ''cookie'' (name @ ''='' @ v)"

definition header_line :: "string \<times> string \<Rightarrow> string" where
  "header_line h = fst h @ '': '' @ snd h @ crlf"

text \<open>What \<^verbatim>\<open>exchange\<close> and \<^verbatim>\<open>send\<close> write.\<close>

definition exchange_bytes :: "string \<Rightarrow> ClientRequest \<Rightarrow> string" where
  "exchange_bytes authority rq = method_text (cq_method rq) @ '' '' @ cq_path rq @ '' HTTP/1.1'' @ crlf
     @ header_line (''host'', authority) @ concat (map header_line (cq_headers rq))
     @ header_line (''content-length'', show_nat (length (cq_body rq)))
     @ ''connection: close'' @ crlf @ crlf @ cq_body rq"

definition parse_hex :: "nat \<Rightarrow> string \<Rightarrow> nat option" where
  "parse_hex bound s = (let t = (if starts_with ''+'' s then tl s else s) in
     if t \<noteq> [] \<and> list_all (\<lambda>c. hex_value c \<noteq> None) t
     then (let n = foldl (\<lambda>n c. 16 * n + the (hex_value c)) 0 t in if n < bound then Some n else None)
     else None)"

function skip_trailers :: "string \<Rightarrow> string + string" where
  "skip_trailers s = (case read_line s of
     Inl e \<Rightarrow> Inl e
   | Inr (ln, rest) \<Rightarrow>
       if ln = crlf \<or> ln = [CHR 0x0A] \<or> ln = [] then Inr rest else skip_trailers rest)"
  by pat_completeness auto
termination
  by (relation "measure length") (auto intro: read_line_shorter)

declare skip_trailers.simps [simp del]

definition chunk_size :: "string \<Rightarrow> nat option" where
  "chunk_size ln = parse_hex (2 ^ 64) (hd (split_on (CHR '';'') (trim ln)))"

lemma read_line_le: "read_line s = Inr (ln, rest) \<Longrightarrow> length rest \<le> length s"
  using length_dropWhile_le [of "\<lambda>c. c \<noteq> CHR 0x0A" s]
  by (auto simp: read_line_def Let_def split: if_splits)

function read_chunked :: "string \<Rightarrow> string \<Rightarrow> string + string" where
  "read_chunked s body = (case read_line s of
     Inl e \<Rightarrow> Inl e
   | Inr (ln, rest) \<Rightarrow> (case chunk_size ln of
       None \<Rightarrow> Inl ''malformed chunked response''
     | Some n \<Rightarrow>
         if n = 0 then rbind (skip_trailers rest) (\<lambda>_. Inr body)
         else if length rest < n + 2 then Inl ''failed to fill whole buffer''
         else if take 2 (drop n rest) \<noteq> crlf then Inl ''malformed chunk boundary''
         else read_chunked (drop (n + 2) rest) (body @ take n rest)))"
  by pat_completeness auto
termination
  by (relation "measure (\<lambda>(s, body). length s)") (auto dest!: read_line_le)

declare read_chunked.simps [simp del]

text \<open>The header lines of a response, in the order they came, and their map.\<close>

function read_response_headers ::
  "string \<Rightarrow> (string \<times> string) list \<Rightarrow> string + (string \<times> string) list \<times> string" where
  "read_response_headers s hs = (case read_line s of
     Inl e \<Rightarrow> Inl e
   | Inr (ln, rest) \<Rightarrow>
       if ln = [] \<or> trim_line_end ln = [] then Inr (hs, rest)
       else read_response_headers rest (case split_once (CHR '':'') (trim_line_end ln) of
         Some (n, v) \<Rightarrow> hs @ [(ascii_lower (trim n), trim v)] | None \<Rightarrow> hs))"
  by pat_completeness auto
termination
  by (relation "measure (\<lambda>(s, hs). length s)") (auto intro: read_line_shorter)

declare read_response_headers.simps [simp del]

definition read_response :: "string \<Rightarrow> string + HttpResponse" where
  "read_response s =
     rbind (read_line s) (\<lambda>(ln, s).
     rbind (ok_or ''malformed status line'' (case split_whitespace ln of
         _ # code # _ \<Rightarrow> parse_unsigned (2 ^ 16) code | _ \<Rightarrow> None)) (\<lambda>status.
     rbind (read_response_headers s []) (\<lambda>(hs, s).
     let header_map = bcollect hs in
     if (case map_of header_map ''transfer-encoding'' of
           Some v \<Rightarrow> contains_str ''chunked'' (ascii_lower v) | None \<Rightarrow> False)
     then rbind (read_chunked s []) (\<lambda>body. Inr \<lparr>hp_status = status,
       hp_headers = filter (\<lambda>(n, _). n \<noteq> ''transfer-encoding'') hs, hp_body = body\<rparr>)
     else (case Option.bind (map_of header_map ''content-length'') (parse_unsigned (2 ^ 64)) of
         Some n \<Rightarrow> rbind (check (n \<le> length s) ''failed to fill whole buffer'') (\<lambda>_.
           Inr \<lparr>hp_status = status, hp_headers = hs, hp_body = take n s\<rparr>)
       | None \<Rightarrow> Inr \<lparr>hp_status = status, hp_headers = hs, hp_body = s\<rparr>))))"

text \<open>A cookie in the \<^verbatim>\<open>set-cookie\<close> headers of a response.\<close>

definition cookie_of :: "string \<Rightarrow> string \<Rightarrow> string option" where
  "cookie_of name v =
     (let pair = (case split_once (CHR '';'') v of Some (p, _) \<Rightarrow> p | None \<Rightarrow> v) in
      case split_once (CHR ''='') pair of
        Some (n, x) \<Rightarrow> if trim n = name then Some (trim x) else None | None \<Rightarrow> None)"

definition cookie_value :: "HttpResponse \<Rightarrow> string \<Rightarrow> string option" where
  "cookie_value r name = (case List.map_filter (\<lambda>(n, v). if n = ''set-cookie'' then cookie_of name v else None)
       (hp_headers r) of
     x # _ \<Rightarrow> if x \<noteq> [] then Some x else None | [] \<Rightarrow> None)"

text \<open>
  What of the network the proxy uses: an exchange of bytes with an upstream; opening a tunnel
  by sending a head and reading the head of the answer; and relaying the tunnel, which first
  passes that head to the client.
\<close>

record 'a Network =
  nw_exchange :: "ApplicationUpstream \<Rightarrow> string \<Rightarrow> 'a \<Rightarrow> (string + string) \<times> 'a"
  nw_open :: "ApplicationUpstream \<Rightarrow> string \<Rightarrow> 'a \<Rightarrow> (string + string) \<times> 'a"
  nw_relay :: "string \<Rightarrow> 'a \<Rightarrow> (string + unit) \<times> 'a"

definition send_upstream ::
  "'a Network \<Rightarrow> ApplicationUpstream \<Rightarrow> ClientRequest \<Rightarrow> ('a, string, HttpResponse) eff" where
  "send_upstream net u rq a = (case nw_exchange net u (exchange_bytes (upstream_authority u) rq) a of
     (r, a') \<Rightarrow> (rbind r read_response, a'))"

subsection \<open>The proxy\<close>

record UpstreamProxy =
  pp_upstream :: ApplicationUpstream
  pp_policy :: RoutePolicy
  pp_secret :: string

definition proxy_sign :: "string \<Rightarrow> string \<Rightarrow> string" where
  "proxy_sign secret ctx = hex16 (stable_hash (secret @ ''|'' @ ctx))"

definition proxy_verify :: "string \<Rightarrow> string \<Rightarrow> string \<Rightarrow> bool" where
  "proxy_verify secret ctx signature \<longleftrightarrow> proxy_sign secret ctx = signature"

definition injected_headers :: "UpstreamProxy \<Rightarrow> AuthContext option \<Rightarrow> (string \<times> string) list" where
  "injected_headers p x = (''x-authboundry-proxy-signature'', proxy_sign (pp_secret p) ''proxy'') #
     (case x of None \<Rightarrow> []
      | Some ctx \<Rightarrow>
          (let projection = project ctx; serialized = client_to_json projection in
           [(''x-authboundry-principal'', xc_principal_id projection),
            (''x-authboundry-principal-kind'', xc_principal_kind projection),
            (''x-authboundry-tenant'', xc_tenant_id projection),
            (''x-authboundry-claims'', join '';'' (map (\<lambda>(n, v). n @ ''='' @ v) (xc_claims projection))),
            (''x-authboundry-capabilities'', join '','' (xc_capabilities projection)),
            (''x-authboundry-signature'', proxy_sign (pp_secret p) serialized),
            (''x-authboundry-context'', serialized)]
           @ (case xc_delegation projection of
               Some d \<Rightarrow> [(''x-authboundry-delegation'', xd_id d),
                 (''x-authboundry-delegated-by'', xd_delegated_by d)]
             | None \<Rightarrow> [])))"

definition dropped_headers :: "string list" where
  "dropped_headers = [''content-length'', ''connection'', ''host'', ''if-none-match'', ''if-modified-since'',
     ''if-match'', ''if-unmodified-since'', ''if-range'']"

definition forwarded_headers :: "BoundaryRequest \<Rightarrow> (string \<times> string) list" where
  "forwarded_headers rq = filter (\<lambda>(n, _). \<not> (starts_with reserved_header_prefix n \<or> n \<in> set dropped_headers))
     (br_headers rq)"

definition forwarded :: "UpstreamProxy \<Rightarrow> BoundaryRequest \<Rightarrow> AuthContext option \<Rightarrow> ClientRequest" where
  "forwarded p rq x =
     (let base = (client_request_new (br_method rq) (forwarded_target rq))
            \<lparr>cq_headers := forwarded_headers rq @ injected_headers p x, cq_body := encode_body (br_body rq)\<rparr>
      in if cq_body base \<noteq> [] \<and> \<not> bcontains (br_headers rq) ''content-type''
         then client_with_header ''content-type'' ''application/json'' base else base)"

definition uncached :: "string \<Rightarrow> HttpResponse \<Rightarrow> HttpResponse" where
  "uncached path r = (if starts_with ''/src/'' path \<or> starts_with ''/@vite/'' path
       \<or> starts_with ''/node_modules/'' path
     then r\<lparr>hp_headers := filter (\<lambda>(n, _). n \<notin> {''etag'', ''last-modified'', ''cache-control''}) (hp_headers r)
       @ [(''cache-control'', ''no-store'')]\<rparr>
     else r)"

definition proxy_handle ::
  "'a Network \<Rightarrow> UpstreamProxy \<Rightarrow> BoundaryRequest \<Rightarrow> AuthContext option \<Rightarrow> 'a \<Rightarrow> HttpResponse \<times> 'a" where
  "proxy_handle net p rq x a = (case send_upstream net (pp_upstream p) (forwarded p rq x) a of
     (Inr r, a') \<Rightarrow> (uncached (br_path rq) r, a')
   | (Inl e, a') \<Rightarrow> (response_denied 502 ''upstream_unavailable'' e, a'))"

definition tunnel_head :: "UpstreamProxy \<Rightarrow> HttpRequest \<Rightarrow> AuthContext option \<Rightarrow> string" where
  "tunnel_head p rq x = method_text (hq_method rq) @ '' '' @ hq_target rq @ '' HTTP/1.1'' @ crlf
     @ header_line (''host'', upstream_authority (pp_upstream p))
     @ concat (map header_line (filter (\<lambda>(n, _). \<not> (starts_with reserved_header_prefix n
         \<or> n \<in> {''host'', ''content-length''})) (hq_headers rq)))
     @ concat (map header_line (injected_headers p x)) @ crlf"

definition proxy_upgrade ::
  "'a Network \<Rightarrow> UpstreamProxy \<Rightarrow> HttpRequest \<Rightarrow> AuthContext option \<Rightarrow> 'a \<Rightarrow> bool \<times> 'a" where
  "proxy_upgrade net p rq x a =
     (if au_scheme (pp_upstream p) \<noteq> SchemeHttp then (False, a)
      else case nw_open net (pp_upstream p) (tunnel_head p rq x) a of
        (Inl _, a') \<Rightarrow> (False, a')
      | (Inr answer, a') \<Rightarrow>
          if \<not> starts_with ''HTTP/1.1 101 '' answer \<and> \<not> starts_with ''HTTP/1.0 101 '' answer then (False, a')
          else case nw_relay net answer a' of (r, a'') \<Rightarrow> (\<not> isl r, a''))"

definition proxy_binding :: "'a Network \<Rightarrow> UpstreamProxy \<Rightarrow> 'a Binding" where
  "proxy_binding net p = \<lparr>bi_resolve = policy_resolve (pp_policy p), bi_handle = proxy_handle net p,
     bi_upgrade = proxy_upgrade net p, bi_observed_routes = []\<rparr>"

subsection \<open>Lines on the wire\<close>

definition unbroken :: "string \<Rightarrow> bool" where
  "unbroken s \<longleftrightarrow> ascii s \<and> CHR 0x0A \<notin> set s \<and> CHR 0x0D \<notin> set s"

text \<open>A value that starts and ends with a printable character, or is empty.\<close>

definition header_value_ok :: "string \<Rightarrow> bool" where
  "header_value_ok v \<longleftrightarrow> unbroken v \<and> (v = [] \<or> plain (hd v) \<and> plain (last v))"

definition header_name_ok :: "string \<Rightarrow> bool" where
  "header_name_ok n \<longleftrightarrow> n \<noteq> [] \<and> list_all plain n \<and> CHR '':'' \<notin> set n \<and> ascii_lower n = n"

definition headers_ok :: "(string \<times> string) list \<Rightarrow> bool" where
  "headers_ok hs \<longleftrightarrow> list_all (\<lambda>(n, v). header_name_ok n \<and> header_value_ok v) hs"

lemma headers_ok_simps [simp]:
  "headers_ok []" "headers_ok ((n, v) # hs) \<longleftrightarrow> header_name_ok n \<and> header_value_ok v \<and> headers_ok hs"
  "headers_ok (hs @ hs') \<longleftrightarrow> headers_ok hs \<and> headers_ok hs'"
  by (simp_all add: headers_ok_def)

lemma unbroken_append [simp]: "unbroken (a @ b) \<longleftrightarrow> unbroken a \<and> unbroken b"
  by (auto simp: unbroken_def ascii_def)

lemma unbroken_plain: "list_all plain s \<Longrightarrow> unbroken s"
  by (auto simp: unbroken_def ascii_def plain_def list_all_iff)

lemma read_unbroken: "unbroken l \<Longrightarrow> read_line (l @ crlf @ s) = Inr (l @ crlf, s)"
proof -
  assume l: "unbroken l"
  have "takeWhile (\<lambda>c. c \<noteq> CHR 0x0A) (l @ CHR 0x0D # CHR 0x0A # s) = l @ [CHR 0x0D]"
    "dropWhile (\<lambda>c. c \<noteq> CHR 0x0A) (l @ CHR 0x0D # CHR 0x0A # s) = CHR 0x0A # s"
    using l by (subst takeWhile_append2 dropWhile_append2, auto simp: unbroken_def)+
  moreover have "utf8_valid (l @ [CHR 0x0D, CHR 0x0A])"
    using l by (intro utf8_valid_ascii) (auto simp: unbroken_def ascii_def)
  ultimately show ?thesis by (simp add: read_line_def crlf_def)
qed

lemma trim_line_end_unbroken: "unbroken l \<Longrightarrow> trim_line_end (l @ crlf) = l"
proof -
  assume l: "unbroken l"
  have "dropWhile (\<lambda>c. c = CHR 0x0D \<or> c = CHR 0x0A) (rev l) = rev l"
  proof (cases "rev l")
    case (Cons c cs)
    then have "c \<in> set l" by (metis list.set_intros(1) set_rev)
    then show ?thesis using l Cons by (auto simp: unbroken_def)
  qed simp
  then show ?thesis by (simp add: trim_line_end_def crlf_def)
qed

lemma trim_blank: "trim '' '' = []"
proof -
  have "find (\<lambda>w. w \<noteq> [] \<and> starts_with w '' '') white_space = Some '' ''"
    by (simp add: white_space_def starts_with_def)
  then have "strip_seqs white_space '' '' = []" by (subst strip_seqs.simps) simp
  then show ?thesis by (simp add: trim_def)
qed

lemma trim_value: "header_value_ok v \<Longrightarrow> trim ('' '' @ v) = v"
  using trim_padded [of v 1 0] by (cases "v = []") (auto simp: header_value_ok_def trim_blank)

lemma trim_name: "header_name_ok n \<Longrightarrow> trim n = n"
  using trim_plain [of n] by (auto simp: header_name_ok_def list_all_iff)

lemma header_line_parts:
  assumes "header_name_ok n" "header_value_ok v"
  shows "header_line (n, v) = (n @ '': '' @ v) @ crlf" "unbroken (n @ '': '' @ v)" "n @ '': '' @ v \<noteq> []"
    "split_once (CHR '':'') (n @ '': '' @ v) = Some (n, '' '' @ v)"
    "ascii_lower (trim n) = n" "trim ('' '' @ v) = v"
  using assms unbroken_plain [of n]
  by (simp_all add: header_line_def trim_name trim_value [simplified],
      simp_all add: header_value_ok_def header_name_ok_def unbroken_def)

lemma read_header_line:
  assumes "header_name_ok n" "header_value_ok v"
  shows "read_line (header_line (n, v) @ s) = Inr ((n @ '': '' @ v) @ crlf, s)"
    "trim_line_end ((n @ '': '' @ v) @ crlf) = n @ '': '' @ v"
  using read_unbroken [of "n @ '': '' @ v" s] trim_line_end_unbroken [of "n @ '': '' @ v"]
    header_line_parts [OF assms] by simp_all

lemma read_headers_written:
  "headers_ok hs \<Longrightarrow> read_headers (concat (map header_line hs) @ crlf @ s) m
     = Inr (fold (\<lambda>(n, v). binsert n v) hs m, s)"
proof (induction hs arbitrary: m)
  case Nil
  show ?case using read_unbroken [of "[]" s] trim_line_end_unbroken [of "[]"]
    by (subst read_headers.simps) (simp add: unbroken_def crlf_def)
next
  case (Cons h hs)
  obtain n v where h: "h = (n, v)" by (cases h)
  then have ok: "header_name_ok n" "header_value_ok v" "headers_ok hs" using Cons.prems by simp_all
  note parts = header_line_parts [OF ok(1,2)] and lines = read_header_line [OF ok(1,2)]
  have "read_headers (header_line (n, v) @ concat (map header_line hs) @ crlf @ s) m
    = read_headers (concat (map header_line hs) @ crlf @ s) (add_header (n @ '': '' @ v) m)"
    using parts(3) by (subst read_headers.simps) (simp only: lines sum.case prod.case append_is_Nil_conv if_False simp_thms)
  moreover have "add_header (n @ '': '' @ v) m = binsert n v m"
    by (simp only: add_header_def parts(4-6) option.case prod.case)
  ultimately show ?case using Cons.IH [OF ok(3)] by (simp add: h)
qed

text \<open>
  The client takes any name of printable ASCII characters without a colon, in lower case, and any
  ASCII value without a line break, trimmed.
\<close>

definition header_sendable :: "string \<Rightarrow> string \<Rightarrow> bool" where
  "header_sendable n v \<longleftrightarrow> n \<noteq> [] \<and> list_all plain n \<and> CHR '':'' \<notin> set n \<and> unbroken v"

definition header_as_read :: "string \<times> string \<Rightarrow> string \<times> string" where
  "header_as_read h = (ascii_lower (fst h), trim (snd h))"

lemma trim_spaced: "trim (CHR '' '' # v) = trim v"
proof -
  have "[CHR 0x20] \<in> set white_space" by (simp add: white_space_def)
  moreover have "w \<noteq> [] \<and> (hd w = CHR 0x20 \<longrightarrow> w = [CHR 0x20])" if "w \<in> set white_space" for w
    using that by (auto simp: white_space_def)
  ultimately have "strip_seqs white_space (replicate 1 (CHR 0x20) @ v) = strip_seqs white_space v"
    by (rule strip_seqs_space)
  then show ?thesis by (simp add: trim_def)
qed

lemma headers_ok_sendable: "headers_ok hs \<Longrightarrow> list_all (\<lambda>(n, v). header_sendable n v) hs"
  by (auto simp: headers_ok_def list_all_iff header_name_ok_def header_value_ok_def header_sendable_def)

lemma headers_ok_as_read: "headers_ok hs \<Longrightarrow> map header_as_read hs = hs"
  using trim_value by (force simp: headers_ok_def list_all_iff header_name_ok_def header_as_read_def trim_spaced
      intro: map_idI)

lemma read_response_headers_written:
  "list_all (\<lambda>(n, v). header_sendable n v) hs \<Longrightarrow>
     read_response_headers (concat (map header_line hs) @ crlf @ s) acc = Inr (acc @ map header_as_read hs, s)"
proof (induction hs arbitrary: acc)
  case Nil
  show ?case using read_unbroken [of "[]" s] trim_line_end_unbroken [of "[]"]
    by (subst read_response_headers.simps) (simp add: unbroken_def crlf_def)
next
  case (Cons h hs)
  obtain n v where h: "h = (n, v)" by (cases h)
  then have ok: "n \<noteq> []" "list_all plain n" "CHR '':'' \<notin> set n" "unbroken v"
    using Cons.prems by (simp_all add: header_sendable_def)
  have line: "header_line (n, v) = (n @ '': '' @ v) @ crlf" by (simp add: header_line_def)
  have colon: "unbroken '': ''" by code_simp
  have u: "unbroken (n @ '': '' @ v)"
    using ok(4) unbroken_plain [OF ok(2)] colon unfolding unbroken_append by blast
  have split: "split_once (CHR '':'') (n @ '': '' @ v) = Some (n, '' '' @ v)"
    using split_once_append [of "CHR '':''" n "'' '' @ v"] ok(3) by simp
  have name: "trim n = n" using trim_plain [of n] ok(1,2) by (auto simp: list_all_iff)
  define l where "l = n @ '': '' @ v"
  have l: "l \<noteq> []" "split_once (CHR '':'') l = Some (n, '' '' @ v)" "trim_line_end (l @ crlf) = l"
    "read_line (l @ crlf @ t) = Inr (l @ crlf, t)" for t
    using ok(1) split trim_line_end_unbroken [OF u] read_unbroken [OF u] by (simp_all only: l_def append_is_Nil_conv simp_thms)
  have "read_response_headers (header_line (n, v) @ concat (map header_line hs) @ crlf @ s) acc
    = read_response_headers (concat (map header_line hs) @ crlf @ s) (acc @ [header_as_read (n, v)])"
    unfolding line l_def [symmetric] append_assoc
    by (subst read_response_headers.simps) (simp add: l name header_as_read_def trim_spaced)
  then show ?case using Cons by (simp add: h)
qed

lemma show_nat_plain: "list_all plain (show_nat n)"
  using show_nat_digits [of _ n] by (fastforce simp: list_all_iff plain_def)

lemma header_value_plain: "list_all plain v \<Longrightarrow> header_value_ok v"
  using unbroken_plain [of v] by (auto simp: header_value_ok_def list_all_iff)

lemma parse_unsigned_show: "n < bound \<Longrightarrow> parse_unsigned bound (show_nat n) = Some n"
proof -
  have "\<not> starts_with ''+'' (show_nat n)"
    using hd_show_nat [of n] by (cases "show_nat n") (auto simp: starts_with_def is_digit_def)
  then show "n < bound \<Longrightarrow> parse_unsigned bound (show_nat n) = Some n" by (simp add: parse_unsigned_def)
qed

lemma map_of_bcollect: "map_of (bcollect es) = map_of (rev es)"
  by (simp add: bcollect_def map_of_fold_binsert)

lemma method_text_plain: "method_text m \<noteq> []" "list_all plain (method_text m)" "method_parse (method_text m) = Some m"
  by (cases m; hypsubst; code_simp)+

text \<open>The first two words of a line.\<close>

lemma two_words:
  assumes "a \<noteq> []" "list_all plain a" "b \<noteq> []" "list_all plain b" "ascii c"
  shows "\<exists>ws. split_whitespace (a @ '' '' @ b @ '' '' @ c) = a # b # ws"
proof -
  have "ascii (a @ '' '' @ b @ '' '' @ c)"
    using assms unbroken_plain [of a] unbroken_plain [of b] by (auto simp: unbroken_def ascii_def)
  then have u: "utf8_chars (a @ '' '' @ b @ '' '' @ c) = chs a @ '' '' # chs b @ '' '' # chs c"
    by (simp add: utf8_chars_chs)
  have sp: "'' '' \<in> set white_space" by (simp add: white_space_def)
  show ?thesis
    unfolding split_whitespace_def u words_word [OF assms(1,2) sp] words_word [OF assms(3,4) sp] by blast
qed

lemma head_line: "headers_ok [(''host'', a)] \<longleftrightarrow> header_value_ok a" "headers_ok [(''content-length'', a)] \<longleftrightarrow> header_value_ok a"
  "headers_ok [(''connection'', ''close'')]"
proof -
  have "header_name_ok ''host''" "header_name_ok ''content-length''" "header_name_ok ''connection''"
    "header_value_ok ''close''" by code_simp+
  then show "headers_ok [(''host'', a)] \<longleftrightarrow> header_value_ok a"
    "headers_ok [(''content-length'', a)] \<longleftrightarrow> header_value_ok a" "headers_ok [(''connection'', ''close'')]"
    by simp_all
qed

definition sent_headers :: "string \<Rightarrow> ClientRequest \<Rightarrow> (string \<times> string) list" where
  "sent_headers authority rq = [(''host'', authority)] @ cq_headers rq
     @ [(''content-length'', show_nat (length (cq_body rq)))] @ [(''connection'', ''close'')]"

lemma exchange_bytes_lines:
  "exchange_bytes authority rq = (method_text (cq_method rq) @ '' '' @ cq_path rq @ '' HTTP/1.1'') @ crlf
     @ concat (map header_line (sent_headers authority rq)) @ crlf @ cq_body rq"
  by (simp add: exchange_bytes_def sent_headers_def header_line_def)

text \<open>A request as a server of this library reads it: what was sent, and the framing.\<close>

lemma read_exchanged:
  assumes "header_value_ok authority" "headers_ok (cq_headers rq)" "cq_path rq \<noteq> []" "list_all plain (cq_path rq)"
    "length (cq_body rq) \<le> 2 ^ 20"
  shows "read_from (exchange_bytes authority rq) = Inr (assemble (cq_method rq) (cq_path rq)
    (bcollect (sent_headers authority rq)) (cq_body rq))"
proof -
  let ?l = "method_text (cq_method rq) @ '' '' @ cq_path rq @ '' HTTP/1.1''"
  have hs: "headers_ok (sent_headers authority rq)"
    using assms(1,2) header_value_plain [OF show_nat_plain] head_line(3)
    unfolding sent_headers_def headers_ok_simps(3) head_line by blast
  have "unbroken '' HTTP/1.1''" "unbroken '' ''" by code_simp+
  then have l: "unbroken ?l"
    using assms(4) method_text_plain(2) by (simp only: unbroken_append unbroken_plain simp_thms)
  obtain ws where ws: "split_whitespace (?l @ crlf) = method_text (cq_method rq) # cq_path rq # ws"
    using two_words [OF method_text_plain(1,2) assms(3,4), of "''HTTP/1.1'' @ crlf" "cq_method rq"]
    by (auto simp: crlf_def)
  have "map_of (bcollect (sent_headers authority rq)) ''content-length'' = Some (show_nat (length (cq_body rq)))"
    by (simp add: map_of_bcollect sent_headers_def)
  then have n: "content_length (bcollect (sent_headers authority rq)) = length (cq_body rq)"
    using assms(5) by (simp add: content_length_def parse_unsigned_show max_body_bytes_def)
  have "read_line (exchange_bytes authority rq)
    = Inr (?l @ crlf, concat (map header_line (sent_headers authority rq)) @ crlf @ cq_body rq)"
    unfolding exchange_bytes_lines by (rule read_unbroken [OF l])
  moreover have "?l @ crlf \<noteq> []" by (simp add: crlf_def)
  ultimately show ?thesis
    unfolding read_from_def
    by (simp only: rbind_simps prod.case check_def if_True simp_thms ws list.case method_text_plain(3) ok_or_simps
        read_headers_written [OF hs] Let_def n bcollect_def [symmetric] take_append)
      (simp add: n)
qed

definition response_headers :: "HttpResponse \<Rightarrow> (string \<times> string) list" where
  "response_headers r = filter (\<lambda>(n, _). ascii_lower n \<notin> set connection_headers) (hp_headers r)
     @ [(''content-length'', show_nat (length (hp_body r)))] @ [(''connection'', ''close'')]"

lemma write_to_lines:
  "write_to r = (''HTTP/1.1 '' @ show_nat (hp_status r) @ '' '' @ reason_phrase (hp_status r)) @ crlf
     @ concat (map header_line (response_headers r)) @ crlf @ hp_body r"
proof -
  have "header_line = (\<lambda>(n, v). n @ '': '' @ v @ crlf)"
    by (simp add: header_line_def fun_eq_iff)
  then show ?thesis by (simp add: write_to_def response_headers_def) (simp add: header_line_def)
qed

text \<open>
  C30. A response survives the connection, when its status and the length of its body fit the 16
  and 64 bits they are read into, the names of its headers are printable ASCII without a colon
  and their values ASCII without a line break: what the server of this library writes,
  its client reads back with the same status and body, and with the headers in their order, their
  names in lower case and their values without the white space around them; the framing headers
  are replaced by the length of the body and the closing of the connection. Headers that have
  lower case names and no white space around their values are read back as they were given.
\<close>

theorem response_roundtrip:
  assumes "list_all (\<lambda>(n, v). header_sendable n v) (hp_headers r)" "hp_status r < 2 ^ 16" "length (hp_body r) < 2 ^ 64"
  shows "read_response (write_to r) = Inr (r\<lparr>hp_headers := map header_as_read (response_headers r)\<rparr>)
    \<and> (headers_ok (hp_headers r) \<longrightarrow> read_response (write_to r) = Inr (r\<lparr>hp_headers := response_headers r\<rparr>))"
proof -
  let ?l = "''HTTP/1.1 '' @ show_nat (hp_status r) @ '' '' @ reason_phrase (hp_status r)"
  define ended where "ended = [(''content-length'', show_nat (length (hp_body r)))] @ [(''connection'', ''close'')]"
  have ended: "headers_ok ended"
    using header_value_plain [OF show_nat_plain] head_line(3) unfolding ended_def headers_ok_simps(3) head_line by blast
  have hs: "list_all (\<lambda>(n, v). header_sendable n v) (response_headers r)"
    using assms(1) headers_ok_sendable [OF ended]
    by (simp add: response_headers_def ended_def list_all_iff)
  have as_given: "map header_as_read (response_headers r) = response_headers r" if "headers_ok (hp_headers r)"
    using that ended by (intro headers_ok_as_read) (simp add: response_headers_def ended_def headers_ok_def list_all_iff)
  have u: "unbroken ''HTTP/1.1 ''" "unbroken '' ''" "unbroken (reason_phrase n)" for n
    by (code_simp, code_simp, simp add: reason_phrase_def unbroken_def)
  then have l: "unbroken ?l"
    using show_nat_plain by (simp only: unbroken_append unbroken_plain simp_thms)
  have "list_all plain ''HTTP/1.1''" "ascii crlf" by code_simp+
  then obtain ws where ws: "split_whitespace (?l @ crlf) = ''HTTP/1.1'' # show_nat (hp_status r) # ws"
    using two_words [of "''HTTP/1.1''" "show_nat (hp_status r)" "reason_phrase (hp_status r) @ crlf"]
      show_nat_plain u(3) [of "hp_status r"] by (auto simp: unbroken_def ascii_def)
  have read: "map header_as_read (response_headers r)
      = map header_as_read (filter (\<lambda>(n, _). ascii_lower n \<notin> set connection_headers) (hp_headers r)) @ ended"
    using headers_ok_as_read [OF ended] by (simp add: response_headers_def ended_def)
  have "''transfer-encoding'' \<in> set connection_headers" by code_simp
  then have te: "map_of (bcollect (map header_as_read (response_headers r))) ''transfer-encoding'' = None"
    unfolding read by (auto simp: map_of_bcollect map_of_eq_None_iff header_as_read_def ended_def)
  have cl: "map_of (bcollect (map header_as_read (response_headers r))) ''content-length''
      = Some (show_nat (length (hp_body r)))"
    unfolding read by (simp add: map_of_bcollect ended_def)
  have "read_line (write_to r) = Inr (?l @ crlf, concat (map header_line (response_headers r)) @ crlf @ hp_body r)"
    unfolding write_to_lines by (rule read_unbroken [OF l])
  then have "read_response (write_to r) = Inr (r\<lparr>hp_headers := map header_as_read (response_headers r)\<rparr>)"
    unfolding read_response_def
    using parse_unsigned_show [OF assms(2)] parse_unsigned_show [OF assms(3)]
    by (simp add: ws read_response_headers_written [OF hs] te cl check_def Let_def del: append_Cons append_assoc)
  with as_given show ?thesis by simp
qed

theorem response_roundtrip_witness:
  "read_response (write_to (response_with_header ''X-Request-Id'' ''r1'' (response_json 200 ''{}'')))
   = Inr ((response_json 200 ''{}'')\<lparr>hp_headers := [(''content-type'', ''application/json''),
       (''x-request-id'', ''r1''), (''content-length'', ''2''), (''connection'', ''close'')]\<rparr>)
   \<and> read_response (write_to (with_session_cookie ''v1.acme.s1'' (response_json 200 ''{}'')))
   = Inr ((response_json 200 ''{}'')\<lparr>hp_headers := [(''content-type'', ''application/json''),
       (''set-cookie'', ''authboundry_session=v1.acme.s1; Path=/; HttpOnly; SameSite=Lax''),
       (''content-length'', ''2''), (''connection'', ''close'')]\<rparr>)"
proof -
  let ?q = "response_with_header ''X-Request-Id'' ''r1'' (response_json 200 ''{}'')"
    and ?r = "with_session_cookie ''v1.acme.s1'' (response_json 200 ''{}'')"
  have q: "list_all (\<lambda>(n, v). header_sendable n v) (hp_headers ?q)" "hp_status ?q < 2 ^ 16" "length (hp_body ?q) < 2 ^ 64"
    by (code_simp, simp_all add: response_with_header_def response_json_def response_new_def)
  have as_read: "map (\<lambda>(n, v). (ascii_lower n, v)) (response_headers ?q) = [(''content-type'', ''application/json''),
       (''x-request-id'', ''r1''), (''content-length'', ''2''), (''connection'', ''close'')]" by code_simp
  have plain: "trim v = v" if "v \<noteq> []" "list_all plain v" for v using that trim_plain [of v] by (auto simp: list_all_iff)
  have "list_all (\<lambda>(n, v). v \<noteq> [] \<and> list_all plain v) (response_headers ?q)" by code_simp
  then have "map header_as_read (response_headers ?q) = map (\<lambda>(n, v). (ascii_lower n, v)) (response_headers ?q)"
    by (auto simp: header_as_read_def list_all_iff plain)
  then have 1: "read_response (write_to ?q) = Inr (?q\<lparr>hp_headers := [(''content-type'', ''application/json''),
       (''x-request-id'', ''r1''), (''content-length'', ''2''), (''connection'', ''close'')]\<rparr>)"
    using response_roundtrip [OF q] unfolding as_read by simp
  have r: "headers_ok (hp_headers ?r)" "hp_status ?r < 2 ^ 16" "length (hp_body ?r) < 2 ^ 64"
    by (code_simp, simp_all add: with_session_cookie_def response_with_header_def response_json_def response_new_def)
  have given: "response_headers ?r = [(''content-type'', ''application/json''),
       (''set-cookie'', ''authboundry_session=v1.acme.s1; Path=/; HttpOnly; SameSite=Lax''),
       (''content-length'', ''2''), (''connection'', ''close'')]" by code_simp
  have 2: "read_response (write_to ?r) = Inr (?r\<lparr>hp_headers := [(''content-type'', ''application/json''),
       (''set-cookie'', ''authboundry_session=v1.acme.s1; Path=/; HttpOnly; SameSite=Lax''),
       (''content-length'', ''2''), (''connection'', ''close'')]\<rparr>)"
    using response_roundtrip [OF headers_ok_sendable [OF r(1)] r(2,3)] r(1) unfolding given by blast
  with 1 2 show ?thesis by (simp add: with_session_cookie_def response_with_header_def)
qed

subsection \<open>What the application behind the proxy reads\<close>

lemma plain_join: "\<forall>p \<in> set ps. list_all plain p \<Longrightarrow> list_all plain sep \<Longrightarrow> list_all plain (join sep ps)"
  by (induction sep ps rule: join.induct) auto

lemma plain_encode: "list_all plain (percent_encode s)"
proof -
  have "plain c" if "url_safe c" for c
    using that by (auto simp: url_safe_def is_alphanumeric_def is_upper_def is_lower_def is_digit_def plain_def)
  moreover have "plain (CHR ''%'')" by (simp add: plain_def)
  ultimately show ?thesis using encode_safe by (fastforce simp: list_all_iff)
qed

lemma plain_target: "list_all plain (br_path rq) \<Longrightarrow> list_all plain (forwarded_target rq)"
proof -
  have "list_all plain ''=''" "list_all plain ''&''" "list_all plain ''?''" by code_simp+
  then show "list_all plain (br_path rq) \<Longrightarrow> list_all plain (forwarded_target rq)"
    by (auto simp: forwarded_target_def plain_encode intro!: plain_join)
qed

text \<open>
  What is asked of a request and a context: ASCII, no line breaks in header values, a path of
  printable characters, and a body that fits.
\<close>

definition forwardable :: "UpstreamProxy \<Rightarrow> BoundaryRequest \<Rightarrow> AuthContext option \<Rightarrow> bool" where
  "forwardable p rq x \<longleftrightarrow> header_value_ok (upstream_authority (pp_upstream p))
     \<and> bwf (br_headers rq) \<and> headers_ok (br_headers rq) \<and> headers_ok (injected_headers p x)
     \<and> br_path rq \<noteq> [] \<and> list_all plain (br_path rq) \<and> CHR ''?'' \<notin> set (br_path rq)
     \<and> bwf (br_query rq) \<and> pairs_valid (br_query rq)
     \<and> bwf (br_body rq) \<and> list_all (\<lambda>(n, v). ascii n \<and> ascii v) (br_body rq)
     \<and> length (encode_body (br_body rq)) \<le> 2 ^ 20"

lemma forwarded_fields [simp]:
  "cq_method (forwarded p rq x) = br_method rq" "cq_path (forwarded p rq x) = forwarded_target rq"
  "cq_body (forwarded p rq x) = encode_body (br_body rq)"
  by (simp_all add: forwarded_def client_request_new_def client_with_header_def Let_def)

definition default_content_type :: "BoundaryRequest \<Rightarrow> (string \<times> string) list" where
  "default_content_type rq = (if encode_body (br_body rq) \<noteq> [] \<and> \<not> bcontains (br_headers rq) ''content-type''
     then [(''content-type'', ''application/json'')] else [])"

lemma forwarded_cq_headers:
  "cq_headers (forwarded p rq x) = forwarded_headers rq @ injected_headers p x @ default_content_type rq"
  by (simp add: forwarded_def default_content_type_def client_request_new_def client_with_header_def Let_def)

lemma reserved_names:
  "(n, v) \<in> set (injected_headers p x) \<Longrightarrow> starts_with reserved_header_prefix n"
  "distinct (map fst (injected_headers p x))"
proof -
  have r: "starts_with reserved_header_prefix ''x-authboundry-proxy-signature''"
    "starts_with reserved_header_prefix ''x-authboundry-principal''"
    "starts_with reserved_header_prefix ''x-authboundry-principal-kind''"
    "starts_with reserved_header_prefix ''x-authboundry-tenant''"
    "starts_with reserved_header_prefix ''x-authboundry-claims''"
    "starts_with reserved_header_prefix ''x-authboundry-capabilities''"
    "starts_with reserved_header_prefix ''x-authboundry-signature''"
    "starts_with reserved_header_prefix ''x-authboundry-context''"
    "starts_with reserved_header_prefix ''x-authboundry-delegation''"
    "starts_with reserved_header_prefix ''x-authboundry-delegated-by''" by code_simp+
  show "(n, v) \<in> set (injected_headers p x) \<Longrightarrow> starts_with reserved_header_prefix n"
    using r by (auto simp: injected_headers_def Let_def split: option.splits)
  show "distinct (map fst (injected_headers p x))"
    by (auto simp: injected_headers_def Let_def split: option.split)
qed

lemma map_of_rev: "distinct (map fst es) \<Longrightarrow> map_of (rev es) = map_of es"
  by (rule map_of_inject_set [THEN iffD2]) (simp_all add: rev_map [symmetric])

text \<open>For a reserved name, what arrives is what was injected.\<close>

lemma sent_reserved:
  assumes "starts_with reserved_header_prefix n"
  shows "map_of (bcollect (sent_headers a (forwarded p rq x))) n = map_of (injected_headers p x) n"
proof -
  have "\<not> starts_with reserved_header_prefix ''host''" "\<not> starts_with reserved_header_prefix ''content-length''"
    "\<not> starts_with reserved_header_prefix ''connection''" "\<not> starts_with reserved_header_prefix ''content-type''"
    by code_simp+
  then have ne: "n \<noteq> ''host''" "n \<noteq> ''content-length''" "n \<noteq> ''connection''" "n \<noteq> ''content-type''"
    using assms by blast+
  have "n \<notin> fst ` set (forwarded_headers rq)" "n \<notin> fst ` set (default_content_type rq)"
    using assms ne by (auto simp: forwarded_headers_def default_content_type_def)
  then have "map_of (rev (forwarded_headers rq)) n = None" "map_of (rev (default_content_type rq)) n = None"
    by (simp_all add: map_of_eq_None_iff)
  then show ?thesis
    using ne by (simp add: map_of_bcollect sent_headers_def forwarded_cq_headers map_add_def
      map_of_rev [OF reserved_names(2)] split: option.split)
qed

lemma map_of_filter_names: "P k \<Longrightarrow> map_of (filter (\<lambda>(n, _). P n) m) k = map_of m k"
  by (induction m) auto

lemma sent_content_type:
  assumes "bwf (br_headers rq)"
  shows "map_of (bcollect (sent_headers a (forwarded p rq x))) ''content-type''
    = (case map_of (br_headers rq) ''content-type'' of Some v \<Rightarrow> Some v
       | None \<Rightarrow> if encode_body (br_body rq) \<noteq> [] then Some ''application/json'' else None)"
proof -
  have k: "\<not> (starts_with reserved_header_prefix ''content-type'' \<or> ''content-type'' \<in> set dropped_headers)"
    by code_simp
  have "distinct (map fst (forwarded_headers rq))"
    using bwf_distinct [OF assms] by (simp add: forwarded_headers_def distinct_map_filter)
  then have "map_of (rev (forwarded_headers rq)) = map_of (forwarded_headers rq)" by (rule map_of_rev)
  moreover have "map_of (forwarded_headers rq) ''content-type'' = map_of (br_headers rq) ''content-type''"
    using map_of_filter_names [of "\<lambda>n. \<not> (starts_with reserved_header_prefix n \<or> n \<in> set dropped_headers)", OF k]
    by (simp only: forwarded_headers_def)
  moreover have "map_of (rev (injected_headers p x)) ''content-type'' = None"
  proof -
    have "''content-type'' \<notin> fst ` set (injected_headers p x)" using k by (auto dest: reserved_names(1))
    then show ?thesis by (simp add: map_of_eq_None_iff)
  qed
  ultimately show ?thesis
    by (simp add: map_of_bcollect sent_headers_def forwarded_cq_headers map_add_def default_content_type_def
      split: option.split)
qed

lemma http_quoted_ascii: "ascii s \<Longrightarrow> ascii (http_quoted s)"
  using http_escape_ascii [of s] by (simp add: http_quoted_def)

lemma encode_body_ascii:
  assumes "list_all (\<lambda>(n, v). ascii n \<and> ascii v) m"
  shows "ascii (encode_body m)"
proof -
  have "ascii (join '', '' (map (\<lambda>(n, v). http_quoted n @ '': '' @ http_quoted v) m))"
    using assms by (intro join_ascii) (auto simp: list_all_iff http_quoted_ascii)
  then show ?thesis by (simp add: encode_body_def)
qed

lemma encode_body_Nil: "encode_body m = [] \<longleftrightarrow> m = []"
  by (simp add: encode_body_def)

lemma forwarded_body_reads_back:
  assumes "bwf (br_body rq)" "list_all (\<lambda>(n, v). ascii n \<and> ascii v) (br_body rq)" "bwf (br_headers rq)"
    "case map_of (br_headers rq) ''content-type'' of Some v \<Rightarrow> contains_str ''json'' v | None \<Rightarrow> True"
  shows "parsed_body (assemble m target (bcollect (sent_headers a (forwarded p rq x))) (encode_body (br_body rq)))
    = br_body rq"
proof -
  have low: "ascii_lower ''content-type'' = ''content-type''" and json: "contains_str ''json'' ''application/json''"
    and blank: "\<not> contains_str ''json'' []" "\<not> contains_str ''form-urlencoded'' []"
      by code_simp+
  have empty: "\<not> starts_with ''{'' (trim_start [])" "parse_form [] = []"
    by (simp_all add: trim_start_def starts_with_def parse_form_def bcollect_def List.map_filter_simps)
  have u: "utf8_lossy (encode_body (br_body rq)) = encode_body (br_body rq)"
    using encode_body_ascii [OF assms(2)] by (simp add: utf8_lossy_valid utf8_valid_ascii)
  have ct: "http_header ''content-type'' (assemble m target (bcollect (sent_headers a (forwarded p rq x))) b)
    = (case map_of (br_headers rq) ''content-type'' of Some v \<Rightarrow> Some v
       | None \<Rightarrow> if encode_body (br_body rq) \<noteq> [] then Some ''application/json'' else None)" for b
    by (simp add: http_header_def low assemble_def sent_content_type [OF assms(3)])
  have bd: "hq_body (assemble m target hs b) = b" for hs b by (simp add: assemble_def)
  show ?thesis
  proof (cases "map_of (br_headers rq) ''content-type'' = None \<and> encode_body (br_body rq) = []")
    case True
    then show ?thesis using u blank empty
      by (simp add: parsed_body_def ct bd Let_def encode_body_def split: if_splits)
  next
    case False
    then show ?thesis using assms(4) json u parse_encoded_body [OF assms(1,2)]
      by (auto simp: parsed_body_def ct bd Let_def split: option.splits)
  qed
qed

text \<open>
  C6. Behind the proxy the application reads what the boundary let through and derived. The bytes
  written to it parse, with the reader of this library, as a request with the same method, path
  and query; under each reserved header name it finds exactly what the proxy injected for the
  resolved context, the principal and the tenant of the context among them, and never a reserved
  header of the client's. Where the request says no content type or one of JSON, it also reads
  the same fields of the body; the fields of a form are lost. This is for requests that can be
  written in this form: header names in lower case, printable and without a colon; header values,
  of the client's and the injected headers and the upstream's own name, that are ASCII without line
  breaks and without white space at the ends; a path that is not empty, of printable ASCII
  characters without a question mark; a query of UTF-8 texts; fields of the body in ASCII, and no
  more than a megabyte of them as JSON.
\<close>

theorem application_reads_what_the_boundary_derived:
  assumes "forwardable p rq (Some x)"
  shows "\<exists>hq. read_from (exchange_bytes (upstream_authority (pp_upstream p)) (forwarded p rq (Some x))) = Inr hq
    \<and> hq_method hq = br_method rq \<and> hq_path hq = br_path rq \<and> hq_query hq = br_query rq
    \<and> ((case map_of (br_headers rq) ''content-type'' of Some v \<Rightarrow> contains_str ''json'' v | None \<Rightarrow> True)
        \<longrightarrow> parsed_body hq = br_body rq)
    \<and> (\<forall>n. starts_with reserved_header_prefix n \<longrightarrow> map_of (hq_headers hq) n = map_of (injected_headers p (Some x)) n)
    \<and> map_of (hq_headers hq) ''x-authboundry-principal'' = Some (p_id (ax_principal x))
    \<and> map_of (hq_headers hq) ''x-authboundry-tenant'' = Some (t_id (ax_tenant x))"
proof -
  let ?a = "upstream_authority (pp_upstream p)" and ?f = "forwarded p rq (Some x)"
  note f = assms(1) [unfolded forwardable_def]
  define hq where "hq = assemble (br_method rq) (forwarded_target rq) (bcollect (sent_headers ?a ?f)) (encode_body (br_body rq))"
  have names: "header_name_ok ''content-type''" "header_value_ok ''application/json''" by code_simp+
  have "headers_ok (forwarded_headers rq)"
    using f by (auto simp: forwarded_headers_def headers_ok_def list_all_iff)
  then have "headers_ok (cq_headers ?f)"
    using f names by (simp add: forwarded_cq_headers default_content_type_def)
  moreover have "forwarded_target rq \<noteq> []" using f by (simp add: forwarded_target_def)
  ultimately have read: "read_from (exchange_bytes ?a ?f) = Inr hq"
    using f read_exchanged [of ?a ?f] by (simp add: plain_target hq_def)
  have "split_target (forwarded_target rq) = (br_path rq, br_query rq)"
    using f by (intro split_forwarded_target) simp_all
  then have "hq_method hq = br_method rq" "hq_path hq = br_path rq" "hq_query hq = br_query rq"
    by (simp_all add: hq_def assemble_def)
  moreover have "parsed_body hq = br_body rq"
    if "case map_of (br_headers rq) ''content-type'' of Some v \<Rightarrow> contains_str ''json'' v | None \<Rightarrow> True"
    unfolding hq_def using f that by (intro forwarded_body_reads_back) simp_all
  moreover have res: "starts_with reserved_header_prefix n \<Longrightarrow> map_of (hq_headers hq) n = map_of (injected_headers p (Some x)) n" for n
    using sent_reserved by (simp add: hq_def assemble_def)
  moreover have "map_of (injected_headers p (Some x)) ''x-authboundry-principal'' = Some (p_id (ax_principal x))"
    "map_of (injected_headers p (Some x)) ''x-authboundry-tenant'' = Some (t_id (ax_tenant x))"
    by (simp_all add: injected_headers_def Let_def project_def)
  moreover have "starts_with reserved_header_prefix ''x-authboundry-principal''"
    "starts_with reserved_header_prefix ''x-authboundry-tenant''" by code_simp+
  ultimately show ?thesis using read by auto
qed

definition sample_proxy :: UpstreamProxy where
  "sample_proxy = \<lparr>pp_upstream = \<lparr>au_scheme = SchemeHttp, au_host = ''127.0.0.1'', au_port = 3000\<rparr>,
     pp_policy = [], pp_secret = ''shared''\<rparr>"

text \<open>A request of a client that names itself as another principal.\<close>

definition sample_posted :: BoundaryRequest where
  "sample_posted = (boundary_request_new Post ''/invoices'')\<lparr>
     br_headers := [(''accept'', ''application/json''), (''x-authboundry-principal'', ''alice'')],
     br_query := [(''draft'', ''yes & no'')], br_body := [(''note'', ''say '' @ dquote @ ''hi'' @ dquote)]\<rparr>"

subsection \<open>The client never speaks for the boundary\<close>

lemma proxied_reserved:
  "map_of (cq_headers (forwarded p rq x)) n = map_of (injected_headers p x) n"
  if "starts_with reserved_header_prefix n"
proof -
  have "\<not> starts_with reserved_header_prefix ''content-type''" by code_simp
  then have "n \<notin> fst ` set (forwarded_headers rq)" "n \<notin> fst ` set (default_content_type rq)"
    using that by (auto simp: forwarded_headers_def default_content_type_def)
  then have "map_of (forwarded_headers rq) n = None" "map_of (default_content_type rq) n = None"
    by (simp_all add: map_of_eq_None_iff)
  then show ?thesis by (simp add: forwarded_cq_headers map_add_def split: option.split)
qed

interpretation proxied: application_interface "policy_resolve (pp_policy p)" "pp_policy p" for p
  by unfold_locales simp

text \<open>
  The two placements require the same: whatever routes an embedded application registers, a
  proxy configured with the policy of that application matches the same requests with the same
  requirements, and refuses the others; only the refusal of an unlisted path has another name.
\<close>

theorem placements_agree:
  "policy_resolve (router_policy (router_build regs)) m path
   = (case router_resolve (router_build regs) m path of NotFound \<Rightarrow> NoPolicy | outcome \<Rightarrow> outcome)"
proof -
  have "policy_resolve pol m path \<noteq> NotFound" for pol
    unfolding policy_resolve_def resolve_rules_spec by (auto split: option.split)
  then show ?thesis by (auto simp: router_resolve_def split: RouteOutcome.split)
qed

text \<open>
  A form is parsed into fields and forwarded as JSON under its own content type: the
  application, reading by content type, finds no field in it.
\<close>

theorem forwarded_form_loses_its_fields:
  "let rq = (boundary_request_new Post ''/invoices'')\<lparr>
       br_headers := [(''content-type'', ''application/x-www-form-urlencoded'')], br_body := [(''name'', ''a'')]\<rparr>;
     sent = forwarded sample_proxy rq None in
   map_of (cq_headers sent) ''content-type'' = Some ''application/x-www-form-urlencoded''
   \<and> cq_body sent = encode_body [(''name'', ''a'')] \<and> parse_form (cq_body sent) = []"
proof -
  let ?b = "encode_body [(''name'', ''a'')]"
  have "CHR ''='' \<notin> set ?b" "CHR ''&'' \<notin> set ?b" by code_simp+
  then have "parse_form ?b = []"
    using split_once_None [of "CHR ''=''" ?b]
    by (simp add: parse_form_def split_on_absent List.map_filter_simps bcollect_def)
  moreover have "\<not> starts_with reserved_header_prefix ''content-type''"
    "''content-type'' \<notin> set dropped_headers" by code_simp+
  ultimately show ?thesis
    by (simp add: Let_def forwarded_cq_headers forwarded_headers_def boundary_request_new_def)
qed

subsection \<open>Upstream addresses\<close>

lemma split_once_str_append:
  "(\<forall>i < length a. \<not> starts_with p (drop i (a @ p @ b))) \<Longrightarrow> split_once_str p (a @ p @ b) = Some (a, b)"
proof (induction a)
  case Nil
  show ?case
  proof (cases "p @ b")
    case (Cons c cs)
    then have "starts_with p (c # cs)" "drop (length p) (c # cs) = b"
      by (metis starts_with_append, metis append_eq_conv_conj)
    then show ?thesis by (simp add: Cons)
  qed simp
next
  case (Cons c a)
  have "\<not> starts_with p ((c # a) @ p @ b)" using Cons.prems by force
  moreover have "\<forall>i < length a. \<not> starts_with p (drop i (a @ p @ b))"
  proof (intro allI impI)
    fix i assume "i < length a"
    then show "\<not> starts_with p (drop i (a @ p @ b))" using Cons.prems [rule_format, of "Suc i"] by simp
  qed
  ultimately show ?case using Cons.IH by simp
qed

lemma rsplit_once_append: "c \<notin> set b \<Longrightarrow> rsplit_once c (a @ c # b) = Some (a, b)"
  by (simp add: rsplit_once_def)

lemma rsplit_once_SomeD: "rsplit_once c s = Some (a, b) \<Longrightarrow> s = a @ c # b \<and> c \<notin> set b"
proof -
  assume "rsplit_once c s = Some (a, b)"
  then have "split_once c (rev s) = Some (rev b, rev a)" by (auto simp: rsplit_once_def)
  then have "rev s = rev b @ c # rev a" "c \<notin> set (rev b)" by (auto dest: split_once_SomeD)
  then have "rev (rev s) = rev (rev b @ c # rev a)" by metis
  then show ?thesis using \<open>c \<notin> set (rev b)\<close> by simp
qed

lemma split_once_str_SomeD:
  "split_once_str p s = Some (a, b) \<Longrightarrow> s = a @ p @ b \<and> (\<forall>i < length a. \<not> starts_with p (drop i s))"
proof (induction p s arbitrary: a rule: split_once_str.induct)
  case (2 p c s)
  show ?case
  proof (cases "starts_with p (c # s)")
    case True
    then show ?thesis using 2(2) by (auto dest: starts_withD)
  next
    case False
    then obtain a' where a': "split_once_str p s = Some (a', b)" "a = c # a'"
      using 2(2) by (auto split: option.splits)
    have "\<not> starts_with p (drop i (c # s))" if "i < length a" for i
      using 2(1) [OF False a'(1)] that False a'(2) by (cases i) auto
    then show ?thesis using 2(1) [OF False a'(1)] a'(2) by simp
  qed
qed (auto split: if_splits)

definition upstream_ok :: "ApplicationUpstream \<Rightarrow> bool" where
  "upstream_ok u \<longleftrightarrow> au_host u \<noteq> [] \<and> \<not> list_ex (\<lambda>c. c \<in> set white_space) (utf8_chars (au_host u))
     \<and> set (au_host u) \<inter> set ''/?#@'' = {} \<and> 0 < au_port u \<and> au_port u < 2 ^ 16
     \<and> (\<forall>i < length (au_host u). \<not> starts_with '']:'' (drop i (au_host u @ '']:'')))"

lemma starts_bracket:
  assumes "i < length host"
  shows "starts_with '']:'' (drop i (host @ '']:'' @ t)) \<longleftrightarrow> starts_with '']:'' (drop i (host @ '']:''))"
proof -
  have "take 2 (drop i (host @ '']:'' @ t)) = take 2 (drop i (host @ '']:''))"
  proof (cases "Suc i < length host")
    case False
    then have "length host = Suc i" using assms by simp
    then show ?thesis by simp
  qed simp
  then show ?thesis by (simp add: starts_with_def numeral_2_eq_2)
qed

lemma no_colon_no_bracket:
  "CHR '':'' \<notin> set host \<Longrightarrow> i < length host \<Longrightarrow> \<not> starts_with '']:'' (drop i (host @ '']:''))"
proof
  assume h: "CHR '':'' \<notin> set host" "i < length host" "starts_with '']:'' (drop i (host @ '']:''))"
  then have c: "drop i (host @ '']:'') ! 1 = CHR '':''" by (auto simp only: starts_with_iff append.simps nth_Cons_Suc One_nat_def nth_Cons_0)
  show False
  proof (cases "Suc i < length host")
    case True
    then have "drop i (host @ '']:'') ! 1 = host ! Suc i" by (auto simp: nth_append)
    then show False using c True h(1) nth_mem by metis
  next
    case False
    then have "length host = Suc i" using h(2) by simp
    then show False using c by (simp add: nth_append)
  qed
qed

lemma upstream_pair_Inr:
  assumes "upstream_pair authority = Inr (host, port)"
  shows "set host \<subseteq> set authority \<and> (\<forall>i < length host. \<not> starts_with '']:'' (drop i (host @ '']:'')))"
proof (cases "strip_prefix ''['' authority")
  case None
  then have "rsplit_once (CHR '':'') authority = Some (host, port)" "CHR '':'' \<notin> set host"
    using assms by (auto simp: upstream_pair_def rbind_Inr check_def split: if_splits)
  moreover from this have "set host \<subseteq> set authority" by (auto dest!: rsplit_once_SomeD)
  ultimately show ?thesis using no_colon_no_bracket by blast
next
  case (Some rest)
  have s: "split_once_str '']:'' rest = Some (host, port)" "authority = ''['' @ rest"
    using assms Some by (simp add: upstream_pair_def, simp add: strip_prefix_Some)
  have r: "rest = host @ '']:'' @ port" "\<forall>i < length host. \<not> starts_with '']:'' (drop i rest)"
    using split_once_str_SomeD [OF s(1)] by blast+
  have "set host \<subseteq> set authority" using r(1) s(2) by auto
  moreover have "\<forall>i < length host. \<not> starts_with '']:'' (drop i (host @ '']:''))"
    using r(2) [unfolded r(1)] starts_bracket [of _ host port] by blast
  ultimately show ?thesis by blast
qed

lemma upstream_from_Inr:
  assumes "upstream_from scheme authority = Inr u"
  obtains host port where "set authority \<inter> set ''/?#@'' = {}" "upstream_pair authority = Inr (host, port)"
    "host \<noteq> []" "\<not> list_ex (\<lambda>c. c \<in> set white_space) (utf8_chars host)" "au_host u = host" "0 < au_port u"
    "parse_unsigned (2 ^ 16) port = Some (au_port u)"
  using assms unfolding upstream_from_def
  by (auto simp: rbind_Inr check_def split: if_splits option.splits simp del: power_numeral)

lemma upstream_parse_ok: "upstream_parse s = Inr u \<Longrightarrow> upstream_ok u"
proof -
  assume "upstream_parse s = Inr u"
  then obtain scheme authority where "upstream_from scheme authority = Inr u"
    by (auto simp: upstream_parse_def Let_def rbind_Inr)
  then show ?thesis
  proof (rule upstream_from_Inr)
    fix host port
    assume a: "set authority \<inter> set ''/?#@'' = {}" "upstream_pair authority = Inr (host, port)"
      "host \<noteq> []" "\<not> list_ex (\<lambda>c. c \<in> set white_space) (utf8_chars host)" "au_host u = host" "0 < au_port u"
      "parse_unsigned (2 ^ 16) port = Some (au_port u)"
    have "au_port u < 2 ^ 16" using a(7) by (auto simp: parse_unsigned_def split: option.splits if_splits)
    then show ?thesis using a upstream_pair_Inr [OF a(2)] by (auto simp: upstream_ok_def)
  qed
qed

text \<open>
  An upstream address that was accepted is printed as an address that is accepted and means
  the same, IPv6 hosts included: its host is not empty and holds no white space and none of the
  characters of paths, queries and user names, and its port is between 1 and 65535. A host in
  brackets that is no IPv6 address and itself starts with a bracket is the exception.
\<close>

theorem upstream_roundtrip:
  assumes "upstream_parse s = Inr u" "CHR '':'' \<in> set (au_host u) \<or> \<not> starts_with ''['' (au_host u)"
  shows "upstream_parse (upstream_display u) = Inr u \<and> au_host u \<noteq> [] \<and> 0 < au_port u \<and> au_port u < 65536"
proof -
  have u: "upstream_ok u" by (rule upstream_parse_ok [OF assms(1)])
  note u = u [unfolded upstream_ok_def]
  let ?a = "upstream_authority u" and ?p = "show_nat (au_port u)"
  have digits: "c \<in> set ?p \<Longrightarrow> is_digit c" for c using show_nat_digits by (auto simp: is_digit_def)
  have out: "\<not> is_digit (CHR '':'')" "\<not> is_digit (CHR ''/'')" "\<not> is_digit (CHR ''?'')" "\<not> is_digit (CHR ''#'')" "\<not> is_digit (CHR ''@'')"
    by (simp_all add: is_digit_def)
  have no: "CHR '':'' \<notin> set ?p" "set ?p \<inter> set ''/?#@'' = {}" using digits out by auto
  have pair: "upstream_pair ?a = Inr (au_host u, ?p)"
  proof (cases "CHR '':'' \<in> set (au_host u)")
    case True
    then have "strip_prefix ''['' ?a = Some (au_host u @ '']:'' @ ?p)"
      by (simp add: upstream_authority_def strip_prefix_Some)
    moreover have "split_once_str '']:'' (au_host u @ '']:'' @ ?p) = Some (au_host u, ?p)"
      using u starts_bracket by (intro split_once_str_append) blast
    ultimately show ?thesis by (simp add: upstream_pair_def)
  next
    case False
    then have "strip_prefix ''['' ?a = None"
      using assms(2) u by (cases "au_host u") (auto simp: upstream_authority_def strip_prefix_def starts_with_def)
    moreover have "rsplit_once (CHR '':'') ?a = Some (au_host u, ?p)"
      using False no rsplit_once_append by (simp add: upstream_authority_def)
    ultimately show ?thesis using False by (simp add: upstream_pair_def check_def)
  qed
  have a: "?a \<noteq> []" "set ?a \<inter> set ''/?#@'' = {}"
    using u no(2) by (auto simp: upstream_authority_def)
  have "last (upstream_display u) = last ?p"
    by (simp add: upstream_display_def upstream_authority_def)
  moreover have "last ?p \<noteq> CHR ''/''" using digits [of "last ?p"] out by auto
  ultimately have suf: "strip_suffix ''/'' (upstream_display u) = None"
    by (cases "upstream_display u" rule: rev_cases)
      (auto simp: strip_suffix_def strip_prefix_def starts_with_def)
  have pre: "(case strip_prefix ''http://'' (upstream_display u) of
         Some a \<Rightarrow> Inr (SchemeHttp, a)
       | None \<Rightarrow> (case strip_prefix ''https://'' (upstream_display u) of
           Some a \<Rightarrow> Inr (SchemeHttps, a)
         | None \<Rightarrow> Inl e)) = Inr (au_scheme u, ?a)" for e :: string
    by (cases "au_scheme u") (simp_all add: upstream_display_def strip_prefix_def starts_with_def)
  have "parse_unsigned (2 ^ 16) ?p = Some (au_port u)" using u by (simp only: parse_unsigned_show)
  then show ?thesis
    using u a pair unfolding upstream_parse_def suf option.case Let_def pre
    by (simp add: upstream_from_def check_def)
qed

theorem upstream_roundtrip_witness:
  "upstream_parse ''http://[::1]:80/'' = Inr \<lparr>au_scheme = SchemeHttp, au_host = ''::1'', au_port = 80\<rparr>
   \<and> upstream_parse (upstream_display \<lparr>au_scheme = SchemeHttp, au_host = ''::1'', au_port = 80\<rparr>)
     = Inr \<lparr>au_scheme = SchemeHttp, au_host = ''::1'', au_port = 80\<rparr>"
proof -
  have s: "strip_suffix ''/'' ''http://[::1]:80/'' = Some ''http://[::1]:80''"
    "strip_prefix ''http://'' ''http://[::1]:80'' = Some ''[::1]:80''" "upstream_pair ''[::1]:80'' = Inr (''::1'', ''80'')"
    "set ''[::1]:80'' \<inter> set ''/?#@'' = {}" "\<not> list_ex (\<lambda>c. c \<in> set white_space) (utf8_chars ''::1'')"
    by code_simp+
  have "show_nat 80 = ''80''" by code_simp
  then have n: "parse_unsigned (2 ^ 16) ''80'' = Some 80" using parse_unsigned_show [of 80 "2 ^ 16"] by simp
  have z: "(0 :: nat) < 80" by simp
  have p: "upstream_parse ''http://[::1]:80/'' = Inr \<lparr>au_scheme = SchemeHttp, au_host = ''::1'', au_port = 80\<rparr>"
    by (simp only: upstream_parse_def upstream_from_def Let_def s option.case rbind_simps prod.case check_def
      n z if_True ok_or_simps list.distinct simp_thms)
  show ?thesis using p upstream_roundtrip [OF p] by simp
qed

lemma hex16_ok: "header_value_ok (hex16 w)"
proof (rule header_value_plain)
  have "plain (Prelude.hex_digit n)" if "n < 16" for n
    using that by (auto simp: Prelude.hex_digit_def plain_def)
  then show "list_all plain (hex16 w)" by (simp add: hex16_def list_all_iff)
qed

definition sample_forwarded_context :: AuthContext where
  "sample_forwarded_context = auth_context_new sample_session (sample_context sample_agent)"

lemma sample_injected_ok: "headers_ok (injected_headers sample_proxy (Some sample_forwarded_context))"
proof -
  let ?c = "project sample_forwarded_context"
  have "list_all header_name_ok [''x-authboundry-proxy-signature'', ''x-authboundry-principal'',
      ''x-authboundry-principal-kind'', ''x-authboundry-tenant'', ''x-authboundry-claims'',
      ''x-authboundry-capabilities'', ''x-authboundry-signature'', ''x-authboundry-context'']" by code_simp
  moreover have "list_all header_value_ok [xc_principal_id ?c, xc_principal_kind ?c, xc_tenant_id ?c,
      join '';'' (map (\<lambda>(n, v). n @ ''='' @ v) (xc_claims ?c)), join '','' (xc_capabilities ?c), client_to_json ?c]"
    by code_simp
  moreover have "xc_delegation ?c = None" by code_simp
  ultimately show ?thesis
    unfolding injected_headers_def proxy_sign_def Let_def option.case by (simp add: hex16_ok)
qed

theorem application_reads_what_the_boundary_derived_witness:
  "\<exists>hq. read_from (exchange_bytes ''127.0.0.1:3000''
       (forwarded sample_proxy sample_posted (Some sample_forwarded_context))) = Inr hq
     \<and> hq_path hq = ''/invoices'' \<and> parsed_body hq = br_body sample_posted
     \<and> map_of (hq_headers hq) ''x-authboundry-principal'' = Some ''bot''"
proof -
  have a: "upstream_authority (pp_upstream sample_proxy) = ''127.0.0.1:3000''" by code_simp
  have "header_value_ok ''127.0.0.1:3000''" "bwf (br_headers sample_posted)" "headers_ok (br_headers sample_posted)"
    "list_all plain (br_path sample_posted)" "CHR ''?'' \<notin> set (br_path sample_posted)"
    "bwf (br_query sample_posted)" "pairs_valid (br_query sample_posted)"
    "bwf (br_body sample_posted)" "list_all (\<lambda>(n, v). ascii n \<and> ascii v) (br_body sample_posted)"
    by code_simp+
  moreover have s: "br_path sample_posted = ''/invoices''" "p_id (ax_principal sample_forwarded_context) = ''bot''"
    "map_of (br_headers sample_posted) ''content-type'' = None"
    "length (encode_body (br_body sample_posted)) = 22"
    by code_simp+
  ultimately have "forwardable sample_proxy sample_posted (Some sample_forwarded_context)"
    using sample_injected_ok by (simp add: forwardable_def a)
  then show ?thesis
    using application_reads_what_the_boundary_derived [of sample_proxy sample_posted sample_forwarded_context] s
    by (auto simp: a)
qed

end
