(* ===== verification/ControlRoutes.thy ===== *)
theory ControlRoutes
  imports Discovery Proxy
begin

text \<open>
  The control plane, \<^verbatim>\<open>server/src/control_routes.rs\<close>: reading requests, the handlers and their
  dispatch. A handler is given the runtime and the request and returns the response and the
  runtime after it; \<open>out\<close> is what the runtime relies on outside the program, \<open>hs\<close> the hashing of
  the standard library, and \<open>observed\<close> the routes the application reports.
\<close>

subsection \<open>Reading requests\<close>

definition field_pattern :: "string \<Rightarrow> string" where
  "field_pattern name = dquote @ name @ dquote @ '':''"

definition after_field :: "string \<Rightarrow> string \<Rightarrow> string option" where
  "after_field json name = map_option (\<lambda>(_, rest). trim_start rest) (split_once_str (field_pattern name) json)"

definition extract_quoted_field :: "string \<Rightarrow> string \<Rightarrow> string option" where
  "extract_quoted_field json name = Option.bind (after_field json name) (\<lambda>rest.
     Option.bind (strip_prefix dquote rest) (\<lambda>rest. map_option fst (split_once (CHR 0x22) rest)))"

definition extract_number_field :: "string \<Rightarrow> string \<Rightarrow> int option" where
  "extract_number_field json name = Option.bind (after_field json name) (\<lambda>rest.
     parse_i64 (takeWhile (\<lambda>c. is_digit c \<or> c = CHR ''-'') rest))"

definition extract_bool_field :: "string \<Rightarrow> string \<Rightarrow> bool option" where
  "extract_bool_field json name = Option.bind (after_field json name) (\<lambda>rest.
     if starts_with ''true'' rest then Some True
     else if starts_with ''false'' rest then Some False else None)"

definition or_else :: "'a option \<Rightarrow> 'a option \<Rightarrow> 'a option" where
  "or_else a b = (case a of Some x \<Rightarrow> Some x | None \<Rightarrow> b)"

definition body_text :: "HttpRequest \<Rightarrow> string" where
  "body_text rq = utf8_lossy (hq_body rq)"

definition request_value :: "HttpRequest \<Rightarrow> string \<Rightarrow> string option" where
  "request_value rq name = or_else (map_of (hq_query rq) name) (extract_quoted_field (body_text rq) name)"

definition path_id :: "string \<Rightarrow> string \<Rightarrow> string option" where
  "path_id path start = Option.bind (strip_prefix start path) (\<lambda>i. if i = [] then None else Some i)"

definition listed :: "string \<Rightarrow> string list" where
  "listed v = filter (\<lambda>x. x \<noteq> []) (map trim (split_on (CHR '','') v))"

definition capability_fields :: "string \<Rightarrow> Capability list" where
  "capability_fields body = (case or_else (extract_quoted_field body ''capabilities'')
       (extract_quoted_field body ''capability'') of Some v \<Rightarrow> listed v | None \<Rightarrow> [])"

definition with_optional_attribute :: "string \<Rightarrow> string option \<Rightarrow> ResourceScope \<Rightarrow> ResourceScope" where
  "with_optional_attribute name v sc = (case v of Some x \<Rightarrow> with_attribute sc name (CEnum x) | None \<Rightarrow> sc)"

definition resource_scope_from_body :: "string \<Rightarrow> ResourceScope" where
  "resource_scope_from_body body =
     with_optional_attribute ''department'' (extract_quoted_field body ''department'')
     (with_optional_attribute ''status'' (extract_quoted_field body ''status'')
     (with_optional_attribute ''tenant'' (or_else (extract_quoted_field body ''resource_tenant'')
         (extract_quoted_field body ''tenant_scope''))
       (case (extract_quoted_field body ''resource_type'', extract_quoted_field body ''resource_id'') of
          (Some ty, Some i) \<Rightarrow> scope_exact ty i
        | (Some ty, None) \<Rightarrow> scope_resource ty
        | _ \<Rightarrow> scope_any)))"

definition parse_usize :: "string \<Rightarrow> nat option" where
  "parse_usize = parse_unsigned (2 ^ 64)"

definition pagination :: "HttpRequest \<Rightarrow> nat \<times> nat" where
  "pagination rq =
     ((case Option.bind (map_of (hq_query rq) ''limit'') parse_usize of Some n \<Rightarrow> n | None \<Rightarrow> 50),
      (case Option.bind (map_of (hq_query rq) ''offset'') parse_usize of Some n \<Rightarrow> n | None \<Rightarrow> 0))"

definition parse_source :: "string \<Rightarrow> ProposalSource option" where
  "parse_source v = (if v = ''explicit'' then Some Explicit else if v = ''inferred'' then Some Inferred
     else if v = ''imported'' then Some Imported else None)"

definition quoted_item :: "string \<Rightarrow> string option" where
  "quoted_item item = Option.bind (strip_prefix dquote (trim item)) (strip_suffix dquote)"

definition proposal_ids :: "string \<Rightarrow> string list" where
  "proposal_ids body = (case extract_quoted_field body ''proposal_ids'' of
     Some v \<Rightarrow> listed v
   | None \<Rightarrow> (case extract_quoted_field body ''proposal_id'' of
       Some v \<Rightarrow> [v]
     | None \<Rightarrow> (case Option.bind (split_once_str (dquote @ ''proposal_ids'' @ dquote) body)
           (\<lambda>(_, rest). split_once (CHR ''['') rest) of
         None \<Rightarrow> []
       | Some (_, xs) \<Rightarrow> List.map_filter quoted_item
           (split_on (CHR '','') (case split_once (CHR '']'') xs of Some (a, _) \<Rightarrow> a | None \<Rightarrow> xs)))))"

definition named_proposal :: "string \<Rightarrow> string option" where
  "named_proposal body = or_else (extract_quoted_field body ''proposal_id'') (extract_quoted_field body ''proposal-id'')"

subsection \<open>Reading changes\<close>

text \<open>
  \<^verbatim>\<open>to_uppercase\<close> as far as the name of a method can tell: besides the ASCII letters, the
  characters whose upper case is in ASCII and made of letters a method name has are the dotless i,
  the long s and the two ligatures of s and t.
\<close>

definition upper_char :: "string \<Rightarrow> string" where
  "upper_char c = (if c = [CHR 0xC4, CHR 0xB1] then ''I'' else if c = [CHR 0xC5, CHR 0xBF] then ''S''
     else if c = [CHR 0xEF, CHR 0xAC, CHR 0x85] \<or> c = [CHR 0xEF, CHR 0xAC, CHR 0x86] then ''ST''
     else ascii_upper c)"

definition upper_text :: "string \<Rightarrow> string" where
  "upper_text s = concat (map upper_char (utf8_chars s))"

definition change_method :: "string \<Rightarrow> string + Method" where
  "change_method m = (let u = upper_text m in
     if u = ''POST'' then Inr Post else if u = ''GET'' then Inr Get else if u = ''PUT'' then Inr Put
     else if u = ''PATCH'' then Inr Patch else if u = ''DELETE'' then Inr Delete
     else if u = ''HEAD'' then Inr Head else if u = ''OPTIONS'' then Inr Options
     else Inl (''unknown method: '' @ m))"

definition body_field :: "string \<Rightarrow> string \<Rightarrow> string + string" where
  "body_field body name = ok_or (''missing '' @ name) (extract_quoted_field body name)"

definition sized :: "string \<Rightarrow> string \<Rightarrow> int option \<Rightarrow> (nat \<Rightarrow> PasswordPolicy \<Rightarrow> PasswordPolicy) \<Rightarrow> nat
   \<Rightarrow> PasswordPolicy \<Rightarrow> string + PasswordPolicy" where
  "sized body name v upd bound p = (case v of None \<Rightarrow> Inr p
     | Some i \<Rightarrow> if 0 \<le> i \<and> nat i < bound then Inr (upd (nat i) p) else Inl (''invalid '' @ name))"

definition flagged :: "bool option \<Rightarrow> (bool \<Rightarrow> PasswordPolicy \<Rightarrow> PasswordPolicy) \<Rightarrow> PasswordPolicy \<Rightarrow> PasswordPolicy" where
  "flagged v upd p = (case v of Some b \<Rightarrow> upd b p | None \<Rightarrow> p)"

definition password_policy_from_body :: "string \<Rightarrow> string + PasswordPolicy" where
  "password_policy_from_body body =
     rbind (sized body ''min_length'' (extract_number_field body ''min_length'')
       (\<lambda>n p. p\<lparr>pw_min_length := n\<rparr>) (2 ^ 64) password_policy_default) (\<lambda>p.
     rbind (sized body ''max_length'' (extract_number_field body ''max_length'')
       (\<lambda>n p. p\<lparr>pw_max_length := n\<rparr>) (2 ^ 64) p) (\<lambda>p.
     let p = flagged (extract_bool_field body ''require_uppercase'') (\<lambda>b p. p\<lparr>pw_require_uppercase := b\<rparr>) p;
         p = flagged (extract_bool_field body ''require_lowercase'') (\<lambda>b p. p\<lparr>pw_require_lowercase := b\<rparr>) p;
         p = flagged (extract_bool_field body ''require_number'') (\<lambda>b p. p\<lparr>pw_require_number := b\<rparr>) p;
         p = flagged (extract_bool_field body ''require_special_character'')
               (\<lambda>b p. p\<lparr>pw_require_special_character := b\<rparr>) p
     in rbind (if contains_str (field_pattern ''expiration_days'' @ '' null'') body
               \<or> contains_str (field_pattern ''password_expiration_days'' @ '' null'') body
             then Inr (p\<lparr>pw_expiration_days := None\<rparr>)
             else sized body ''expiration_days'' (or_else (extract_number_field body ''expiration_days'')
                 (extract_number_field body ''password_expiration_days''))
               (\<lambda>n p. p\<lparr>pw_expiration_days := Some (of_nat n)\<rparr>) (2 ^ 32) p) (\<lambda>p.
        rbind (sized body ''history_count'' (or_else (extract_number_field body ''history_count'')
            (extract_number_field body ''password_history_count''))
          (\<lambda>n p. p\<lparr>pw_history_count := n\<rparr>) (2 ^ 64) p) (\<lambda>p.
        let p = flagged (extract_bool_field body ''allow_password_change'') (\<lambda>b p. p\<lparr>pw_allow_change := b\<rparr>) p;
            p = flagged (extract_bool_field body ''allow_password_reset'') (\<lambda>b p. p\<lparr>pw_allow_reset := b\<rparr>) p
        in rbind (password_policy_validate p) (\<lambda>_. Inr p)))))"

definition role_rules :: "string \<Rightarrow> string option \<Rightarrow> Rule list" where
  "role_rules cap roles = (case roles of None \<Rightarrow> []
     | Some v \<Rightarrow> [rule_allow cap (ClaimIn ''role'' (map CEnum (listed v)))])"

definition parse_authority_change :: "HttpRequest \<Rightarrow> string + AuthorityChange" where
  "parse_authority_change rq = (let body = body_text rq in
     if contains_str ''protect_route'' body then
       rbind (body_field body ''method'') (\<lambda>m. rbind (change_method m) (\<lambda>m.
       rbind (body_field body ''path'') (\<lambda>path. rbind (body_field body ''capability'') (\<lambda>cap.
       Inr (ProtectRoute m path cap)))))
     else if contains_str ''unprotect_route'' body then
       rbind (body_field body ''method'') (\<lambda>m. rbind (change_method m) (\<lambda>m.
       rbind (body_field body ''path'') (\<lambda>path. Inr (UnprotectRoute m path))))
     else if contains_str ''set_policy'' body \<or> contains_str ''set_capability_policy'' body then
       rbind (body_field body ''capability'') (\<lambda>cap. rbind (body_field body ''policy'') (\<lambda>i.
       Inr (SetCapabilityPolicy cap \<lparr>pol_id = i, pol_rules = role_rules cap
         (or_else (extract_quoted_field body ''roles'') (extract_quoted_field body ''role''))\<rparr>)))
     else if contains_str ''set_provider_enabled'' body \<or> contains_str ''enable_provider'' body
         \<or> contains_str ''disable_provider'' body then
       rbind (body_field body ''provider'') (\<lambda>p.
       Inr (SetProviderEnabled p (contains_str (field_pattern ''enabled'' @ '' true'') body
         \<or> contains_str ''enable_provider'' body)))
     else if contains_str ''password_policy'' body \<or> contains_str ''set_password_policy'' body then
       rbind (password_policy_from_body body) (\<lambda>p. Inr (SetPasswordPolicy p))
     else if contains_str ''revert'' body then
       rbind (body_field body ''change_id'') (\<lambda>i. Inr (Revert i))
     else Inl ''unknown action'')"

subsection \<open>Answers\<close>

text \<open>
  \<^verbatim>\<open>status_for\<close> and \<^verbatim>\<open>denial\<close> of \<^verbatim>\<open>server/src/server.rs\<close>. A handler returns the response and the
  runtime; the runtime is what the operation leaves, also when it failed.
\<close>

definition status_for :: "DenialReason \<Rightarrow> nat" where
  "status_for d = (case d of MissingCredential \<Rightarrow> 401 | UnknownPrincipal \<Rightarrow> 401 | InvalidSession \<Rightarrow> 401
     | ExpiredSession \<Rightarrow> 401 | RevokedSession \<Rightarrow> 401 | _ \<Rightarrow> 403)"

definition denial :: "AuthError \<Rightarrow> HttpResponse" where
  "denial e = response_denied (status_for (er_denial e)) (denial_as_str (er_denial e)) (er_message e)"

type_synonym ('l, 'm) handler = "('l, 'm) Runtime \<Rightarrow> HttpResponse \<times> ('l, 'm) Runtime"

definition answering :: "('e \<Rightarrow> HttpResponse) \<Rightarrow> ('a \<Rightarrow> HttpResponse) \<Rightarrow> (('l, 'm) Runtime, 'e, 'a) eff
   \<Rightarrow> ('l, 'm) handler" where
  "answering bad good m s = (case m s of (Inl e, s') \<Rightarrow> (bad e, s') | (Inr x, s') \<Rightarrow> (good x, s'))"

definition viewing :: "(('l, 'm) Runtime \<Rightarrow> HttpResponse) \<Rightarrow> ('l, 'm) handler" where
  "viewing f s = (f s, s)"

definition responding :: "HttpResponse \<Rightarrow> ('l, 'm) handler" where
  "responding r s = (r, s)"

text \<open>\<^verbatim>\<open>let Some(x) = v else\<close> and its like.\<close>

definition needing :: "string \<Rightarrow> 'a option \<Rightarrow> ('a \<Rightarrow> ('l, 'm) handler) \<Rightarrow> ('l, 'm) handler" where
  "needing what v k = (case v of Some x \<Rightarrow> k x | None \<Rightarrow> responding (response_bad_request (''missing '' @ what)))"

definition in_tenant :: "HttpRequest \<Rightarrow> (TenantContext \<Rightarrow> ('l, 'm) handler) \<Rightarrow> ('l, 'm) handler" where
  "in_tenant rq k = needing ''tenant'' (request_value rq ''tenant'') (\<lambda>tid s. case tenant tid (rt_mesh s) of
     Inl e \<Rightarrow> (denial e, s) | Inr t \<Rightarrow> k t s)"

definition proposal_error :: "string \<Rightarrow> ('l, 'm) Runtime \<Rightarrow> HttpResponse" where
  "proposal_error message s =
     (if starts_with ''STALE_AUTHORITY_PROPOSAL'' message
      then response_json 400 (json_text (JObject [(''error'', JString ''STALE_AUTHORITY_PROPOSAL''),
         (''message'', JString message),
         (''current_authority_revision'', json_u64 (lv_revision (live_authority s)))]))
      else response_bad_request message)"

text \<open>An operation on the proposals; an error is told with the runtime after it.\<close>

definition proposing :: "('a \<Rightarrow> HttpResponse) \<Rightarrow> (('l, 'm) Runtime, string, 'a) eff \<Rightarrow> ('l, 'm) handler" where
  "proposing good m s = (case m s of (Inl e, s') \<Rightarrow> (proposal_error e s', s') | (Inr x, s') \<Rightarrow> (good x, s'))"

definition proposal_now :: "string \<Rightarrow> ProposalStatus \<Rightarrow> HttpResponse" where
  "proposal_now i status = response_ok_json (JObject [(''proposal_id'', JString i),
     (''status'', JString (proposal_status_as_str status))])"

definition applied_json :: "string \<Rightarrow> u64 \<Rightarrow> (string \<times> Json) list" where
  "applied_json change_id revision =
     [(''applied_change_id'', JString change_id), (''new_revision'', json_u64 revision)]"

subsection \<open>Deployment and audit\<close>

definition overview :: "('l, 'm) handler" where
  "overview = answering response_bad_request (\<lambda>r. r)
     (andThen system_now (\<lambda>t. reading (\<lambda>s. Inr (response_ok_json (application_to_json
       \<lparr>de_name = ''AuthBoundry'', de_deployment_mode = binding_mode_as_str (rt_mode s),
        de_contract_fingerprint = fingerprint (ct_contract s),
        de_surface_fingerprint = surface_fingerprint (surface_derive (ct_contract s)),
        de_started_at = t, de_uptime_seconds = seconds t\<rparr>)))))"

definition events_asked :: "HttpRequest \<Rightarrow> nat \<Rightarrow> int option \<times> nat" where
  "events_asked rq otherwise = (Option.bind (request_value rq ''since'') parse_i64,
     case Option.bind (request_value rq ''limit'') parse_usize of Some n \<Rightarrow> n | None \<Rightarrow> otherwise)"

definition audit_events_view :: "('l, 'm) Outside \<Rightarrow> HttpRequest \<Rightarrow> ('l, 'm) handler" where
  "audit_events_view out rq = in_tenant rq (\<lambda>t. viewing (\<lambda>s. case events_asked rq 100 of (since, limit) \<Rightarrow>
     (case runtime_audit_events out t since limit s of
        Inr es \<Rightarrow> response_ok_json (JObject [(''events'', JArray (map audit_event_json es))])
      | Inl e \<Rightarrow> denial e)))"

definition audit_export :: "('l, 'm) Outside \<Rightarrow> HttpRequest \<Rightarrow> ('l, 'm) handler" where
  "audit_export out rq = in_tenant rq (\<lambda>t. viewing (\<lambda>s. case events_asked rq 1000 of (since, limit) \<Rightarrow>
     (case runtime_audit_events out t since limit s of
        Inr es \<Rightarrow> response_new 200 ''application/x-ndjson; charset=utf-8'' (export_json_lines es)
      | Inl e \<Rightarrow> denial e)))"

subsection \<open>Agents, runs and delegations\<close>

definition agents_view :: "HttpRequest \<Rightarrow> ('l, 'm) handler" where
  "agents_view rq = in_tenant rq (\<lambda>t. viewing (\<lambda>s. response_ok_json (JObject
     [(''agents'', JArray (map agent_json
        (filter (\<lambda>p. p_kind p = Agent) (list_principals t (dir_principals (rt_mesh s))))))])))"

definition agent_view :: "string \<Rightarrow> HttpRequest \<Rightarrow> ('l, 'm) handler" where
  "agent_view path rq = in_tenant rq (\<lambda>t.
     needing ''agent id'' (path_id path ''/_authboundry/agents/'') (\<lambda>i. viewing (\<lambda>s.
     case get_principal t i (dir_principals (rt_mesh s)) of
       Inr (Some p) \<Rightarrow> if p_kind p = Agent then response_ok_json (agent_json p)
         else response_denied 404 ''not_found'' ''agent not found''
     | Inr None \<Rightarrow> response_denied 404 ''not_found'' ''agent not found''
     | Inl e \<Rightarrow> response_bad_request e)))"

definition default_agent_id :: "string \<Rightarrow> string" where
  "default_agent_id name = ''agent:'' @ replace_char (CHR '' '') ''-'' name"

definition asked_agent :: "HttpRequest \<Rightarrow> TenantContext \<Rightarrow> Principal" where
  "asked_agent rq t = (let body = body_text rq;
       name = (case extract_quoted_field body ''name'' of Some n \<Rightarrow> n | None \<Rightarrow> ''agent'');
       i = (case extract_quoted_field body ''id'' of Some i \<Rightarrow> i | None \<Rightarrow> default_agent_id name)
     in principal_agent i (t_id t) [] \<lparr>major = 1, minor = 0\<rparr> StateActive)"

definition create_agent :: "HttpRequest \<Rightarrow> ('l, 'm) handler" where
  "create_agent rq = in_tenant rq (\<lambda>t. answering response_bad_request (\<lambda>_. response_ok_json (agent_json (asked_agent rq t)))
     (zoom rt_mesh (\<lambda>c s. s\<lparr>rt_mesh := c\<rparr>) (on_principals (put_principal (asked_agent rq t)))))"

definition agent_runs_view :: "string \<Rightarrow> HttpRequest \<Rightarrow> ('l, 'm) handler" where
  "agent_runs_view path rq = needing ''tenant'' (request_value rq ''tenant'') (\<lambda>tid.
     needing ''agent id'' (path_id path ''/_authboundry/agents/'') (\<lambda>i. viewing (\<lambda>s.
     case runtime_agent_runs tid (trim_end_matches ''/runs'' i) s of
       Inr rs \<Rightarrow> response_ok_json (JObject [(''runs'', JArray (map run_json rs))])
     | Inl e \<Rightarrow> denial e)))"

definition agent_run_view :: "string \<Rightarrow> HttpRequest \<Rightarrow> ('l, 'm) handler" where
  "agent_run_view path rq = needing ''tenant'' (request_value rq ''tenant'') (\<lambda>tid.
     needing ''run id'' (path_id path ''/_authboundry/runs/'') (\<lambda>i. viewing (\<lambda>s.
     case runtime_agent_run tid i s of
       Inr (Some r) \<Rightarrow> response_ok_json (run_json r)
     | Inr None \<Rightarrow> response_denied 404 ''run_not_found'' ''run not found''
     | Inl e \<Rightarrow> denial e)))"

definition asked_run :: "string \<Rightarrow> PrincipalId \<Rightarrow> DelegationId \<Rightarrow> int \<Rightarrow> RunCreationRequest" where
  "asked_run body agent delegation expires_at =
     \<lparr>cr_id = extract_quoted_field body ''id'',
      cr_task_id = (case extract_quoted_field body ''task_id'' of Some i \<Rightarrow> i
        | None \<Rightarrow> ''task:'' @ replace_char (CHR '':'') ''-'' agent),
      cr_task_purpose = (case or_else (extract_quoted_field body ''purpose'') (extract_quoted_field body ''task_purpose'')
        of Some p \<Rightarrow> p | None \<Rightarrow> ''agent run''),
      cr_delegation_id = delegation, cr_parent_run_id = extract_quoted_field body ''parent_run_id'',
      cr_capabilities = capability_fields body, cr_resource_scope = resource_scope_from_body body,
      cr_expires_at = expires_at, cr_constraints = []\<rparr>"

definition create_agent_run_route :: "('l, 'm) Outside \<Rightarrow> string \<Rightarrow> HttpRequest \<Rightarrow> ('l, 'm) handler" where
  "create_agent_run_route out path rq = (let body = body_text rq in
     needing ''tenant'' (request_value rq ''tenant'') (\<lambda>tid.
     needing ''agent id'' (path_id path ''/_authboundry/agents/'') (\<lambda>i.
     let agent = trim_end_matches ''/runs'' i in
     needing ''delegation_id'' (or_else (extract_quoted_field body ''delegation_id'')
       (extract_quoted_field body ''delegation'')) (\<lambda>delegation.
     if capability_fields body = [] then responding (response_bad_request ''missing capability'') else
     needing ''expires_at'' (extract_number_field body ''expires_at'') (\<lambda>expires_at.
     answering denial (\<lambda>r. response_ok_json (run_json r))
       (runtime_create_agent_run out tid agent (asked_run body agent delegation expires_at)))))))"

definition cancel_agent_run_route :: "('l, 'm) Outside \<Rightarrow> string \<Rightarrow> HttpRequest \<Rightarrow> ('l, 'm) handler" where
  "cancel_agent_run_route out path rq = needing ''tenant'' (request_value rq ''tenant'') (\<lambda>tid.
     needing ''run id'' (path_id path ''/_authboundry/runs/'') (\<lambda>i.
     answering denial (\<lambda>r. response_ok_json (run_json r))
       (runtime_cancel_agent_run out tid (trim_end_matches ''/cancel'' i))))"

definition change_agent_state :: "('l, 'm) Outside \<Rightarrow> string \<Rightarrow> PrincipalId \<Rightarrow> AgentState
   \<Rightarrow> (('l, 'm) Runtime, AuthError, unit) eff" where
  "change_agent_state out tid agent state = (case state of
     StateSuspended \<Rightarrow> andThen now (\<lambda>t. on_mesh (suspend_agent (ou_env out) tid agent t))
   | StateRevoked \<Rightarrow> andThen now (\<lambda>t. on_mesh (revoke_agent (ou_env out) tid agent t))
   | StateRetired \<Rightarrow> andThen now (\<lambda>t. on_mesh (retire_agent (ou_env out) tid agent t))
   | _ \<Rightarrow> ok ())"

definition set_agent_state_route :: "('l, 'm) Outside \<Rightarrow> string \<Rightarrow> HttpRequest \<Rightarrow> AgentState \<Rightarrow> ('l, 'm) handler" where
  "set_agent_state_route out path rq state = needing ''tenant'' (request_value rq ''tenant'') (\<lambda>tid.
     needing ''agent id'' (path_id path ''/_authboundry/agents/'') (\<lambda>i.
     let agent = trim_end_matches ''/retire'' (trim_end_matches ''/revoke'' (trim_end_matches ''/suspend'' i)) in
     answering denial (\<lambda>_. response_ok_json (JObject [(''id'', JString agent),
         (''status'', JString (agent_state_text state))]))
       (change_agent_state out tid agent state)))"

definition delegations_view :: "HttpRequest \<Rightarrow> ('l, 'm) handler" where
  "delegations_view rq = in_tenant rq (\<lambda>t.
     needing ''delegate'' (request_value rq ''delegate'') (\<lambda>delegate. viewing (\<lambda>s.
     response_ok_json (JObject [(''delegations'',
       JArray (map delegation_json (delegations_for t delegate (rt_mesh s))))]))))"

definition delegation_view :: "string \<Rightarrow> HttpRequest \<Rightarrow> ('l, 'm) handler" where
  "delegation_view path rq = in_tenant rq (\<lambda>t.
     needing ''delegation id'' (path_id path ''/_authboundry/delegations/'') (\<lambda>i. viewing (\<lambda>s.
     case get_delegation t i (m_delegations (rt_mesh s)) of
       Inr (Some d) \<Rightarrow> response_ok_json (delegation_json d)
     | Inr None \<Rightarrow> response_denied 404 ''not_found'' ''delegation not found''
     | Inl e \<Rightarrow> response_bad_request e)))"

definition create_delegation_route :: "('l, 'm) Outside \<Rightarrow> HttpRequest \<Rightarrow> ('l, 'm) handler" where
  "create_delegation_route out rq = (let body = body_text rq in
     needing ''tenant'' (request_value rq ''tenant'') (\<lambda>tid.
     needing ''id'' (extract_quoted_field body ''id'') (\<lambda>i.
     needing ''delegator'' (extract_quoted_field body ''delegator'') (\<lambda>delegator.
     needing ''delegate'' (extract_quoted_field body ''delegate'') (\<lambda>target.
     needing ''capability'' (extract_quoted_field body ''capability'') (\<lambda>cap.
     answering denial (\<lambda>d. response_ok_json (delegation_json d))
       (andThen now (\<lambda>issued_at. andThen now (\<lambda>t. on_mesh (delegate (ou_env out) tid
          \<lparr>dr_id = i, dr_delegator = delegator, dr_delegate = target, dr_capabilities = [cap],
           dr_resource_scope = scope_any, dr_issued_at = issued_at,
           dr_expires_at = extract_number_field body ''expires_at''\<rparr> t))))))))))"

definition revoke_delegation_route :: "('l, 'm) Outside \<Rightarrow> string \<Rightarrow> HttpRequest \<Rightarrow> ('l, 'm) handler" where
  "revoke_delegation_route out path rq = needing ''tenant'' (request_value rq ''tenant'') (\<lambda>tid.
     needing ''delegation id'' (path_id path ''/_authboundry/delegations/'') (\<lambda>i.
     let d = trim_end_matches ''/revoke'' i in
     answering denial (\<lambda>_. response_ok_json (JObject [(''id'', JString d), (''status'', JString ''revoked'')]))
       (andThen now (\<lambda>t. on_mesh (revoke_delegation (ou_env out) tid d t)))))"

subsection \<open>Proposals\<close>

definition proposed_json :: "Hashing \<Rightarrow> ChangeProposal \<Rightarrow> Json" where
  "proposed_json hs p = JObject [(''proposal_id'', JString (cp_id p)), (''revision'', json_u64 (cp_revision p)),
     (''change'', change_to_json (cp_change p)), (''preview'', preview_to_json (cp_preview p)),
     (''approval_token'', JString (ap_token (approval_for hs p)))]"

definition propose_route :: "Hashing \<Rightarrow> HttpRequest \<Rightarrow> ('l, 'm) handler" where
  "propose_route hs rq = (case parse_authority_change rq of
     Inl e \<Rightarrow> responding (response_bad_request e)
   | Inr c \<Rightarrow> answering response_bad_request (\<lambda>p. response_ok_json (proposed_json hs p)) (propose_change c))"

definition apply_route :: "Hashing \<Rightarrow> HttpRequest \<Rightarrow> ('l, 'm) handler" where
  "apply_route hs rq = needing ''proposal_id'' (named_proposal (body_text rq)) (\<lambda>i.
     proposing (\<lambda>(change_id, revision). response_ok_json (JObject (applied_json change_id revision)))
       (case extract_quoted_field (body_text rq) ''approval_token'' of
          Some token \<Rightarrow> apply_stored_proposal hs i \<lparr>ap_token = token\<rparr>
        | None \<Rightarrow> apply_approved_stored_proposal hs i))"

definition approve_route :: "HttpRequest \<Rightarrow> ('l, 'm) handler" where
  "approve_route rq = needing ''proposal_id'' (named_proposal (body_text rq)) (\<lambda>i.
     proposing (\<lambda>_. proposal_now i Approved) (approve_stored_proposal i))"

definition reject_route :: "HttpRequest \<Rightarrow> ('l, 'm) handler" where
  "reject_route rq = needing ''proposal_id'' (named_proposal (body_text rq)) (\<lambda>i.
     proposing (\<lambda>_. proposal_now i Rejected) (reject_stored_proposal i
       (case extract_quoted_field (body_text rq) ''reason'' of Some r \<Rightarrow> r | None \<Rightarrow> ''rejected'')))"

definition path_proposal :: "string \<Rightarrow> string \<Rightarrow> string" where
  "path_proposal ending path = trim_end_matches ending (trim_start_matches ''/_authboundry/authority-proposal/'' path)"

definition approve_authority_proposal :: "string \<Rightarrow> ('l, 'm) handler" where
  "approve_authority_proposal path = (let i = path_proposal ''/approve'' path in
     proposing (\<lambda>_. proposal_now i Approved) (approve_stored_proposal i))"

definition apply_authority_proposal :: "Hashing \<Rightarrow> string \<Rightarrow> ('l, 'm) handler" where
  "apply_authority_proposal hs path = proposing
     (\<lambda>(change_id, revision). response_ok_json (JObject (applied_json change_id revision)))
     (apply_approved_stored_proposal hs (path_proposal ''/apply'' path))"

text \<open>The approvals of a batch are made one by one; the first that fails ends it.\<close>

primrec approve_all :: "string list \<Rightarrow> ('z Control_scheme, string, unit) eff" where
  "approve_all [] = ok ()"
| "approve_all (i # is) = andThen (approve_stored_proposal i) (\<lambda>_. approve_all is)"

definition approve_bulk :: "HttpRequest \<Rightarrow> ('l, 'm) handler" where
  "approve_bulk rq = (let ids = proposal_ids (body_text rq) in
     if ids = [] then responding (response_bad_request ''missing proposal_ids'')
     else proposing (\<lambda>_. response_ok_json (JObject [(''approved'', json_strings ids)])) (approve_all ids))"

definition apply_bulk :: "HttpRequest \<Rightarrow> ('l, 'm) handler" where
  "apply_bulk rq = (let ids = proposal_ids (body_text rq) in
     if ids = [] then responding (response_bad_request ''missing proposal_ids'')
     else proposing (\<lambda>outcomes. response_ok_json (JObject [(''applied'', JArray
         (map (\<lambda>(i, change_id, revision). JObject ((''proposal_id'', JString i) # applied_json change_id revision))
           outcomes))]))
       (apply_approved_stored_proposals ids))"

definition revert_body :: "string \<Rightarrow> string" where
  "revert_body change_id = ''{'' @ json_key ''type'' @ dquote @ ''revert'' @ dquote @ '', '' @ json_key ''change_id''
     @ dquote @ http_escape change_id @ dquote @ ''}''"

definition revert_route :: "Hashing \<Rightarrow> HttpRequest \<Rightarrow> ('l, 'm) handler" where
  "revert_route hs rq = needing ''change_id'' (extract_quoted_field (body_text rq) ''change_id'') (\<lambda>change_id.
     propose_route hs (rq\<lparr>hq_body := revert_body change_id\<rparr>))"

definition history_view :: "HttpRequest \<Rightarrow> ('l, 'm) handler" where
  "history_view rq = viewing (\<lambda>s. case pagination rq of (limit, offset) \<Rightarrow>
     response_ok_json (JArray (map change_record_to_json (history limit offset s))))"

definition proposals_view :: "HttpRequest \<Rightarrow> ('l, 'm) handler" where
  "proposals_view rq = viewing (\<lambda>s. case pagination rq of (limit, offset) \<Rightarrow>
     let source = Option.bind (map_of (hq_query rq) ''source'') parse_source in
     response_ok_json (JArray (map proposal_metadata_to_json
       (filter (\<lambda>p. case source of Some x \<Rightarrow> pm_source p = x | None \<Rightarrow> True) (list_proposals limit offset s)))))"

definition proposal_view :: "string \<Rightarrow> ('l, 'm) handler" where
  "proposal_view path = viewing (\<lambda>s.
     case retrieve_proposal (trim_start_matches ''/_authboundry/proposals/'' path) s of
       Inr p \<Rightarrow> response_ok_json (stored_proposal_to_json p)
     | Inl e \<Rightarrow> response_bad_request e)"

subsection \<open>Proposals from discovery\<close>

definition live_application :: "RouteCandidate list \<Rightarrow> ApplicationCandidate" where
  "live_application observed = \<lparr>ac_name = Some ''AuthBoundry'', ac_routes = observed\<rparr>"

definition authority_mappings :: "LiveAuthorityState \<Rightarrow> Mappings" where
  "authority_mappings a = bcollect (List.map_filter (\<lambda>((m, path), protection).
     map_option (\<lambda>cap. ((method_text m, path), cap)) (pr_capability protection)) (lv_route_protection a))"

definition history_item :: "StoredProposal \<Rightarrow> ProposalHistoryItem option" where
  "history_item p = (case sp_change p of
     ProtectRoute m path cap \<Rightarrow> Some \<lparr>hi_id = sp_id p, hi_method = method_text m, hi_path = path,
       hi_capability = cap, hi_status = proposal_status_as_str (sp_status p),
       hi_discovery_revision = sp_discovery_revision p, hi_authority_revision = sp_revision p\<rparr>
   | _ \<Rightarrow> None)"

definition proposal_history :: "('l, 'm) Runtime \<Rightarrow> ProposalHistoryItem list" where
  "proposal_history s = List.map_filter (\<lambda>item. case retrieve_proposal (pm_id item) s of
     Inr p \<Rightarrow> history_item p | Inl _ \<Rightarrow> None) (list_proposals 1000 0 s)"

definition review_status :: "u64 \<Rightarrow> StoredProposal \<Rightarrow> ProposalReviewStatus" where
  "review_status current p = (if sp_revision p \<noteq> current then ReviewStale
     else case sp_status p of
       Pending \<Rightarrow> ReviewRecommended | Approved \<Rightarrow> ReviewApproved | Applied \<Rightarrow> ReviewAlreadyProtected
     | Rejected \<Rightarrow> ReviewRejected | Active \<Rightarrow> ReviewRecommended
     | Orphaned \<Rightarrow> ReviewStale | Stale \<Rightarrow> ReviewStale | Superseded \<Rightarrow> ReviewStale)"

definition attach_one :: "u64 \<Rightarrow> u64 \<Rightarrow> AuthorityRecommendation \<Rightarrow> 'z Control_scheme
   \<Rightarrow> AuthorityRecommendation \<times> 'z Control_scheme" where
  "attach_one disc current m s = (case (method_parse (rm_method m), rm_capability m) of
     (Some meth, Some cap) \<Rightarrow>
       (case ensure_proposal (ProtectRoute meth (rm_path m) cap) Inferred disc s of
          (Inr p, s') \<Rightarrow> (m\<lparr>rm_id := Some (sp_id p), rm_status := review_status current p\<rparr>, s')
        | (Inl _, s') \<Rightarrow> (m, s'))
   | _ \<Rightarrow> (m, s))"

fun attach_all :: "u64 \<Rightarrow> u64 \<Rightarrow> AuthorityRecommendation list \<Rightarrow> 'z Control_scheme
   \<Rightarrow> AuthorityRecommendation list \<times> 'z Control_scheme" where
  "attach_all disc current [] s = ([], s)"
| "attach_all disc current (m # ms) s =
     (let (m', s1) = (if rm_action m = ActionProtectRoute then attach_one disc current m s else (m, s));
          (ms', s2) = attach_all disc current ms s1
      in (m' # ms', s2))"

definition authority_proposal :: "Hashing \<Rightarrow> RouteCandidate list \<Rightarrow> ('l, 'm) handler" where
  "authority_proposal hs observed s =
     (let a = live_authority s;
          p = propose_authority (hs_hash hs) (live_application observed) (fingerprint (ct_contract s))
                (lv_revision a) (authority_mappings a);
          (ms, s') = attach_all (pl_discovery_revision p) (lv_revision a) (pl_recommendations p) s
      in (response_json 200 (render_proposal_json (p\<lparr>pl_recommendations := ms\<rparr>)), s'))"

definition reconciliation_result ::
  "Hashing \<Rightarrow> RouteCandidate list \<Rightarrow> ('l, 'm) Runtime \<Rightarrow> ReconciliationResult \<times> ('l, 'm) Runtime" where
  "reconciliation_result hs observed s =
     (let a = live_authority s;
          z = reconcile (hs_hash hs) None (live_application observed) (fingerprint (ct_contract s)) (lv_revision a)
                (authority_mappings a) (proposal_history s);
          (ms, s') = attach_all (rz_discovery_revision z) (lv_revision a) (rz_new_authority_proposals z) s
      in (z\<lparr>rz_new_authority_proposals := ms\<rparr>, s'))"

definition authority_reconciliation :: "Hashing \<Rightarrow> RouteCandidate list \<Rightarrow> ('l, 'm) handler" where
  "authority_reconciliation hs observed s = (case reconciliation_result hs observed s of
     (z, s') \<Rightarrow> (response_json 200 (render_reconciliation_json z), s'))"

definition authority_drift :: "Hashing \<Rightarrow> RouteCandidate list \<Rightarrow> ('l, 'm) handler" where
  "authority_drift hs observed s = (case reconciliation_result hs observed s of
     (z, s') \<Rightarrow> (response_json 200 (render_drift_json z), s'))"

subsection \<open>Dispatch\<close>

text \<open>The arms of the match, in its order: the method, a test of the path, the handler.\<close>

definition under :: "string \<Rightarrow> string \<Rightarrow> string \<Rightarrow> bool" where
  "under start ending path \<longleftrightarrow> starts_with start path \<and> ends_with ending path"

definition control_arms ::
  "('l, 'm) Outside \<Rightarrow> Hashing \<Rightarrow> RouteCandidate list \<Rightarrow> string \<Rightarrow> HttpRequest
   \<Rightarrow> (Method \<times> (string \<Rightarrow> bool) \<times> ('l, 'm) handler) list" where
  "control_arms out hs observed path rq =
    [(Get, (=) ''/_authboundry/overview'', overview),
     (Get, (=) ''/_authboundry/routes'', viewing routes_view),
     (Get, (=) ''/_authboundry/authority-state'',
       viewing (\<lambda>s. response_ok_json (preview_state_to_json (preview_state_from (live_authority s))))),
     (Get, (=) ''/_authboundry/authority-proposal'', authority_proposal hs observed),
     (Get, (=) ''/_authboundry/authority-reconciliation'', authority_reconciliation hs observed),
     (Post, (=) ''/_authboundry/authority-reconciliation/run'', authority_reconciliation hs observed),
     (Get, (=) ''/_authboundry/authority-drift'', authority_drift hs observed),
     (Get, (=) ''/_authboundry/password-policy'', viewing (\<lambda>s. response_ok_json (password_policy_json s))),
     (Get, (=) ''/_authboundry/storage'', viewing storage_view),
     (Get, (=) ''/_authboundry/storage/capabilities'', viewing storage_capabilities_view),
     (Get, (=) ''/_authboundry/audit'', viewing audit_config_view),
     (Get, (=) ''/_authboundry/audit/events'', audit_events_view out rq),
     (Get, (=) ''/_authboundry/audit/export'', audit_export out rq),
     (Get, (=) ''/_authboundry/reporting'', viewing reporting_view),
     (Post, under ''/_authboundry/authority-proposal/'' ''/approve'', approve_authority_proposal path),
     (Post, under ''/_authboundry/authority-proposal/'' ''/apply'', apply_authority_proposal hs path),
     (Post, (=) ''/_authboundry/authority-proposals/approve'', approve_bulk rq),
     (Post, (=) ''/_authboundry/authority-proposals/apply'', apply_bulk rq),
     (Get, (=) ''/_authboundry/policies'', viewing policies_view),
     (Get, starts_with ''/_authboundry/policies/'', viewing (policy_view path)),
     (Get, (=) ''/_authboundry/authorization/decisions'', viewing authorization_decisions_view),
     (Get, (=) ''/_authboundry/authorization/explain'', viewing authorization_explain_view),
     (Get, under ''/_authboundry/authorization/decisions/'' ''/explain'',
       viewing (authorization_decision_explain_view path)),
     (Get, starts_with ''/_authboundry/authorization/decisions/'', viewing (authorization_decision_view path)),
     (Get, (=) ''/_authboundry/providers'', viewing providers_view),
     (Get, (=) ''/_authboundry/agents'', agents_view rq),
     (Post, (=) ''/_authboundry/agents'', create_agent rq),
     (Get, under ''/_authboundry/agents/'' ''/runs'', agent_runs_view path rq),
     (Post, under ''/_authboundry/agents/'' ''/runs'', create_agent_run_route out path rq),
     (Get, starts_with ''/_authboundry/runs/'', agent_run_view path rq),
     (Post, under ''/_authboundry/runs/'' ''/cancel'', cancel_agent_run_route out path rq),
     (Get, starts_with ''/_authboundry/agents/'', agent_view path rq),
     (Post, under ''/_authboundry/agents/'' ''/suspend'', set_agent_state_route out path rq StateSuspended),
     (Post, under ''/_authboundry/agents/'' ''/revoke'', set_agent_state_route out path rq StateRevoked),
     (Post, under ''/_authboundry/agents/'' ''/retire'', set_agent_state_route out path rq StateRetired),
     (Get, (=) ''/_authboundry/delegations'', delegations_view rq),
     (Post, (=) ''/_authboundry/delegations'', create_delegation_route out rq),
     (Get, starts_with ''/_authboundry/delegations/'', delegation_view path rq),
     (Post, under ''/_authboundry/delegations/'' ''/revoke'', revoke_delegation_route out path rq),
     (Post, (=) ''/_authboundry/propose'', propose_route hs rq),
     (Post, (=) ''/_authboundry/approve'', approve_route rq),
     (Post, (=) ''/_authboundry/apply'', apply_route hs rq),
     (Post, (=) ''/_authboundry/reject'', reject_route rq),
     (Post, (=) ''/_authboundry/revert'', revert_route hs rq),
     (Get, (=) ''/_authboundry/history'', history_view rq),
     (Get, (=) ''/_authboundry/proposals'', proposals_view rq),
     (Get, starts_with ''/_authboundry/proposals/'', proposal_view path)]"

definition handle_control_route ::
  "('l, 'm) Outside \<Rightarrow> Hashing \<Rightarrow> RouteCandidate list \<Rightarrow> string \<Rightarrow> HttpRequest \<Rightarrow> ('l, 'm) handler option" where
  "handle_control_route out hs observed path rq =
     map_option (\<lambda>(_, _, h). h) (find (\<lambda>(m, covers, _). m = hq_method rq \<and> covers path)
       (control_arms out hs observed path rq))"

end
