(* ===== verification/ControlPlane.thy ===== *)
theory ControlPlane
  imports ControlRoutes AuthoritySpec
begin

text \<open>
  What requests to the control plane can do, over the definitions of \<open>ControlRoutes\<close>: which of
  them change the live authority, that whatever they do is a run of the authority machine, what
  they do not ask for, and how their bodies are read.
\<close>

subsection \<open>What a handler leaves of the control state\<close>

definition same_control :: "('l, 'm) Runtime \<Rightarrow> ('l, 'm) Runtime \<Rightarrow> bool" where
  "same_control s t \<longleftrightarrow> ct_contract t = ct_contract s \<and> ct_authority t = ct_authority s
     \<and> ct_proposals t = ct_proposals s"

lemma same_control_refl [simp]: "same_control s s"
  by (simp add: same_control_def)

lemma preserves_same_control [eff_preserves]:
  "preserves (same_control s0) now" "preserves (same_control s0) system_now"
  "preserves (same_control s0) (zoom rt_mesh (\<lambda>c s. s\<lparr>rt_mesh := c\<rparr>) m)" "preserves (same_control s0) (on_mesh n)"
  unfolding on_mesh_def
  by (rule preserves_zoom | simp add: preserves_def now_def system_now_def same_control_def)+

lemma framed: "preserves (same_control s) m \<Longrightarrow> same_control s (snd (m s))"
  by (rule preserves_snd) simp_all

definition applying :: "Method \<Rightarrow> string \<Rightarrow> bool" where
  "applying m path \<longleftrightarrow> m = Post \<and> (path = ''/_authboundry/apply'' \<or> path = ''/_authboundry/authority-proposals/apply''
     \<or> under ''/_authboundry/authority-proposal/'' ''/apply'' path)"

lemma handle_control_route_Some:
  assumes "handle_control_route out hs observed path rq = Some h"
  obtains c where "(hq_method rq, c, h) \<in> set (control_arms out hs observed path rq)" "c path"
  using assms find_SomeD by (fastforce simp: handle_control_route_def)

text \<open>
  A relation between the runtime before and after that every operation respects short of
  applying a change; and one that applying respects as well.
\<close>

locale control_effect =
  fixes R :: "('l, 'm) Runtime \<Rightarrow> ('l, 'm) Runtime \<Rightarrow> bool"
  assumes frame: "same_control s t \<Longrightarrow> R s t"
    and trans: "R s t \<Longrightarrow> R t u \<Longrightarrow> R s u"
    and propose: "R s (snd (propose_change_with_metadata c source disc s))"
    and ensure: "R s (snd (ensure_proposal c source disc s))"
    and approve: "R s (snd (approve_stored_proposal i s))"
    and reject: "R s (snd (reject_stored_proposal i reason s))"
begin

definition keeps :: "('l, 'm) handler \<Rightarrow> bool" where
  "keeps h \<longleftrightarrow> (\<forall>s. R s (snd (h s)))"

lemma refl: "R s s"
  by (simp add: frame)

lemma keeps_viewing: "keeps (viewing f)"
  by (simp add: keeps_def viewing_def refl)

lemma keeps_responding: "keeps (responding r)"
  by (simp add: keeps_def responding_def refl)

lemma keeps_needing: "(\<And>x. keeps (k x)) \<Longrightarrow> keeps (needing what v k)"
  by (cases v) (simp_all add: needing_def keeps_responding)

lemma keeps_in_tenant: "(\<And>t. keeps (k t)) \<Longrightarrow> keeps (in_tenant rq k)"
  unfolding in_tenant_def by (rule keeps_needing) (simp add: keeps_def refl split: sum.split)

lemma keeps_if: "keeps h \<Longrightarrow> keeps g \<Longrightarrow> keeps (if b then h else g)"
  by simp

lemma snd_answering: "snd (answering bad good m s) = snd (m s)"
  by (simp add: answering_def split: prod.split sum.split)

lemma snd_proposing: "snd (proposing good m s) = snd (m s)"
  by (simp add: proposing_def split: prod.split sum.split)

lemma keeps_framed: "(\<And>s. preserves (same_control s) m) \<Longrightarrow> keeps (answering bad good m)"
  unfolding keeps_def snd_answering using framed frame by blast

lemma keeps_proposing: "(\<And>s. R s (snd (m s))) \<Longrightarrow> keeps (proposing good m)"
  by (simp add: keeps_def snd_proposing)

lemma approve_all_keeps: "R s (snd (approve_all is s))"
proof (induction "is" arbitrary: s)
  case (Cons i "is")
  have "R s (snd (andThen (approve_stored_proposal i) (\<lambda>_. approve_all is) s))"
  proof (rule snd_andThen [where Q = "R s"])
    show "R s (snd (approve_all is u))" if "approve_stored_proposal i s = (Inr x, u)" for x u
      using approve [of s i] Cons.IH [of u] trans that by (metis snd_conv)
    show "R s u" if "approve_stored_proposal i s = (Inl e, u)" for e u
      using approve [of s i] that by simp
  qed
  then show ?case by simp
qed (simp add: ok_def refl)

lemma attach_one_keeps: "R s (snd (attach_one disc current m s))"
  using ensure by (simp add: attach_one_def refl split: option.split prod.split sum.split) (metis snd_conv)

lemma attach_all_keeps: "R s (snd (attach_all disc current ms s))"
proof (induction ms arbitrary: s)
  case (Cons m ms)
  obtain m' s1 where 1: "(if rm_action m = ActionProtectRoute then attach_one disc current m s else (m, s)) = (m', s1)"
    by fastforce
  have "R s s1" using 1 attach_one_keeps [of s disc current m] refl [of s] by (auto split: if_splits)
  with trans Cons.IH [of s1] 1 show ?case by (simp add: Let_def split: prod.split) (metis snd_conv)
qed (simp add: refl)

lemma reconciliation_keeps: "R s (snd (reconciliation_result hs observed s))"
  using attach_all_keeps by (simp add: reconciliation_result_def Let_def split: prod.split) (metis snd_conv)

lemma keeps_discovery:
  "keeps (authority_proposal hs observed)" "keeps (authority_reconciliation hs observed)"
  "keeps (authority_drift hs observed)"
  using attach_all_keeps reconciliation_keeps
  by (simp_all add: keeps_def authority_proposal_def authority_reconciliation_def authority_drift_def Let_def
      split: prod.split) (metis snd_conv)+

lemma keeps_propose: "keeps (propose_route hs rq)"
proof (cases "parse_authority_change rq")
  case (Inl e)
  then show ?thesis by (simp add: propose_route_def keeps_responding)
next
  case (Inr c)
  then show ?thesis by (simp add: propose_route_def keeps_def snd_answering propose_change_def propose)
qed

lemmas keeps_structure = keeps_viewing keeps_responding keeps_needing keeps_in_tenant keeps_if

lemma keeps_proposals:
  "keeps (approve_route rq)" "keeps (reject_route rq)" "keeps (approve_authority_proposal path)"
  "keeps (approve_bulk rq)" "keeps (revert_route hs rq)" "keeps (history_view rq)" "keeps (proposals_view rq)"
  "keeps (proposal_view path)"
  unfolding approve_route_def reject_route_def approve_authority_proposal_def approve_bulk_def revert_route_def
    history_view_def proposals_view_def proposal_view_def Let_def
  by (intro keeps_structure keeps_proposing approve reject approve_all_keeps keeps_propose)+

lemma keeps_change_state: "preserves (same_control s0) (change_agent_state out tid agent state)"
  unfolding change_agent_state_def by (cases state; simp; intro eff_preserves)

lemma keeps_agents:
  "keeps overview" "keeps (audit_events_view out rq)" "keeps (audit_export out rq)" "keeps (agents_view rq)"
  "keeps (agent_view path rq)" "keeps (create_agent rq)" "keeps (agent_runs_view path rq)"
  "keeps (agent_run_view path rq)" "keeps (create_agent_run_route out path rq)"
  "keeps (cancel_agent_run_route out path rq)" "keeps (set_agent_state_route out path rq state)"
  "keeps (delegations_view rq)" "keeps (delegation_view path rq)" "keeps (create_delegation_route out rq)"
  "keeps (revoke_delegation_route out path rq)"
  unfolding overview_def audit_events_view_def audit_export_def agents_view_def agent_view_def create_agent_def
    agent_runs_view_def agent_run_view_def create_agent_run_route_def cancel_agent_run_route_def
    set_agent_state_route_def delegations_view_def delegation_view_def create_delegation_route_def
    revoke_delegation_route_def Let_def runtime_create_agent_run_def runtime_cancel_agent_run_def
  by (intro keeps_structure keeps_framed eff_preserves keeps_change_state; simp add: case_prod_unfold eff_preserves)+

text \<open>Of the arms only those that apply are not covered.\<close>

lemma arms_keep:
  "list_all (\<lambda>(m, covers, h). keeps h \<or> (\<forall>p. covers p \<longrightarrow> applying m p)) (control_arms out hs observed path rq)"
  unfolding control_arms_def list.pred_inject case_prod_conv
  by (simp add: keeps_viewing keeps_discovery keeps_propose keeps_proposals keeps_agents applying_def)

lemma route_keeps:
  assumes "handle_control_route out hs observed path rq = Some h" "\<not> applying (hq_method rq) path"
  shows "R s (snd (h s))"
proof -
  obtain c where "(hq_method rq, c, h) \<in> set (control_arms out hs observed path rq)" "c path"
    by (rule handle_control_route_Some [OF assms(1)])
  with arms_keep [of out hs observed path rq] assms(2) have "keeps h" by (force simp: list_all_iff)
  then show ?thesis by (simp add: keeps_def)
qed

end

locale control_effect_applying = control_effect R for R :: "('l, 'm) Runtime \<Rightarrow> ('l, 'm) Runtime \<Rightarrow> bool" +
  assumes applies: "R s (snd (apply_stored_proposal hs i a s))"
    and apply_approved: "R s (snd (apply_approved_stored_proposal hs i s))"
    and batch: "R s (snd (apply_approved_stored_proposals is s))"
begin

lemma keeps_applying:
  "keeps (apply_route hs rq)" "keeps (apply_authority_proposal hs path)" "keeps (apply_bulk rq)"
  unfolding apply_route_def apply_authority_proposal_def apply_bulk_def Let_def
  by (intro keeps_structure keeps_proposing applies apply_approved batch;
      simp add: applies apply_approved batch split: option.split)+

lemma all_arms_keep: "list_all (\<lambda>(m, covers, h). keeps h) (control_arms out hs observed path rq)"
  unfolding control_arms_def list.pred_inject case_prod_conv
  by (simp add: keeps_viewing keeps_discovery keeps_propose keeps_proposals keeps_agents keeps_applying)

lemma every_route_keeps:
  assumes "handle_control_route out hs observed path rq = Some h"
  shows "R s (snd (h s))"
proof -
  obtain c where "(hq_method rq, c, h) \<in> set (control_arms out hs observed path rq)" "c path"
    by (rule handle_control_route_Some [OF assms])
  with all_arms_keep [of out hs observed path rq] have "keeps h" by (force simp: list_all_iff)
  then show ?thesis by (simp add: keeps_def)
qed

end

subsection \<open>The contract on the model\<close>

lemma preserves_standing [eff_preserves]:
  "preserves (\<lambda>t. ct_authority t = a \<and> ct_contract t = c) system_now"
  "preserves (\<lambda>t. ct_authority t = a \<and> ct_contract t = c) (on_proposals m)"
  unfolding on_proposals_def
  by (simp add: preserves_def system_now_def, rule preserves_zoom, simp)

lemma standing_propose:
  "preserves (\<lambda>t. ct_authority t = a \<and> ct_contract t = c) (propose_change_with_metadata ch source disc)"
  unfolding propose_change_with_metadata_def Let_def by (intro eff_preserves)

lemma standing_ensure: "preserves (\<lambda>t. ct_authority t = a \<and> ct_contract t = c) (ensure_proposal ch source disc)"
  unfolding ensure_proposal_def by (intro eff_preserves standing_propose)

lemma standing_approve: "preserves (\<lambda>t. ct_authority t = a \<and> ct_contract t = c) (approve_stored_proposal i)"
  unfolding approve_stored_proposal_def Let_def
  by (intro preserves_andThen preserves_reading, case_tac "sp_status x") (simp_all add: eff_preserves)

lemma standing_reject: "preserves (\<lambda>t. ct_authority t = a \<and> ct_contract t = c) (reject_stored_proposal i reason)"
  unfolding reject_stored_proposal_def
  by (intro preserves_andThen preserves_reading, case_tac "sp_status x") (simp_all add: eff_preserves)

interpretation standing: control_effect "\<lambda>s t. ct_authority t = ct_authority s \<and> ct_contract t = ct_contract s"
proof (unfold_locales, goal_cases)
  case (3 s c source disc)
  show ?case by (rule preserves_snd [OF standing_propose]) simp
next
  case (4 s c source disc)
  show ?case by (rule preserves_snd [OF standing_ensure]) simp
next
  case (5 s i)
  show ?case by (rule preserves_snd [OF standing_approve]) simp
next
  case (6 s i reason)
  show ?case by (rule preserves_snd [OF standing_reject]) simp
qed (simp_all add: same_control_def)

lemma refines_trans: "refines s t \<Longrightarrow> refines t u \<Longrightarrow> refines s u"
  unfolding refines_def by (meson rtranclp_trans)

lemma refines_frame: "same_control s t \<Longrightarrow> refines s t"
  unfolding refines_def same_control_def simulates_def by (metis rtranclp.rtrancl_refl)

interpretation refining: control_effect_applying refines
  by unfold_locales
    (erule refines_frame, erule (1) refines_trans,
     (rule control_step_refines, rule control_step.intros)+)

interpretation proposals_kept: control_effect_applying sound_move
proof (unfold_locales, goal_cases)
  case (1 s t)
  then show ?case using sound_move_frame [of t s] by (simp add: same_control_def)
next
  case (2 s t u)
  then show ?case by (rule sound_move_trans)
qed (rule sound_move_propose sound_move_ensure sound_move_approve sound_move_reject sound_move_apply
    sound_move_apply_approved sound_move_batch)+

text \<open>
  Of all requests to the control plane, with any content, only those that ask for applying a
  proposal can change the authority in force: the POST requests to apply one by its id or in the
  body, and to apply a batch. No request changes the contract.
\<close>

theorem only_applying_changes_authority:
  assumes "handle_control_route out hs observed path rq = Some h" "\<not> applying (hq_method rq) path"
  shows "live_authority (snd (h s)) = live_authority s \<and> ct_contract (snd (h s)) = ct_contract s"
  using standing.route_keeps [OF assms] by (simp add: live_authority_def)

inductive control_request ::
  "('l, 'm) Outside \<Rightarrow> Hashing \<Rightarrow> RouteCandidate list \<Rightarrow> ('l, 'm) Runtime \<Rightarrow> ('l, 'm) Runtime \<Rightarrow> bool"
  for out hs observed where
  request: "handle_control_route out hs observed path rq = Some h \<Longrightarrow> control_request out hs observed s (snd (h s))"

inductive_cases control_requestE: "control_request out hs observed s s'"

interpretation control_plane: simulation "control_request out hs observed" amends simulates for out hs observed
proof (unfold_locales, goal_cases)
  case (1 s x s')
  from 1(2) have "refines s s'" by (cases rule: control_request.cases) (simp add: refining.every_route_keeps)
  with 1(1) show ?case unfolding refines_def by blast
qed

lemma control_requests_sound:
  "(control_request out hs observed)\<^sup>*\<^sup>* s s' \<Longrightarrow> sound_move s s'"
proof (induction rule: rtranclp_induct)
  case (step t u)
  then have "sound_move t u" by (auto elim!: control_requestE simp: proposals_kept.every_route_keeps)
  with step.IH show ?case by (rule sound_move_trans)
qed simp

text \<open>
  The control plane over HTTP implements the authority machine: whatever requests arrive in
  whatever order, answered or refused, the authority in force goes only through single changes
  and restorations of authorities that were in force before, each under the next revision;
  proposals keep their change and, once applied or rejected, their status; and every record of
  the history holds one change.
\<close>

theorem requests_refine_machine:
  assumes "(control_request out hs observed)\<^sup>*\<^sup>* s s'" "simulates s (a, past)" "proposals_keyed s" "history_sound s"
  shows "\<exists>b past'. amends\<^sup>*\<^sup>* (a, past) (b, past') \<and> live_authority s' = b \<and> simulates s' (b, past')
    \<and> moves s s' \<and> history_sound s'"
proof -
  obtain y where "amends\<^sup>*\<^sup>* (a, past) y" "simulates s' y"
    using control_plane.simulate_star [OF assms(1,2)] by blast
  moreover have "moves s s'" "history_sound s'"
    using control_requests_sound [OF assms(1)] assms(3,4) by (simp_all add: sound_move_def)
  ultimately show ?thesis by (cases y) (auto simp: simulates_def live_authority_def)
qed

lemma blind_reads [simp]:
  "body_text (rq\<lparr>hq_headers := headers, hq_cookies := cookies\<rparr>) = body_text rq"
  "request_value (rq\<lparr>hq_headers := headers, hq_cookies := cookies\<rparr>) name = request_value rq name"
  "events_asked (rq\<lparr>hq_headers := headers, hq_cookies := cookies\<rparr>) n = events_asked rq n"
  "pagination (rq\<lparr>hq_headers := headers, hq_cookies := cookies\<rparr>) = pagination rq"
  by (simp_all add: body_text_def request_value_def events_asked_def pagination_def)

lemma blind_in_tenant [simp]:
  "in_tenant (rq\<lparr>hq_headers := headers, hq_cookies := cookies\<rparr>) k = in_tenant rq k"
  by (simp add: in_tenant_def)

lemma blind_propose:
  "propose_route hs (rq\<lparr>hq_headers := headers, hq_cookies := cookies\<rparr>) = propose_route hs rq"
  by (simp add: propose_route_def parse_authority_change_def)

lemma blind_revert:
  "revert_route hs (rq\<lparr>hq_headers := headers, hq_cookies := cookies\<rparr>) = revert_route hs rq"
proof -
  have "rq\<lparr>hq_headers := headers, hq_cookies := cookies, hq_body := b\<rparr>
      = (rq\<lparr>hq_body := b\<rparr>)\<lparr>hq_headers := headers, hq_cookies := cookies\<rparr>" for b by simp
  then show ?thesis unfolding revert_route_def blind_reads by (simp only: blind_propose)
qed

lemma blind_handlers:
  "audit_events_view out (rq\<lparr>hq_headers := headers, hq_cookies := cookies\<rparr>) = audit_events_view out rq"
  "audit_export out (rq\<lparr>hq_headers := headers, hq_cookies := cookies\<rparr>) = audit_export out rq"
  "agents_view (rq\<lparr>hq_headers := headers, hq_cookies := cookies\<rparr>) = agents_view rq"
  "agent_view path (rq\<lparr>hq_headers := headers, hq_cookies := cookies\<rparr>) = agent_view path rq"
  "create_agent (rq\<lparr>hq_headers := headers, hq_cookies := cookies\<rparr>) = create_agent rq"
  "agent_runs_view path (rq\<lparr>hq_headers := headers, hq_cookies := cookies\<rparr>) = agent_runs_view path rq"
  "agent_run_view path (rq\<lparr>hq_headers := headers, hq_cookies := cookies\<rparr>) = agent_run_view path rq"
  "create_agent_run_route out path (rq\<lparr>hq_headers := headers, hq_cookies := cookies\<rparr>) = create_agent_run_route out path rq"
  "cancel_agent_run_route out path (rq\<lparr>hq_headers := headers, hq_cookies := cookies\<rparr>) = cancel_agent_run_route out path rq"
  "set_agent_state_route out path (rq\<lparr>hq_headers := headers, hq_cookies := cookies\<rparr>) state = set_agent_state_route out path rq state"
  "delegations_view (rq\<lparr>hq_headers := headers, hq_cookies := cookies\<rparr>) = delegations_view rq"
  "delegation_view path (rq\<lparr>hq_headers := headers, hq_cookies := cookies\<rparr>) = delegation_view path rq"
  "create_delegation_route out (rq\<lparr>hq_headers := headers, hq_cookies := cookies\<rparr>) = create_delegation_route out rq"
  "revoke_delegation_route out path (rq\<lparr>hq_headers := headers, hq_cookies := cookies\<rparr>) = revoke_delegation_route out path rq"
  "apply_route hs (rq\<lparr>hq_headers := headers, hq_cookies := cookies\<rparr>) = apply_route hs rq"
  "approve_route (rq\<lparr>hq_headers := headers, hq_cookies := cookies\<rparr>) = approve_route rq"
  "reject_route (rq\<lparr>hq_headers := headers, hq_cookies := cookies\<rparr>) = reject_route rq"
  "approve_bulk (rq\<lparr>hq_headers := headers, hq_cookies := cookies\<rparr>) = approve_bulk rq"
  "apply_bulk (rq\<lparr>hq_headers := headers, hq_cookies := cookies\<rparr>) = apply_bulk rq"
  "history_view (rq\<lparr>hq_headers := headers, hq_cookies := cookies\<rparr>) = history_view rq"
  "proposals_view (rq\<lparr>hq_headers := headers, hq_cookies := cookies\<rparr>) = proposals_view rq"
  unfolding audit_events_view_def audit_export_def agents_view_def agent_view_def create_agent_def asked_agent_def
    agent_runs_view_def agent_run_view_def create_agent_run_route_def cancel_agent_run_route_def
    set_agent_state_route_def delegations_view_def delegation_view_def create_delegation_route_def
    revoke_delegation_route_def apply_route_def approve_route_def reject_route_def approve_bulk_def apply_bulk_def
    history_view_def proposals_view_def blind_reads blind_in_tenant
  by (rule refl | simp)+

text \<open>
  C25. The control plane asks nobody who they are: what a request does and answers does not
  depend on its headers and cookies, so that a session, a credential or their absence make no
  difference.
\<close>

theorem control_plane_asks_for_no_credential:
  "handle_control_route out hs observed path (rq\<lparr>hq_headers := headers, hq_cookies := cookies\<rparr>)
     = handle_control_route out hs observed path rq"
proof -
  have "control_arms out hs observed path (rq\<lparr>hq_headers := headers, hq_cookies := cookies\<rparr>)
      = control_arms out hs observed path rq"
    unfolding control_arms_def by (simp only: blind_handlers blind_propose blind_revert)
  then show ?thesis by (simp add: handle_control_route_def)
qed

subsection \<open>What a body is read as\<close>

lemma starts_with_Nil [simp]: "starts_with [] s"
  by (simp add: starts_with_def)

lemma starts_with_Cons [simp]: "starts_with (c # p) (d # s) \<longleftrightarrow> c = d \<and> starts_with p s"
  by (auto simp: starts_with_def)

text \<open>What follows the first place of a text.\<close>

definition text_after :: "string \<Rightarrow> string \<Rightarrow> string option" where
  "text_after p s = map_option snd (split_once_str p s)"

lemma text_after_here [simp]: "text_after p (p @ s) = Some s"
proof (cases "p @ s")
  case (Cons c t)
  then have "starts_with p (c # t)" "drop (length p) (c # t) = s"
    by (metis starts_with_append, metis append_eq_conv_conj)
  then show ?thesis unfolding text_after_def Cons by simp
qed (simp add: text_after_def)

lemma text_after_step: "\<not> starts_with p (c # s) \<Longrightarrow> text_after p (c # s) = text_after p s"
  by (simp add: text_after_def option.map_comp comp_def case_prod_unfold)

lemma trim_start_space: "trim_start (CHR 0x20 # CHR 0x22 # s) = CHR 0x22 # s"
proof -
  have "[CHR 0x20] \<in> set white_space" by (simp add: white_space_def)
  moreover have "w \<noteq> [] \<and> (hd w = CHR 0x20 \<longrightarrow> w = [CHR 0x20])" if "w \<in> set white_space" for w
    using that by (auto simp: white_space_def)
  ultimately have "strip_seqs white_space (replicate 1 (CHR 0x20) @ CHR 0x22 # s) = strip_seqs white_space (CHR 0x22 # s)"
    by (rule strip_seqs_space)
  moreover have "strip_seqs white_space (CHR 0x22 # s) = CHR 0x22 # s"
    by (rule strip_seqs_plain) (use white_space_not_plain in \<open>auto simp: plain_def\<close>)
  ultimately show ?thesis by (simp add: trim_start_def)
qed

definition quoted_after :: "string option \<Rightarrow> string option" where
  "quoted_after r = Option.bind r (\<lambda>rest. Option.bind (strip_prefix dquote (trim_start rest))
     (\<lambda>rest. map_option fst (split_once (CHR 0x22) rest)))"

lemma extract_quoted_field_after: "extract_quoted_field s n = quoted_after (text_after (field_pattern n) s)"
  by (simp add: extract_quoted_field_def after_field_def quoted_after_def text_after_def case_prod_unfold
      option.map_comp comp_def split: option.split)
    (cases "split_once_str (field_pattern n) s"; simp)

lemma quoted_after_value: "CHR 0x22 \<notin> set v \<Longrightarrow> quoted_after (Some ('' '' @ dquote @ v @ dquote @ rest)) = Some v"
  using split_once_append [of "CHR 0x22" v rest]
  by (simp add: quoted_after_def dquote_def trim_start_space strip_prefix_def)

text \<open>The value of a field that is written as the boundary writes one, with a space after the colon.\<close>

lemma field_is_read:
  assumes "text_after (field_pattern n) s = Some ('' '' @ dquote @ v @ dquote @ rest)" "CHR 0x22 \<notin> set v"
  shows "extract_quoted_field s n = Some v"
  by (simp only: extract_quoted_field_after assms(1) quoted_after_value [OF assms(2)])

lemma contains_str_iff: "contains_str p s \<longleftrightarrow> (\<exists>a b. s = a @ p @ b)"
proof
  assume "contains_str p s"
  then obtain i where "starts_with p (drop i s)" unfolding contains_str_def list_ex_iff by blast
  then obtain b where "drop i s = p @ b" by (auto simp: starts_with_iff)
  then show "\<exists>a b. s = a @ p @ b" by (metis append_take_drop_id)
next
  assume "\<exists>a b. s = a @ p @ b"
  then obtain a b where s: "s = a @ p @ b" by blast
  then have "starts_with p (drop (length a) s)" by simp
  moreover have "length a \<in> set [0..<Suc (length s)]" unfolding s by simp
  ultimately show "contains_str p s" unfolding contains_str_def list_ex_iff by blast
qed

lemma change_method_text [simp]: "change_method (method_text m) = Inr m"
  by (cases m; hypsubst; code_simp)

lemma contains_str_set: "contains_str p s \<Longrightarrow> set p \<subseteq> set s"
  by (auto simp: contains_str_iff)

lemma protection_is_read:
  assumes "contains_str ''protect_route'' (body_text rq)"
    and "extract_quoted_field (body_text rq) ''method'' = Some (method_text m)"
    and "extract_quoted_field (body_text rq) ''path'' = Some path"
    and "extract_quoted_field (body_text rq) ''capability'' = Some cap"
  shows "parse_authority_change rq = Inr (ProtectRoute m path cap)"
  using assms by (simp add: parse_authority_change_def Let_def body_field_def ok_or_def rbind_def)

text \<open>
  The control plane cannot be asked to lift the protection of a route: the name of that
  change contains the name of protecting a route, which is looked for first. No request, whatever
  its body, is read as lifting a protection, and one that names a capability protects the route
  instead.
\<close>

theorem unprotect_is_read_as_protect:
  assumes "contains_str ''unprotect_route'' (body_text rq)"
    and "extract_quoted_field (body_text rq) ''method'' = Some (method_text m)"
    and "extract_quoted_field (body_text rq) ''path'' = Some path"
    and "extract_quoted_field (body_text rq) ''capability'' = Some cap"
  shows "parse_authority_change rq = Inr (ProtectRoute m path cap)
    \<and> (\<forall>any m' path'. parse_authority_change any \<noteq> Inr (UnprotectRoute m' path'))"
proof
  have named: "contains_str ''protect_route'' s" if "contains_str ''unprotect_route'' s" for s
  proof -
    obtain a b where "s = a @ ''unprotect_route'' @ b" using \<open>contains_str ''unprotect_route'' s\<close> contains_str_iff by blast
    then have "s = (a @ ''un'') @ ''protect_route'' @ b" by simp
    then show ?thesis unfolding contains_str_iff by blast
  qed
  show "parse_authority_change rq = Inr (ProtectRoute m path cap)"
    by (rule protection_is_read [OF named [OF assms(1)] assms(2-4)])
  show "\<forall>any m' path'. parse_authority_change any \<noteq> Inr (UnprotectRoute m' path')"
  proof (intro allI notI)
    fix any m' path' assume r: "parse_authority_change any = Inr (UnprotectRoute m' path')"
    have "contains_str ''unprotect_route'' (body_text any)" "\<not> contains_str ''protect_route'' (body_text any)"
      using r by (auto simp: parse_authority_change_def Let_def rbind_Inr split: if_splits)
    with named show False by blast
  qed
qed

text \<open>
  The ids of changes, of the characters that the runtime makes them of: as a value in the body of
  a revert such an id is written as it is, and adds no action's name to the body.
\<close>

definition change_id_text :: "string \<Rightarrow> bool" where
  "change_id_text i \<longleftrightarrow> set i \<subseteq> set ''change-rv0123456789''"

lemma made_change_ids: "change_id_text (''change-'' @ show_nat t @ ''-rev'' @ show_nat n)"
proof -
  have digits: "set ''0123456789'' = char_of ` set [48..<58::nat]" by code_simp
  have "set (show_nat k) \<subseteq> set ''0123456789''" for k
  proof
    fix c assume "c \<in> set (show_nat k)"
    from show_nat_digits [OF this] have "(of_char c :: nat) \<in> set [48..<58]" unfolding set_upt by simp
    then show "c \<in> set ''0123456789''" unfolding digits by (metis char_of_char image_eqI)
  qed
  moreover have "set ''0123456789'' \<subseteq> set ''change-rv0123456789''" "set ''change-'' \<subseteq> set ''change-rv0123456789''"
    "set ''-rev'' \<subseteq> set ''change-rv0123456789''" by code_simp+
  ultimately show ?thesis unfolding change_id_text_def set_append by blast
qed

lemma revert_is_read:
  assumes "change_id_text i"
  shows "parse_authority_change (rq\<lparr>hq_body := revert_body i\<rparr>) = Inr (Revert i)"
proof -
  have i: "c \<notin> set i" if "c \<notin> set ''change-rv0123456789''" for c
    using assms that unfolding change_id_text_def by (rule contra_subsetD)
  then have esc: "http_escape i = i" by (simp add: http_escape_def escape_def replace_char_absent)
  define rest where "rest = '' '' @ dquote @ i @ dquote @ ''}''"
  have body: "revert_body i = ''{'' @ json_key ''type'' @ dquote @ ''revert'' @ dquote @ '', ''
      @ field_pattern ''change_id'' @ rest"
    by (simp add: revert_body_def esc rest_def json_key_def field_pattern_def dquote_def)
  have "ascii ''change-rv0123456789''" by code_simp
  then have "ascii i" using assms unfolding change_id_text_def ascii_def by blast
  then have "ascii (revert_body i)" by (simp add: body rest_def ascii_def json_key_def field_pattern_def dquote_def)
  then have body_read: "body_text (rq\<lparr>hq_body := revert_body i\<rparr>) = revert_body i"
    by (simp add: body_text_def utf8_lossy_valid utf8_valid_ascii)
  have "text_after (field_pattern ''change_id'') (revert_body i) = Some rest"
    unfolding body by (simp add: text_after_def json_key_def field_pattern_def dquote_def)
  then have field: "extract_quoted_field (revert_body i) ''change_id'' = Some i"
    unfolding rest_def by (rule field_is_read) (rule i, simp)
  have "CHR ''o'' \<notin> set (revert_body i)"
    using i [of "CHR ''o''"] by (simp add: body rest_def json_key_def field_pattern_def dquote_def)
  then have none: "\<not> contains_str w (revert_body i)" if "CHR ''o'' \<in> set w" for w
    using that contains_str_set by blast
  have "revert_body i = (''{'' @ json_key ''type'' @ dquote) @ ''revert''
      @ dquote @ '', '' @ field_pattern ''change_id'' @ rest"
    unfolding body append_assoc ..
  then have "contains_str ''revert'' (revert_body i)" unfolding contains_str_iff by blast
  then show ?thesis
    by (simp add: parse_authority_change_def body_read none Let_def body_field_def field ok_or_def rbind_def)
qed

subsection \<open>From a post to the authority in force\<close>

definition proposal_path :: "string \<Rightarrow> string \<Rightarrow> string" where
  "proposal_path i ending = ''/_authboundry/authority-proposal/'' @ i @ ending"

lemma strip_seqs_other: "list_all (\<lambda>w. \<not> starts_with w s) ws \<Longrightarrow> strip_seqs ws s = s"
  by (subst strip_seqs.simps) (auto simp: list_all_iff find_Some_iff split: option.split)

lemma strip_seqs_one: "p \<noteq> [] \<Longrightarrow> strip_seqs [p] (p @ s) = strip_seqs [p] s"
  by (subst strip_seqs.simps) simp

lemma path_proposal_read:
  assumes "e = ''/approve'' \<or> e = ''/apply''"
  shows "path_proposal e (proposal_path (next_proposal_id s) e) = next_proposal_id s"
proof -
  define p where "p = ''/_authboundry/authority-proposal/''"
  let ?i = "next_proposal_id s"
  have "strip_seqs [p] (p @ ?i @ e) = strip_seqs [p] (?i @ e)"
    by (rule strip_seqs_one) (simp add: p_def)
  also have "\<dots> = ?i @ e"
    by (rule strip_seqs_other) (simp add: next_proposal_id_def p_def)
  finally have 1: "trim_start_matches p (p @ ?i @ e) = ?i @ e" by (simp add: trim_start_matches_def)
  have e: "rev e \<noteq> []" "hd (rev e) = CHR ''e'' \<or> hd (rev e) = CHR ''y''" using assms by auto
  have "is_digit (last ?i)"
    using show_nat_digits [OF last_in_set [OF show_nat_nonempty]] by (simp add: next_proposal_id_def is_digit_def)
  moreover have "?i \<noteq> []" by (simp add: next_proposal_id_def)
  ultimately have "\<not> starts_with (rev e) (rev ?i)"
    using e by (cases "rev e"; cases "rev ?i") (auto simp: is_digit_def last_rev hd_rev [symmetric])
  then have "strip_seqs [rev e] (rev ?i) = rev ?i" by (intro strip_seqs_other) simp
  then have "trim_end_matches e (?i @ e) = ?i"
    using strip_seqs_one [OF e(1), of "rev ?i"] by (simp add: trim_end_matches_def)
  with 1 show ?thesis by (simp add: path_proposal_def proposal_path_def p_def)
qed

lemma ends_with_rev: "ends_with e s \<longleftrightarrow> starts_with (rev e) (rev s)"
  by (simp add: ends_with_def strip_suffix_def strip_prefix_def)

lemma routed_propose:
  "hq_method rq = Post \<Longrightarrow> handle_control_route out hs observed ''/_authboundry/propose'' rq = Some (propose_route hs rq)"
  by (simp add: handle_control_route_def control_arms_def under_def)

lemma routed_approval:
  "hq_method rq = Post \<Longrightarrow> handle_control_route out hs observed (proposal_path i ''/approve'') rq
     = Some (approve_authority_proposal (proposal_path i ''/approve''))"
  by (simp add: handle_control_route_def control_arms_def under_def proposal_path_def ends_with_rev)

lemma routed_application:
  "hq_method rq = Post \<Longrightarrow> handle_control_route out hs observed (proposal_path i ''/apply'') rq
     = Some (apply_authority_proposal hs (proposal_path i ''/apply''))"
  by (simp add: handle_control_route_def control_arms_def under_def proposal_path_def ends_with_rev)

lemma posts_go_live:
  assumes "parse_authority_change rq = Inr c" "preview_authority_change (live_authority s) c s = Inr after"
    and "map_of (mp_proposals (ct_proposals s)) (next_proposal_id s) = None"
  obtains r1 s1 r2 s2 r3 s3 where "propose_route hs rq s = (r1, s1)" "hp_status r1 = 200"
    "live_authority s1 = live_authority s"
    "approve_authority_proposal (proposal_path (next_proposal_id s) ''/approve'') s1 = (r2, s2)" "hp_status r2 = 200"
    "live_authority s2 = live_authority s"
    "apply_authority_proposal hs (proposal_path (next_proposal_id s) ''/apply'') s2 = (r3, s3)" "hp_status r3 = 200"
    "live_authority s3 = after" "lv_revision after = lv_revision (live_authority s) + 1"
proof -
  obtain p s1 s2 cid s3 where 1: "propose_change c s = (Inr p, s1)" "cp_id p = next_proposal_id s"
    "live_authority s1 = live_authority s" "live_authority s2 = live_authority s"
    "approve_stored_proposal (cp_id p) s1 = (Inr (), s2)"
    "apply_approved_stored_proposal hs (cp_id p) s2 = (Inr (cid, lv_revision after), s3)" "live_authority s3 = after"
    "lv_revision after = lv_revision (live_authority s) + 1"
    using preview_applies [OF assms(2,3), of hs] by blast
  then show thesis
    by (intro that [of "response_ok_json (proposed_json hs p)" s1 "proposal_now (cp_id p) Approved" s2
          "response_ok_json (JObject (applied_json cid (lv_revision after)))" s3])
      (simp_all add: propose_route_def assms(1) answering_def approve_authority_proposal_def path_proposal_read
        apply_authority_proposal_def proposing_def Let_def proposal_now_def response_ok_json_def response_json_def
        response_new_def)
qed

text \<open>The authority that a protection puts in force.\<close>

lemma protection_accepted:
  obtains after where "preview_authority_change (live_authority s) (ProtectRoute m path cap) s = Inr after"
    "map_of (lv_route_protection after) (m, path) = Some \<lparr>pr_capability = Some cap\<rparr>"
  by (simp add: preview_authority_change_def changed_def Let_def)

lemma protection_goes_live:
  assumes c: "parse_authority_change rq = Inr (ProtectRoute m path cap)"
    and free: "map_of (mp_proposals (ct_proposals s)) (next_proposal_id s) = None"
  obtains r1 s1 r2 s2 r3 s3 where "propose_route hs rq s = (r1, s1)" "hp_status r1 = 200"
    "live_authority s1 = live_authority s"
    "approve_authority_proposal (proposal_path (next_proposal_id s) ''/approve'') s1 = (r2, s2)" "hp_status r2 = 200"
    "live_authority s2 = live_authority s"
    "apply_authority_proposal hs (proposal_path (next_proposal_id s) ''/apply'') s2 = (r3, s3)" "hp_status r3 = 200"
    "get_route_protection m path s3 = Some cap"
    "lv_revision (live_authority s3) = lv_revision (live_authority s) + 1"
proof -
  obtain after where after: "preview_authority_change (live_authority s) (ProtectRoute m path cap) s = Inr after"
    "map_of (lv_route_protection after) (m, path) = Some \<lparr>pr_capability = Some cap\<rparr>"
    by (rule protection_accepted)
  show thesis
    by (rule posts_go_live [OF c after(1) free, of hs])
      (use after in \<open>auto intro!: that simp: get_route_protection_def live_authority_def\<close>)
qed

text \<open>
  C8. A protection posted to the control plane goes live: when the body of a POST to propose is
  read as protecting a route with a capability, then that request, a POST to the approval and a
  POST to the application of the proposal it got are all answered with 200, and put the capability
  on the route at the next revision, the first two of them changing nothing in force. The second
  and the third may be any requests to their paths. The next proposal id must be one that no
  stored proposal has.
\<close>

theorem posted_protection_goes_live:
  assumes "parse_authority_change rq = Inr (ProtectRoute m path cap)"
    and "map_of (mp_proposals (ct_proposals s)) (next_proposal_id s) = None"
    and "hq_method rq = Post" "hq_method approval = Post" "hq_method application = Post"
  shows "\<exists>h1 h2 h3. handle_control_route out hs observed ''/_authboundry/propose'' rq = Some h1
    \<and> handle_control_route out hs observed (proposal_path (next_proposal_id s) ''/approve'') approval = Some h2
    \<and> handle_control_route out hs observed (proposal_path (next_proposal_id s) ''/apply'') application = Some h3
    \<and> (let (r1, s1) = h1 s; (r2, s2) = h2 s1; (r3, s3) = h3 s2 in
         hp_status r1 = 200 \<and> hp_status r2 = 200 \<and> hp_status r3 = 200
         \<and> live_authority s1 = live_authority s \<and> live_authority s2 = live_authority s
         \<and> get_route_protection m path s3 = Some cap
         \<and> lv_revision (live_authority s3) = lv_revision (live_authority s) + 1)"
  by (rule protection_goes_live [OF assms(1,2), of hs])
    (simp add: routed_propose routed_approval routed_application assms(3-5))

lemma routed_revert:
  "hq_method rq = Post \<Longrightarrow> handle_control_route out hs observed ''/_authboundry/revert'' rq = Some (revert_route hs rq)"
  by (simp add: handle_control_route_def control_arms_def under_def)

lemma posted_revert_proposes:
  assumes "extract_quoted_field (body_text rq) ''change_id'' = Some i" "change_id_text i"
  obtains rq' where "revert_route hs rq s = propose_route hs rq' s" "parse_authority_change rq' = Inr (Revert i)"
  using revert_is_read [OF assms(2)] assms(1) by (auto simp: revert_route_def needing_def intro: that)

lemma revert_accepted:
  assumes "retrieve_change_record i (ct_proposals s) = Inr r" "ch_change_id r = i"
    and "lv_revision (ch_resulting_state r) \<le> lv_revision (live_authority s)"
  shows "preview_authority_change (live_authority s) (Revert i) s
    = Inr ((ch_previous_state r)\<lparr>lv_revision := lv_revision (live_authority s) + 1\<rparr>)"
  using assms by (simp add: preview_authority_change_def apply_revert_change_def next_revision_def rbind_def)

text \<open>
  C24. An applied change can be taken back through the control plane: when the body of a POST to
  revert names the id of a change on record, then that request, a POST to the approval and a POST
  to the application of the proposal it got are all answered with 200, and put back in force the
  authority from before that change, whatever came after it, under the next revision; the first
  two change nothing in force. The control plane writes the id into a body of its own and reads it
  from there again. The id is of the characters that ids of changes are made of, the record is
  stored under its own id and led to no later revision than the one in force, and the next
  proposal id is one that no stored proposal has.
\<close>

theorem posted_revert_restores:
  assumes "extract_quoted_field (body_text rq) ''change_id'' = Some i" "change_id_text i"
    and "retrieve_change_record i (ct_proposals s) = Inr r" "ch_change_id r = i"
    and "lv_revision (ch_resulting_state r) \<le> lv_revision (live_authority s)"
    and "map_of (mp_proposals (ct_proposals s)) (next_proposal_id s) = None"
    and "hq_method rq = Post" "hq_method approval = Post" "hq_method application = Post"
  shows "\<exists>h1 h2 h3. handle_control_route out hs observed ''/_authboundry/revert'' rq = Some h1
    \<and> handle_control_route out hs observed (proposal_path (next_proposal_id s) ''/approve'') approval = Some h2
    \<and> handle_control_route out hs observed (proposal_path (next_proposal_id s) ''/apply'') application = Some h3
    \<and> (let (r1, s1) = h1 s; (r2, s2) = h2 s1; (r3, s3) = h3 s2 in
         hp_status r1 = 200 \<and> hp_status r2 = 200 \<and> hp_status r3 = 200
         \<and> live_authority s1 = live_authority s \<and> live_authority s2 = live_authority s
         \<and> live_authority s3 = (ch_previous_state r)\<lparr>lv_revision := lv_revision (live_authority s) + 1\<rparr>)"
proof (rule posted_revert_proposes [OF assms(1,2), of hs s])
  fix rq' assume rq': "revert_route hs rq s = propose_route hs rq' s" "parse_authority_change rq' = Inr (Revert i)"
  show ?thesis
    by (rule posts_go_live [OF rq'(2) revert_accepted [OF assms(3-5)] assms(6), of hs])
      (simp add: routed_revert routed_approval routed_application assms(7-9) rq'(1))
qed

definition sample_post :: "string \<Rightarrow> HttpRequest" where
  "sample_post body = \<lparr>hq_method = Post, hq_target = ''/'', hq_path = ''/'', hq_query = [],
     hq_headers = [], hq_cookies = [], hq_body = body\<rparr>"

text \<open>A body with the fields of a change, and one that names a change.\<close>

definition sample_body :: "string \<Rightarrow> string" where
  "sample_body type = ''{'' @ json_key ''type'' @ quoted type @ '', '' @ json_key ''method'' @ quoted ''GET''
     @ '', '' @ json_key ''path'' @ quoted ''/invoices'' @ '', '' @ json_key ''capability'' @ quoted ''invoice.read'' @ ''}''"

lemma sample_body_read:
  assumes "type \<in> {''protect_route'', ''unprotect_route''}"
  shows "body_text (sample_post (sample_body type)) = sample_body type"
    "contains_str type (sample_body type)"
    "extract_quoted_field (sample_body type) ''method'' = Some (method_text Get)"
    "extract_quoted_field (sample_body type) ''path'' = Some ''/invoices''"
    "extract_quoted_field (sample_body type) ''capability'' = Some ''invoice.read''"
proof -
  have "utf8_valid (sample_body type)" "contains_str type (sample_body type)"
    "text_after (field_pattern ''method'') (sample_body type) = Some ('' '' @ dquote @ ''GET'' @ dquote
       @ '', '' @ json_key ''path'' @ quoted ''/invoices'' @ '', '' @ json_key ''capability'' @ quoted ''invoice.read'' @ ''}'')"
    "text_after (field_pattern ''path'') (sample_body type) = Some ('' '' @ dquote @ ''/invoices'' @ dquote
       @ '', '' @ json_key ''capability'' @ quoted ''invoice.read'' @ ''}'')"
    "text_after (field_pattern ''capability'') (sample_body type) = Some ('' '' @ dquote @ ''invoice.read'' @ dquote @ ''}'')"
    using assms by (elim insertE emptyE; hypsubst; code_simp)+
  note facts = this
  show "body_text (sample_post (sample_body type)) = sample_body type"
    by (simp add: body_text_def sample_post_def utf8_lossy_valid facts(1))
  show "contains_str type (sample_body type)" by (rule facts(2))
  show "extract_quoted_field (sample_body type) ''method'' = Some (method_text Get)"
    using field_is_read [OF facts(3)] by (simp add: method_text_def)
  show "extract_quoted_field (sample_body type) ''path'' = Some ''/invoices''"
    using field_is_read [OF facts(4)] by simp
  show "extract_quoted_field (sample_body type) ''capability'' = Some ''invoice.read''"
    using field_is_read [OF facts(5)] by simp
qed

definition sample_change :: HttpRequest where
  "sample_change = sample_post (sample_body ''protect_route'')"

lemma sample_change_parts [simp]:
  "parse_authority_change sample_change = Inr (ProtectRoute Get ''/invoices'' ''invoice.read'')"
  "hq_method sample_change = Post"
  "map_of (mp_proposals (ct_proposals sample_runtime)) (next_proposal_id sample_runtime) = None"
  using sample_body_read [of "''protect_route''"]
  by (simp_all add: sample_change_def protection_is_read)
    (simp_all add: sample_post_def sample_runtime_def proposal_store_new_def)

theorem posted_protection_goes_live_witness:
  "\<exists>h1 h2 h3. handle_control_route sample_outside sample_hashing [] ''/_authboundry/propose'' sample_change = Some h1
    \<and> handle_control_route sample_outside sample_hashing []
          (proposal_path (next_proposal_id sample_runtime) ''/approve'') sample_change = Some h2
    \<and> handle_control_route sample_outside sample_hashing []
          (proposal_path (next_proposal_id sample_runtime) ''/apply'') sample_change = Some h3
    \<and> (let (r1, s1) = h1 sample_runtime; (r2, s2) = h2 s1; (r3, s3) = h3 s2 in
         hp_status r3 = 200 \<and> get_route_protection Get ''/invoices'' s3 = Some ''invoice.read'')"
  using posted_protection_goes_live [of sample_change Get "''/invoices''" "''invoice.read''" sample_runtime
      sample_change sample_change sample_outside sample_hashing "[]"]
  by (simp add: case_prod_unfold Let_def) blast

text \<open>A runtime on revision 1, which it got by disabling a provider, and the request to take that back.\<close>

definition sample_disabled :: LiveAuthorityState where
  "sample_disabled = live_authority_new\<lparr>lv_revision := 1, lv_provider_state := [(''local'', \<lparr>pv_enabled = False\<rparr>)]\<rparr>"

definition sample_record :: ChangeRecord where
  "sample_record = \<lparr>ch_change_id = ''change-7-rev1'', ch_proposal_id = ''proposal-0'',
     ch_change = SetProviderEnabled ''local'' False, ch_previous_state = live_authority_new,
     ch_resulting_state = sample_disabled, ch_applied_at = 7, ch_applied_by = None, ch_reverted_change_id = None\<rparr>"

definition sample_changed_runtime :: "(MemoryAuditLog, MemoryMailPort) Runtime" where
  "sample_changed_runtime = sample_runtime\<lparr>ct_authority := sample_disabled,
     ct_proposals := proposal_store_new\<lparr>mp_changes := [(''change-7-rev1'', sample_record)]\<rparr>\<rparr>"

definition sample_revert :: HttpRequest where
  "sample_revert = sample_post (''{'' @ json_key ''change_id'' @ quoted ''change-7-rev1'' @ ''}'')"

theorem posted_revert_restores_witness:
  "\<exists>h1 h2 h3. handle_control_route sample_outside sample_hashing [] ''/_authboundry/revert'' sample_revert = Some h1
    \<and> handle_control_route sample_outside sample_hashing []
          (proposal_path (next_proposal_id sample_changed_runtime) ''/approve'') sample_revert = Some h2
    \<and> handle_control_route sample_outside sample_hashing []
          (proposal_path (next_proposal_id sample_changed_runtime) ''/apply'') sample_revert = Some h3
    \<and> (let (r1, s1) = h1 sample_changed_runtime; (r2, s2) = h2 s1; (r3, s3) = h3 s2 in
         live_authority s2 = sample_disabled \<and> live_authority s3 = live_authority_new\<lparr>lv_revision := 2\<rparr>)"
proof -
  let ?body = "''{'' @ json_key ''change_id'' @ quoted ''change-7-rev1'' @ ''}''"
  have "utf8_valid ?body"
    "text_after (field_pattern ''change_id'') ?body = Some ('' '' @ dquote @ ''change-7-rev1'' @ dquote @ ''}'')"
    by code_simp+
  then have "extract_quoted_field (body_text sample_revert) ''change_id'' = Some ''change-7-rev1''"
    using field_is_read [of "''change_id''" ?body "''change-7-rev1''" "''}''"]
    by (simp add: sample_revert_def sample_post_def body_text_def utf8_lossy_valid)
  moreover have "change_id_text ''change-7-rev1''" by (simp add: change_id_text_def)
  moreover have "retrieve_change_record ''change-7-rev1'' (ct_proposals sample_changed_runtime) = Inr sample_record"
    "ch_change_id sample_record = ''change-7-rev1''" "hq_method sample_revert = Post"
    "lv_revision (ch_resulting_state sample_record) \<le> lv_revision (live_authority sample_changed_runtime)"
    "map_of (mp_proposals (ct_proposals sample_changed_runtime)) (next_proposal_id sample_changed_runtime) = None"
    "live_authority sample_changed_runtime = sample_disabled" "ch_previous_state sample_record = live_authority_new"
    "lv_revision sample_disabled = 1"
    by (simp_all add: retrieve_change_record_def sample_changed_runtime_def sample_record_def sample_disabled_def
        sample_revert_def sample_post_def proposal_store_new_def live_authority_def)
  ultimately show ?thesis
    using posted_revert_restores [of sample_revert "''change-7-rev1''" sample_changed_runtime sample_record
        sample_revert sample_revert sample_outside sample_hashing "[]"]
    by (simp add: case_prod_unfold Let_def) blast
qed

theorem unprotect_is_read_as_protect_witness:
  "parse_authority_change (sample_post (sample_body ''unprotect_route''))
     = Inr (ProtectRoute Get ''/invoices'' ''invoice.read'')"
  using unprotect_is_read_as_protect [of "sample_post (sample_body ''unprotect_route'')" Get "''/invoices''" "''invoice.read''"]
    sample_body_read [of "''unprotect_route''"] by simp

theorem only_applying_changes_authority_witness:
  "\<exists>h. handle_control_route sample_outside sample_hashing [] ''/_authboundry/propose'' sample_change = Some h
     \<and> live_authority (snd (h sample_runtime)) = live_authority sample_runtime"
  using only_applying_changes_authority [OF routed_propose, of sample_change sample_hashing sample_runtime]
  by (auto simp: applying_def under_def routed_propose ends_with_rev)

theorem requests_refine_machine_witness:
  "\<exists>s' b past'. (control_request sample_outside sample_hashing [])\<^sup>*\<^sup>* sample_runtime s'
     \<and> amends\<^sup>*\<^sup>* (live_authority_new, {}) (b, past') \<and> live_authority s' = b \<and> lv_revision b = 1
     \<and> Option.bind (map_of (lv_route_protection b) (Get, ''/invoices'')) pr_capability = Some ''invoice.read''"
proof (rule protection_goes_live [OF sample_change_parts(1,3), of sample_hashing])
  fix r1 s1 r2 s2 r3 s3
  let ?i = "next_proposal_id sample_runtime"
  assume 1: "propose_route sample_hashing sample_change sample_runtime = (r1, s1)"
    "approve_authority_proposal (proposal_path ?i ''/approve'') s1 = (r2, s2)"
    "apply_authority_proposal sample_hashing (proposal_path ?i ''/apply'') s2 = (r3, s3)"
    and s3: "get_route_protection Get ''/invoices'' s3 = Some ''invoice.read''"
    "lv_revision (live_authority s3) = lv_revision (live_authority sample_runtime) + 1"
  note step = control_request.request [of sample_outside sample_hashing "[]"]
  have "control_request sample_outside sample_hashing [] sample_runtime s1"
    using step [OF routed_propose [where rq = sample_change], where s = sample_runtime] 1(1) by simp
  moreover have "control_request sample_outside sample_hashing [] s1 s2"
    using step [OF routed_approval [where rq = sample_change and i = ?i], where s = s1] 1(2) by simp
  moreover have "control_request sample_outside sample_hashing [] s2 s3"
    using step [OF routed_application [where rq = sample_change and i = ?i], where s = s2] 1(3) by simp
  ultimately have run: "(control_request sample_outside sample_hashing [])\<^sup>*\<^sup>* sample_runtime s3"
    by (meson r_into_rtranclp rtranclp_trans)
  have "simulates sample_runtime (live_authority_new, {})" "proposals_keyed sample_runtime" "history_sound sample_runtime"
    by (simp_all add: simulates_def proposals_keyed_def history_sound_def sample_runtime_def proposal_store_new_def)
  from requests_refine_machine [OF run this] run s3 show ?thesis
    by (auto simp: get_route_protection_def live_authority_def live_authority_new_def)
qed

end
