(* ===== verification/Recovery.thy ===== *)
theory Recovery
  imports Accounts
begin

text \<open>
  Facts of the account flows: what a password must be, that passwords change only for who
  holds a live token or the current password, that a token works once, that recovery does not
  tell accounts apart, and what a registration can and cannot choose.
\<close>

subsection \<open>Password policy\<close>

lemma length_concat_le: "list_all (\<lambda>x. length x \<le> n) xs \<Longrightarrow> length (concat xs) \<le> n * length xs"
  by (induction xs) auto

text \<open>A character takes at most four bytes, in a string that is UTF-8.\<close>

definition utf8_shaped :: "string \<Rightarrow> bool" where
  "utf8_shaped s \<longleftrightarrow> list_all (\<lambda>ch. length ch \<le> 4) (utf8_chars s)"

definition meets :: "string \<Rightarrow> PasswordPolicy \<Rightarrow> bool" where
  "meets pw pp \<longleftrightarrow> pw_min_length pp \<le> length (utf8_chars pw)
     \<and> length (utf8_chars pw) \<le> pw_max_length pp
     \<and> (pw_require_uppercase pp \<longrightarrow> (\<exists>c\<in>set pw. is_upper c))
     \<and> (pw_require_lowercase pp \<longrightarrow> (\<exists>c\<in>set pw. is_lower c))
     \<and> (pw_require_number pp \<longrightarrow> (\<exists>c\<in>set pw. is_digit c))
     \<and> (pw_require_special_character pp \<longrightarrow> (\<exists>ch\<in>set (utf8_chars pw). is_special ch))"

lemma validate_meets: "validate_password_with pw pp = Inr () \<longleftrightarrow> meets pw pp"
  by (auto simp: validate_password_with_def meets_def Let_def list_ex_iff)

text \<open>
  The requirements of a policy in their order: whether the password meets it, and the message and
  the diagnostic it is refused with when it is the first one it misses.
\<close>

definition requirements ::
  "string \<Rightarrow> PasswordPolicy \<Rightarrow> (bool \<times> string \<times> DenialReason) list" where
  "requirements pw pp = [
     (pw_min_length pp \<le> length (utf8_chars pw), ''PASSWORD_TOO_SHORT'', PasswordTooShort),
     (length (utf8_chars pw) \<le> pw_max_length pp, ''PASSWORD_TOO_LONG'', PasswordTooLong),
     (pw_require_uppercase pp \<longrightarrow> (\<exists>c\<in>set pw. is_upper c),
        ''PASSWORD_MISSING_UPPERCASE'', PasswordMissingUppercase),
     (pw_require_lowercase pp \<longrightarrow> (\<exists>c\<in>set pw. is_lower c),
        ''PASSWORD_MISSING_LOWERCASE'', PasswordMissingLowercase),
     (pw_require_number pp \<longrightarrow> (\<exists>c\<in>set pw. is_digit c),
        ''PASSWORD_MISSING_NUMBER'', PasswordMissingNumber),
     (pw_require_special_character pp \<longrightarrow> (\<exists>ch\<in>set (utf8_chars pw). is_special ch),
        ''PASSWORD_MISSING_SPECIAL_CHARACTER'', PasswordMissingSpecialCharacter)]"

lemma validate_first_missed:
  "validate_password_with pw pp = (case List.find (\<lambda>(met, _). \<not> met) (requirements pw pp) of
     None \<Rightarrow> Inr () | Some (_, message, diagnostic) \<Rightarrow> Inl (password_error message diagnostic))"
  by (simp add: validate_password_with_def requirements_def Let_def list_ex_iff not_le)

text \<open>
  C39. A password is accepted exactly when it meets every requirement of the policy, lengths
  counted in characters. A refused one is refused with the message and the diagnostic of the
  first requirement it misses, in the order: too short, too long, no upper case letter, no lower
  case letter, no digit, no special character. An accepted password has at least as many bytes
  as the policy wants characters and, when no character of it takes more than four bytes (as in
  every UTF-8 string), at most four times as many bytes as the policy allows characters.
\<close>

theorem password_bounds:
  "(validate_password_with pw pp = Inr () \<longleftrightarrow> meets pw pp)
   \<and> validate_password_with pw pp = (case List.find (\<lambda>(met, _). \<not> met) (requirements pw pp) of
        None \<Rightarrow> Inr () | Some (_, message, diagnostic) \<Rightarrow> Inl (password_error message diagnostic))
   \<and> (validate_password_with pw pp = Inr () \<longrightarrow> pw_min_length pp \<le> length pw)
   \<and> (validate_password_with pw pp = Inr () \<and> utf8_shaped pw \<longrightarrow> length pw \<le> 4 * pw_max_length pp)
   \<and> (length pw < pw_min_length pp
       \<longrightarrow> validate_password_with pw pp = Inl (password_error ''PASSWORD_TOO_SHORT'' PasswordTooShort))"
proof (intro conjI impI)
  show "validate_password_with pw pp = Inr () \<longleftrightarrow> meets pw pp" by (rule validate_meets)
  show "validate_password_with pw pp = (case List.find (\<lambda>(met, _). \<not> met) (requirements pw pp) of
      None \<Rightarrow> Inr () | Some (_, message, diagnostic) \<Rightarrow> Inl (password_error message diagnostic))"
    by (rule validate_first_missed)
  show "pw_min_length pp \<le> length pw" if "validate_password_with pw pp = Inr ()"
    using that utf8_chars_bound [of pw] by (simp add: validate_meets meets_def)
  show "length pw \<le> 4 * pw_max_length pp" if "validate_password_with pw pp = Inr () \<and> utf8_shaped pw"
    using that length_concat_le [of 4 "utf8_chars pw"]
    by (simp add: validate_meets meets_def utf8_shaped_def concat_utf8_chars)
  show "validate_password_with pw pp = Inl (password_error ''PASSWORD_TOO_SHORT'' PasswordTooShort)"
    if "length pw < pw_min_length pp"
    using that utf8_chars_bound [of pw] by (simp add: validate_password_with_def Let_def)
qed

text \<open>Under the default policy, and under one that also asks for a letter of each case and a digit.\<close>

theorem password_bounds_witness:
  "meets ''correct horse'' password_policy_default
   \<and> 12 \<le> length ''correct horse'' \<and> length ''correct horse'' \<le> 4 * 128
   \<and> validate_password_with ''short'' password_policy_default
      = Inl (password_error ''PASSWORD_TOO_SHORT'' PasswordTooShort)
   \<and> validate_password_with ''Correct horse'' (password_policy_default
        \<lparr>pw_require_uppercase := True, pw_require_lowercase := True, pw_require_number := True\<rparr>)
      = Inl (password_error ''PASSWORD_MISSING_NUMBER'' PasswordMissingNumber)"
proof -
  let ?pp = "password_policy_default
    \<lparr>pw_require_uppercase := True, pw_require_lowercase := True, pw_require_number := True\<rparr>"
  have "validate_password_with ''correct horse'' password_policy_default = Inr ()"
    "utf8_shaped ''correct horse''" by code_simp+
  then have accepted: "meets ''correct horse'' password_policy_default"
    "12 \<le> length ''correct horse''" "length ''correct horse'' \<le> 4 * 128"
    using password_bounds [of "''correct horse''" password_policy_default]
    by (simp_all add: password_policy_default_def)
  have "length ''short'' < pw_min_length password_policy_default" by (simp add: password_policy_default_def)
  then have short: "validate_password_with ''short'' password_policy_default
      = Inl (password_error ''PASSWORD_TOO_SHORT'' PasswordTooShort)"
    using password_bounds [of "''short''" password_policy_default] by blast
  have "List.find (\<lambda>(met, _). \<not> met) (requirements ''Correct horse'' ?pp)
      = Some (False, ''PASSWORD_MISSING_NUMBER'', PasswordMissingNumber)" by code_simp
  then have "validate_password_with ''Correct horse'' ?pp
      = Inl (password_error ''PASSWORD_MISSING_NUMBER'' PasswordMissingNumber)"
    using password_bounds [of "''Correct horse''" ?pp] by simp
  with accepted short show ?thesis by blast
qed

subsection \<open>Accounts\<close>

definition account :: "string \<Rightarrow> string \<Rightarrow> ('l, 'm) Runtime \<Rightarrow> LocalAccount option" where
  "account con user s = (case map_of (m_registry (rt_mesh s)) con of
     Some (LocalConn l) \<Rightarrow> map_of l user | _ \<Rightarrow> None)"

lemma account_cong: "m_registry (rt_mesh s') = m_registry (rt_mesh s) \<Longrightarrow> account con user s' = account con user s"
  by (simp add: account_def)

definition same_accounts :: "('l, 'm) Runtime \<Rightarrow> ('l, 'm) Runtime \<Rightarrow> bool" where
  "same_accounts s s' \<longleftrightarrow> (\<forall>con user. account con user s' = account con user s)"

lemma same_accounts_refl: "m_registry (rt_mesh s') = m_registry (rt_mesh s) \<Longrightarrow> same_accounts s s'"
  by (simp add: same_accounts_def account_def)

lemma account_simps [simp]:
  "account con user (s\<lparr>rt_challenges := cs\<rparr>) = account con user s"
  "account con user (s\<lparr>rt_clock_reads := n\<rparr>) = account con user s"
  "account con user (s\<lparr>rt_random_reads := n\<rparr>) = account con user s"
  "account con user (s\<lparr>rt_mail := p\<rparr>) = account con user s"
  by (simp_all add: account_def)

text \<open>An operation on one account of a connector.\<close>

lemma on_connector_account:
  assumes "on_connector con (on_local (on_account user f)) s = (r, s')"
  obtains (changed) a a' where "account con user s = Some a" "f a = (r, a')" "account con user s' = Some a'"
      "\<And>con' user'. (con', user') \<noteq> (con, user) \<Longrightarrow> account con' user' s' = account con' user' s"
      "s' = s\<lparr>rt_mesh := (rt_mesh s)\<lparr>m_registry := m_registry (rt_mesh s')\<rparr>\<rparr>"
  | (unchanged) e where "r = Inl e" "same_accounts s s'" "account con user s = None"
      "s' = s\<lparr>rt_mesh := (rt_mesh s)\<lparr>m_registry := m_registry (rt_mesh s')\<rparr>\<rparr>"
proof (cases "map_of (m_registry (rt_mesh s)) con")
  case None
  then have "r = Inl (UnknownConnector con)" "s' = s"
    using assms by (auto simp: on_connector_def registry_get_def Let_def ok_or_def)
  with None show thesis by (intro unchanged) (simp_all add: account_def same_accounts_def)
next
  case (Some c)
  then have run: "(case on_local (on_account user f) c of (r, c') \<Rightarrow>
      (r, s\<lparr>rt_mesh := (rt_mesh s)\<lparr>m_registry := binsert con c' (m_registry (rt_mesh s))\<rparr>\<rparr>)) = (r, s')"
    using assms by (simp add: on_connector_def registry_get_def Let_def ok_or_def)
  show thesis
  proof (cases c)
    case (DeclaredConn d)
    with run Some show thesis
      by (intro unchanged) (auto simp: on_local_def same_accounts_def account_def)
  next
    case (LocalConn l)
    show thesis
    proof (cases "map_of l user")
      case None
      with run Some LocalConn show thesis
        by (intro unchanged) (auto simp: on_local_def on_account_def same_accounts_def account_def)
    next
      case (Some a)
      obtain r' a' where f: "f a = (r', a')" by (cases "f a")
      show thesis
        by (rule changed [of a a'])
          (use run LocalConn Some \<open>map_of _ con = Some c\<close> f in
            \<open>auto simp: on_local_def on_account_def account_def\<close>)
    qed
  qed
qed

lemma set_password_Inl: "set_password ar pw pp t a = (Inl e, a') \<Longrightarrow> a' = a"
  by (auto simp: set_password_def split: if_splits option.splits)

subsection \<open>Resetting a password\<close>

lemma apply_reset_cases:
  assumes "apply_reset out pw pp tid key s = (r, s')"
  obtains (refused) e where "r = Inl e" "same_accounts s s'" "rt_challenges s' = rt_challenges s"
      "m_sessions (rt_mesh s') = m_sessions (rt_mesh s)"
  | (reset) con user a a' where "r = Inr ()" "split_once (CHR 0x00) key = Some (con, user)"
      "account con user s = Some a" "account con user s' = Some a'"
      "set_password (env_argon2 (ou_env out)) pw pp (rt_clock s (rt_clock_reads s)) a = (Inr (), a')"
      "\<And>con' user'. (con', user') \<noteq> (con, user) \<Longrightarrow> account con' user' s' = account con' user' s"
      "s' = s\<lparr>rt_clock_reads := rt_clock_reads s + 1,
         rt_mesh := (rt_mesh s)\<lparr>m_registry := m_registry (rt_mesh s')\<rparr>\<rparr>"
proof (cases "split_once (CHR 0x00) key")
  case None
  with assms show thesis by (intro refused) (auto simp: apply_reset_def intro: same_accounts_refl)
next
  case (Some cu)
  obtain con user where cu: "cu = (con, user)" by (cases cu)
  let ?s1 = "s\<lparr>rt_clock_reads := rt_clock_reads s + 1\<rparr>"
  show thesis
  proof (cases "registry_get (m_registry (rt_mesh s)) con")
    case (Inl e)
    with assms Some cu show thesis
      by (intro refused)
        (auto simp: apply_reset_def registered_def andThen_state mapErr_def intro: same_accounts_refl)
  next
    case (Inr c)
    obtain r2 s2 where o: "on_connector con (on_local (local_reset_password (env_argon2 (ou_env out)) user pw pp
        (rt_clock s (rt_clock_reads s)))) ?s1 = (r2, s2)" by (metis surj_pair)
    then have r: "r = map_err connector_error_text r2" "s' = s2"
      using assms Some cu Inr
      by (auto simp: apply_reset_def registered_def andThen_state mapErr_def map_err_def split: sum.splits)
    from o [unfolded local_reset_password_def] show thesis
    proof (cases rule: on_connector_account)
      case (changed a a')
      note upd = changed(5)
      have fields: "rt_challenges s2 = rt_challenges s" "m_sessions (rt_mesh s2) = m_sessions (rt_mesh s)"
        using arg_cong [OF upd, of rt_challenges] arg_cong [OF upd, of "\<lambda>s. m_sessions (rt_mesh s)"]
        by simp_all
      show thesis
      proof (cases r2)
        case (Inl e)
        then have "a' = a" using changed(2) set_password_Inl by simp
        then have "account c' u' s2 = account c' u' s" for c' u'
          using changed(1,3,4) [unfolded account_simps] by (cases "(c', u') = (con, user)") auto
        with r Inl fields show thesis
          by (intro that(1)) (auto simp: same_accounts_def map_err_def)
      next
        case (Inr u)
        show thesis
        proof (rule that(2) [of con user a a'], goal_cases)
          case 7
          show ?case using upd by (simp add: r(2))
        qed (use r Inr changed(1-4) [unfolded account_simps] Some cu in \<open>simp_all add: map_err_def\<close>)
      qed
    next
      case (unchanged e)
      note upd = unchanged(4)
      have "rt_challenges s2 = rt_challenges s" "m_sessions (rt_mesh s2) = m_sessions (rt_mesh s)"
        using arg_cong [OF upd, of rt_challenges] arg_cong [OF upd, of "\<lambda>s. m_sessions (rt_mesh s)"]
        by simp_all
      with r unchanged(1,2) show thesis
        by (intro that(1)) (auto simp: same_accounts_def map_err_def)
    qed
  qed
qed

text \<open>The parts of the runtime a request's fields and the policy come from.\<close>

abbreviation policy_in_force :: "('l, 'm) Runtime \<Rightarrow> PasswordPolicy" where
  "policy_in_force s \<equiv> ep_policy (effective_password_policy s)"

definition reset_field :: "BoundaryRequest \<Rightarrow> string option" where
  "reset_field rq = (case field ''new_password'' rq of Some pw \<Rightarrow> Some pw | None \<Rightarrow> field ''password'' rq)"

lemma reset_password_run:
  "reset_password out rq s =
     (case field ''token'' rq of
        None \<Rightarrow> (Inl (auth_error ProviderAuthentication (''missing '' @ in_backticks ''token'') MissingCredential), s)
      | Some token \<Rightarrow>
     (case reset_field rq of
        None \<Rightarrow> (Inl (auth_error ProviderAuthentication (''missing '' @ in_backticks ''password'') MissingCredential), s)
      | Some pw \<Rightarrow>
     (case validate_password_with pw (policy_in_force s) of
        Inl e \<Rightarrow> (Inl e, s)
      | Inr _ \<Rightarrow> redeem out token CeremonyPasswordReset (rt_clock s (rt_clock_reads s))
          (apply_reset out pw (policy_in_force s)) (s\<lparr>rt_clock_reads := rt_clock_reads s + 1\<rparr>))))"
  by (auto simp: reset_password_def required_field_def andThen_state reset_field_def ok_or_def
      split: option.split sum.split)

lemma reset_password_accepted:
  assumes "field ''token'' rq = Some token" "reset_field rq = Some pw" "meets pw (policy_in_force s)"
  shows "reset_password out rq s = redeem out token CeremonyPasswordReset (rt_clock s (rt_clock_reads s))
     (apply_reset out pw (policy_in_force s)) (s\<lparr>rt_clock_reads := rt_clock_reads s + 1\<rparr>)"
proof -
  have "validate_password_with pw (policy_in_force s) = Inr ()" using assms(3) by (simp add: validate_meets)
  then show ?thesis by (simp add: reset_password_run assms(1,2))
qed

lemma redeem_cases:
  assumes "redeem out token kind t op s = (r, s')"
  obtains (refused) e where "r = Inl e" "s' = s"
      "\<And>c. map_of (rt_challenges s) (ou_sha256 out token) = Some c \<Longrightarrow> \<not> live kind t c"
  | (failed) c e s1 where "map_of (rt_challenges s) (ou_sha256 out token) = Some c" "live kind t c"
      "op (cl_tenant c) (cl_account c) s = (Inl e, s1)"
      "r = Inl (auth_error ProviderAuthentication e MissingCredential)"
      "s' = s1\<lparr>rt_challenges := rt_challenges s\<rparr>"
  | (redeemed) c s1 where "map_of (rt_challenges s) (ou_sha256 out token) = Some c" "live kind t c"
      "op (cl_tenant c) (cl_account c) s = (Inr (), s1)" "r = Inr ()"
      "s' = s1\<lparr>rt_challenges := binsert (ou_sha256 out token) (c\<lparr>cl_consumed := True\<rparr>) (rt_challenges s)\<rparr>"
proof -
  obtain r0 c1 s1 where run: "consume_with (ou_sha256 out) token kind t op (rt_challenges s, s) = (r0, (c1, s1))"
    by (metis surj_pair)
  then have r: "r = map_err (\<lambda>message. auth_error ProviderAuthentication message MissingCredential) r0"
    "s' = s1\<lparr>rt_challenges := c1\<rparr>"
    using assms by (auto simp: redeem_def mapErr_def zoom_def map_err_def split: sum.splits)
  from run show thesis
  proof (cases rule: consume_with_cases)
    case unknown
    then show thesis using r by (intro that(1)) (auto simp: map_err_def)
  next
    case (dead e)
    then show thesis using r by (intro that(1)) (auto simp: map_err_def)
  next
    case (failed e err)
    then show thesis using r by (intro that(2)) (auto simp: map_err_def)
  next
    case (consumed e)
    then show thesis using r by (intro that(3)) (auto simp: map_err_def)
  qed
qed

lemma reset_cases:
  assumes "reset_password out rq s = (r, s')"
  shows "case r of
      Inl _ \<Rightarrow> same_accounts s s' \<and> rt_challenges s' = rt_challenges s
    | Inr _ \<Rightarrow> \<exists>token c pw con user a a'.
        field ''token'' rq = Some token \<and> map_of (rt_challenges s) (ou_sha256 out token) = Some c
        \<and> live CeremonyPasswordReset (rt_clock s (rt_clock_reads s)) c
        \<and> split_once (CHR 0x00) (cl_account c) = Some (con, user)
        \<and> reset_field rq = Some pw \<and> meets pw (policy_in_force s)
        \<and> account con user s = Some a \<and> account con user s' = Some a'
        \<and> set_password (env_argon2 (ou_env out)) pw (policy_in_force s)
            (rt_clock s (rt_clock_reads s + 1)) a = (Inr (), a')
        \<and> (\<forall>con' user'. (con', user') \<noteq> (con, user) \<longrightarrow> account con' user' s' = account con' user' s)
        \<and> rt_challenges s' = binsert (ou_sha256 out token) (c\<lparr>cl_consumed := True\<rparr>) (rt_challenges s)
        \<and> m_sessions (rt_mesh s') = m_sessions (rt_mesh s)"
proof -
  let ?s1 = "s\<lparr>rt_clock_reads := rt_clock_reads s + 1\<rparr>"
  show ?thesis
  proof (cases "\<exists>token pw. field ''token'' rq = Some token \<and> reset_field rq = Some pw \<and> meets pw (policy_in_force s)")
    case False
    then have "\<exists>e. reset_password out rq s = (Inl e, s)"
      unfolding reset_password_run validate_meets [symmetric]
      by (cases "field ''token'' rq"; cases "reset_field rq";
          cases "validate_password_with (the (reset_field rq)) (policy_in_force s)") auto
    with assms show ?thesis by (auto simp: same_accounts_def)
  next
    case True
    then obtain token pw where f: "field ''token'' rq = Some token" "reset_field rq = Some pw"
      "meets pw (policy_in_force s)" by blast
    then have "redeem out token CeremonyPasswordReset (rt_clock s (rt_clock_reads s))
        (apply_reset out pw (policy_in_force s)) ?s1 = (r, s')"
      using assms reset_password_accepted [OF f, of out] by simp
    then show ?thesis
    proof (cases rule: redeem_cases)
      case (refused e)
      then show ?thesis by (simp add: same_accounts_def)
    next
      case (failed c e s1)
      from failed(3) show ?thesis
        by (cases rule: apply_reset_cases) (use failed(4,5) in \<open>auto simp: same_accounts_def\<close>)
    next
      case (redeemed c s1)
      from redeemed(3) show ?thesis
      proof (cases rule: apply_reset_cases)
        case (reset con user a a')
        note upd = reset(7)
        have "m_sessions (rt_mesh s1) = m_sessions (rt_mesh s)"
          using arg_cong [OF upd, of "\<lambda>s. m_sessions (rt_mesh s)"] by simp
        then show ?thesis
          using f redeemed(1,2,4,5) reset(2-6)
          by (auto intro!: exI [of _ token] exI [of _ c] exI [of _ pw] exI [of _ con] exI [of _ user]
              exI [of _ a] exI [of _ a'])
      qed simp
    qed
  qed
qed

text \<open>
  C15. A reset changes a password only for who presents a live token: it succeeds only if the
  request carries the token of a reset challenge that is neither used, revoked nor expired and
  a password the policy accepts; then it sets the password of the account the challenge was
  issued for, of no other account, and spends the token. When it fails, every account and
  every challenge is as before.
\<close>

theorem reset_needs_a_live_token:
  assumes "reset_password out rq s = (r, s')"
  shows "case r of
      Inl _ \<Rightarrow> same_accounts s s' \<and> rt_challenges s' = rt_challenges s
    | Inr _ \<Rightarrow> \<exists>token c pw con user a a'.
        field ''token'' rq = Some token \<and> map_of (rt_challenges s) (ou_sha256 out token) = Some c
        \<and> live CeremonyPasswordReset (rt_clock s (rt_clock_reads s)) c
        \<and> split_once (CHR 0x00) (cl_account c) = Some (con, user)
        \<and> reset_field rq = Some pw \<and> meets pw (policy_in_force s)
        \<and> account con user s = Some a \<and> account con user s' = Some a'
        \<and> set_password (env_argon2 (ou_env out)) pw (policy_in_force s)
            (rt_clock s (rt_clock_reads s + 1)) a = (Inr (), a')
        \<and> (\<forall>con' user'. (con', user') \<noteq> (con, user) \<longrightarrow> account con' user' s' = account con' user' s)
        \<and> rt_challenges s' = binsert (ou_sha256 out token) (c\<lparr>cl_consumed := True\<rparr>) (rt_challenges s)
        \<and> m_sessions (rt_mesh s') = m_sessions (rt_mesh s)"
  using reset_cases [OF assms] .

subsection \<open>Mailing a token\<close>

lemma send_mail_run:
  "send_mail out m s = (case rt_mail s of
     None \<Rightarrow> (Inl (auth_error Configuration ''MailPort is not configured'' PolicyDenied), s)
   | Some port \<Rightarrow> (map_err (\<lambda>message. auth_error ProviderAuthentication message PolicyDenied) (fst (ou_send out m port)),
       s\<lparr>rt_mail := Some (snd (ou_send out m port))\<rparr>))"
  by (simp add: send_mail_def split: option.split prod.split)

definition new_challenge :: "CeremonyKind \<Rightarrow> string \<Rightarrow> string \<Rightarrow> int \<Rightarrow> Challenge" where
  "new_challenge kind tid key expires_at = \<lparr>cl_kind = kind, cl_tenant = tid, cl_account = key,
     cl_expires_at = expires_at, cl_consumed = False, cl_revoked = False\<rparr>"

definition token_message ::
  "string \<Rightarrow> string \<Rightarrow> string \<Rightarrow> string \<Rightarrow> string \<Rightarrow> int \<Rightarrow> string \<times> string \<Rightarrow> string \<Rightarrow> MailMessage" where
  "token_message template address tid user token expires_at link key =
     \<lparr>mm_template = template, mm_identity = ''auth'', mm_to = address, mm_tenant = tid,
      mm_variables = bcollect [(''token'', token), (''user.name'', user),
        (''app.name'', ''AuthBoundry application''), (''expires_at'', show_int expires_at),
        (''support_url'', ''''), link],
      mm_idempotency_key = key\<rparr>"

definition token_of :: "('l, 'm) Runtime \<Rightarrow> string" where
  "token_of s = hex_token (rt_random s (rt_random_reads s))"

definition with_challenge ::
  "('l, 'm) Outside \<Rightarrow> CeremonyKind \<Rightarrow> string \<Rightarrow> string \<Rightarrow> int \<Rightarrow> ('l, 'm) Runtime \<Rightarrow> ('l, 'm) Runtime" where
  "with_challenge out kind tid key expires_at s = s\<lparr>rt_clock_reads := rt_clock_reads s + 1,
     rt_random_reads := rt_random_reads s + 1,
     rt_challenges := binsert (ou_sha256 out (token_of s)) (new_challenge kind tid key expires_at)
       (rt_challenges s)\<rparr>"

definition address_of :: "string \<Rightarrow> string \<Rightarrow> ('l, 'm) Runtime \<Rightarrow> string option" where
  "address_of con user s = Option.bind (account con user s) (\<lambda>a. map_of (la_attributes a) ''email'')"

lemma mail_token_run:
  assumes "map_of (m_registry (rt_mesh s)) con = Some c" "rt_mail s = Some port"
  shows "mail_token out kind seconds link template idempotency tid con user s =
    (case address_of con user s of
       None \<Rightarrow> (Inr (), s)
     | Some address \<Rightarrow>
         let expires_at = i64_add (rt_clock s (rt_clock_reads s)) seconds; token = token_of s in
         send_mail out (token_message template address tid user token expires_at (link token) (idempotency token))
           (with_challenge out kind tid (account_key con user) expires_at s))"
proof -
  have a: "recovery_address c user = address_of con user s"
    using assms(1) by (cases c) (simp_all add: recovery_address_def local_recovery_address_def
        account_attribute_def address_of_def account_def)
  show ?thesis
  proof (cases "address_of con user s")
    case None
    then show ?thesis using assms
      by (simp add: mail_token_def registered_def registry_get_def andThen_def mapErr_def ok_or_def a)
  next
    case (Some address)
    then show ?thesis using assms
      by (simp add: mail_token_def registered_def registry_get_def andThen_def mapErr_def ok_or_def a
          check_def now_run Let_def issue_challenge_def zoom_def issue_def token_of_def token_message_def
          with_challenge_def new_challenge_def)
  qed
qed

definition mail_contract_ok :: "string \<Rightarrow> ('l, 'm) Runtime \<Rightarrow> bool" where
  "mail_contract_ok template s \<longleftrightarrow> (case cf_mail (ct_contract s) of None \<Rightarrow> True
     | Some ml \<Rightarrow> bcontains (ml_identities ml) ''auth'' \<and> bcontains (ml_templates ml) template)"

definition missing :: "string \<Rightarrow> AuthError" where
  "missing name = auth_error ProviderAuthentication (''missing '' @ in_backticks name) MissingCredential"

lemma required_field_run:
  "andThen (required_field rq name) k s
     = (case field name rq of None \<Rightarrow> (Inl (missing name), s) | Some v \<Rightarrow> k v s)"
  by (simp add: required_field_def andThen_state missing_def ok_or_def split: option.split)

lemma require_mail_contract_run:
  "andThen (require_mail_contract template) k s = (if mail_contract_ok template s then k () s
     else (Inl (auth_error Configuration (''MailPort contract does not declare '' @ in_backticks template)
        PolicyDenied), s))"
  by (simp add: require_mail_contract_def andThen_state mail_contract_ok_def check_def split: option.split)

lemma forgot_password_run:
  "forgot_password out rq s =
     (if \<not> pw_allow_reset (policy_in_force s)
      then (Inl (auth_error ProviderAuthentication ''password resets are disabled'' PolicyDenied), s)
      else if \<not> mail_contract_ok ''password_reset'' s
      then (Inl (auth_error Configuration (''MailPort contract does not declare ''
         @ in_backticks ''password_reset'') PolicyDenied), s)
      else case field ''tenant'' rq of None \<Rightarrow> (Inl (missing ''tenant''), s) | Some tid \<Rightarrow>
        (case field ''connector'' rq of None \<Rightarrow> (Inl (missing ''connector''), s) | Some con \<Rightarrow>
        (case field ''username'' rq of None \<Rightarrow> (Inl (missing ''username''), s) | Some user \<Rightarrow>
           mail_reset out tid con user s)))"
  unfolding forgot_password_def andThen_state require_mail_contract_run required_field_run
  by (simp add: check_def)

lemma forgot_password_Inr:
  assumes "forgot_password out rq s = (Inr u, s')"
  obtains tid con user where "pw_allow_reset (policy_in_force s)" "mail_contract_ok ''password_reset'' s"
    "field ''tenant'' rq = Some tid" "field ''connector'' rq = Some con" "field ''username'' rq = Some user"
    "mail_reset out tid con user s = (Inr u, s')"
proof (cases "field ''tenant'' rq"; cases "field ''connector'' rq"; cases "field ''username'' rq")
  fix tid con user
  assume f: "field ''tenant'' rq = Some tid" "field ''connector'' rq = Some con" "field ''username'' rq = Some user"
  from assms f show thesis
    by (simp add: forgot_password_run that split: if_splits)
qed (use assms in \<open>simp_all add: forgot_password_run split: if_splits\<close>)

lemma registered_when_mailed:
  "mail_token out kind seconds link template idempotency tid con user s = (Inr u, s') \<Longrightarrow>
     \<exists>c. map_of (m_registry (rt_mesh s)) con = Some c"
  unfolding mail_token_def registered_def registry_get_def by (elim eff_elims) auto

lemma on_connector_account_run:
  assumes "account con user s = Some a" "f a = (r, a')"
  obtains s' where "on_connector con (on_local (on_account user f)) s = (r, s')" "account con user s' = Some a'"
    "s' = s\<lparr>rt_mesh := (rt_mesh s)\<lparr>m_registry := m_registry (rt_mesh s')\<rparr>\<rparr>"
proof -
  obtain r2 s2 where o: "on_connector con (on_local (on_account user f)) s = (r2, s2)" by (metis surj_pair)
  then show thesis
    by (cases rule: on_connector_account) (use assms o in \<open>auto intro: that\<close>)
qed

lemma apply_reset_run:
  assumes "split_once (CHR 0x00) key = Some (con, user)" "account con user s = Some a"
    and "set_password (env_argon2 (ou_env out)) pw pp (rt_clock s (rt_clock_reads s)) a = (Inr (), a')"
  obtains s' where "apply_reset out pw pp tid key s = (Inr (), s')" "account con user s' = Some a'"
proof -
  obtain c where "registry_get (m_registry (rt_mesh s)) con = Inr c"
    using assms(2) by (auto simp: account_def registry_get_def ok_or_def split: option.splits)
  moreover have "account con user (s\<lparr>rt_clock_reads := rt_clock_reads s + 1\<rparr>) = Some a"
    using assms(2) by simp
  from on_connector_account_run [where f = "set_password (env_argon2 (ou_env out)) pw pp (rt_clock s (rt_clock_reads s))",
      OF this assms(3)] obtain s' where
    "on_connector con (on_local (on_account user (set_password (env_argon2 (ou_env out)) pw pp
       (rt_clock s (rt_clock_reads s))))) (s\<lparr>rt_clock_reads := rt_clock_reads s + 1\<rparr>) = (Inr (), s')"
    "account con user s' = Some a'" by blast
  ultimately show thesis
    using assms(1) by (intro that) (auto simp: apply_reset_def registered_def mapErr_def andThen_state local_reset_password_def)
qed

lemma redeem_run:
  assumes "map_of (rt_challenges s) (ou_sha256 out token) = Some c" "live kind t c"
    "op (cl_tenant c) (cl_account c) s = (Inr (), s1)"
  shows "redeem out token kind t op s = (Inr (),
     s1\<lparr>rt_challenges := binsert (ou_sha256 out token) (c\<lparr>cl_consumed := True\<rparr>) (rt_challenges s)\<rparr>)"
  using assms by (simp add: redeem_def mapErr_def zoom_def consume_with_def live_def)

lemma mail_reset_Inr:
  assumes "mail_reset out tid con user s = (Inr u, s')" "address_of con user s = Some address"
  obtains port m where "rt_mail s = Some port" "fst (ou_send out m port) = Inr ()" "mm_to m = address"
    "map_of (mm_variables m) ''token'' = Some (token_of s)"
    "s' = (with_challenge out CeremonyPasswordReset tid (account_key con user)
       (i64_add (rt_clock s (rt_clock_reads s)) 900) s)\<lparr>rt_mail := Some (snd (ou_send out m port))\<rparr>"
proof -
  obtain c where c: "map_of (m_registry (rt_mesh s)) con = Some c"
    using registered_when_mailed assms(1) unfolding mail_reset_def by blast
  have m: "rt_mail (with_challenge out k t key e s) = rt_mail s" for k t key e
    by (simp add: with_challenge_def)
  show thesis
  proof (cases "rt_mail s")
    case None
    have "recovery_address c user = Some address"
      using assms(2) c by (cases c) (simp_all add: recovery_address_def local_recovery_address_def
        account_attribute_def address_of_def account_def)
    with None c have "\<exists>e. mail_reset out tid con user s = (Inl e, s)"
      by (simp add: mail_reset_def mail_token_def registered_def registry_get_def andThen_def mapErr_def
          ok_or_def check_def)
    with assms(1) show thesis by auto
  next
    case (Some port)
    define msg where "msg = token_message ''password_reset'' address tid user (token_of s)
      (i64_add (rt_clock s (rt_clock_reads s)) 900) (''reset_url'', ''/auth/password/reset?token='' @ token_of s)
      (''password-reset:'' @ token_of s)"
    have "mail_reset out tid con user s = send_mail out msg (with_challenge out CeremonyPasswordReset tid
        (account_key con user) (i64_add (rt_clock s (rt_clock_reads s)) 900) s)"
      by (simp add: mail_reset_def mail_token_run [OF c Some] assms(2) Let_def msg_def)
    then have "map_err (\<lambda>message. auth_error ProviderAuthentication message PolicyDenied) (fst (ou_send out msg port)) = Inr u"
      "s' = (with_challenge out CeremonyPasswordReset tid (account_key con user)
         (i64_add (rt_clock s (rt_clock_reads s)) 900) s)\<lparr>rt_mail := Some (snd (ou_send out msg port))\<rparr>"
      using assms(1) Some by (simp_all add: send_mail_run m)
    moreover have "map_of (mm_variables msg) ''token'' = Some (token_of s)" "mm_to msg = address"
      by (simp_all add: msg_def token_message_def bcollect_def)
    ultimately show thesis using that [of port msg] Some by simp
  qed
qed

text \<open>
  C16. Recovery works, once: when a reset was asked for an account with an address and the
  request succeeded, a message with a token went to that address; whoever presents the token
  before it expires (900 seconds by the clock), with a password the policy accepts and the
  account did not have before, sets the password of that account; and from then on no request
  with that token changes any account.
\<close>

theorem mailed_token_resets_once:
  assumes "forgot_password out rq s = (Inr (), s1)"
    and "field ''connector'' rq = Some con" "field ''username'' rq = Some user" "CHR 0x00 \<notin> set con"
    and "account con user s = Some a" "map_of (la_attributes a) ''email'' = Some address"
    and "field ''token'' rq' = Some (token_of s)" "reset_field rq' = Some pw" "meets pw (policy_in_force s)"
    and "\<not> matches_current_or_history (env_argon2 (ou_env out)) a pw (pw_history_count (policy_in_force s))"
    and "ar_hash (env_argon2 (ou_env out)) pw = Some h"
    and "rt_clock s (rt_clock_reads s + 1) < i64_add (rt_clock s (rt_clock_reads s)) 900"
  shows "\<exists>s2 port m a'. rt_mail s = Some port \<and> fst (ou_send out m port) = Inr () \<and> mm_to m = address
    \<and> map_of (mm_variables m) ''token'' = Some (token_of s)
    \<and> reset_password out rq' s1 = (Inr (), s2)
    \<and> account con user s2 = Some a' \<and> la_password_hash a' = h
    \<and> (\<forall>rq'' r s3. field ''token'' rq'' = Some (token_of s) \<and> reset_password out rq'' s2 = (r, s3)
         \<longrightarrow> isl r \<and> same_accounts s2 s3)"
proof -
  obtain tid where mail: "mail_reset out tid con user s = (Inr (), s1)"
    by (rule forgot_password_Inr [OF assms(1)]) (use assms(2,3) in auto)
  have "address_of con user s = Some address" using assms(5,6) by (simp add: address_of_def)
  then obtain port m where p: "rt_mail s = Some port" "fst (ou_send out m port) = Inr ()" "mm_to m = address"
    "map_of (mm_variables m) ''token'' = Some (token_of s)"
    "s1 = (with_challenge out CeremonyPasswordReset tid (account_key con user)
       (i64_add (rt_clock s (rt_clock_reads s)) 900) s)\<lparr>rt_mail := Some (snd (ou_send out m port))\<rparr>"
    using mail_reset_Inr [OF mail] by blast
  let ?c = "new_challenge CeremonyPasswordReset tid (account_key con user) (i64_add (rt_clock s (rt_clock_reads s)) 900)"
  let ?s1 = "s1\<lparr>rt_clock_reads := rt_clock_reads s1 + 1\<rparr>"
  have s1: "policy_in_force s1 = policy_in_force s" "rt_clock s1 = rt_clock s"
    "rt_clock_reads s1 = rt_clock_reads s + 1" "account con user s1 = account con user s"
    "map_of (rt_challenges s1) (ou_sha256 out (token_of s)) = Some ?c"
    by (simp_all add: p(5) with_challenge_def effective_password_policy_def account_def split: option.split)
  have key: "split_once (CHR 0x00) (account_key con user) = Some (con, user)"
    using assms(4) by (simp add: account_key_def)
  obtain a' where a': "set_password (env_argon2 (ou_env out)) pw (policy_in_force s)
      (rt_clock s (rt_clock_reads s + 2)) a = (Inr (), a')" "la_password_hash a' = h"
    using assms(10,11) by (simp add: set_password_def)
  obtain s2 where s2: "apply_reset out pw (policy_in_force s) tid (account_key con user) ?s1 = (Inr (), s2)"
    "account con user s2 = Some a'"
    by (rule apply_reset_run [OF key, of ?s1 a out pw "policy_in_force s" a' tid]) (use assms(5) a' s1 in simp_all)
  let ?s2 = "s2\<lparr>rt_challenges := binsert (ou_sha256 out (token_of s)) (?c\<lparr>cl_consumed := True\<rparr>) (rt_challenges s1)\<rparr>"
  have live: "live CeremonyPasswordReset (rt_clock s (rt_clock_reads s + 1)) ?c"
    using assms(12) by (simp add: live_def new_challenge_def)
  have "redeem out (token_of s) CeremonyPasswordReset (rt_clock s (rt_clock_reads s + 1))
      (apply_reset out pw (policy_in_force s)) ?s1 = (Inr (), ?s2)"
    using redeem_run [of ?s1 out "token_of s" ?c CeremonyPasswordReset, OF _ live] s1 s2
    by (simp add: new_challenge_def)
  then have run: "reset_password out rq' s1 = (Inr (), ?s2)"
    using reset_password_accepted [OF assms(7,8), of s1 out] assms(9) s1 by simp
  have again: "isl r \<and> same_accounts ?s2 s3"
    if "field ''token'' rq'' = Some (token_of s)" "reset_password out rq'' ?s2 = (r, s3)" for rq'' r s3
    using reset_cases [OF that(2)] that(1) by (cases r) (auto simp: live_def)
  show ?thesis
    using p run again s2(2) a'(2)
    by (intro exI [of _ ?s2] exI [of _ port] exI [of _ m] exI [of _ a']) auto
qed

subsection \<open>A sample recovery\<close>

definition sample_alice :: LocalAccount where
  "sample_alice = \<lparr>la_username = ''alice'', la_password_hash = ''$old'', la_password_history = [],
     la_password_changed_at = 0, la_attributes = [(''email'', ''alice@acme'')]\<rparr>"

definition sample_recovery :: "(MemoryAuditLog, MemoryMailPort) Runtime" where
  "sample_recovery = sample_runtime\<lparr>rt_mesh := sample_account_mesh
     \<lparr>m_registry := [(''local'', LocalConn [(''alice'', sample_alice)])]\<rparr>\<rparr>"

definition form :: "(string \<times> string) list \<Rightarrow> BoundaryRequest" where
  "form fs = boundary_request_default\<lparr>br_body := fs\<rparr>"

lemma form_field:
  "map_of fs name = Some v \<Longrightarrow> plain (hd v) \<Longrightarrow> plain (last v) \<Longrightarrow> v \<noteq> [] \<Longrightarrow> field name (form fs) = Some v"
  by (simp add: field_def form_def present_def trim_plain)

lemma form_no_field: "map_of fs name = None \<Longrightarrow> field name (form fs) = None"
  by (simp add: field_def form_def present_def boundary_request_default_def)

definition sample_forgot :: BoundaryRequest where
  "sample_forgot = form [(''connector'', ''local''), (''tenant'', ''acme''), (''username'', ''alice'')]"

definition sample_reset :: BoundaryRequest where
  "sample_reset = form [(''new_password'', ''correct horse''), (''token'', ''00'')]"

lemma sample_forgot_fields [simp]:
  "field ''connector'' sample_forgot = Some ''local''" "field ''tenant'' sample_forgot = Some ''acme''"
  "field ''username'' sample_forgot = Some ''alice''" "field ''token'' sample_reset = Some ''00''"
  "reset_field sample_reset = Some ''correct horse''"
  by (simp_all add: sample_forgot_def sample_reset_def form_field reset_field_def plain_def)

lemma sample_recovery_parts [simp]:
  "m_registry (rt_mesh sample_recovery) = [(''local'', LocalConn [(''alice'', sample_alice)])]"
  "account ''local'' ''alice'' sample_recovery = Some sample_alice"
  "rt_mail sample_recovery = Some []" "rt_clock sample_recovery n = 15" "rt_clock_reads sample_recovery = 0"
  "token_of sample_recovery = ''00''" "rt_challenges sample_recovery = []"
  "policy_in_force sample_recovery = password_policy_default" "cf_mail (ct_contract sample_recovery) = None"
  "map_of (la_attributes sample_alice) ''email'' = Some ''alice@acme''"
proof -
  have "hex_token [char_of (0 :: nat)] = ''00''" by code_simp
  then show "token_of sample_recovery = ''00''"
    by (simp add: token_of_def sample_recovery_def sample_runtime_def)
qed (simp_all add: sample_recovery_def sample_runtime_def account_def effective_password_policy_def
    live_authority_new_def sample_alice_def sample_mesh_def sample_contract_def config_default_def)

lemma sample_forgot_works:
  obtains s1 where "forgot_password sample_outside sample_forgot sample_recovery = (Inr (), s1)"
proof -
  have "pw_allow_reset password_policy_default" by (simp add: password_policy_default_def)
  moreover have "mail_contract_ok ''password_reset'' sample_recovery" by (simp add: mail_contract_ok_def)
  moreover have "address_of ''local'' ''alice'' sample_recovery = Some ''alice@acme''"
    by (simp add: address_of_def)
  moreover have "rt_mail (with_challenge sample_outside k t key e sample_recovery) = Some []" for k t key e
    by (simp add: with_challenge_def)
  moreover have "fst (ou_send sample_outside m []) = Inr ()" for m
    by (simp add: sample_outside_def memory_mail_send_def)
  ultimately show thesis
    by (intro that) (simp add: forgot_password_run mail_reset_def mail_token_run send_mail_run Let_def map_err_def)
qed

lemma sample_new_password:
  "meets ''correct horse'' password_policy_default" "ar_hash (env_argon2 sample_env) ''correct horse'' = Some ''$correct horse''"
  "\<not> matches_current_or_history (env_argon2 sample_env) sample_alice ''correct horse'' n"
proof -
  show "meets ''correct horse'' password_policy_default"
    unfolding validate_meets [symmetric] by code_simp
qed (simp_all add: sample_env_def sample_argon2_def matches_current_or_history_def sample_alice_def)

theorem mailed_token_resets_once_witness:
  "\<exists>s1 s2 a'. forgot_password sample_outside sample_forgot sample_recovery = (Inr (), s1)
     \<and> reset_password sample_outside sample_reset s1 = (Inr (), s2)
     \<and> account ''local'' ''alice'' s2 = Some a' \<and> la_password_hash a' = ''$correct horse''
     \<and> isl (fst (reset_password sample_outside sample_reset s2))"
proof (rule sample_forgot_works)
  fix s1
  assume f: "forgot_password sample_outside sample_forgot sample_recovery = (Inr (), s1)"
  have "\<exists>s2 port m a'. rt_mail sample_recovery = Some port \<and> fst (ou_send sample_outside m port) = Inr ()
    \<and> mm_to m = ''alice@acme'' \<and> map_of (mm_variables m) ''token'' = Some (token_of sample_recovery)
    \<and> reset_password sample_outside sample_reset s1 = (Inr (), s2)
    \<and> account ''local'' ''alice'' s2 = Some a' \<and> la_password_hash a' = ''$correct horse''
    \<and> (\<forall>rq'' r s3. field ''token'' rq'' = Some (token_of sample_recovery)
         \<and> reset_password sample_outside rq'' s2 = (r, s3) \<longrightarrow> isl r \<and> same_accounts s2 s3)"
    by (rule mailed_token_resets_once [OF f _ _ _ _ sample_recovery_parts(10)])
      (use sample_new_password in \<open>simp_all add: sample_outside_def i64_add_exact in_i64_def\<close>)
  then obtain s2 a' where r: "reset_password sample_outside sample_reset s1 = (Inr (), s2)"
    "account ''local'' ''alice'' s2 = Some a'" "la_password_hash a' = ''$correct horse''"
    "\<forall>rq'' r s3. field ''token'' rq'' = Some (token_of sample_recovery)
         \<and> reset_password sample_outside rq'' s2 = (r, s3) \<longrightarrow> isl r \<and> same_accounts s2 s3"
    by blast
  have "isl (fst (reset_password sample_outside sample_reset s2))"
    using r(4) [rule_format, of sample_reset "fst (reset_password sample_outside sample_reset s2)"
        "snd (reset_password sample_outside sample_reset s2)"] by simp
  with f r(1-3) show ?thesis by blast
qed

theorem reset_needs_a_live_token_witness:
  "\<exists>s' e. reset_password sample_outside sample_reset sample_recovery = (Inl e, s')
     \<and> same_accounts sample_recovery s' \<and> rt_challenges s' = []"
proof -
  obtain r s' where run: "reset_password sample_outside sample_reset sample_recovery = (r, s')" by (metis surj_pair)
  from reset_needs_a_live_token [OF run] run show ?thesis by (cases r) auto
qed

subsection \<open>Recovery does not tell accounts apart\<close>

text \<open>
  Asking for a reset does not reveal accounts: with a mail port that accepts every
  message, the outcome of the request is the same whatever accounts the local connector has.
\<close>

theorem forgot_password_hides_accounts:
  assumes "\<And>m p. fst (ou_send out m p) = Inr ()" "rt_mail s = Some port"
    and "map_of (m_registry (rt_mesh s)) ''local'' = Some (LocalConn l)"
  shows "fst (forgot_password out rq s) = fst (forgot_password out rq (s\<lparr>rt_mesh := (rt_mesh s)
     \<lparr>m_registry := binsert ''local'' (LocalConn l') (m_registry (rt_mesh s))\<rparr>\<rparr>))"
    (is "_ = fst (forgot_password out rq ?s)")
proof -
  have same: "policy_in_force ?s = policy_in_force s" "mail_contract_ok template ?s = mail_contract_ok template s"
    "rt_mail ?s = Some port" for template
    using assms(2) by (simp_all add: effective_password_policy_def mail_contract_ok_def split: option.split)
  have mailed: "fst (mail_reset out tid con user u) = Inr ()"
    if "map_of (m_registry (rt_mesh u)) con = Some c" "rt_mail u = Some port" for tid con user u c
    using that assms(1) by (simp add: mail_reset_def mail_token_run [OF that] send_mail_run with_challenge_def
        Let_def map_err_def split: option.split)
  have unknown: "fst (mail_reset out tid con user u) = Inl (to_auth_error (UnknownConnector con))"
    if "map_of (m_registry (rt_mesh u)) con = None" for tid con user u
    using that by (simp add: mail_reset_def mail_token_def registered_def registry_get_def andThen_def
        mapErr_def ok_or_def)
  have "fst (mail_reset out tid con user ?s) = fst (mail_reset out tid con user s)" for tid con user
    using mailed [OF _ assms(2)] mailed [OF _ same(3)] unknown [of s] unknown [of ?s] assms(3)
    by (cases "map_of (m_registry (rt_mesh s)) con"; cases "con = ''local''") auto
  then show ?thesis
    unfolding forgot_password_run same by (simp split: option.split)
qed

theorem forgot_password_hides_accounts_witness:
  "fst (forgot_password sample_outside sample_forgot sample_recovery) = Inr ()
   \<and> fst (forgot_password sample_outside sample_forgot (sample_recovery\<lparr>rt_mesh := (rt_mesh sample_recovery)
       \<lparr>m_registry := binsert ''local'' (LocalConn []) (m_registry (rt_mesh sample_recovery))\<rparr>\<rparr>)) = Inr ()"
proof -
  have "fst (forgot_password sample_outside sample_forgot sample_recovery) = Inr ()"
    by (rule sample_forgot_works) simp
  moreover have "fst (forgot_password sample_outside sample_forgot sample_recovery)
      = fst (forgot_password sample_outside sample_forgot (sample_recovery\<lparr>rt_mesh := (rt_mesh sample_recovery)
       \<lparr>m_registry := binsert ''local'' (LocalConn []) (m_registry (rt_mesh sample_recovery))\<rparr>\<rparr>))"
    by (rule forgot_password_hides_accounts [of sample_outside sample_recovery "[]" "[(''alice'', sample_alice)]"])
      (simp_all add: sample_outside_def memory_mail_send_def)
  ultimately show ?thesis by simp
qed

text \<open>
  Refused mail does reveal accounts: the outcome of a reset request for an account with an
  address is then an error, for a name without an account it is not.
\<close>

theorem refused_mail_reveals_accounts:
  "\<exists>(out :: (MemoryAuditLog, MemoryMailPort) Outside) s rq e. isl (fst (forgot_password out rq s))
     \<and> fst (forgot_password out rq s) = Inl e
     \<and> fst (forgot_password out rq (s\<lparr>rt_mesh := (rt_mesh s)
         \<lparr>m_registry := binsert ''local'' (LocalConn []) (m_registry (rt_mesh s))\<rparr>\<rparr>)) = Inr ()"
proof -
  let ?out = "sample_outside\<lparr>ou_send := \<lambda>m p. (Inl ''connection refused'', p)\<rparr>"
  let ?s = "sample_recovery\<lparr>rt_mesh := (rt_mesh sample_recovery)
      \<lparr>m_registry := binsert ''local'' (LocalConn []) (m_registry (rt_mesh sample_recovery))\<rparr>\<rparr>"
  have allow: "pw_allow_reset password_policy_default" by (simp add: password_policy_default_def)
  have mail: "mail_contract_ok ''password_reset'' sample_recovery" "mail_contract_ok ''password_reset'' ?s"
    by (simp_all add: mail_contract_ok_def)
  have policy: "policy_in_force ?s = password_policy_default"
    using sample_recovery_parts(8) by (simp add: effective_password_policy_def split: option.splits)
  have addr: "address_of ''local'' ''alice'' sample_recovery = Some ''alice@acme''"
    "address_of ''local'' ''alice'' ?s = None"
    by (simp_all add: address_of_def account_def)
  have port: "rt_mail (with_challenge ?out k t key e sample_recovery) = Some []" for k t key e
    by (simp add: with_challenge_def)
  have "\<exists>e. fst (forgot_password ?out sample_forgot sample_recovery) = Inl e"
    by (simp add: forgot_password_run mail_reset_def mail_token_run send_mail_run Let_def map_err_def
        allow mail(1) addr(1) port)
  moreover have "fst (forgot_password ?out sample_forgot ?s) = Inr ()"
    using mail_token_run [of ?s "''local''" "LocalConn []" "[]"] mail(2) addr(2) allow policy
    by (simp add: forgot_password_run mail_reset_def)
  ultimately show ?thesis by (metis sum.disc(1))
qed

subsection \<open>Registration\<close>

lemma keeps_mesh_config:
  "on_connector con op s = (r, s') \<Longrightarrow> m_config (rt_mesh s') = m_config (rt_mesh s)"
  by (auto simp: on_connector_def Let_def split: sum.splits prod.splits)

lemma ensure_local_account_config:
  assumes "ensure_local_account out rq con c rs s = (Inr u, s')"
  shows "m_config (rt_mesh s') = m_config (rt_mesh s)"
proof (cases "con = ''local'' \<and> isl (connector_authenticate (env_argon2 (ou_env out)) c rs)")
  case True
  then obtain m where "mapErr to_auth_error (on_connector con m) s = (Inr u, s')"
    using assms unfolding ensure_local_account_def required_field_run andThen_state
    by (auto split: option.splits)
  then show ?thesis by (elim eff_elims) (rule keeps_mesh_config)
next
  case False
  then show ?thesis using assms unfolding ensure_local_account_def by (simp only: if_False ok_run) simp
qed

lemma check_new_password_state: "snd (check_new_password rq c s) = s"
  by (simp add: check_new_password_def required_field_run split: option.split)

lemma runtime_sign_up_Inr:
  assumes "runtime_sign_up out rq s = (Inr (Authenticated x cred), s')"
  obtains cs tid rs t m0 a m where "rt_registration s = SelfService cs"
    "m_config m0 = m_config (rt_mesh s)"
    "sign_up (ou_env out) tid rs \<lparr>reg_kind = Human, reg_claims = cs\<rparr> t m0 = (Inr a, m)"
    "Authenticated x cred = signed_in a"
proof -
  obtain cs where cs: "rt_registration s = SelfService cs"
    using assms by (cases "rt_registration s") (simp_all add: runtime_sign_up_def andThen_state)
  let ?s1 = "s\<lparr>rt_clock_reads := rt_clock_reads s + 1\<rparr>"
  obtain tid con where f: "field ''tenant'' rq = Some tid" "field ''connector'' rq = Some con"
    using assms by (cases "field ''tenant'' rq"; cases "field ''connector'' rq")
      (simp_all add: runtime_sign_up_def andThen_state cs required_field_run)
  have run: "andThen (mapErr to_auth_error (registered con)) (\<lambda>c.
     andThen (check_new_password rq c) (\<lambda>_.
     andThen (on_mesh (reading (mesh_begin tid (flow_request rq tid con)))) (\<lambda>ch.
     if ch_kind ch \<noteq> Credentials then ok (Challenged ch)
     else
     andThen (ensure_local_account out rq con c (flow_response rq tid ch)) (\<lambda>_.
     andThen (on_mesh (sign_up (ou_env out) tid (flow_response rq tid ch)
       \<lparr>reg_kind = Human, reg_claims = cs\<rparr> (rt_clock s (rt_clock_reads s)))) (\<lambda>a.
     andThen (start_verification out rq tid a (rt_clock s (rt_clock_reads s))) (\<lambda>_.
     ok (signed_in a))))))) ?s1 = (Inr (Authenticated x cred), s')"
    using assms by (simp add: runtime_sign_up_def andThen_state cs required_field_run f)
  then obtain c s2 s3 ch where c: "registered con ?s1 = (Inr c, s2)" "check_new_password rq c s2 = (Inr (), s3)"
    and tail: "(if ch_kind ch \<noteq> Credentials then ok (Challenged ch)
     else
     andThen (ensure_local_account out rq con c (flow_response rq tid ch)) (\<lambda>_.
     andThen (on_mesh (sign_up (ou_env out) tid (flow_response rq tid ch)
       \<lparr>reg_kind = Human, reg_claims = cs\<rparr> (rt_clock s (rt_clock_reads s)))) (\<lambda>a.
     andThen (start_verification out rq tid a (rt_clock s (rt_clock_reads s))) (\<lambda>_.
     ok (signed_in a))))) s3 = (Inr (Authenticated x cred), s')"
    by (elim andThen_InrE mapErr_InrE) (auto simp: on_mesh_def zoom_def)
  have s3: "s3 = ?s1"
    using c check_new_password_state [of rq c s2] by (simp add: registered_def)
  have kind: "ch_kind ch = Credentials" using tail by (cases "ch_kind ch = Credentials") simp_all
  from tail obtain s4 a s5 where "ensure_local_account out rq con c (flow_response rq tid ch) s3 = (Inr (), s4)"
    "on_mesh (sign_up (ou_env out) tid (flow_response rq tid ch)
       \<lparr>reg_kind = Human, reg_claims = cs\<rparr> (rt_clock s (rt_clock_reads s))) s4 = (Inr a, s5)"
    "Authenticated x cred = signed_in a"
    by (simp only: kind simp_thms if_False) (elim andThen_InrE, auto)
  then show thesis
    using ensure_local_account_config [of out rq con c _ s3 _ s4] s3 cs
    by (intro that [of cs "rt_mesh s4" tid "flow_response rq tid ch" "rt_clock s (rt_clock_reads s)" a "rt_mesh s5"])
      (auto simp: on_mesh_def zoom_def split: prod.splits)
qed

lemma sign_up_principal:
  assumes "sign_up env tid rs reg t s = (Inr a, s')"
  shows "\<exists>cs. registration_claims reg s = Inr cs \<and> p_claims (c_principal (as_context a)) = cs
     \<and> p_kind (c_principal (as_context a)) = reg_kind reg"
proof (rule sign_up_Inr [OF assms])
  fix te x cs rp s1
  assume 1: "registration_claims reg s = Inr cs" "provision_principal te x (reg_kind reg) cs t s = (Inr rp, s1)"
    "open_authenticated env KindAccountLinked te x rp t s1 = (Inr a, s')"
  have "p_claims (rp_principal rp) = cs" "p_kind (rp_principal rp) = reg_kind reg"
    using 1(2) unfolding provision_principal_def Let_def by (auto elim!: eff_elims)
  then show ?thesis
    using 1(1) by - (rule open_authenticated_Inr [OF 1(3)], drule context_for_Inr, auto)
qed

text \<open>
  Nobody registers above the deployment's policy: where registration is closed a sign up
  changes nothing and fails; where it is open, the principal it creates is a human and holds
  exactly the claims the deployment fixed, checked against the contract, whatever the request
  says.
\<close>

theorem registration_claims_are_the_deployments:
  "(rt_registration s = RegistrationClosed \<longrightarrow> (\<exists>e. runtime_sign_up out rq s = (Inl e, s)))
   \<and> (runtime_sign_up out rq s = (Inr (Authenticated x cred), s') \<longrightarrow>
       (\<exists>cs claims. rt_registration s = SelfService cs \<and> resolve_claims (m_config (rt_mesh s)) cs = Inr claims
          \<and> p_kind (ax_principal x) = Human \<and> p_claims (ax_principal x) = claims))"
proof (intro conjI impI)
  assume "rt_registration s = RegistrationClosed"
  then show "\<exists>e. runtime_sign_up out rq s = (Inl e, s)"
    by (simp add: runtime_sign_up_def andThen_state)
next
  assume "runtime_sign_up out rq s = (Inr (Authenticated x cred), s')"
  then obtain cs tid rs t m0 a m where 1: "rt_registration s = SelfService cs" "m_config m0 = m_config (rt_mesh s)"
    "sign_up (ou_env out) tid rs \<lparr>reg_kind = Human, reg_claims = cs\<rparr> t m0 = (Inr a, m)"
    "Authenticated x cred = signed_in a" by (rule runtime_sign_up_Inr)
  from sign_up_principal [OF 1(3)] 1(1,2,4)
  show "\<exists>cs claims. rt_registration s = SelfService cs \<and> resolve_claims (m_config (rt_mesh s)) cs = Inr claims
      \<and> p_kind (ax_principal x) = Human \<and> p_claims (ax_principal x) = claims"
    by (auto simp: registration_claims_def signed_in_def Let_def auth_context_new_def)
qed

definition sample_open :: "(MemoryAuditLog, MemoryMailPort) Runtime" where
  "sample_open = sample_runtime\<lparr>rt_mesh := sample_account_mesh, rt_registration := self_service [],
     ct_authority := live_authority_new\<lparr>lv_password_policy := Some (password_policy_default\<lparr>pw_min_length := 6\<rparr>)\<rparr>,
     rt_clock := \<lambda>_. 12\<rparr>"

definition sample_registration :: BoundaryRequest where
  "sample_registration = form [(''connector'', ''local''), (''password'', ''secret''), (''tenant'', ''acme''),
     (''username'', ''alice'')]"

lemma sample_registration_fields [simp]:
  "field ''connector'' sample_registration = Some ''local''" "field ''password'' sample_registration = Some ''secret''"
  "field ''tenant'' sample_registration = Some ''acme''" "field ''username'' sample_registration = Some ''alice''"
  "field ''email'' sample_registration = None"
  "flow_response sample_registration ''acme'' \<lparr>ch_connector = ''local'', ch_kind = Credentials,
     ch_state = challenge_state ''local'' (Some ''acme'') ''alice'', ch_parameters = ps\<rparr>
   = local_response (Some ''acme'') ''alice'' ''secret''"
  "parameter_of (arq_parameters (flow_request sample_registration ''acme'' ''local'')) ''username'' = Some ''alice''"
proof -
  have p: "connector_parameters sample_registration = [(''password'', ''secret''), (''username'', ''alice'')]"
    by (simp add: connector_parameters_def sample_registration_def form_def boundary_request_default_def
        bcollect_def)
  show "flow_response sample_registration ''acme'' \<lparr>ch_connector = ''local'', ch_kind = Credentials,
     ch_state = challenge_state ''local'' (Some ''acme'') ''alice'', ch_parameters = ps\<rparr>
   = local_response (Some ''acme'') ''alice'' ''secret''"
    by (simp add: flow_response_def p to_challenge_def response_for_tenant_def local_response_def)
  show "parameter_of (arq_parameters (flow_request sample_registration ''acme'' ''local'')) ''username'' = Some ''alice''"
    by (simp add: flow_request_def p parameter_of_def trim_plain plain_def)
qed (simp_all add: sample_registration_def form_field form_no_field plain_def)

lemma sample_open_parts [simp]:
  "rt_mesh sample_open = sample_account_mesh" "rt_registration sample_open = SelfService []"
  "rt_clock sample_open n = 12" "rt_clock_reads sample_open = 0"
  by (simp_all add: sample_open_def self_service_def bcollect_def)

lemma sample_begin:
  "mesh_begin ''acme'' (flow_request sample_registration ''acme'' ''local'') sample_account_mesh
    = Inr \<lparr>ch_connector = ''local'', ch_kind = Credentials,
     ch_state = challenge_state ''local'' (Some ''acme'') ''alice'', ch_parameters = [(''username'', ''alice'')]\<rparr>"
proof -
  have "tenant ''acme'' sample_account_mesh = Inr sample_tenant"
    by (simp add: sample_account_mesh_def sample_tenant_known)
  moreover have "arq_connector (flow_request sample_registration ''acme'' ''local'') = ''local''"
    "arq_tenant (flow_request sample_registration ''acme'' ''local'') = Some ''acme''"
    by (simp_all add: flow_request_def request_for_tenant_def auth_request_new_def)
  ultimately show ?thesis
    by (simp add: mesh_begin_def connector_def sample_account_mesh_def sample_mesh_def check_def
        declares_provider_def sample_contract_def registry_get_def connector_begin_def local_begin_def
        local_id_def map_err_def)
qed

lemma sign_up_registry:
  "sign_up env tid rs reg t s = (Inr a, s') \<Longrightarrow> m_registry s' = m_registry s"
  by (erule sign_up_Inr, erule open_authenticated_Inr)
    (use provision_same_setting in \<open>fastforce simp: same_setting_def\<close>)

lemma sample_registers:
  obtains x cred s' where "runtime_sign_up sample_outside sample_registration sample_open = (Inr (Authenticated x cred), s')"
proof (rule sample_sign_up_works)
  fix a m
  assume up: "sample_sign_up sample_account_mesh = (Inr a, m)"
  let ?rs = "local_response (Some ''acme'') ''alice'' ''secret''"
  let ?acc = "LocalConn [(''alice'', \<lparr>la_username = ''alice'', la_password_hash = ''$secret'',
     la_password_history = [], la_password_changed_at = 0, la_attributes = []\<rparr>)]"
  have reg: "registry_get (m_registry sample_account_mesh) ''local'' = Inr ?acc"
    by (simp add: registry_get_def sample_account_mesh_def)
  have "trim ''alice'' = ''alice''" "trim ''secret'' = ''secret''"
    by (simp_all add: trim_plain plain_def)
  then have known: "\<not> isl (connector_authenticate sample_argon2 ?acc ?rs)"
    by (simp add: connector_authenticate_def local_authenticate_def check_def local_id_def
        verify_password_def sample_argon2_def)
  have "meets ''secret'' (password_policy_default\<lparr>pw_min_length := 6\<rparr>)"
    unfolding validate_meets [symmetric] by code_simp
  then have "validate_password ''secret'' (sample_open\<lparr>rt_clock_reads := n\<rparr>) = Inr ()" for n
    by (simp add: validate_password_def effective_password_policy_def sample_open_def validate_meets)
  then have new: "check_new_password sample_registration ?acc (sample_open\<lparr>rt_clock_reads := n\<rparr>)
      = (Inr (), sample_open\<lparr>rt_clock_reads := n\<rparr>)" for n
    by (simp add: check_new_password_def supports_password_management_def required_field_run)
  have kept: "m_registry m = m_registry sample_account_mesh"
    using up unfolding sample_sign_up_def by (rule sign_up_registry)
  have started: "start_verification sample_outside sample_registration ''acme'' a 12
      (sample_open\<lparr>rt_clock_reads := n, rt_mesh := m\<rparr>) = (Inr (), sample_open\<lparr>rt_clock_reads := n, rt_mesh := m\<rparr>)" for n
  proof -
    let ?u = "sample_open\<lparr>rt_clock_reads := n, rt_mesh := m\<rparr>"
    have "map_of (m_registry (rt_mesh ?u)) ''local'' = Some ?acc"
      by (simp add: kept sample_account_mesh_def)
    moreover have "rt_mail ?u = Some []" by (simp add: sample_open_def sample_runtime_def)
    moreover have "address_of ''local'' ''alice'' ?u = None"
      by (simp add: address_of_def account_def kept sample_account_mesh_def)
    ultimately have mailed: "mail_verification sample_outside ''acme'' ''local'' ''alice'' ?u = (Inr (), ?u)"
      unfolding mail_verification_def by (subst mail_token_run) simp_all
    have "mail_contract_ok ''email_verification'' ?u"
      by (simp add: mail_contract_ok_def sample_open_def sample_runtime_def sample_mesh_def
          sample_contract_def config_default_def)
    then have "request_email_verification sample_outside sample_registration ?u = (Inr (), ?u)"
      unfolding request_email_verification_def require_mail_contract_run required_field_run
      by (simp add: mailed)
    then show ?thesis
      by (simp add: start_verification_def andThen_state contains_at_def andThen_def)
  qed
  have "env_argon2 sample_env = sample_argon2" by (simp add: sample_env_def)
  with known have ensure: "ensure_local_account sample_outside sample_registration ''local'' ?acc ?rs u = (Inr (), u)" for u
    by (simp add: ensure_local_account_def)
  have "runtime_sign_up sample_outside sample_registration sample_open
      = (Inr (signed_in a), sample_open\<lparr>rt_clock_reads := Suc 0, rt_mesh := m\<rparr>)"
    unfolding runtime_sign_up_def andThen_state required_field_run
    by (simp add: andThen_def mapErr_def registered_def reg new ensure on_mesh_def zoom_def sample_begin
        up [unfolded sample_sign_up_def] started)
  then show thesis by (intro that) (simp add: signed_in_def Let_def)
qed

theorem registration_claims_are_the_deployments_witness:
  "(\<exists>x cred s'. runtime_sign_up sample_outside sample_registration sample_open = (Inr (Authenticated x cred), s')
      \<and> p_kind (ax_principal x) = Human \<and> resolve_claims (m_config sample_account_mesh) [] = Inr (p_claims (ax_principal x)))
   \<and> isl (fst (runtime_sign_up sample_outside sample_registration sample_runtime))"
proof
  have "rt_registration sample_runtime = RegistrationClosed" by (simp add: sample_runtime_def)
  from registration_claims_are_the_deployments [THEN conjunct1, THEN mp, OF this]
  obtain e where "runtime_sign_up sample_outside sample_registration sample_runtime = (Inl e, sample_runtime)"
    by blast
  then show "isl (fst (runtime_sign_up sample_outside sample_registration sample_runtime))" by simp
  obtain x cred s' where up: "runtime_sign_up sample_outside sample_registration sample_open = (Inr (Authenticated x cred), s')"
    by (rule sample_registers)
  from registration_claims_are_the_deployments [THEN conjunct2, THEN mp, OF up] up
  show "\<exists>x cred s'. runtime_sign_up sample_outside sample_registration sample_open = (Inr (Authenticated x cred), s')
      \<and> p_kind (ax_principal x) = Human
      \<and> resolve_claims (m_config sample_account_mesh) [] = Inr (p_claims (ax_principal x))"
    by (intro exI [of _ x] exI [of _ cred] exI [of _ s']) auto
qed

subsection \<open>An expired password\<close>

text \<open>
  Signing in with an expired password is refused, but only after the mesh has signed the
  principal in: the login is recorded and the session that was opened stays valid until it
  expires. (Where an address is not verified, the same flow closes the session.)
\<close>

theorem expired_password_leaves_session:
  assumes "field ''tenant'' rq = Some tid" "field ''connector'' rq = Some con"
    and "mesh_begin tid (flow_request rq tid con) (rt_mesh s) = Inr ch" "ch_kind ch = Credentials"
    and "sign_in (ou_env out) tid (flow_response rq tid ch) (rt_clock s (rt_clock_reads s)) (rt_mesh s) = (Inr a, m)"
    and "ensure_password_not_expired (as_external a) (rt_clock s (rt_clock_reads s)) s = Inl e"
    and "t < s_expires_at (as_session a)"
  shows "runtime_sign_in out rq s = (Inl e, s\<lparr>rt_clock_reads := rt_clock_reads s + 1, rt_mesh := m\<rparr>)
    \<and> (\<exists>te. tenant tid m = Inr te \<and> validate_session te (s_id (as_session a)) t (m_sessions m) = Inr (as_session a))"
proof
  have "ensure_password_not_expired x u (s\<lparr>rt_clock_reads := n, rt_mesh := mm\<rparr>)
      = ensure_password_not_expired x u s" for x u n mm
    by (simp add: ensure_password_not_expired_def effective_password_policy_def split: option.split)
  then show "runtime_sign_in out rq s = (Inl e, s\<lparr>rt_clock_reads := rt_clock_reads s + 1, rt_mesh := m\<rparr>)"
    using assms(1-6) unfolding runtime_sign_in_def andThen_state required_field_run
    by (simp add: on_mesh_def zoom_def andThen_def)
  obtain te x rp where si: "tenant tid (rt_mesh s) = Inr te"
    "open_authenticated (ou_env out) KindLogin te x rp (rt_clock s (rt_clock_reads s)) (rt_mesh s) = (Inr a, m)"
    by (rule sign_in_Inr [OF assms(5)])
  show "\<exists>te. tenant tid m = Inr te \<and> validate_session te (s_id (as_session a)) t (m_sessions m) = Inr (as_session a)"
  proof (rule open_authenticated_Inr [OF si(2)], goal_cases)
    case (1 l)
    then have "tenant tid m = Inr te" using si(1) tenant_cong [of m "rt_mesh s"] by simp
    moreover have "validate_session te (s_id (as_session a)) t (m_sessions m) = Inr (as_session a)"
      by (rule validate_opened) (use 1(1,2) assms(7) in simp_all)
    ultimately show ?case by blast
  qed
qed

theorem expired_password_leaves_session_witness:
  "\<exists>(s :: (MemoryAuditLog, MemoryMailPort) Runtime) e s' te sid session.
     runtime_sign_in sample_outside sample_registration s = (Inl e, s') \<and> er_denial e = PasswordExpired
     \<and> tenant ''acme'' (rt_mesh s') = Inr te \<and> validate_session te sid 21 (m_sessions (rt_mesh s')) = Inr session"
proof (rule sample_sign_in_works)
  fix ms a m
  let ?rs = "local_response (Some ''acme'') ''alice'' ''secret''"
  assume si: "sign_in sample_env ''acme'' ?rs 20 ms = (Inr a, m)" and set: "same_setting sample_account_mesh ms"
  let ?s = "sample_open\<lparr>rt_mesh := ms, rt_clock := \<lambda>_. 20,
     ct_authority := live_authority_new\<lparr>lv_password_policy := Some (password_policy_default\<lparr>pw_expiration_days := Some 0\<rparr>)\<rparr>\<rparr>"
  have "tenant ''acme'' ms = tenant ''acme'' sample_account_mesh" "connector c ms = connector c sample_account_mesh" for c
    using set tenant_cong [of ms sample_account_mesh] by (simp_all add: same_setting_def connector_def)
  then have same: "mesh_begin ''acme'' (flow_request sample_registration ''acme'' ''local'') ms
      = mesh_begin ''acme'' (flow_request sample_registration ''acme'' ''local'') sample_account_mesh"
    by (simp add: mesh_begin_def)
  obtain te x rp where si': "authenticate_external sample_env te ?rs ms = Inr x"
    "open_authenticated sample_env KindLogin te x rp 20 ms = (Inr a, m)"
    by (rule sign_in_Inr [OF si])
  have "m_registry ms = m_registry sample_account_mesh" using set by (simp add: same_setting_def)
  then have "Option.bind (map_of (xi_attributes x) ''password_changed_at'') parse_i64 = Some 0"
    using si'(1) parse_i64_show_int [of 0]
    by (auto simp: authenticate_external_def rbind_Inr connector_def registry_get_def sample_account_mesh_def
        connector_authenticate_def local_authenticate_Inr check_def local_response_def in_i64_def split: if_splits)
  moreover have "as_external a = x" "s_expires_at (as_session a) = i64_add 20 (m_session_ttl ms)"
    by (rule open_authenticated_Inr [OF si'(2)], simp)+
  moreover have "m_session_ttl ms = 3600" using set by (simp add: same_setting_def sample_account_mesh_def sample_mesh_def)
  ultimately have e: "ensure_password_not_expired (as_external a) 20 ?s = Inl (password_error ''PASSWORD_EXPIRED'' PasswordExpired)"
    and ex: "21 < s_expires_at (as_session a)"
    by (simp_all add: ensure_password_not_expired_def effective_password_policy_def check_def
        i64_saturating_sub_def i64_add_exact in_i64_def)
  have "runtime_sign_in sample_outside sample_registration ?s
      = (Inl (password_error ''PASSWORD_EXPIRED'' PasswordExpired), ?s\<lparr>rt_clock_reads := rt_clock_reads ?s + 1, rt_mesh := m\<rparr>)
    \<and> (\<exists>te. tenant ''acme'' m = Inr te \<and> validate_session te (s_id (as_session a)) 21 (m_sessions m) = Inr (as_session a))"
    by (rule expired_password_leaves_session [where tid = "''acme''" and con = "''local''"
          and ch = "\<lparr>ch_connector = ''local'', ch_kind = Credentials,
     ch_state = challenge_state ''local'' (Some ''acme'') ''alice'', ch_parameters = [(''username'', ''alice'')]\<rparr>"])
      (use si same e ex sample_begin in simp_all)
  then obtain te' where "runtime_sign_in sample_outside sample_registration ?s
      = (Inl (password_error ''PASSWORD_EXPIRED'' PasswordExpired), ?s\<lparr>rt_clock_reads := rt_clock_reads ?s + 1, rt_mesh := m\<rparr>)"
    "tenant ''acme'' m = Inr te'" "validate_session te' (s_id (as_session a)) 21 (m_sessions m) = Inr (as_session a)"
    by blast
  then show ?thesis
    by - (intro exI conjI, assumption, simp_all add: password_error_def auth_error_def)
qed

end
