(* ===== verification/Server.thy ===== *)
theory Server
  imports ControlPlane Recovery
begin

text \<open>
  The server, \<^verbatim>\<open>server/src/server.rs\<close>: the dispatch of a request between the studio, the control
  plane, the routes of the surface and the application, the handlers of the routes of the surface,
  and a connection from the bytes it delivers to the bytes it is answered. The HTML of the pages
  (\<^verbatim>\<open>ui.rs\<close>) and the client library are parameters: they are text that no decision depends on.
  The theorems say when the application runs, what the whole server can do to the authority in
  force, and what recovery does not tell.
\<close>

subsection \<open>The server\<close>

record Pages =
  pg_client_js :: string
  pg_password_forgot :: "string list \<Rightarrow> string"
  pg_password_reset :: string
  pg_sign_up :: "AuthSurface \<Rightarrow> PasswordPolicy \<Rightarrow> string list \<Rightarrow> string"
  pg_sign_in :: "AuthSurface \<Rightarrow> PasswordPolicy \<Rightarrow> string list \<Rightarrow> string"

text \<open>What a request works on: the runtime, and the state of the application.\<close>

record ('l, 'm, 'a) World =
  wo_runtime :: "('l, 'm) Runtime"
  wo_app :: 'a

text \<open>The trait \<^verbatim>\<open>StudioController\<close>, whose implementor is given the runtime.\<close>

record ('l, 'm, 'a) Studio =
  stu_page :: "('l, 'm, 'a) World \<Rightarrow> string option"
  stu_handle :: "HttpRequest \<Rightarrow> ('l, 'm, 'a) World \<Rightarrow> HttpResponse option \<times> ('l, 'm, 'a) World"

record ('l, 'm, 'a) AuthPortServer =
  sv_app :: "'a Binding"
  sv_tenants :: "string list"
  sv_studio_page :: "string option"
  sv_studio :: "('l, 'm, 'a) Studio option"

definition server_new :: "'a Binding \<Rightarrow> ('l, 'm, 'a) AuthPortServer" where
  "server_new app = \<lparr>sv_app = app, sv_tenants = [], sv_studio_page = None, sv_studio = None\<rparr>"

definition with_studio_page :: "string \<Rightarrow> ('l, 'm, 'a) AuthPortServer \<Rightarrow> ('l, 'm, 'a) AuthPortServer" where
  "with_studio_page html sv = sv\<lparr>sv_studio_page := Some html\<rparr>"

definition with_tenants :: "string list \<Rightarrow> ('l, 'm, 'a) AuthPortServer \<Rightarrow> ('l, 'm, 'a) AuthPortServer" where
  "with_tenants tenants sv = sv\<lparr>sv_tenants := tenants\<rparr>"

definition surface_of :: "('l, 'm) Runtime \<Rightarrow> AuthSurface" where
  "surface_of s = surface_derive (ct_contract s)"

subsection \<open>Answers of the surface\<close>

definition complete :: "SignInOutcome \<Rightarrow> HttpResponse" where
  "complete outcome = (case outcome of
     Authenticated x c \<Rightarrow> with_session_cookie (credential_encode c) (response_json 200 (client_to_json (project x)))
   | Challenged ch \<Rightarrow> response_json 202 (''{'' @ json_key ''challenge'' @ ''{'' @ json_key ''connector''
       @ http_quoted (ch_connector ch) @ '', '' @ json_key ''state'' @ http_quoted (ch_state ch) @ ''}}''))"

definition serves_default_screen :: "AuthSurface \<Rightarrow> UiScreen \<Rightarrow> bool" where
  "serves_default_screen sf screen = (case ui_screen (sf_ui sf) screen of
     Some e \<Rightarrow> us_mode e = UiDefault | None \<Rightarrow> False)"

definition render_screen :: "Pages \<Rightarrow> string list \<Rightarrow> UiScreen \<Rightarrow> ('l, 'm) Runtime \<Rightarrow> HttpResponse" where
  "render_screen pages tenants screen s =
     (if serves_default_screen (surface_of s) screen
      then response_html 200 ((if screen = ScreenSignup then pg_sign_up pages else pg_sign_in pages)
        (surface_of s) (ep_policy (effective_password_policy s)) tenants)
      else response_denied 404 ''custom_ui'' ''this screen is served by the application'')"

definition provider_json :: "ProviderSurface \<Rightarrow> string" where
  "provider_json p = ''{'' @ json_key ''id'' @ http_quoted (md_id p) @ '', '' @ json_key ''display_name''
     @ http_quoted (md_display_name p) @ '', '' @ json_key ''kind'' @ dquote @ connector_kind_as_str (md_kind p) @ dquote
     @ '', '' @ json_key ''status'' @ dquote @ connector_status_as_str (md_status p) @ dquote @ '', ''
     @ json_key ''actionable'' @ show_bool (is_actionable p) @ ''}''"

definition providers_json :: "('l, 'm) Runtime \<Rightarrow> string" where
  "providers_json s = ''{'' @ json_key ''providers'' @ ''['' @ join '', '' (map provider_json (sf_providers (surface_of s)))
     @ '']}''"

definition done_json :: "string \<Rightarrow> string" where
  "done_json what = ''{'' @ json_key what @ ''true}''"

text \<open>An operation on the runtime whose error is a denial.\<close>

definition serving :: "('a \<Rightarrow> HttpResponse) \<Rightarrow> (('l, 'm) Runtime, AuthError, 'a) eff \<Rightarrow> ('l, 'm) handler" where
  "serving good m = answering denial good m"

definition sessions_json :: "AuthContext \<Rightarrow> string" where
  "sessions_json x = ''{'' @ json_key ''sessions'' @ ''[{'' @ json_key ''id'' @ http_quoted (s_id (ax_session x)) @ '', ''
     @ json_key ''principal'' @ http_quoted (p_id (ax_principal x)) @ '', '' @ json_key ''tenant''
     @ http_quoted (t_id (ax_tenant x)) @ ''}]}''"

definition profile_json :: "AuthContext \<Rightarrow> string" where
  "profile_json x = ''{'' @ json_key ''profile'' @ ''{'' @ json_key ''principal'' @ http_quoted (p_id (ax_principal x))
     @ '', '' @ json_key ''tenant'' @ http_quoted (t_id (ax_tenant x)) @ '', '' @ json_key ''application_profile_ref''
     @ ''null}}''"

definition devices_json :: "AuthContext \<Rightarrow> string" where
  "devices_json x = ''{'' @ json_key ''devices'' @ ''[], '' @ json_key ''principal'' @ http_quoted (p_id (ax_principal x)) @ ''}''"

definition tenant_json :: "AuthContext \<Rightarrow> string" where
  "tenant_json x = ''{'' @ json_key ''tenant'' @ ''{'' @ json_key ''id'' @ http_quoted (t_id (ax_tenant x)) @ '', ''
     @ json_key ''namespace'' @ http_quoted (t_namespace (ax_tenant x)) @ ''}}''"

definition tenants_json :: "AuthContext \<Rightarrow> string" where
  "tenants_json x = ''{'' @ json_key ''tenants'' @ ''[{'' @ json_key ''id'' @ http_quoted (t_id (ax_tenant x)) @ ''}]}''"

definition allowed_json :: "string \<Rightarrow> AuthorizationDecision \<Rightarrow> string" where
  "allowed_json cap d = (case d of
     Allow g _ _ _ _ _ \<Rightarrow> ''{'' @ json_key ''allowed'' @ ''true, '' @ json_key ''capability'' @ http_quoted cap @ '', ''
       @ json_key ''principal'' @ http_quoted (g_principal_id g) @ '', '' @ json_key ''authority''
       @ dquote @ basis_as_str (g_authority g) @ dquote @ '', '' @ json_key ''delegation''
       @ (case g_delegation_id g of Some i \<Rightarrow> http_quoted i | None \<Rightarrow> ''null'') @ ''}''
   | Deny reason _ _ _ _ _ _ _ \<Rightarrow> ''{'' @ json_key ''allowed'' @ ''false, '' @ json_key ''capability'' @ http_quoted cap
       @ '', '' @ json_key ''reason'' @ dquote @ denial_as_str reason @ dquote @ ''}'')"

subsection \<open>Handlers of the surface\<close>

definition authorize_request_of :: "AuthContext \<Rightarrow> string \<Rightarrow> AuthorizationRequest" where
  "authorize_request_of x cap = \<lparr>rq_principal = p_id (ax_principal x), rq_tenant = t_id (ax_tenant x),
     rq_capability = cap, rq_action = ''authorize'', rq_resource = None, rq_context = authorization_context_default\<rparr>"

text \<open>Without a capability the request is answered before anything is decided.\<close>

definition handle_authorize :: "('l, 'm) Outside \<Rightarrow> BoundaryRequest \<Rightarrow> ('l, 'm) handler" where
  "handle_authorize out rq = serving (\<lambda>r. r)
     (andThen (authenticate out rq) (\<lambda>x. case field ''capability'' rq of
        None \<Rightarrow> ok (response_denied 400 ''missing_capability'' ''no capability named'')
      | Some cap \<Rightarrow>
          andThen (reading (run_id_from_request x rq)) (\<lambda>run.
          andThen (case run of
              Some i \<Rightarrow> authorize_run_resource out x i (authorize_request_of x cap)
            | None \<Rightarrow> boundary_authorize out x cap) (\<lambda>d.
          ok (response_json 200 (allowed_json cap d))))))"

definition agent_state_json :: "Principal \<Rightarrow> string" where
  "agent_state_json p = ''{'' @ json_key ''id'' @ http_quoted (p_id p) @ '', '' @ json_key ''state''
     @ dquote @ (case p_agent_state p of Some st \<Rightarrow> agent_state_text st | None \<Rightarrow> ''unknown'') @ dquote @ ''}''"

definition agents_json :: "TenantContext \<Rightarrow> ('l, 'm) Runtime \<Rightarrow> string" where
  "agents_json t s = ''{'' @ json_key ''agents'' @ ''['' @ join '', '' (map agent_state_json
     (filter (\<lambda>p. p_kind p = Agent) (list_principals t (dir_principals (rt_mesh s))))) @ '']}''"

text \<open>Only reading is exposed; the session is asked for first.\<close>

definition reading_only :: "string \<Rightarrow> (AuthContext \<Rightarrow> ('l, 'm) Runtime \<Rightarrow> string) \<Rightarrow> ('l, 'm) Outside
   \<Rightarrow> BoundaryRequest \<Rightarrow> ('l, 'm) handler" where
  "reading_only what f out rq = serving (\<lambda>r. r)
     (andThen (authenticate out rq) (\<lambda>x. if br_method rq \<noteq> Get
        then ok (response_denied 501 ''not_enabled'' (what @ '' changes are not exposed over HTTP by this deployment''))
        else reading (\<lambda>s. Inr (response_json 200 (f x s)))))"

definition handle_agents :: "('l, 'm) Outside \<Rightarrow> BoundaryRequest \<Rightarrow> ('l, 'm) handler" where
  "handle_agents = reading_only ''agent lifecycle'' (\<lambda>x s. agents_json (ax_tenant x) s)"

definition delegation_line :: "Delegation \<Rightarrow> string" where
  "delegation_line d = ''{'' @ json_key ''id'' @ http_quoted (d_id d) @ '', '' @ json_key ''delegated_by''
     @ http_quoted (d_delegator d) @ '', '' @ json_key ''expires_at''
     @ (case d_expires_at d of Some t \<Rightarrow> show_int t | None \<Rightarrow> ''null'') @ '', '' @ json_key ''revoked''
     @ show_bool (d_revoked_at d \<noteq> None) @ ''}''"

definition delegations_json :: "AuthContext \<Rightarrow> ('l, 'm) Runtime \<Rightarrow> string" where
  "delegations_json x s = ''{'' @ json_key ''delegations'' @ ''['' @ join '', '' (map delegation_line
     (delegations_for (ax_tenant x) (p_id (ax_principal x)) (rt_mesh s))) @ '']}''"

definition handle_delegations :: "('l, 'm) Outside \<Rightarrow> BoundaryRequest \<Rightarrow> ('l, 'm) handler" where
  "handle_delegations = reading_only ''delegation'' delegations_json"

definition signing_out :: "('l, 'm) Outside \<Rightarrow> BoundaryRequest \<Rightarrow> ('l, 'm) handler" where
  "signing_out out rq = serving (\<lambda>_. clearing_session_cookie (response_json 200 (done_json ''signed_out''))) (sign_out out rq)"

definition telling :: "(AuthContext \<Rightarrow> string) \<Rightarrow> ('l, 'm) Outside \<Rightarrow> BoundaryRequest \<Rightarrow> ('l, 'm) handler" where
  "telling f out rq = serving (\<lambda>x. response_json 200 (f x)) (authenticate out rq)"

fun handle_auth_route :: "('l, 'm) Outside \<Rightarrow> Pages \<Rightarrow> string list \<Rightarrow> AuthOperation \<Rightarrow> BoundaryRequest
   \<Rightarrow> ('l, 'm) handler" where
  "handle_auth_route out pages tenants OpLogin rq = (if br_method rq = Get
     then viewing (render_screen pages tenants ScreenLogin) else serving complete (runtime_sign_in out rq))"
| "handle_auth_route out pages tenants OpSignup rq = (if br_method rq = Get
     then viewing (render_screen pages tenants ScreenSignup) else serving complete (runtime_sign_up out rq))"
| "handle_auth_route out pages tenants OpPasswordChange rq =
     serving (\<lambda>_. response_json 200 (done_json ''changed'')) (runtime_change_password out rq)"
| "handle_auth_route out pages tenants OpPasswordForgot rq = (if br_method rq = Get
     then responding (response_html 200 (pg_password_forgot pages tenants))
     else answering (\<lambda>_. response_json 202 (done_json ''accepted'')) (\<lambda>_. response_json 202 (done_json ''accepted''))
       (forgot_password out rq))"
| "handle_auth_route out pages tenants OpPasswordReset rq = (if br_method rq = Get
     then responding (response_html 200 (pg_password_reset pages))
     else serving (\<lambda>_. response_json 200 (done_json ''reset'')) (reset_password out rq))"
| "handle_auth_route out pages tenants OpPasswordPolicy rq =
     viewing (\<lambda>s. response_json 200 (json_text (password_policy_json s)))"
| "handle_auth_route out pages tenants OpLogout rq = signing_out out rq"
| "handle_auth_route out pages tenants OpSession rq = (if br_method rq = Delete then signing_out out rq
     else answering (\<lambda>_. response_json 401 anonymous_json) (\<lambda>x. response_json 200 (client_to_json (project x)))
       (authenticate out rq))"
| "handle_auth_route out pages tenants OpSessions rq = telling sessions_json out rq"
| "handle_auth_route out pages tenants OpProfile rq = telling profile_json out rq"
| "handle_auth_route out pages tenants OpDevices rq = telling devices_json out rq"
| "handle_auth_route out pages tenants OpEmailVerification rq =
     serving (\<lambda>_. response_json 202 (done_json ''accepted''))
       (if field ''token'' rq \<noteq> None then verify_email out rq else request_email_verification out rq)"
| "handle_auth_route out pages tenants OpProviders rq = viewing (\<lambda>s. response_json 200 (providers_json s))"
| "handle_auth_route out pages tenants OpAuthorize rq = handle_authorize out rq"
| "handle_auth_route out pages tenants OpCurrentTenant rq = telling tenant_json out rq"
| "handle_auth_route out pages tenants OpTenants rq = telling tenants_json out rq"
| "handle_auth_route out pages tenants OpAgents rq = handle_agents out rq"
| "handle_auth_route out pages tenants OpDelegations rq = handle_delegations out rq"
| "handle_auth_route out pages tenants OpAccountLinks rq =
     responding (response_denied 501 ''not_enabled'' ''account linking is not exposed by this deployment'')"
| "handle_auth_route out pages tenants OpMfa rq = responding (response_denied 501 ''not_enabled''
     ''experience is modeled but no provider implementation is enabled'')"
| "handle_auth_route out pages tenants OpPasskeys rq = responding (response_denied 501 ''not_enabled''
     ''experience is modeled but no provider implementation is enabled'')"
| "handle_auth_route out pages tenants OpRecovery rq = responding (response_denied 501 ''not_enabled''
     ''experience is modeled but no provider implementation is enabled'')"
| "handle_auth_route out pages tenants OpPolicies rq =
     responding (response_denied 404 ''no_route'' ''control-plane route was not handled'')"
| "handle_auth_route out pages tenants OpAuthorizationDecisions rq =
     responding (response_denied 404 ''no_route'' ''control-plane route was not handled'')"
| "handle_auth_route out pages tenants OpAuthorizationExplain rq =
     responding (response_denied 404 ''no_route'' ''control-plane route was not handled'')"

subsection \<open>The application\<close>

definition should_redirect_to_login :: "DenialReason \<Rightarrow> bool" where
  "should_redirect_to_login d \<longleftrightarrow>
     d \<in> {MissingCredential, InvalidSession, ExpiredSession, RevokedSession, UnknownPrincipal}"

definition path_safe :: "char \<Rightarrow> bool" where
  "path_safe c \<longleftrightarrow> (let n = of_char c :: nat in
     65 \<le> n \<and> n \<le> 90 \<or> 97 \<le> n \<and> n \<le> 122 \<or> 48 \<le> n \<and> n \<le> 57 \<or> c \<in> {CHR ''/'', CHR ''-'', CHR ''_'', CHR ''.''})"

definition percent_encode_path :: "string \<Rightarrow> string" where
  "percent_encode_path v = concat (map (\<lambda>c. if path_safe c then [c] else escape_byte c) v)"

definition wants_html :: "BoundaryRequest \<Rightarrow> bool" where
  "wants_html rq \<longleftrightarrow> br_method rq = Get
     \<and> (case map_of (br_headers rq) ''accept'' of Some v \<Rightarrow> contains_str ''text/html'' v | None \<Rightarrow> False)"

definition refusal :: "BoundaryRequest \<Rightarrow> AuthError \<Rightarrow> HttpResponse" where
  "refusal rq e =
     (if wants_html rq \<and> should_redirect_to_login (er_denial e)
      then response_with_header ''location'' (''/auth/login?return_to='' @ percent_encode_path (br_path rq))
        (response_html 302 [])
      else if wants_html rq
      then response_html 403 (''<!doctype html><title>Forbidden '' @ [CHR 0xC2, CHR 0xB7]
        @ '' AuthBoundry</title><h1>Access denied</h1><p>'' @ http_escape (er_message e) @ ''</p>'')
      else denial e)"

text \<open>The requirement of the application's route, unless a live change protects the route.\<close>

definition requirement_in_force :: "Method \<Rightarrow> string \<Rightarrow> Requirement \<Rightarrow> ('l, 'm) Runtime \<Rightarrow> Requirement" where
  "requirement_in_force m path requirement s = (case get_route_protection m path s of
     Some cap \<Rightarrow> CapabilityRoute cap | None \<Rightarrow> requirement)"

definition handle_application ::
  "('l, 'm) Outside \<Rightarrow> 'a Binding \<Rightarrow> BoundaryRequest \<Rightarrow> ('l, 'm, 'a) World \<Rightarrow> HttpResponse \<times> ('l, 'm, 'a) World" where
  "handle_application out app rq w = (case bi_resolve app (br_method rq) (br_path rq) of
     MethodNotAllowed \<Rightarrow> (response_denied 405 ''method_not_allowed'' ''unsupported method'', w)
   | NotFound \<Rightarrow> (response_denied 404 ''no_route'' ''no such route'', w)
   | NoPolicy \<Rightarrow> (response_denied 403 ''no_route_policy'' ''this path is not covered by an AuthBoundry route policy'', w)
   | Matched requirement \<Rightarrow>
       (case enforce out rq (requirement_in_force (br_method rq) (br_path rq) requirement (wo_runtime w)) (wo_runtime w) of
          (Inr x, s) \<Rightarrow> (case bi_handle app rq x (wo_app w) of
             (r, a) \<Rightarrow> (r, w\<lparr>wo_runtime := s, wo_app := a\<rparr>))
        | (Inl e, s) \<Rightarrow> (refusal rq e, w\<lparr>wo_runtime := s\<rparr>)))"

subsection \<open>Dispatch\<close>

definition on_runtime :: "('l, 'm) handler \<Rightarrow> ('l, 'm, 'a) World \<Rightarrow> HttpResponse \<times> ('l, 'm, 'a) World" where
  "on_runtime h w = (case h (wo_runtime w) of (r, s) \<Rightarrow> (r, w\<lparr>wo_runtime := s\<rparr>))"

text \<open>The page of the studio: the controller's, or the one the server was given.\<close>

definition studio_page :: "('l, 'm, 'a) AuthPortServer \<Rightarrow> ('l, 'm, 'a) World \<Rightarrow> string option" where
  "studio_page sv w = or_else (Option.bind (sv_studio sv) (\<lambda>c. stu_page c w)) (sv_studio_page sv)"

definition studio_answer :: "('l, 'm, 'a) AuthPortServer \<Rightarrow> HttpRequest \<Rightarrow> string \<Rightarrow> ('l, 'm, 'a) World
   \<Rightarrow> HttpResponse option \<times> ('l, 'm, 'a) World" where
  "studio_answer sv http path w = (case sv_studio sv of
     Some c \<Rightarrow> if starts_with ''/_authboundry/application'' path then stu_handle c http w else (None, w)
   | None \<Rightarrow> (None, w))"

definition handle_surface :: "('l, 'm) Outside \<Rightarrow> Pages \<Rightarrow> ('l, 'm, 'a) AuthPortServer \<Rightarrow> BoundaryRequest
   \<Rightarrow> ('l, 'm, 'a) World \<Rightarrow> HttpResponse \<times> ('l, 'm, 'a) World" where
  "handle_surface out pages sv rq w = (case route (surface_of (wo_runtime w)) (br_path rq) of
     Some r \<Rightarrow> (case auth_method_parse (method_text (br_method rq)) of
         Some m \<Rightarrow> if route_allows r m
           then on_runtime (handle_auth_route out pages (sv_tenants sv) (ro_operation r) rq) w
           else (response_denied 405 ''method_not_allowed'' ''unsupported method'', w)
       | None \<Rightarrow> (response_denied 405 ''method_not_allowed'' ''unsupported method'', w))
   | None \<Rightarrow> if starts_with ''/auth/'' (br_path rq)
       then (response_denied 404 ''unsupported_experience'' ''auth experience is not exposed by this contract'', w)
       else handle_application out (sv_app sv) rq w)"

definition handle_routes :: "('l, 'm) Outside \<Rightarrow> Hashing \<Rightarrow> Pages \<Rightarrow> ('l, 'm, 'a) AuthPortServer \<Rightarrow> HttpRequest
   \<Rightarrow> ('l, 'm, 'a) World \<Rightarrow> HttpResponse \<times> ('l, 'm, 'a) World" where
  "handle_routes out hs pages sv http w = (let rq = to_boundary http; path = br_path rq in
     if path = ''/authboundry/client.js''
     then (response_new 200 ''application/javascript'' (pg_client_js pages), w)
     else case (if starts_with ''/_authboundry/'' path
         then handle_control_route out hs (bi_observed_routes (sv_app sv)) path http else None) of
       Some h \<Rightarrow> on_runtime h w
     | None \<Rightarrow> handle_surface out pages sv rq w)"

definition server_handle :: "('l, 'm) Outside \<Rightarrow> Hashing \<Rightarrow> Pages \<Rightarrow> ('l, 'm, 'a) AuthPortServer \<Rightarrow> HttpRequest
   \<Rightarrow> ('l, 'm, 'a) World \<Rightarrow> HttpResponse \<times> ('l, 'm, 'a) World" where
  "server_handle out hs pages sv http w = (let rq = to_boundary http in
     case (if br_method rq = Get \<and> br_path rq = ''/_authboundry/studio'' then studio_page sv w else None) of
       Some html \<Rightarrow> (response_html 200 html, w)
     | None \<Rightarrow> (case studio_answer sv http (br_path rq) w of
         (Some r, w') \<Rightarrow> (r, w')
       | (None, w') \<Rightarrow> handle_routes out hs pages sv http w'))"

subsection \<open>Upgrades and connections\<close>

definition server_upgrade :: "('l, 'm) Outside \<Rightarrow> ('l, 'm, 'a) AuthPortServer \<Rightarrow> HttpRequest
   \<Rightarrow> ('l, 'm, 'a) World \<Rightarrow> bool \<times> ('l, 'm, 'a) World" where
  "server_upgrade out sv http w = (let rq = to_boundary http in
     case bi_resolve (sv_app sv) (br_method rq) (br_path rq) of
       Matched requirement \<Rightarrow> (case enforce out rq requirement (wo_runtime w) of
           (Inr x, s) \<Rightarrow> (case bi_upgrade (sv_app sv) http x (wo_app w) of
              (b, a) \<Rightarrow> (b, w\<lparr>wo_runtime := s, wo_app := a\<rparr>))
         | (Inl _, s) \<Rightarrow> (False, w\<lparr>wo_runtime := s\<rparr>))
     | _ \<Rightarrow> (False, w))"

definition asks_for_websocket :: "HttpRequest \<Rightarrow> bool" where
  "asks_for_websocket http \<longleftrightarrow> (case http_header ''upgrade'' http of
     Some v \<Rightarrow> ascii_lower v = ''websocket'' | None \<Rightarrow> False)"

text \<open>
  A connection that delivers \<open>bytes\<close> and then ends, and what is written to it; after an upgrade
  the connection is the application's.
\<close>

definition handle_connection :: "('l, 'm) Outside \<Rightarrow> Hashing \<Rightarrow> Pages \<Rightarrow> ('l, 'm, 'a) AuthPortServer \<Rightarrow> string
   \<Rightarrow> ('l, 'm, 'a) World \<Rightarrow> string \<times> ('l, 'm, 'a) World" where
  "handle_connection out hs pages sv bytes w = (case read_from bytes of
     Inr http \<Rightarrow> if asks_for_websocket http
       then (case server_upgrade out sv http w of
           (True, w') \<Rightarrow> ([], w')
         | (False, w') \<Rightarrow> (write_to (response_denied 502 ''websocket_upgrade_failed''
             ''application WebSocket upgrade failed''), w'))
       else (case server_handle out hs pages sv http w of (r, w') \<Rightarrow> (write_to r, w'))
   | Inl message \<Rightarrow> if contains_str ''temporarily unavailable'' message \<or> contains_str ''timed out'' message
       then ([], w)
       else (write_to (response_denied 400 ''bad_request'' message), w))"

subsection \<open>The rest of the server leaves the control state alone\<close>

lemma preserves_prod: "(\<And>a b. preserves P (f a b)) \<Longrightarrow> preserves P (case p of (a, b) \<Rightarrow> f a b)"
  by (cases p) simp

lemma control_attempt: "preserves P m \<Longrightarrow> preserves P (attempt m)"
  by (simp add: preserves_def attempt_def)

lemma control_on_connector: "preserves (same_control s0) (on_connector i op)"
  by (auto simp: preserves_def on_connector_def Let_def same_control_def split: sum.split prod.split)

lemma control_deciding: "preserves (same_control s0) (deciding f)"
  unfolding deciding_def by (intro eff_preserves)

lemma control_send_mail: "preserves (same_control s0) (send_mail out m)"
  by (auto simp: preserves_def send_mail_def same_control_def split: option.split prod.split)

lemma control_issue: "preserves (same_control s0) (issue_challenge out kind tid key e)"
  by (auto simp: preserves_def issue_challenge_def same_control_def Let_def zoom_def split: prod.split)

lemma control_redeem:
  assumes "\<And>s0 t a. preserves (same_control s0) (op t a)"
  shows "preserves (same_control s0) (redeem out token kind t op)"
proof -
  have "same_control s0 (snd (snd (consume_with (ou_sha256 out) token kind t op (c, s))))" if "same_control s0 s" for c s
    using that preserves_snd [OF assms] by (auto simp: consume_with_def split: option.split sum.split prod.split) (metis snd_conv)+
  then show ?thesis
    unfolding redeem_def
    by (intro preserves_mapErr preserves_zoom) (simp add: same_control_def split: prod.split, metis prod.collapse snd_conv)
qed

lemmas control_rules = eff_preserves preserves_prod control_attempt control_on_connector control_deciding
  control_send_mail control_issue control_redeem

lemma control_authenticate: "preserves (same_control s0) (authenticate out rq)"
  unfolding authenticate_def by (intro control_rules)

lemma control_decisions:
  "preserves (same_control s0) (boundary_authorize out x cap)" "preserves (same_control s0) (authorize_resource out x arq)"
  "preserves (same_control s0) (authorize_run_resource out x i arq)"
  unfolding boundary_authorize_def authorize_resource_def authorize_run_resource_def by (intro control_rules)+

lemma control_decide_request: "preserves (same_control s0) (decide_request out x cap rq)"
  unfolding decide_request_def by (intro control_rules control_decisions)

lemma control_enforce: "preserves (same_control s0) (enforce out rq requirement)"
proof (cases requirement)
  case PublicRoute
  then show ?thesis
    using preserves_snd [OF control_authenticate, of s0 _ out rq]
    by (auto simp: enforce_def preserves_def split: prod.split sum.split) (metis snd_conv)+
next
  case (CapabilityRoute cap)
  have "preserves (same_control s0) (case d of Allow _ _ _ _ _ _ \<Rightarrow> ok (Some (with_decision d x))
      | Deny reason _ _ _ _ _ _ _ \<Rightarrow> fail (auth_error PolicyEvaluation
           (in_backticks cap @ '' is not granted to this principal'') reason))" for d x
    by (cases d) (simp_all add: eff_preserves)
  with CapabilityRoute show ?thesis
    by (simp add: enforce_def) (intro control_rules control_authenticate control_decide_request)
qed (simp add: enforce_def, intro control_rules control_authenticate)

lemma control_mail_token: "preserves (same_control s0) (mail_token out kind n link template idem tid con user)"
  unfolding mail_token_def registered_def Let_def by (intro control_rules)

lemma control_forgot_password: "preserves (same_control s0) (forgot_password out rq)"
  unfolding forgot_password_def require_mail_contract_def required_field_def mail_reset_def
  by (intro control_rules control_mail_token)

lemma control_request_verification: "preserves (same_control s0) (request_email_verification out rq)"
  unfolding request_email_verification_def require_mail_contract_def required_field_def mail_verification_def
  by (intro control_rules control_mail_token)

lemma control_redeemed: "preserves (same_control s0) (reset_password out rq)" "preserves (same_control s0) (verify_email out rq)"
  unfolding reset_password_def verify_email_def required_field_def apply_reset_def apply_verification_def registered_def
  by (intro control_rules; simp add: case_prod_unfold; (intro control_rules)?)+

lemma control_change_password: "preserves (same_control s0) (runtime_change_password out rq)"
  unfolding runtime_change_password_def required_field_def registered_def by (intro control_rules)

lemma control_close_session: "preserves (same_control s0) (close_session out tid a t)"
  unfolding close_session_def by (intro control_rules)

lemma control_sign_in: "preserves (same_control s0) (runtime_sign_in out rq)"
  unfolding runtime_sign_in_def required_field_def by (intro control_rules control_close_session)

lemma control_sign_up: "preserves (same_control s0) (runtime_sign_up out rq)"
  unfolding runtime_sign_up_def required_field_def registered_def check_new_password_def ensure_local_account_def
    start_verification_def
  by (intro control_rules control_close_session control_request_verification)

lemma control_sign_out: "preserves (same_control s0) (sign_out out rq)"
  unfolding sign_out_def by (intro control_rules control_authenticate)

lemmas control_operations = control_authenticate control_decisions control_forgot_password
  control_request_verification control_redeemed control_change_password control_sign_in control_sign_up control_sign_out

lemma answering_state: "snd (answering bad good m s) = snd (m s)"
  by (simp add: answering_def split: prod.split sum.split)

lemma control_answering: "preserves (same_control s) m \<Longrightarrow> same_control s (snd (answering bad good m s))"
  unfolding answering_state by (rule framed)

lemma control_unchanged: "same_control s (snd (viewing f s))" "same_control s (snd (responding r s))"
  by (simp_all add: viewing_def responding_def)

lemma surface_keeps_control: "same_control s (snd (handle_auth_route out pages tenants op rq s))"
  by (cases op)
    (simp_all add: control_unchanged serving_def telling_def signing_out_def handle_authorize_def handle_agents_def
      handle_delegations_def reading_only_def; (intro conjI impI)?;
      intro control_answering control_rules control_operations)+

lemma application_keeps_control:
  "same_control (wo_runtime w) (wo_runtime (snd (handle_application out app rq w)))"
  using framed [OF control_enforce, of "wo_runtime w" out rq]
  by (auto simp: handle_application_def split: RouteOutcome.split prod.split sum.split) (metis snd_conv)+

lemma upgrade_keeps_control: "same_control (wo_runtime w) (wo_runtime (snd (server_upgrade out sv http w)))"
  using framed [OF control_enforce, of "wo_runtime w" out "to_boundary http"]
  by (auto simp: server_upgrade_def Let_def split: RouteOutcome.split prod.split sum.split) (metis snd_conv)+

lemma to_boundary_parts [simp]: "br_method (to_boundary http) = hq_method http" "br_path (to_boundary http) = hq_path http"
  by (simp_all add: to_boundary_def sanitized_def)

lemma on_runtime_state: "wo_runtime (snd (on_runtime h w)) = snd (h (wo_runtime w))" "wo_app (snd (on_runtime h w)) = wo_app w"
  by (simp_all add: on_runtime_def split: prod.split)

lemma no_studio: "sv_studio sv = None \<Longrightarrow> studio_answer sv http path w = (None, w)"
  by (simp add: studio_answer_def)

text \<open>
  The state that the routes find: what a studio controller, asked first for its own paths, left of
  the state the request arrived in. A request to upgrade to a WebSocket is not shown to it.
\<close>

definition found_by_routes :: "('l, 'm, 'a) AuthPortServer \<Rightarrow> HttpRequest \<Rightarrow> ('l, 'm, 'a) World \<Rightarrow> ('l, 'm, 'a) World" where
  "found_by_routes sv http w = (if asks_for_websocket http then w else snd (studio_answer sv http (hq_path http) w))"

lemma found_without_studio [simp]: "sv_studio sv = None \<Longrightarrow> found_by_routes sv http w = w"
  by (simp add: found_by_routes_def no_studio)

lemma server_handle_routed:
  "server_handle out hs pages sv http w = handle_routes out hs pages sv http (snd (studio_answer sv http (hq_path http) w))
   \<or> snd (server_handle out hs pages sv http w) = snd (studio_answer sv http (hq_path http) w)"
proof (cases "hq_path http = ''/_authboundry/studio''")
  case True
  then have "studio_answer sv http (hq_path http) w = (None, w)"
    by (simp add: studio_answer_def starts_with_def split: option.split)
  then show ?thesis by (auto simp: server_handle_def Let_def split: option.split)
next
  case False
  then show ?thesis by (auto simp: server_handle_def Let_def split: option.split prod.split)
qed

text \<open>A studio controller that leaves the contract, the authority and the proposals alone, or none.\<close>

definition studio_keeps_control :: "('l, 'm, 'a) AuthPortServer \<Rightarrow> bool" where
  "studio_keeps_control sv \<longleftrightarrow> (\<forall>http w. same_control (wo_runtime w)
     (wo_runtime (snd (studio_answer sv http (hq_path http) w))))"

lemma no_studio_keeps [simp]: "sv_studio sv = None \<Longrightarrow> studio_keeps_control sv"
  by (simp add: studio_keeps_control_def no_studio)

lemma surface_dispatch_keeps_control:
  "same_control (wo_runtime w) (wo_runtime (snd (handle_surface out pages sv rq w)))"
  by (simp add: handle_surface_def on_runtime_state surface_keeps_control application_keeps_control split: option.split)

context control_effect
begin

lemma server_keeps:
  assumes "studio_keeps_control sv"
    and "\<And>h s. handle_control_route out hs (bi_observed_routes (sv_app sv)) (hq_path http) http = Some h \<Longrightarrow> R s (snd (h s))"
  shows "R (wo_runtime w) (wo_runtime (snd (server_handle out hs pages sv http w)))"
proof -
  note surface = frame [OF surface_dispatch_keeps_control]
  have routes: "R (wo_runtime v) (wo_runtime (snd (handle_routes out hs pages sv http v)))" for v
  proof (cases "if starts_with ''/_authboundry/'' (hq_path http)
      then handle_control_route out hs (bi_observed_routes (sv_app sv)) (hq_path http) http else None")
    case None
    then show ?thesis unfolding handle_routes_def Let_def to_boundary_parts None by (simp add: refl surface)
  next
    case (Some h)
    then have "R (wo_runtime v) (snd (h (wo_runtime v)))" using assms(2) by (simp split: if_splits)
    then show ?thesis unfolding handle_routes_def Let_def to_boundary_parts Some by (simp add: refl on_runtime_state)
  qed
  have "R (wo_runtime w) (wo_runtime (snd (studio_answer sv http (hq_path http) w)))"
    using assms(1) by (intro frame) (simp add: studio_keeps_control_def)
  then show ?thesis
    using server_handle_routed [of out hs pages sv http w] trans [OF _ routes] by (elim disjE) auto
qed

lemma connection_keeps:
  assumes "studio_keeps_control sv"
    and "\<And>http h s. read_from bytes = Inr http \<Longrightarrow>
      handle_control_route out hs (bi_observed_routes (sv_app sv)) (hq_path http) http = Some h \<Longrightarrow> R s (snd (h s))"
  shows "R (wo_runtime w) (wo_runtime (snd (handle_connection out hs pages sv bytes w)))"
proof (cases "read_from bytes")
  case (Inl message)
  then show ?thesis by (simp add: handle_connection_def refl)
next
  case (Inr http)
  have "R (wo_runtime w) (wo_runtime (snd (server_handle out hs pages sv http w)))"
    using server_keeps [OF assms(1)] assms(2) [OF Inr] by blast
  moreover have "R (wo_runtime w) (wo_runtime (snd (server_upgrade out sv http w)))"
    by (rule frame [OF upgrade_keeps_control])
  ultimately show ?thesis
    using Inr by (auto simp: handle_connection_def split: prod.split bool.split)
qed

end

subsection \<open>What the server does to the authority in force\<close>

text \<open>
  C7. Of everything that can arrive on a connection, only a request for applying a proposal can
  change the authority in force: whatever the bytes are, readable as a request or not, signing in,
  recovering an account, asking the control plane or using the application or its WebSocket, the
  live authority and the contract are what they were. The server is one without a studio
  controller, which would be given the runtime itself.
\<close>

theorem only_applying_bytes_change_authority:
  assumes "sv_studio sv = None"
    and "\<And>http. read_from bytes = Inr http \<Longrightarrow> \<not> applying (hq_method http) (hq_path http)"
  shows "live_authority (wo_runtime (snd (handle_connection out hs pages sv bytes w))) = live_authority (wo_runtime w)
    \<and> ct_contract (wo_runtime (snd (handle_connection out hs pages sv bytes w))) = ct_contract (wo_runtime w)"
proof -
  have "ct_authority (wo_runtime (snd (handle_connection out hs pages sv bytes w))) = ct_authority (wo_runtime w)
      \<and> ct_contract (wo_runtime (snd (handle_connection out hs pages sv bytes w))) = ct_contract (wo_runtime w)"
    using standing.route_keeps assms(2) by (intro standing.connection_keeps [OF no_studio_keeps [OF assms(1)]]) blast
  then show ?thesis by (simp add: live_authority_def)
qed

text \<open>One connection after another.\<close>

inductive connection_step ::
  "('l, 'm) Outside \<Rightarrow> Hashing \<Rightarrow> Pages \<Rightarrow> ('l, 'm, 'a) AuthPortServer \<Rightarrow> ('l, 'm, 'a) World \<Rightarrow> ('l, 'm, 'a) World \<Rightarrow> bool"
  for out hs pages sv where
  connection: "connection_step out hs pages sv w (snd (handle_connection out hs pages sv bytes w))"

inductive_cases connection_stepE: "connection_step out hs pages sv w w'"

interpretation serving_connections:
  simulation "\<lambda>w w'. studio_keeps_control sv \<and> connection_step out hs pages sv w w'" amends "\<lambda>w. simulates (wo_runtime w)"
  for out hs pages and sv :: "('l, 'm, 'a) AuthPortServer"
proof (unfold_locales, goal_cases)
  case (1 w x w')
  then have "refines (wo_runtime w) (wo_runtime w')"
    by (auto elim!: connection_stepE intro: refining.connection_keeps refining.every_route_keeps)
  with 1(1) show ?case unfolding refines_def by blast
qed

lemma connections_sound:
  assumes "studio_keeps_control sv" "(connection_step out hs pages sv)\<^sup>*\<^sup>* w w'"
  shows "sound_move (wo_runtime w) (wo_runtime w')"
  using assms(2)
proof (induction rule: rtranclp_induct)
  case (step u v)
  then have "sound_move (wo_runtime u) (wo_runtime v)"
    by (auto elim!: connection_stepE intro: proposals_kept.connection_keeps [OF assms(1)] proposals_kept.every_route_keeps)
  with step.IH show ?case by (rule sound_move_trans)
qed simp

text \<open>The authorities that the history says were in force before.\<close>

definition history_states :: "'z Control_scheme \<Rightarrow> LiveAuthorityState set" where
  "history_states s = {ch_previous_state r | k r. map_of (mp_changes (ct_proposals s)) k = Some r}"

lemma simulates_history: "simulates s (ct_authority s, history_states s)"
  by (auto simp: simulates_def history_states_def)

text \<open>
  C5. The server as a whole implements the authority machine, connection by connection. From a
  state whose proposals are stored under their own ids and whose history holds one change in every
  record, as in a runtime that has not been asked to change anything yet, let any number of
  connections be served one after another, with any bytes on them. Then the authority in force
  went only through single changes and restorations of authorities that were in force before (at
  first those of the history), each under the next revision; every authority that the history now
  names was in force; proposals kept their change and, once applied or rejected, their status;
  and again proposals are stored under their own ids and every record holds one change. The server
  has no studio controller, or one that leaves contract, authority and proposals alone. Nothing
  is said here of connections whose requests are worked on at the same time, which the server's
  threads allow.
\<close>

theorem connections_refine_machine:
  assumes "studio_keeps_control sv" "(connection_step out hs pages sv)\<^sup>*\<^sup>* w w'"
    and "proposals_keyed (wo_runtime w)" "history_sound (wo_runtime w)"
  shows "\<exists>past. amends\<^sup>*\<^sup>* (live_authority (wo_runtime w), history_states (wo_runtime w))
       (live_authority (wo_runtime w'), past)
    \<and> history_states (wo_runtime w') \<subseteq> past
    \<and> moves (wo_runtime w) (wo_runtime w')
    \<and> proposals_keyed (wo_runtime w') \<and> history_sound (wo_runtime w')"
proof -
  have "(\<lambda>w w'. studio_keeps_control sv \<and> connection_step out hs pages sv w w')\<^sup>*\<^sup>* w w'"
    using assms(2) by (rule rtranclp_mono [THEN predicate2D, rotated]) (simp add: assms(1) le_fun_def)
  then obtain y where "amends\<^sup>*\<^sup>* (ct_authority (wo_runtime w), history_states (wo_runtime w)) y"
    "simulates (wo_runtime w') y"
    using serving_connections.simulate_star simulates_history by blast
  moreover have "moves (wo_runtime w) (wo_runtime w')" "history_sound (wo_runtime w')" "proposals_keyed (wo_runtime w')"
    using connections_sound [OF assms(1,2)] assms(3,4) by (simp_all add: sound_move_def)
  ultimately show ?thesis
    by (cases y) (auto simp: simulates_def live_authority_def history_states_def)
qed

subsection \<open>When the application runs\<close>

lemma application_ran:
  assumes "handle_application out app rq w = (r, w')" "wo_app w' \<noteq> wo_app w"
  obtains requirement x where "bi_resolve app (br_method rq) (br_path rq) = Matched requirement"
    "enforce out rq (requirement_in_force (br_method rq) (br_path rq) requirement (wo_runtime w)) (wo_runtime w)
       = (Inr x, wo_runtime w')"
    "bi_handle app rq x (wo_app w) = (r, wo_app w')"
  using assms by (auto simp: handle_application_def split: RouteOutcome.splits prod.splits sum.splits)

lemma application_dispatched:
  assumes "handle_routes out hs pages sv http w = (r, w')" "wo_app w' \<noteq> wo_app w"
  shows "handle_application out (sv_app sv) (to_boundary http) w = (r, w')"
proof -
  have elsewhere: "wo_app w' = wo_app w" if "on_runtime h w = (r, w')" for h
    using that on_runtime_state(2) [of h w] by simp
  have "handle_surface out pages sv (to_boundary http) w = (r, w')"
    using assms elsewhere by (auto simp: handle_routes_def Let_def split: option.splits if_splits)
  then show ?thesis
    using assms(2) elsewhere by (auto simp: handle_surface_def split: option.splits if_splits)
qed

lemma upgrade_ran:
  assumes "server_upgrade out sv http w = (b, w')" "wo_app w' \<noteq> wo_app w"
  obtains requirement x where "bi_resolve (sv_app sv) (hq_method http) (hq_path http) = Matched requirement"
    "enforce out (to_boundary http) requirement (wo_runtime w) = (Inr x, wo_runtime w')"
    "bi_upgrade (sv_app sv) http x (wo_app w) = (b, wo_app w')"
  using assms by (auto simp: server_upgrade_def Let_def split: RouteOutcome.splits prod.splits sum.splits)

text \<open>What a context shows that was let through to a route with a requirement.\<close>

definition context_meets :: "Requirement \<Rightarrow> AuthContext option \<Rightarrow> bool" where
  "context_meets requirement x \<longleftrightarrow> (case requirement of
     PublicRoute \<Rightarrow> True
   | AuthenticatedRoute \<Rightarrow> x \<noteq> None
   | CapabilityRoute cap \<Rightarrow> (\<exists>y d g. x = Some y \<and> ax_decision y = Some d \<and> decision_grant d = Some g
       \<and> g_capability g = cap \<and> g_principal_id g = p_id (ax_principal y) \<and> g_tenant_id g = t_id (ax_tenant y)))"

lemma enforced_context_meets: "enforce out rq requirement s = (Inr x, s') \<Longrightarrow> context_meets requirement x"
proof (cases requirement)
  case AuthenticatedRoute
  then show "enforce out rq requirement s = (Inr x, s') \<Longrightarrow> context_meets requirement x"
    by (auto simp: enforce_def context_meets_def ok_def elim!: eff_elims)
next
  case (CapabilityRoute cap)
  assume "enforce out rq requirement s = (Inr x, s')"
  then show ?thesis unfolding CapabilityRoute
    by (rule enforce_grants) (auto simp: context_meets_def)
qed (simp add: context_meets_def)

text \<open>
  C2. The application only ever runs on a request that was enforced first. Bytes that are no
  request leave the application as it is. When a connection's request changes the application's
  state, from what a studio controller (if the server has one, and the request is for its paths)
  left of it, then the application has a route for the request; the boundary enforced a
  requirement in that state and let the request through; and it was the application's own handler,
  given the request without the reserved headers and the context the enforcement returned, that
  made the new state and the response that was written. The requirement is the route's, replaced
  by the capability of a live change that protects the route; and for a request to upgrade to a
  WebSocket, which goes to the application's upgrade instead and as it arrived, it is the route's
  alone. Where the
  requirement is a capability, the context holds a decision whose grant is for that capability
  and the context's principal and tenant; where it is a session, there is a context.
\<close>

theorem application_runs_only_when_enforced:
  assumes "handle_connection out hs pages sv bytes w = (written, w')"
  shows "case read_from bytes of
     Inl message \<Rightarrow> w' = w
   | Inr http \<Rightarrow> wo_app w' = wo_app (found_by_routes sv http w)
      \<or> (\<exists>route_requirement requirement x. let w0 = found_by_routes sv http w in
           bi_resolve (sv_app sv) (hq_method http) (hq_path http) = Matched route_requirement
           \<and> requirement = (if asks_for_websocket http then route_requirement
               else case get_route_protection (hq_method http) (hq_path http) (wo_runtime w0) of
                   Some cap \<Rightarrow> CapabilityRoute cap | None \<Rightarrow> route_requirement)
           \<and> enforce out (to_boundary http) requirement (wo_runtime w0) = (Inr x, wo_runtime w')
           \<and> (if asks_for_websocket http
              then \<exists>b. bi_upgrade (sv_app sv) http x (wo_app w0) = (b, wo_app w')
              else \<exists>r. bi_handle (sv_app sv) (to_boundary http) x (wo_app w0) = (r, wo_app w')
                \<and> written = write_to r)
           \<and> context_meets requirement x)"
proof (cases "read_from bytes")
  case (Inl message)
  then show ?thesis using assms by (simp add: handle_connection_def split: if_splits)
next
  case (Inr http)
  show ?thesis
  proof (cases "asks_for_websocket http")
    case True
    then obtain b where "server_upgrade out sv http w = (b, w')"
      using assms Inr by (auto simp: handle_connection_def split: prod.splits bool.splits)
    then have upgrade: "wo_app w' \<noteq> wo_app w \<Longrightarrow> \<exists>requirement x.
        bi_resolve (sv_app sv) (hq_method http) (hq_path http) = Matched requirement
        \<and> enforce out (to_boundary http) requirement (wo_runtime w) = (Inr x, wo_runtime w')
        \<and> bi_upgrade (sv_app sv) http x (wo_app w) = (b, wo_app w') \<and> context_meets requirement x"
      by (rule upgrade_ran) (use enforced_context_meets in blast)+
    have "found_by_routes sv http w = w" using True by (simp add: found_by_routes_def)
    then show ?thesis using True Inr upgrade by (simp add: Let_def) blast
  next
    case False
    define w0 where "w0 = found_by_routes sv http w"
    have w0: "w0 = snd (studio_answer sv http (hq_path http) w)" using False by (simp add: w0_def found_by_routes_def)
    obtain r where r: "server_handle out hs pages sv http w = (r, w')" "written = write_to r"
      using assms Inr False by (auto simp: handle_connection_def split: prod.splits)
    show ?thesis
    proof (cases "wo_app w' = wo_app w0")
      case True
      then show ?thesis by (simp add: Inr w0_def)
    next
      case changed: False
      then have "handle_routes out hs pages sv http w0 = (r, w')"
        using server_handle_routed [of out hs pages sv http w] by (auto simp: r(1) w0)
      then have "\<exists>requirement x. bi_resolve (sv_app sv) (hq_method http) (hq_path http) = Matched requirement
          \<and> enforce out (to_boundary http)
               (requirement_in_force (hq_method http) (hq_path http) requirement (wo_runtime w0)) (wo_runtime w0)
             = (Inr x, wo_runtime w')
          \<and> bi_handle (sv_app sv) (to_boundary http) x (wo_app w0) = (r, wo_app w')"
        by (rule application_ran [OF application_dispatched [OF _ changed] changed]) auto
      then show ?thesis
        using False Inr r(2) enforced_context_meets
        by (simp add: Let_def w0_def [symmetric] requirement_in_force_def) blast
    qed
  qed
qed

subsection \<open>What recovery does not tell\<close>

lemma route_Some: "route (surface_derive c) path = Some r \<Longrightarrow>
    r \<in> set (routes_derive (canonical c) (features_derive (canonical c))) \<and> route_matches r path"
  by (auto simp: route_def surface_derive_def Let_def dest: find_SomeD)

lemma forgot_route:
  assumes "route (surface_derive c) path = Some r" "path = ''/auth/password/forgot'' \<or> path = ''/forgot-password''"
  shows "ro_operation r = OpPasswordForgot \<and> route_allows r AuthPost"
  using route_Some [OF assms(1)] assms(2)
  by (auto simp: routes_derive_def Let_def route_new_def with_alias_def route_matches_def route_allows_def)

text \<open>
  C17. Asking for a password to be reset tells nothing: whatever account is named, whether it
  exists, has an address, may be reset, whether the mail is configured, accepted or refused, and
  whatever else a request says, in any two states of the runtime with the same contract, and with
  any two mail ports, the response is the same. The server has no studio controller; one is not
  asked on these paths anyway.
\<close>

theorem recovery_requests_are_answered_alike:
  assumes "sv_studio sv = None" "ct_contract (wo_runtime v) = ct_contract (wo_runtime w)"
    and "hq_path http = ''/auth/password/forgot'' \<or> hq_path http = ''/forgot-password''"
    and "hq_path other = hq_path http" "hq_method http = Post" "hq_method other = Post"
    and "route (surface_of (wo_runtime w)) (hq_path http) \<noteq> None"
  shows "fst (server_handle out hs pages sv http w) = fst (server_handle out' hs' pages' sv other v)
    \<and> hp_status (fst (server_handle out hs pages sv http w)) = 202"
proof -
  obtain r where r: "route (surface_derive (ct_contract (wo_runtime w))) (hq_path http) = Some r"
    using assms(7) by (auto simp: surface_of_def)
  note op = forgot_route [OF r assms(3)]
  have parse: "auth_method_parse (method_text Post) = Some AuthPost" by code_simp
  have "fst (server_handle out hs pages sv rq u) = response_json 202 (done_json ''accepted'')"
    if "hq_path rq = hq_path http" "hq_method rq = Post" "ct_contract (wo_runtime u) = ct_contract (wo_runtime w)"
    for out hs pages rq u
  proof -
    have "fst (handle_surface out pages sv (to_boundary rq) u) = response_json 202 (done_json ''accepted'')"
      by (simp add: handle_surface_def surface_of_def that r op parse on_runtime_def answering_def
          split: prod.split sum.split)
    moreover have "\<not> starts_with ''/_authboundry/'' (hq_path rq)" "hq_path rq \<noteq> ''/authboundry/client.js''"
      using that(1) assms(3) by (auto simp: starts_with_def)
    ultimately show ?thesis
      using that(2) by (simp add: server_handle_def handle_routes_def Let_def no_studio [OF assms(1)])
  qed
  note answer = this
  show ?thesis using answer [of http w out hs pages] answer [of other v out' hs' pages'] assms
    by (simp add: response_json_def response_new_def)
qed

subsection \<open>A sample server\<close>

text \<open>An application that counts the requests its one handler is given.\<close>

definition sample_server :: "(MemoryAuditLog, MemoryMailPort, nat) AuthPortServer" where
  "sample_server = server_new (router_binding (router_require Get ''/invoices/7'' ''invoices.read''
     (\<lambda>_ n. (response_text 200 ''invoice 7'', Suc n)) router_new))"

definition sample_pages :: Pages where
  "sample_pages = \<lparr>pg_client_js = [], pg_password_forgot = (\<lambda>_. []), pg_password_reset = [],
     pg_sign_up = (\<lambda>_ _ _. []), pg_sign_in = (\<lambda>_ _ _. [])\<rparr>"

definition sample_world :: "(MemoryAuditLog, MemoryMailPort, nat) World" where
  "sample_world = \<lparr>wo_runtime = sample_runtime, wo_app = 0\<rparr>"

lemma sample_server_plain [simp]: "sv_studio sample_server = None"
  by (simp add: sample_server_def server_new_def)

text \<open>The bytes of a client that gets an invoice with its session.\<close>

definition sample_cookie :: string where
  "sample_cookie = session_cookie @ ''='' @ credential_encode sample_credential"

definition sample_visit :: string where
  "sample_visit = exchange_bytes ''localhost''
     (client_with_header ''cookie'' sample_cookie (client_request_new Get ''/invoices/7''))"

lemma sample_cookie_read: "parse_cookies sample_cookie = [(session_cookie, credential_encode sample_credential)]"
proof -
  have plain: "trim v = v" if "v \<noteq> []" "list_all plain v" for v using that trim_plain [of v] by (auto simp: list_all_iff)
  have "trim sample_cookie = sample_cookie" "trim session_cookie = session_cookie"
    "trim (credential_encode sample_credential) = credential_encode sample_credential"
    by (rule plain; code_simp)+
  moreover have "split_on (CHR '';'') sample_cookie = [sample_cookie]"
    "split_once (CHR ''='') sample_cookie = Some (session_cookie, credential_encode sample_credential)"
    by code_simp+
  ultimately show ?thesis by (simp add: parse_cookies_def List.map_filter_simps bcollect_def)
qed

lemma sample_visit_read:
  obtains http where "read_from sample_visit = Inr http" "hq_method http = Get" "hq_path http = ''/invoices/7''"
    "\<not> asks_for_websocket http" "credential (to_boundary http) = Some sample_credential"
    "tenant_hint (to_boundary http) = None" "\<And>name. field name (to_boundary http) = None"
proof -
  let ?rq = "client_with_header ''cookie'' sample_cookie (client_request_new Get ''/invoices/7'')"
  define hs where "hs = bcollect (sent_headers ''localhost'' ?rq)"
  define http where "http = assemble Get ''/invoices/7'' hs []"
  have rq: "cq_method ?rq = Get" "cq_path ?rq = ''/invoices/7''" "cq_headers ?rq = [(''cookie'', sample_cookie)]"
    "cq_body ?rq = []"
    by (simp_all add: client_with_header_def client_request_new_def)
  have "header_value_ok ''localhost''" "headers_ok [(''cookie'', sample_cookie)]" "list_all plain ''/invoices/7''"
    by code_simp+
  then have "read_from sample_visit = Inr http"
    unfolding sample_visit_def http_def hs_def using read_exchanged [of "''localhost''" ?rq] by (simp add: rq)
  moreover have target: "split_target ''/invoices/7'' = (''/invoices/7'', [])" by code_simp
  have headers: "map_of hs ''cookie'' = Some sample_cookie" "map_of hs ''upgrade'' = None"
    "map_of hs ''x-tenant-id'' = None" "map_of hs ''content-type'' = None"
    by (simp_all add: hs_def map_of_bcollect sent_headers_def rq)
  have low: "ascii_lower ''upgrade'' = ''upgrade''" "ascii_lower ''content-type'' = ''content-type''"
    "ascii_lower ''x-tenant-id'' = ''x-tenant-id''" by code_simp+
  have "\<not> asks_for_websocket http"
    by (simp add: asks_for_websocket_def http_header_def http_def assemble_def headers low)
  moreover have body: "parsed_body http = []"
    by (simp add: parsed_body_def http_header_def http_def assemble_def headers low Let_def)
      (simp add: utf8_lossy_valid contains_str_def starts_with_def trim_start_def parse_form_def bcollect_def
        List.map_filter_simps)
  have parts: "br_cookies (to_boundary http) = [(session_cookie, credential_encode sample_credential)]"
    "br_query (to_boundary http) = []" "br_body (to_boundary http) = []"
    using headers target body
    by (simp_all add: to_boundary_def sanitized_def http_def assemble_def sample_cookie_read)
  have "credential_parse (credential_encode sample_credential) = Some sample_credential"
    using sample_get_parts(1) [of "''/''"]
    by (simp add: credential_def sample_get_def with_credential_def with_cookie_def boundary_request_new_def
        boundary_request_default_def)
  then have "credential (to_boundary http) = Some sample_credential" by (simp add: credential_def parts)
  moreover have field: "field name (to_boundary http) = None" for name by (simp add: field_def parts present_def)
  moreover have "map_of (br_headers (to_boundary http)) ''x-tenant-id'' = None"
    using headers by (simp add: to_boundary_def sanitized_def http_def assemble_def map_of_filter_keys)
  then have "tenant_hint (to_boundary http) = None" using field low by (simp add: tenant_hint_def header_def present_def)
  moreover have "hq_method http = Get" "hq_path http = ''/invoices/7''" by (simp_all add: http_def assemble_def target)
  ultimately show thesis using that by blast
qed

lemma no_auth_route: "path \<notin> (\<Union>r \<in> set (routes_derive (canonical c) (features_derive (canonical c))). set (spellings r))
    \<Longrightarrow> route (surface_derive c) path = None"
  by (auto simp: route_def surface_derive_def Let_def find_None_iff route_matches_def spellings_def)

lemma sample_served:
  obtains w' where "handle_connection sample_outside sample_hashing sample_pages sample_server sample_visit sample_world
     = (write_to (response_text 200 ''invoice 7''), w')" "wo_app w' = 1"
proof (rule sample_enforced, goal_cases)
  case (1 x s')
  obtain http where http: "read_from sample_visit = Inr http" "hq_method http = Get" "hq_path http = ''/invoices/7''"
    "\<not> asks_for_websocket http" "credential (to_boundary http) = Some sample_credential"
    "tenant_hint (to_boundary http) = None" "\<And>name. field name (to_boundary http) = None"
    by (rule sample_visit_read) blast
  have enforced: "enforce sample_outside (to_boundary http) (CapabilityRoute ''invoices.read'') sample_runtime = (Inr (Some x), s')"
    by (rule trans [OF enforce_reads 1(2)]) (simp_all add: http)
  have "bi_resolve (sv_app sample_server) Get ''/invoices/7'' = Matched (CapabilityRoute ''invoices.read'')"
    by code_simp
  moreover have "get_route_protection Get ''/invoices/7'' sample_runtime = None"
    by (simp add: get_route_protection_def live_authority_new_def)
  moreover have "bi_handle (sv_app sample_server) rq y 0 = (response_text 200 ''invoice 7'', 1)"
    if "br_method rq = Get" "br_path rq = ''/invoices/7''" for rq y
    using that by (simp add: sample_server_def server_new_def router_binding_def router_handle_def router_require_def
        router_route_def router_new_def)
  ultimately have app: "handle_application sample_outside (sv_app sample_server) (to_boundary http) sample_world
      = (response_text 200 ''invoice 7'', sample_world\<lparr>wo_runtime := s', wo_app := 1\<rparr>)"
    using enforced http by (simp add: handle_application_def requirement_in_force_def sample_world_def)
  have "route (surface_derive c) ''/invoices/7'' = None" for c
    by (rule no_auth_route)
      (auto simp: routes_derive_def Let_def route_new_def with_alias_def spellings_def)
  then have "server_handle sample_outside sample_hashing sample_pages sample_server http sample_world
      = (response_text 200 ''invoice 7'', sample_world\<lparr>wo_runtime := s', wo_app := 1\<rparr>)"
    using app http(2,3)
    by (simp add: server_handle_def handle_routes_def handle_surface_def Let_def no_studio
        surface_of_def starts_with_def)
  then have "handle_connection sample_outside sample_hashing sample_pages sample_server sample_visit sample_world
      = (write_to (response_text 200 ''invoice 7''), sample_world\<lparr>wo_runtime := s', wo_app := 1\<rparr>)"
    using http(1,4) by (simp add: handle_connection_def)
  then show ?thesis by (rule 1(1)) simp
qed

theorem application_runs_only_when_enforced_witness:
  "\<exists>w' http x. handle_connection sample_outside sample_hashing sample_pages sample_server sample_visit sample_world
         = (write_to (response_text 200 ''invoice 7''), w') \<and> wo_app w' = 1
     \<and> read_from sample_visit = Inr http
     \<and> enforce sample_outside (to_boundary http) (CapabilityRoute ''invoices.read'') sample_runtime = (Inr x, wo_runtime w')
     \<and> context_meets (CapabilityRoute ''invoices.read'') x"
proof (rule sample_served)
  fix w' assume w': "handle_connection sample_outside sample_hashing sample_pages sample_server sample_visit sample_world
      = (write_to (response_text 200 ''invoice 7''), w')" "wo_app w' = 1"
  obtain http where http: "read_from sample_visit = Inr http" "hq_method http = Get" "hq_path http = ''/invoices/7''"
    "\<not> asks_for_websocket http" by (rule sample_visit_read) blast
  have "wo_app w' \<noteq> wo_app sample_world" by (simp add: w' sample_world_def)
  moreover have "bi_resolve (sv_app sample_server) Get ''/invoices/7'' = Matched (CapabilityRoute ''invoices.read'')"
    by code_simp
  moreover have "get_route_protection Get ''/invoices/7'' sample_runtime = None"
    by (simp add: get_route_protection_def live_authority_new_def)
  ultimately obtain x where "enforce sample_outside (to_boundary http) (CapabilityRoute ''invoices.read'') sample_runtime
      = (Inr x, wo_runtime w')" "context_meets (CapabilityRoute ''invoices.read'') x"
    using application_runs_only_when_enforced [OF w'(1)] http
    by (auto simp: requirement_in_force_def sample_world_def Let_def)
  with w' http(1) show ?thesis by blast
qed

theorem only_applying_bytes_change_authority_witness:
  "live_authority (wo_runtime (snd (handle_connection sample_outside sample_hashing sample_pages sample_server
       sample_bytes sample_world))) = live_authority_new"
proof -
  have "\<not> applying (hq_method http) (hq_path http)" if "read_from sample_bytes = Inr http" for http
    using that by (auto simp: sample_read assemble_def applying_def)
  then show ?thesis
    using only_applying_bytes_change_authority [OF sample_server_plain, of sample_bytes sample_outside
        sample_hashing sample_pages sample_world]
    by (simp add: sample_world_def live_authority_def)
qed

text \<open>The connections of a client that posts to the control plane.\<close>

definition sample_posting :: "string \<Rightarrow> string \<Rightarrow> string" where
  "sample_posting path body = exchange_bytes ''localhost'' (client_post_json path body)"

lemma posting_handled:
  assumes "path \<noteq> []" "list_all plain path" "CHR ''?'' \<notin> set path" "length body \<le> 2 ^ 20"
    and "sv_studio sv = None" "starts_with ''/_authboundry/'' path"
    and route: "\<And>http. hq_method http = Post \<Longrightarrow> hq_body http = body \<Longrightarrow>
      \<exists>h. handle_control_route out hs (bi_observed_routes (sv_app sv)) path http = Some h \<and> h (wo_runtime w) = (r, s')"
  shows "handle_connection out hs pages sv (sample_posting path body) w = (write_to r, w\<lparr>wo_runtime := s'\<rparr>)"
proof -
  let ?rq = "client_post_json path body"
  define http where "http = assemble Post path (bcollect (sent_headers ''localhost'' ?rq)) body"
  have rq: "cq_method ?rq = Post" "cq_path ?rq = path" "cq_headers ?rq = [(''content-type'', ''application/json'')]"
    "cq_body ?rq = body" by (simp_all add: client_post_json_def)
  have "header_value_ok ''localhost''" "headers_ok [(''content-type'', ''application/json'')]" by code_simp+
  then have read: "read_from (sample_posting path body) = Inr http"
    unfolding sample_posting_def http_def using read_exchanged [of "''localhost''" ?rq] assms(1,2,4) by (simp add: rq)
  have http: "hq_method http = Post" "hq_path http = path" "hq_body http = body"
    using split_once_None [of "CHR ''?''" path] assms(3) by (simp_all add: http_def assemble_def split_target_def)
  have "ascii_lower ''upgrade'' = ''upgrade''" by code_simp
  then have plain: "\<not> asks_for_websocket http"
    by (simp add: asks_for_websocket_def http_header_def http_def assemble_def map_of_bcollect sent_headers_def rq)
  obtain h where h: "handle_control_route out hs (bi_observed_routes (sv_app sv)) path http = Some h"
    "h (wo_runtime w) = (r, s')" using route [OF http(1,3)] by blast
  have "path \<noteq> ''/authboundry/client.js''" using assms(6) by (auto simp: starts_with_def)
  then show ?thesis
    using read plain http h assms(5,6)
    by (simp add: handle_connection_def server_handle_def handle_routes_def Let_def no_studio on_runtime_def)
qed

lemma proposal_path_sendable:
  assumes "e = ''/approve'' \<or> e = ''/apply''"
  shows "proposal_path (next_proposal_id s) e \<noteq> []" "list_all plain (proposal_path (next_proposal_id s) e)"
    "CHR ''?'' \<notin> set (proposal_path (next_proposal_id s) e)"
    "starts_with ''/_authboundry/'' (proposal_path (next_proposal_id s) e)"
proof -
  have "list_all plain ''/_authboundry/authority-proposal/proposal-''" "list_all plain ''/approve''"
    "list_all plain ''/apply''" by code_simp+
  moreover from this(2,3) have "list_all plain e" using assms by blast
  ultimately have "list_all plain ''/_authboundry/authority-proposal/proposal-''" "list_all plain e" by blast+
  then show "list_all plain (proposal_path (next_proposal_id s) e)"
    using show_nat_plain by (simp add: proposal_path_def next_proposal_id_def)
  have "CHR ''?'' \<notin> set (show_nat n)" for n using show_nat_digits [of "CHR ''?''" n] by auto
  then show "CHR ''?'' \<notin> set (proposal_path (next_proposal_id s) e)"
    using assms by (auto simp: proposal_path_def next_proposal_id_def)
qed (simp_all add: proposal_path_def)

lemma sample_connections:
  obtains w' where "(connection_step sample_outside sample_hashing sample_pages sample_server)\<^sup>*\<^sup>* sample_world w'"
    "get_route_protection Get ''/invoices'' (wo_runtime w') = Some ''invoice.read''"
    "lv_revision (live_authority (wo_runtime w')) = 1"
proof (rule protection_goes_live [OF sample_change_parts(1,3), of sample_hashing])
  fix r1 s1 r2 s2 r3 s3
  let ?i = "next_proposal_id sample_runtime"
  let ?serve = "handle_connection sample_outside sample_hashing sample_pages sample_server"
  assume 1: "propose_route sample_hashing sample_change sample_runtime = (r1, s1)"
    "approve_authority_proposal (proposal_path ?i ''/approve'') s1 = (r2, s2)"
    "apply_authority_proposal sample_hashing (proposal_path ?i ''/apply'') s2 = (r3, s3)"
    and s3: "get_route_protection Get ''/invoices'' s3 = Some ''invoice.read''"
    "lv_revision (live_authority s3) = lv_revision (live_authority sample_runtime) + 1"
  have same: "propose_route sample_hashing http = propose_route sample_hashing sample_change"
    if "hq_body http = sample_body ''protect_route''" for http
    using that by (simp add: propose_route_def parse_authority_change_def body_text_def sample_change_def sample_post_def)
  have small: "length (sample_body ''protect_route'') \<le> 2 ^ 20"
  proof -
    have "length (sample_body ''protect_route'') \<le> 200" by code_simp
    then show ?thesis by simp
  qed
  have "list_all plain ''/_authboundry/propose''" by code_simp
  then have served1: "?serve (sample_posting ''/_authboundry/propose'' (sample_body ''protect_route'')) sample_world
      = (write_to r1, sample_world\<lparr>wo_runtime := s1\<rparr>)"
    using small 1(1) by (intro posting_handled) (simp_all add: routed_propose same sample_world_def)
  have served2: "?serve (sample_posting (proposal_path ?i ''/approve'') []) (sample_world\<lparr>wo_runtime := s1\<rparr>)
      = (write_to r2, sample_world\<lparr>wo_runtime := s1\<rparr>\<lparr>wo_runtime := s2\<rparr>)"
    using 1(2) by (intro posting_handled proposal_path_sendable) (simp_all add: routed_approval)
  have served3: "?serve (sample_posting (proposal_path ?i ''/apply'') []) (sample_world\<lparr>wo_runtime := s2\<rparr>)
      = (write_to r3, sample_world\<lparr>wo_runtime := s2\<rparr>\<lparr>wo_runtime := s3\<rparr>)"
    using 1(3) by (intro posting_handled proposal_path_sendable) (simp_all add: routed_application)
  let ?step = "connection_step sample_outside sample_hashing sample_pages sample_server"
  note step = connection_step.connection [of sample_outside sample_hashing sample_pages sample_server]
  have "?step\<^sup>*\<^sup>* sample_world (sample_world\<lparr>wo_runtime := s1\<rparr>)"
    using step [of sample_world, where bytes = "sample_posting ''/_authboundry/propose'' (sample_body ''protect_route'')"]
    unfolding served1 snd_conv by (rule r_into_rtranclp)
  also have "?step\<^sup>*\<^sup>* \<dots> (sample_world\<lparr>wo_runtime := s1\<rparr>\<lparr>wo_runtime := s2\<rparr>)"
    using step [of "sample_world\<lparr>wo_runtime := s1\<rparr>", where bytes = "sample_posting (proposal_path ?i ''/approve'') []"]
    unfolding served2 snd_conv by (rule r_into_rtranclp)
  also have "sample_world\<lparr>wo_runtime := s1\<rparr>\<lparr>wo_runtime := s2\<rparr> = sample_world\<lparr>wo_runtime := s2\<rparr>" by simp
  also have "?step\<^sup>*\<^sup>* \<dots> (sample_world\<lparr>wo_runtime := s2\<rparr>\<lparr>wo_runtime := s3\<rparr>)"
    using step [of "sample_world\<lparr>wo_runtime := s2\<rparr>", where bytes = "sample_posting (proposal_path ?i ''/apply'') []"]
    unfolding served3 snd_conv by (rule r_into_rtranclp)
  finally have "?step\<^sup>*\<^sup>* sample_world (sample_world\<lparr>wo_runtime := s2\<rparr>\<lparr>wo_runtime := s3\<rparr>)" .
  then show thesis
    by (rule that) (use s3 in \<open>simp_all add: live_authority_def live_authority_new_def\<close>)
qed

text \<open>Three connections protect a route.\<close>

theorem connections_refine_machine_witness:
  "\<exists>w' past. (connection_step sample_outside sample_hashing sample_pages sample_server)\<^sup>*\<^sup>* sample_world w'
     \<and> get_route_protection Get ''/invoices'' (wo_runtime w') = Some ''invoice.read''
     \<and> lv_revision (live_authority (wo_runtime w')) = 1
     \<and> amends\<^sup>*\<^sup>* (live_authority (wo_runtime sample_world), history_states (wo_runtime sample_world))
         (live_authority (wo_runtime w'), past)"
proof -
  obtain w' where w': "(connection_step sample_outside sample_hashing sample_pages sample_server)\<^sup>*\<^sup>* sample_world w'"
    "get_route_protection Get ''/invoices'' (wo_runtime w') = Some ''invoice.read''"
    "lv_revision (live_authority (wo_runtime w')) = 1"
    by (rule sample_connections)
  have "proposals_keyed (wo_runtime sample_world)" "history_sound (wo_runtime sample_world)"
    by (simp_all add: proposals_keyed_def history_sound_def sample_world_def sample_runtime_def proposal_store_new_def)
  from connections_refine_machine [OF no_studio_keeps [OF sample_server_plain] w'(1) this] w' show ?thesis by blast
qed

definition sample_forgetting :: HttpRequest where
  "sample_forgetting = sample_post (''{'' @ json_key ''tenant'' @ quoted ''acme'' @ '', '' @ json_key ''connector'' @ quoted ''local'' @ '', ''
       @ json_key ''username'' @ quoted ''alice'' @ ''}'')
     \<lparr>hq_path := ''/auth/password/forgot''\<rparr>"

definition sample_forgetting_nobody :: HttpRequest where
  "sample_forgetting_nobody = sample_forgetting\<lparr>hq_body := []\<rparr>"

theorem recovery_requests_are_answered_alike_witness:
  "hp_status (fst (server_handle sample_outside sample_hashing sample_pages sample_server sample_forgetting
       sample_world)) = 202
   \<and> fst (server_handle sample_outside sample_hashing sample_pages sample_server sample_forgetting_nobody sample_world)
     = fst (server_handle sample_outside sample_hashing sample_pages sample_server sample_forgetting
         (sample_world\<lparr>wo_runtime := sample_runtime\<lparr>rt_mail := None\<rparr>\<rparr>))"
proof -
  have "experience_enabled (cf_experience (canonical (ct_contract sample_runtime))) ExpPasswordReset" by code_simp
  then have "\<exists>r \<in> set (routes_derive (canonical (ct_contract sample_runtime)) (features_derive (canonical (ct_contract sample_runtime)))).
      route_matches r ''/auth/password/forgot''"
    by (simp add: routes_derive_def Let_def route_new_def with_alias_def route_matches_def bex_Un provided_def)
  then have "route (surface_of (wo_runtime sample_world)) ''/auth/password/forgot'' \<noteq> None"
    by (auto simp: surface_of_def route_def surface_derive_def Let_def find_None_iff sample_world_def)
  then show ?thesis
    using recovery_requests_are_answered_alike [of sample_server "sample_world\<lparr>wo_runtime := sample_runtime\<lparr>rt_mail := None\<rparr>\<rparr>"
        sample_world sample_forgetting_nobody sample_forgetting sample_outside sample_hashing sample_pages sample_outside
        sample_hashing sample_pages]
      recovery_requests_are_answered_alike [of sample_server sample_world sample_world sample_forgetting sample_forgetting
        sample_outside sample_hashing sample_pages sample_outside sample_hashing sample_pages]
    by (simp add: sample_forgetting_def sample_forgetting_nobody_def sample_post_def sample_world_def)
qed

end
