(* ===== verification/Spec2Isabelle.thy ===== *)
theory Spec2Isabelle
  imports Topology DslParser Delegating AuthoritySpec Injection Server
begin

text \<open>
  AuthBoundry, an authority runtime for applications (the Rust crates under \<^verbatim>\<open>src/crates\<close>): a
  contract declares tenants' providers, claims, policies and screens; the mesh authenticates
  principals, keeps sessions, delegations and agent runs, and decides who may do what; the
  boundary stands between HTTP requests and an application and lets a request through only with
  a context it derived; a control plane changes the authority in force by proposals. This
  development translates the crates \<^verbatim>\<open>contract\<close>, \<^verbatim>\<open>authz\<close>, \<^verbatim>\<open>storage\<close>, \<^verbatim>\<open>dsl\<close>,
  \<^verbatim>\<open>providers\<close>, \<^verbatim>\<open>runtime\<close>, \<^verbatim>\<open>boundary\<close>, \<^verbatim>\<open>surface\<close>, \<^verbatim>\<open>server\<close> without its pages and the
  deciding part of \<^verbatim>\<open>discovery\<close>, and proves what makes each part correct and what their
  composition guarantees. Where the code does not do what it says, a theorem shows it.

  \<^bold>\<open>The theories, in the order they build on each other\<close>

  \<^item> \<open>Prelude\<close>: ordered maps, strings as bytes, integers, the state-and-error monad with its
    rules (the collections \<open>eff_elims\<close> and \<open>eff_preserves\<close> drive the proofs). \<open>Utf8\<close>: characters
    of byte strings.
  \<^item> \<open>Contract\<close> (\<^verbatim>\<open>contract/src\<close>): identities, tenants, principals, delegations, scopes, runs.
    \<open>Policy\<close> and \<open>Evaluator\<close> (\<^verbatim>\<open>authz/src\<close>): rules, requests, decisions; the evaluation of
    conditions and the two decision procedures.
  \<^item> \<open>AuditLog\<close>, \<open>Stores\<close>, \<open>Topology\<close> (\<^verbatim>\<open>storage/src\<close>): the trail, the in-memory stores, the
    declared topology of stores.
  \<^item> \<open>Config\<close> and \<open>DslParser\<close> (\<^verbatim>\<open>dsl/src/model.rs\<close>, \<^verbatim>\<open>parser.rs\<close>): the declarative contract with
    its validation, canonical form and fingerprint, and the language it is written in.
  \<^item> \<open>Connectors\<close> (\<^verbatim>\<open>providers/src\<close>): the connectors, their catalogue and registry.
  \<^item> \<open>Resolution\<close>, \<open>Injection\<close> (\<^verbatim>\<open>runtime/src/claims.rs\<close>, \<^verbatim>\<open>resolution.rs\<close>,
    \<^verbatim>\<open>injection.rs\<close>): claims, principals, and contexts from attested headers.
  \<^item> \<open>Mesh\<close>, \<open>Authority\<close>, \<open>Authorize\<close> (\<^verbatim>\<open>runtime/src/mesh.rs\<close>): the state of the mesh and all of
    its operations. \<open>MeshSteps\<close> makes it a state machine, \<open>MeshInvariants\<close> proves invariants of
    every run of it, \<open>MeshSessions\<close> and \<open>Delegating\<close> the facts of sessions and of delegation.
  \<^item> \<open>Request\<close>, \<open>Ceremony\<close>, \<open>Control\<close>, \<open>Boundary\<close>, \<open>Accounts\<close> (\<^verbatim>\<open>boundary/src\<close>): requests and
    credentials, one-time challenges, live authority with its proposals, enforcement, account
    flows. \<open>Enforcing\<close> and \<open>Recovery\<close> hold their facts; \<open>AuthoritySpec\<close> is the abstract machine the
    control of live authority refines.
  \<^item> \<open>Surface\<close> (\<^verbatim>\<open>surface/src/surface.rs\<close>): the routes, features and screens a contract exposes.
  \<^item> \<open>Http\<close>, \<open>Router\<close>, \<open>Proxy\<close>, \<open>Views\<close> (\<^verbatim>\<open>server/src\<close>): messages, route policies and embedded
    applications, the proxy in front of a separate application with its client, and the JSON of
    the control plane.
  \<^item> \<open>Discovery\<close> (\<^verbatim>\<open>discovery/src/lib.rs\<close>): from routes to proposals, reconciliation with the
    authority in force, and the renderings.
  \<^item> \<open>ControlRoutes\<close> (\<^verbatim>\<open>server/src/control_routes.rs\<close>): reading requests to the control plane, its
    handlers and their dispatch. \<open>ControlPlane\<close> says what they can do. \<open>Server\<close>
    (\<^verbatim>\<open>server/src/server.rs\<close>): the dispatch between the control plane, the routes of the surface and
    the application, and a connection from the bytes it delivers to the bytes it is answered.

  \<^bold>\<open>State and operations\<close>

  A struct is a record with one field per field of the struct, an enum a datatype. The mesh and
  the runtime hold their stores as fields of one record; a method that changes state is a
  function of the monad \<open>eff\<close>, from a state to an error or a value together with the state it
  leaves, also when it fails. \<^verbatim>\<open>BTreeMap\<close> and \<^verbatim>\<open>HashMap\<close> are association lists sorted by key,
  so that equal maps are equal lists. Strings are lists of bytes, \<^verbatim>\<open>i64\<close> values integers with
  the wrap-around written out where the code adds, \<^verbatim>\<open>u64\<close> revisions 64-bit words. Operations
  run one after another, in any order, and so do requests and connections. The code runs a thread
  for every connection over stores that have locks of their own; what two requests can do to each
  other between the operations they are made of is not modelled.

  \<^bold>\<open>What is a parameter\<close>

  Argon2, SHA-256, the random bytes, the clocks, the hasher and the derived debug text of the
  standard library, the mail transport, the text of the HTML pages, the controller of the studio,
  the audit log behind the mesh (with a law stated in the locale \<open>audit_log\<close>), the network of the
  proxy, and the application. Clock readings and random bytes are streams in the state; a
  decision takes one reading for all its conditions that are bound to a time, where
  \<^verbatim>\<open>evaluate_condition\<close> reads the clock at each of them. The in-memory implementations the
  repository brings for the audit log and the mail port are modelled and used in the witnesses.

  \<^bold>\<open>What the lemmas show\<close>

  Decisions: the decision procedures equal declarative specifications, stay in the tenant, and
  every decision is in the trail before it is returned. State: invariants over all operations in
  any order (runs within delegations, cancelled and revoked authority stays dead, the trail only
  grows, settled proposals stay, a valid password policy). Flows: sign up, sign in, logout,
  recovery and the life of a proposal from proposal to application succeed when they should and
  only then. Languages and messages: the parser terminates with fuel of one more than the number
  of characters, printed entries parse back, requests and responses survive the wire, and what a
  client sends cannot pose as the boundary. Derived artefacts: every path of a
  surface leads to one route; a proposal covers every route found and asks to protect only what
  nothing settles; a reconciliation accounts for every route. The server: the application runs
  only on requests that were enforced, with the live protection of the route (an upgrade to a
  WebSocket with the route's own requirement); whatever bytes arrive, connection by connection,
  the authority in force follows the abstract machine, and only requests to apply a proposal move
  it; a posted protection goes live and a posted revert restores; recovery answers everyone alike.
  Interfaces that several components rely on are locales (the audit log, tenant-scoped
  lookups and updates, simulations, step invariants, applications, effects of control requests),
  interpreted on the model's own definitions. A statement about the server names what it assumes
  of a studio controller, which is given the runtime itself.

  \<^bold>\<open>Where the code falls short\<close>

  The theorems named in the manifest's findings show, among others: a service's delegation may
  widen what it holds, a sub-delegation outlives its parent, evaluation of a bare capability
  ignores deny rules, ids built by joining with separators collide, live capability policies do
  not reach resource requests and leave no trace, a revert drops later changes, refused mail
  reveals accounts at the boundary (the server hides it), a form body is sent on as JSON under its
  old content type, the control plane asks nobody for a session, a WebSocket upgrade skips the live
  protection of its route, and no request can unprotect a route.

  \<^bold>\<open>Not modelled\<close>

  Sockets, threads, time-outs and lock poisoning; TLS; the copying of bytes of an upgraded connection; HTML
  pages (\<^verbatim>\<open>server/src/ui.rs\<close>) and mail delivery (\<^verbatim>\<open>mailport.rs\<close>); the heuristic reading of
  application sources in \<^verbatim>\<open>discovery\<close>; the text of \<^verbatim>\<open>surface/src/inspect.rs\<close>; the command
  line (\<^verbatim>\<open>cli\<close>), which is files, terminals and processes; the FeltDB adapter, which binds an
  external database.
\<close>

end
